(* ===== verification/Cellar_Prelude.thy ===== *)
theory Cellar_Prelude
  imports Main "HOL-Library.AList" "HOL-Library.Word"
begin

text \<open>
  What every component of the development shares: Go's maps as association lists with
  distinct keys, byte strings and the operations of package \<open>strings\<close> the code calls,
  \<open>time.Time\<close> and \<open>time.Duration\<close> as nanoseconds with Go's saturation and wrap-around
  written out, and the generic lemmas and named collections the component proofs use.
\<close>

named_theorems gomap \<open>lookup and well-formedness facts on Go maps\<close>
named_theorems gotime \<open>arithmetic of Go times and durations\<close>

section \<open>Go maps\<close>

text \<open>
  A Go map is an association list with distinct keys. Its order stands for the order in
  which the runtime happens to iterate, which Go leaves open: every theorem holds for every
  order, since it holds for every such list.
\<close>

type_synonym ('k, 'v) gomap = "('k \<times> 'v) list"

abbreviation gm_get :: "('k, 'v) gomap \<Rightarrow> 'k \<Rightarrow> 'v option" where
  "gm_get \<equiv> map_of"

abbreviation gm_put :: "'k \<Rightarrow> 'v \<Rightarrow> ('k, 'v) gomap \<Rightarrow> ('k, 'v) gomap" where
  "gm_put \<equiv> AList.update"

abbreviation gm_del :: "'k \<Rightarrow> ('k, 'v) gomap \<Rightarrow> ('k, 'v) gomap" where
  "gm_del \<equiv> AList.delete"

definition gm_wf :: "('k, 'v) gomap \<Rightarrow> bool" where
  "gm_wf m \<longleftrightarrow> distinct (map fst m)"

definition gm_has :: "('k, 'v) gomap \<Rightarrow> 'k \<Rightarrow> bool" where
  "gm_has m k \<longleftrightarrow> map_of m k \<noteq> None"

lemma gm_wf_empty [gomap, simp]: "gm_wf []"
  by (simp add: gm_wf_def)

lemma gm_wf_put [gomap, simp]: "gm_wf m \<Longrightarrow> gm_wf (gm_put k v m)"
  by (simp add: gm_wf_def distinct_update)

lemma gm_wf_del [gomap, simp]: "gm_wf m \<Longrightarrow> gm_wf (gm_del k m)"
  by (simp add: gm_wf_def distinct_delete)

lemma gm_get_put [gomap, simp]: "gm_get (gm_put k v m) j = (if j = k then Some v else gm_get m j)"
  by (simp add: update_conv')

lemma gm_get_del [gomap, simp]: "gm_get (gm_del k m) j = (if j = k then None else gm_get m j)"
  by (simp add: delete_conv')

lemma gm_get_mem [gomap]: "gm_wf m \<Longrightarrow> (gm_get m k = Some v) = ((k, v) \<in> set m)"
  by (simp add: gm_wf_def)

lemma gm_get_Some_mem [gomap]: "gm_get m k = Some v \<Longrightarrow> (k, v) \<in> set m"
  by (rule map_of_SomeD)

lemma gm_values_mem: "gm_wf m \<Longrightarrow> v \<in> set (map snd m) \<longleftrightarrow> (\<exists>k. gm_get m k = Some v)"
  by (force simp: gomap)

lemma gm_wf_map [gomap, simp]: "gm_wf (map (\<lambda>(k, v). (k, f k v)) m) = gm_wf m"
  by (simp add: gm_wf_def case_prod_beta comp_def)

lemma gm_get_map [gomap]:
  "gm_get (map (\<lambda>(k, v). (k, f k v)) m) j = map_option (f j) (gm_get m j)"
  by (induction m) auto

section \<open>Byte strings\<close>

text \<open>
  A Go string is a sequence of bytes, a HOL \<^typ>\<open>string\<close> a list of 8-bit characters, so
  lengths agree with Go's \<open>len\<close>.
\<close>

definition has_prefix :: "string \<Rightarrow> string \<Rightarrow> bool" where
  "has_prefix p s \<longleftrightarrow> take (length p) s = p"

definition trim_prefix :: "string \<Rightarrow> string \<Rightarrow> string" where
  "trim_prefix p s = (if has_prefix p s then drop (length p) s else s)"

lemma has_prefix_append [simp]: "has_prefix p (p @ s)"
  by (simp add: has_prefix_def)

lemma trim_prefix_append [simp]: "trim_prefix p (p @ s) = s"
  by (simp add: trim_prefix_def)

lemma has_prefix_iff: "has_prefix p s \<longleftrightarrow> (\<exists>r. s = p @ r)"
  by (metis append_take_drop_id has_prefix_append has_prefix_def)

text \<open>\<open>strings.Split\<close> with a separator of one byte.\<close>

fun split_on :: "char \<Rightarrow> string \<Rightarrow> string list" where
  "split_on c [] = [[]]"
| "split_on c (x # xs) =
     (if x = c then [] # split_on c xs
      else (case split_on c xs of [] \<Rightarrow> [[x]] | y # ys \<Rightarrow> (x # y) # ys))"

lemma split_on_not_Nil [simp]: "split_on c s \<noteq> []"
  by (induction s) (auto split: list.splits)

lemma split_on_free [simp]: "c \<notin> set s \<Longrightarrow> split_on c s = [s]"
  by (induction s) auto

lemma split_on_append: "c \<notin> set p \<Longrightarrow> split_on c (p @ c # s) = p # split_on c s"
  by (induction p) auto

lemma split_on_parts: "p \<in> set (split_on c s) \<Longrightarrow> c \<notin> set p"
  by (induction s arbitrary: p) (auto split: list.splits if_splits)

fun join_on :: "char \<Rightarrow> string list \<Rightarrow> string" where
  "join_on c [] = []"
| "join_on c [p] = p"
| "join_on c (p # q # ps) = p @ c # join_on c (q # ps)"

lemma join_split [simp]: "join_on c (split_on c s) = s"
proof (induction s)
  case Nil
  then show ?case by simp
next
  case (Cons x xs)
  then show ?case
    by (cases "split_on c xs"; cases "tl (split_on c xs)") (auto split: list.splits)
qed

text \<open>
  \<open>strings.TrimSpace\<close> removes the Unicode white space at both ends; the UTF-8 encodings of
  the code points \<open>unicode.IsSpace\<close> accepts are listed here.
\<close>

definition bytes_of :: "nat list \<Rightarrow> string" where
  "bytes_of = map char_of"

definition space_encodings :: "string list" where
  "space_encodings = map bytes_of
     ([[9], [10], [11], [12], [13], [32], [194, 133], [194, 160], [225, 154, 128]] @
      map (\<lambda>i. [226, 128, 128 + i]) [0..<11] @
      [[226, 128, 168], [226, 128, 169], [226, 128, 175], [226, 129, 159], [227, 128, 128]])"

fun drop_first_prefix :: "string list \<Rightarrow> string \<Rightarrow> string" where
  "drop_first_prefix [] s = s"
| "drop_first_prefix (p # ps) s =
     (if p \<noteq> [] \<and> has_prefix p s then drop (length p) s else drop_first_prefix ps s)"

lemma drop_first_prefix_length: "length (drop_first_prefix ps s) \<le> length s"
  by (induction ps) auto

function trim_left_of :: "string list \<Rightarrow> string \<Rightarrow> string" where
  "trim_left_of ps s =
     (let s' = drop_first_prefix ps s in
      if length s' < length s then trim_left_of ps s' else s)"
  by pat_completeness auto
termination
  by (relation "measure (\<lambda>(ps, s). length s)") auto

declare trim_left_of.simps [simp del]

definition trim_space :: "string \<Rightarrow> string" where
  "trim_space s = rev (trim_left_of (map rev space_encodings) (rev (trim_left_of space_encodings s)))"

lemma trim_left_of_length: "length (trim_left_of ps s) \<le> length s"
proof (induction ps s rule: trim_left_of.induct)
  case (1 ps s)
  then show ?case
    by (subst trim_left_of.simps) (fastforce simp: Let_def)
qed

lemma trim_space_length: "length (trim_space s) \<le> length s"
proof -
  have "length (trim_space s) \<le> length (trim_left_of space_encodings s)"
    using trim_left_of_length [of "map rev space_encodings" "rev (trim_left_of space_encodings s)"]
    by (simp add: trim_space_def)
  also have "\<dots> \<le> length s"
    by (rule trim_left_of_length)
  finally show ?thesis .
qed

lemma trim_space_Nil [simp]: "trim_space [] = []"
  using trim_space_length [of "[]"] by simp

lemma trim_left_of_subset: "set (trim_left_of ps s) \<subseteq> set s"
proof (induction ps s rule: trim_left_of.induct)
  case (1 ps s)
  have "set (drop_first_prefix ps s) \<subseteq> set s"
    by (induction ps) (auto dest: in_set_dropD)
  with 1 show ?case
    by (subst trim_left_of.simps) (auto simp: Let_def)
qed

lemma trim_space_subset: "set (trim_space s) \<subseteq> set s"
  using trim_left_of_subset [of "map rev space_encodings"] trim_left_of_subset [of space_encodings s]
  by (fastforce simp: trim_space_def)

text \<open>
  A string whose first and last byte are printable ASCII is its own trimming: every
  encoding of white space starts and ends with a byte outside that range.
\<close>

definition plain_char :: "char \<Rightarrow> bool" where
  "plain_char c \<longleftrightarrow> (33 :: nat) \<le> of_char c \<and> (of_char c :: nat) < 128"

lemma drop_first_prefix_hd:
  "s \<noteq> [] \<Longrightarrow> \<forall>p \<in> set ps. p \<noteq> [] \<longrightarrow> hd p \<noteq> hd s \<Longrightarrow> drop_first_prefix ps s = s"
proof (induction ps)
  case Nil
  then show ?case by simp
next
  case (Cons p ps)
  have "\<not> (p \<noteq> [] \<and> has_prefix p s)"
    using Cons.prems by (cases p; cases s) (auto simp: has_prefix_def)
  with Cons show ?case by auto
qed

lemma trim_left_of_hd:
  "s \<noteq> [] \<Longrightarrow> \<forall>p \<in> set ps. p \<noteq> [] \<longrightarrow> hd p \<noteq> hd s \<Longrightarrow> trim_left_of ps s = s"
  by (subst trim_left_of.simps) (simp add: drop_first_prefix_hd)

lemma space_encodings_not_plain:
  "list_all (\<lambda>p. \<not> plain_char (hd p) \<and> \<not> plain_char (hd (rev p))) space_encodings"
  by code_simp

lemma trim_space_plain:
  assumes "s \<noteq> []" and "plain_char (hd s)" and "plain_char (last s)"
  shows "trim_space s = s"
proof -
  have np: "\<forall>p \<in> set space_encodings. \<not> plain_char (hd p) \<and> \<not> plain_char (hd (rev p))"
    using space_encodings_not_plain by (simp add: list_all_iff)
  have left: "trim_left_of space_encodings s = s"
    by (rule trim_left_of_hd) (use assms np in auto)
  have right: "trim_left_of (map rev space_encodings) (rev s) = rev s"
    by (rule trim_left_of_hd) (use assms np in \<open>auto simp: hd_rev\<close>)
  show ?thesis
    by (simp add: trim_space_def left right)
qed

text \<open>Decimal digits, as \<open>fmt\<close>'s \<open>%d\<close> prints a non-negative number.\<close>

fun show_nat :: "nat \<Rightarrow> string" where
  "show_nat n = (if n < 10 then [char_of (48 + n)] else show_nat (n div 10) @ [char_of (48 + n mod 10)])"

declare show_nat.simps [simp del]

section \<open>Machine integers, times and durations\<close>

text \<open>
  \<open>int64\<close> values are \<^typ>\<open>int\<close>s whose wrap-around is written out. A \<open>time.Time\<close> is the number
  of nanoseconds since Go's zero time (1 January of year 1), a \<open>time.Duration\<close> a number of
  nanoseconds; \<open>Time.Sub\<close> saturates at the bounds of \<open>int64\<close>.
\<close>

definition wrap64 :: "int \<Rightarrow> int" where
  "wrap64 x = (x + 2 ^ 63) mod 2 ^ 64 - 2 ^ 63"

definition max_int64 :: int where
  "max_int64 = 2 ^ 63 - 1"

definition min_int64 :: int where
  "min_int64 = - (2 ^ 63)"

definition is_int64 :: "int \<Rightarrow> bool" where
  "is_int64 x \<longleftrightarrow> min_int64 \<le> x \<and> x \<le> max_int64"

lemma wrap64_id [gotime]: "is_int64 x \<Longrightarrow> wrap64 x = x"
  by (simp add: is_int64_def wrap64_def min_int64_def max_int64_def)

lemma wrap64_range [gotime]: "is_int64 (wrap64 x)"
proof -
  have "0 \<le> (x + 2 ^ 63) mod 2 ^ 64" "(x + 2 ^ 63) mod 2 ^ 64 < 2 ^ 64"
    by simp_all
  then show ?thesis
    by (simp add: is_int64_def wrap64_def min_int64_def max_int64_def)
qed

type_synonym gotime = int
type_synonym duration = int

definition nanosecond :: duration where "nanosecond = 1"
definition second :: duration where "second = 1000000000"
definition minute :: duration where "minute = 60 * second"
definition hour :: duration where "hour = 60 * minute"

definition zero_time :: gotime where "zero_time = 0"

definition is_zero_time :: "gotime \<Rightarrow> bool" where
  "is_zero_time t \<longleftrightarrow> t = zero_time"

definition time_sub :: "gotime \<Rightarrow> gotime \<Rightarrow> duration" where
  "time_sub t u = max min_int64 (min max_int64 (t - u))"

lemma time_sub_le [gotime]: "0 \<le> d \<Longrightarrow> d < max_int64 \<Longrightarrow> time_sub t u \<le> d \<longleftrightarrow> t \<le> u + d"
  by (auto simp: time_sub_def min_int64_def max_int64_def)

lemma time_sub_gr [gotime]: "0 \<le> d \<Longrightarrow> d < max_int64 \<Longrightarrow> d < time_sub t u \<longleftrightarrow> u + d < t"
  by (auto simp: time_sub_def min_int64_def max_int64_def)

text \<open>\<open>time.Unix(0, n)\<close> and \<open>Time.UnixNano\<close>, which is undefined (it wraps) outside \<open>int64\<close>.\<close>

definition unix_epoch :: gotime where
  "unix_epoch = 62135596800 * second"

definition from_unix_nano :: "int \<Rightarrow> gotime" where
  "from_unix_nano n = unix_epoch + n"

definition unix_nano :: "gotime \<Rightarrow> int" where
  "unix_nano t = wrap64 (t - unix_epoch)"

lemma unix_nano_from [gotime, simp]: "is_int64 n \<Longrightarrow> unix_nano (from_unix_nano n) = n"
  by (simp add: unix_nano_def from_unix_nano_def wrap64_id)

lemma from_unix_nano_unix [gotime]:
  "is_int64 (t - unix_epoch) \<Longrightarrow> from_unix_nano (unix_nano t) = t"
  by (simp add: unix_nano_def from_unix_nano_def wrap64_id)

lemmas time_unit_defs = second_def minute_def hour_def

section \<open>Generic list facts\<close>

text \<open>The first error of a list of checks, as a Go loop that returns the first failure.\<close>

fun first_error :: "(nat \<Rightarrow> 'a \<Rightarrow> 'e option) \<Rightarrow> nat \<Rightarrow> 'a list \<Rightarrow> 'e option" where
  "first_error chk i [] = None"
| "first_error chk i (x # xs) =
     (case chk i x of Some e \<Rightarrow> Some e | None \<Rightarrow> first_error chk (Suc i) xs)"

lemma first_error_None:
  "first_error chk i xs = None \<longleftrightarrow> (\<forall>j < length xs. chk (i + j) (xs ! j) = None)"
proof (induction xs arbitrary: i)
  case Nil
  then show ?case by simp
next
  case (Cons x xs)
  then show ?case
    by (force simp: less_Suc_eq_0_disj split: option.splits)
qed

lemma first_error_None_set:
  assumes "\<And>i x. chk i x = None \<longleftrightarrow> P x"
  shows "first_error chk i xs = None \<longleftrightarrow> (\<forall>x \<in> set xs. P x)"
proof (induction xs arbitrary: i)
  case Nil
  then show ?case by simp
next
  case (Cons x xs)
  then show ?case
    using assms [of i x] by (cases "chk i x") auto
qed

lemma first_error_Some:
  "first_error chk i xs = Some e \<Longrightarrow> \<exists>j < length xs. chk (i + j) (xs ! j) = Some e \<and>
     (\<forall>k < j. chk (i + k) (xs ! k) = None)"
proof (induction xs arbitrary: i)
  case Nil
  then show ?case by simp
next
  case (Cons x xs)
  show ?case
  proof (cases "chk i x")
    case None
    with Cons.prems have "first_error chk (Suc i) xs = Some e" by simp
    from Cons.IH [OF this] obtain j where "j < length xs" "chk (Suc i + j) (xs ! j) = Some e"
      "\<forall>k < j. chk (Suc i + k) (xs ! k) = None" by blast
    with None show ?thesis
      by (intro exI [of _ "Suc j"]) (auto simp: less_Suc_eq_0_disj)
  next
    case (Some e')
    with Cons.prems show ?thesis by auto
  qed
qed

text \<open>Maps and filters on Go maps keep the keys distinct.\<close>

lemma distinct_map_fst_filter: "distinct (map fst m) \<Longrightarrow> distinct (map fst (filter P m))"
  by (induction m) auto

lemma gm_wf_filter [gomap, simp]: "gm_wf m \<Longrightarrow> gm_wf (filter P m)"
  by (simp add: gm_wf_def distinct_map_fst_filter)

end
