(* ===== verification/Cellar_Errors.thy ===== *)
theory Cellar_Errors
  imports Cellar_Prelude
begin

text \<open>
  Go error values. The sentinel errors of \<open>internal/store/store.go\<close> and
  \<open>internal/sandbox/sandbox.go\<close>, formatted errors (\<open>fmt.Errorf\<close>) as the list of their
  parts, errors that wrap another (\<open>%w\<close>), and gRPC status errors. A result is a sum with
  the error on the left; an operation that returns only an \<open>error\<close> returns an option.
\<close>

section \<open>gRPC status codes\<close>

datatype grpc_code =
    OK | Canceled | Unknown | InvalidArgument | DeadlineExceeded | NotFound | AlreadyExists
  | PermissionDenied | ResourceExhausted | FailedPrecondition | Aborted | OutOfRange
  | Unimplemented | Internal | Unavailable | DataLoss | Unauthenticated

section \<open>Errors\<close>

text \<open>The parts of a formatted message: literal text, \<open>%d\<close>, \<open>%s\<close> and \<open>%q\<close> arguments.\<close>

datatype msg_part = Lit string | Num int | Str string | Quoted string

datatype go_error =
    ErrNotInitialized
  | ErrAlreadyInitialized
  | ErrNodeNotFound
  | ErrSandboxNotFound
  | ErrVolumeNotFound
  | ErrNameExists
  | ErrAPIKeyNotFound
  | ErrNotLeader
  | SandboxErrNameExists
  | ErrStaleAssignment
  | Errorf "msg_part list"
  | Wrapped "msg_part list" go_error
  | StatusError grpc_code go_error
  | LibraryError string

type_synonym 'a result = "go_error + 'a"

abbreviation errorf :: "string \<Rightarrow> go_error" where
  "errorf s \<equiv> Errorf [Lit s]"

abbreviation status_error :: "grpc_code \<Rightarrow> string \<Rightarrow> go_error" where
  "status_error c s \<equiv> StatusError c (errorf s)"

text \<open>\<open>errors.Is\<close>: equality along the chain of wrapped errors; a status error wraps nothing.\<close>

fun error_is :: "go_error \<Rightarrow> go_error \<Rightarrow> bool" where
  "error_is (Wrapped m e) target = (Wrapped m e = target \<or> error_is e target)"
| "error_is e target = (e = target)"

text \<open>\<open>status.FromError\<close>: the code of a status error, \<open>Unknown\<close> where it is none.\<close>

fun status_code :: "go_error \<Rightarrow> grpc_code option" where
  "status_code (StatusError c _) = Some c"
| "status_code (Wrapped _ e) = status_code e"
| "status_code _ = None"

section \<open>Results\<close>

definition is_ok :: "'a result \<Rightarrow> bool" where
  "is_ok r \<longleftrightarrow> (\<exists>v. r = Inr v)"

lemma is_ok_simps [simp]: "is_ok (Inr v)" "\<not> is_ok (Inl e)"
  by (simp_all add: is_ok_def)

text \<open>Chaining checks as Go does: the first error returns.\<close>

definition or_else :: "go_error option \<Rightarrow> go_error option \<Rightarrow> go_error option" where
  "or_else a b = (case a of Some e \<Rightarrow> Some e | None \<Rightarrow> b)"

lemma or_else_None [simp]: "or_else a b = None \<longleftrightarrow> a = None \<and> b = None"
  by (simp add: or_else_def split: option.splits)

lemma or_else_simps [simp]: "or_else (Some e) b = Some e" "or_else None b = b"
  by (simp_all add: or_else_def)

end
