(* ===== verification/Hex_Codec.thy ===== *)
theory Hex_Codec
  imports Cellar_Prelude
begin

text \<open>
  Package \<open>encoding/hex\<close> of Go's standard library, as the identifiers, secrets and API keys
  use it: \<open>hex.EncodeToString\<close> (lower case, two digits a byte) and \<open>hex.DecodeString\<close>
  (either case, an error on odd length or on any other byte).
\<close>

definition hex_digit :: "nat \<Rightarrow> char" where
  "hex_digit n = char_of (if n < 10 then 48 + n else 87 + n)"

definition hex_value :: "char \<Rightarrow> nat option" where
  "hex_value c = (let n = of_char c in
     if 48 \<le> n \<and> n \<le> 57 then Some (n - 48)
     else if 97 \<le> n \<and> n \<le> 102 then Some (n - 87)
     else if 65 \<le> n \<and> n \<le> 70 then Some (n - 55)
     else None)"

fun hex_encode :: "string \<Rightarrow> string" where
  "hex_encode [] = []"
| "hex_encode (c # cs) =
     hex_digit (of_char c div 16) # hex_digit (of_char c mod 16) # hex_encode cs"

fun hex_decode :: "string \<Rightarrow> string option" where
  "hex_decode [] = Some []"
| "hex_decode [_] = None"
| "hex_decode (a # b # s) =
     (case (hex_value a, hex_value b, hex_decode s) of
        (Some x, Some y, Some r) \<Rightarrow> Some (char_of (16 * x + y) # r)
      | _ \<Rightarrow> None)"

lemma of_char_less: "(of_char c :: nat) < 256"
  by (metis of_char_of of_char_mod_256 mod_less_divisor zero_less_numeral char_of_nat)

lemma of_char_div_16 [simp]: "of_char c div 16 < (16 :: nat)"
  by (rule less_mult_imp_div_less) (use of_char_less [of c] in simp)

lemma hex_value_digit [simp]: "n < 16 \<Longrightarrow> hex_value (hex_digit n) = Some n"
  by (auto simp: hex_value_def hex_digit_def Let_def)

lemma hex_encode_length [simp]: "length (hex_encode s) = 2 * length s"
  by (induction s) auto

theorem hex_decode_encode: "hex_decode (hex_encode s) = Some s"
proof (induction s)
  case Nil
  then show ?case by simp
next
  case (Cons c s)
  then show ?case by simp
qed

lemma hex_encode_inj: "hex_encode s = hex_encode t \<Longrightarrow> s = t"
  by (metis hex_decode_encode option.inject)

lemma hex_encode_chars: "c \<in> set (hex_encode s) \<Longrightarrow> hex_value c \<noteq> None"
proof (induction s)
  case Nil
  then show ?case by simp
next
  case (Cons d s)
  then show ?case by auto
qed

lemma hex_encode_no_dash [simp]: "CHR ''-'' \<notin> set (hex_encode s)"
  using hex_encode_chars [of "CHR ''-''" s] by (auto simp: hex_value_def)

end
