(* ===== verification/Api_Key.thy ===== *)
theory Api_Key
  imports Cellar_Errors Hex_Codec
begin

text \<open>
  \<open>internal/apikey/apikey.go\<close>: the API keys of the public gateway. Only the hash of a key
  and a display mask are kept. SHA-256 is a parameter \<open>sha256\<close> of the definitions that hash,
  from the raw key to its hexadecimal digest.
\<close>

section \<open>Keys\<close>

definition key_Prefix :: string where "key_Prefix = ''cellar_''"
definition keyBytes :: nat where "keyBytes = 20"
definition maskHead :: nat where "maskHead = 2"
definition maskTail :: nat where "maskTail = 4"

record api_key =
  kID :: string
  kName :: string
  kKeyHash :: string
  kMask :: string
  kCreatedAt :: gotime
  kLastUsed :: gotime
  kDisabled :: bool

text \<open>\<open>Clone\<close> copies the struct, which holds no reference.\<close>

definition CloneKey :: "api_key option \<Rightarrow> api_key option" where
  "CloneKey k = (case k of None \<Rightarrow> None | Some k \<Rightarrow>
     Some \<lparr>kID = kID k, kName = kName k, kKeyHash = kKeyHash k, kMask = kMask k,
           kCreatedAt = kCreatedAt k, kLastUsed = kLastUsed k, kDisabled = kDisabled k\<rparr>)"

lemma CloneKey_id [simp]: "CloneKey k = k"
  by (simp add: CloneKey_def split: option.splits)

record generated =
  gKey :: api_key
  gRaw :: string

text \<open>The ellipsis of a mask is one code point, three bytes of UTF-8.\<close>

definition ellipsis :: string where
  "ellipsis = bytes_of [226, 128, 166]"

definition Mask :: "string \<Rightarrow> string" where
  "Mask raw =
     (if \<not> has_prefix key_Prefix raw then key_Prefix @ ''****''
      else let body = trim_prefix key_Prefix raw in
        if length body < maskHead + maskTail then key_Prefix @ ''****''
        else key_Prefix @ take maskHead body @ ellipsis @ drop (length body - maskTail) body)"

definition apikey_newID :: "string result \<Rightarrow> string result" where
  "apikey_newID rand = (case rand of Inl e \<Rightarrow> Inl e | Inr b \<Rightarrow> Inr (hex_encode b))"

text \<open>
  \<open>Generate\<close>, over the two outcomes of \<open>rand.Read\<close> (the secret's 20 bytes, the identifier's
  16), the hash function and the clock.
\<close>

definition Generate :: "(string \<Rightarrow> string) \<Rightarrow> string result \<Rightarrow> string result \<Rightarrow> gotime \<Rightarrow> string \<Rightarrow> generated result" where
  "Generate sha256 rand1 rand2 now name =
     (if trim_space name = [] then Inl (errorf ''name is required'')
      else case rand1 of
        Inl e \<Rightarrow> Inl e
      | Inr secret \<Rightarrow>
          let raw = key_Prefix @ hex_encode secret in
          (case apikey_newID rand2 of
             Inl e \<Rightarrow> Inl e
           | Inr kid \<Rightarrow> Inr \<lparr>gKey = \<lparr>kID = kid, kName = name, kKeyHash = sha256 raw, kMask = Mask raw,
                 kCreatedAt = now, kLastUsed = zero_time, kDisabled = False\<rparr>, gRaw = raw\<rparr>))"

definition ParseRaw :: "string \<Rightarrow> string result" where
  "ParseRaw raw0 =
     (let raw = trim_space raw0 in
      if \<not> has_prefix key_Prefix raw then Inl (errorf ''invalid API key prefix'')
      else let body = trim_prefix key_Prefix raw in
        if length body \<noteq> keyBytes * 2 then Inl (errorf ''invalid API key length'')
        else if hex_decode body = None then Inl (errorf ''invalid API key encoding'')
        else Inr raw)"

section \<open>Constant-time comparison\<close>

text \<open>
  \<open>subtle.ConstantTimeCompare\<close>: 0 on different lengths; else the bytewise differences are
  accumulated with OR, whatever their position, and compared with zero once at the end.
\<close>

type_synonym byte = "8 word"

definition byte_of :: "char \<Rightarrow> byte" where
  "byte_of c = of_nat (of_char c)"

definition ConstantTimeCompare :: "string \<Rightarrow> string \<Rightarrow> nat" where
  "ConstantTimeCompare a b =
     (if length a \<noteq> length b then 0
      else if foldl (\<lambda>v (x, y). or v (xor (byte_of x) (byte_of y))) 0 (zip a b) = 0 then 1 else 0)"

definition EqualHash :: "string \<Rightarrow> string \<Rightarrow> bool" where
  "EqualHash a b \<longleftrightarrow> ConstantTimeCompare a b = 1"

lemma byte_of_inj [simp]: "byte_of x = byte_of y \<longleftrightarrow> x = y"
proof -
  have "unat (byte_of c) = of_char c" for c
    using of_char_less [of c] by (simp add: byte_of_def unat_of_nat)
  then show ?thesis
    by (metis char_of_char)
qed

lemma or_eq_0_iff: "or v w = 0 \<longleftrightarrow> v = 0 \<and> w = 0" for v w :: byte
  by (auto simp: bit_eq_iff bit_simps)

lemma xor_eq_0_iff: "xor v w = 0 \<longleftrightarrow> v = w" for v w :: byte
  by (auto simp: bit_eq_iff bit_simps)

lemma fold_difference_0:
  "length a = length b \<Longrightarrow>
     foldl (\<lambda>v (x, y). or v (xor (byte_of x) (byte_of y))) v (zip a b) = 0 \<longleftrightarrow> v = 0 \<and> a = b"
proof (induction a b arbitrary: v rule: list_induct2)
  case Nil
  then show ?case by simp
next
  case (Cons x a y b)
  then show ?case
    by (auto simp: or_eq_0_iff xor_eq_0_iff)
qed

lemma EqualHash_iff: "EqualHash a b \<longleftrightarrow> a = b"
  using fold_difference_0 [of a b 0]
  by (auto simp: EqualHash_def ConstantTimeCompare_def)

text \<open>
  The constant-time comparison of key hashes, which folds over all bytes without an
  early exit, decides string equality.
\<close>

theorem EqualHash_eq: "EqualHash a b \<longleftrightarrow> a = b"
  by (rule EqualHash_iff)

section \<open>Generated keys\<close>

lemma hex_value_plain: "hex_value c \<noteq> None \<Longrightarrow> plain_char c"
  by (auto simp: hex_value_def plain_char_def Let_def split: if_splits)

lemma trim_space_key:
  assumes "b \<noteq> []"
  shows "trim_space (key_Prefix @ hex_encode b) = key_Prefix @ hex_encode b"
proof (rule trim_space_plain)
  have "hex_encode b \<noteq> []"
    using assms by (cases b) auto
  then have "last (key_Prefix @ hex_encode b) \<in> set (hex_encode b)"
    by simp
  then show "plain_char (last (key_Prefix @ hex_encode b))"
    by (intro hex_value_plain hex_encode_chars)
qed (simp_all add: key_Prefix_def plain_char_def)

lemma ParseRaw_key: "length b = keyBytes \<Longrightarrow> ParseRaw (key_Prefix @ hex_encode b) = Inr (key_Prefix @ hex_encode b)"
  by (subgoal_tac "b \<noteq> []") (auto simp: ParseRaw_def Let_def keyBytes_def hex_decode_encode trim_space_key)

lemma Generate_Inr:
  "Generate sha256 rand1 rand2 now name = Inr g \<longleftrightarrow>
     trim_space name \<noteq> [] \<and> (\<exists>b1 b2. rand1 = Inr b1 \<and> rand2 = Inr b2 \<and>
        g = \<lparr>gKey = \<lparr>kID = hex_encode b2, kName = name, kKeyHash = sha256 (key_Prefix @ hex_encode b1),
               kMask = Mask (key_Prefix @ hex_encode b1), kCreatedAt = now, kLastUsed = zero_time,
               kDisabled = False\<rparr>,
             gRaw = key_Prefix @ hex_encode b1\<rparr>)"
  by (auto simp: Generate_def apikey_newID_def Let_def split: sum.splits)

text \<open>
  A generated key round-trips through the check of incoming keys: the raw key shown
  to the caller parses to itself, and the stored record carries the hash of exactly that
  string, so the hash lookup of the authenticator finds it; the record is enabled.
\<close>

theorem Generate_ParseRaw:
  assumes "Generate sha256 (Inr b1) rand2 now name = Inr g" and "length b1 = keyBytes"
  shows "ParseRaw (gRaw g) = Inr (gRaw g) \<and> EqualHash (kKeyHash (gKey g)) (sha256 (gRaw g)) \<and>
    \<not> kDisabled (gKey g)"
  using assms by (auto simp: Generate_Inr ParseRaw_key EqualHash_iff)

definition demo_bytes :: string where
  "demo_bytes = ''abcdefghijklmnopqrst''"

theorem Generate_ParseRaw_witness:
  "\<exists>g. Generate rev (Inr demo_bytes) (Inr ''0123456789abcdef'') 7 ''ci'' = Inr g \<and>
     ParseRaw (gRaw g) = Inr (gRaw g)"
proof -
  have nm: "trim_space ''ci'' = ''ci''"
    by (rule trim_space_plain) (simp_all add: plain_char_def)
  define g where "g = projr (Generate rev (Inr demo_bytes) (Inr ''0123456789abcdef'') 7 ''ci'')"
  have g: "Generate rev (Inr demo_bytes) (Inr ''0123456789abcdef'') 7 ''ci'' = Inr g"
    by (simp add: g_def Generate_def nm apikey_newID_def Let_def)
  have len: "length demo_bytes = keyBytes"
    by (simp add: demo_bytes_def keyBytes_def)
  from Generate_ParseRaw [OF g len] g show ?thesis by blast
qed

text \<open>
  The mask kept with a key discloses at most its first two and last four
  characters: it is one fixed function of those six, so two keys that agree on them have
  the same mask, and every other character of the key has no influence on it.
\<close>

theorem Mask_discloses_six:
  assumes "length a = keyBytes * 2" and "length b = keyBytes * 2"
    and "take maskHead a = take maskHead b"
    and "drop (keyBytes * 2 - maskTail) a = drop (keyBytes * 2 - maskTail) b"
  shows "Mask (key_Prefix @ a) = Mask (key_Prefix @ b) \<and>
    length (Mask (key_Prefix @ a)) = length key_Prefix + maskHead + 3 + maskTail"
  using assms
  by (simp add: Mask_def Let_def maskHead_def maskTail_def keyBytes_def ellipsis_def bytes_of_def)

theorem Mask_discloses_six_witness:
  "Mask (key_Prefix @ replicate 2 CHR ''a'' @ replicate 34 CHR ''0'' @ ''beef'') =
   Mask (key_Prefix @ replicate 2 CHR ''a'' @ replicate 34 CHR ''7'' @ ''beef'')"
  using Mask_discloses_six [of "replicate 2 CHR ''a'' @ replicate 34 CHR ''0'' @ ''beef''"
      "replicate 2 CHR ''a'' @ replicate 34 CHR ''7'' @ ''beef''"]
  by (simp add: maskHead_def maskTail_def keyBytes_def)

end
