(* ===== verification/Cluster_Node.thy ===== *)
theory Cluster_Node
  imports Cellar_Errors Hex_Codec
begin

text \<open>
  \<open>internal/node/node.go\<close>: roles and the organizational units of their certificates,
  membership, availability, and the node record the cluster replicates. Go's string types
  (\<open>type Role string\<close>) are strings, since records and requests may carry any value; their
  constants are abbreviations.
\<close>

section \<open>Roles\<close>

type_synonym role = string

abbreviation RoleWorker :: role where "RoleWorker \<equiv> ''worker''"
abbreviation RoleManager :: role where "RoleManager \<equiv> ''manager''"

definition role_OU :: "role \<Rightarrow> string" where
  "role_OU r = ''cellar-'' @ r"

definition CanAccessControlPlane :: "role \<Rightarrow> bool" where
  "CanAccessControlPlane r \<longleftrightarrow> r = RoleManager"

definition ParseOU :: "string \<Rightarrow> role result" where
  "ParseOU ou =
     (if ou = role_OU RoleWorker then Inr RoleWorker
      else if ou = role_OU RoleManager then Inr RoleManager
      else Inl (Errorf [Lit ''unknown OU '', Quoted ou]))"

text \<open>Of a leaf certificate the code reads the common name and the organizational units.\<close>

record certificate =
  certCN :: string
  certOUs :: "string list"

definition RoleFromCertificate :: "certificate option \<Rightarrow> role result" where
  "RoleFromCertificate cert =
     (case cert of
        None \<Rightarrow> Inl (errorf ''certificate has no OU'')
      | Some c \<Rightarrow> (case certOUs c of
            [] \<Rightarrow> Inl (errorf ''certificate has no OU'')
          | ou # _ \<Rightarrow> ParseOU ou))"

lemma role_OU_inj: "role_OU r = role_OU r' \<longleftrightarrow> r = r'"
  by (simp add: role_OU_def)

lemma ParseOU_Inr: "ParseOU ou = Inr r \<longleftrightarrow> ou = role_OU r \<and> (r = RoleWorker \<or> r = RoleManager)"
  by (auto simp: ParseOU_def role_OU_def)

lemma RoleFromCertificate_Inr:
  "RoleFromCertificate cert = Inr r \<longleftrightarrow>
     (\<exists>c ous. cert = Some c \<and> certOUs c = role_OU r # ous \<and> (r = RoleWorker \<or> r = RoleManager))"
  by (auto simp: RoleFromCertificate_def ParseOU_Inr split: option.splits list.splits)

section \<open>Membership and availability\<close>

type_synonym membership = string

abbreviation MembershipAccepted :: membership where "MembershipAccepted \<equiv> ''accepted''"
abbreviation MembershipPending :: membership where "MembershipPending \<equiv> ''pending''"

type_synonym availability = string

abbreviation AvailabilityActive :: availability where "AvailabilityActive \<equiv> ''active''"
abbreviation AvailabilityPause :: availability where "AvailabilityPause \<equiv> ''pause''"
abbreviation AvailabilityDrain :: availability where "AvailabilityDrain \<equiv> ''drain''"

definition ParseAvailability :: "string \<Rightarrow> availability result" where
  "ParseAvailability s =
     (if s = '''' \<or> s = AvailabilityActive then Inr AvailabilityActive
      else if s = AvailabilityPause then Inr AvailabilityPause
      else if s = AvailabilityDrain then Inr AvailabilityDrain
      else Inl (errorf ''availability must be active, pause, or drain''))"

definition Effective :: "availability \<Rightarrow> availability" where
  "Effective a = (if a = '''' then AvailabilityActive else a)"

definition Schedulable :: "availability \<Rightarrow> bool" where
  "Schedulable a \<longleftrightarrow> Effective a \<noteq> AvailabilityPause \<and> Effective a \<noteq> AvailabilityDrain"

lemma ParseAvailability_Inr:
  "ParseAvailability s = Inr a \<longleftrightarrow>
     Effective s = a \<and> a \<in> {AvailabilityActive, AvailabilityPause, AvailabilityDrain}"
  by (auto simp: ParseAvailability_def Effective_def)

lemma Schedulable_not_drain: "Effective a = AvailabilityDrain \<Longrightarrow> \<not> Schedulable a"
  by (simp add: Schedulable_def)

type_synonym node_status = string

abbreviation StatusReady :: node_status where "StatusReady \<equiv> ''ready''"
abbreviation StatusDown :: node_status where "StatusDown \<equiv> ''down''"

section \<open>The node record\<close>

type_synonym labels = "(string, string) gomap"

record node =
  nID :: string
  nRole :: role
  nMembership :: membership
  nAvailability :: availability
  nLabels :: labels
  nFingerprint :: string
  nIssuedAt :: gotime
  nExpiresAt :: gotime
  nCertificatePEM :: string
  nGRPCAddr :: string
  nHeartbeatAt :: gotime
  nSandboxCount :: int

text \<open>The composite literal \<open>node.Node{}\<close>: every field its zero value.\<close>

definition zero_node :: node where
  "zero_node = \<lparr>nID = [], nRole = [], nMembership = [], nAvailability = [], nLabels = [],
     nFingerprint = [], nIssuedAt = zero_time, nExpiresAt = zero_time, nCertificatePEM = [],
     nGRPCAddr = [], nHeartbeatAt = zero_time, nSandboxCount = 0\<rparr>"

text \<open>The copy loop of \<open>CloneLabels\<close>: \<open>for k, v := range in { out[k] = v }\<close>.\<close>

fun copy_map :: "('k, 'v) gomap \<Rightarrow> ('k, 'v) gomap \<Rightarrow> ('k, 'v) gomap" where
  "copy_map out [] = out"
| "copy_map out ((k, v) # m) = copy_map (gm_put k v out) m"

definition CloneLabels :: "labels \<Rightarrow> labels" where
  "CloneLabels m = (if m = [] then [] else copy_map [] m)"

lemma gm_put_fresh: "k \<notin> fst ` set m \<Longrightarrow> gm_put k v m = m @ [(k, v)]"
  by (induction m) auto

lemma copy_map_append: "distinct (map fst (out @ m)) \<Longrightarrow> copy_map out m = out @ m"
proof (induction out m rule: copy_map.induct)
  case (1 out)
  then show ?case by simp
next
  case (2 out k v m)
  then have "gm_put k v out = out @ [(k, v)]"
    by (intro gm_put_fresh) (auto simp: image_iff)
  with 2 show ?case by simp
qed

lemma copy_map_id [simp, gomap]: "gm_wf m \<Longrightarrow> copy_map [] m = m"
  using copy_map_append [of "[]" m] by (simp add: gm_wf_def)

lemma CloneLabels_id [simp, gomap]: "gm_wf m \<Longrightarrow> CloneLabels m = m"
  by (simp add: CloneLabels_def)

lemma copy_map_get: "gm_get (copy_map out m) k = (case gm_get (rev m) k of Some v \<Rightarrow> Some v | None \<Rightarrow> gm_get out k)"
proof (induction out m rule: copy_map.induct)
  case (1 out)
  then show ?case by simp
next
  case (2 out k' v m)
  then show ?case
    by (auto simp: map_add_def split: option.splits)
qed

text \<open>\<open>NewID\<close> over the outcome of \<open>rand.Read\<close>: the hex form of 32 random bytes.\<close>

definition node_NewID :: "string result \<Rightarrow> string result" where
  "node_NewID rand = (case rand of Inl e \<Rightarrow> Inl e | Inr b \<Rightarrow> Inr (hex_encode b))"

end
