(* ===== verification/Join_Token.thy ===== *)
theory Join_Token
  imports Cluster_Node
begin

text \<open>
  \<open>internal/token/token.go\<close>: the join tokens \<open>CLLRN-1-<ca digest prefix>-<role secret>\<close>
  that admit a node to the cluster in one of the two roles.
\<close>

section \<open>Secrets\<close>

record secrets =
  secWorker :: string
  secManager :: string

definition zero_secrets :: secrets where
  "zero_secrets = \<lparr>secWorker = [], secManager = []\<rparr>"

text \<open>\<open>randomSecret\<close> over the outcome of \<open>rand.Read\<close>.\<close>

definition randomSecret :: "string result \<Rightarrow> string result" where
  "randomSecret rand = (case rand of Inl e \<Rightarrow> Inl e | Inr b \<Rightarrow> Inr (hex_encode b))"

definition GenerateSecrets :: "string result \<Rightarrow> string result \<Rightarrow> secrets result" where
  "GenerateSecrets rand1 rand2 =
     (case randomSecret rand1 of
        Inl e \<Rightarrow> Inl e
      | Inr worker \<Rightarrow> (case randomSecret rand2 of
            Inl e \<Rightarrow> Inl e
          | Inr manager \<Rightarrow> Inr \<lparr>secWorker = worker, secManager = manager\<rparr>))"

section \<open>Formatting, parsing, validating\<close>

definition token_prefix :: string where "token_prefix = ''CLLRN''"
definition token_version :: string where "token_version = ''1''"

definition Format :: "string \<Rightarrow> secrets \<Rightarrow> role \<Rightarrow> string result" where
  "Format caDigestPrefix secs r =
     (let token = (\<lambda>secret. token_prefix @ ''-'' @ token_version @ ''-'' @ caDigestPrefix @ ''-'' @ secret)
      in if r = RoleWorker then Inr (token (secWorker secs))
         else if r = RoleManager then Inr (token (secManager secs))
         else Inl (Errorf [Lit ''invalid role '', Quoted r]))"

record token_pair =
  pairWorker :: string
  pairManager :: string

definition FormatPair :: "string \<Rightarrow> secrets \<Rightarrow> token_pair result" where
  "FormatPair caDigestPrefix secs =
     (case Format caDigestPrefix secs RoleWorker of
        Inl e \<Rightarrow> Inl e
      | Inr worker \<Rightarrow> (case Format caDigestPrefix secs RoleManager of
            Inl e \<Rightarrow> Inl e
          | Inr manager \<Rightarrow> Inr \<lparr>pairWorker = worker, pairManager = manager\<rparr>))"

record parsed_token =
  ptCADigestPrefix :: string
  ptSecret :: string

definition token_Parse :: "string \<Rightarrow> parsed_token result" where
  "token_Parse joinToken =
     (let parts = split_on CHR ''-'' joinToken in
      if length parts \<noteq> 4 then Inl (errorf ''invalid token format'')
      else if parts ! 0 \<noteq> token_prefix \<or> parts ! 1 \<noteq> token_version
        then Inl (errorf ''invalid token prefix or version'')
      else Inr \<lparr>ptCADigestPrefix = parts ! 2, ptSecret = parts ! 3\<rparr>)"

definition token_Validate :: "string \<Rightarrow> string \<Rightarrow> secrets \<Rightarrow> role result" where
  "token_Validate joinToken caDigestPrefix secs =
     (case token_Parse joinToken of
        Inl e \<Rightarrow> Inl e
      | Inr parsed \<Rightarrow>
          if ptCADigestPrefix parsed \<noteq> caDigestPrefix then Inl (errorf ''token CA digest mismatch'')
          else if ptSecret parsed = secWorker secs then Inr RoleWorker
          else if ptSecret parsed = secManager secs then Inr RoleManager
          else Inl (errorf ''invalid join token secret''))"

section \<open>Round trip and soundness\<close>

definition role_secret :: "secrets \<Rightarrow> role \<Rightarrow> string" where
  "role_secret secs r = (if r = RoleWorker then secWorker secs else secManager secs)"

definition token_text :: "string \<Rightarrow> string \<Rightarrow> string" where
  "token_text digest secret = token_prefix @ ''-'' @ token_version @ ''-'' @ digest @ ''-'' @ secret"

lemma Format_Inr:
  "Format d secs r = Inr t \<longleftrightarrow> (r = RoleWorker \<or> r = RoleManager) \<and> t = token_text d (role_secret secs r)"
  by (auto simp: Format_def Let_def role_secret_def token_text_def)

lemma split_token_text:
  assumes "CHR ''-'' \<notin> set d" and "CHR ''-'' \<notin> set x"
  shows "split_on CHR ''-'' (token_text d x) = [token_prefix, token_version, d, x]"
  using assms
  by (simp add: token_text_def token_prefix_def token_version_def split_on_append)

lemma token_Parse_Inr:
  "token_Parse t = Inr p \<longleftrightarrow>
     split_on CHR ''-'' t = [token_prefix, token_version, ptCADigestPrefix p, ptSecret p]"
proof -
  have four: "length xs = 4 \<longleftrightarrow> (\<exists>a b c d. xs = [a, b, c, d])" for xs :: "string list"
    by (auto simp: numeral_eq_Suc length_Suc_conv)
  show ?thesis
    by (cases p) (auto simp: token_Parse_def Let_def four)
qed

lemma token_Parse_text:
  assumes "CHR ''-'' \<notin> set d" and "CHR ''-'' \<notin> set x"
  shows "token_Parse (token_text d x) = Inr \<lparr>ptCADigestPrefix = d, ptSecret = x\<rparr>"
  by (simp add: token_Parse_Inr split_token_text assms)

lemma token_Parse_text_only:
  assumes "token_Parse t = Inr p"
  shows "t = token_text (ptCADigestPrefix p) (ptSecret p)"
proof -
  have "t = join_on CHR ''-'' (split_on CHR ''-'' t)" by simp
  also have "\<dots> = token_text (ptCADigestPrefix p) (ptSecret p)"
    using assms by (simp add: token_Parse_Inr token_text_def)
  finally show ?thesis .
qed

lemma token_Validate_Inr:
  "token_Validate t d secs = Inr r \<longleftrightarrow>
     (\<exists>p. token_Parse t = Inr p \<and> ptCADigestPrefix p = d \<and>
        (if ptSecret p = secWorker secs then r = RoleWorker
         else ptSecret p = secManager secs \<and> r = RoleManager))"
  by (auto simp: token_Validate_def split: sum.splits if_splits)

text \<open>
  The join token formatted for a role is accepted for exactly that role: when the
  secrets of the two roles differ and neither they nor the CA digest contain a dash,
  validating the token against the same digest and secrets returns the role it was made for.
\<close>

theorem token_roundtrip:
  assumes "Format d secs r = Inr t"
    and "CHR ''-'' \<notin> set d" and "CHR ''-'' \<notin> set (secWorker secs)"
    and "CHR ''-'' \<notin> set (secManager secs)" and "secWorker secs \<noteq> secManager secs"
  shows "token_Validate t d secs = Inr r"
proof -
  have nd: "CHR ''-'' \<notin> set (role_secret secs r)"
    using assms by (simp add: role_secret_def)
  show ?thesis
    using assms(1,5) token_Parse_text [OF assms(2) nd]
    by (auto simp: Format_Inr token_Validate_Inr role_secret_def)
qed

theorem token_roundtrip_witness:
  "token_Validate ''CLLRN-1-ab12-77ff'' ''ab12'' \<lparr>secWorker = ''00aa'', secManager = ''77ff''\<rparr> =
     Inr RoleManager"
  by (rule token_roundtrip) (simp_all add: Format_def Let_def token_prefix_def token_version_def)

lemma token_Validate_Format: "token_Validate t d secs = Inr r \<Longrightarrow> Format d secs r = Inr t"
  using token_Parse_text_only [of t] by (auto simp: token_Validate_Inr Format_Inr role_secret_def split: if_splits)

text \<open>
  A token that validates is, byte for byte, the token of the cluster for the role it
  yields: it carries the cluster's CA digest and that role's secret, so a holder of the
  worker token alone is never admitted as a manager (unless the two secrets agree).
\<close>

theorem token_validate_sound:
  assumes "token_Validate t d secs = Inr r"
  shows "Format d secs r = Inr t \<and> (r = RoleManager \<longrightarrow> ptSecret (projr (token_Parse t)) \<noteq> secWorker secs)"
proof -
  from assms obtain p where p: "token_Parse t = Inr p" "ptCADigestPrefix p = d"
    and sec: "if ptSecret p = secWorker secs then r = RoleWorker
         else ptSecret p = secManager secs \<and> r = RoleManager"
    by (auto simp: token_Validate_Inr)
  have "t = token_text d (ptSecret p)"
    using token_Parse_text_only [OF p(1)] p(2) by simp
  with p sec show ?thesis
    by (auto simp: Format_Inr role_secret_def split: if_splits)
qed

theorem token_validate_sound_witness:
  "Format ''ab12'' \<lparr>secWorker = ''00aa'', secManager = ''77ff''\<rparr> RoleManager = Inr ''CLLRN-1-ab12-77ff'' \<and>
   ptSecret (projr (token_Parse ''CLLRN-1-ab12-77ff'')) \<noteq> ''00aa''"
  using token_validate_sound [of "''CLLRN-1-ab12-77ff''" "''ab12''"
      "\<lparr>secWorker = ''00aa'', secManager = ''77ff''\<rparr>" RoleManager]
  by (simp add: token_Validate_def token_Parse_def Let_def token_prefix_def token_version_def)

text \<open>The secrets the code generates are hexadecimal, so they contain no dash.\<close>

lemma GenerateSecrets_no_dash:
  "GenerateSecrets r1 r2 = Inr secs \<Longrightarrow>
     CHR ''-'' \<notin> set (secWorker secs) \<and> CHR ''-'' \<notin> set (secManager secs)"
  by (auto simp: GenerateSecrets_def randomSecret_def split: sum.splits)

end
