(* ===== verification/Cluster_Object.thy ===== *)
theory Cluster_Object
  imports Cellar_Errors Join_Token
begin

text \<open>
  \<open>internal/store/store.go\<close>: the cluster object that Raft replicates, with the material of the
  cluster's certificate authority, and what of it may leave the managers. Parsing the PEM
  material (\<open>ca.LoadRootCA\<close>, over \<open>crypto/x509\<close>) is the parameter \<open>load\<close>; a loaded authority is
  known here by its two PEM blocks and by its digest prefix.
\<close>

record root_ca =
  raCertPEM :: string
  raKeyPEM :: string
  raDigestPrefix :: string

type_synonym ca_loader = "string \<Rightarrow> string \<Rightarrow> root_ca result"

record root_ca_material =
  rcCAKey :: string
  rcCACert :: string
  rcCACertHash :: string
  rcJoinSecrets :: secrets

record cluster =
  clClusterID :: string
  clRootCA :: root_ca_material
  clCertValidity :: duration
  clCreatedAt :: gotime

definition zero_material :: root_ca_material where
  "zero_material = \<lparr>rcCAKey = [], rcCACert = [], rcCACertHash = [], rcJoinSecrets = zero_secrets\<rparr>"

definition zero_cluster :: cluster where
  "zero_cluster = \<lparr>clClusterID = [], clRootCA = zero_material, clCertValidity = 0, clCreatedAt = zero_time\<rparr>"

definition DefaultNodeValidity :: duration where
  "DefaultNodeValidity = 2160 * hour"

definition Redact :: "cluster option \<Rightarrow> cluster option" where
  "Redact c = (case c of None \<Rightarrow> None
     | Some c \<Rightarrow> Some (c\<lparr>clRootCA := (clRootCA c)\<lparr>rcCAKey := [], rcJoinSecrets := zero_secrets\<rparr>\<rparr>))"

definition cluster_LoadRootCA :: "ca_loader \<Rightarrow> cluster option \<Rightarrow> root_ca result" where
  "cluster_LoadRootCA load c = (case c of None \<Rightarrow> Inl ErrNotInitialized
     | Some c \<Rightarrow> load (rcCACert (clRootCA c)) (rcCAKey (clRootCA c)))"

record cluster_config =
  cfClusterID :: string
  cfCertValidity :: duration
  cfRootCA :: "root_ca option"
  cfJoinSecrets :: secrets

text \<open>
  What leaves the managers is independent of the secrets: two clusters that agree on
  everything but the CA key and the join secrets are redacted to the same object.
\<close>

theorem Redact_noninterference:
  assumes "clClusterID c = clClusterID c'" and "clCertValidity c = clCertValidity c'"
    and "clCreatedAt c = clCreatedAt c'" and "rcCACert (clRootCA c) = rcCACert (clRootCA c')"
    and "rcCACertHash (clRootCA c) = rcCACertHash (clRootCA c')"
  shows "Redact (Some c) = Redact (Some c')"
  using assms by (cases c; cases c') (auto simp: Redact_def intro: root_ca_material.equality)

theorem Redact_noninterference_witness:
  "Redact (Some (zero_cluster\<lparr>clRootCA := zero_material\<lparr>rcCAKey := ''secret''\<rparr>\<rparr>)) = Redact (Some zero_cluster)"
  by (rule Redact_noninterference) (simp_all add: zero_cluster_def zero_material_def)

end
