(* ===== verification/Ca_Material.thy ===== *)
theory Ca_Material
  imports Cluster_Object
begin

text \<open>
  The certificate authority (\<open>internal/ca/ca.go\<close>): its root, the parsing of signing requests
  and the issue of node certificates. The cryptographic library (\<open>crypto/x509\<close>,
  \<open>encoding/pem\<close>, \<open>crypto/sha256\<close>, \<open>crypto/rand\<close>) is the parameter \<open>lib\<close>; random numbers, fresh
  keys and the clock are inputs. The parsed certificate and key of a root are determined by its
  PEM blocks, so the library's signing function takes the root itself. The template fields that are
  the same constant in every call (\<open>BasicConstraintsValid\<close>, \<open>MaxPathLen\<close>) are left out.
\<close>

section \<open>The library's types\<close>

datatype public_key = EcdsaKey bool string | OtherKey string

datatype private_key = EcdsaPrivate string | OtherPrivate

datatype key_usage = CertSign | DigitalSignature | CRLSign | KeyEncipherment

datatype ext_key_usage = ClientAuth | ServerAuth

record cert_template =
  tmSerial :: int
  tmCN :: string
  tmOUs :: "string list"
  tmOrg :: "string list"
  tmNotBefore :: gotime
  tmNotAfter :: gotime
  tmKeyUsage :: "key_usage list"
  tmExtKeyUsage :: "ext_key_usage list"
  tmIsCA :: bool
  tmDNSNames :: "string list"

record x509_cert =
  xcSubject :: certificate
  xcNotBefore :: gotime
  xcNotAfter :: gotime
  xcRaw :: string

record csr =
  csCN :: string
  csPublicKey :: public_key

record x509_lib =
  xPemDecode :: "string \<Rightarrow> (string \<times> string) option"
  xPemEncode :: "string \<Rightarrow> string \<Rightarrow> string"
  xParseCertificate :: "string \<Rightarrow> x509_cert result"
  xParseECKey :: "string \<Rightarrow> string result"
  xParsePKCS8 :: "string \<Rightarrow> private_key result"
  xParseRequest :: "string \<Rightarrow> csr result"
  xCheckSignature :: "csr \<Rightarrow> go_error option"
  xMarshalPKIX :: "public_key \<Rightarrow> string result"
  xMarshalECKey :: "string \<Rightarrow> string result"
  xSelfSign :: "cert_template \<Rightarrow> string \<Rightarrow> string result"
  xSign :: "cert_template \<Rightarrow> root_ca \<Rightarrow> public_key \<Rightarrow> string result"
  xSha256 :: "string \<Rightarrow> string"

section \<open>The root\<close>

definition DefaultCAValidity :: duration where
  "DefaultCAValidity = 10 * 365 * 24 * hour"

definition ca_DefaultNodeValidity :: duration where
  "ca_DefaultNodeValidity = 2160 * hour"

text \<open>\<open>randomSerial\<close> over the outcome of \<open>rand.Int\<close>.\<close>

definition randomSerial :: "int result \<Rightarrow> int result" where
  "randomSerial rand =
     (case rand of
        Inl e \<Rightarrow> Inl (Wrapped [Lit ''generate serial: ''] e)
      | Inr n \<Rightarrow> Inr (if n = 0 then 1 else n))"

definition DigestPrefix :: "x509_lib \<Rightarrow> x509_cert \<Rightarrow> string" where
  "DigestPrefix lib c = take 25 (hex_encode (xSha256 lib (xcRaw c)))"

definition root_template :: "string \<Rightarrow> int \<Rightarrow> gotime \<Rightarrow> duration \<Rightarrow> cert_template" where
  "root_template org serial now validity =
     \<lparr>tmSerial = serial, tmCN = ''cellar-ca'', tmOUs = [], tmOrg = [org],
      tmNotBefore = now - 5 * minute, tmNotAfter = now + validity,
      tmKeyUsage = [CertSign, DigitalSignature, CRLSign], tmExtKeyUsage = [], tmIsCA = True, tmDNSNames = []\<rparr>"

definition GenerateRootCA ::
  "x509_lib \<Rightarrow> string result \<Rightarrow> int result \<Rightarrow> gotime \<Rightarrow> string \<Rightarrow> duration \<Rightarrow> root_ca result" where
  "GenerateRootCA lib fresh rand now org validity0 =
     (let validity = (if validity0 \<le> 0 then DefaultCAValidity else validity0) in
      case fresh of
        Inl e \<Rightarrow> Inl (Wrapped [Lit ''generate CA key: ''] e)
      | Inr key \<Rightarrow>
     (case randomSerial rand of
        Inl e \<Rightarrow> Inl e
      | Inr serial \<Rightarrow>
     (case xSelfSign lib (root_template org serial now validity) key of
        Inl e \<Rightarrow> Inl (Wrapped [Lit ''create CA certificate: ''] e)
      | Inr der \<Rightarrow>
     (case xParseCertificate lib der of
        Inl e \<Rightarrow> Inl (Wrapped [Lit ''parse CA certificate: ''] e)
      | Inr cert \<Rightarrow>
     (case xMarshalECKey lib key of
        Inl e \<Rightarrow> Inl (Wrapped [Lit ''marshal CA key: ''] e)
      | Inr keyDER \<Rightarrow>
          Inr \<lparr>raCertPEM = xPemEncode lib ''CERTIFICATE'' der, raKeyPEM = xPemEncode lib ''EC PRIVATE KEY'' keyDER,
               raDigestPrefix = DigestPrefix lib cert\<rparr>)))))"

text \<open>\<open>LoadRootCA\<close>: with the library it is the loader that the cluster object takes.\<close>

definition LoadRootCA :: "x509_lib \<Rightarrow> ca_loader" where
  "LoadRootCA lib certPEM keyPEM =
     (case xPemDecode lib certPEM of
        None \<Rightarrow> Inl (errorf ''invalid CA certificate PEM'')
      | Some (ty, bytes) \<Rightarrow>
          if ty \<noteq> ''CERTIFICATE'' then Inl (errorf ''invalid CA certificate PEM'')
          else
     (case xParseCertificate lib bytes of
        Inl e \<Rightarrow> Inl (Wrapped [Lit ''parse CA certificate: ''] e)
      | Inr cert \<Rightarrow>
     (case xPemDecode lib keyPEM of
        None \<Rightarrow> Inl (errorf ''invalid CA key PEM'')
      | Some (_, kb) \<Rightarrow>
          (let root = \<lparr>raCertPEM = certPEM, raKeyPEM = keyPEM, raDigestPrefix = DigestPrefix lib cert\<rparr> in
           case xParseECKey lib kb of
             Inr _ \<Rightarrow> Inr root
           | Inl e \<Rightarrow>
               (case xParsePKCS8 lib kb of
                  Inl _ \<Rightarrow> Inl (Wrapped [Lit ''parse CA key: ''] e)
                | Inr (EcdsaPrivate _) \<Rightarrow> Inr root
                | Inr OtherPrivate \<Rightarrow> Inl (errorf ''CA key is not ECDSA''))))))"

section \<open>Requests\<close>

definition ParseCSR :: "x509_lib \<Rightarrow> string \<Rightarrow> csr result" where
  "ParseCSR lib csrPEM =
     (case xPemDecode lib csrPEM of
        None \<Rightarrow> Inl (errorf ''invalid CSR PEM'')
      | Some (_, bytes) \<Rightarrow>
     (case xParseRequest lib bytes of
        Inl e \<Rightarrow> Inl (Wrapped [Lit ''parse CSR: ''] e)
      | Inr csr \<Rightarrow>
     (case xCheckSignature lib csr of
        Some e \<Rightarrow> Inl (Wrapped [Lit ''CSR signature invalid: ''] e)
      | None \<Rightarrow>
     (case csPublicKey csr of
        OtherKey _ \<Rightarrow> Inl (errorf ''CSR public key must be ECDSA'')
      | EcdsaKey p256 _ \<Rightarrow>
          if \<not> p256 then Inl (errorf ''CSR public key must use P-256'') else Inr csr))))"

definition PublicKeyFingerprint :: "x509_lib \<Rightarrow> public_key \<Rightarrow> string result" where
  "PublicKeyFingerprint lib pub =
     (case xMarshalPKIX lib pub of Inl e \<Rightarrow> Inl e | Inr der \<Rightarrow> Inr (hex_encode (xSha256 lib der)))"

lemma ParseCSR_Inr:
  "ParseCSR lib pem = Inr c \<Longrightarrow> xCheckSignature lib c = None \<and> (\<exists>k. csPublicKey c = EcdsaKey True k)"
  by (auto simp: ParseCSR_def split: option.splits sum.splits prod.splits public_key.splits if_splits)

section \<open>Issuing\<close>

record issue_request =
  irCSR :: "csr option"
  irNodeID :: string
  irRole :: role
  irValidity :: duration

record issued_cert =
  isCert :: x509_cert
  isCertPEM :: string

definition node_template :: "int \<Rightarrow> gotime \<Rightarrow> duration \<Rightarrow> string \<Rightarrow> role \<Rightarrow> cert_template" where
  "node_template serial now validity nodeID role =
     \<lparr>tmSerial = serial, tmCN = nodeID, tmOUs = [role_OU role], tmOrg = [''cellar''],
      tmNotBefore = now - 5 * minute, tmNotAfter = now + validity,
      tmKeyUsage = [DigitalSignature, KeyEncipherment], tmExtKeyUsage = [ClientAuth, ServerAuth], tmIsCA = False,
      tmDNSNames = [nodeID, ''cellar-runtime''] @ (if role = RoleManager then [''cellar-manager'', ''cellar-ca''] else [])\<rparr>"

definition SignNodeCSR :: "x509_lib \<Rightarrow> int result \<Rightarrow> gotime \<Rightarrow> root_ca \<Rightarrow> issue_request \<Rightarrow> issued_cert result" where
  "SignNodeCSR lib rand now r req =
     (case irCSR req of
        None \<Rightarrow> Inl (errorf ''CSR is required'')
      | Some csr \<Rightarrow>
          if irNodeID req = [] then Inl (errorf ''node ID is required'')
          else if irRole req \<noteq> RoleWorker \<and> irRole req \<noteq> RoleManager
          then Inl (Errorf [Lit ''invalid role '', Quoted (irRole req)])
          else
     (let validity = (if irValidity req \<le> 0 then ca_DefaultNodeValidity else irValidity req) in
      case randomSerial rand of
        Inl e \<Rightarrow> Inl e
      | Inr serial \<Rightarrow>
     (case xSign lib (node_template serial now validity (irNodeID req) (irRole req)) r (csPublicKey csr) of
        Inl e \<Rightarrow> Inl (Wrapped [Lit ''sign certificate: ''] e)
      | Inr der \<Rightarrow>
     (case xParseCertificate lib der of
        Inl e \<Rightarrow> Inl (Wrapped [Lit ''parse issued certificate: ''] e)
      | Inr cert \<Rightarrow> Inr \<lparr>isCert = cert, isCertPEM = xPemEncode lib ''CERTIFICATE'' der\<rparr>))))"

text \<open>
  The documented behaviour of \<open>x509.CreateCertificate\<close> and \<open>x509.ParseCertificate\<close> that the code
  relies on: a signed certificate reads back with the subject and the validity (in whole
  seconds) of its template.
\<close>

definition reads_back :: "cert_template \<Rightarrow> x509_cert \<Rightarrow> bool" where
  "reads_back t c \<longleftrightarrow> xcSubject c = \<lparr>certCN = tmCN t, certOUs = tmOUs t\<rparr> \<and>
     xcNotBefore c = tmNotBefore t div second * second \<and> xcNotAfter c = tmNotAfter t div second * second"

definition signs_templates :: "x509_lib \<Rightarrow> bool" where
  "signs_templates lib \<longleftrightarrow>
     (\<forall>t r pub der c. xSign lib t r pub = Inr der \<longrightarrow> xParseCertificate lib der = Inr c \<longrightarrow> reads_back t c)"

lemma SignNodeCSR_Inr:
  assumes "SignNodeCSR lib rand now r req = Inr ic"
  obtains csr serial der where "irCSR req = Some csr" and "irNodeID req \<noteq> []"
    and "irRole req = RoleWorker \<or> irRole req = RoleManager"
    and "xSign lib (node_template serial now
           (if irValidity req \<le> 0 then ca_DefaultNodeValidity else irValidity req) (irNodeID req) (irRole req))
           r (csPublicKey csr) = Inr der"
    and "xParseCertificate lib der = Inr (isCert ic)" and "serial \<noteq> 0"
  using assms that
  by (fastforce simp: SignNodeCSR_def Let_def randomSerial_def split: option.splits sum.splits if_splits)

lemma SignNodeCSR_subject:
  assumes "SignNodeCSR lib rand now r req = Inr ic" and "signs_templates lib"
  shows "irNodeID req \<noteq> []" and "irRole req = RoleWorker \<or> irRole req = RoleManager"
    and "xcSubject (isCert ic) = \<lparr>certCN = irNodeID req, certOUs = [role_OU (irRole req)]\<rparr>"
    and "xcNotAfter (isCert ic) =
           (now + (if irValidity req \<le> 0 then ca_DefaultNodeValidity else irValidity req)) div second * second"
  using assms
  by (auto elim!: SignNodeCSR_Inr simp: signs_templates_def reads_back_def node_template_def split del: if_split)
     (blast+)?

end
