(* ===== verification/Sandbox_Spec.thy ===== *)
theory Sandbox_Spec
  imports Cluster_Node
begin

text \<open>
  \<open>internal/sandbox/sandbox.go\<close>, the create body of a sandbox: its data types, the defaults
  (\<open>NormalizeSpec\<close>), the checks (\<open>ValidateSpec\<close>, \<open>validateSecrets\<close>), the copy
  (\<open>cloneSpec\<close>) and the redaction of secret values. A Go slice is a list (nil and empty are
  not told apart), an optional pointer to a scalar an option, raw JSON a string.
\<close>

section \<open>Constants\<close>

type_synonym desired_state = string

abbreviation DesiredRunning :: desired_state where "DesiredRunning \<equiv> ''running''"
abbreviation DesiredStopped :: desired_state where "DesiredStopped \<equiv> ''stopped''"
abbreviation DesiredRemoved :: desired_state where "DesiredRemoved \<equiv> ''removed''"

type_synonym status_phase = string

abbreviation PhaseCreated :: status_phase where "PhaseCreated \<equiv> ''created''"
abbreviation PhaseStarting :: status_phase where "PhaseStarting \<equiv> ''starting''"
abbreviation PhaseRunning :: status_phase where "PhaseRunning \<equiv> ''running''"
abbreviation PhaseStopping :: status_phase where "PhaseStopping \<equiv> ''stopping''"
abbreviation PhaseStopped :: status_phase where "PhaseStopped \<equiv> ''stopped''"
abbreviation PhaseFailed :: status_phase where "PhaseFailed \<equiv> ''failed''"
abbreviation PhasePending :: status_phase where "PhasePending \<equiv> PhaseCreated"

type_synonym pull_policy = string

abbreviation PullIfMissing :: pull_policy where "PullIfMissing \<equiv> ''if_missing''"

type_synonym security_profile = string

abbreviation SecurityDefault :: security_profile where "SecurityDefault \<equiv> ''default''"

type_synonym policy_action = string

abbreviation ActionAllow :: policy_action where "ActionAllow \<equiv> ''allow''"
abbreviation ActionDeny :: policy_action where "ActionDeny \<equiv> ''deny''"

section \<open>Data types\<close>

record env_var =
  evKey :: string
  evValue :: string

record resources =
  resVCPUs :: "8 word"
  resMemoryMiB :: "32 word"
  resDiskSizeMiB :: "32 word option"

record runtime_options =
  roWorkdir :: "string option"
  roShell :: "string option"
  roScripts :: "(string, string) gomap"
  roEntrypoint :: "string list"
  roCmd :: "string list"
  roUser :: "string option"
  roLogLevel :: "string option"

record rootfs_source =
  rfType :: string
  rfReference :: string
  rfPath :: string
  rfFormat :: string
  rfFstype :: string

record mount_options =
  moReadonly :: bool
  moNoexec :: bool
  moNosuid :: bool
  moNodev :: bool
  moOverrideUID :: "32 word option"
  moOverrideGID :: "32 word option"

record volume_mount =
  vmType :: string
  vmHost :: string
  vmGuest :: string
  vmName :: string
  vmFormat :: string
  vmFstype :: string
  vmSizeMiB :: "32 word option"
  vmQuotaMiB :: "32 word option"
  vmOptions :: mount_options
  vmStatVirtualization :: string
  vmHostPermissions :: string

record port_range =
  prStart :: "16 word"
  prEnd :: "16 word"

record network_rule =
  nrDirection :: string
  nrDestination :: string
  nrProtocols :: "string list"
  nrPorts :: "port_range list"
  nrAction :: policy_action

record network_policy =
  npDefaultEgress :: policy_action
  npDefaultIngress :: policy_action
  npRules :: "network_rule list"

record secret_host_pattern =
  hpType :: string
  hpValue :: string

record secret_violation_action =
  vaType :: string

record secret_injection =
  siHeaders :: "bool option"
  siBasicAuth :: "bool option"
  siQueryParams :: "bool option"
  siBody :: "bool option"

record secret_entry =
  seEnvVar :: string
  seValue :: string
  seSource :: string
  sePlaceholder :: string
  seAllowedHosts :: "secret_host_pattern list"
  seInjection :: secret_injection
  seRequireTLSIdentity :: "bool option"
  seOnViolation :: "secret_violation_action option"

record secrets_config =
  scEntries :: "secret_entry list"
  scOnViolation :: "secret_violation_action option"

record network_spec =
  nsEnabled :: bool
  nsPolicy :: "network_policy option"
  nsSecrets :: "secrets_config option"
  nsMaxConnections :: "64 word option"

record lifecycle_policy =
  lpEphemeral :: bool
  lpMaxDurationSecs :: "64 word option"
  lpIdleTimeoutSecs :: "64 word option"

record env_pair =
  epKey :: string
  epValue :: string

record handoff_init =
  hiCmd :: string
  hiArgs :: "string list"
  hiEnv :: "env_pair list"

record rlimit =
  rlResource :: string
  rlSoft :: "64 word"
  rlHard :: "64 word"

record patch_content =
  pcText :: string
  pcBytes :: string
  pcIsRaw :: bool

record patch =
  paType :: string
  paPath :: string
  paContent :: "patch_content option"
  paMode :: "32 word option"
  paReplace :: bool
  paSrc :: string
  paDst :: string
  paTarget :: string
  paLink :: string

record spec =
  spName :: string
  spImage :: rootfs_source
  spResources :: resources
  spRuntime :: runtime_options
  spEnv :: "env_var list"
  spLabels :: labels
  spRlimits :: "rlimit list"
  spMounts :: "volume_mount list"
  spPatches :: "patch list"
  spNetwork :: network_spec
  spInit :: "handoff_init option"
  spPullPolicy :: pull_policy
  spSecurityProfile :: security_profile
  spLifecycle :: lifecycle_policy

text \<open>The zero value \<open>Spec{}\<close>.\<close>

definition zero_spec :: spec where
  "zero_spec = \<lparr>spName = [],
     spImage = \<lparr>rfType = [], rfReference = [], rfPath = [], rfFormat = [], rfFstype = []\<rparr>,
     spResources = \<lparr>resVCPUs = 0, resMemoryMiB = 0, resDiskSizeMiB = None\<rparr>,
     spRuntime = \<lparr>roWorkdir = None, roShell = None, roScripts = [], roEntrypoint = [], roCmd = [],
       roUser = None, roLogLevel = None\<rparr>,
     spEnv = [], spLabels = [], spRlimits = [], spMounts = [], spPatches = [],
     spNetwork = \<lparr>nsEnabled = False, nsPolicy = None, nsSecrets = None, nsMaxConnections = None\<rparr>,
     spInit = None, spPullPolicy = [], spSecurityProfile = [],
     spLifecycle = \<lparr>lpEphemeral = False, lpMaxDurationSecs = None, lpIdleTimeoutSecs = None\<rparr>\<rparr>"

section \<open>Effective defaults of secrets\<close>

definition HeadersEffective :: "secret_injection \<Rightarrow> bool" where
  "HeadersEffective i = (case siHeaders i of None \<Rightarrow> True | Some b \<Rightarrow> b)"

definition BasicAuthEffective :: "secret_injection \<Rightarrow> bool" where
  "BasicAuthEffective i = (case siBasicAuth i of None \<Rightarrow> True | Some b \<Rightarrow> b)"

definition QueryParamsEffective :: "secret_injection \<Rightarrow> bool" where
  "QueryParamsEffective i = (case siQueryParams i of None \<Rightarrow> False | Some b \<Rightarrow> b)"

definition BodyEffective :: "secret_injection \<Rightarrow> bool" where
  "BodyEffective i = (case siBody i of None \<Rightarrow> False | Some b \<Rightarrow> b)"

definition RequireTLSIdentityEffective :: "secret_entry \<Rightarrow> bool" where
  "RequireTLSIdentityEffective e = (case seRequireTLSIdentity e of None \<Rightarrow> True | Some b \<Rightarrow> b)"

section \<open>Queries on a spec\<close>

definition ImageReference :: "spec \<Rightarrow> string" where
  "ImageReference s =
     (if rfType (spImage s) = '''' \<or> rfType (spImage s) = ''oci'' then rfReference (spImage s) else '''')"

definition OCIImage :: "string \<Rightarrow> rootfs_source" where
  "OCIImage reference = \<lparr>rfType = ''oci'', rfReference = reference, rfPath = [], rfFormat = [], rfFstype = []\<rparr>"

definition host_type :: "string \<Rightarrow> bool" where
  "host_type t \<longleftrightarrow> t = ''bind'' \<or> t = ''disk_image''"

fun mounts_bind_host :: "volume_mount list \<Rightarrow> bool" where
  "mounts_bind_host [] = False"
| "mounts_bind_host (m # ms) = (if host_type (vmType m) then True else mounts_bind_host ms)"

definition HasHostMounts :: "spec \<Rightarrow> bool" where
  "HasHostMounts s = (if host_type (rfType (spImage s)) then True else mounts_bind_host (spMounts s))"

lemma HasHostMounts_iff:
  "HasHostMounts s \<longleftrightarrow> host_type (rfType (spImage s)) \<or> (\<exists>m \<in> set (spMounts s). host_type (vmType m))"
proof -
  have "mounts_bind_host ms \<longleftrightarrow> (\<exists>m \<in> set ms. host_type (vmType m))" for ms
    by (induction ms) auto
  then show ?thesis by (simp add: HasHostMounts_def)
qed

fun named_volume_names :: "volume_mount list \<Rightarrow> string list" where
  "named_volume_names [] = []"
| "named_volume_names (m # ms) =
     (if vmType m = ''named'' \<and> vmName m \<noteq> '''' then vmName m # named_volume_names ms
      else named_volume_names ms)"

definition NamedVolumeNames :: "spec \<Rightarrow> string list" where
  "NamedVolumeNames s = named_volume_names (spMounts s)"

lemma NamedVolumeNames_set:
  "set (NamedVolumeNames s) = {vmName m | m. m \<in> set (spMounts s) \<and> vmType m = ''named'' \<and> vmName m \<noteq> ''''}"
proof -
  have "set (named_volume_names ms) = {vmName m | m. m \<in> set ms \<and> vmType m = ''named'' \<and> vmName m \<noteq> ''''}" for ms
    by (induction ms) auto
  then show ?thesis by (simp add: NamedVolumeNames_def)
qed

section \<open>Validation\<close>

definition ValidRlimitResources :: "string list" where
  "ValidRlimitResources = [''cpu'', ''fsize'', ''data'', ''stack'', ''core'', ''rss'', ''nproc'',
     ''nofile'', ''memlock'', ''as'', ''locks'', ''sigpending'', ''msgqueue'', ''nice'', ''rtprio'', ''rttime'']"

definition validateViolationAction :: "msg_part list \<Rightarrow> secret_violation_action option \<Rightarrow> go_error option" where
  "validateViolationAction path a =
     (case a of
        None \<Rightarrow> None
      | Some a \<Rightarrow>
          if vaType a = ''block'' \<or> vaType a = ''block_and_log'' \<or> vaType a = ''block_and_terminate'' then None
          else if vaType a = '''' then Some (Errorf (path @ [Lit '': type is required'']))
          else Some (Errorf (path @ [Lit '': unsupported type '', Quoted (vaType a)])))"

definition contains_any :: "string \<Rightarrow> string \<Rightarrow> bool" where
  "contains_any s chars \<longleftrightarrow> list_ex (\<lambda>c. c \<in> set chars) s"

definition nul :: char where "nul = char_of (0 :: nat)"
definition cr :: char where "cr = char_of (13 :: nat)"
definition lf :: char where "lf = char_of (10 :: nat)"

definition check_host :: "msg_part list \<Rightarrow> nat \<Rightarrow> secret_host_pattern \<Rightarrow> go_error option" where
  "check_host prefix j h =
     (if hpType h = ''exact'' \<or> hpType h = ''wildcard'' then
        (if trim_space (hpValue h) = []
         then Some (Errorf (prefix @ [Lit ''.allowed_hosts['', Num (int j), Lit '']: value is required for type '', Quoted (hpType h)]))
         else None)
      else if hpType h = ''any'' then None
      else Some (Errorf (prefix @ [Lit ''.allowed_hosts['', Num (int j), Lit '']: invalid type '', Quoted (hpType h)])))"

definition check_secret :: "nat \<Rightarrow> secret_entry \<Rightarrow> go_error option" where
  "check_secret i e =
     (let prefix = [Lit ''network.secrets.entries['', Num (int i), Lit '']''] in
      if trim_space (seEnvVar e) = [] then Some (Errorf (prefix @ [Lit '': env_var is required'']))
      else if contains_any (seEnvVar e) [CHR ''='', nul]
        then Some (Errorf (prefix @ [Lit '': env_var cannot contain '=' or NUL'']))
      else if seValue e = [] then
        (if length (seSource e) > 0
         then Some (Errorf (prefix @ [Lit '': source-only secrets are not supported; provide value'']))
         else Some (Errorf (prefix @ [Lit '': value is required''])))
      else if sePlaceholder e \<noteq> [] \<and> contains_any (sePlaceholder e) [nul, cr, lf]
        then Some (Errorf (prefix @ [Lit '': placeholder cannot contain NUL, CR, or LF'']))
      else if sePlaceholder e \<noteq> [] \<and> length (sePlaceholder e) > 1024
        then Some (Errorf (prefix @ [Lit '': placeholder exceeds 1024 bytes'']))
      else if length (seAllowedHosts e) = 0
        then Some (Errorf (prefix @ [Lit '': allowed_hosts is required'']))
      else or_else (first_error (check_host prefix) 0 (seAllowedHosts e))
        (validateViolationAction (prefix @ [Lit ''.on_violation'']) (seOnViolation e)))"

definition validateSecrets :: "network_spec \<Rightarrow> go_error option" where
  "validateSecrets ns =
     (case nsSecrets ns of
        None \<Rightarrow> None
      | Some s \<Rightarrow>
          if length (scEntries s) = 0 then None
          else if \<not> nsEnabled ns then Some (errorf ''network.secrets require network.enabled'')
          else or_else (validateViolationAction [Lit ''network.secrets.on_violation''] (scOnViolation s))
            (first_error check_secret 0 (scEntries s)))"

definition check_image :: "rootfs_source \<Rightarrow> go_error option" where
  "check_image im =
     (if rfType im = '''' \<or> rfType im = ''oci'' then
        (if trim_space (rfReference im) = [] then Some (errorf ''image.reference is required'') else None)
      else if rfType im = ''bind'' \<or> rfType im = ''disk_image'' then
        (if trim_space (rfPath im) = []
           then Some (Errorf [Lit ''image.path is required for type '', Quoted (rfType im)])
         else if rfType im = ''disk_image'' \<and> trim_space (rfFormat im) = []
           then Some (errorf ''image.format is required for disk_image'')
         else None)
      else Some (Errorf [Lit ''invalid image.type '', Quoted (rfType im)]))"

definition mount_error :: "nat \<Rightarrow> msg_part list \<Rightarrow> go_error" where
  "mount_error i m = Errorf ([Lit ''mount['', Num (int i)] @ m)"

definition check_mount :: "nat \<Rightarrow> volume_mount \<Rightarrow> go_error option" where
  "check_mount i m =
     (if vmGuest m = [] then Some (mount_error i [Lit '']: guest is required''])
      else
       (let typed =
          (if vmType m = ''bind'' then
             (if vmHost m = [] then Some (mount_error i [Lit '']: host is required'']) else None)
           else if vmType m = ''disk_image'' then
             (if vmHost m = [] then Some (mount_error i [Lit '']: host is required''])
              else if vmFormat m = [] then Some (mount_error i [Lit '']: format is required for disk_image''])
              else None)
           else if vmType m = ''named'' then
             (if vmName m = [] then Some (mount_error i [Lit '']: name is required'']) else None)
           else if vmType m = ''tmpfs'' then None
           else Some (mount_error i [Lit '']: invalid type '', Quoted (vmType m)]))
        in or_else typed
          (if (moOverrideUID (vmOptions m) = None) \<noteq> (moOverrideGID (vmOptions m) = None)
           then Some (mount_error i [Lit '']: override_uid and override_gid must be set together''])
           else None)))"

definition patch_error :: "nat \<Rightarrow> msg_part list \<Rightarrow> go_error" where
  "patch_error i m = Errorf ([Lit ''patch['', Num (int i)] @ m)"

definition check_patch :: "nat \<Rightarrow> patch \<Rightarrow> go_error option" where
  "check_patch i p =
     (if paType p = ''text'' \<or> paType p = ''file'' \<or> paType p = ''append'' then
        (if paPath p = [] then Some (patch_error i [Lit '']: path is required'']) else None)
      else if paType p = ''mkdir'' \<or> paType p = ''remove'' then
        (if paPath p = [] then Some (patch_error i [Lit '']: path is required'']) else None)
      else if paType p = ''copy_file'' \<or> paType p = ''copy_dir'' then
        (if paSrc p = [] \<or> paDst p = [] then Some (patch_error i [Lit '']: src and dst are required'']) else None)
      else if paType p = ''symlink'' then
        (if paTarget p = [] \<or> paLink p = [] then Some (patch_error i [Lit '']: target and link are required'']) else None)
      else Some (patch_error i [Lit '']: invalid type '', Quoted (paType p)]))"

definition check_rlimit :: "nat \<Rightarrow> rlimit \<Rightarrow> go_error option" where
  "check_rlimit i r =
     (if rlResource r \<notin> set ValidRlimitResources
        then Some (Errorf [Lit ''rlimits['', Num (int i), Lit '']: invalid resource '', Quoted (rlResource r)])
      else if rlHard r < rlSoft r
        then Some (Errorf [Lit ''rlimits['', Num (int i), Lit '']: soft ('', Num (uint (rlSoft r)),
               Lit '') must not exceed hard ('', Num (uint (rlHard r)), Lit '')''])
      else None)"

definition ValidateSpec :: "spec \<Rightarrow> go_error option" where
  "ValidateSpec s =
     (let name = trim_space (spName s) in
      if name = [] then Some (errorf ''name is required'')
      else if length name > 128 then Some (errorf ''name exceeds 128 bytes'')
      else or_else (check_image (spImage s))
        (if resVCPUs (spResources s) = 0 then Some (errorf ''resources.vcpus must be >= 1'')
         else if resMemoryMiB (spResources s) = 0 then Some (errorf ''resources.memory_mib must be >= 1'')
         else or_else (first_error check_mount 0 (spMounts s))
           (or_else (first_error check_patch 0 (spPatches s))
             (or_else (first_error check_rlimit 0 (spRlimits s))
               (validateSecrets (spNetwork s))))))"

section \<open>What validation accepts\<close>

text \<open>
  The same rules as one predicate per part, without an order of checks or messages: what a
  spec that passed \<open>ValidateSpec\<close> satisfies, and all it has to satisfy.
\<close>

definition valid_action :: "secret_violation_action option \<Rightarrow> bool" where
  "valid_action a \<longleftrightarrow> (case a of None \<Rightarrow> True
     | Some x \<Rightarrow> vaType x \<in> {''block'', ''block_and_log'', ''block_and_terminate''})"

definition valid_host :: "secret_host_pattern \<Rightarrow> bool" where
  "valid_host h \<longleftrightarrow> (hpType h \<in> {''exact'', ''wildcard''} \<and> trim_space (hpValue h) \<noteq> []) \<or> hpType h = ''any''"

definition valid_secret :: "secret_entry \<Rightarrow> bool" where
  "valid_secret e \<longleftrightarrow>
     trim_space (seEnvVar e) \<noteq> [] \<and> CHR ''='' \<notin> set (seEnvVar e) \<and> nul \<notin> set (seEnvVar e) \<and>
     seValue e \<noteq> [] \<and> {nul, cr, lf} \<inter> set (sePlaceholder e) = {} \<and> length (sePlaceholder e) \<le> 1024 \<and>
     seAllowedHosts e \<noteq> [] \<and> (\<forall>h \<in> set (seAllowedHosts e). valid_host h) \<and> valid_action (seOnViolation e)"

definition valid_network :: "network_spec \<Rightarrow> bool" where
  "valid_network ns \<longleftrightarrow> (case nsSecrets ns of None \<Rightarrow> True
     | Some s \<Rightarrow> scEntries s = [] \<or>
        nsEnabled ns \<and> valid_action (scOnViolation s) \<and> (\<forall>e \<in> set (scEntries s). valid_secret e))"

definition valid_image :: "rootfs_source \<Rightarrow> bool" where
  "valid_image im \<longleftrightarrow>
     (rfType im \<in> {[], ''oci''} \<and> trim_space (rfReference im) \<noteq> []) \<or>
     (rfType im = ''bind'' \<and> trim_space (rfPath im) \<noteq> []) \<or>
     (rfType im = ''disk_image'' \<and> trim_space (rfPath im) \<noteq> [] \<and> trim_space (rfFormat im) \<noteq> [])"

definition valid_mount :: "volume_mount \<Rightarrow> bool" where
  "valid_mount m \<longleftrightarrow> vmGuest m \<noteq> [] \<and>
     ((vmType m = ''bind'' \<and> vmHost m \<noteq> []) \<or>
      (vmType m = ''disk_image'' \<and> vmHost m \<noteq> [] \<and> vmFormat m \<noteq> []) \<or>
      (vmType m = ''named'' \<and> vmName m \<noteq> []) \<or> vmType m = ''tmpfs'') \<and>
     (moOverrideUID (vmOptions m) = None \<longleftrightarrow> moOverrideGID (vmOptions m) = None)"

definition valid_patch :: "patch \<Rightarrow> bool" where
  "valid_patch p \<longleftrightarrow>
     (paType p \<in> {''text'', ''file'', ''append'', ''mkdir'', ''remove''} \<and> paPath p \<noteq> []) \<or>
     (paType p \<in> {''copy_file'', ''copy_dir''} \<and> paSrc p \<noteq> [] \<and> paDst p \<noteq> []) \<or>
     (paType p = ''symlink'' \<and> paTarget p \<noteq> [] \<and> paLink p \<noteq> [])"

definition valid_rlimit :: "rlimit \<Rightarrow> bool" where
  "valid_rlimit r \<longleftrightarrow> rlResource r \<in> set ValidRlimitResources \<and> rlSoft r \<le> rlHard r"

definition valid_spec :: "spec \<Rightarrow> bool" where
  "valid_spec s \<longleftrightarrow>
     trim_space (spName s) \<noteq> [] \<and> length (trim_space (spName s)) \<le> 128 \<and> valid_image (spImage s) \<and>
     resVCPUs (spResources s) \<noteq> 0 \<and> resMemoryMiB (spResources s) \<noteq> 0 \<and>
     (\<forall>m \<in> set (spMounts s). valid_mount m) \<and> (\<forall>p \<in> set (spPatches s). valid_patch p) \<and>
     (\<forall>r \<in> set (spRlimits s). valid_rlimit r) \<and> valid_network (spNetwork s)"

lemma validateViolationAction_None: "validateViolationAction p a = None \<longleftrightarrow> valid_action a"
  by (auto simp: validateViolationAction_def valid_action_def split: option.splits)

lemma check_host_None: "check_host p j h = None \<longleftrightarrow> valid_host h"
  by (simp add: check_host_def valid_host_def)

lemma contains_any_iff: "contains_any s cs \<longleftrightarrow> set cs \<inter> set s \<noteq> {}"
  by (auto simp: contains_any_def list_ex_iff)

lemma check_hosts_None: "first_error (check_host p) 0 hs = None \<longleftrightarrow> (\<forall>h \<in> set hs. valid_host h)"
  by (rule first_error_None_set) (rule check_host_None)

lemma check_secret_None: "check_secret i e = None \<longleftrightarrow> valid_secret e"
  by (auto simp: check_secret_def valid_secret_def Let_def contains_any_iff check_hosts_None
      validateViolationAction_None split: option.splits if_splits)

lemma validateSecrets_None: "validateSecrets ns = None \<longleftrightarrow> valid_network ns"
  by (auto simp: validateSecrets_def valid_network_def validateViolationAction_None
      first_error_None_set [OF check_secret_None] split: option.splits)

lemma check_image_None: "check_image im = None \<longleftrightarrow> valid_image im"
  by (simp add: check_image_def valid_image_def)

lemma check_mount_None: "check_mount i m = None \<longleftrightarrow> valid_mount m"
  by (auto simp: check_mount_def valid_mount_def Let_def split: option.splits if_splits)

lemma check_patch_None: "check_patch i p = None \<longleftrightarrow> valid_patch p"
  by (simp add: check_patch_def valid_patch_def)

lemma check_rlimit_None: "check_rlimit i r = None \<longleftrightarrow> valid_rlimit r"
  by (auto simp: check_rlimit_def valid_rlimit_def)

lemmas spec_checks_None =
  check_image_None validateSecrets_None first_error_None_set [OF check_mount_None]
  first_error_None_set [OF check_patch_None] first_error_None_set [OF check_rlimit_None]

text \<open>
  Claim C35: \<open>ValidateSpec\<close> accepts a create body exactly when every part satisfies its rules:
  a name of at most 128 bytes after trimming, an image with what its type requires, resources,
  mounts, patches and rlimits in order, and secrets only on an enabled network, each with a
  usable variable, an inline value and hosts. No rule is skipped on any branch.
\<close>

theorem ValidateSpec_iff: "ValidateSpec s = None \<longleftrightarrow> valid_spec s"
  by (auto simp: ValidateSpec_def valid_spec_def Let_def spec_checks_None)

end
