(* ===== verification/Spec_Ops.thy ===== *)
theory Spec_Ops
  imports Sandbox_Spec
begin

text \<open>
  The operations of \<open>internal/sandbox/sandbox.go\<close> that produce a spec: the defaults
  (\<open>NormalizeSpec\<close>), the field-by-field copy (\<open>cloneSpec\<close>) and the redaction of secret
  values for customer APIs (\<open>SpecToJSONRedacted\<close>, up to the final \<open>json.Marshal\<close>).
\<close>

section \<open>Defaults\<close>

text \<open>
  Each \<open>if field == zero { field = default }\<close> of the source assigns one field, and the fields
  are independent of each other.
\<close>

definition default_str :: "string \<Rightarrow> string \<Rightarrow> string" where
  "default_str d x = (if x = [] then d else x)"

definition normalize_policy :: "network_policy \<Rightarrow> network_policy" where
  "normalize_policy p = p\<lparr>npDefaultEgress := default_str ActionDeny (npDefaultEgress p),
                          npDefaultIngress := default_str ActionDeny (npDefaultIngress p)\<rparr>"

definition normalize_resources :: "resources \<Rightarrow> resources" where
  "normalize_resources r = r\<lparr>resVCPUs := (if resVCPUs r = 0 then 1 else resVCPUs r),
                             resMemoryMiB := (if resMemoryMiB r = 0 then 512 else resMemoryMiB r)\<rparr>"

definition normalize_network :: "network_spec \<Rightarrow> network_spec" where
  "normalize_network n = (case nsPolicy n of None \<Rightarrow> n | Some p \<Rightarrow> n\<lparr>nsPolicy := Some (normalize_policy p)\<rparr>)"

definition NormalizeSpec :: "spec \<Rightarrow> spec" where
  "NormalizeSpec s = s\<lparr>spImage := (spImage s)\<lparr>rfType := default_str ''oci'' (rfType (spImage s))\<rparr>,
     spResources := normalize_resources (spResources s),
     spPullPolicy := default_str PullIfMissing (spPullPolicy s),
     spSecurityProfile := default_str SecurityDefault (spSecurityProfile s),
     spNetwork := normalize_network (spNetwork s)\<rparr>"

definition normalized :: "spec \<Rightarrow> bool" where
  "normalized s \<longleftrightarrow>
     rfType (spImage s) \<noteq> [] \<and> resVCPUs (spResources s) \<noteq> 0 \<and> resMemoryMiB (spResources s) \<noteq> 0 \<and>
     spPullPolicy s \<noteq> [] \<and> spSecurityProfile s \<noteq> [] \<and>
     (case nsPolicy (spNetwork s) of None \<Rightarrow> True
      | Some p \<Rightarrow> npDefaultEgress p \<noteq> [] \<and> npDefaultIngress p \<noteq> [])"

lemma default_str_simps [simp]:
  "default_str d x = [] \<longleftrightarrow> d = [] \<and> x = []" "x \<noteq> [] \<Longrightarrow> default_str d x = x"
  by (simp_all add: default_str_def)

lemma normalize_network_simps [simp]:
  "nsPolicy (normalize_network n) = map_option normalize_policy (nsPolicy n)"
  "nsEnabled (normalize_network n) = nsEnabled n"
  "nsSecrets (normalize_network n) = nsSecrets n"
  by (simp_all add: normalize_network_def split: option.split)

lemma NormalizeSpec_simps [simp]:
  "spName (NormalizeSpec s) = spName s"
  "spMounts (NormalizeSpec s) = spMounts s"
  "spLabels (NormalizeSpec s) = spLabels s"
  "spRuntime (NormalizeSpec s) = spRuntime s"
  "spLifecycle (NormalizeSpec s) = spLifecycle s"
  "spNetwork (NormalizeSpec s) = normalize_network (spNetwork s)"
  "spResources (NormalizeSpec s) = normalize_resources (spResources s)"
  by (simp_all add: NormalizeSpec_def)

lemma normalized_NormalizeSpec: "normalized (NormalizeSpec s)"
  by (simp add: normalized_def NormalizeSpec_def normalize_resources_def normalize_policy_def split: option.split)

lemma normalize_policy_id: "npDefaultEgress p \<noteq> [] \<Longrightarrow> npDefaultIngress p \<noteq> [] \<Longrightarrow> normalize_policy p = p"
  by (simp add: normalize_policy_def)

lemma normalize_network_id:
  "(case nsPolicy n of None \<Rightarrow> True | Some p \<Rightarrow> npDefaultEgress p \<noteq> [] \<and> npDefaultIngress p \<noteq> []) \<Longrightarrow>
     normalize_network n = n"
  by (cases n) (auto simp: normalize_network_def normalize_policy_id split: option.splits)

lemma normalize_resources_id: "resVCPUs r \<noteq> 0 \<Longrightarrow> resMemoryMiB r \<noteq> 0 \<Longrightarrow> normalize_resources r = r"
  by (simp add: normalize_resources_def)

lemma NormalizeSpec_normalized: "normalized s \<Longrightarrow> NormalizeSpec s = s"
  by (simp add: normalized_def NormalizeSpec_def normalize_network_id normalize_resources_id)

text \<open>
  Filling in defaults is idempotent and leaves nothing unset: image type, CPUs,
  memory, pull policy and security profile have a value, and every network policy names an
  action for both directions (deny where the request named none).
\<close>

theorem NormalizeSpec_idem:
  "NormalizeSpec (NormalizeSpec s) = NormalizeSpec s \<and> normalized (NormalizeSpec s)"
  using NormalizeSpec_normalized [OF normalized_NormalizeSpec] normalized_NormalizeSpec by blast

section \<open>Deep copies\<close>

text \<open>
  The copies of the parts: \<open>append([]T(nil), xs...)\<close> for a slice of scalars, the loop of
  \<open>copy_map\<close> for a map, a new cell for a pointer, an element-wise loop where the elements
  hold references themselves.
\<close>

definition copy_slice :: "'a list \<Rightarrow> 'a list" where
  "copy_slice xs = [] @ xs"

definition copy_ptr :: "'a option \<Rightarrow> 'a option" where
  "copy_ptr p = (case p of None \<Rightarrow> None | Some v \<Rightarrow> Some v)"

lemma copy_slice_id [simp]: "copy_slice xs = xs"
  by (simp add: copy_slice_def)

lemma copy_ptr_id [simp]: "copy_ptr p = p"
  by (simp add: copy_ptr_def split: option.split)

definition clone_mount :: "volume_mount \<Rightarrow> volume_mount" where
  "clone_mount m = m\<lparr>vmOptions := (vmOptions m)\<lparr>moOverrideUID := copy_ptr (moOverrideUID (vmOptions m)),
                                     moOverrideGID := copy_ptr (moOverrideGID (vmOptions m))\<rparr>,
                     vmSizeMiB := copy_ptr (vmSizeMiB m), vmQuotaMiB := copy_ptr (vmQuotaMiB m)\<rparr>"

definition clone_patch :: "patch \<Rightarrow> patch" where
  "clone_patch p = p\<lparr>paContent := (case paContent p of None \<Rightarrow> None
                        | Some c \<Rightarrow> Some (c\<lparr>pcBytes := copy_slice (pcBytes c)\<rparr>)),
                     paMode := copy_ptr (paMode p)\<rparr>"

definition clone_rule :: "network_rule \<Rightarrow> network_rule" where
  "clone_rule r = r\<lparr>nrDestination := copy_slice (nrDestination r),
                    nrProtocols := copy_slice (nrProtocols r), nrPorts := copy_slice (nrPorts r)\<rparr>"

definition clone_policy :: "network_policy \<Rightarrow> network_policy" where
  "clone_policy p = p\<lparr>npRules := map clone_rule (npRules p)\<rparr>"

definition clone_injection :: "secret_injection \<Rightarrow> secret_injection" where
  "clone_injection i = i\<lparr>siHeaders := copy_ptr (siHeaders i), siBasicAuth := copy_ptr (siBasicAuth i),
                         siQueryParams := copy_ptr (siQueryParams i), siBody := copy_ptr (siBody i)\<rparr>"

definition clone_secret :: "secret_entry \<Rightarrow> secret_entry" where
  "clone_secret e = e\<lparr>seSource := copy_slice (seSource e), seAllowedHosts := copy_slice (seAllowedHosts e),
                      seRequireTLSIdentity := copy_ptr (seRequireTLSIdentity e),
                      seOnViolation := copy_ptr (seOnViolation e),
                      seInjection := clone_injection (seInjection e)\<rparr>"

definition clone_secrets :: "secrets_config \<Rightarrow> secrets_config" where
  "clone_secrets s = s\<lparr>scOnViolation := copy_ptr (scOnViolation s), scEntries := map clone_secret (scEntries s)\<rparr>"

definition clone_network :: "network_spec \<Rightarrow> network_spec" where
  "clone_network n = n\<lparr>nsPolicy := map_option clone_policy (nsPolicy n),
                       nsSecrets := map_option clone_secrets (nsSecrets n),
                       nsMaxConnections := copy_ptr (nsMaxConnections n)\<rparr>"

definition clone_runtime :: "runtime_options \<Rightarrow> runtime_options" where
  "clone_runtime r = r\<lparr>roScripts := copy_map [] (roScripts r), roEntrypoint := copy_slice (roEntrypoint r),
                       roCmd := copy_slice (roCmd r), roWorkdir := copy_ptr (roWorkdir r),
                       roShell := copy_ptr (roShell r), roUser := copy_ptr (roUser r),
                       roLogLevel := copy_ptr (roLogLevel r)\<rparr>"

definition clone_init :: "handoff_init \<Rightarrow> handoff_init" where
  "clone_init i = i\<lparr>hiArgs := copy_slice (hiArgs i), hiEnv := copy_slice (hiEnv i)\<rparr>"

definition cloneSpec :: "spec \<Rightarrow> spec" where
  "cloneSpec s = s\<lparr>spEnv := copy_slice (spEnv s),
     spLabels := copy_map [] (spLabels s),
     spRlimits := copy_slice (spRlimits s),
     spMounts := map clone_mount (spMounts s),
     spPatches := map clone_patch (spPatches s),
     spRuntime := clone_runtime (spRuntime s),
     spNetwork := clone_network (spNetwork s),
     spInit := map_option clone_init (spInit s),
     spResources := (spResources s)\<lparr>resDiskSizeMiB := copy_ptr (resDiskSizeMiB (spResources s))\<rparr>,
     spLifecycle := (spLifecycle s)\<lparr>lpMaxDurationSecs := copy_ptr (lpMaxDurationSecs (spLifecycle s)),
                                    lpIdleTimeoutSecs := copy_ptr (lpIdleTimeoutSecs (spLifecycle s))\<rparr>\<rparr>"

definition spec_wf :: "spec \<Rightarrow> bool" where
  "spec_wf s \<longleftrightarrow> gm_wf (spLabels s) \<and> gm_wf (roScripts (spRuntime s))"

lemma map_ids: "f = id \<Longrightarrow> map f xs = xs" "f = id \<Longrightarrow> map_option f p = p"
  by (simp_all add: option.map_id)

lemma clone_mount_id [simp]: "clone_mount = id"
  by (simp add: fun_eq_iff clone_mount_def)

lemma clone_patch_id [simp]: "clone_patch = id"
proof
  fix p :: patch
  show "clone_patch p = id p"
    by (cases p) (simp add: clone_patch_def split: option.split)
qed

lemma clone_rule_id: "clone_rule = id"
  by (simp add: fun_eq_iff clone_rule_def)

lemma clone_policy_id: "clone_policy = id"
  by (simp add: fun_eq_iff clone_policy_def map_ids clone_rule_id)

lemma clone_injection_id [simp]: "clone_injection = id"
  by (simp add: fun_eq_iff clone_injection_def)

lemma clone_secret_id: "clone_secret = id"
  by (simp add: fun_eq_iff clone_secret_def)

lemma clone_secrets_id: "clone_secrets = id"
  by (simp add: fun_eq_iff clone_secrets_def map_ids clone_secret_id)

lemma clone_network_id [simp]: "clone_network = id"
  by (simp add: fun_eq_iff clone_network_def map_ids clone_policy_id clone_secrets_id)

lemma clone_init_id [simp]: "clone_init = id"
  by (simp add: fun_eq_iff clone_init_def)

lemma cloneSpec_id: "spec_wf s \<Longrightarrow> cloneSpec s = s"
  by (simp add: cloneSpec_def spec_wf_def clone_runtime_def option.map_id)

section \<open>Redaction\<close>

definition redact_entries :: "secrets_config \<Rightarrow> secrets_config" where
  "redact_entries s = s\<lparr>scEntries := map (\<lambda>e. e\<lparr>seValue := []\<rparr>) (scEntries s)\<rparr>"

text \<open>\<open>SpecToJSONRedacted\<close>: the spec it hands to \<open>json.Marshal\<close>.\<close>

definition SpecRedacted :: "spec \<Rightarrow> spec" where
  "SpecRedacted s =
     (let cp = cloneSpec s in
      case nsSecrets (spNetwork cp) of
        None \<Rightarrow> cp
      | Some sc \<Rightarrow> cp\<lparr>spNetwork := (spNetwork cp)\<lparr>nsSecrets := Some (redact_entries sc)\<rparr>\<rparr>)"

definition erase_values :: "spec \<Rightarrow> spec" where
  "erase_values s = s\<lparr>spNetwork := (spNetwork s)\<lparr>nsSecrets := map_option redact_entries (nsSecrets (spNetwork s))\<rparr>\<rparr>"

lemma SpecRedacted_erase: "spec_wf s \<Longrightarrow> SpecRedacted s = erase_values s"
  by (simp add: SpecRedacted_def Let_def cloneSpec_id erase_values_def split: option.split)

text \<open>
  Redaction is non-interference: two specs that differ only in the values of their
  secrets have the same redacted form, in which every value is empty; what is sent to a
  customer carries no information about a secret, and nothing else of the spec is lost.
\<close>

theorem SpecRedacted_noninterference:
  assumes "spec_wf s" and "spec_wf t" and "erase_values s = erase_values t"
  shows "SpecRedacted s = SpecRedacted t \<and>
    (\<forall>sc. nsSecrets (spNetwork (SpecRedacted s)) = Some sc \<longrightarrow> (\<forall>e \<in> set (scEntries sc). seValue e = [])) \<and>
    (nsSecrets (spNetwork s) = None \<longrightarrow> SpecRedacted s = s)"
  using assms by (auto simp: SpecRedacted_erase erase_values_def redact_entries_def)

definition demo_secret_spec :: "string \<Rightarrow> spec" where
  "demo_secret_spec v = zero_spec\<lparr>spNetwork := \<lparr>nsEnabled = True, nsPolicy = None,
     nsSecrets = Some \<lparr>scEntries = [\<lparr>seEnvVar = ''TOKEN'', seValue = v, seSource = [], sePlaceholder = [],
       seAllowedHosts = [\<lparr>hpType = ''any'', hpValue = []\<rparr>],
       seInjection = \<lparr>siHeaders = None, siBasicAuth = None, siQueryParams = None, siBody = None\<rparr>,
       seRequireTLSIdentity = None, seOnViolation = None\<rparr>], scOnViolation = None\<rparr>,
     nsMaxConnections = None\<rparr>\<rparr>"

theorem SpecRedacted_noninterference_witness:
  "SpecRedacted (demo_secret_spec ''hunter2'') = SpecRedacted (demo_secret_spec ''swordfish'')"
  using SpecRedacted_noninterference [of "demo_secret_spec ''hunter2''" "demo_secret_spec ''swordfish''"]
  by (simp add: demo_secret_spec_def zero_spec_def spec_wf_def erase_values_def redact_entries_def)

end
