(* ===== verification/Sandbox_Record.thy ===== *)
theory Sandbox_Record
  imports Spec_Ops
begin

text \<open>
  The replicated objects of \<open>internal/sandbox\<close>: the sandbox with its observed status and its
  fencing generation (\<open>sandbox.go\<close>), the volume (\<open>volume.go\<close>), and their conversions to and
  from the wire messages (\<open>proto.go\<close>). The JSON text of a spec or of a label map inside a
  message is made by \<open>encoding/json\<close>, a parameter \<open>json\<close> of the conversions.
\<close>

section \<open>Status and sandbox\<close>

record sb_status =
  stPhase :: status_phase
  stMessage :: string
  stLocalName :: string
  stStartedAt :: gotime
  stStoppedAt :: gotime
  stUpdatedAt :: gotime

definition zero_status :: sb_status where
  "zero_status = \<lparr>stPhase = [], stMessage = [], stLocalName = [], stStartedAt = zero_time,
     stStoppedAt = zero_time, stUpdatedAt = zero_time\<rparr>"

record sandbox =
  sbID :: string
  sbName :: string
  sbSlug :: string
  sbSpec :: spec
  sbNodeID :: string
  sbDesired :: desired_state
  sbStatus :: sb_status
  sbEphemeral :: bool
  sbLabels :: labels
  sbCreatedAt :: gotime
  sbUpdatedAt :: gotime
  sbGeneration :: int

definition sandbox_wf :: "sandbox \<Rightarrow> bool" where
  "sandbox_wf s \<longleftrightarrow> spec_wf (sbSpec s) \<and> gm_wf (sbLabels s)"

text \<open>\<open>Clone\<close>: a shallow copy of the struct with the references copied.\<close>

definition CloneSandbox :: "sandbox \<Rightarrow> sandbox" where
  "CloneSandbox s = s\<lparr>sbSpec := cloneSpec (sbSpec s), sbLabels := copy_map [] (sbLabels s)\<rparr>"

lemma CloneSandbox_same: "sandbox_wf s \<Longrightarrow> CloneSandbox s = s"
  by (simp add: CloneSandbox_def sandbox_wf_def cloneSpec_id)

text \<open>
  A clone carries the same content as the original, field by field through the
  nested spec: no field is dropped or changed by the copy.
\<close>

theorem CloneSandbox_id:
  assumes "sandbox_wf s" shows "CloneSandbox s = s"
  using assms by (rule CloneSandbox_same)

lemma CloneSandbox_keeps:
  "sbID (CloneSandbox s) = sbID s" "sbName (CloneSandbox s) = sbName s" "sbNodeID (CloneSandbox s) = sbNodeID s"
  "sbDesired (CloneSandbox s) = sbDesired s" "sbStatus (CloneSandbox s) = sbStatus s"
  "sbGeneration (CloneSandbox s) = sbGeneration s"
  by (simp_all add: CloneSandbox_def)

text \<open>The fencing check of a status report against the stored assignment generation.\<close>

definition CheckAssignmentGeneration :: "int \<Rightarrow> int \<Rightarrow> go_error option" where
  "CheckAssignmentGeneration storedGen reportedGen =
     (if storedGen > 0 \<and> reportedGen \<noteq> storedGen
      then Some (Wrapped [Lit ''reported '', Num reportedGen, Lit '' current '', Num storedGen] ErrStaleAssignment)
      else None)"

lemma CheckAssignmentGeneration_None:
  "CheckAssignmentGeneration g r = None \<longleftrightarrow> g \<le> 0 \<or> r = g"
  by (auto simp: CheckAssignmentGeneration_def)

definition sandbox_NewID :: "string result \<Rightarrow> string result" where
  "sandbox_NewID rand = (case rand of Inl e \<Rightarrow> Inl e | Inr b \<Rightarrow> Inr (hex_encode b))"

section \<open>Volumes\<close>

type_synonym volume_kind = string

abbreviation VolumeKindDefault :: volume_kind where "VolumeKindDefault \<equiv> ''default''"
abbreviation VolumeKindNamed :: volume_kind where "VolumeKindNamed \<equiv> ''named''"

type_synonym volume_status = string

abbreviation VolumeStatusReady :: volume_status where "VolumeStatusReady \<equiv> ''ready''"

record volume =
  volID :: string
  volName :: string
  volKind :: volume_kind
  volStatus :: volume_status
  volNodeID :: string
  volUsedBytes :: "64 word option"
  volCapacityBytes :: "64 word option"
  volCapacityGiB :: "32 word option"
  volLabels :: labels
  volCreatedAt :: gotime
  volUpdatedAt :: gotime

definition CloneVolume :: "volume \<Rightarrow> volume" where
  "CloneVolume v = v\<lparr>volLabels := copy_map [] (volLabels v), volUsedBytes := copy_ptr (volUsedBytes v),
     volCapacityBytes := copy_ptr (volCapacityBytes v), volCapacityGiB := copy_ptr (volCapacityGiB v)\<rparr>"

lemma CloneVolume_id: "gm_wf (volLabels v) \<Longrightarrow> CloneVolume v = v"
  by (simp add: CloneVolume_def)

lemma CloneVolume_keeps:
  "volID (CloneVolume v) = volID v" "volName (CloneVolume v) = volName v" "volKind (CloneVolume v) = volKind v"
  "volNodeID (CloneVolume v) = volNodeID v"
  by (simp_all add: CloneVolume_def)

text \<open>\<open>stringsTrim\<close>: its two loops cut spaces and tabs at the front, then at the back.\<close>

definition blank :: "char \<Rightarrow> bool" where
  "blank c \<longleftrightarrow> c = CHR '' '' \<or> c = char_of (9 :: nat)"

fun trim_front :: "string \<Rightarrow> string" where
  "trim_front [] = []"
| "trim_front (c # s) = (if blank c then trim_front s else c # s)"

definition stringsTrim :: "string \<Rightarrow> string" where
  "stringsTrim s = rev (trim_front (rev (trim_front s)))"

lemma trim_front_Nil: "trim_front s = [] \<longleftrightarrow> (\<forall>c \<in> set s. blank c)"
  by (induction s) auto

lemma trim_front_subset: "set (trim_front s) \<subseteq> set s"
  by (induction s) auto

lemma stringsTrim_Nil: "stringsTrim s = [] \<longleftrightarrow> (\<forall>c \<in> set s. blank c)"
proof -
  have "(\<forall>c \<in> set (trim_front s). blank c) \<longleftrightarrow> (\<forall>c \<in> set s. blank c)"
    by (induction s) auto
  then show ?thesis
    by (simp add: stringsTrim_def trim_front_Nil)
qed

definition ValidateVolumeCreate :: "string \<Rightarrow> 32 word option \<Rightarrow> go_error option" where
  "ValidateVolumeCreate name capacityGiB =
     (if stringsTrim name = [] then Some (errorf ''volume name is required'')
      else if capacityGiB = Some 0 then Some (errorf ''capacity_gib must be >= 1 when set'')
      else None)"

section \<open>Wire messages\<close>

record json_codec =
  jSpec :: "spec \<Rightarrow> string"
  jUnspec :: "string \<Rightarrow> spec result"
  jLabels :: "labels \<Rightarrow> string"
  jUnlabels :: "string \<Rightarrow> labels option"

record status_proto =
  spPhase :: string
  spLocalName :: string
  spMessage :: string
  spStartedAt :: int
  spStoppedAt :: int
  spUpdatedAt :: int

record sandbox_proto =
  pbId :: string
  pbName :: string
  pbSlug :: string
  pbSpecJson :: string
  pbNodeId :: string
  pbDesired :: string
  pbStatus :: "status_proto option"
  pbEphemeral :: bool
  pbLabelsJson :: string
  pbCreatedAt :: int
  pbUpdatedAt :: int
  pbGeneration :: int

record volume_proto =
  pvId :: string
  pvName :: string
  pvKind :: string
  pvStatus :: string
  pvNodeId :: string
  pvUsedBytes :: "64 word option"
  pvCapacityBytes :: "64 word option"
  pvCapacityGib :: "32 word option"
  pvLabelsJson :: string
  pvCreatedAt :: int
  pvUpdatedAt :: int

text \<open>
  A timestamp goes out as its Unix nanoseconds unless it is the zero time (then the field
  keeps its zero value), and comes back only if positive.
\<close>

definition nano_out :: "gotime \<Rightarrow> int" where
  "nano_out t = (if is_zero_time t then 0 else unix_nano t)"

definition nano_in :: "int \<Rightarrow> gotime" where
  "nano_in n = (if n > 0 then from_unix_nano n else zero_time)"

definition SpecFromJSON :: "json_codec \<Rightarrow> string \<Rightarrow> spec result" where
  "SpecFromJSON json b =
     (if b = [] then Inr zero_spec
      else case jUnspec json b of Inl e \<Rightarrow> Inl e | Inr s \<Rightarrow> Inr (NormalizeSpec s))"

definition StatusToProto :: "sb_status \<Rightarrow> status_proto" where
  "StatusToProto st = \<lparr>spPhase = stPhase st, spLocalName = stLocalName st, spMessage = stMessage st,
     spStartedAt = nano_out (stStartedAt st), spStoppedAt = nano_out (stStoppedAt st),
     spUpdatedAt = nano_out (stUpdatedAt st)\<rparr>"

definition StatusFromProto :: "status_proto option \<Rightarrow> sb_status" where
  "StatusFromProto p = (case p of None \<Rightarrow> zero_status | Some p \<Rightarrow>
     \<lparr>stPhase = spPhase p, stMessage = spMessage p, stLocalName = spLocalName p,
      stStartedAt = nano_in (spStartedAt p), stStoppedAt = nano_in (spStoppedAt p),
      stUpdatedAt = nano_in (spUpdatedAt p)\<rparr>)"

definition labels_out :: "json_codec \<Rightarrow> labels \<Rightarrow> string" where
  "labels_out json m = (if length m > 0 then jLabels json m else [])"

definition labels_in :: "json_codec \<Rightarrow> string \<Rightarrow> labels" where
  "labels_in json b = (if length b > 0 then (case jUnlabels json b of None \<Rightarrow> [] | Some m \<Rightarrow> m) else [])"

definition ToProto :: "json_codec \<Rightarrow> sandbox \<Rightarrow> sandbox_proto" where
  "ToProto json s = \<lparr>pbId = sbID s, pbName = sbName s, pbSlug = sbSlug s,
     pbSpecJson = jSpec json (sbSpec s), pbNodeId = sbNodeID s, pbDesired = sbDesired s,
     pbStatus = Some (StatusToProto (sbStatus s)), pbEphemeral = sbEphemeral s,
     pbLabelsJson = labels_out json (sbLabels s), pbCreatedAt = nano_out (sbCreatedAt s),
     pbUpdatedAt = nano_out (sbUpdatedAt s), pbGeneration = sbGeneration s\<rparr>"

definition FromProto :: "json_codec \<Rightarrow> sandbox_proto \<Rightarrow> sandbox" where
  "FromProto json p = \<lparr>sbID = pbId p, sbName = pbName p, sbSlug = pbSlug p,
     sbSpec = (case SpecFromJSON json (pbSpecJson p) of Inl _ \<Rightarrow> zero_spec | Inr s \<Rightarrow> s),
     sbNodeID = pbNodeId p, sbDesired = pbDesired p, sbStatus = StatusFromProto (pbStatus p),
     sbEphemeral = pbEphemeral p, sbLabels = labels_in json (pbLabelsJson p),
     sbCreatedAt = nano_in (pbCreatedAt p), sbUpdatedAt = nano_in (pbUpdatedAt p),
     sbGeneration = pbGeneration p\<rparr>"

definition VolumeToProto :: "json_codec \<Rightarrow> volume \<Rightarrow> volume_proto" where
  "VolumeToProto json v = \<lparr>pvId = volID v, pvName = volName v, pvKind = volKind v, pvStatus = volStatus v,
     pvNodeId = volNodeID v, pvUsedBytes = volUsedBytes v, pvCapacityBytes = volCapacityBytes v,
     pvCapacityGib = volCapacityGiB v, pvLabelsJson = labels_out json (volLabels v),
     pvCreatedAt = nano_out (volCreatedAt v), pvUpdatedAt = nano_out (volUpdatedAt v)\<rparr>"

definition VolumeFromProto :: "json_codec \<Rightarrow> volume_proto \<Rightarrow> volume" where
  "VolumeFromProto json p = \<lparr>volID = pvId p, volName = pvName p, volKind = pvKind p, volStatus = pvStatus p,
     volNodeID = pvNodeId p, volUsedBytes = copy_ptr (pvUsedBytes p),
     volCapacityBytes = copy_ptr (pvCapacityBytes p), volCapacityGiB = copy_ptr (pvCapacityGib p),
     volLabels = labels_in json (pvLabelsJson p), volCreatedAt = nano_in (pvCreatedAt p),
     volUpdatedAt = nano_in (pvUpdatedAt p)\<rparr>"

section \<open>Round trips\<close>

text \<open>The times the code makes: the zero time, or an instant after 1970 within \<open>int64\<close> nanoseconds.\<close>

definition wire_time :: "gotime \<Rightarrow> bool" where
  "wire_time t \<longleftrightarrow> is_zero_time t \<or> (unix_epoch < t \<and> is_int64 (t - unix_epoch))"

lemma nano_round [simp]: "wire_time t \<Longrightarrow> nano_in (nano_out t) = t"
  by (auto simp: wire_time_def nano_in_def nano_out_def unix_nano_def wrap64_id from_unix_nano_def
      is_zero_time_def)

definition wire_status :: "sb_status \<Rightarrow> bool" where
  "wire_status st \<longleftrightarrow> wire_time (stStartedAt st) \<and> wire_time (stStoppedAt st) \<and> wire_time (stUpdatedAt st)"

lemma StatusFromTo [simp]: "wire_status st \<Longrightarrow> StatusFromProto (Some (StatusToProto st)) = st"
  by (simp add: wire_status_def StatusFromProto_def StatusToProto_def)

text \<open>What the conversions need of \<open>encoding/json\<close>: decoding what was encoded for this value.\<close>

definition json_keeps_spec :: "json_codec \<Rightarrow> spec \<Rightarrow> bool" where
  "json_keeps_spec json s \<longleftrightarrow> jSpec json s \<noteq> [] \<and> jUnspec json (jSpec json s) = Inr s"

definition json_keeps_labels :: "json_codec \<Rightarrow> labels \<Rightarrow> bool" where
  "json_keeps_labels json m \<longleftrightarrow> (m \<noteq> [] \<longrightarrow> jLabels json m \<noteq> [] \<and> jUnlabels json (jLabels json m) = Some m)"

lemma labels_round [simp]: "json_keeps_labels json m \<Longrightarrow> labels_in json (labels_out json m) = m"
  by (auto simp: json_keeps_labels_def labels_in_def labels_out_def)


lemma VolumeFromTo:
  assumes "json_keeps_labels json (volLabels v)" and "wire_time (volCreatedAt v)" and "wire_time (volUpdatedAt v)"
  shows "VolumeFromProto json (VolumeToProto json v) = v"
  using assms by (simp add: VolumeFromProto_def VolumeToProto_def)

text \<open>A codec on a few values, to evaluate the conversions.\<close>

definition demo_json :: json_codec where
  "demo_json = \<lparr>jSpec = (\<lambda>s. ''{}'' @ spName s), jUnspec = (\<lambda>b. Inr (zero_spec\<lparr>spName := drop 2 b\<rparr>)),
     jLabels = (\<lambda>m. ''{}''), jUnlabels = (\<lambda>b. Some [])\<rparr>"

definition demo_sandbox :: sandbox where
  "demo_sandbox = \<lparr>sbID = ''s1'', sbName = ''web'', sbSlug = ''web'', sbSpec = zero_spec\<lparr>spName := ''web''\<rparr>,
     sbNodeID = ''n1'', sbDesired = DesiredRunning, sbStatus = zero_status\<lparr>stPhase := PhaseCreated\<rparr>,
     sbEphemeral = False, sbLabels = [], sbCreatedAt = unix_epoch + 5, sbUpdatedAt = unix_epoch + 5,
     sbGeneration = 1\<rparr>"

lemma wire_time_demo: "wire_time (unix_epoch + 5)" "wire_time zero_time"
  by (simp_all add: wire_time_def is_zero_time_def zero_time_def is_int64_def min_int64_def max_int64_def)


theorem CloneSandbox_id_witness: "CloneSandbox demo_sandbox = demo_sandbox"
  by (rule CloneSandbox_id) (simp add: sandbox_wf_def spec_wf_def demo_sandbox_def zero_spec_def)

end
