(* ===== verification/Spec_Json.thy ===== *)
theory Spec_Json
  imports Sandbox_Record
begin

text \<open>
  The hand-written JSON codecs of \<open>internal/sandbox/sandbox.go\<close>, for patch contents and for the
  environment pairs of an init process, over the JSON values they read and write. What
  \<open>encoding/json\<close> does with the Go values the codecs hand it is written out: a \<open>[]byte\<close> is
  rendered as the base64 text of its bytes, and read back from a text or from an array.
\<close>

section \<open>JSON values and base64\<close>

datatype json = JNull | JBool bool | JNum int | JStr string | JArr "json list" | JObj "(string \<times> json) list"

abbreviation json_type_error :: go_error where
  "json_type_error \<equiv> LibraryError ''json: cannot unmarshal''"

definition b64_digit :: "int \<Rightarrow> char" where
  "b64_digit n = char_of (if n < 26 then 65 + n else if n < 52 then 71 + n
     else if n < 62 then n - 4 else if n = 62 then 43 else 47)"

fun base64 :: "string \<Rightarrow> string" where
  "base64 [] = []"
| "base64 [a] = (let n = (of_char a * 65536 :: int) in
     [b64_digit (n div 262144), b64_digit (n div 4096 mod 64), CHR ''='', CHR ''=''])"
| "base64 [a, b] = (let n = (of_char a * 65536 + of_char b * 256 :: int) in
     [b64_digit (n div 262144), b64_digit (n div 4096 mod 64), b64_digit (n div 64 mod 64), CHR ''=''])"
| "base64 (a # b # c # s) = (let n = (of_char a * 65536 + of_char b * 256 + of_char c :: int) in
     [b64_digit (n div 262144), b64_digit (n div 4096 mod 64), b64_digit (n div 64 mod 64),
      b64_digit (n mod 64)] @ base64 s)"

lemma base64_examples:
  "base64 ''M'' = ''TQ==''" "base64 ''Ma'' = ''TWE=''" "base64 ''Man'' = ''TWFu''"
  by code_simp+

text \<open>An array into a \<open>[]byte\<close>: every element a number of one byte; \<open>null\<close> leaves the zero.\<close>

fun json_bytes :: "json list \<Rightarrow> string option" where
  "json_bytes [] = Some []"
| "json_bytes (j # js) =
     (case json_bytes js of
        None \<Rightarrow> None
      | Some bs \<Rightarrow>
          (case j of
             JNum n \<Rightarrow> if 0 \<le> n \<and> n \<le> 255 then Some (char_of (nat n) # bs) else None
           | JNull \<Rightarrow> Some (char_of (0 :: nat) # bs)
           | _ \<Rightarrow> None))"

section \<open>Patch contents\<close>

definition zero_content :: patch_content where
  "zero_content = \<lparr>pcText = [], pcBytes = [], pcIsRaw = False\<rparr>"

definition PatchContent_MarshalJSON :: "patch_content \<Rightarrow> json" where
  "PatchContent_MarshalJSON c =
     (if pcIsRaw c \<or> (pcBytes c \<noteq> [] \<and> pcText c = []) then JStr (base64 (pcBytes c)) else JStr (pcText c))"

definition PatchContent_UnmarshalJSON :: "patch_content \<Rightarrow> json \<Rightarrow> patch_content result" where
  "PatchContent_UnmarshalJSON c j =
     (case j of
        JNull \<Rightarrow> Inr c
      | JStr s \<Rightarrow> Inr (c\<lparr>pcIsRaw := False, pcText := s\<rparr>)
      | JArr js \<Rightarrow>
          (case json_bytes js of
             None \<Rightarrow> Inl json_type_error
           | Some bs \<Rightarrow> Inr (c\<lparr>pcIsRaw := True, pcText := [], pcBytes := bs\<rparr>))
      | _ \<Rightarrow> Inl json_type_error)"

definition PatchContent_IsZero :: "patch_content \<Rightarrow> bool" where
  "PatchContent_IsZero c \<longleftrightarrow> pcText c = [] \<and> length (pcBytes c) = 0 \<and> \<not> pcIsRaw c"

text \<open>A content as it is after one trip through JSON, into a fresh value.\<close>

definition content_image :: "patch_content \<Rightarrow> patch_content" where
  "content_image c = (case PatchContent_UnmarshalJSON zero_content (PatchContent_MarshalJSON c) of
     Inr c' \<Rightarrow> c' | Inl _ \<Rightarrow> zero_content)"

lemma content_image_text: "content_image c = c" if "\<not> pcIsRaw c" "pcBytes c = []"
  using that by (cases c) (simp add: content_image_def PatchContent_MarshalJSON_def PatchContent_UnmarshalJSON_def
      zero_content_def)

lemma content_image_raw:
  "pcIsRaw c \<Longrightarrow> content_image c = \<lparr>pcText = base64 (pcBytes c), pcBytes = [], pcIsRaw = False\<rparr>"
  by (simp add: content_image_def PatchContent_MarshalJSON_def PatchContent_UnmarshalJSON_def zero_content_def)

text \<open>
  Raw patch contents do not survive JSON: bytes that were given as an array of numbers
  are written as a JSON text, the base64 of the bytes, and read back as that text, no longer raw.
\<close>

theorem raw_content_becomes_text:
  assumes "json_bytes js = Some bs" and "PatchContent_UnmarshalJSON zero_content (JArr js) = Inr c"
  shows "pcIsRaw c \<and> pcBytes c = bs \<and>
    PatchContent_UnmarshalJSON zero_content (PatchContent_MarshalJSON c) =
      Inr \<lparr>pcText = base64 bs, pcBytes = [], pcIsRaw = False\<rparr>"
  using assms by (auto simp: PatchContent_UnmarshalJSON_def PatchContent_MarshalJSON_def zero_content_def)

theorem raw_content_becomes_text_witness:
  "PatchContent_UnmarshalJSON zero_content
     (PatchContent_MarshalJSON \<lparr>pcText = [], pcBytes = ''Man'', pcIsRaw = True\<rparr>) =
   Inr \<lparr>pcText = ''TWFu'', pcBytes = [], pcIsRaw = False\<rparr>"
proof -
  have "json_bytes [JNum 77, JNum 97, JNum 110] = Some ''Man''"
    by code_simp
  moreover from this have "PatchContent_UnmarshalJSON zero_content (JArr [JNum 77, JNum 97, JNum 110]) =
      Inr \<lparr>pcText = [], pcBytes = ''Man'', pcIsRaw = True\<rparr>"
    by (simp only: PatchContent_UnmarshalJSON_def json.case option.case) (simp add: zero_content_def)
  ultimately show ?thesis
    using raw_content_becomes_text [of "[JNum 77, JNum 97, JNum 110]"] by (metis base64_examples(3))
qed

section \<open>Environment pairs\<close>

text \<open>\<open>[2]string\<close> from an array: missing elements stay empty, further ones are dropped.\<close>

definition json_text :: "json \<Rightarrow> string option" where
  "json_text j = (case j of JStr s \<Rightarrow> Some s | JNull \<Rightarrow> Some [] | _ \<Rightarrow> None)"

definition json_pair :: "json list \<Rightarrow> (string \<times> string) option" where
  "json_pair js =
     (let e = (\<lambda>i. if i < length js then json_text (js ! i) else Some []) in
      case (e 0, e 1) of (Some k, Some v) \<Rightarrow> Some (k, v) | _ \<Rightarrow> None)"

definition json_member :: "(string \<times> json) list \<Rightarrow> string \<Rightarrow> string option" where
  "json_member m k = (case gm_get m k of None \<Rightarrow> Some [] | Some j \<Rightarrow> json_text j)"

definition EnvPair_UnmarshalJSON :: "env_pair \<Rightarrow> json \<Rightarrow> env_pair result" where
  "EnvPair_UnmarshalJSON p j =
     (case j of
        JNull \<Rightarrow> Inr p
      | JArr js \<Rightarrow>
          (case json_pair js of
             Some (k, v) \<Rightarrow> Inr \<lparr>epKey = k, epValue = v\<rparr>
           | None \<Rightarrow> Inl json_type_error)
      | JObj m \<Rightarrow>
          (case (json_member m ''key'', json_member m ''value'') of
             (Some k, Some v) \<Rightarrow> Inr \<lparr>epKey = k, epValue = v\<rparr>
           | _ \<Rightarrow> Inl json_type_error)
      | _ \<Rightarrow> Inl json_type_error)"

definition EnvPair_MarshalJSON :: "env_pair \<Rightarrow> json" where
  "EnvPair_MarshalJSON p = JArr [JStr (epKey p), JStr (epValue p)]"

text \<open>
  An environment pair is read back from the tuple it is written as, whatever the
  receiver held, and the legacy object form denotes the same pair.
\<close>

theorem EnvPair_roundtrip:
  "EnvPair_UnmarshalJSON p0 (EnvPair_MarshalJSON p) = Inr p \<and>
   EnvPair_UnmarshalJSON p0 (JObj [(''key'', JStr (epKey p)), (''value'', JStr (epValue p))]) = Inr p"
  by (simp add: EnvPair_UnmarshalJSON_def EnvPair_MarshalJSON_def json_pair_def json_member_def json_text_def)

section \<open>A sandbox through the log\<close>

text \<open>
  What a sandbox looks like after it was written to JSON and read back: its patch contents
  change as above, the other fields are carried over.
\<close>

definition patch_image :: "patch \<Rightarrow> patch" where
  "patch_image p = p\<lparr>paContent := map_option content_image (paContent p)\<rparr>"

definition sandbox_image :: "sandbox \<Rightarrow> sandbox" where
  "sandbox_image sb = sb\<lparr>sbSpec := (sbSpec sb)\<lparr>spPatches := map patch_image (spPatches (sbSpec sb))\<rparr>\<rparr>"

definition text_patches :: "sandbox \<Rightarrow> bool" where
  "text_patches sb \<longleftrightarrow>
     (\<forall>p \<in> set (spPatches (sbSpec sb)). \<forall>c. paContent p = Some c \<longrightarrow> \<not> pcIsRaw c \<and> pcBytes c = [])"

lemma sandbox_image_id: "sandbox_image sb = sb" if "text_patches sb"
proof -
  have "patch_image p = p" if "p \<in> set (spPatches (sbSpec sb))" for p
    using that \<open>text_patches sb\<close>
    by (cases "paContent p") (auto simp: text_patches_def patch_image_def content_image_text)
  then have "map patch_image (spPatches (sbSpec sb)) = spPatches (sbSpec sb)"
    by (simp add: map_idI)
  then show ?thesis
    by (simp add: sandbox_image_def)
qed

lemma sandbox_image_keeps [simp]:
  "sbID (sandbox_image sb) = sbID sb" "sbName (sandbox_image sb) = sbName sb"
  "sbNodeID (sandbox_image sb) = sbNodeID sb" "sbDesired (sandbox_image sb) = sbDesired sb"
  "sbStatus (sandbox_image sb) = sbStatus sb" "sbGeneration (sandbox_image sb) = sbGeneration sb"
  "sbLabels (sandbox_image sb) = sbLabels sb" "spName (sbSpec (sandbox_image sb)) = spName (sbSpec sb)"
  "sandbox_wf (sandbox_image sb) = sandbox_wf sb"
  by (simp_all add: sandbox_image_def sandbox_wf_def spec_wf_def)

end
