(* ===== verification/Raft_Commands.thy ===== *)
theory Raft_Commands
  imports Cluster_Object Spec_Json Api_Key
begin

text \<open>
  \<open>internal/raftstore/commands.go\<close>: the commands of the Raft log and their JSON payloads. A
  payload object is a record with one field for every JSON key that some payload uses; a key
  may be absent (or \<open>null\<close>), carry a value that does not fit the Go type of its field, or be
  given. Decoding reads the keys of the payload's type and ignores the others.
\<close>

section \<open>Payload objects\<close>

datatype 'a jfield = Absent | Mistyped | Given 'a

record peer_info =
  piNodeID :: string
  piRaftAddr :: string
  piGRPCAddr :: string

definition zero_peer :: peer_info where
  "zero_peer = \<lparr>piNodeID = [], piRaftAddr = [], piGRPCAddr = []\<rparr>"

record payload =
  jCluster :: "cluster jfield"
  jNode :: "node jfield"
  jID :: "string jfield"
  jPeer :: "peer_info jfield"
  jSandbox :: "sandbox jfield"
  jVolume :: "volume jfield"
  jKey :: "api_key jfield"
  jClusterID :: "string jfield"
  jCertValidity :: "duration jfield"
  jJoinSecrets :: "secrets jfield"
  jCreatedAt :: "gotime jfield"
  jCADigestPrefix :: "string jfield"
  jCertPEM :: "string jfield"
  jKeyPEM :: "string jfield"

definition no_fields :: payload where
  "no_fields = \<lparr>jCluster = Absent, jNode = Absent, jID = Absent, jPeer = Absent, jSandbox = Absent,
     jVolume = Absent, jKey = Absent, jClusterID = Absent, jCertValidity = Absent, jJoinSecrets = Absent,
     jCreatedAt = Absent, jCADigestPrefix = Absent, jCertPEM = Absent, jKeyPEM = Absent\<rparr>"

text \<open>The raw payload of a command: missing, some other JSON value, or an object.\<close>

datatype raw_message = NoPayload | NotAnObject | Object payload

text \<open>A field of struct type keeps its zero value when absent; one of pointer type stays nil.\<close>

fun struct_field :: "'a \<Rightarrow> 'a jfield \<Rightarrow> 'a option" where
  "struct_field z Absent = Some z"
| "struct_field z Mistyped = None"
| "struct_field z (Given v) = Some v"

fun ptr_field :: "'a jfield \<Rightarrow> 'a option option" where
  "ptr_field Absent = Some None"
| "ptr_field Mistyped = None"
| "ptr_field (Given v) = Some (Some v)"

definition unmarshal :: "raw_message \<Rightarrow> (payload \<Rightarrow> 'a option) \<Rightarrow> 'a result" where
  "unmarshal raw get =
     (case raw of
        NoPayload \<Rightarrow> Inl (LibraryError ''unexpected end of JSON input'')
      | NotAnObject \<Rightarrow> Inl json_type_error
      | Object ob \<Rightarrow> (case get ob of None \<Rightarrow> Inl json_type_error | Some v \<Rightarrow> Inr v))"

lemma unmarshal_simps [simp]:
  "unmarshal NoPayload get = Inl (LibraryError ''unexpected end of JSON input'')"
  "unmarshal NotAnObject get = Inl json_type_error"
  "unmarshal (Object ob) get = (case get ob of None \<Rightarrow> Inl json_type_error | Some v \<Rightarrow> Inr v)"
  by (simp_all add: unmarshal_def)

section \<open>Payload types\<close>

record init_cluster_payload =
  ipClusterID :: string
  ipCertValidity :: duration
  ipJoinSecrets :: secrets
  ipCreatedAt :: gotime
  ipCADigestPrefix :: string
  ipCertPEM :: string
  ipKeyPEM :: string

record save_root_ca_payload =
  rpCertPEM :: string
  rpKeyPEM :: string

record save_cluster_payload =
  cpClusterID :: string
  cpCertValidity :: duration
  cpJoinSecrets :: secrets
  cpCreatedAt :: gotime
  cpCADigestPrefix :: string

definition clusterPayload :: "payload \<Rightarrow> cluster option" where
  "clusterPayload ob = struct_field zero_cluster (jCluster ob)"

definition nodePayload :: "payload \<Rightarrow> node option option" where "nodePayload ob = ptr_field (jNode ob)"
definition idPayload :: "payload \<Rightarrow> string option" where "idPayload ob = struct_field [] (jID ob)"
definition peerPayload :: "payload \<Rightarrow> peer_info option" where "peerPayload ob = struct_field zero_peer (jPeer ob)"
definition sandboxPayload :: "payload \<Rightarrow> sandbox option option" where "sandboxPayload ob = ptr_field (jSandbox ob)"
definition volumePayload :: "payload \<Rightarrow> volume option option" where "volumePayload ob = ptr_field (jVolume ob)"
definition keyPayload :: "payload \<Rightarrow> api_key option option" where "keyPayload ob = ptr_field (jKey ob)"

lemmas payload_defs = clusterPayload_def nodePayload_def idPayload_def peerPayload_def sandboxPayload_def
  volumePayload_def keyPayload_def

definition initClusterPayload :: "payload \<Rightarrow> init_cluster_payload option" where
  "initClusterPayload ob =
     (case (struct_field [] (jClusterID ob), struct_field 0 (jCertValidity ob),
            struct_field zero_secrets (jJoinSecrets ob), struct_field zero_time (jCreatedAt ob),
            struct_field [] (jCADigestPrefix ob), struct_field [] (jCertPEM ob), struct_field [] (jKeyPEM ob)) of
        (Some i, Some v, Some s, Some t, Some d, Some c, Some k) \<Rightarrow>
          Some \<lparr>ipClusterID = i, ipCertValidity = v, ipJoinSecrets = s, ipCreatedAt = t,
                ipCADigestPrefix = d, ipCertPEM = c, ipKeyPEM = k\<rparr>
      | _ \<Rightarrow> None)"

definition saveRootCAPayload :: "payload \<Rightarrow> save_root_ca_payload option" where
  "saveRootCAPayload ob =
     (case (struct_field [] (jCertPEM ob), struct_field [] (jKeyPEM ob)) of
        (Some c, Some k) \<Rightarrow> Some \<lparr>rpCertPEM = c, rpKeyPEM = k\<rparr>
      | _ \<Rightarrow> None)"

definition saveClusterPayload :: "payload \<Rightarrow> save_cluster_payload option" where
  "saveClusterPayload ob =
     (case (struct_field [] (jClusterID ob), struct_field 0 (jCertValidity ob),
            struct_field zero_secrets (jJoinSecrets ob), struct_field zero_time (jCreatedAt ob),
            struct_field [] (jCADigestPrefix ob)) of
        (Some i, Some v, Some s, Some t, Some d) \<Rightarrow>
          Some \<lparr>cpClusterID = i, cpCertValidity = v, cpJoinSecrets = s, cpCreatedAt = t, cpCADigestPrefix = d\<rparr>
      | _ \<Rightarrow> None)"

section \<open>Commands\<close>

abbreviation opCreateCluster :: string where "opCreateCluster \<equiv> ''create_cluster''"
abbreviation opUpdateCluster :: string where "opUpdateCluster \<equiv> ''update_cluster''"
abbreviation opSaveNode :: string where "opSaveNode \<equiv> ''save_node''"
abbreviation opDeleteNode :: string where "opDeleteNode \<equiv> ''delete_node''"
abbreviation opSavePeer :: string where "opSavePeer \<equiv> ''save_peer''"
abbreviation opDeletePeer :: string where "opDeletePeer \<equiv> ''delete_peer''"
abbreviation opSaveSandbox :: string where "opSaveSandbox \<equiv> ''save_sandbox''"
abbreviation opDeleteSandbox :: string where "opDeleteSandbox \<equiv> ''delete_sandbox''"
abbreviation opSaveVolume :: string where "opSaveVolume \<equiv> ''save_volume''"
abbreviation opDeleteVolume :: string where "opDeleteVolume \<equiv> ''delete_volume''"
abbreviation opSaveAPIKey :: string where "opSaveAPIKey \<equiv> ''save_api_key''"
abbreviation opDeleteAPIKey :: string where "opDeleteAPIKey \<equiv> ''delete_api_key''"
abbreviation opInitCluster :: string where "opInitCluster \<equiv> ''init_cluster''"
abbreviation opSaveRootCA :: string where "opSaveRootCA \<equiv> ''save_root_ca''"
abbreviation opSaveCluster :: string where "opSaveCluster \<equiv> ''save_cluster''"

record raft_command =
  cmdOp :: string
  cmdPayload :: raw_message

text \<open>The data of a log entry: bytes that are no JSON command at all, or a command object.\<close>

datatype log_data = Garbage string | CommandData raft_command

definition encodeCommand :: "string \<Rightarrow> payload \<Rightarrow> log_data" where
  "encodeCommand op ob = CommandData \<lparr>cmdOp = op, cmdPayload = Object ob\<rparr>"

definition decodeCommand :: "log_data \<Rightarrow> raft_command result" where
  "decodeCommand data =
     (case data of
        Garbage e \<Rightarrow> Inl (Wrapped [Lit ''decode raft command: ''] (LibraryError e))
      | CommandData cmd \<Rightarrow>
          if cmdOp cmd = [] then Inl (errorf ''raft command missing op'') else Inr cmd)"

lemma decode_encode [simp]: "op \<noteq> [] \<Longrightarrow>
    decodeCommand (encodeCommand op ob) = Inr \<lparr>cmdOp = op, cmdPayload = Object ob\<rparr>"
  by (simp add: encodeCommand_def decodeCommand_def)

end
