(* ===== verification/Raft_Fsm.thy ===== *)
theory Raft_Fsm
  imports Raft_Commands Cluster_Node
begin

text \<open>
  \<open>internal/raftstore/fsm.go\<close>: the replicated state machine. Every operation of \<open>FSM.Apply\<close> is
  a function from a state to the next one and the response, an error or none; the mutex is not
  modelled, since each method runs under it from start to end. Parsing PEM material
  (\<open>ca.LoadRootCA\<close>) is the parameter \<open>load\<close>; the legacy operation \<open>init_cluster\<close> reads the
  clock, the parameter \<open>now\<close>.
\<close>

section \<open>The state\<close>

record fsm =
  fsCluster :: "cluster option"
  fsNodes :: "(string, node) gomap"
  fsPeers :: "(string, peer_info) gomap"
  fsSandboxes :: "(string, sandbox) gomap"
  fsSandboxNames :: "(string, string) gomap"
  fsVolumes :: "(string, volume) gomap"
  fsVolumeNames :: "(string, string) gomap"
  fsApiKeys :: "(string, api_key) gomap"

definition NewFSM :: fsm where
  "NewFSM = \<lparr>fsCluster = None, fsNodes = [], fsPeers = [], fsSandboxes = [], fsSandboxNames = [],
     fsVolumes = [], fsVolumeNames = [], fsApiKeys = []\<rparr>"

section \<open>Applying commands\<close>

definition copy_cluster :: "cluster \<Rightarrow> cluster" where
  "copy_cluster c = c\<lparr>clRootCA := (clRootCA c)\<lparr>rcCAKey := copy_slice (rcCAKey (clRootCA c)),
                                               rcCACert := copy_slice (rcCACert (clRootCA c))\<rparr>\<rparr>"

lemma copy_cluster_id [simp]: "copy_cluster c = c"
  by (simp add: copy_cluster_def)

definition applyCreateCluster :: "gotime \<Rightarrow> fsm \<Rightarrow> string \<Rightarrow> raw_message \<Rightarrow> fsm \<times> go_error option" where
  "applyCreateCluster now f op raw =
     (if fsCluster f \<noteq> None then (f, Some ErrAlreadyInitialized)
      else if op = opCreateCluster then
        (case unmarshal raw clusterPayload of
           Inl e \<Rightarrow> (f, Some e)
         | Inr c \<Rightarrow> (f\<lparr>fsCluster := Some (copy_cluster c)\<rparr>, None))
      else
        (case unmarshal raw initClusterPayload of
           Inl e \<Rightarrow> (f, Some e)
         | Inr p \<Rightarrow>
             (let validity = (if ipCertValidity p \<le> 0 then DefaultNodeValidity else ipCertValidity p);
                  created = (if is_zero_time (ipCreatedAt p) then now else ipCreatedAt p) in
              (f\<lparr>fsCluster := Some \<lparr>clClusterID = ipClusterID p,
                    clRootCA = \<lparr>rcCAKey = copy_slice (ipKeyPEM p), rcCACert = copy_slice (ipCertPEM p),
                                rcCACertHash = ipCADigestPrefix p, rcJoinSecrets = ipJoinSecrets p\<rparr>,
                    clCertValidity = validity, clCreatedAt = created\<rparr>\<rparr>, None))))"

definition applyUpdateCluster :: "ca_loader \<Rightarrow> fsm \<Rightarrow> string \<Rightarrow> raw_message \<Rightarrow> fsm \<times> go_error option" where
  "applyUpdateCluster load f op raw =
     (if op = opUpdateCluster then
        (case unmarshal raw clusterPayload of
           Inl e \<Rightarrow> (f, Some e)
         | Inr c \<Rightarrow>
             (case fsCluster f of
                None \<Rightarrow> (f, Some ErrNotInitialized)
              | Some _ \<Rightarrow> (f\<lparr>fsCluster := Some (copy_cluster c)\<rparr>, None)))
      else if op = opSaveRootCA then
        (case unmarshal raw saveRootCAPayload of
           Inl e \<Rightarrow> (f, Some e)
         | Inr p \<Rightarrow>
             (case fsCluster f of
                None \<Rightarrow> (f, Some ErrNotInitialized)
              | Some c \<Rightarrow>
                  (let c' = c\<lparr>clRootCA := (clRootCA c)\<lparr>rcCACert := copy_slice (rpCertPEM p),
                                                     rcCAKey := copy_slice (rpKeyPEM p)\<rparr>\<rparr> in
                   case load (rpCertPEM p) (rpKeyPEM p) of
                     Inl e \<Rightarrow> (f\<lparr>fsCluster := Some c'\<rparr>, Some e)
                   | Inr root \<Rightarrow>
                       (f\<lparr>fsCluster := Some (c'\<lparr>clRootCA := (clRootCA c')\<lparr>rcCACertHash := raDigestPrefix root\<rparr>\<rparr>)\<rparr>,
                        None))))
      else if op = opSaveCluster then
        (case unmarshal raw saveClusterPayload of
           Inl e \<Rightarrow> (f, Some e)
         | Inr p \<Rightarrow>
             (case fsCluster f of
                None \<Rightarrow> (f, Some ErrNotInitialized)
              | Some c \<Rightarrow>
                  (f\<lparr>fsCluster := Some (c\<lparr>clClusterID := cpClusterID p, clCertValidity := cpCertValidity p,
                       clCreatedAt := cpCreatedAt p,
                       clRootCA := (clRootCA c)\<lparr>rcCACertHash := cpCADigestPrefix p,
                                                rcJoinSecrets := cpJoinSecrets p\<rparr>\<rparr>)\<rparr>, None)))
      else (f, Some (Errorf [Lit ''unknown update op '', Quoted op])))"

definition applySaveNode :: "fsm \<Rightarrow> raw_message \<Rightarrow> fsm \<times> go_error option" where
  "applySaveNode f raw =
     (case unmarshal raw nodePayload of
        Inl e \<Rightarrow> (f, Some e)
      | Inr None \<Rightarrow> (f, Some (errorf ''node is required''))
      | Inr (Some n) \<Rightarrow>
          if nID n = [] then (f, Some (errorf ''node is required''))
          else (f\<lparr>fsNodes := gm_put (nID n) (n\<lparr>nLabels := CloneLabels (nLabels n)\<rparr>) (fsNodes f)\<rparr>, None))"

definition applyDeleteNode :: "fsm \<Rightarrow> raw_message \<Rightarrow> fsm \<times> go_error option" where
  "applyDeleteNode f raw =
     (case unmarshal raw idPayload of
        Inl e \<Rightarrow> (f, Some e)
      | Inr i \<Rightarrow>
          if i = [] then (f, Some (errorf ''node id is required''))
          else if \<not> gm_has (fsNodes f) i then (f, Some ErrNodeNotFound)
          else (f\<lparr>fsNodes := gm_del i (fsNodes f)\<rparr>, None))"

definition applySavePeer :: "fsm \<Rightarrow> raw_message \<Rightarrow> fsm \<times> go_error option" where
  "applySavePeer f raw =
     (case unmarshal raw peerPayload of
        Inl e \<Rightarrow> (f, Some e)
      | Inr p \<Rightarrow>
          if piNodeID p = [] then (f, Some (errorf ''peer node_id is required''))
          else (f\<lparr>fsPeers := gm_put (piNodeID p) p (fsPeers f)\<rparr>, None))"

definition applyDeletePeer :: "fsm \<Rightarrow> raw_message \<Rightarrow> fsm \<times> go_error option" where
  "applyDeletePeer f raw =
     (case unmarshal raw idPayload of
        Inl e \<Rightarrow> (f, Some e)
      | Inr i \<Rightarrow>
          if i = [] then (f, Some (errorf ''peer node_id is required''))
          else (f\<lparr>fsPeers := gm_del i (fsPeers f)\<rparr>, None))"

text \<open>The name a sandbox is indexed under: its own, else the one in its spec.\<close>

definition effective_name :: "sandbox \<Rightarrow> string" where
  "effective_name sb = (if sbName sb = [] then spName (sbSpec sb) else sbName sb)"

definition applySaveSandbox :: "fsm \<Rightarrow> raw_message \<Rightarrow> fsm \<times> go_error option" where
  "applySaveSandbox f raw =
     (case unmarshal raw sandboxPayload of
        Inl e \<Rightarrow> (f, Some e)
      | Inr None \<Rightarrow> (f, Some (errorf ''sandbox is required''))
      | Inr (Some sb) \<Rightarrow>
          if sbID sb = [] then (f, Some (errorf ''sandbox is required''))
          else
            (let name = effective_name sb in
             if name = [] then (f\<lparr>fsSandboxes := gm_put (sbID sb) (CloneSandbox sb) (fsSandboxes f)\<rparr>, None)
             else
               (let taken = (case gm_get (fsSandboxNames f) name of None \<Rightarrow> False | Some i \<Rightarrow> i \<noteq> sbID sb) in
                if taken then (f, Some ErrNameExists)
                else
                  (let names = (case gm_get (fsSandboxes f) (sbID sb) of
                       None \<Rightarrow> fsSandboxNames f
                     | Some old \<Rightarrow> if sbName old \<noteq> [] \<and> sbName old \<noteq> name
                                  then gm_del (sbName old) (fsSandboxNames f) else fsSandboxNames f) in
                   (f\<lparr>fsSandboxNames := gm_put name (sbID sb) names,
                      fsSandboxes := gm_put (sbID sb) (CloneSandbox (sb\<lparr>sbName := name\<rparr>)) (fsSandboxes f)\<rparr>,
                    None)))))"

definition applyDeleteSandbox :: "fsm \<Rightarrow> raw_message \<Rightarrow> fsm \<times> go_error option" where
  "applyDeleteSandbox f raw =
     (case unmarshal raw idPayload of
        Inl e \<Rightarrow> (f, Some e)
      | Inr i \<Rightarrow>
          if i = [] then (f, Some (errorf ''sandbox id is required''))
          else
            (case gm_get (fsSandboxes f) i of
               None \<Rightarrow> (f, Some ErrSandboxNotFound)
             | Some sb \<Rightarrow>
                 (f\<lparr>fsSandboxNames := (if sbName sb \<noteq> [] then gm_del (sbName sb) (fsSandboxNames f)
                                       else fsSandboxNames f),
                    fsSandboxes := gm_del i (fsSandboxes f)\<rparr>, None)))"

definition applySaveVolume :: "fsm \<Rightarrow> raw_message \<Rightarrow> fsm \<times> go_error option" where
  "applySaveVolume f raw =
     (case unmarshal raw volumePayload of
        Inl e \<Rightarrow> (f, Some e)
      | Inr None \<Rightarrow> (f, Some (errorf ''volume is required''))
      | Inr (Some v) \<Rightarrow>
          if volID v = [] then (f, Some (errorf ''volume is required''))
          else if volKind v = VolumeKindNamed \<and> volName v \<noteq> [] then
            (let taken = (case gm_get (fsVolumeNames f) (volName v) of None \<Rightarrow> False | Some i \<Rightarrow> i \<noteq> volID v) in
             if taken then (f, Some ErrNameExists)
             else
               (let names = (case gm_get (fsVolumes f) (volID v) of
                    None \<Rightarrow> fsVolumeNames f
                  | Some old \<Rightarrow> if volName old \<noteq> [] \<and> volName old \<noteq> volName v
                               then gm_del (volName old) (fsVolumeNames f) else fsVolumeNames f) in
                (f\<lparr>fsVolumeNames := gm_put (volName v) (volID v) names,
                   fsVolumes := gm_put (volID v) (CloneVolume v) (fsVolumes f)\<rparr>, None)))
          else (f\<lparr>fsVolumes := gm_put (volID v) (CloneVolume v) (fsVolumes f)\<rparr>, None))"

definition applyDeleteVolume :: "fsm \<Rightarrow> raw_message \<Rightarrow> fsm \<times> go_error option" where
  "applyDeleteVolume f raw =
     (case unmarshal raw idPayload of
        Inl e \<Rightarrow> (f, Some e)
      | Inr i \<Rightarrow>
          if i = [] then (f, Some (errorf ''volume id is required''))
          else
            (case gm_get (fsVolumes f) i of
               None \<Rightarrow> (f, Some ErrVolumeNotFound)
             | Some v \<Rightarrow>
                 (f\<lparr>fsVolumeNames := (if volName v \<noteq> [] then gm_del (volName v) (fsVolumeNames f)
                                      else fsVolumeNames f),
                    fsVolumes := gm_del i (fsVolumes f)\<rparr>, None)))"

definition clone_key :: "api_key \<Rightarrow> api_key" where
  "clone_key k = the (CloneKey (Some k))"

lemma clone_key_id [simp]: "clone_key k = k"
  by (simp add: clone_key_def)

definition applySaveAPIKey :: "fsm \<Rightarrow> raw_message \<Rightarrow> fsm \<times> go_error option" where
  "applySaveAPIKey f raw =
     (case unmarshal raw keyPayload of
        Inl e \<Rightarrow> (f, Some e)
      | Inr None \<Rightarrow> (f, Some (errorf ''api key is required''))
      | Inr (Some k) \<Rightarrow>
          if kID k = [] \<or> kKeyHash k = [] then (f, Some (errorf ''api key is required''))
          else (f\<lparr>fsApiKeys := gm_put (kID k) (clone_key k) (fsApiKeys f)\<rparr>, None))"

definition applyDeleteAPIKey :: "fsm \<Rightarrow> raw_message \<Rightarrow> fsm \<times> go_error option" where
  "applyDeleteAPIKey f raw =
     (case unmarshal raw idPayload of
        Inl e \<Rightarrow> (f, Some e)
      | Inr i \<Rightarrow>
          if i = [] then (f, Some (errorf ''api key id is required''))
          else if \<not> gm_has (fsApiKeys f) i then (f, Some ErrAPIKeyNotFound)
          else (f\<lparr>fsApiKeys := gm_del i (fsApiKeys f)\<rparr>, None))"

definition fsm_dispatch :: "ca_loader \<Rightarrow> gotime \<Rightarrow> fsm \<Rightarrow> string \<Rightarrow> raw_message \<Rightarrow> fsm \<times> go_error option" where
  "fsm_dispatch load now f op raw =
     (if op = opCreateCluster \<or> op = opInitCluster then applyCreateCluster now f op raw
      else if op = opUpdateCluster \<or> op = opSaveCluster \<or> op = opSaveRootCA then applyUpdateCluster load f op raw
      else if op = opSaveNode then applySaveNode f raw
      else if op = opDeleteNode then applyDeleteNode f raw
      else if op = opSavePeer then applySavePeer f raw
      else if op = opDeletePeer then applyDeletePeer f raw
      else if op = opSaveSandbox then applySaveSandbox f raw
      else if op = opDeleteSandbox then applyDeleteSandbox f raw
      else if op = opSaveVolume then applySaveVolume f raw
      else if op = opDeleteVolume then applyDeleteVolume f raw
      else if op = opSaveAPIKey then applySaveAPIKey f raw
      else if op = opDeleteAPIKey then applyDeleteAPIKey f raw
      else (f, Some (Errorf [Lit ''unknown raft op '', Quoted op])))"

definition fsm_Apply :: "ca_loader \<Rightarrow> gotime \<Rightarrow> fsm \<Rightarrow> log_data \<Rightarrow> fsm \<times> go_error option" where
  "fsm_Apply load now f data =
     (case decodeCommand data of
        Inl e \<Rightarrow> (f, Some e)
      | Inr cmd \<Rightarrow> fsm_dispatch load now f (cmdOp cmd) (cmdPayload cmd))"

section \<open>Reading the state\<close>

definition isInitialized :: "fsm \<Rightarrow> bool" where
  "isInitialized f \<longleftrightarrow> fsCluster f \<noteq> None"

definition getCluster :: "fsm \<Rightarrow> cluster result" where
  "getCluster f = (case fsCluster f of None \<Rightarrow> Inl ErrNotInitialized | Some c \<Rightarrow> Inr (copy_cluster c))"

definition getRootCA :: "ca_loader \<Rightarrow> fsm \<Rightarrow> root_ca result" where
  "getRootCA load f = (case getCluster f of Inl e \<Rightarrow> Inl e | Inr c \<Rightarrow> cluster_LoadRootCA load (Some c))"

definition clone_node :: "node \<Rightarrow> node" where
  "clone_node n = n\<lparr>nLabels := CloneLabels (nLabels n)\<rparr>"

definition getNode :: "fsm \<Rightarrow> string \<Rightarrow> node result" where
  "getNode f i = (case gm_get (fsNodes f) i of None \<Rightarrow> Inl ErrNodeNotFound | Some n \<Rightarrow> Inr (clone_node n))"

definition listNodes :: "fsm \<Rightarrow> node list" where
  "listNodes f = map (\<lambda>(_, n). clone_node n) (fsNodes f)"

definition getPeer :: "fsm \<Rightarrow> string \<Rightarrow> peer_info option" where
  "getPeer f i = gm_get (fsPeers f) i"

definition peerByRaftAddr :: "fsm \<Rightarrow> string \<Rightarrow> peer_info option" where
  "peerByRaftAddr f addr = List.find (\<lambda>p. piRaftAddr p = addr) (map snd (fsPeers f))"

definition listPeers :: "fsm \<Rightarrow> peer_info list" where
  "listPeers f = map snd (fsPeers f)"

definition getSandbox :: "fsm \<Rightarrow> string \<Rightarrow> sandbox result" where
  "getSandbox f i = (case gm_get (fsSandboxes f) i of
     None \<Rightarrow> Inl ErrSandboxNotFound | Some sb \<Rightarrow> Inr (CloneSandbox sb))"

definition getSandboxByName :: "fsm \<Rightarrow> string \<Rightarrow> sandbox result" where
  "getSandboxByName f name = (case gm_get (fsSandboxNames f) name of
     None \<Rightarrow> Inl ErrSandboxNotFound
   | Some i \<Rightarrow> (case gm_get (fsSandboxes f) i of
       None \<Rightarrow> Inl ErrSandboxNotFound | Some sb \<Rightarrow> Inr (CloneSandbox sb)))"

definition listSandboxes :: "fsm \<Rightarrow> sandbox list" where
  "listSandboxes f = map (\<lambda>(_, sb). CloneSandbox sb) (fsSandboxes f)"

definition listSandboxesByNode :: "fsm \<Rightarrow> string \<Rightarrow> sandbox list" where
  "listSandboxesByNode f nodeID =
     map (\<lambda>(_, sb). CloneSandbox sb) (filter (\<lambda>(_, sb). sbNodeID sb = nodeID) (fsSandboxes f))"

definition getVolume :: "fsm \<Rightarrow> string \<Rightarrow> volume result" where
  "getVolume f i = (case gm_get (fsVolumes f) i of
     None \<Rightarrow> Inl ErrVolumeNotFound | Some v \<Rightarrow> Inr (CloneVolume v))"

definition getVolumeByName :: "fsm \<Rightarrow> string \<Rightarrow> volume result" where
  "getVolumeByName f name = (case gm_get (fsVolumeNames f) name of
     None \<Rightarrow> Inl ErrVolumeNotFound
   | Some i \<Rightarrow> (case gm_get (fsVolumes f) i of
       None \<Rightarrow> Inl ErrVolumeNotFound | Some v \<Rightarrow> Inr (CloneVolume v)))"

definition getDefaultVolume :: "fsm \<Rightarrow> volume result" where
  "getDefaultVolume f = (case List.find (\<lambda>v. volKind v = VolumeKindDefault) (map snd (fsVolumes f)) of
     None \<Rightarrow> Inl ErrVolumeNotFound | Some v \<Rightarrow> Inr (CloneVolume v))"

definition listVolumes :: "fsm \<Rightarrow> volume list" where
  "listVolumes f = map (\<lambda>(_, v). CloneVolume v) (fsVolumes f)"

definition getAPIKey :: "fsm \<Rightarrow> string \<Rightarrow> api_key result" where
  "getAPIKey f i = (case gm_get (fsApiKeys f) i of
     None \<Rightarrow> Inl ErrAPIKeyNotFound | Some k \<Rightarrow> Inr (clone_key k))"

definition getAPIKeyByHash :: "fsm \<Rightarrow> string \<Rightarrow> api_key result" where
  "getAPIKeyByHash f keyHash = (case List.find (\<lambda>k. EqualHash (kKeyHash k) keyHash) (map snd (fsApiKeys f)) of
     None \<Rightarrow> Inl ErrAPIKeyNotFound | Some k \<Rightarrow> Inr (clone_key k))"

definition listAPIKeys :: "fsm \<Rightarrow> api_key list" where
  "listAPIKeys f = map (\<lambda>(_, k). clone_key k) (fsApiKeys f)"

end
