(* ===== verification/Fsm_Invariants.thy ===== *)
theory Fsm_Invariants
  imports Raft_Fsm
begin

text \<open>
  What holds of every state of the replicated state machine: each record is filed under its own
  identifier, and the name index leads from every sandbox name to the one sandbox of that name.
  Every operation preserves both, whatever the log holds.
\<close>

section \<open>Case analysis of the dispatcher\<close>

text \<open>A property that every operation preserves is preserved by \<open>Apply\<close>.\<close>

lemma if_both: "P a \<Longrightarrow> P b \<Longrightarrow> P (if c then a else b)"
  by simp

lemma fsm_dispatch_induct:
  assumes "fsm_dispatch load now f op raw = r"
    and "\<And>op. P (applyCreateCluster now f op raw)" and "\<And>op. P (applyUpdateCluster load f op raw)"
    and "P (applySaveNode f raw)" and "P (applyDeleteNode f raw)" and "P (applySavePeer f raw)"
    and "P (applyDeletePeer f raw)" and "P (applySaveSandbox f raw)" and "P (applyDeleteSandbox f raw)"
    and "P (applySaveVolume f raw)" and "P (applyDeleteVolume f raw)" and "P (applySaveAPIKey f raw)"
    and "P (applyDeleteAPIKey f raw)" and "\<And>e. P (f, Some e)"
  shows "P r"
  unfolding assms(1) [symmetric] fsm_dispatch_def by (intro if_both [of P] assms(2-))

lemma fsm_Apply_cases:
  assumes "fsm_Apply load now f data = r"
  obtains (error) e where "decodeCommand data = Inl e" "r = (f, Some e)"
  | (command) cmd where "decodeCommand data = Inr cmd" "fsm_dispatch load now f (cmdOp cmd) (cmdPayload cmd) = r"
  using assms by (auto simp: fsm_Apply_def split: sum.splits)

text \<open>The cluster operations touch nothing but the cluster.\<close>

definition same_tables :: "fsm \<Rightarrow> fsm \<Rightarrow> bool" where
  "same_tables f g \<longleftrightarrow> fsNodes f = fsNodes g \<and> fsPeers f = fsPeers g \<and> fsSandboxes f = fsSandboxes g \<and>
     fsSandboxNames f = fsSandboxNames g \<and> fsVolumes f = fsVolumes g \<and> fsVolumeNames f = fsVolumeNames g \<and>
     fsApiKeys f = fsApiKeys g"

lemma applyCreateCluster_tables: "same_tables f (fst (applyCreateCluster now f op raw))"
  by (simp add: applyCreateCluster_def same_tables_def Let_def split: sum.split)

lemma applyUpdateCluster_tables: "same_tables f (fst (applyUpdateCluster load f op raw))"
  by (simp add: applyUpdateCluster_def same_tables_def Let_def split: sum.split option.split)

section \<open>Records are filed under their identifiers\<close>

definition keyed :: "('r \<Rightarrow> string) \<Rightarrow> (string, 'r) gomap \<Rightarrow> bool" where
  "keyed rid m \<longleftrightarrow> gm_wf m \<and> (\<forall>k r. gm_get m k = Some r \<longrightarrow> rid r = k \<and> k \<noteq> [])"

lemma keyed_Nil [simp]: "keyed rid []"
  by (simp add: keyed_def)

lemma keyed_put [simp]: "keyed rid m \<Longrightarrow> rid r = k \<Longrightarrow> k \<noteq> [] \<Longrightarrow> keyed rid (gm_put k r m)"
  by (simp add: keyed_def)

lemma keyed_del [simp]: "keyed rid m \<Longrightarrow> keyed rid (gm_del k m)"
  by (simp add: keyed_def)

lemma keyed_ids: "keyed rid m \<Longrightarrow> map (rid \<circ> snd) m = map fst m"
  by (auto simp: keyed_def gm_wf_def)

lemma keyed_distinct: "keyed rid m \<Longrightarrow> distinct (map rid (map snd m))"
  using keyed_ids [of rid m] by (metis keyed_def gm_wf_def map_map)

definition fsm_keyed :: "fsm \<Rightarrow> bool" where
  "fsm_keyed f \<longleftrightarrow> keyed nID (fsNodes f) \<and> keyed piNodeID (fsPeers f) \<and> keyed sbID (fsSandboxes f) \<and>
     keyed volID (fsVolumes f) \<and> keyed kID (fsApiKeys f) \<and> gm_wf (fsSandboxNames f) \<and> gm_wf (fsVolumeNames f)"

lemma fsm_keyed_tables: "same_tables f g \<Longrightarrow> fsm_keyed f \<Longrightarrow> fsm_keyed g"
  by (simp add: same_tables_def fsm_keyed_def)

lemma NewFSM_keyed: "fsm_keyed NewFSM"
  by (simp add: fsm_keyed_def NewFSM_def)

lemma node_ops_keyed:
  "fsm_keyed f \<Longrightarrow> fsm_keyed (fst (applySaveNode f raw))" "fsm_keyed f \<Longrightarrow> fsm_keyed (fst (applyDeleteNode f raw))"
  by (auto simp: applySaveNode_def applyDeleteNode_def fsm_keyed_def split: sum.split option.split)

lemma peer_ops_keyed:
  "fsm_keyed f \<Longrightarrow> fsm_keyed (fst (applySavePeer f raw))" "fsm_keyed f \<Longrightarrow> fsm_keyed (fst (applyDeletePeer f raw))"
  by (auto simp: applySavePeer_def applyDeletePeer_def fsm_keyed_def split: sum.split)

lemma sandbox_ops_keyed:
  "fsm_keyed f \<Longrightarrow> fsm_keyed (fst (applySaveSandbox f raw))"
  "fsm_keyed f \<Longrightarrow> fsm_keyed (fst (applyDeleteSandbox f raw))"
  by (auto simp: applySaveSandbox_def applyDeleteSandbox_def fsm_keyed_def Let_def CloneSandbox_keeps
      split: sum.split option.split)

lemma volume_ops_keyed:
  "fsm_keyed f \<Longrightarrow> fsm_keyed (fst (applySaveVolume f raw))"
  "fsm_keyed f \<Longrightarrow> fsm_keyed (fst (applyDeleteVolume f raw))"
  by (auto simp: applySaveVolume_def applyDeleteVolume_def fsm_keyed_def Let_def CloneVolume_keeps
      split: sum.split option.split)

lemma key_ops_keyed:
  "fsm_keyed f \<Longrightarrow> fsm_keyed (fst (applySaveAPIKey f raw))"
  "fsm_keyed f \<Longrightarrow> fsm_keyed (fst (applyDeleteAPIKey f raw))"
  by (auto simp: applySaveAPIKey_def applyDeleteAPIKey_def fsm_keyed_def split: sum.split option.split)

lemmas ops_keyed = node_ops_keyed peer_ops_keyed sandbox_ops_keyed volume_ops_keyed key_ops_keyed

lemma fsm_dispatch_keyed: "fsm_keyed f \<Longrightarrow> fsm_keyed (fst (fsm_dispatch load now f op raw))"
  by (rule fsm_dispatch_induct [where P = "\<lambda>r. fsm_keyed (fst r)", OF refl])
    (simp_all add: ops_keyed fsm_keyed_tables [OF applyCreateCluster_tables]
      fsm_keyed_tables [OF applyUpdateCluster_tables])

lemma fsm_Apply_keyed: "fsm_keyed f \<Longrightarrow> fsm_keyed (fst (fsm_Apply load now f data))"
  by (simp add: fsm_Apply_def fsm_dispatch_keyed split: sum.split)

section \<open>The name index\<close>

definition names_ok :: "fsm \<Rightarrow> bool" where
  "names_ok f \<longleftrightarrow> (\<forall>i sb. gm_get (fsSandboxes f) i = Some sb \<longrightarrow> sbName sb \<noteq> [] \<longrightarrow>
     gm_get (fsSandboxNames f) (sbName sb) = Some i)"

definition same_sandboxes :: "fsm \<Rightarrow> fsm \<Rightarrow> bool" where
  "same_sandboxes f g \<longleftrightarrow> fsSandboxes f = fsSandboxes g \<and> fsSandboxNames f = fsSandboxNames g"

lemma names_ok_same: "same_sandboxes f g \<Longrightarrow> names_ok f \<Longrightarrow> names_ok g"
  by (simp add: same_sandboxes_def names_ok_def)

lemma other_ops_same:
  "same_sandboxes f (fst (applyCreateCluster now f op raw))" "same_sandboxes f (fst (applyUpdateCluster load f op raw))"
  "same_sandboxes f (fst (applySaveNode f raw))" "same_sandboxes f (fst (applyDeleteNode f raw))"
  "same_sandboxes f (fst (applySavePeer f raw))" "same_sandboxes f (fst (applyDeletePeer f raw))"
  "same_sandboxes f (fst (applySaveVolume f raw))" "same_sandboxes f (fst (applyDeleteVolume f raw))"
  "same_sandboxes f (fst (applySaveAPIKey f raw))" "same_sandboxes f (fst (applyDeleteAPIKey f raw))"
  using applyCreateCluster_tables [of f now op raw] applyUpdateCluster_tables [of f load op raw]
  by (simp_all add: same_sandboxes_def same_tables_def applySaveNode_def applyDeleteNode_def applySavePeer_def
      applyDeletePeer_def applySaveVolume_def applyDeleteVolume_def applySaveAPIKey_def applyDeleteAPIKey_def
      Let_def split: sum.split option.split)

lemma names_okD: "names_ok f \<Longrightarrow> gm_get (fsSandboxes f) i = Some sb \<Longrightarrow> sbName sb \<noteq> [] \<Longrightarrow>
    gm_get (fsSandboxNames f) (sbName sb) = Some i"
  by (simp add: names_ok_def)

text \<open>Outcomes of a save: an error and no change, an unnamed record, or a named one.\<close>

lemma applySaveSandbox_cases:
  obtains (error) e where "applySaveSandbox f raw = (f, Some e)"
  | (unnamed) sb where "unmarshal raw sandboxPayload = Inr (Some sb)" "sbID sb \<noteq> []" "effective_name sb = []"
      "applySaveSandbox f raw = (f\<lparr>fsSandboxes := gm_put (sbID sb) (CloneSandbox sb) (fsSandboxes f)\<rparr>, None)"
  | (named) sb names where "unmarshal raw sandboxPayload = Inr (Some sb)" "sbID sb \<noteq> []" "effective_name sb \<noteq> []"
      "gm_get (fsSandboxNames f) (effective_name sb) \<in> {None, Some (sbID sb)}"
      "names = (case gm_get (fsSandboxes f) (sbID sb) of
         None \<Rightarrow> fsSandboxNames f
       | Some old \<Rightarrow> if sbName old \<noteq> [] \<and> sbName old \<noteq> effective_name sb
                    then gm_del (sbName old) (fsSandboxNames f) else fsSandboxNames f)"
      "applySaveSandbox f raw = (f\<lparr>fsSandboxNames := gm_put (effective_name sb) (sbID sb) names,
         fsSandboxes := gm_put (sbID sb) (CloneSandbox (sb\<lparr>sbName := effective_name sb\<rparr>)) (fsSandboxes f)\<rparr>, None)"
proof (cases "unmarshal raw sandboxPayload")
  case (Inl e)
  then show ?thesis by (intro error) (simp add: applySaveSandbox_def)
next
  case (Inr r)
  show ?thesis
  proof (cases r)
    case None
    with Inr show ?thesis by (intro error) (simp add: applySaveSandbox_def)
  next
    case (Some sb)
    note parsed = Inr [unfolded Some]
    consider "sbID sb = []" | "sbID sb \<noteq> []" "effective_name sb = []" | "sbID sb \<noteq> []" "effective_name sb \<noteq> []"
      by blast
    then show ?thesis
    proof cases
      case 1
      with parsed show ?thesis by (intro error) (simp add: applySaveSandbox_def)
    next
      case 2
      with parsed show ?thesis by (intro unnamed [of sb]) (simp_all add: applySaveSandbox_def)
    next
      case 3
      show ?thesis
      proof (cases "gm_get (fsSandboxNames f) (effective_name sb) \<in> {None, Some (sbID sb)}")
        case True
        with 3 parsed show ?thesis
          by (intro named [OF parsed 3 True refl]) (auto simp: applySaveSandbox_def Let_def)
      next
        case False
        with 3 parsed show ?thesis
          by (intro error [of ErrNameExists]) (auto simp: applySaveSandbox_def Let_def split: option.splits)
      qed
    qed
  qed
qed

lemma applyDeleteSandbox_cases:
  obtains (error) e where "applyDeleteSandbox f raw = (f, Some e)"
  | (deleted) i sb where "unmarshal raw idPayload = Inr i" "i \<noteq> []" "gm_get (fsSandboxes f) i = Some sb"
      "applyDeleteSandbox f raw =
         (f\<lparr>fsSandboxNames := (if sbName sb \<noteq> [] then gm_del (sbName sb) (fsSandboxNames f) else fsSandboxNames f),
            fsSandboxes := gm_del i (fsSandboxes f)\<rparr>, None)"
proof (cases "unmarshal raw idPayload")
  case (Inl e)
  then show ?thesis by (intro error) (simp add: applyDeleteSandbox_def)
next
  case (Inr i)
  then show ?thesis
    using error deleted by (cases "i = []"; cases "gm_get (fsSandboxes f) i") (simp_all add: applyDeleteSandbox_def)
qed

lemma names_ok_inj:
  assumes "names_ok f" and "gm_get (fsSandboxes f) i = Some a" and "gm_get (fsSandboxes f) j = Some b"
    and "sbName a = sbName b" and "sbName a \<noteq> []"
  shows "i = j"
  using names_okD [OF assms(1,2,5)] names_okD [OF assms(1,3)] assms(4,5) by simp

lemma applySaveSandbox_names_ok:
  assumes "names_ok f" shows "names_ok (fst (applySaveSandbox f raw))"
proof (cases rule: applySaveSandbox_cases [of f raw])
  case (error e)
  with assms show ?thesis by simp
next
  case (unnamed sb)
  then show ?thesis
    using assms by (auto simp: names_ok_def CloneSandbox_keeps effective_name_def split: if_splits)
next
  case (named sb names)
  have "gm_get (gm_put (effective_name sb) (sbID sb) names) (sbName r) = Some i"
    if r: "gm_get (fsSandboxes f) i = Some r" "sbName r \<noteq> []" "i \<noteq> sbID sb" for i r
  proof -
    have "gm_get (fsSandboxNames f) (sbName r) = Some i"
      using names_okD [OF assms r(1,2)] .
    moreover from this named(4) r(3) have "sbName r \<noteq> effective_name sb"
      by auto
    moreover have "sbName old \<noteq> sbName r" if "gm_get (fsSandboxes f) (sbID sb) = Some old" for old
      using names_ok_inj [OF assms r(1) that] r(2,3) by auto
    ultimately show ?thesis
      by (auto simp: named(5) split: option.split)
  qed
  with named(3,6) show ?thesis
    by (auto simp: names_ok_def CloneSandbox_keeps)
qed

lemma applyDeleteSandbox_names_ok:
  assumes "names_ok f" shows "names_ok (fst (applyDeleteSandbox f raw))"
proof (cases rule: applyDeleteSandbox_cases [of f raw])
  case (error e)
  with assms show ?thesis by simp
next
  case (deleted i sb)
  define names where
    "names = (if sbName sb \<noteq> [] then gm_del (sbName sb) (fsSandboxNames f) else fsSandboxNames f)"
  have "gm_get names (sbName r) = Some j"
    if r: "gm_get (fsSandboxes f) j = Some r" "sbName r \<noteq> []" "j \<noteq> i" for j r
    using names_okD [OF assms r(1,2)] names_ok_inj [OF assms r(1) deleted(3) _ r(2)] r(3) by (auto simp: names_def)
  then show ?thesis
    unfolding deleted(4) names_def [symmetric] by (auto simp: names_ok_def split: if_splits)
qed

lemmas names_ok_others = other_ops_same [THEN names_ok_same]

lemma fsm_dispatch_names_ok: "names_ok f \<Longrightarrow> names_ok (fst (fsm_dispatch load now f op raw))"
  by (rule fsm_dispatch_induct [where P = "\<lambda>r. names_ok (fst r)", OF refl])
    (simp_all add: applySaveSandbox_names_ok applyDeleteSandbox_names_ok names_ok_others)

lemma fsm_Apply_names_ok: "names_ok f \<Longrightarrow> names_ok (fst (fsm_Apply load now f data))"
  by (simp add: fsm_Apply_def fsm_dispatch_names_ok split: sum.split)

end
