(* ===== verification/Fsm_Snapshot.thy ===== *)
theory Fsm_Snapshot
  imports Fsm_Invariants
begin

text \<open>
  Snapshots of the state machine (\<open>Snapshot\<close>, \<open>Persist\<close> and \<open>Restore\<close> of
  \<open>internal/raftstore/fsm.go\<close>): what is written, how the name indexes are rebuilt, and the
  older snapshot shape. A file holds the values after their trip through JSON.
\<close>

section \<open>Snapshot and Persist\<close>

record fsm_snapshot =
  ssCluster :: "cluster option"
  ssNodes :: "(string, node) gomap"
  ssPeers :: "(string, peer_info) gomap"
  ssSandboxes :: "(string, sandbox) gomap"
  ssVolumes :: "(string, volume) gomap"
  ssApiKeys :: "(string, api_key) gomap"

text \<open>The loop \<open>for id, r := range m { out[id] = f(r) }\<close>.\<close>

definition copy_table :: "('r \<Rightarrow> 's) \<Rightarrow> (string, 'r) gomap \<Rightarrow> (string, 's) gomap" where
  "copy_table h m = copy_map [] (map (\<lambda>(k, r). (k, h r)) m)"

lemma copy_table_map: "gm_wf m \<Longrightarrow> copy_table h m = map (\<lambda>(k, r). (k, h r)) m"
  by (simp add: copy_table_def)

lemma copy_table_id: "gm_wf m \<Longrightarrow> \<forall>r \<in> set (map snd m). h r = r \<Longrightarrow> copy_table h m = m"
  by (auto simp: copy_table_map intro!: map_idI)

definition fsm_Snapshot :: "fsm \<Rightarrow> fsm_snapshot" where
  "fsm_Snapshot f = \<lparr>ssCluster = map_option copy_cluster (fsCluster f), ssNodes = copy_table id (fsNodes f),
     ssPeers = copy_table id (fsPeers f), ssSandboxes = copy_table CloneSandbox (fsSandboxes f),
     ssVolumes = copy_table CloneVolume (fsVolumes f), ssApiKeys = copy_table clone_key (fsApiKeys f)\<rparr>"

record legacy_cluster_state =
  lcClusterID :: string
  lcCertValidity :: duration
  lcJoinSecrets :: secrets
  lcCreatedAt :: gotime
  lcCADigestPrefix :: string

text \<open>The persisted object; a table entry may be \<open>null\<close>.\<close>

record persisted_snapshot =
  psCluster :: "cluster option"
  psNodes :: "(string, node option) gomap"
  psPeers :: "(string, peer_info) gomap"
  psSandboxes :: "(string, sandbox option) gomap"
  psVolumes :: "(string, volume option) gomap"
  psApiKeys :: "(string, api_key option) gomap"
  psCertPEM :: string
  psKeyPEM :: string
  psLegacyCluster :: "legacy_cluster_state option"

datatype snapshot_file = CorruptFile string | SnapshotFile persisted_snapshot

definition some_table :: "('r \<Rightarrow> 's) \<Rightarrow> (string, 'r) gomap \<Rightarrow> (string, 's option) gomap" where
  "some_table h m = map (\<lambda>(k, r). (k, Some (h r))) m"

text \<open>\<open>wr\<close> is the sink's answer to the write: an error, or none.\<close>

definition snapshot_Persist :: "go_error option \<Rightarrow> fsm_snapshot \<Rightarrow> snapshot_file result" where
  "snapshot_Persist wr s =
     (case wr of
        Some e \<Rightarrow> Inl e
      | None \<Rightarrow> Inr (SnapshotFile \<lparr>psCluster = ssCluster s, psNodes = some_table id (ssNodes s),
          psPeers = ssPeers s, psSandboxes = some_table sandbox_image (ssSandboxes s),
          psVolumes = some_table id (ssVolumes s), psApiKeys = some_table id (ssApiKeys s),
          psCertPEM = [], psKeyPEM = [], psLegacyCluster = None\<rparr>))"

section \<open>Restore\<close>

text \<open>The loops of \<open>Restore\<close>: \<open>null\<close> entries are skipped, and the index is rebuilt on the way.\<close>

fun restore_table :: "('r \<Rightarrow> 'r) \<Rightarrow> (string, 'r) gomap \<Rightarrow> (string, 'r option) gomap \<Rightarrow> (string, 'r) gomap" where
  "restore_table h out [] = out"
| "restore_table h out ((k, None) # m) = restore_table h out m"
| "restore_table h out ((k, Some r) # m) = restore_table h (gm_put k (h r) out) m"

fun restore_names :: "('r \<Rightarrow> string option) \<Rightarrow> (string, string) gomap \<Rightarrow> (string, 'r option) gomap \<Rightarrow> (string, string) gomap" where
  "restore_names nm out [] = out"
| "restore_names nm out ((k, None) # m) = restore_names nm out m"
| "restore_names nm out ((k, Some r) # m) =
     restore_names nm (case nm r of None \<Rightarrow> out | Some n \<Rightarrow> gm_put n k out) m"

definition sandbox_index_name :: "sandbox \<Rightarrow> string option" where
  "sandbox_index_name sb = (if sbName sb \<noteq> [] then Some (sbName sb) else None)"

definition volume_index_name :: "volume \<Rightarrow> string option" where
  "volume_index_name v = (if volKind v = VolumeKindNamed \<and> volName v \<noteq> [] then Some (volName v) else None)"

definition restore_cluster :: "ca_loader \<Rightarrow> persisted_snapshot \<Rightarrow> cluster option result" where
  "restore_cluster load snap =
     (case psCluster snap of
        Some c \<Rightarrow> Inr (Some (copy_cluster c))
      | None \<Rightarrow>
          if length (psCertPEM snap) > 0 \<and> length (psKeyPEM snap) > 0 then
            (case load (psCertPEM snap) (psKeyPEM snap) of
               Inl e \<Rightarrow> Inl e
             | Inr root \<Rightarrow>
                 (let (clusterID, validity, created, hash, secrets) =
                      (case psLegacyCluster snap of
                         None \<Rightarrow> ([], 0, zero_time, [], zero_secrets)
                       | Some l \<Rightarrow> (lcClusterID l, lcCertValidity l, lcCreatedAt l, lcCADigestPrefix l, lcJoinSecrets l));
                      hash' = (if hash = [] then raDigestPrefix root else hash) in
                  Inr (Some \<lparr>clClusterID = clusterID,
                     clRootCA = \<lparr>rcCAKey = copy_slice (psKeyPEM snap), rcCACert = copy_slice (psCertPEM snap),
                                 rcCACertHash = hash', rcJoinSecrets = secrets\<rparr>,
                     clCertValidity = validity, clCreatedAt = created\<rparr>)))
          else Inr None)"

definition fsm_Restore :: "ca_loader \<Rightarrow> fsm \<Rightarrow> snapshot_file \<Rightarrow> fsm \<times> go_error option" where
  "fsm_Restore load f file =
     (case file of
        CorruptFile e \<Rightarrow> (f, Some (Wrapped [Lit ''decode snapshot: ''] (LibraryError e)))
      | SnapshotFile snap \<Rightarrow>
          (case restore_cluster load snap of
             Inl e \<Rightarrow> (f, Some e)
           | Inr c \<Rightarrow>
               (\<lparr>fsCluster = c, fsNodes = restore_table id [] (psNodes snap), fsPeers = copy_table id (psPeers snap),
                 fsSandboxes = restore_table CloneSandbox [] (psSandboxes snap),
                 fsSandboxNames = restore_names sandbox_index_name [] (psSandboxes snap),
                 fsVolumes = restore_table CloneVolume [] (psVolumes snap),
                 fsVolumeNames = restore_names volume_index_name [] (psVolumes snap),
                 fsApiKeys = restore_table clone_key [] (psApiKeys snap)\<rparr>, None)))"

section \<open>What the loops compute\<close>

lemma restore_table_some:
  "distinct (map fst out @ map fst m) \<Longrightarrow> restore_table h out (some_table g m) = out @ map (\<lambda>(k, r). (k, h (g r))) m"
proof (induction m arbitrary: out)
  case Nil
  then show ?case by (simp add: some_table_def)
next
  case (Cons kr m)
  obtain k r where kr: "kr = (k, r)" by fastforce
  have fresh: "k \<notin> fst ` set out"
    using Cons.prems by (auto simp: kr)
  have "distinct (map fst (out @ [(k, h (g r))]) @ map fst m)"
    using Cons.prems by (auto simp: kr)
  from Cons.IH [OF this] show ?case
    by (simp add: kr some_table_def gm_put_fresh [OF fresh])
qed

lemma restore_names_sound:
  assumes "gm_get (restore_names nm out (some_table g m)) n = Some i"
  shows "gm_get out n = Some i \<or> (\<exists>r. (i, r) \<in> set m \<and> nm (g r) = Some n)"
  using assms
proof (induction m arbitrary: out)
  case Nil
  then show ?case by (simp add: some_table_def)
next
  case (Cons kr m)
  obtain k r where kr: "kr = (k, r)" by fastforce
  have "gm_get (restore_names nm (case nm (g r) of None \<Rightarrow> out | Some n \<Rightarrow> gm_put n k out) (some_table g m)) n = Some i"
    using Cons.prems by (simp add: kr some_table_def)
  from Cons.IH [OF this] show ?case
    by (auto simp: kr split: option.splits if_splits)
qed

lemma restore_names_wf: "gm_wf out \<Longrightarrow> gm_wf (restore_names nm out m)"
  by (induction nm out m rule: restore_names.induct) (auto split: option.split)

lemma restore_table_wf: "gm_wf out \<Longrightarrow> gm_wf (restore_table h out m)"
  by (induction h out m rule: restore_table.induct) auto

lemma restore_names_other:
  "\<forall>(j, s) \<in> set m. nm (g s) \<noteq> Some n \<Longrightarrow> gm_get (restore_names nm out (some_table g m)) n = gm_get out n"
proof (induction m arbitrary: out)
  case Nil
  then show ?case by (simp add: some_table_def)
next
  case (Cons x m)
  then show ?case
    by (cases x) (auto simp: some_table_def split: option.split)
qed

text \<open>Where no two entries share an index name, the index leads to every entry.\<close>

lemma restore_names_complete:
  assumes "\<And>j s. (j, s) \<in> set m \<Longrightarrow> nm (g s) = Some n \<Longrightarrow> j = i"
    and "(i, r) \<in> set m" and "nm (g r) = Some n"
  shows "gm_get (restore_names nm out (some_table g m)) n = Some i"
  using assms
proof (induction m arbitrary: out r)
  case Nil
  then show ?case by simp
next
  case (Cons kr m)
  obtain k s where kr: "kr = (k, s)" by fastforce
  let ?out = "case nm (g s) of None \<Rightarrow> out | Some n \<Rightarrow> gm_put n k out"
  have step: "restore_names nm out (some_table g (kr # m)) = restore_names nm ?out (some_table g m)"
    by (simp add: kr some_table_def)
  have uniq: "j = i" if "(j, s) \<in> set m" "nm (g s) = Some n" for j s
    using Cons.prems(1) [of j s] that by simp
  show ?case
  proof (cases "\<exists>i' r'. (i', r') \<in> set m \<and> nm (g r') = Some n")
    case True
    then obtain i' r' where r': "(i', r') \<in> set m" "nm (g r') = Some n" by blast
    have "i' = i"
      using uniq r' by blast
    with r' have "(i, r') \<in> set m" by simp
    show ?thesis
      unfolding step using uniq \<open>(i, r') \<in> set m\<close> r'(2) by (rule Cons.IH)
  next
    case False
    then have i: "i = k" "r = s" using Cons.prems(2,3) kr by auto
    have "gm_get (restore_names nm out' (some_table g m)) n = gm_get out' n" for out'
      using False by (intro restore_names_other) auto
    then show ?thesis
      using step i Cons.prems(3) by simp
  qed
qed

end
