(* ===== verification/Fsm_Replication.thy ===== *)
theory Fsm_Replication
  imports Fsm_Snapshot
begin

text \<open>
  State machine replication: two managers that apply the same log agree, and one that starts
  from a snapshot agrees with one that applied the whole log. States are compared as maps, since
  the iteration order of a Go map differs from one process to the next.
\<close>

section \<open>States that are the same as maps\<close>

definition fsm_same :: "fsm \<Rightarrow> fsm \<Rightarrow> bool" where
  "fsm_same f g \<longleftrightarrow> fsCluster f = fsCluster g \<and> gm_get (fsNodes f) = gm_get (fsNodes g) \<and>
     gm_get (fsPeers f) = gm_get (fsPeers g) \<and> gm_get (fsSandboxes f) = gm_get (fsSandboxes g) \<and>
     gm_get (fsSandboxNames f) = gm_get (fsSandboxNames g) \<and> gm_get (fsVolumes f) = gm_get (fsVolumes g) \<and>
     gm_get (fsVolumeNames f) = gm_get (fsVolumeNames g) \<and> gm_get (fsApiKeys f) = gm_get (fsApiKeys g)"

lemma fsm_same_refl [simp]: "fsm_same f f"
  by (simp add: fsm_same_def)

lemma fsm_same_sym: "fsm_same f g \<Longrightarrow> fsm_same g f"
  by (simp add: fsm_same_def)

lemma fsm_same_trans: "fsm_same f g \<Longrightarrow> fsm_same g h \<Longrightarrow> fsm_same f h"
  by (simp add: fsm_same_def)

definition agree :: "fsm \<times> go_error option \<Rightarrow> fsm \<times> go_error option \<Rightarrow> bool" where
  "agree r r' \<longleftrightarrow> fsm_same (fst r) (fst r') \<and> snd r = snd r'"

lemma agree_if: "agree a a' \<Longrightarrow> agree b b' \<Longrightarrow> agree (if c then a else b) (if c then a' else b')"
  by simp

lemma agree_error: "fsm_same f g \<Longrightarrow> agree (f, e) (g, e)"
  by (simp add: agree_def)

lemma create_agree:
  "fsm_same f g \<Longrightarrow> op \<noteq> opInitCluster \<or> now = now' \<Longrightarrow> op = opCreateCluster \<or> op = opInitCluster \<Longrightarrow>
    agree (applyCreateCluster now f op raw) (applyCreateCluster now' g op raw)"
  by (auto simp: agree_def applyCreateCluster_def fsm_same_def Let_def split: sum.split)

lemma update_agree:
  "fsm_same f g \<Longrightarrow> agree (applyUpdateCluster load f op raw) (applyUpdateCluster load g op raw)"
  by (simp add: agree_def applyUpdateCluster_def fsm_same_def Let_def split: sum.split option.split)

lemma node_ops_agree:
  "fsm_same f g \<Longrightarrow> agree (applySaveNode f raw) (applySaveNode g raw)"
  "fsm_same f g \<Longrightarrow> agree (applyDeleteNode f raw) (applyDeleteNode g raw)"
  by (simp_all add: agree_def applySaveNode_def applyDeleteNode_def fsm_same_def gm_has_def update_conv' delete_conv'
      split: sum.split option.split)

lemma peer_ops_agree:
  "fsm_same f g \<Longrightarrow> agree (applySavePeer f raw) (applySavePeer g raw)"
  "fsm_same f g \<Longrightarrow> agree (applyDeletePeer f raw) (applyDeletePeer g raw)"
  by (simp_all add: agree_def applySavePeer_def applyDeletePeer_def fsm_same_def update_conv' delete_conv'
      split: sum.split)

lemma sandbox_ops_agree:
  "fsm_same f g \<Longrightarrow> agree (applySaveSandbox f raw) (applySaveSandbox g raw)"
  "fsm_same f g \<Longrightarrow> agree (applyDeleteSandbox f raw) (applyDeleteSandbox g raw)"
  by (simp_all add: agree_def applySaveSandbox_def applyDeleteSandbox_def fsm_same_def Let_def update_conv' delete_conv'
      split: sum.split option.split)

lemma volume_ops_agree:
  "fsm_same f g \<Longrightarrow> agree (applySaveVolume f raw) (applySaveVolume g raw)"
  "fsm_same f g \<Longrightarrow> agree (applyDeleteVolume f raw) (applyDeleteVolume g raw)"
  by (simp_all add: agree_def applySaveVolume_def applyDeleteVolume_def fsm_same_def Let_def update_conv' delete_conv'
      split: sum.split option.split)

lemma key_ops_agree:
  "fsm_same f g \<Longrightarrow> agree (applySaveAPIKey f raw) (applySaveAPIKey g raw)"
  "fsm_same f g \<Longrightarrow> agree (applyDeleteAPIKey f raw) (applyDeleteAPIKey g raw)"
  by (simp_all add: agree_def applySaveAPIKey_def applyDeleteAPIKey_def fsm_same_def gm_has_def update_conv' delete_conv'
      split: sum.split option.split)

lemmas ops_agree = node_ops_agree peer_ops_agree sandbox_ops_agree volume_ops_agree key_ops_agree

text \<open>The one operation that reads the clock.\<close>

definition timeless :: "log_data \<Rightarrow> bool" where
  "timeless data \<longleftrightarrow> (case decodeCommand data of Inl _ \<Rightarrow> True | Inr cmd \<Rightarrow> cmdOp cmd \<noteq> opInitCluster)"

lemma dispatch_agree:
  assumes "fsm_same f g" and "op \<noteq> opInitCluster \<or> now = now'"
  shows "agree (fsm_dispatch load now f op raw) (fsm_dispatch load now' g op raw)"
proof (cases "op = opCreateCluster \<or> op = opInitCluster")
  case True
  with create_agree [OF assms True] show ?thesis
    by (simp only: fsm_dispatch_def if_True)
next
  case False
  then show ?thesis
    unfolding fsm_dispatch_def
    by (simp only: if_False) (intro agree_if update_agree ops_agree agree_error assms(1))
qed

lemma Apply_agree:
  assumes "fsm_same f g" and "timeless data \<or> now = now'"
  shows "agree (fsm_Apply load now f data) (fsm_Apply load now' g data)"
proof (cases "decodeCommand data")
  case (Inl e)
  then show ?thesis by (simp add: fsm_Apply_def agree_error assms(1))
next
  case (Inr cmd)
  with assms(2) have "cmdOp cmd \<noteq> opInitCluster \<or> now = now'"
    by (simp add: timeless_def)
  with Inr show ?thesis
    by (simp add: fsm_Apply_def dispatch_agree assms(1))
qed

section \<open>Replaying a log\<close>

text \<open>A log, each entry with the time at which the replica applies it.\<close>

fun replay :: "ca_loader \<Rightarrow> fsm \<Rightarrow> (gotime \<times> log_data) list \<Rightarrow> fsm" where
  "replay load f [] = f"
| "replay load f ((now, data) # es) = replay load (fst (fsm_Apply load now f data)) es"

lemma replay_append: "replay load f (es @ es') = replay load (replay load f es) es'"
  by (induction load f es rule: replay.induct) simp_all

lemma replay_same:
  assumes "fsm_same f g" and "map snd es = map snd es'" and "\<forall>d \<in> snd ` set es. timeless d"
  shows "fsm_same (replay load f es) (replay load g es')"
  using assms
proof (induction es arbitrary: f g es')
  case Nil
  then show ?case by simp
next
  case (Cons e es)
  then obtain now now' data fs' where e: "e = (now, data)" and es': "es' = (now', data) # fs'"
    by (cases e; cases es') (auto simp: prod_eq_iff)
  have "fsm_same (fst (fsm_Apply load now f data)) (fst (fsm_Apply load now' g data))"
    using Apply_agree [OF Cons.prems(1)] Cons.prems(3) by (simp add: agree_def e)
  from Cons.IH [OF this] Cons.prems show ?case
    by (simp add: e es')
qed



text \<open>
  The legacy \<open>init_cluster\<close> is not deterministic: an entry without a creation time
  leaves two replicas that apply it at different times with different cluster objects.
\<close>

theorem init_cluster_diverges:
  assumes "now \<noteq> now'"
  shows "\<not> fsm_same (fst (fsm_Apply load now NewFSM (encodeCommand opInitCluster no_fields)))
                    (fst (fsm_Apply load now' NewFSM (encodeCommand opInitCluster no_fields)))"
  using assms by (simp add: fsm_Apply_def fsm_dispatch_def applyCreateCluster_def NewFSM_def initClusterPayload_def
      no_fields_def fsm_same_def is_zero_time_def Let_def)

theorem init_cluster_diverges_witness:
  "\<not> fsm_same (fst (fsm_Apply (\<lambda>_ _. Inl ErrNotLeader) 1 NewFSM (encodeCommand opInitCluster no_fields)))
              (fst (fsm_Apply (\<lambda>_ _. Inl ErrNotLeader) 2 NewFSM (encodeCommand opInitCluster no_fields)))"
  by (rule init_cluster_diverges) simp

section \<open>Restoring a snapshot\<close>

definition persisted :: "fsm \<Rightarrow> persisted_snapshot" where
  "persisted f = \<lparr>psCluster = ssCluster (fsm_Snapshot f), psNodes = some_table id (ssNodes (fsm_Snapshot f)),
     psPeers = ssPeers (fsm_Snapshot f), psSandboxes = some_table sandbox_image (ssSandboxes (fsm_Snapshot f)),
     psVolumes = some_table id (ssVolumes (fsm_Snapshot f)), psApiKeys = some_table id (ssApiKeys (fsm_Snapshot f)),
     psCertPEM = [], psKeyPEM = [], psLegacyCluster = None\<rparr>"

lemma snapshot_Persist_Inr: "snapshot_Persist wr (fsm_Snapshot f) = Inr file \<Longrightarrow> file = SnapshotFile (persisted f)"
  by (auto simp: snapshot_Persist_def persisted_def split: option.splits)

lemma restore_some: "gm_wf m \<Longrightarrow> restore_table h [] (some_table g m) = map (\<lambda>(k, r). (k, h (g r))) m"
  using restore_table_some [of "[]" m h g] by (simp add: gm_wf_def)

lemma map_option_copy_cluster [simp]: "map_option copy_cluster c = c"
  by (cases c) simp_all

lemma map_pair_id: "\<forall>r \<in> snd ` set m. h r = r \<Longrightarrow> map (\<lambda>(k, r). (k, h r)) m = m"
  by (auto intro!: map_idI)

lemma restored_keyed:
  "keyed rid m \<Longrightarrow> \<forall>r. rid (h r) = rid r \<Longrightarrow> keyed rid (map (\<lambda>(k, r). (k, h r)) m)"
  by (auto simp: keyed_def gm_get_map)

lemma some_table_map: "some_table g (map (\<lambda>(k, r). (k, c r)) m) = some_table (\<lambda>r. g (c r)) m"
  by (simp add: some_table_def case_prod_beta comp_def)

abbreviation through :: "sandbox \<Rightarrow> sandbox" where
  "through sb \<equiv> CloneSandbox (sandbox_image (CloneSandbox sb))"

lemma fsm_Restore_persisted:
  assumes "fsm_keyed f"
  shows "fsm_Restore load g (SnapshotFile (persisted f)) =
    (\<lparr>fsCluster = fsCluster f, fsNodes = fsNodes f, fsPeers = fsPeers f,
      fsSandboxes = map (\<lambda>(k, sb). (k, through sb)) (fsSandboxes f),
      fsSandboxNames = restore_names sandbox_index_name [] (some_table (\<lambda>sb. sandbox_image (CloneSandbox sb)) (fsSandboxes f)),
      fsVolumes = map (\<lambda>(k, v). (k, CloneVolume (CloneVolume v))) (fsVolumes f),
      fsVolumeNames = restore_names volume_index_name [] (some_table CloneVolume (fsVolumes f)),
      fsApiKeys = fsApiKeys f\<rparr>, None)"
proof -
  have wf: "gm_wf (fsNodes f)" "gm_wf (fsPeers f)" "gm_wf (fsSandboxes f)" "gm_wf (fsVolumes f)" "gm_wf (fsApiKeys f)"
    using assms by (simp_all add: fsm_keyed_def keyed_def)
  have "restore_cluster load (persisted f) = Inr (fsCluster f)"
    by (simp add: restore_cluster_def persisted_def fsm_Snapshot_def split: option.split)
  then show ?thesis
    using wf by (simp add: fsm_Restore_def persisted_def fsm_Snapshot_def restore_some copy_table_id copy_table_map
        some_table_map map_pair_id)
qed

definition names_exact :: "fsm \<Rightarrow> bool" where
  "names_exact f \<longleftrightarrow> (\<forall>n i. gm_get (fsSandboxNames f) n = Some i \<longleftrightarrow>
     n \<noteq> [] \<and> (\<exists>sb. gm_get (fsSandboxes f) i = Some sb \<and> sbName sb = n))"

definition volume_names_exact :: "fsm \<Rightarrow> bool" where
  "volume_names_exact f \<longleftrightarrow> (\<forall>n i. gm_get (fsVolumeNames f) n = Some i \<longleftrightarrow>
     n \<noteq> [] \<and> (\<exists>v. gm_get (fsVolumes f) i = Some v \<and> volKind v = VolumeKindNamed \<and> volName v = n))"

text \<open>The rebuilt index of a table whose index was exact.\<close>

lemma rebuilt_index:
  assumes "gm_wf m" and exact: "\<And>n i. gm_get ix n = Some i \<longleftrightarrow> (\<exists>r. gm_get m i = Some r \<and> nm (h r) = Some n)"
  shows "gm_get (restore_names nm [] (some_table h m)) = gm_get ix"
proof
  fix n
  have mem: "gm_get m i = Some r \<longleftrightarrow> (i, r) \<in> set m" for i r
    using assms(1) by (simp add: gm_get_mem)
  show "gm_get (restore_names nm [] (some_table h m)) n = gm_get ix n"
  proof (cases "gm_get ix n")
    case None
    then have "\<forall>(j, s) \<in> set m. nm (h s) \<noteq> Some n"
      using exact [of n] mem by fastforce
    with None show ?thesis by (simp add: restore_names_other)
  next
    case (Some i)
    then obtain r where r: "(i, r) \<in> set m" "nm (h r) = Some n"
      using exact [of n i] mem by auto
    have "j = i" if "(j, s) \<in> set m" "nm (h s) = Some n" for j s
      using exact [of n j] Some mem that by auto
    then have "gm_get (restore_names nm [] (some_table h m)) n = Some i"
      using r by (rule restore_names_complete)
    with Some show ?thesis by simp
  qed
qed

definition snapshot_safe :: "fsm \<Rightarrow> bool" where
  "snapshot_safe f \<longleftrightarrow> (\<forall>sb \<in> snd ` set (fsSandboxes f). sandbox_wf sb \<and> text_patches sb) \<and>
     (\<forall>v \<in> snd ` set (fsVolumes f). gm_wf (volLabels v))"

lemma restore_same:
  assumes "fsm_keyed f" and "names_exact f" and "volume_names_exact f" and "snapshot_safe f"
  shows "fsm_same (fst (fsm_Restore load g (SnapshotFile (persisted f)))) f"
proof -
  have wf: "gm_wf (fsSandboxes f)" "gm_wf (fsVolumes f)"
    using assms(1) by (simp_all add: fsm_keyed_def keyed_def)
  have sb: "through sb = sb" if "sb \<in> snd ` set (fsSandboxes f)" for sb
    using that assms(4) by (auto simp: snapshot_safe_def CloneSandbox_same sandbox_image_id)
  have v: "CloneVolume (CloneVolume v) = v" if "v \<in> snd ` set (fsVolumes f)" for v
    using that assms(4) by (auto simp: snapshot_safe_def CloneVolume_id)
  have names: "gm_get (restore_names sandbox_index_name [] (some_table (\<lambda>sb. sandbox_image (CloneSandbox sb)) (fsSandboxes f))) =
      gm_get (fsSandboxNames f)"
    by (rule rebuilt_index [OF wf(1)])
      (use assms(2) in \<open>auto simp: names_exact_def sandbox_index_name_def CloneSandbox_keeps\<close>)
  have vnames: "gm_get (restore_names volume_index_name [] (some_table CloneVolume (fsVolumes f))) =
      gm_get (fsVolumeNames f)"
    by (rule rebuilt_index [OF wf(2)])
      (use assms(3) in \<open>auto simp: volume_names_exact_def volume_index_name_def CloneVolume_keeps\<close>)
  show ?thesis
    using sb v names vnames by (simp add: fsm_Restore_persisted [OF assms(1)] fsm_same_def map_pair_id)
qed

section \<open>Exact name indexes\<close>

text \<open>
  An entry that saves a sandbox without a name, in its record or in its spec, would leave the
  name of the record it replaces in the index; every other entry keeps the index exact.
\<close>

definition saves_named :: "log_data \<Rightarrow> bool" where
  "saves_named data \<longleftrightarrow>
     (case decodeCommand data of
        Inl _ \<Rightarrow> True
      | Inr cmd \<Rightarrow> cmdOp cmd = opSaveSandbox \<longrightarrow>
          (\<forall>sb. unmarshal (cmdPayload cmd) sandboxPayload = Inr (Some sb) \<longrightarrow> effective_name sb \<noteq> []))"

lemma names_exact_ok: "names_exact f \<Longrightarrow> names_ok f"
  by (auto simp: names_exact_def names_ok_def)

lemma names_exact_same: "same_sandboxes f g \<Longrightarrow> names_exact f \<Longrightarrow> names_exact g"
  by (simp add: same_sandboxes_def names_exact_def)

lemma names_exactI:
  assumes "names_ok f"
    and "\<And>n i. gm_get (fsSandboxNames f) n = Some i \<Longrightarrow> n \<noteq> [] \<and> (\<exists>sb. gm_get (fsSandboxes f) i = Some sb \<and> sbName sb = n)"
  shows "names_exact f"
  using assms by (auto simp: names_exact_def names_ok_def)

lemma names_exactD:
  "names_exact f \<Longrightarrow> gm_get (fsSandboxNames f) n = Some i \<Longrightarrow> n \<noteq> [] \<and> (\<exists>sb. gm_get (fsSandboxes f) i = Some sb \<and> sbName sb = n)"
  by (auto simp: names_exact_def)

lemma applySaveSandbox_names_exact:
  assumes "names_exact f" and "\<forall>sb. unmarshal raw sandboxPayload = Inr (Some sb) \<longrightarrow> effective_name sb \<noteq> []"
  shows "names_exact (fst (applySaveSandbox f raw))"
proof (rule names_exactI)
  show "names_ok (fst (applySaveSandbox f raw))"
    by (intro applySaveSandbox_names_ok names_exact_ok assms(1))
  fix n i
  assume entry: "gm_get (fsSandboxNames (fst (applySaveSandbox f raw))) n = Some i"
  show "n \<noteq> [] \<and> (\<exists>sb. gm_get (fsSandboxes (fst (applySaveSandbox f raw))) i = Some sb \<and> sbName sb = n)"
  proof (cases rule: applySaveSandbox_cases [of f raw])
    case (error e)
    with names_exactD [OF assms(1)] entry show ?thesis by simp
  next
    case (unnamed sb)
    with assms(2) show ?thesis by simp
  next
    case (named sb names)
    show ?thesis
    proof (cases "n = effective_name sb")
      case True
      with named(3,6) entry show ?thesis by (auto simp: CloneSandbox_keeps)
    next
      case False
      with entry named(6) have n: "gm_get names n = Some i" by simp
      then have "gm_get (fsSandboxNames f) n = Some i"
        by (auto simp: named(5) split: option.splits if_splits)
      from names_exactD [OF assms(1) this] obtain old where
        old: "n \<noteq> []" "gm_get (fsSandboxes f) i = Some old" "sbName old = n" by auto
      have "i \<noteq> sbID sb"
      proof
        assume "i = sbID sb"
        with old False have "names = gm_del n (fsSandboxNames f)"
          by (simp add: named(5))
        with n show False by simp
      qed
      with old named(6) show ?thesis by simp
    qed
  qed
qed

lemma applyDeleteSandbox_names_exact:
  assumes "names_exact f" shows "names_exact (fst (applyDeleteSandbox f raw))"
proof (rule names_exactI)
  show "names_ok (fst (applyDeleteSandbox f raw))"
    by (intro applyDeleteSandbox_names_ok names_exact_ok assms)
  fix n j
  assume entry: "gm_get (fsSandboxNames (fst (applyDeleteSandbox f raw))) n = Some j"
  show "n \<noteq> [] \<and> (\<exists>sb. gm_get (fsSandboxes (fst (applyDeleteSandbox f raw))) j = Some sb \<and> sbName sb = n)"
  proof (cases rule: applyDeleteSandbox_cases [of f raw])
    case (error e)
    with names_exactD [OF assms] entry show ?thesis by simp
  next
    case (deleted i sb)
    have n: "gm_get (fsSandboxNames f) n = Some j" "sbName sb = [] \<or> n \<noteq> sbName sb"
      using entry by (auto simp: deleted(4) split: if_splits)
    with names_exactD [OF assms n(1)] deleted(3) have "j \<noteq> i" by auto
    with names_exactD [OF assms n(1)] show ?thesis
      by (simp add: deleted(4))
  qed
qed

lemmas names_exact_others = other_ops_same [THEN names_exact_same]

lemma fsm_Apply_names_exact:
  assumes "names_exact f" and "saves_named data"
  shows "names_exact (fst (fsm_Apply load now f data))"
proof (cases "decodeCommand data")
  case (Inl e)
  with assms show ?thesis by (simp add: fsm_Apply_def)
next
  case (Inr cmd)
  show ?thesis
  proof (cases "cmdOp cmd = opSaveSandbox")
    case True
    with Inr assms have "names_exact (fst (applySaveSandbox f (cmdPayload cmd)))"
      by (intro applySaveSandbox_names_exact) (simp_all add: saves_named_def)
    with Inr True show ?thesis by (simp add: fsm_Apply_def fsm_dispatch_def)
  next
    case False
    have "names_exact (fst (fsm_dispatch load now f (cmdOp cmd) (cmdPayload cmd)))"
      using assms(1) False
      by (simp only: fsm_dispatch_def if_False)
        (intro if_both [of "\<lambda>r. names_exact (fst r)"] names_exact_others applyDeleteSandbox_names_exact; simp)
    with Inr show ?thesis by (simp add: fsm_Apply_def)
  qed
qed

lemma replay_names_exact:
  "names_exact f \<Longrightarrow> \<forall>d \<in> snd ` set es. saves_named d \<Longrightarrow> names_exact (replay load f es)"
  by (induction load f es rule: replay.induct) (simp_all add: fsm_Apply_names_exact)

lemma replay_keyed: "fsm_keyed f \<Longrightarrow> fsm_keyed (replay load f es)"
  by (induction load f es rule: replay.induct) (simp_all add: fsm_Apply_keyed)

text \<open>
  Claim C5: snapshot and log suffix replace the log: a manager that restores a snapshot another
  manager took after a prefix of the log, and then applies the rest, agrees with one that
  applied the whole log. The prefix must save its sandboxes under a name, and the snapshotted
  state must have an exact volume index and no raw patch contents.
\<close>

theorem snapshot_recovery:
  assumes "\<forall>d \<in> snd ` set es. saves_named d" and "\<forall>d \<in> snd ` set es'. timeless d"
    and "volume_names_exact (replay load NewFSM es)" and "snapshot_safe (replay load NewFSM es)"
    and "snapshot_Persist wr (fsm_Snapshot (replay load NewFSM es)) = Inr file"
    and "map snd es' = map snd es''"
  shows "fsm_same (replay load (fst (fsm_Restore load g file)) es') (replay load NewFSM (es @ es''))"
proof -
  have "names_exact NewFSM"
    by (simp add: names_exact_def NewFSM_def)
  then have "names_exact (replay load NewFSM es)"
    using assms(1) by (intro replay_names_exact)
  then have "fsm_same (fst (fsm_Restore load g file)) (replay load NewFSM es)"
    unfolding snapshot_Persist_Inr [OF assms(5)]
    by (intro restore_same replay_keyed NewFSM_keyed assms(3,4))
  then show ?thesis
    unfolding replay_append by (rule replay_same [OF _ assms(6,2)])
qed

definition save_sandbox_entry :: "sandbox \<Rightarrow> log_data" where
  "save_sandbox_entry sb = encodeCommand opSaveSandbox (no_fields\<lparr>jSandbox := Given sb\<rparr>)"

lemma demo_sandbox_named: "demo_sandbox\<lparr>sbName := ''web''\<rparr> = demo_sandbox"
  by (simp add: demo_sandbox_def)

lemma demo_sandbox_plain:
  "sandbox_wf demo_sandbox" "text_patches demo_sandbox" "sbName demo_sandbox = ''web''" "sbID demo_sandbox = ''s1''"
  by (simp_all add: demo_sandbox_def sandbox_wf_def spec_wf_def zero_spec_def text_patches_def)

definition demo_fsm :: fsm where
  "demo_fsm = NewFSM\<lparr>fsSandboxes := [(''s1'', demo_sandbox)], fsSandboxNames := [(''web'', ''s1'')]\<rparr>"

lemma demo_fsm_simps:
  "fsSandboxes demo_fsm = [(''s1'', demo_sandbox)]" "fsSandboxNames demo_fsm = [(''web'', ''s1'')]"
  "fsVolumes demo_fsm = []" "fsVolumeNames demo_fsm = []"
  by (simp_all add: demo_fsm_def NewFSM_def)

lemma demo_saved: "fst (fsm_Apply load now NewFSM (save_sandbox_entry demo_sandbox)) = demo_fsm"
  by (simp add: demo_fsm_def fsm_Apply_def save_sandbox_entry_def fsm_dispatch_def applySaveSandbox_def sandboxPayload_def
      NewFSM_def effective_name_def demo_sandbox_plain demo_sandbox_named CloneSandbox_same Let_def)

theorem snapshot_recovery_witness:
  "fsm_same
     (replay (\<lambda>_ _. Inl ErrNotLeader)
        (fst (fsm_Restore (\<lambda>_ _. Inl ErrNotLeader) NewFSM (SnapshotFile (persisted
           (replay (\<lambda>_ _. Inl ErrNotLeader) NewFSM [(1, save_sandbox_entry demo_sandbox)])))))
        [(5, encodeCommand opDeleteSandbox (no_fields\<lparr>jID := Given ''s1''\<rparr>))])
     (replay (\<lambda>_ _. Inl ErrNotLeader) NewFSM
        ([(1, save_sandbox_entry demo_sandbox)] @ [(9, encodeCommand opDeleteSandbox (no_fields\<lparr>jID := Given ''s1''\<rparr>))]))"
proof (rule snapshot_recovery [where wr = None])
  show "\<forall>d \<in> snd ` set [(1, save_sandbox_entry demo_sandbox)]. saves_named d"
    by (simp add: saves_named_def save_sandbox_entry_def sandboxPayload_def effective_name_def demo_sandbox_def)
  show "volume_names_exact (replay (\<lambda>_ _. Inl ErrNotLeader) NewFSM [(1, save_sandbox_entry demo_sandbox)])"
    by (simp add: demo_saved volume_names_exact_def demo_fsm_simps)
  show "snapshot_safe (replay (\<lambda>_ _. Inl ErrNotLeader) NewFSM [(1, save_sandbox_entry demo_sandbox)])"
    by (simp add: demo_saved snapshot_safe_def demo_fsm_simps demo_sandbox_plain)
qed (simp_all add: snapshot_Persist_def persisted_def timeless_def)

section \<open>The state of a manager\<close>

text \<open>
  The states a manager can be in: empty at first, changed by the entries it applies, replaced
  by a snapshot some manager took, and with its maps iterated in another order.
\<close>

inductive replica :: "ca_loader \<Rightarrow> fsm \<Rightarrow> bool" for load where
  start: "replica load NewFSM"
| applied: "replica load f \<Longrightarrow> replica load (fst (fsm_Apply load now f data))"
| restored: "replica load f \<Longrightarrow> replica load g \<Longrightarrow> snapshot_Persist wr (fsm_Snapshot g) = Inr file \<Longrightarrow>
    replica load (fst (fsm_Restore load f file))"
| reordered: "replica load f \<Longrightarrow> fsm_same f g \<Longrightarrow> fsm_keyed g \<Longrightarrow> replica load g"

lemma replica_keyed: "replica load f \<Longrightarrow> fsm_keyed f"
proof (induction rule: replica.induct)
  case (restored f g wr sf)
  then show ?case
    unfolding snapshot_Persist_Inr [OF restored.hyps(3)] fsm_Restore_persisted [OF restored.IH(2)]
    by (auto simp: fsm_keyed_def restore_names_wf CloneSandbox_keeps CloneVolume_keeps intro!: restored_keyed)
qed (simp_all add: NewFSM_keyed fsm_Apply_keyed)

lemma restored_names_ok:
  assumes "fsm_keyed g" and "names_ok g"
  shows "names_ok (fst (fsm_Restore load f (SnapshotFile (persisted g))))"
proof -
  have wf: "gm_wf (fsSandboxes g)"
    using assms(1) by (simp add: fsm_keyed_def keyed_def)
  have "gm_get (restore_names sandbox_index_name [] (some_table (\<lambda>sb. sandbox_image (CloneSandbox sb)) (fsSandboxes g))) (sbName sb) = Some i"
    if sb: "gm_get (fsSandboxes g) i = Some sb" "sbName sb \<noteq> []" for i sb
  proof (rule restore_names_complete)
    show "(i, sb) \<in> set (fsSandboxes g)"
      using sb(1) by (rule map_of_SomeD)
    show "sandbox_index_name (sandbox_image (CloneSandbox sb)) = Some (sbName sb)"
      using sb(2) by (simp add: sandbox_index_name_def CloneSandbox_keeps)
    fix j s
    assume "(j, s) \<in> set (fsSandboxes g)" and "sandbox_index_name (sandbox_image (CloneSandbox s)) = Some (sbName sb)"
    then have "gm_get (fsSandboxes g) j = Some s" "sbName s = sbName sb"
      using wf by (auto simp: gm_get_mem sandbox_index_name_def CloneSandbox_keeps split: if_splits)
    with names_ok_inj [OF assms(2) this(1) sb(1)] sb(2) show "j = i" by simp
  qed
  then show ?thesis
    unfolding fsm_Restore_persisted [OF assms(1)] by (auto simp: names_ok_def gm_get_map CloneSandbox_keeps)
qed

lemma replica_names_ok: "replica load f \<Longrightarrow> names_ok f"
proof (induction rule: replica.induct)
  case (restored f g wr sf)
  then show ?case
    unfolding snapshot_Persist_Inr [OF restored.hyps(3)] by (intro restored_names_ok replica_keyed)
next
  case (reordered f g)
  then show ?case by (simp add: names_ok_def fsm_same_def)
qed (simp_all add: fsm_Apply_names_ok, simp add: names_ok_def NewFSM_def)

text \<open>
  Claim C9: in every state a manager can reach, by any log and any snapshots, sandbox names are
  unique and resolvable: looking a sandbox up by the name it carries yields that very sandbox.
\<close>

theorem replica_name_lookup:
  assumes "replica load f" and "getSandbox f i = Inr sb" and "sbName sb \<noteq> []"
  shows "getSandboxByName f (sbName sb) = Inr sb \<and>
    (\<forall>j sb'. getSandbox f j = Inr sb' \<longrightarrow> sbName sb' = sbName sb \<longrightarrow> j = i)"
proof -
  obtain r where r: "gm_get (fsSandboxes f) i = Some r" "sb = CloneSandbox r"
    using assms(2) by (auto simp: getSandbox_def split: option.splits)
  with assms(3) have name: "sbName r \<noteq> []" "sbName sb = sbName r"
    by (simp_all add: CloneSandbox_keeps)
  note ok = replica_names_ok [OF assms(1)]
  have "j = i" if "getSandbox f j = Inr sb'" "sbName sb' = sbName sb" for j sb'
  proof -
    from that name(2) obtain s where s: "gm_get (fsSandboxes f) j = Some s" "sbName s = sbName r"
      by (auto simp: getSandbox_def CloneSandbox_keeps split: option.splits)
    with names_ok_inj [OF ok s(1) r(1)] name(1) show ?thesis by simp
  qed
  moreover have "getSandboxByName f (sbName sb) = Inr sb"
    using names_okD [OF ok r(1) name(1)] by (simp add: getSandboxByName_def r CloneSandbox_keeps)
  ultimately show ?thesis by blast
qed

theorem replica_name_lookup_witness:
  "getSandboxByName (fst (fsm_Apply (\<lambda>_ _. Inl ErrNotLeader) 1 NewFSM (save_sandbox_entry demo_sandbox))) ''web'' =
     Inr demo_sandbox"
proof -
  let ?f = "fst (fsm_Apply (\<lambda>_ _. Inl ErrNotLeader) 1 NewFSM (save_sandbox_entry demo_sandbox))"
  have "replica (\<lambda>_ _. Inl ErrNotLeader) ?f"
    by (intro replica.applied replica.start)
  moreover have "getSandbox ?f ''s1'' = Inr demo_sandbox" "sbName demo_sandbox = ''web''"
    by (simp_all add: demo_saved getSandbox_def demo_fsm_simps demo_sandbox_plain CloneSandbox_same)
  ultimately show ?thesis
    using replica_name_lookup [of "\<lambda>_ _. Inl ErrNotLeader" ?f "''s1''" demo_sandbox] by simp
qed

lemma keyed_lookup: "keyed rid m \<Longrightarrow> (k, r) \<in> set m \<Longrightarrow> rid r \<noteq> [] \<and> gm_get m (rid r) = Some r"
  by (metis keyed_def gm_get_mem)

text \<open>
  In every state a manager can reach, the listed records have distinct, non-empty
  identifiers, and a listed node, sandbox, volume or key is what its identifier looks up.
\<close>

theorem replica_listing:
  assumes "replica load f"
  shows "distinct (map nID (listNodes f)) \<and> distinct (map sbID (listSandboxes f)) \<and>
    distinct (map volID (listVolumes f)) \<and> distinct (map kID (listAPIKeys f)) \<and>
    (\<forall>n \<in> set (listNodes f). nID n \<noteq> [] \<and> getNode f (nID n) = Inr n) \<and>
    (\<forall>sb \<in> set (listSandboxes f). sbID sb \<noteq> [] \<and> getSandbox f (sbID sb) = Inr sb) \<and>
    (\<forall>v \<in> set (listVolumes f). volID v \<noteq> [] \<and> getVolume f (volID v) = Inr v) \<and>
    (\<forall>k \<in> set (listAPIKeys f). kID k \<noteq> [] \<and> getAPIKey f (kID k) = Inr k)"
proof -
  from replica_keyed [OF assms] have keyed: "keyed nID (fsNodes f)" "keyed sbID (fsSandboxes f)"
    "keyed volID (fsVolumes f)" "keyed kID (fsApiKeys f)"
    by (simp_all add: fsm_keyed_def)
  have ids: "map nID (listNodes f) = map nID (map snd (fsNodes f))"
    "map sbID (listSandboxes f) = map sbID (map snd (fsSandboxes f))"
    "map volID (listVolumes f) = map volID (map snd (fsVolumes f))"
    "map kID (listAPIKeys f) = map kID (map snd (fsApiKeys f))"
    by (auto simp: listNodes_def listSandboxes_def listVolumes_def listAPIKeys_def clone_node_def
        CloneSandbox_keeps CloneVolume_keeps)
  show ?thesis
    unfolding ids using keyed [THEN keyed_distinct] keyed [THEN keyed_lookup]
    by (auto simp: listNodes_def listSandboxes_def listVolumes_def listAPIKeys_def clone_node_def
        getNode_def getSandbox_def getVolume_def getAPIKey_def CloneSandbox_keeps CloneVolume_keeps)
qed

theorem replica_listing_witness:
  "distinct (map sbID (listSandboxes (fst (fsm_Apply (\<lambda>_ _. Inl ErrNotLeader) 1 NewFSM (save_sandbox_entry demo_sandbox)))))"
  using replica_listing [OF replica.applied [OF replica.start]] by blast

end
