(* ===== verification/Raft_Store.thy ===== *)
theory Raft_Store
  imports Fsm_Replication
begin

text \<open>
  \<open>internal/raftstore/store.go\<close>: the store that the managers use, over the Raft library and the
  state machine. The library is not part of the repository: what it answers is input. A manager
  holds its view of the leadership and of the configuration, and two lists of answers still to
  come, one for log entries (committed, refused, or committed although the future reported an
  error) and one for membership calls, whose calls are recorded.
\<close>

section \<open>The state of a manager's store\<close>

datatype raft_outcome = Committed | CommittedLost go_error | Refused go_error

datatype raft_call = AddVoterCall string string | RemoveServerCall string | TransferCall

record raft_server =
  svID :: string
  svAddress :: string
  svVoter :: bool

record raft_node =
  rnNodeID :: string
  rnRaftAddr :: string
  rnGRPCAdvertise :: string
  rnLeader :: bool
  rnLeaderAddr :: string
  rnLeaderID :: string
  rnServers :: "raft_server list result"
  rnOutcomes :: "raft_outcome list"
  rnAnswers :: "go_error option list"
  rnCalls :: "raft_call list"
  rnApplyTime :: gotime
  rnFsm :: fsm

definition defaultRaftAddr :: string where "defaultRaftAddr = '':17947''"
definition applyTimeout :: duration where "applyTimeout = 10 * second"

definition IsLeader :: "raft_node \<Rightarrow> bool" where "IsLeader s = rnLeader s"

definition store_requireLeader :: "raft_node \<Rightarrow> go_error option" where
  "store_requireLeader s = (if \<not> IsLeader s then Some ErrNotLeader else None)"

text \<open>\<open>apply\<close>: the entry goes through the log to the state machine, whose response is returned.\<close>

definition fsm_step :: "ca_loader \<Rightarrow> raft_node \<Rightarrow> log_data \<Rightarrow> raft_node \<times> go_error option" where
  "fsm_step load s data =
     (let (f, resp) = fsm_Apply load (rnApplyTime s) (rnFsm s) data in (s\<lparr>rnFsm := f\<rparr>, resp))"

definition store_apply :: "ca_loader \<Rightarrow> raft_node \<Rightarrow> log_data \<Rightarrow> raft_node \<times> go_error option" where
  "store_apply load s data =
     (case rnOutcomes s of
        [] \<Rightarrow> fsm_step load s data
      | Committed # os \<Rightarrow> fsm_step load (s\<lparr>rnOutcomes := os\<rparr>) data
      | CommittedLost e # os \<Rightarrow> (fst (fsm_step load (s\<lparr>rnOutcomes := os\<rparr>) data), Some e)
      | Refused e # os \<Rightarrow> (s\<lparr>rnOutcomes := os\<rparr>, Some e))"

text \<open>A membership call: recorded, and answered by the library.\<close>

definition do_raft_call :: "raft_node \<Rightarrow> raft_call \<Rightarrow> raft_node \<times> go_error option" where
  "do_raft_call s c =
     (let s' = s\<lparr>rnCalls := rnCalls s @ [c]\<rparr> in
      case rnAnswers s of [] \<Rightarrow> (s', None) | a # as \<Rightarrow> (s'\<lparr>rnAnswers := as\<rparr>, a))"

section \<open>Writes\<close>

definition SavePeer :: "ca_loader \<Rightarrow> raft_node \<Rightarrow> peer_info \<Rightarrow> raft_node \<times> go_error option" where
  "SavePeer load s peer =
     (if \<not> IsLeader s then (s, Some ErrNotLeader)
      else store_apply load s (encodeCommand opSavePeer (no_fields\<lparr>jPeer := Given peer\<rparr>)))"

definition DeletePeer :: "ca_loader \<Rightarrow> raft_node \<Rightarrow> string \<Rightarrow> raft_node \<times> go_error option" where
  "DeletePeer load s nodeID =
     (case store_requireLeader s of
        Some e \<Rightarrow> (s, Some e)
      | None \<Rightarrow>
          if nodeID = [] then (s, Some (errorf ''peer node_id is required''))
          else store_apply load s (encodeCommand opDeletePeer (no_fields\<lparr>jID := Given nodeID\<rparr>)))"

definition AddVoter :: "ca_loader \<Rightarrow> raft_node \<Rightarrow> peer_info \<Rightarrow> raft_node \<times> go_error option" where
  "AddVoter load s peer =
     (if \<not> IsLeader s then (s, Some ErrNotLeader)
      else if piNodeID peer = [] \<or> piRaftAddr peer = [] then (s, Some (errorf ''node_id and raft_addr are required''))
      else
        (let (s1, e) = do_raft_call s (AddVoterCall (piNodeID peer) (piRaftAddr peer)) in
         case e of Some err \<Rightarrow> (s1, Some (Wrapped [Lit ''add voter: ''] err))
         | None \<Rightarrow> SavePeer load s1 peer))"

definition RemoveServer :: "raft_node \<Rightarrow> string \<Rightarrow> raft_node \<times> go_error option" where
  "RemoveServer s nodeID =
     (if \<not> IsLeader s then (s, Some ErrNotLeader)
      else
        (let (s1, e) = do_raft_call s (RemoveServerCall nodeID) in
         case e of Some err \<Rightarrow> (s1, Some (Wrapped [Lit ''remove server: ''] err))
         | None \<Rightarrow> (s1, None)))"

definition LeadershipTransfer :: "raft_node \<Rightarrow> raft_node \<times> go_error option" where
  "LeadershipTransfer s = (if \<not> IsLeader s then (s, Some ErrNotLeader) else do_raft_call s TransferCall)"

definition CreateCluster :: "ca_loader \<Rightarrow> gotime \<Rightarrow> raft_node \<Rightarrow> cluster_config \<Rightarrow> raft_node \<times> go_error option" where
  "CreateCluster load now s cfg =
     (case store_requireLeader s of
        Some e \<Rightarrow> (s, Some e)
      | None \<Rightarrow>
          (case cfRootCA cfg of
             None \<Rightarrow> (s, Some (errorf ''root CA is required''))
           | Some root \<Rightarrow>
               if cfClusterID cfg = [] then (s, Some (errorf ''cluster ID is required''))
               else
                 (let validity = (if cfCertValidity cfg \<le> 0 then DefaultNodeValidity else cfCertValidity cfg);
                      cluster = \<lparr>clClusterID = cfClusterID cfg,
                        clRootCA = \<lparr>rcCAKey = copy_slice (raKeyPEM root), rcCACert = copy_slice (raCertPEM root),
                                    rcCACertHash = raDigestPrefix root, rcJoinSecrets = cfJoinSecrets cfg\<rparr>,
                        clCertValidity = validity, clCreatedAt = now\<rparr> in
                  store_apply load s (encodeCommand opCreateCluster (no_fields\<lparr>jCluster := Given cluster\<rparr>)))))"

definition UpdateCluster :: "ca_loader \<Rightarrow> raft_node \<Rightarrow> cluster option \<Rightarrow> raft_node \<times> go_error option" where
  "UpdateCluster load s c =
     (case store_requireLeader s of
        Some e \<Rightarrow> (s, Some e)
      | None \<Rightarrow>
          (case c of
             None \<Rightarrow> (s, Some (errorf ''cluster is required''))
           | Some c \<Rightarrow> store_apply load s (encodeCommand opUpdateCluster (no_fields\<lparr>jCluster := Given c\<rparr>))))"

definition SaveNode :: "ca_loader \<Rightarrow> raft_node \<Rightarrow> node option \<Rightarrow> raft_node \<times> go_error option" where
  "SaveNode load s n =
     (case store_requireLeader s of
        Some e \<Rightarrow> (s, Some e)
      | None \<Rightarrow>
          (case n of
             None \<Rightarrow> (s, Some (errorf ''node is required''))
           | Some n \<Rightarrow> store_apply load s (encodeCommand opSaveNode (no_fields\<lparr>jNode := Given n\<rparr>))))"

definition DeleteNode :: "ca_loader \<Rightarrow> raft_node \<Rightarrow> string \<Rightarrow> raft_node \<times> go_error option" where
  "DeleteNode load s nodeID =
     (case store_requireLeader s of
        Some e \<Rightarrow> (s, Some e)
      | None \<Rightarrow>
          if nodeID = [] then (s, Some (errorf ''node id is required''))
          else store_apply load s (encodeCommand opDeleteNode (no_fields\<lparr>jID := Given nodeID\<rparr>)))"

definition SaveSandbox :: "ca_loader \<Rightarrow> raft_node \<Rightarrow> sandbox option \<Rightarrow> raft_node \<times> go_error option" where
  "SaveSandbox load s sb =
     (case store_requireLeader s of
        Some e \<Rightarrow> (s, Some e)
      | None \<Rightarrow>
          (case sb of
             None \<Rightarrow> (s, Some (errorf ''sandbox is required''))
           | Some sb \<Rightarrow>
               if sbID sb = [] then (s, Some (errorf ''sandbox is required''))
               else store_apply load s (encodeCommand opSaveSandbox (no_fields\<lparr>jSandbox := Given (sandbox_image sb)\<rparr>))))"

definition DeleteSandbox :: "ca_loader \<Rightarrow> raft_node \<Rightarrow> string \<Rightarrow> raft_node \<times> go_error option" where
  "DeleteSandbox load s i =
     (case store_requireLeader s of
        Some e \<Rightarrow> (s, Some e)
      | None \<Rightarrow>
          if i = [] then (s, Some (errorf ''sandbox id is required''))
          else store_apply load s (encodeCommand opDeleteSandbox (no_fields\<lparr>jID := Given i\<rparr>)))"

definition SaveVolume :: "ca_loader \<Rightarrow> raft_node \<Rightarrow> volume option \<Rightarrow> raft_node \<times> go_error option" where
  "SaveVolume load s v =
     (case store_requireLeader s of
        Some e \<Rightarrow> (s, Some e)
      | None \<Rightarrow>
          (case v of
             None \<Rightarrow> (s, Some (errorf ''volume is required''))
           | Some v \<Rightarrow>
               if volID v = [] then (s, Some (errorf ''volume is required''))
               else store_apply load s (encodeCommand opSaveVolume (no_fields\<lparr>jVolume := Given v\<rparr>))))"

definition DeleteVolume :: "ca_loader \<Rightarrow> raft_node \<Rightarrow> string \<Rightarrow> raft_node \<times> go_error option" where
  "DeleteVolume load s i =
     (case store_requireLeader s of
        Some e \<Rightarrow> (s, Some e)
      | None \<Rightarrow>
          if i = [] then (s, Some (errorf ''volume id is required''))
          else store_apply load s (encodeCommand opDeleteVolume (no_fields\<lparr>jID := Given i\<rparr>)))"

definition SaveAPIKey :: "ca_loader \<Rightarrow> raft_node \<Rightarrow> api_key option \<Rightarrow> raft_node \<times> go_error option" where
  "SaveAPIKey load s k =
     (case store_requireLeader s of
        Some e \<Rightarrow> (s, Some e)
      | None \<Rightarrow>
          (case k of
             None \<Rightarrow> (s, Some (errorf ''api key is required''))
           | Some k \<Rightarrow>
               if kID k = [] \<or> kKeyHash k = [] then (s, Some (errorf ''api key is required''))
               else store_apply load s (encodeCommand opSaveAPIKey (no_fields\<lparr>jKey := Given k\<rparr>))))"

definition DeleteAPIKey :: "ca_loader \<Rightarrow> raft_node \<Rightarrow> string \<Rightarrow> raft_node \<times> go_error option" where
  "DeleteAPIKey load s i =
     (case store_requireLeader s of
        Some e \<Rightarrow> (s, Some e)
      | None \<Rightarrow>
          if i = [] then (s, Some (errorf ''api key id is required''))
          else store_apply load s (encodeCommand opDeleteAPIKey (no_fields\<lparr>jID := Given i\<rparr>)))"

section \<open>Reads\<close>

definition IsInitialized :: "raft_node \<Rightarrow> bool" where "IsInitialized s = isInitialized (rnFsm s)"
definition GetRootCA :: "ca_loader \<Rightarrow> raft_node \<Rightarrow> root_ca result" where "GetRootCA load s = getRootCA load (rnFsm s)"
definition GetCluster :: "raft_node \<Rightarrow> cluster result" where "GetCluster s = getCluster (rnFsm s)"
definition GetNode :: "raft_node \<Rightarrow> string \<Rightarrow> node result" where "GetNode s i = getNode (rnFsm s) i"
definition ListNodes :: "raft_node \<Rightarrow> node list result" where "ListNodes s = Inr (listNodes (rnFsm s))"
definition GetSandbox :: "raft_node \<Rightarrow> string \<Rightarrow> sandbox result" where "GetSandbox s i = getSandbox (rnFsm s) i"

definition GetSandboxByName :: "raft_node \<Rightarrow> string \<Rightarrow> sandbox result" where
  "GetSandboxByName s n = getSandboxByName (rnFsm s) n"

definition ListSandboxes :: "raft_node \<Rightarrow> sandbox list result" where "ListSandboxes s = Inr (listSandboxes (rnFsm s))"

definition ListSandboxesByNode :: "raft_node \<Rightarrow> string \<Rightarrow> sandbox list result" where
  "ListSandboxesByNode s i = Inr (listSandboxesByNode (rnFsm s) i)"

definition GetVolume :: "raft_node \<Rightarrow> string \<Rightarrow> volume result" where "GetVolume s i = getVolume (rnFsm s) i"
definition GetVolumeByName :: "raft_node \<Rightarrow> string \<Rightarrow> volume result" where "GetVolumeByName s n = getVolumeByName (rnFsm s) n"
definition GetDefaultVolume :: "raft_node \<Rightarrow> volume result" where "GetDefaultVolume s = getDefaultVolume (rnFsm s)"
definition ListVolumes :: "raft_node \<Rightarrow> volume list result" where "ListVolumes s = Inr (listVolumes (rnFsm s))"
definition GetAPIKey :: "raft_node \<Rightarrow> string \<Rightarrow> api_key result" where "GetAPIKey s i = getAPIKey (rnFsm s) i"
definition GetAPIKeyByHash :: "raft_node \<Rightarrow> string \<Rightarrow> api_key result" where "GetAPIKeyByHash s h = getAPIKeyByHash (rnFsm s) h"
definition ListAPIKeys :: "raft_node \<Rightarrow> api_key list result" where "ListAPIKeys s = Inr (listAPIKeys (rnFsm s))"
definition ListPeers :: "raft_node \<Rightarrow> peer_info list" where "ListPeers s = listPeers (rnFsm s)"

lemmas read_defs = IsInitialized_def GetRootCA_def GetCluster_def GetNode_def ListNodes_def GetSandbox_def
  GetSandboxByName_def ListSandboxes_def ListSandboxesByNode_def GetVolume_def GetVolumeByName_def
  GetDefaultVolume_def ListVolumes_def GetAPIKey_def GetAPIKeyByHash_def ListAPIKeys_def ListPeers_def

definition LeaderGRPC :: "raft_node \<Rightarrow> string" where
  "LeaderGRPC s =
     (if rnLeaderID s = [] then []
      else
        (let own = (if IsLeader s then rnGRPCAdvertise s else []);
             by_addr = (case peerByRaftAddr (rnFsm s) (rnLeaderAddr s) of
                 Some p \<Rightarrow> if piGRPCAddr p \<noteq> [] then piGRPCAddr p else own
               | None \<Rightarrow> own) in
         case getPeer (rnFsm s) (rnLeaderID s) of
           Some p \<Rightarrow> if piGRPCAddr p \<noteq> [] then piGRPCAddr p else by_addr
         | None \<Rightarrow> by_addr))"

definition LeaderID :: "raft_node \<Rightarrow> string" where "LeaderID s = rnLeaderID s"

definition IsVoter :: "raft_node \<Rightarrow> string \<Rightarrow> bool" where
  "IsVoter s nodeID =
     (if nodeID = [] then False
      else (case rnServers s of
        Inl _ \<Rightarrow> False
      | Inr servers \<Rightarrow> list_ex (\<lambda>srv. svID srv = nodeID \<and> svVoter srv) servers))"

definition NumVoters :: "raft_node \<Rightarrow> nat" where
  "NumVoters s = (case rnServers s of Inl _ \<Rightarrow> 0 | Inr servers \<Rightarrow> length (filter svVoter servers))"

end
