(* ===== verification/Store_Contract.thy ===== *)
theory Store_Contract
  imports Raft_Store
begin

text \<open>
  What the control plane relies on when it uses the store (\<open>internal/store/store.go\<close>, the
  interface \<open>Store\<close>): each kind of record is a table keyed by identifier, and only the leader
  changes it. The contract is a locale, proved once for the four kinds of records that
  \<open>internal/raftstore\<close> replicates.
\<close>

section \<open>Through the log\<close>

lemma fsm_step_rn:
  "rnFsm (fst (fsm_step load s d)) = fst (fsm_Apply load (rnApplyTime s) (rnFsm s) d)"
  "snd (fsm_step load s d) = snd (fsm_Apply load (rnApplyTime s) (rnFsm s) d)"
  "rnLeader (fst (fsm_step load s d)) = rnLeader s" "rnNodeID (fst (fsm_step load s d)) = rnNodeID s"
  "rnServers (fst (fsm_step load s d)) = rnServers s" "rnCalls (fst (fsm_step load s d)) = rnCalls s"
  "rnAnswers (fst (fsm_step load s d)) = rnAnswers s" "rnApplyTime (fst (fsm_step load s d)) = rnApplyTime s"
  by (simp_all add: fsm_step_def case_prod_beta)

lemma store_apply_keeps [simp]:
  "rnLeader (fst (store_apply load s d)) = rnLeader s" "rnNodeID (fst (store_apply load s d)) = rnNodeID s"
  "rnServers (fst (store_apply load s d)) = rnServers s" "rnCalls (fst (store_apply load s d)) = rnCalls s"
  "rnAnswers (fst (store_apply load s d)) = rnAnswers s" "rnApplyTime (fst (store_apply load s d)) = rnApplyTime s"
  by (simp_all add: store_apply_def fsm_step_rn split: list.split raft_outcome.split)

lemma store_apply_fsm:
  "rnFsm (fst (store_apply load s d)) = rnFsm s \<or>
   rnFsm (fst (store_apply load s d)) = fst (fsm_Apply load (rnApplyTime s) (rnFsm s) d)"
  by (simp add: store_apply_def fsm_step_rn split: list.split raft_outcome.split)

lemma store_apply_ok:
  "snd (store_apply load s d) = None \<Longrightarrow>
     fsm_Apply load (rnApplyTime s) (rnFsm s) d = (rnFsm (fst (store_apply load s d)), None)"
  by (auto simp: store_apply_def fsm_step_rn prod_eq_iff split: list.splits raft_outcome.splits)

text \<open>Each command, as its operation on the state machine.\<close>

lemma Apply_encode: "op \<noteq> [] \<Longrightarrow> fsm_Apply load now f (encodeCommand op ob) = fsm_dispatch load now f op (Object ob)"
  by (simp add: fsm_Apply_def)

lemma Apply_ops:
  "fsm_Apply load now f (encodeCommand opSaveNode ob) = applySaveNode f (Object ob)"
  "fsm_Apply load now f (encodeCommand opDeleteNode ob) = applyDeleteNode f (Object ob)"
  "fsm_Apply load now f (encodeCommand opSavePeer ob) = applySavePeer f (Object ob)"
  "fsm_Apply load now f (encodeCommand opDeletePeer ob) = applyDeletePeer f (Object ob)"
  "fsm_Apply load now f (encodeCommand opSaveSandbox ob) = applySaveSandbox f (Object ob)"
  "fsm_Apply load now f (encodeCommand opDeleteSandbox ob) = applyDeleteSandbox f (Object ob)"
  "fsm_Apply load now f (encodeCommand opSaveVolume ob) = applySaveVolume f (Object ob)"
  "fsm_Apply load now f (encodeCommand opDeleteVolume ob) = applyDeleteVolume f (Object ob)"
  "fsm_Apply load now f (encodeCommand opSaveAPIKey ob) = applySaveAPIKey f (Object ob)"
  "fsm_Apply load now f (encodeCommand opDeleteAPIKey ob) = applyDeleteAPIKey f (Object ob)"
  "fsm_Apply load now f (encodeCommand opCreateCluster ob) = applyCreateCluster now f opCreateCluster (Object ob)"
  "fsm_Apply load now f (encodeCommand opUpdateCluster ob) = applyUpdateCluster load f opUpdateCluster (Object ob)"
  by (simp_all add: Apply_encode fsm_dispatch_def)

section \<open>The contract\<close>

datatype 'r store_op = SaveOp 'r | RemoveOp string

fun op_id :: "('r \<Rightarrow> string) \<Rightarrow> 'r store_op \<Rightarrow> string" where
  "op_id rid (SaveOp r) = rid r"
| "op_id rid (RemoveOp i) = i"

text \<open>A client's sequence of operations, errors ignored.\<close>

fun run_ops ::
  "('s \<Rightarrow> 'r \<Rightarrow> 's \<times> 'e) \<Rightarrow> ('s \<Rightarrow> string \<Rightarrow> 's \<times> 'e) \<Rightarrow> 's \<Rightarrow> 'r store_op list \<Rightarrow> 's" where
  "run_ops save remove s [] = s"
| "run_ops save remove s (SaveOp r # ops) = run_ops save remove (fst (save s r)) ops"
| "run_ops save remove s (RemoveOp i # ops) = run_ops save remove (fst (remove s i)) ops"

text \<open>
  A write that reports success has happened; one that reports an error has changed nothing, or
  has happened all the same (the entry may be committed although the leader lost its office).
\<close>

locale record_store =
  fixes lookup :: "raft_node \<Rightarrow> string \<Rightarrow> 'r option"
    and rid :: "'r \<Rightarrow> string"
    and stored :: "'r \<Rightarrow> 'r"
    and save :: "raft_node \<Rightarrow> 'r \<Rightarrow> raft_node \<times> go_error option"
    and remove :: "raft_node \<Rightarrow> string \<Rightarrow> raft_node \<times> go_error option"
  assumes rid_stored: "rid (stored r) = rid r"
    and save_ok: "snd (save s r) = None \<Longrightarrow> rid r \<noteq> [] \<and> lookup (fst (save s r)) = (lookup s)(rid r \<mapsto> stored r)"
    and save_any: "lookup (fst (save s r)) = lookup s \<or> lookup (fst (save s r)) = (lookup s)(rid r \<mapsto> stored r)"
    and remove_ok: "snd (remove s i) = None \<Longrightarrow> lookup s i \<noteq> None \<and> lookup (fst (remove s i)) = (lookup s)(i := None)"
    and remove_any: "lookup (fst (remove s i)) = lookup s \<or> lookup (fst (remove s i)) = (lookup s)(i := None)"
    and follower: "\<not> IsLeader s \<Longrightarrow> save s r = (s, Some ErrNotLeader) \<and> remove s i = (s, Some ErrNotLeader)"
begin

lemma save_lookup: "snd (save s r) = None \<Longrightarrow> lookup (fst (save s r)) (rid r) = Some (stored r)"
  by (simp add: save_ok)

lemma save_frame: "j \<noteq> rid r \<Longrightarrow> lookup (fst (save s r)) j = lookup s j"
  using save_any [of s r] by auto

lemma remove_frame: "j \<noteq> i \<Longrightarrow> lookup (fst (remove s i)) j = lookup s j"
  using remove_any [of s i] by auto

lemma remove_lookup: "snd (remove s i) = None \<Longrightarrow> lookup (fst (remove s i)) i = None"
  by (simp add: remove_ok)

lemma remove_twice: "snd (remove s i) = None \<Longrightarrow> snd (remove (fst (remove s i)) i) \<noteq> None"
  using remove_ok [of "fst (remove s i)" i] remove_lookup [of s i] by auto

lemma remove_after_save: "snd (save s r) = None \<Longrightarrow> lookup s (rid r) = None \<Longrightarrow>
    snd (remove (fst (save s r)) (rid r)) = None \<Longrightarrow> lookup (fst (remove (fst (save s r)) (rid r))) = lookup s"
  by (auto simp: save_ok remove_ok fun_upd_idem)

lemma run_frame: "\<forall>p \<in> set ops. op_id rid p \<noteq> i \<Longrightarrow> lookup (run_ops save remove s ops) i = lookup s i"
proof (induction ops arbitrary: s)
  case (Cons p ops)
  then show ?case by (cases p) (auto simp: save_frame remove_frame)
qed simp

lemma run_follower: "\<not> IsLeader s \<Longrightarrow> run_ops save remove s ops = s"
proof (induction ops arbitrary: s)
  case (Cons p ops)
  then show ?case by (cases p) (simp_all add: follower)
qed simp

text \<open>What an identifier looks up was there before, or was saved under it.\<close>

lemma run_origin:
  "lookup (run_ops save remove s ops) i = Some r \<Longrightarrow>
     lookup s i = Some r \<or> (\<exists>r'. SaveOp r' \<in> set ops \<and> rid r' = i \<and> r = stored r')"
proof (induction ops arbitrary: s)
  case (Cons p ops)
  show ?case
  proof (cases p)
    case (SaveOp r')
    with Cons.IH [of "fst (save s r')"] Cons.prems save_any [of s r'] show ?thesis
      by (auto split: if_splits)
  next
    case (RemoveOp j)
    with Cons.IH [of "fst (remove s j)"] Cons.prems remove_any [of s j] show ?thesis
      by (auto split: if_splits)
  qed
qed simp

end

section \<open>The four tables keep it\<close>

abbreviation node_table :: "raft_node \<Rightarrow> string \<Rightarrow> node option" where
  "node_table s \<equiv> gm_get (fsNodes (rnFsm s))"

abbreviation sandbox_table :: "raft_node \<Rightarrow> string \<Rightarrow> sandbox option" where
  "sandbox_table s \<equiv> gm_get (fsSandboxes (rnFsm s))"

abbreviation volume_table :: "raft_node \<Rightarrow> string \<Rightarrow> volume option" where
  "volume_table s \<equiv> gm_get (fsVolumes (rnFsm s))"

abbreviation key_table :: "raft_node \<Rightarrow> string \<Rightarrow> api_key option" where
  "key_table s \<equiv> gm_get (fsApiKeys (rnFsm s))"

definition stored_sandbox :: "sandbox \<Rightarrow> sandbox" where
  "stored_sandbox sb = CloneSandbox ((sandbox_image sb)\<lparr>sbName := effective_name sb\<rparr>)"

lemma effective_name_image [simp]: "effective_name (sandbox_image sb) = effective_name sb"
  by (simp add: effective_name_def)

lemma node_effects:
  "snd (applySaveNode f (Object (no_fields\<lparr>jNode := Given n\<rparr>))) = None \<Longrightarrow> nID n \<noteq> [] \<and>
     gm_get (fsNodes (fst (applySaveNode f (Object (no_fields\<lparr>jNode := Given n\<rparr>))))) = (gm_get (fsNodes f))(nID n \<mapsto> clone_node n)"
  "snd (applySaveNode f (Object (no_fields\<lparr>jNode := Given n\<rparr>))) \<noteq> None \<Longrightarrow>
     fst (applySaveNode f (Object (no_fields\<lparr>jNode := Given n\<rparr>))) = f"
  "snd (applyDeleteNode f (Object (no_fields\<lparr>jID := Given i\<rparr>))) = None \<Longrightarrow> gm_get (fsNodes f) i \<noteq> None \<and>
     gm_get (fsNodes (fst (applyDeleteNode f (Object (no_fields\<lparr>jID := Given i\<rparr>))))) = (gm_get (fsNodes f))(i := None)"
  "snd (applyDeleteNode f (Object (no_fields\<lparr>jID := Given i\<rparr>))) \<noteq> None \<Longrightarrow>
     fst (applyDeleteNode f (Object (no_fields\<lparr>jID := Given i\<rparr>))) = f"
  by (auto simp: applySaveNode_def applyDeleteNode_def payload_defs clone_node_def update_conv' delete_conv' gm_has_def
      split: if_splits)

lemma sandbox_effects:
  "snd (applySaveSandbox f (Object (no_fields\<lparr>jSandbox := Given (sandbox_image sb)\<rparr>))) = None \<Longrightarrow> sbID sb \<noteq> [] \<and>
     gm_get (fsSandboxes (fst (applySaveSandbox f (Object (no_fields\<lparr>jSandbox := Given (sandbox_image sb)\<rparr>))))) =
       (gm_get (fsSandboxes f))(sbID sb \<mapsto> stored_sandbox sb)"
  "snd (applySaveSandbox f (Object (no_fields\<lparr>jSandbox := Given (sandbox_image sb)\<rparr>))) \<noteq> None \<Longrightarrow>
     fst (applySaveSandbox f (Object (no_fields\<lparr>jSandbox := Given (sandbox_image sb)\<rparr>))) = f"
  "snd (applyDeleteSandbox f (Object (no_fields\<lparr>jID := Given i\<rparr>))) = None \<Longrightarrow> gm_get (fsSandboxes f) i \<noteq> None \<and>
     gm_get (fsSandboxes (fst (applyDeleteSandbox f (Object (no_fields\<lparr>jID := Given i\<rparr>))))) = (gm_get (fsSandboxes f))(i := None)"
  "snd (applyDeleteSandbox f (Object (no_fields\<lparr>jID := Given i\<rparr>))) \<noteq> None \<Longrightarrow>
     fst (applyDeleteSandbox f (Object (no_fields\<lparr>jID := Given i\<rparr>))) = f"
proof -
  have "stored_sandbox sb = CloneSandbox (sandbox_image sb)" if "effective_name sb = []"
    using that by (cases sb) (simp add: stored_sandbox_def sandbox_image_def effective_name_def split: if_splits)
  then show
    "snd (applySaveSandbox f (Object (no_fields\<lparr>jSandbox := Given (sandbox_image sb)\<rparr>))) = None \<Longrightarrow> sbID sb \<noteq> [] \<and>
     gm_get (fsSandboxes (fst (applySaveSandbox f (Object (no_fields\<lparr>jSandbox := Given (sandbox_image sb)\<rparr>))))) =
       (gm_get (fsSandboxes f))(sbID sb \<mapsto> stored_sandbox sb)"
    by (cases rule: applySaveSandbox_cases [of f "Object (no_fields\<lparr>jSandbox := Given (sandbox_image sb)\<rparr>)"])
      (auto simp: payload_defs update_conv' stored_sandbox_def)
  show "snd (applySaveSandbox f (Object (no_fields\<lparr>jSandbox := Given (sandbox_image sb)\<rparr>))) \<noteq> None \<Longrightarrow>
     fst (applySaveSandbox f (Object (no_fields\<lparr>jSandbox := Given (sandbox_image sb)\<rparr>))) = f"
    by (cases rule: applySaveSandbox_cases [of f "Object (no_fields\<lparr>jSandbox := Given (sandbox_image sb)\<rparr>)"]) auto
  show "snd (applyDeleteSandbox f (Object (no_fields\<lparr>jID := Given i\<rparr>))) = None \<Longrightarrow> gm_get (fsSandboxes f) i \<noteq> None \<and>
     gm_get (fsSandboxes (fst (applyDeleteSandbox f (Object (no_fields\<lparr>jID := Given i\<rparr>))))) = (gm_get (fsSandboxes f))(i := None)"
    by (cases rule: applyDeleteSandbox_cases [of f "Object (no_fields\<lparr>jID := Given i\<rparr>)"])
      (auto simp: payload_defs delete_conv')
  show "snd (applyDeleteSandbox f (Object (no_fields\<lparr>jID := Given i\<rparr>))) \<noteq> None \<Longrightarrow>
     fst (applyDeleteSandbox f (Object (no_fields\<lparr>jID := Given i\<rparr>))) = f"
    by (cases rule: applyDeleteSandbox_cases [of f "Object (no_fields\<lparr>jID := Given i\<rparr>)"]) auto
qed

lemma volume_effects:
  "snd (applySaveVolume f (Object (no_fields\<lparr>jVolume := Given v\<rparr>))) = None \<Longrightarrow> volID v \<noteq> [] \<and>
     gm_get (fsVolumes (fst (applySaveVolume f (Object (no_fields\<lparr>jVolume := Given v\<rparr>))))) = (gm_get (fsVolumes f))(volID v \<mapsto> CloneVolume v)"
  "snd (applySaveVolume f (Object (no_fields\<lparr>jVolume := Given v\<rparr>))) \<noteq> None \<Longrightarrow>
     fst (applySaveVolume f (Object (no_fields\<lparr>jVolume := Given v\<rparr>))) = f"
  "snd (applyDeleteVolume f (Object (no_fields\<lparr>jID := Given i\<rparr>))) = None \<Longrightarrow> gm_get (fsVolumes f) i \<noteq> None \<and>
     gm_get (fsVolumes (fst (applyDeleteVolume f (Object (no_fields\<lparr>jID := Given i\<rparr>))))) = (gm_get (fsVolumes f))(i := None)"
  "snd (applyDeleteVolume f (Object (no_fields\<lparr>jID := Given i\<rparr>))) \<noteq> None \<Longrightarrow>
     fst (applyDeleteVolume f (Object (no_fields\<lparr>jID := Given i\<rparr>))) = f"
  by (auto simp: applySaveVolume_def applyDeleteVolume_def payload_defs Let_def update_conv' delete_conv'
      split: if_splits option.splits)

lemma key_effects:
  "snd (applySaveAPIKey f (Object (no_fields\<lparr>jKey := Given k\<rparr>))) = None \<Longrightarrow> kID k \<noteq> [] \<and>
     gm_get (fsApiKeys (fst (applySaveAPIKey f (Object (no_fields\<lparr>jKey := Given k\<rparr>))))) = (gm_get (fsApiKeys f))(kID k \<mapsto> clone_key k)"
  "snd (applySaveAPIKey f (Object (no_fields\<lparr>jKey := Given k\<rparr>))) \<noteq> None \<Longrightarrow>
     fst (applySaveAPIKey f (Object (no_fields\<lparr>jKey := Given k\<rparr>))) = f"
  "snd (applyDeleteAPIKey f (Object (no_fields\<lparr>jID := Given i\<rparr>))) = None \<Longrightarrow> gm_get (fsApiKeys f) i \<noteq> None \<and>
     gm_get (fsApiKeys (fst (applyDeleteAPIKey f (Object (no_fields\<lparr>jID := Given i\<rparr>))))) = (gm_get (fsApiKeys f))(i := None)"
  "snd (applyDeleteAPIKey f (Object (no_fields\<lparr>jID := Given i\<rparr>))) \<noteq> None \<Longrightarrow>
     fst (applyDeleteAPIKey f (Object (no_fields\<lparr>jID := Given i\<rparr>))) = f"
  by (auto simp: applySaveAPIKey_def applyDeleteAPIKey_def payload_defs update_conv' delete_conv' gm_has_def
      split: if_splits)

text \<open>
  One law for all tables: a leader's entry that the state machine answers without an error has
  its effect, one it rejects has none.
\<close>

lemma table_entry:
  assumes run: "\<And>f. fsm_Apply load (rnApplyTime s) f d = A f"
    and effect: "\<And>f. snd (A f) = None \<Longrightarrow> P f \<and> tab (fst (A f)) = upd (tab f)"
    and reject: "\<And>f. snd (A f) \<noteq> None \<Longrightarrow> fst (A f) = f"
  shows "snd (store_apply load s d) = None \<Longrightarrow> P (rnFsm s) \<and> tab (rnFsm (fst (store_apply load s d))) = upd (tab (rnFsm s))"
    and "tab (rnFsm (fst (store_apply load s d))) = tab (rnFsm s) \<or> tab (rnFsm (fst (store_apply load s d))) = upd (tab (rnFsm s))"
proof -
  show "snd (store_apply load s d) = None \<Longrightarrow> P (rnFsm s) \<and> tab (rnFsm (fst (store_apply load s d))) = upd (tab (rnFsm s))"
    using store_apply_ok [of load s d] effect [of "rnFsm s"] by (simp add: run)
  show "tab (rnFsm (fst (store_apply load s d))) = tab (rnFsm s) \<or> tab (rnFsm (fst (store_apply load s d))) = upd (tab (rnFsm s))"
    using store_apply_fsm [of load s d] effect [of "rnFsm s"] reject [of "rnFsm s"]
    by (cases "snd (A (rnFsm s))") (auto simp: run)
qed

lemmas leader_simps = store_requireLeader_def

interpretation nodes_db: record_store node_table nID clone_node "\<lambda>s r. SaveNode load s (Some r)" "DeleteNode load"
  for load
proof
  fix s :: raft_node and r :: node and i :: string
  note save = table_entry [where load = load and s = s and tab = "\<lambda>f. gm_get (fsNodes f)" and upd = "\<lambda>t. t(nID r \<mapsto> clone_node r)",
      OF Apply_ops(1) node_effects(1) node_effects(2)]
  note remove = table_entry [where load = load and s = s and tab = "\<lambda>f. gm_get (fsNodes f)" and upd = "\<lambda>t. t(i := None)",
      OF Apply_ops(2) node_effects(3) node_effects(4)]
  show "nID (clone_node r) = nID r" by (simp add: clone_node_def)
  show "snd (SaveNode load s (Some r)) = None \<Longrightarrow>
      nID r \<noteq> [] \<and> node_table (fst (SaveNode load s (Some r))) = (node_table s)(nID r \<mapsto> clone_node r)"
    using save(1) by (auto simp: SaveNode_def leader_simps  split: if_splits)
  show "node_table (fst (SaveNode load s (Some r))) = node_table s \<or>
      node_table (fst (SaveNode load s (Some r))) = (node_table s)(nID r \<mapsto> clone_node r)"
    using save(2) by (auto simp: SaveNode_def leader_simps  split: if_splits)
  show "snd (DeleteNode load s i) = None \<Longrightarrow>
      node_table s i \<noteq> None \<and> node_table (fst (DeleteNode load s i)) = (node_table s)(i := None)"
    using remove(1) by (auto simp: DeleteNode_def leader_simps split: if_splits)
  show "node_table (fst (DeleteNode load s i)) = node_table s \<or> node_table (fst (DeleteNode load s i)) = (node_table s)(i := None)"
    using remove(2) by (auto simp: DeleteNode_def leader_simps split: if_splits)
  show "\<not> IsLeader s \<Longrightarrow> SaveNode load s (Some r) = (s, Some ErrNotLeader) \<and> DeleteNode load s i = (s, Some ErrNotLeader)"
    by (simp add: SaveNode_def DeleteNode_def leader_simps)
qed

interpretation sandboxes_db: record_store sandbox_table sbID stored_sandbox "\<lambda>s r. SaveSandbox load s (Some r)" "DeleteSandbox load"
  for load
proof
  fix s :: raft_node and r :: sandbox and i :: string
  note save = table_entry [where load = load and s = s and tab = "\<lambda>f. gm_get (fsSandboxes f)" and upd = "\<lambda>t. t(sbID r \<mapsto> stored_sandbox r)",
      OF Apply_ops(5) sandbox_effects(1) sandbox_effects(2)]
  note remove = table_entry [where load = load and s = s and tab = "\<lambda>f. gm_get (fsSandboxes f)" and upd = "\<lambda>t. t(i := None)",
      OF Apply_ops(6) sandbox_effects(3) sandbox_effects(4)]
  show "sbID (stored_sandbox r) = sbID r" by (simp add: stored_sandbox_def CloneSandbox_keeps)
  show "snd (SaveSandbox load s (Some r)) = None \<Longrightarrow>
      sbID r \<noteq> [] \<and> sandbox_table (fst (SaveSandbox load s (Some r))) = (sandbox_table s)(sbID r \<mapsto> stored_sandbox r)"
    using save(1) by (auto simp: SaveSandbox_def leader_simps  split: if_splits)
  show "sandbox_table (fst (SaveSandbox load s (Some r))) = sandbox_table s \<or>
      sandbox_table (fst (SaveSandbox load s (Some r))) = (sandbox_table s)(sbID r \<mapsto> stored_sandbox r)"
    using save(2) by (auto simp: SaveSandbox_def leader_simps  split: if_splits)
  show "snd (DeleteSandbox load s i) = None \<Longrightarrow>
      sandbox_table s i \<noteq> None \<and> sandbox_table (fst (DeleteSandbox load s i)) = (sandbox_table s)(i := None)"
    using remove(1) by (auto simp: DeleteSandbox_def leader_simps split: if_splits)
  show "sandbox_table (fst (DeleteSandbox load s i)) = sandbox_table s \<or> sandbox_table (fst (DeleteSandbox load s i)) = (sandbox_table s)(i := None)"
    using remove(2) by (auto simp: DeleteSandbox_def leader_simps split: if_splits)
  show "\<not> IsLeader s \<Longrightarrow> SaveSandbox load s (Some r) = (s, Some ErrNotLeader) \<and> DeleteSandbox load s i = (s, Some ErrNotLeader)"
    by (simp add: SaveSandbox_def DeleteSandbox_def leader_simps)
qed

interpretation volumes_db: record_store volume_table volID CloneVolume "\<lambda>s r. SaveVolume load s (Some r)" "DeleteVolume load"
  for load
proof
  fix s :: raft_node and r :: volume and i :: string
  note save = table_entry [where load = load and s = s and tab = "\<lambda>f. gm_get (fsVolumes f)" and upd = "\<lambda>t. t(volID r \<mapsto> CloneVolume r)",
      OF Apply_ops(7) volume_effects(1) volume_effects(2)]
  note remove = table_entry [where load = load and s = s and tab = "\<lambda>f. gm_get (fsVolumes f)" and upd = "\<lambda>t. t(i := None)",
      OF Apply_ops(8) volume_effects(3) volume_effects(4)]
  show "volID (CloneVolume r) = volID r" by (simp add: CloneVolume_keeps)
  show "snd (SaveVolume load s (Some r)) = None \<Longrightarrow>
      volID r \<noteq> [] \<and> volume_table (fst (SaveVolume load s (Some r))) = (volume_table s)(volID r \<mapsto> CloneVolume r)"
    using save(1) by (auto simp: SaveVolume_def leader_simps  split: if_splits)
  show "volume_table (fst (SaveVolume load s (Some r))) = volume_table s \<or>
      volume_table (fst (SaveVolume load s (Some r))) = (volume_table s)(volID r \<mapsto> CloneVolume r)"
    using save(2) by (auto simp: SaveVolume_def leader_simps  split: if_splits)
  show "snd (DeleteVolume load s i) = None \<Longrightarrow>
      volume_table s i \<noteq> None \<and> volume_table (fst (DeleteVolume load s i)) = (volume_table s)(i := None)"
    using remove(1) by (auto simp: DeleteVolume_def leader_simps split: if_splits)
  show "volume_table (fst (DeleteVolume load s i)) = volume_table s \<or> volume_table (fst (DeleteVolume load s i)) = (volume_table s)(i := None)"
    using remove(2) by (auto simp: DeleteVolume_def leader_simps split: if_splits)
  show "\<not> IsLeader s \<Longrightarrow> SaveVolume load s (Some r) = (s, Some ErrNotLeader) \<and> DeleteVolume load s i = (s, Some ErrNotLeader)"
    by (simp add: SaveVolume_def DeleteVolume_def leader_simps)
qed

interpretation keys_db: record_store key_table kID clone_key "\<lambda>s r. SaveAPIKey load s (Some r)" "DeleteAPIKey load"
  for load
proof
  fix s :: raft_node and r :: api_key and i :: string
  note save = table_entry [where load = load and s = s and tab = "\<lambda>f. gm_get (fsApiKeys f)" and upd = "\<lambda>t. t(kID r \<mapsto> clone_key r)",
      OF Apply_ops(9) key_effects(1) key_effects(2)]
  note remove = table_entry [where load = load and s = s and tab = "\<lambda>f. gm_get (fsApiKeys f)" and upd = "\<lambda>t. t(i := None)",
      OF Apply_ops(10) key_effects(3) key_effects(4)]
  show "kID (clone_key r) = kID r" by (simp add: clone_key_id)
  show "snd (SaveAPIKey load s (Some r)) = None \<Longrightarrow>
      kID r \<noteq> [] \<and> key_table (fst (SaveAPIKey load s (Some r))) = (key_table s)(kID r \<mapsto> clone_key r)"
    using save(1) by (auto simp: SaveAPIKey_def leader_simps  split: if_splits)
  show "key_table (fst (SaveAPIKey load s (Some r))) = key_table s \<or>
      key_table (fst (SaveAPIKey load s (Some r))) = (key_table s)(kID r \<mapsto> clone_key r)"
    using save(2) by (auto simp: SaveAPIKey_def leader_simps  split: if_splits)
  show "snd (DeleteAPIKey load s i) = None \<Longrightarrow>
      key_table s i \<noteq> None \<and> key_table (fst (DeleteAPIKey load s i)) = (key_table s)(i := None)"
    using remove(1) by (auto simp: DeleteAPIKey_def leader_simps split: if_splits)
  show "key_table (fst (DeleteAPIKey load s i)) = key_table s \<or> key_table (fst (DeleteAPIKey load s i)) = (key_table s)(i := None)"
    using remove(2) by (auto simp: DeleteAPIKey_def leader_simps split: if_splits)
  show "\<not> IsLeader s \<Longrightarrow> SaveAPIKey load s (Some r) = (s, Some ErrNotLeader) \<and> DeleteAPIKey load s i = (s, Some ErrNotLeader)"
    by (simp add: SaveAPIKey_def DeleteAPIKey_def leader_simps)
qed

section \<open>Properties of the replicated store\<close>

lemma store_apply_replica: "replica load (rnFsm s) \<Longrightarrow> replica load (rnFsm (fst (store_apply load s d)))"
  using store_apply_fsm [of load s d] by (metis replica.applied)

text \<open>A response is atomic: an error, then, comes with the state unchanged.\<close>

definition atomic :: "fsm \<Rightarrow> fsm \<times> go_error option \<Rightarrow> bool" where
  "atomic f r \<longleftrightarrow> snd r = None \<or> fst r = f"

lemma ops_atomic:
  "atomic f (applyCreateCluster now f op raw)"
  "op \<noteq> opSaveRootCA \<Longrightarrow> atomic f (applyUpdateCluster load f op raw)"
  "atomic f (applySaveNode f raw)" "atomic f (applyDeleteNode f raw)"
  "atomic f (applySavePeer f raw)" "atomic f (applyDeletePeer f raw)"
  "atomic f (applySaveSandbox f raw)" "atomic f (applyDeleteSandbox f raw)"
  "atomic f (applySaveVolume f raw)" "atomic f (applyDeleteVolume f raw)"
  "atomic f (applySaveAPIKey f raw)" "atomic f (applyDeleteAPIKey f raw)"
  "atomic f (f, e)"
  by (simp_all add: atomic_def applyCreateCluster_def applyUpdateCluster_def applySaveNode_def applyDeleteNode_def
      applySavePeer_def applyDeletePeer_def applySaveSandbox_def applyDeleteSandbox_def applySaveVolume_def
      applyDeleteVolume_def applySaveAPIKey_def applyDeleteAPIKey_def Let_def
      split: sum.split option.split)

lemma dispatch_atomic: "op \<noteq> opSaveRootCA \<Longrightarrow> atomic f (fsm_dispatch load now f op raw)"
  unfolding fsm_dispatch_def by (intro if_both [of "atomic f"] ops_atomic)

text \<open>
  A rejected command changes nothing: whatever error the state machine answers, for a
  malformed entry, an unknown operation, a name conflict or a missing record, the state is the
  one before, unless the operation is the legacy \<open>save_root_ca\<close>.
\<close>

theorem Apply_rejected:
  assumes "snd (fsm_Apply load now f data) = Some e"
    and "\<forall>cmd. decodeCommand data = Inr cmd \<longrightarrow> cmdOp cmd \<noteq> opSaveRootCA"
  shows "fst (fsm_Apply load now f data) = f"
proof (cases "decodeCommand data")
  case (Inl e)
  then show ?thesis by (simp add: fsm_Apply_def)
next
  case (Inr cmd)
  with assms dispatch_atomic [of "cmdOp cmd" f load now "cmdPayload cmd"] show ?thesis
    by (simp add: fsm_Apply_def atomic_def)
qed

theorem Apply_rejected_witness:
  "fst (fsm_Apply (\<lambda>_ _. Inl ErrNotLeader) 0 demo_fsm
     (save_sandbox_entry (demo_sandbox\<lparr>sbID := ''s2''\<rparr>))) = demo_fsm"
  by (rule Apply_rejected [where e = ErrNameExists])
    (simp_all add: save_sandbox_entry_def Apply_ops applySaveSandbox_def sandboxPayload_def demo_fsm_simps
      effective_name_def demo_sandbox_plain)

text \<open>
  The exception loses the authority's consistency: a legacy \<open>save_root_ca\<close> whose
  material does not load is answered with the error, and the replicated cluster then holds the
  new key and certificate under the digest of the old ones.
\<close>

theorem save_root_ca_not_atomic:
  assumes "fsCluster f = Some c" and "load cert key = Inl e" and "cert \<noteq> rcCACert (clRootCA c)"
  shows "let r = fsm_Apply load now f (encodeCommand opSaveRootCA
             (no_fields\<lparr>jCertPEM := Given cert, jKeyPEM := Given key\<rparr>)) in
     snd r = Some e \<and> fst r \<noteq> f \<and>
     (\<exists>c'. fsCluster (fst r) = Some c' \<and> rcCACert (clRootCA c') = cert \<and>
        rcCACertHash (clRootCA c') = rcCACertHash (clRootCA c))"
proof -
  let ?c = "c\<lparr>clRootCA := (clRootCA c)\<lparr>rcCACert := cert, rcCAKey := key\<rparr>\<rparr>"
  have "f\<lparr>fsCluster := Some ?c\<rparr> \<noteq> f"
  proof
    assume "f\<lparr>fsCluster := Some ?c\<rparr> = f"
    then have "fsCluster (f\<lparr>fsCluster := Some ?c\<rparr>) = fsCluster f" by simp
    with assms(1) have "?c = c" by simp
    then have "rcCACert (clRootCA ?c) = rcCACert (clRootCA c)" by metis
    with assms(3) show False by simp
  qed
  with assms show ?thesis
    by (simp add: Apply_encode fsm_dispatch_def applyUpdateCluster_def saveRootCAPayload_def Let_def)
qed

theorem save_root_ca_not_atomic_witness:
  "let r = fsm_Apply (\<lambda>_ _. Inl (errorf ''invalid CA certificate PEM'')) 0 (NewFSM\<lparr>fsCluster := Some zero_cluster\<rparr>)
       (encodeCommand opSaveRootCA (no_fields\<lparr>jCertPEM := Given ''x'', jKeyPEM := Given ''y''\<rparr>)) in
   snd r = Some (errorf ''invalid CA certificate PEM'') \<and> fst r \<noteq> NewFSM\<lparr>fsCluster := Some zero_cluster\<rparr> \<and>
   (\<exists>c'. fsCluster (fst r) = Some c' \<and> rcCACert (clRootCA c') = ''x'' \<and>
      rcCACertHash (clRootCA c') = rcCACertHash (clRootCA zero_cluster))"
  by (rule save_root_ca_not_atomic) (simp_all add: zero_cluster_def zero_material_def)

text \<open>
  Only the leader writes: on any other manager every write of the store is refused
  with \<open>ErrNotLeader\<close> and leaves the manager's state as it was.
\<close>

theorem follower_writes_nothing:
  assumes "\<not> IsLeader s"
  shows "SaveSandbox load s sb = (s, Some ErrNotLeader) \<and> DeleteSandbox load s i = (s, Some ErrNotLeader) \<and>
    SaveNode load s n = (s, Some ErrNotLeader) \<and> DeleteNode load s i = (s, Some ErrNotLeader) \<and>
    SaveVolume load s v = (s, Some ErrNotLeader) \<and> DeleteVolume load s i = (s, Some ErrNotLeader) \<and>
    SaveAPIKey load s k = (s, Some ErrNotLeader) \<and> DeleteAPIKey load s i = (s, Some ErrNotLeader) \<and>
    SavePeer load s p = (s, Some ErrNotLeader) \<and> DeletePeer load s i = (s, Some ErrNotLeader) \<and>
    AddVoter load s p = (s, Some ErrNotLeader) \<and> RemoveServer s i = (s, Some ErrNotLeader) \<and>
    LeadershipTransfer s = (s, Some ErrNotLeader) \<and> CreateCluster load now s cfg = (s, Some ErrNotLeader) \<and>
    UpdateCluster load s c = (s, Some ErrNotLeader)"
  using assms by (simp add: SaveSandbox_def DeleteSandbox_def SaveNode_def DeleteNode_def SaveVolume_def
      DeleteVolume_def SaveAPIKey_def DeleteAPIKey_def SavePeer_def DeletePeer_def AddVoter_def RemoveServer_def
      LeadershipTransfer_def CreateCluster_def UpdateCluster_def leader_simps)

definition demo_raft :: "bool \<Rightarrow> fsm \<Rightarrow> raft_node" where
  "demo_raft leader f = \<lparr>rnNodeID = ''m1'', rnRaftAddr = ''10.0.0.1:17947'', rnGRPCAdvertise = ''10.0.0.1:17946'',
     rnLeader = leader, rnLeaderAddr = ''10.0.0.1:17947'', rnLeaderID = ''m1'',
     rnServers = Inr [\<lparr>svID = ''m1'', svAddress = ''10.0.0.1:17947'', svVoter = True\<rparr>], rnOutcomes = [],
     rnAnswers = [], rnCalls = [], rnApplyTime = unix_epoch, rnFsm = f\<rparr>"

theorem follower_writes_nothing_witness:
  "DeleteSandbox (\<lambda>_ _. Inl ErrNotLeader) (demo_raft False demo_fsm) ''s1'' = (demo_raft False demo_fsm, Some ErrNotLeader)"
  using follower_writes_nothing [of "demo_raft False demo_fsm"] by (simp add: IsLeader_def demo_raft_def)

text \<open>
  Deleting the default volume can unindex a named one: the default volume is called
  \<open>default\<close>, a named volume may be too, and deleting the former drops the name of the latter,
  which is still stored but no longer found by name, until a snapshot is restored.
\<close>

theorem default_volume_unindexes_named:
  assumes "gm_get (fsVolumes f) d = Some dv" and "volName dv = name" and "name \<noteq> []" and "d \<noteq> []"
    and "getVolumeByName f name = Inr v" and "volID v \<noteq> d" and "fsm_keyed f"
  shows "let f' = fst (fsm_Apply load now f (encodeCommand opDeleteVolume (no_fields\<lparr>jID := Given d\<rparr>))) in
    getVolume f' (volID v) = Inr v \<and> getVolumeByName f' name = Inl ErrVolumeNotFound"
proof -
  obtain i w where w: "gm_get (fsVolumes f) i = Some w" "v = CloneVolume w"
    using assms(5) by (auto simp: getVolumeByName_def split: option.splits)
  with assms(7) have "volID v = i"
    by (auto simp: fsm_keyed_def keyed_def CloneVolume_keeps)
  with w assms(1-4,6) show ?thesis
    by (auto simp: Apply_ops applyDeleteVolume_def payload_defs getVolume_def getVolumeByName_def Let_def)
qed

definition demo_volume :: "string \<Rightarrow> volume_kind \<Rightarrow> volume" where
  "demo_volume i kind = \<lparr>volID = i, volName = ''default'', volKind = kind, volStatus = VolumeStatusReady,
     volNodeID = ''n1'', volUsedBytes = None, volCapacityBytes = None, volCapacityGiB = None, volLabels = [],
     volCreatedAt = unix_epoch, volUpdatedAt = unix_epoch\<rparr>"

definition demo_volumes_fsm :: fsm where
  "demo_volumes_fsm = NewFSM\<lparr>fsVolumes := [(''v0'', demo_volume ''v0'' VolumeKindDefault), (''v1'', demo_volume ''v1'' VolumeKindNamed)],
     fsVolumeNames := [(''default'', ''v1'')]\<rparr>"

lemma demo_volumes_saved:
  "replay load NewFSM
     [(0, encodeCommand opSaveVolume (no_fields\<lparr>jVolume := Given (demo_volume ''v0'' VolumeKindDefault)\<rparr>)),
      (1, encodeCommand opSaveVolume (no_fields\<lparr>jVolume := Given (demo_volume ''v1'' VolumeKindNamed)\<rparr>))] = demo_volumes_fsm"
  by (simp add: Apply_ops applySaveVolume_def payload_defs demo_volume_def CloneVolume_def Let_def NewFSM_def
      demo_volumes_fsm_def)

theorem default_volume_unindexes_named_witness:
  "let f' = fst (fsm_Apply (\<lambda>_ _. Inl ErrNotLeader) 0
       (replay (\<lambda>_ _. Inl ErrNotLeader) NewFSM
         [(0, encodeCommand opSaveVolume (no_fields\<lparr>jVolume := Given (demo_volume ''v0'' VolumeKindDefault)\<rparr>)),
          (1, encodeCommand opSaveVolume (no_fields\<lparr>jVolume := Given (demo_volume ''v1'' VolumeKindNamed)\<rparr>))])
       (encodeCommand opDeleteVolume (no_fields\<lparr>jID := Given ''v0''\<rparr>))) in
   getVolume f' ''v1'' = Inr (demo_volume ''v1'' VolumeKindNamed) \<and> getVolumeByName f' ''default'' = Inl ErrVolumeNotFound"
proof -
  have vol: "volID (demo_volume i k) = i" "volName (demo_volume i k) = ''default''" "CloneVolume (demo_volume i k) = demo_volume i k" for i k
    by (simp_all add: demo_volume_def CloneVolume_def)
  have keyed: "fsm_keyed demo_volumes_fsm"
    unfolding demo_volumes_saved [of "\<lambda>_ _. Inl ErrNotLeader", symmetric] by (intro replay_keyed NewFSM_keyed)
  have look: "gm_get (fsVolumes demo_volumes_fsm) ''v0'' = Some (demo_volume ''v0'' VolumeKindDefault)"
    "getVolumeByName demo_volumes_fsm ''default'' = Inr (demo_volume ''v1'' VolumeKindNamed)"
    by (simp_all add: demo_volumes_fsm_def NewFSM_def getVolumeByName_def vol)
  show ?thesis
    unfolding demo_volumes_saved
    using default_volume_unindexes_named [OF look(1) vol(2) _ _ look(2) _ keyed, of "\<lambda>_ _. Inl ErrNotLeader" 0] by (simp add: vol)
qed

lemma SaveSandbox_replica: "replica load (rnFsm s) \<Longrightarrow> replica load (rnFsm (fst (SaveSandbox load s sb)))"
  by (simp add: SaveSandbox_def store_apply_replica split: option.split)

lemma do_raft_call_fsm [simp]:
  "rnFsm (fst (do_raft_call s c)) = rnFsm s" "rnOutcomes (fst (do_raft_call s c)) = rnOutcomes s"
  by (simp_all add: do_raft_call_def Let_def split: list.split)

lemma RemoveServer_fsm [simp]:
  "rnFsm (fst (RemoveServer s i)) = rnFsm s" "rnOutcomes (fst (RemoveServer s i)) = rnOutcomes s"
  by (auto simp: RemoveServer_def case_prod_beta Let_def split: option.split)

lemma SaveNode_replica: "replica load (rnFsm s) \<Longrightarrow> replica load (rnFsm (fst (SaveNode load s n)))"
  by (simp add: SaveNode_def store_apply_replica split: option.split)

lemma GetNode_table: "GetNode s i = (case node_table s i of None \<Rightarrow> Inl ErrNodeNotFound | Some n \<Rightarrow> Inr (clone_node n))"
  by (simp add: GetNode_def getNode_def)

lemma stored_sandbox_same:
  assumes "sandbox_wf sb" and "text_patches sb" and "sbName sb \<noteq> []"
  shows "stored_sandbox sb = sb"
proof -
  have "sb\<lparr>sbName := sbName sb\<rparr> = sb" by simp
  with assms show ?thesis
    by (simp add: stored_sandbox_def effective_name_def sandbox_image_id CloneSandbox_same)
qed

lemma GetSandbox_table: "GetSandbox s i = (case sandbox_table s i of None \<Rightarrow> Inl ErrSandboxNotFound | Some sb \<Rightarrow> Inr (CloneSandbox sb))"
  by (simp add: GetSandbox_def getSandbox_def)



end
