(* ===== verification/Control_Access.thy ===== *)
theory Control_Access
  imports Store_Contract
begin

text \<open>
  Who may call what (\<open>internal/grpcapi\<close>): peer certificates and internal calls (\<open>ca.go\<close>,
  \<open>endpoints.go\<close>, \<open>sandbox.go\<close>), API keys (\<open>apikey_auth.go\<close>, \<open>apikey_admin.go\<close>), the
  translation of store errors to status codes, and the endpoints a manager hands out. The raft
  interface is never nil on a manager that serves these calls.
\<close>

section \<open>Calls\<close>

record rpc_context =
  cxInternal :: bool
  cxPeerCert :: "certificate option"

definition WithInternalCall :: "rpc_context \<Rightarrow> rpc_context" where
  "WithInternalCall ctx = ctx\<lparr>cxInternal := True\<rparr>"

definition peerCertificate :: "rpc_context \<Rightarrow> certificate option" where
  "peerCertificate ctx = cxPeerCert ctx"

definition requireClusterPeer :: "rpc_context \<Rightarrow> go_error option" where
  "requireClusterPeer ctx =
     (if cxInternal ctx then None
      else if peerCertificate ctx = None then Some (status_error Unauthenticated ''cluster client certificate required'')
      else None)"

definition requireManagerPeer :: "rpc_context \<Rightarrow> go_error option" where
  "requireManagerPeer ctx =
     (case peerCertificate ctx of
        None \<Rightarrow> Some (status_error Unauthenticated ''manager client certificate required'')
      | Some cert \<Rightarrow>
          (case RoleFromCertificate (Some cert) of
             Inl _ \<Rightarrow> Some (status_error Unauthenticated ''invalid client certificate'')
           | Inr role \<Rightarrow>
               if \<not> CanAccessControlPlane role
               then Some (status_error PermissionDenied ''workers cannot access raft membership'') else None))"

definition requireSelfOrManagerPeer :: "rpc_context \<Rightarrow> string \<Rightarrow> go_error option" where
  "requireSelfOrManagerPeer ctx nodeID =
     (case peerCertificate ctx of
        None \<Rightarrow> Some (status_error Unauthenticated ''client certificate required'')
      | Some cert \<Rightarrow>
          if certCN cert = nodeID then None
          else
            (case RoleFromCertificate (Some cert) of
               Inl _ \<Rightarrow> Some (status_error Unauthenticated ''invalid client certificate'')
             | Inr role \<Rightarrow>
                 if \<not> CanAccessControlPlane role
                 then Some (status_error PermissionDenied ''only managers may remove other nodes'') else None))"

definition requireNodeOrManagerPeer :: "certificate option \<Rightarrow> string \<Rightarrow> go_error option" where
  "requireNodeOrManagerPeer ctxPeer nodeID =
     (case ctxPeer of
        None \<Rightarrow> Some (status_error Unauthenticated ''client certificate required'')
      | Some cert \<Rightarrow>
          if nodeID \<noteq> [] \<and> certCN cert = nodeID then None
          else
            (case RoleFromCertificate (Some cert) of
               Inl _ \<Rightarrow> Some (status_error Unauthenticated ''invalid client certificate'')
             | Inr role \<Rightarrow>
                 if \<not> CanAccessControlPlane role
                 then Some (status_error PermissionDenied ''node_id does not match certificate'') else None))"

section \<open>Store errors as status codes\<close>

definition mapStoreErr :: "go_error \<Rightarrow> go_error" where
  "mapStoreErr err =
     (if error_is err ErrNotLeader then StatusError Unavailable err
      else if error_is err ErrAlreadyInitialized then StatusError AlreadyExists err
      else if error_is err ErrNotInitialized then StatusError FailedPrecondition err
      else if error_is err ErrNodeNotFound then StatusError NotFound err
      else if error_is err ErrSandboxNotFound then StatusError NotFound err
      else if error_is err ErrVolumeNotFound then StatusError NotFound err
      else if error_is err ErrAPIKeyNotFound then StatusError NotFound err
      else if error_is err SandboxErrNameExists then StatusError AlreadyExists err
      else StatusError Internal err)"

definition handler_requireLeader :: "raft_node \<Rightarrow> go_error option" where
  "handler_requireLeader s = (if \<not> IsLeader s then Some (StatusError Unavailable ErrNotLeader) else None)"

section \<open>Endpoints\<close>

text \<open>The closure \<open>add\<close> of both functions: first-seen order, no empty address, no duplicate.\<close>

definition add_addr :: "string list \<Rightarrow> string \<Rightarrow> string list" where
  "add_addr out a = (if a = [] \<or> a \<in> set out then out else out @ [a])"

definition managerEndpoints :: "raft_node \<Rightarrow> string \<times> string list" where
  "managerEndpoints s =
     (let leader = LeaderGRPC s;
          out1 = (if leader \<noteq> [] then add_addr [] leader else []);
          out2 = foldl add_addr out1 (map piGRPCAddr (ListPeers s)) in
      (leader, add_addr out2 (rnGRPCAdvertise s)))"

definition MergeManagerAddrs :: "string \<Rightarrow> string list list \<Rightarrow> string list" where
  "MergeManagerAddrs prefer addrss = foldl (foldl add_addr) (add_addr [] prefer) addrss"

lemma add_addr_props:
  "distinct out \<Longrightarrow> distinct (add_addr out a)" "set (add_addr out a) = set out \<union> (if a = [] then {} else {a})"
  "\<exists>zs. add_addr out a = out @ zs"
  by (auto simp: add_addr_def)

lemma foldl_add_addr_distinct: "distinct out \<Longrightarrow> distinct (foldl add_addr out xs)"
  by (induction xs arbitrary: out) (simp_all add: add_addr_props)

lemma foldl_add_addr_set: "set (foldl add_addr out xs) = set out \<union> (set xs - {[]})"
  by (induction xs arbitrary: out) (auto simp: add_addr_props)

lemma foldl_add_addr_prefix: "\<exists>zs. foldl add_addr out xs = out @ zs"
proof (induction xs arbitrary: out)
  case (Cons x xs)
  then show ?case
    using add_addr_props(3) [of out x] by (metis append.assoc foldl_Cons)
qed simp

lemmas foldl_add_addr = foldl_add_addr_distinct foldl_add_addr_set

lemma merge_distinct: "distinct out \<Longrightarrow> distinct (foldl (foldl add_addr) out addrss)"
  by (induction addrss arbitrary: out) (simp_all add: foldl_add_addr)

lemma merge_set: "set (foldl (foldl add_addr) out addrss) = set out \<union> ((\<Union> (set (map set addrss))) - {[]})"
  by (induction addrss arbitrary: out) (auto simp: foldl_add_addr)

lemma merge_prefix: "\<exists>zs. foldl (foldl add_addr) out addrss = out @ zs"
proof (induction addrss arbitrary: out)
  case (Cons x addrss)
  then show ?case
    using foldl_add_addr_prefix [of out x] by (metis append.assoc foldl_Cons)
qed simp

text \<open>
  Merging manager addresses keeps exactly the non-empty ones, each once, and the
  preferred address first.
\<close>

theorem MergeManagerAddrs_spec:
  "distinct (MergeManagerAddrs prefer addrss) \<and>
   set (MergeManagerAddrs prefer addrss) = insert prefer (\<Union> (set ` set addrss)) - {[]} \<and>
   (prefer = [] \<or> hd (MergeManagerAddrs prefer addrss) = prefer)"
proof -
  obtain zs where "MergeManagerAddrs prefer addrss = add_addr [] prefer @ zs"
    using merge_prefix [of "add_addr [] prefer" addrss] by (auto simp: MergeManagerAddrs_def)
  then have "prefer = [] \<or> hd (MergeManagerAddrs prefer addrss) = prefer"
    by (simp add: add_addr_def)
  then show ?thesis
    by (auto simp: MergeManagerAddrs_def merge_distinct merge_set add_addr_props)
qed

section \<open>Reaching the leader\<close>

text \<open>
  The identity host (nil, or answering with its material or an error) and the outcome of the
  dial; what the leader then answers is the argument \<open>remote\<close> of the forwarding handlers.
\<close>

record leader_link =
  lkHost :: "unit result option"
  lkDial :: "string \<Rightarrow> unit result"

definition dialLeader :: "raft_node \<Rightarrow> leader_link \<Rightarrow> string result" where
  "dialLeader s link =
     (let addr = (if LeaderGRPC s = [] then rnGRPCAdvertise s else LeaderGRPC s) in
      if addr = [] then Inl (status_error Unavailable ''no raft leader'')
      else
        (case lkHost link of
           None \<Rightarrow> Inl (status_error FailedPrecondition ''no identity for leader forward'')
         | Some (Inl e) \<Rightarrow> Inl (StatusError FailedPrecondition e)
         | Some (Inr _) \<Rightarrow> (case lkDial link addr of Inl e \<Rightarrow> Inl e | Inr _ \<Rightarrow> Inr addr)))"

section \<open>API keys\<close>

type_synonym metadata = "(string, string list) gomap"

definition md_get :: "metadata \<Rightarrow> string \<Rightarrow> string list" where
  "md_get md k = (case gm_get md k of None \<Rightarrow> [] | Some vs \<Rightarrow> vs)"

definition ascii_lower :: "char \<Rightarrow> char" where
  "ascii_lower c = (if 65 \<le> (of_char c :: nat) \<and> (of_char c :: nat) \<le> 90 then char_of (of_char c + 32 :: nat) else c)"

definition bearer :: string where "bearer = ''bearer ''"

definition bearer_token :: "string \<Rightarrow> string option" where
  "bearer_token v =
     (if length v > length bearer \<and> map ascii_lower (take (length bearer) v) = map ascii_lower bearer
      then Some (trim_space (drop (length bearer) v)) else None)"

fun first_bearer :: "string list \<Rightarrow> string option" where
  "first_bearer [] = None"
| "first_bearer (v # vs) = (case bearer_token v of Some t \<Rightarrow> Some t | None \<Rightarrow> first_bearer vs)"

definition extractAPIKey :: "metadata option \<Rightarrow> string result" where
  "extractAPIKey md =
     (case md of
        None \<Rightarrow> Inl (status_error Unauthenticated ''missing metadata'')
      | Some md \<Rightarrow>
          (let vals = md_get md ''x-api-key'' in
           if length vals > 0 \<and> vals ! 0 \<noteq> [] then Inr (vals ! 0)
           else (case first_bearer (md_get md ''authorization'') of
                   Some t \<Rightarrow> Inr t
                 | None \<Rightarrow> Inl (status_error Unauthenticated ''API key required''))))"

definition authenticateAPIKey :: "(string \<Rightarrow> string) \<Rightarrow> raft_node \<Rightarrow> metadata option \<Rightarrow> api_key result" where
  "authenticateAPIKey hash s md =
     (case extractAPIKey md of
        Inl e \<Rightarrow> Inl e
      | Inr raw \<Rightarrow>
          (case ParseRaw raw of
             Inl _ \<Rightarrow> Inl (status_error Unauthenticated ''invalid API key'')
           | Inr raw' \<Rightarrow>
               (case GetAPIKeyByHash s (hash raw') of
                  Inl _ \<Rightarrow> Inl (status_error Unauthenticated ''invalid API key'')
                | Inr k \<Rightarrow>
                    if kDisabled k then Inl (status_error PermissionDenied ''API key disabled'') else Inr k)))"

definition isSandboxAPIMethod :: "string \<Rightarrow> bool" where
  "isSandboxAPIMethod m = has_prefix ''/cellar.v1.SandboxAPI/'' m"

definition TouchAPIKeyBestEffort :: "ca_loader \<Rightarrow> gotime \<Rightarrow> raft_node \<Rightarrow> string \<Rightarrow> raft_node" where
  "TouchAPIKeyBestEffort load now s i =
     (if \<not> IsLeader s \<or> i = [] then s
      else
        (case GetAPIKey s i of
           Inl _ \<Rightarrow> s
         | Inr k \<Rightarrow> fst (SaveAPIKey load s (Some (k\<lparr>kLastUsed := now\<rparr>)))))"

text \<open>
  The interceptors: a method of the public API runs its handler only after authentication; any
  other method runs it at once. \<open>handler\<close> is the call behind it, \<open>touch\<close> the bookkeeping.
\<close>

definition APIKeyInterceptor ::
  "(string \<Rightarrow> string) \<Rightarrow> (string \<Rightarrow> raft_node \<Rightarrow> raft_node) option \<Rightarrow> string \<Rightarrow> metadata option \<Rightarrow>
     (raft_node \<Rightarrow> raft_node \<times> 'r result) \<Rightarrow> raft_node \<Rightarrow> raft_node \<times> 'r result" where
  "APIKeyInterceptor hash touch meth md handler s =
     (if \<not> isSandboxAPIMethod meth then handler s
      else
        (case authenticateAPIKey hash s md of
           Inl e \<Rightarrow> (s, Inl e)
         | Inr k \<Rightarrow> handler (case touch of None \<Rightarrow> s | Some t \<Rightarrow> t (kID k) s)))"

text \<open>The stream interceptor: a stream ends with an error or without.\<close>

definition APIKeyStreamInterceptor ::
  "(string \<Rightarrow> string) \<Rightarrow> (string \<Rightarrow> raft_node \<Rightarrow> raft_node) option \<Rightarrow> string \<Rightarrow> metadata option \<Rightarrow>
     (raft_node \<Rightarrow> raft_node \<times> go_error option) \<Rightarrow> raft_node \<Rightarrow> raft_node \<times> go_error option" where
  "APIKeyStreamInterceptor hash touch meth md handler s =
     (if \<not> isSandboxAPIMethod meth then handler s
      else
        (case authenticateAPIKey hash s md of
           Inl e \<Rightarrow> (s, Some e)
         | Inr k \<Rightarrow> handler (case touch of None \<Rightarrow> s | Some t \<Rightarrow> t (kID k) s)))"

definition CreateAPIKeyOnStore ::
  "ca_loader \<Rightarrow> (string \<Rightarrow> string) \<Rightarrow> string result \<Rightarrow> string result \<Rightarrow> gotime \<Rightarrow> raft_node \<Rightarrow> string \<Rightarrow> raft_node \<times> generated result" where
  "CreateAPIKeyOnStore load hash rand rand_id now s name =
     (case Generate hash rand rand_id now name of
        Inl e \<Rightarrow> (s, Inl (StatusError InvalidArgument e))
      | Inr g \<Rightarrow>
          (case SaveAPIKey load s (Some (gKey g)) of
             (s', Some e) \<Rightarrow> (s', Inl (mapStoreErr e))
           | (s', None) \<Rightarrow> (s', Inr g)))"

section \<open>What the checks admit\<close>

lemma manager_role: "RoleFromCertificate (Some c) = Inr r \<and> CanAccessControlPlane r \<longleftrightarrow>
    r = RoleManager \<and> (\<exists>ous. certOUs c = role_OU RoleManager # ous)"
  by (auto simp: RoleFromCertificate_Inr CanAccessControlPlane_def)

definition manager_cert :: "certificate \<Rightarrow> bool" where
  "manager_cert c \<longleftrightarrow> (\<exists>ous. certOUs c = role_OU RoleManager # ous)"

lemma manager_cert_role: "manager_cert c \<longleftrightarrow> (\<exists>r. RoleFromCertificate (Some c) = Inr r \<and> CanAccessControlPlane r)"
  using manager_role [of c] by (auto simp: manager_cert_def)

lemma requireNodeOrManagerPeer_None:
  "requireNodeOrManagerPeer p i = None \<longleftrightarrow> (\<exists>c. p = Some c \<and> ((i \<noteq> [] \<and> certCN c = i) \<or> manager_cert c))"
  by (auto simp: requireNodeOrManagerPeer_def manager_cert_role split: option.splits sum.splits if_splits)

lemma requireManagerPeer_None:
  "requireManagerPeer ctx = None \<longleftrightarrow> (\<exists>c. cxPeerCert ctx = Some c \<and> manager_cert c)"
  by (auto simp: requireManagerPeer_def peerCertificate_def manager_cert_role split: option.splits sum.splits if_splits)

lemma requireSelfOrManagerPeer_None:
  "requireSelfOrManagerPeer ctx i = None \<longleftrightarrow> (\<exists>c. cxPeerCert ctx = Some c \<and> (certCN c = i \<or> manager_cert c))"
  by (auto simp: requireSelfOrManagerPeer_def peerCertificate_def manager_cert_role split: option.splits sum.splits if_splits)

text \<open>
  The certificate checks admit exactly whom they mean to: membership calls a
  certificate whose first unit is the manager's, calls about a node that node's own certificate
  or a manager's, and a worker's certificate never acts for another node.
\<close>

theorem peer_checks:
  "(requireManagerPeer ctx = None \<longleftrightarrow> (\<exists>c. cxPeerCert ctx = Some c \<and> manager_cert c)) \<and>
   (requireSelfOrManagerPeer ctx i = None \<longleftrightarrow> (\<exists>c. cxPeerCert ctx = Some c \<and> (certCN c = i \<or> manager_cert c))) \<and>
   (requireNodeOrManagerPeer p i = None \<longleftrightarrow> (\<exists>c. p = Some c \<and> ((i \<noteq> [] \<and> certCN c = i) \<or> manager_cert c))) \<and>
   (requireNodeOrManagerPeer (Some \<lparr>certCN = w, certOUs = [role_OU RoleWorker]\<rparr>) i = None \<longleftrightarrow> i \<noteq> [] \<and> w = i)"
  using role_OU_inj [of RoleWorker RoleManager]
  by (auto simp: requireManagerPeer_None requireSelfOrManagerPeer_None requireNodeOrManagerPeer_None manager_cert_def)

text \<open>
  A name conflict is reported as an internal error: the state machine answers
  \<open>store.ErrNameExists\<close>, while the translation to status codes tests the sentinel of package
  \<open>sandbox\<close>, so the conflict never becomes \<open>AlreadyExists\<close>.
\<close>

theorem name_conflict_is_internal:
  "status_code (mapStoreErr ErrNameExists) = Some Internal \<and> status_code (mapStoreErr SandboxErrNameExists) = Some AlreadyExists"
  by (simp add: mapStoreErr_def)

section \<open>API keys\<close>

lemma find_unique:
  assumes "x \<in> set xs" and "P x" and "\<And>y. y \<in> set xs \<Longrightarrow> P y \<Longrightarrow> y = x"
  shows "List.find P xs = Some x"
proof (cases "List.find P xs")
  case None
  with assms(1,2) show ?thesis by (simp add: find_None_iff)
next
  case (Some y)
  then have "y \<in> set xs" "P y" by (auto simp: find_Some_iff)
  with Some assms(3) show ?thesis by simp
qed

lemma getAPIKeyByHash_unique:
  assumes "fsm_keyed f" and "gm_get (fsApiKeys f) i = Some k"
    and "\<And>j k'. gm_get (fsApiKeys f) j = Some k' \<Longrightarrow> kKeyHash k' = kKeyHash k \<Longrightarrow> j = i"
  shows "getAPIKeyByHash f (kKeyHash k) = Inr k"
proof -
  have wf: "gm_wf (fsApiKeys f)"
    using assms(1) by (simp add: fsm_keyed_def keyed_def)
  have "List.find (\<lambda>k'. EqualHash (kKeyHash k') (kKeyHash k)) (map snd (fsApiKeys f)) = Some k"
  proof (rule find_unique)
    show "k \<in> set (map snd (fsApiKeys f))"
      using assms(2) wf by (force simp: gm_get_mem)
    fix y
    assume "y \<in> set (map snd (fsApiKeys f))" and "EqualHash (kKeyHash y) (kKeyHash k)"
    then obtain j where j: "gm_get (fsApiKeys f) j = Some y" "kKeyHash y = kKeyHash k"
      using wf by (auto simp: EqualHash_iff gm_get_mem)
    with assms(2) assms(3) [OF j] show "y = k" by simp
  next
  qed (simp add: EqualHash_iff)
  then show ?thesis by (simp add: getAPIKeyByHash_def)
qed

lemma getAPIKeyByHash_none:
  assumes "fsm_keyed f" and "\<And>j k. gm_get (fsApiKeys f) j = Some k \<Longrightarrow> kKeyHash k \<noteq> h"
  shows "getAPIKeyByHash f h = Inl ErrAPIKeyNotFound"
proof -
  have "gm_wf (fsApiKeys f)"
    using assms(1) by (simp add: fsm_keyed_def keyed_def)
  then have "List.find (\<lambda>k. EqualHash (kKeyHash k) h) (map snd (fsApiKeys f)) = None"
    using assms(2) by (fastforce simp: find_None_iff EqualHash_iff gm_get_mem)
  then show ?thesis by (simp add: getAPIKeyByHash_def)
qed

lemma SaveAPIKey_keyed: "fsm_keyed (rnFsm s) \<Longrightarrow> fsm_keyed (rnFsm (fst (SaveAPIKey load s k)))"
  "fsm_keyed (rnFsm s) \<Longrightarrow> fsm_keyed (rnFsm (fst (DeleteAPIKey load s i)))"
  using store_apply_fsm fsm_Apply_keyed
  by (auto simp: SaveAPIKey_def DeleteAPIKey_def split: option.split) (metis+)

text \<open>The credential in the header, as a client sends it.\<close>

definition key_header :: "string \<Rightarrow> metadata option" where
  "key_header raw = Some [(''x-api-key'', [raw])]"

lemma authenticate_header:
  assumes "raw \<noteq> []" and "ParseRaw raw = Inr raw"
  shows "authenticateAPIKey hash s (key_header raw) =
     (case GetAPIKeyByHash s (hash raw) of
        Inl _ \<Rightarrow> Inl (status_error Unauthenticated ''invalid API key'')
      | Inr k \<Rightarrow> if kDisabled k then Inl (status_error PermissionDenied ''API key disabled'') else Inr k)"
  using assms by (simp add: authenticateAPIKey_def extractAPIKey_def key_header_def md_get_def)

lemma authenticate_Inr:
  assumes "authenticateAPIKey hash s md = Inr k"
  shows "\<exists>p raw. extractAPIKey md = Inr p \<and> ParseRaw p = Inr raw \<and> kKeyHash k = hash raw \<and> \<not> kDisabled k \<and>
    k \<in> snd ` set (fsApiKeys (rnFsm s))"
proof -
  obtain p raw where p: "extractAPIKey md = Inr p" "ParseRaw p = Inr raw" "\<not> kDisabled k"
    "getAPIKeyByHash (rnFsm s) (hash raw) = Inr k"
    using assms by (auto simp: authenticateAPIKey_def GetAPIKeyByHash_def split: sum.splits if_splits)
  then have "List.find (\<lambda>k. EqualHash (kKeyHash k) (hash raw)) (map snd (fsApiKeys (rnFsm s))) = Some k"
    by (auto simp: getAPIKeyByHash_def split: option.splits)
  then have "kKeyHash k = hash raw" "k \<in> set (map snd (fsApiKeys (rnFsm s)))"
    by (auto simp: find_Some_iff EqualHash_iff)
  with p show ?thesis by auto
qed

text \<open>
  The public API is closed to everybody but key holders: a call whose handler had any
  effect presented a key that parses, whose hash is stored, and that is not disabled; any other
  call is answered with an error and leaves the store as it was.
\<close>

theorem interceptor_guards:
  assumes "isSandboxAPIMethod meth"
  shows "(\<exists>e. APIKeyInterceptor hash touch meth md handler s = (s, Inl e)) \<or>
    (\<exists>p raw k. extractAPIKey md = Inr p \<and> ParseRaw p = Inr raw \<and> k \<in> set (listAPIKeys (rnFsm s)) \<and>
       kKeyHash k = hash raw \<and> \<not> kDisabled k)"
proof (cases "authenticateAPIKey hash s md")
  case (Inl e)
  with assms show ?thesis by (auto simp: APIKeyInterceptor_def)
next
  case (Inr k)
  from authenticate_Inr [OF this] show ?thesis
    by (auto simp: listAPIKeys_def)
qed

theorem interceptor_guards_witness:
  "(\<exists>e. APIKeyInterceptor rev None ''/cellar.v1.SandboxAPI/Create'' None (\<lambda>s. (s, Inr ())) (demo_raft True NewFSM) =
      (demo_raft True NewFSM, Inl e)) \<or>
   (\<exists>p raw k. extractAPIKey None = Inr p \<and> ParseRaw p = Inr raw \<and>
      k \<in> set (listAPIKeys (rnFsm (demo_raft True NewFSM))) \<and> kKeyHash k = rev raw \<and> \<not> kDisabled k)"
  by (rule interceptor_guards) (simp add: isSandboxAPIMethod_def has_prefix_def)

text \<open>A stream is let through exactly when a call with the same metadata is, on the same store.\<close>

theorem interceptors_agree:
  "APIKeyStreamInterceptor hash touch meth md handler s =
     (case APIKeyInterceptor hash touch meth md (\<lambda>t. case handler t of (t', e) \<Rightarrow> (t', case e of None \<Rightarrow> Inr () | Some x \<Rightarrow> Inl x)) s of
        (s', r) \<Rightarrow> (s', case r of Inl x \<Rightarrow> Some x | Inr _ \<Rightarrow> None))"
  by (simp add: APIKeyStreamInterceptor_def APIKeyInterceptor_def split: sum.split prod.split option.split)

lemma created_key_saved:
  assumes "CreateAPIKeyOnStore load hash (Inr b) (Inr b') now s name = (s', Inr g)"
  shows "Generate hash (Inr b) (Inr b') now name = Inr g"
    and "SaveAPIKey load s (Some (gKey g)) = (s', None)"
  using assms by (auto simp: CreateAPIKeyOnStore_def split: sum.splits prod.splits option.splits)

text \<open>A key that was created is found by its hash, and not any more once it is deleted.\<close>

lemma created_key_parts:
  assumes "length b = keyBytes" and "CreateAPIKeyOnStore load hash (Inr b) (Inr b') now s name = (s', Inr g)"
  shows "gRaw g = key_Prefix @ hex_encode b" and "kKeyHash (gKey g) = hash (gRaw g)" and "\<not> kDisabled (gKey g)"
    and "ParseRaw (gRaw g) = Inr (gRaw g)" and "gRaw g \<noteq> []"
    and "key_table s' = (key_table s)(kID (gKey g) \<mapsto> gKey g)"
proof -
  note gen = created_key_saved(1) [OF assms(2)] and save = created_key_saved(2) [OF assms(2)]
  show key: "gRaw g = key_Prefix @ hex_encode b" "kKeyHash (gKey g) = hash (gRaw g)" "\<not> kDisabled (gKey g)"
    using gen by (auto simp: Generate_Inr)
  show "ParseRaw (gRaw g) = Inr (gRaw g)" "gRaw g \<noteq> []"
    using ParseRaw_key [OF assms(1)] by (simp_all add: key(1) key_Prefix_def)
  show "key_table s' = (key_table s)(kID (gKey g) \<mapsto> gKey g)"
    using keys_db.save_ok [of load s "gKey g"] save by simp
qed

lemma other_key_hash:
  assumes "fsm_keyed (rnFsm s)" and "\<forall>k \<in> set (listAPIKeys (rnFsm s)). kKeyHash k \<noteq> h" and "key_table s i = Some k"
  shows "kKeyHash k \<noteq> h"
  using assms by (force simp: listAPIKeys_def gm_get_mem fsm_keyed_def keyed_def)

lemma created_key_accepted:
  assumes "fsm_keyed (rnFsm s)" and "length b = keyBytes"
    and "CreateAPIKeyOnStore load hash (Inr b) (Inr b') now s name = (s', Inr g)"
    and "\<forall>k \<in> set (listAPIKeys (rnFsm s)). kKeyHash k \<noteq> hash (gRaw g)"
  shows "authenticateAPIKey hash s' (key_header (gRaw g)) = Inr (gKey g)" and "fsm_keyed (rnFsm s')"
proof -
  note parts = created_key_parts [OF assms(2,3)]
  show keyed: "fsm_keyed (rnFsm s')"
    using SaveAPIKey_keyed(1) [OF assms(1), of load "Some (gKey g)"] created_key_saved(2) [OF assms(3)] by simp
  have "getAPIKeyByHash (rnFsm s') (kKeyHash (gKey g)) = Inr (gKey g)"
  proof (rule getAPIKeyByHash_unique [OF keyed])
    show "key_table s' (kID (gKey g)) = Some (gKey g)" by (simp add: parts(6))
    show "j = kID (gKey g)" if "key_table s' j = Some k'" "kKeyHash k' = kKeyHash (gKey g)" for j k'
      using that other_key_hash [OF assms(1,4)] by (auto simp: parts(2,6) split: if_splits)
  qed
  then show "authenticateAPIKey hash s' (key_header (gRaw g)) = Inr (gKey g)"
    by (simp add: authenticate_header parts(4,5) GetAPIKeyByHash_def parts(2) [symmetric] parts(3))
qed

lemma deleted_key_refused:
  assumes "fsm_keyed (rnFsm s)" and "length b = keyBytes"
    and "CreateAPIKeyOnStore load hash (Inr b) (Inr b') now s name = (s', Inr g)"
    and "\<forall>k \<in> set (listAPIKeys (rnFsm s)). kKeyHash k \<noteq> hash (gRaw g)"
    and "DeleteAPIKey load s' (kID (gKey g)) = (s'', None)"
  shows "authenticateAPIKey hash s'' (key_header (gRaw g)) = Inl (status_error Unauthenticated ''invalid API key'')"
proof -
  note parts = created_key_parts [OF assms(2,3)]
  have "getAPIKeyByHash (rnFsm s'') (kKeyHash (gKey g)) = Inl ErrAPIKeyNotFound"
  proof (rule getAPIKeyByHash_none)
    show "fsm_keyed (rnFsm s'')"
      using SaveAPIKey_keyed(2) [OF created_key_accepted(2) [OF assms(1-4)], of load "kID (gKey g)"] assms(5) by simp
    have "key_table s'' = (key_table s')(kID (gKey g) := None)"
      using keys_db.remove_ok [of load s' "kID (gKey g)"] assms(5) by simp
    then show "kKeyHash k \<noteq> kKeyHash (gKey g)" if "key_table s'' j = Some k" for j k
      using that other_key_hash [OF assms(1,4)] by (auto simp: parts(2,6) split: if_splits)
  qed
  then show ?thesis
    by (simp add: authenticate_header parts(4,5) GetAPIKeyByHash_def parts(2) [symmetric])
qed

text \<open>
  A minted key works until it is deleted: the raw key shown to its creator authenticates, as the
  record created, on the store it was saved to; after a deletion it is refused. No other stored
  key may have the same hash.
\<close>

lemma key_lifetime:
  assumes "fsm_keyed (rnFsm s)" and "length b = keyBytes"
    and "CreateAPIKeyOnStore load hash (Inr b) (Inr b') now s name = (s', Inr g)"
    and "\<forall>k \<in> set (listAPIKeys (rnFsm s)). kKeyHash k \<noteq> hash (gRaw g)"
    and "DeleteAPIKey load s' (kID (gKey g)) = (s'', None)"
  shows "authenticateAPIKey hash s' (key_header (gRaw g)) = Inr (gKey g) \<and>
    authenticateAPIKey hash s'' (key_header (gRaw g)) = Inl (status_error Unauthenticated ''invalid API key'')"
  using created_key_accepted(1) [OF assms(1-4)] deleted_key_refused [OF assms] by blast

definition demo_generated :: generated where
  "demo_generated = projr (Generate rev (Inr demo_bytes) (Inr ''0123456789abcdef'') 7 ''ci'')"

definition demo_key_raft :: raft_node where
  "demo_key_raft = demo_raft True (NewFSM\<lparr>fsApiKeys := [(kID (gKey demo_generated), gKey demo_generated)]\<rparr>)"

lemma demo_generated: "Generate rev (Inr demo_bytes) (Inr ''0123456789abcdef'') 7 ''ci'' = Inr demo_generated"
proof -
  have "trim_space ''ci'' = ''ci''"
    by (rule trim_space_plain) (simp_all add: plain_char_def)
  then show ?thesis
    by (simp add: demo_generated_def Generate_def apikey_newID_def Let_def)
qed

lemma demo_generated_parts:
  "kID (gKey demo_generated) = hex_encode ''0123456789abcdef''"
  "kKeyHash (gKey demo_generated) = rev (key_Prefix @ hex_encode demo_bytes)"
proof -
  obtain b1 b2 where b: "b1 = demo_bytes" "b2 = ''0123456789abcdef''" and g:
    "demo_generated = \<lparr>gKey = \<lparr>kID = hex_encode b2, kName = ''ci'', kKeyHash = rev (key_Prefix @ hex_encode b1),
       kMask = Mask (key_Prefix @ hex_encode b1), kCreatedAt = 7, kLastUsed = zero_time, kDisabled = False\<rparr>,
       gRaw = key_Prefix @ hex_encode b1\<rparr>"
    using demo_generated [unfolded Generate_Inr] by blast
  show "kID (gKey demo_generated) = hex_encode ''0123456789abcdef''"
    "kKeyHash (gKey demo_generated) = rev (key_Prefix @ hex_encode demo_bytes)"
    unfolding g b by (simp_all only: generated.simps api_key.simps)
qed

lemma demo_generated_nonempty: "kID (gKey demo_generated) \<noteq> []" "kKeyHash (gKey demo_generated) \<noteq> []"
  by (simp_all add: demo_generated_parts key_Prefix_def)

lemma demo_key_created:
  "CreateAPIKeyOnStore no_load rev (Inr demo_bytes) (Inr ''0123456789abcdef'') 7 (demo_raft True NewFSM) ''ci'' =
     (demo_key_raft, Inr demo_generated)" for no_load
  by (simp add: CreateAPIKeyOnStore_def demo_generated SaveAPIKey_def leader_simps IsLeader_def store_apply_def
      fsm_step_def demo_raft_def Apply_ops applySaveAPIKey_def payload_defs demo_key_raft_def NewFSM_def
      demo_generated_nonempty)

lemma demo_key_deleted:
  "DeleteAPIKey no_load demo_key_raft (kID (gKey demo_generated)) = (demo_raft True NewFSM, None)" for no_load
  by (simp add: DeleteAPIKey_def leader_simps IsLeader_def store_apply_def gm_has_def demo_generated_nonempty
      fsm_step_def demo_raft_def Apply_ops applyDeleteAPIKey_def payload_defs demo_key_raft_def NewFSM_def)

end
