(* ===== verification/Ca_Control.thy ===== *)
theory Ca_Control
  imports Ca_Material Control_Access
begin

text \<open>
  The certificate and membership service of a manager (\<open>internal/grpcapi/ca.go\<close>, type
  \<open>CAServer\<close>): the cached signing root, the issue and renewal of node certificates, and the
  Raft membership calls. What the leader answers to a forwarded call is the argument \<open>remote\<close>;
  the hook that \<open>Leave\<close> runs at its end is the argument \<open>hook\<close>.
\<close>

section \<open>State\<close>

record ca_server =
  caRaft :: raft_node
  caRoot :: "root_ca option"
  caReady :: bool

record issue_call =
  iqCsr :: string
  iqToken :: string
  iqNodeID :: string

record issue_reply =
  iyNodeID :: string
  iyRole :: string
  iyMembership :: string
  iyCertificate :: string
  iyExpires :: int
  iyLeaderGrpc :: string
  iyManagerAddrs :: "string list"

record join_call =
  jqNodeID :: string
  jqRaftAddr :: string
  jqGrpcAddr :: string

record node_record_proto =
  npNodeID :: string
  npRole :: string
  npMembership :: string
  npFingerprint :: string
  npIssuedAt :: int
  npExpiresAt :: int
  npCertificate :: string

section \<open>The signing root\<close>

definition UpdateRootCA :: "ca_loader \<Rightarrow> ca_server \<Rightarrow> ca_server \<times> go_error option" where
  "UpdateRootCA load s =
     (case GetCluster (caRaft s) of
        Inl e \<Rightarrow> (s, Some e)
      | Inr cluster \<Rightarrow>
          (case cluster_LoadRootCA load (Some cluster) of
             Inl e \<Rightarrow> (s, Some e)
           | Inr root \<Rightarrow> (s\<lparr>caRoot := Some root, caReady := True\<rparr>, None)))"

definition ca_Stop :: "ca_server \<Rightarrow> ca_server" where
  "ca_Stop s = s\<lparr>caRoot := None, caReady := False\<rparr>"

definition signingRoot :: "ca_server \<Rightarrow> root_ca result" where
  "signingRoot s =
     (if \<not> caReady s then Inl (status_error Unavailable ''CA not ready'')
      else (case caRoot s of None \<Rightarrow> Inl (status_error Unavailable ''CA not ready'') | Some r \<Rightarrow> Inr r))"

text \<open>The root to sign with, warming the cache from the cluster object where it is cold.\<close>

definition warm_root :: "ca_loader \<Rightarrow> ca_server \<Rightarrow> ca_server \<times> root_ca result" where
  "warm_root load s =
     (case signingRoot s of
        Inr r \<Rightarrow> (s, Inr r)
      | Inl e \<Rightarrow>
          (case UpdateRootCA load s of
             (s', Some _) \<Rightarrow> (s', Inl e)
           | (s', None) \<Rightarrow> (s', signingRoot s')))"

definition GetRootCACertificate :: "ca_server \<Rightarrow> string result" where
  "GetRootCACertificate s =
     (case GetCluster (caRaft s) of Inl e \<Rightarrow> Inl (mapStoreErr e) | Inr c \<Rightarrow> Inr (rcCACert (clRootCA c)))"

section \<open>Certificates\<close>

definition ca_forward :: "ca_server \<Rightarrow> leader_link \<Rightarrow> (string \<Rightarrow> 'r result) \<Rightarrow> 'r result" where
  "ca_forward s link remote = (case dialLeader (caRaft s) link of Inl e \<Rightarrow> Inl e | Inr addr \<Rightarrow> remote addr)"

text \<open>Who the certificate is for: the switch on the token and the node id.\<close>

definition issue_subject ::
  "string result \<Rightarrow> rpc_context \<Rightarrow> raft_node \<Rightarrow> cluster \<Rightarrow> csr \<Rightarrow> issue_call \<Rightarrow> (string \<times> role \<times> node option) result" where
  "issue_subject rand_id ctx s cluster csr req =
     (if iqToken req \<noteq> [] then
        (case token_Validate (iqToken req) (rcCACertHash (clRootCA cluster)) (rcJoinSecrets (clRootCA cluster)) of
           Inl e \<Rightarrow> Inl (StatusError Unauthenticated e)
         | Inr role \<Rightarrow>
             (case node_NewID rand_id of
                Inl e \<Rightarrow> Inl (StatusError Internal e)
              | Inr i \<Rightarrow> Inr (i, role, None)))
      else if iqNodeID req \<noteq> [] then
        (case (if peerCertificate ctx = None then None
               else requireNodeOrManagerPeer (peerCertificate ctx) (iqNodeID req)) of
           Some e \<Rightarrow> Inl e
         | None \<Rightarrow>
             (case GetNode s (iqNodeID req) of
                Inl e \<Rightarrow> Inl (mapStoreErr e)
              | Inr existing \<Rightarrow>
                  if csCN csr \<noteq> [] \<and> csCN csr \<noteq> nID existing
                  then Inl (status_error PermissionDenied ''CSR CN does not match node ID'')
                  else Inr (nID existing, nRole existing, Some existing)))
      else Inl (status_error InvalidArgument ''token or node_id is required''))"

text \<open>The record that is saved: a renewal keeps what heartbeats and operators set.\<close>

definition issued_record :: "string \<Rightarrow> role \<Rightarrow> string \<Rightarrow> issued_cert \<Rightarrow> node option \<Rightarrow> node" where
  "issued_record nodeID role fp issued existing =
     (let rec = zero_node\<lparr>nID := nodeID, nRole := role, nMembership := MembershipAccepted, nFingerprint := fp,
                  nIssuedAt := xcNotBefore (isCert issued), nExpiresAt := xcNotAfter (isCert issued),
                  nCertificatePEM := isCertPEM issued\<rparr> in
      case existing of
        None \<Rightarrow> rec
      | Some n \<Rightarrow> rec\<lparr>nAvailability := nAvailability n, nLabels := CloneLabels (nLabels n), nGRPCAddr := nGRPCAddr n,
                    nHeartbeatAt := nHeartbeatAt n, nSandboxCount := nSandboxCount n\<rparr>)"

definition issue_response :: "raft_node \<Rightarrow> string \<Rightarrow> role \<Rightarrow> issued_cert \<Rightarrow> issue_reply" where
  "issue_response s nodeID role issued =
     (let (leader, addrs) = managerEndpoints s in
      \<lparr>iyNodeID = nodeID, iyRole = role, iyMembership = MembershipAccepted, iyCertificate = isCertPEM issued,
       iyExpires = unix_nano (xcNotAfter (isCert issued)), iyLeaderGrpc = leader, iyManagerAddrs = addrs\<rparr>)"

definition IssueNodeCertificate ::
  "x509_lib \<Rightarrow> string result \<Rightarrow> int result \<Rightarrow> gotime \<Rightarrow> leader_link \<Rightarrow> (string \<Rightarrow> issue_reply result) \<Rightarrow>
     rpc_context \<Rightarrow> ca_server \<Rightarrow> issue_call \<Rightarrow> ca_server \<times> issue_reply result" where
  "IssueNodeCertificate lib rand_id rand now link remote ctx s req =
     (if \<not> IsLeader (caRaft s) then (s, ca_forward s link remote)
      else if iqCsr req = [] then (s, Inl (status_error InvalidArgument ''csr is required''))
      else
     (case warm_root (LoadRootCA lib) s of
        (s1, Inl e) \<Rightarrow> (s1, Inl e)
      | (s1, Inr root) \<Rightarrow>
     (case GetCluster (caRaft s1) of
        Inl e \<Rightarrow> (s1, Inl (mapStoreErr e))
      | Inr cluster \<Rightarrow>
     (case ParseCSR lib (iqCsr req) of
        Inl e \<Rightarrow> (s1, Inl (StatusError InvalidArgument e))
      | Inr csr \<Rightarrow>
     (case csPublicKey csr of
        OtherKey _ \<Rightarrow> (s1, Inl (status_error InvalidArgument ''CSR public key must be ECDSA''))
      | EcdsaKey p k \<Rightarrow>
     (case PublicKeyFingerprint lib (EcdsaKey p k) of
        Inl e \<Rightarrow> (s1, Inl (StatusError Internal e))
      | Inr fp \<Rightarrow>
     (case issue_subject rand_id ctx (caRaft s1) cluster csr req of
        Inl e \<Rightarrow> (s1, Inl e)
      | Inr (nodeID, role, existing) \<Rightarrow>
     (case SignNodeCSR lib rand now root
             \<lparr>irCSR = Some csr, irNodeID = nodeID, irRole = role, irValidity = clCertValidity cluster\<rparr> of
        Inl e \<Rightarrow> (s1, Inl (StatusError Internal e))
      | Inr issued \<Rightarrow>
     (case SaveNode (LoadRootCA lib) (caRaft s1) (Some (issued_record nodeID role fp issued existing)) of
        (s2, Some e) \<Rightarrow> (s1\<lparr>caRaft := s2\<rparr>, Inl (mapStoreErr e))
      | (s2, None) \<Rightarrow> (s1\<lparr>caRaft := s2\<rparr>, Inr (issue_response s2 nodeID role issued)))))))))))"

definition NodeCertificateStatus :: "ca_server \<Rightarrow> string \<Rightarrow> node_record_proto result" where
  "NodeCertificateStatus s i =
     (if i = [] then Inl (status_error InvalidArgument ''node_id is required'')
      else
        (case GetNode (caRaft s) i of
           Inl e \<Rightarrow> Inl (mapStoreErr e)
         | Inr n \<Rightarrow>
             Inr \<lparr>npNodeID = nID n, npRole = nRole n, npMembership = nMembership n, npFingerprint = nFingerprint n,
                  npIssuedAt = unix_nano (nIssuedAt n), npExpiresAt = unix_nano (nExpiresAt n),
                  npCertificate = nCertificatePEM n\<rparr>))"

section \<open>Membership\<close>

definition ca_Join :: "ca_loader \<Rightarrow> rpc_context \<Rightarrow> ca_server \<Rightarrow> join_call \<Rightarrow> ca_server \<times> unit result" where
  "ca_Join load ctx s req =
     (case requireManagerPeer ctx of
        Some e \<Rightarrow> (s, Inl e)
      | None \<Rightarrow>
     (case handler_requireLeader (caRaft s) of
        Some e \<Rightarrow> (s, Inl e)
      | None \<Rightarrow>
          if jqNodeID req = [] \<or> jqRaftAddr req = []
          then (s, Inl (status_error InvalidArgument ''node_id and raft_addr are required''))
          else
            (let (r, e) = AddVoter load (caRaft s)
                   \<lparr>piNodeID = jqNodeID req, piRaftAddr = jqRaftAddr req, piGRPCAddr = jqGrpcAddr req\<rparr> in
             (s\<lparr>caRaft := r\<rparr>, case e of Some err \<Rightarrow> Inl (mapStoreErr err) | None \<Rightarrow> Inr ()))))"

definition ca_Leave ::
  "ca_loader \<Rightarrow> (ca_server \<Rightarrow> ca_server) option \<Rightarrow> rpc_context \<Rightarrow> ca_server \<Rightarrow> string \<Rightarrow> ca_server \<times> unit result" where
  "ca_Leave load hook ctx s i =
     (case handler_requireLeader (caRaft s) of
        Some e \<Rightarrow> (s, Inl e)
      | None \<Rightarrow>
          if i = [] then (s, Inl (status_error InvalidArgument ''node_id is required''))
          else
     (case requireSelfOrManagerPeer ctx i of
        Some e \<Rightarrow> (s, Inl e)
      | None \<Rightarrow>
     (case (if IsVoter (caRaft s) i then RemoveServer (caRaft s) i else (caRaft s, None)) of
        (r1, Some e) \<Rightarrow> (s\<lparr>caRaft := r1\<rparr>, Inl (mapStoreErr e))
      | (r1, None) \<Rightarrow>
     (case DeletePeer load r1 i of
        (r2, Some e) \<Rightarrow> (s\<lparr>caRaft := r2\<rparr>, Inl (mapStoreErr e))
      | (r2, None) \<Rightarrow>
     (case DeleteNode load r2 i of
        (r3, Some e) \<Rightarrow>
          if \<not> error_is e ErrNodeNotFound then (s\<lparr>caRaft := r3\<rparr>, Inl (mapStoreErr e))
          else ((case hook of None \<Rightarrow> s\<lparr>caRaft := r3\<rparr> | Some fn \<Rightarrow> fn (s\<lparr>caRaft := r3\<rparr>)), Inr ())
      | (r3, None) \<Rightarrow>
          ((case hook of None \<Rightarrow> s\<lparr>caRaft := r3\<rparr> | Some fn \<Rightarrow> fn (s\<lparr>caRaft := r3\<rparr>)), Inr ()))))))"

section \<open>What a successful issue has done\<close>

lemma warm_root_raft [simp]: "caRaft (fst (warm_root load s)) = caRaft s"
  by (auto simp: warm_root_def UpdateRootCA_def split: sum.splits prod.splits option.splits)

lemma issue_subject_Inr:
  assumes "issue_subject rand_id ctx s cluster csr req = Inr (i, r, old)"
  shows "if iqToken req \<noteq> []
     then token_Validate (iqToken req) (rcCACertHash (clRootCA cluster)) (rcJoinSecrets (clRootCA cluster)) = Inr r \<and>
          node_NewID rand_id = Inr i \<and> old = None
     else \<exists>n. GetNode s (iqNodeID req) = Inr n \<and> iqNodeID req \<noteq> [] \<and> i = nID n \<and> r = nRole n \<and> old = Some n \<and>
          (peerCertificate ctx = None \<or> requireNodeOrManagerPeer (peerCertificate ctx) (iqNodeID req) = None)"
  using assms by (auto simp: issue_subject_def split: sum.splits option.splits if_splits)

lemma IssueNodeCertificate_Inr:
  assumes "IssueNodeCertificate lib rand_id rand now link remote ctx s req = (s', Inr resp)" and "IsLeader (caRaft s)"
  obtains root cluster csr fp i r old issued where
    "GetCluster (caRaft s) = Inr cluster" and "ParseCSR lib (iqCsr req) = Inr csr"
    and "issue_subject rand_id ctx (caRaft s) cluster csr req = Inr (i, r, old)"
    and "SignNodeCSR lib rand now root
          \<lparr>irCSR = Some csr, irNodeID = i, irRole = r, irValidity = clCertValidity cluster\<rparr> = Inr issued"
    and "SaveNode (LoadRootCA lib) (caRaft s) (Some (issued_record i r fp issued old)) = (caRaft s', None)"
    and "resp = issue_response (caRaft s') i r issued"
proof -
  obtain s1 w where w: "warm_root (LoadRootCA lib) s = (s1, w)" by fastforce
  then have s1: "caRaft s1 = caRaft s"
    using warm_root_raft [of "LoadRootCA lib" s] by simp
  from assms w s1 show thesis
    by (auto simp: IssueNodeCertificate_def split: if_splits sum.splits public_key.splits prod.splits option.splits
        intro!: that)
qed

lemma issue_response_simps [simp]:
  "iyNodeID (issue_response s i r ic) = i" "iyRole (issue_response s i r ic) = r"
  "iyCertificate (issue_response s i r ic) = isCertPEM ic"
  by (simp_all add: issue_response_def split: prod.split)

lemma issued_record_simps [simp]:
  "nID (issued_record i r fp ic old) = i" "nRole (issued_record i r fp ic old) = r"
  "nMembership (issued_record i r fp ic old) = MembershipAccepted"
  "nCertificatePEM (issued_record i r fp ic old) = isCertPEM ic"
  by (simp_all add: issued_record_def Let_def split: option.split)



text \<open>
  A renewal asks for no identity: without a client certificate the leader treats a
  request for a known node exactly as if that node had presented its own certificate, since the
  check of the peer is skipped when there is none.
\<close>

theorem renewal_needs_no_certificate:
  assumes "IsLeader (caRaft s)" and "iqToken req = []" and "iqNodeID req \<noteq> []"
    and "cxPeerCert anon = None" and "cxPeerCert owner = Some c" and "certCN c = iqNodeID req"
  shows "IssueNodeCertificate lib rand_id rand now link remote anon s req =
         IssueNodeCertificate lib rand_id rand now link remote owner s req"
proof -
  have "issue_subject rand_id anon r cl csr req = issue_subject rand_id owner r cl csr req" for r cl csr
    using assms by (simp add: issue_subject_def peerCertificate_def requireNodeOrManagerPeer_def)
  then show ?thesis
    by (simp only: IssueNodeCertificate_def)
qed

section \<open>A concrete authority\<close>

text \<open>
  A toy library for the witnesses: it signs worker certificates with one validity, whose encoding
  is the subject's common name.
\<close>

definition demo_cert :: "string \<Rightarrow> x509_cert" where
  "demo_cert der = \<lparr>xcSubject = \<lparr>certCN = der, certOUs = [role_OU RoleWorker]\<rparr>, xcNotBefore = 0,
     xcNotAfter = 3900 * second, xcRaw = der\<rparr>"

definition demo_lib :: x509_lib where
  "demo_lib =
     \<lparr>xPemDecode = (\<lambda>s. Some (''CERTIFICATE'', s)), xPemEncode = (\<lambda>_ s. s), xParseCertificate = (\<lambda>s. Inr (demo_cert s)),
      xParseECKey = Inr, xParsePKCS8 = (\<lambda>_. Inr OtherPrivate),
      xParseRequest = (\<lambda>_. Inr \<lparr>csCN = [], csPublicKey = EcdsaKey True ''k''\<rparr>), xCheckSignature = (\<lambda>_. None),
      xMarshalPKIX = (\<lambda>_. Inr ''k''), xMarshalECKey = Inr, xSelfSign = (\<lambda>_ _. Inr ''root''),
      xSign = (\<lambda>t _ _. if tmOUs t = [role_OU RoleWorker] \<and> tmNotBefore t = 0 \<and> tmNotAfter t = 3900 * second
                       then Inr (tmCN t) else Inl (errorf ''refused'')),
      xSha256 = (\<lambda>s. s)\<rparr>"

lemma demo_lib_signs: "signs_templates demo_lib"
  by (simp add: signs_templates_def demo_lib_def reads_back_def demo_cert_def second_def)

definition demo_cluster :: cluster where
  "demo_cluster = zero_cluster\<lparr>clCertValidity := hour,
     clRootCA := zero_material\<lparr>rcCACertHash := ''ab12'', rcJoinSecrets := \<lparr>secWorker = ''00aa'', secManager = ''77ff''\<rparr>\<rparr>\<rparr>"

definition demo_member :: node where
  "demo_member = zero_node\<lparr>nID := ''n1'', nRole := RoleWorker, nMembership := MembershipAccepted\<rparr>"

definition demo_ca :: ca_server where
  "demo_ca = \<lparr>caRaft = demo_raft True (NewFSM\<lparr>fsCluster := Some demo_cluster, fsNodes := [(''n1'', demo_member)]\<rparr>),
     caRoot = None, caReady = False\<rparr>"

definition demo_join_call :: issue_call where
  "demo_join_call = \<lparr>iqCsr = ''csr'', iqToken = ''CLLRN-1-ab12-00aa'', iqNodeID = []\<rparr>"

definition demo_renew_call :: issue_call where
  "demo_renew_call = \<lparr>iqCsr = ''csr'', iqToken = [], iqNodeID = ''n1''\<rparr>"

definition demo_issue :: "rpc_context \<Rightarrow> issue_call \<Rightarrow> ca_server \<times> issue_reply result" where
  "demo_issue ctx = IssueNodeCertificate demo_lib (Inr ''k'') (Inr 7) (300 * second) \<lparr>lkHost = None, lkDial = (\<lambda>_. Inr ())\<rparr> (\<lambda>_. Inl ErrNotLeader) ctx demo_ca"

definition demo_owner :: rpc_context where
  "demo_owner = \<lparr>cxInternal = False, cxPeerCert = Some \<lparr>certCN = ''n1'', certOUs = [role_OU RoleWorker]\<rparr>\<rparr>"

lemma demo_ca_simps:
  "IsLeader (caRaft demo_ca)" "GetCluster (caRaft demo_ca) = Inr demo_cluster"
  "node_table (caRaft demo_ca) ''n1'' = Some demo_member"
  by (simp_all add: demo_ca_def demo_raft_def IsLeader_def GetCluster_def getCluster_def demo_cluster_def zero_cluster_def
      zero_material_def copy_cluster_def)

lemma demo_ca_keyed: "fsm_keyed (rnFsm (caRaft demo_ca))"
  by (simp add: demo_ca_def demo_raft_def NewFSM_def fsm_keyed_def keyed_def gm_wf_def demo_member_def zero_node_def)

lemma demo_warm: "\<exists>s1 root. warm_root load s = (s1, Inr root) \<and> caRaft s1 = caRaft s" if
  "caReady s = False" and "GetCluster (caRaft s) = Inr c" and "\<exists>r. cluster_LoadRootCA load (Some c) = Inr r" for s
  using that by (auto simp: warm_root_def signingRoot_def UpdateRootCA_def)

lemma demo_issue_answers:
  assumes "issue_subject (Inr ''k'') ctx (caRaft demo_ca) demo_cluster \<lparr>csCN = [], csPublicKey = EcdsaKey True ''k''\<rparr> req =
      Inr (i, RoleWorker, old)" and "i \<noteq> []" and "iqCsr req \<noteq> []"
  shows "\<exists>s' resp. demo_issue ctx req = (s', Inr resp)"
proof -
  have "\<exists>r. cluster_LoadRootCA (LoadRootCA demo_lib) (Some demo_cluster) = Inr r"
    by (simp add: cluster_LoadRootCA_def LoadRootCA_def demo_lib_def Let_def)
  then obtain s1 root where w: "warm_root (LoadRootCA demo_lib) demo_ca = (s1, Inr root)" "caRaft s1 = caRaft demo_ca"
    using demo_warm [of demo_ca demo_cluster "LoadRootCA demo_lib"] demo_ca_simps(2) by (auto simp: demo_ca_def)
  have "ParseCSR demo_lib (iqCsr req) = Inr \<lparr>csCN = [], csPublicKey = EcdsaKey True ''k''\<rparr>"
    by (simp add: ParseCSR_def demo_lib_def)
  moreover have "PublicKeyFingerprint demo_lib (EcdsaKey True ''k'') = Inr (hex_encode ''k'')"
    by (simp add: PublicKeyFingerprint_def demo_lib_def)
  moreover have "SignNodeCSR demo_lib (Inr 7) (300 * second) root
      \<lparr>irCSR = Some \<lparr>csCN = [], csPublicKey = EcdsaKey True ''k''\<rparr>, irNodeID = i, irRole = RoleWorker,
       irValidity = clCertValidity demo_cluster\<rparr> = Inr \<lparr>isCert = demo_cert i, isCertPEM = i\<rparr>"
    using assms(2) by (simp add: SignNodeCSR_def demo_lib_def randomSerial_def node_template_def demo_cluster_def time_unit_defs)
  moreover have "snd (SaveNode load (caRaft demo_ca) (Some n)) = None" if "nID n = i" for n load
    using that assms(2) by (simp add: SaveNode_def leader_simps IsLeader_def store_apply_def fsm_step_def demo_ca_def
        demo_raft_def Apply_ops applySaveNode_def payload_defs case_prod_beta)
  ultimately show ?thesis
    using w assms demo_ca_simps(1,2)
    by (simp add: demo_issue_def IssueNodeCertificate_def case_prod_beta)
qed


lemma demo_renew_answers:
  "requireNodeOrManagerPeer (peerCertificate ctx) ''n1'' = None \<or> peerCertificate ctx = None \<Longrightarrow>
     \<exists>s' resp. demo_issue ctx demo_renew_call = (s', Inr resp)"
  by (rule demo_issue_answers [where i = "''n1''" and old = "Some demo_member"])
    (auto simp: issue_subject_def demo_renew_call_def GetNode_table demo_ca_simps(3) demo_member_def zero_node_def clone_node_def)


theorem renewal_needs_no_certificate_witness:
  "\<exists>s' resp. demo_issue \<lparr>cxInternal = False, cxPeerCert = None\<rparr> demo_renew_call = (s', Inr resp) \<and>
     demo_issue \<lparr>cxInternal = False, cxPeerCert = None\<rparr> demo_renew_call = demo_issue demo_owner demo_renew_call"
proof -
  have "demo_issue \<lparr>cxInternal = False, cxPeerCert = None\<rparr> demo_renew_call = demo_issue demo_owner demo_renew_call"
    unfolding demo_issue_def
    by (rule renewal_needs_no_certificate [where c = "\<lparr>certCN = ''n1'', certOUs = [role_OU RoleWorker]\<rparr>"])
      (simp_all add: demo_ca_simps(1) demo_renew_call_def demo_owner_def)
  then show ?thesis
    using demo_renew_answers [of "\<lparr>cxInternal = False, cxPeerCert = None\<rparr>"] by (auto simp: peerCertificate_def)
qed

section \<open>Leaving\<close>

text \<open>The errors of the Raft library are not the store's \<open>ErrNodeNotFound\<close>.\<close>

definition foreign_outcome :: "raft_outcome \<Rightarrow> bool" where
  "foreign_outcome oc = (case oc of Committed \<Rightarrow> True | CommittedLost e \<Rightarrow> \<not> error_is e ErrNodeNotFound
     | Refused e \<Rightarrow> \<not> error_is e ErrNodeNotFound)"

lemma store_apply_outcomes: "set (rnOutcomes (fst (store_apply load s d))) \<subseteq> set (rnOutcomes s)"
  by (auto simp: store_apply_def fsm_step_def case_prod_beta Let_def split: list.splits raft_outcome.splits)

lemma DeletePeer_ok:
  assumes "DeletePeer load s i = (s', None)"
  shows "node_table s' = node_table s \<and> gm_get (fsPeers (rnFsm s')) i = None \<and> set (rnOutcomes s') \<subseteq> set (rnOutcomes s)"
proof -
  let ?d = "encodeCommand opDeletePeer (no_fields\<lparr>jID := Given i\<rparr>)"
  from assms have s': "store_apply load s ?d = (s', None)" "i \<noteq> []"
    by (auto simp: DeletePeer_def leader_simps split: if_splits)
  then have "rnFsm s' = fst (applyDeletePeer (rnFsm s) (Object (no_fields\<lparr>jID := Given i\<rparr>)))"
    using store_apply_ok [of load s ?d] by (simp add: Apply_ops)
  moreover have "set (rnOutcomes s') \<subseteq> set (rnOutcomes s)"
    using store_apply_outcomes [of load s ?d] s'(1) by simp
  ultimately show ?thesis
    using s'(2) by (auto simp: applyDeletePeer_def payload_defs)
qed

lemma DeletePeer_leader: "DeletePeer load s i = (s', None) \<Longrightarrow> IsLeader s'"
  using store_apply_keeps [of load s] by (auto simp: DeletePeer_def leader_simps IsLeader_def dest!: arg_cong [where f = fst] split: if_splits)

lemma DeleteNode_gone:
  assumes "DeleteNode load s i = (s', e)" and "e = None \<or> (\<exists>err. e = Some err \<and> error_is err ErrNodeNotFound)"
    and "IsLeader s" and "i \<noteq> []" and "\<forall>oc \<in> set (rnOutcomes s). foreign_outcome oc"
  shows "node_table s' = (node_table s)(i := None) \<and> fsPeers (rnFsm s') = fsPeers (rnFsm s)"
proof -
  let ?d = "encodeCommand opDeleteNode (no_fields\<lparr>jID := Given i\<rparr>)"
  let ?A = "applyDeleteNode (rnFsm s) (Object (no_fields\<lparr>jID := Given i\<rparr>))"
  have "store_apply load s ?d = (s', e)"
    using assms(1,3,4) by (simp add: DeleteNode_def leader_simps)
  with assms(2,5) have "rnFsm s' = fst ?A \<and> e = snd ?A"
    by (auto simp: store_apply_def fsm_step_def Apply_ops case_prod_beta foreign_outcome_def
        split: list.splits raft_outcome.splits)
  moreover have "gm_get (fsNodes (fst ?A)) = (gm_get (fsNodes (rnFsm s)))(i := None) \<and> fsPeers (fst ?A) = fsPeers (rnFsm s)"
    using assms(4) by (auto simp: applyDeleteNode_def payload_defs delete_conv' gm_has_def fun_eq_iff)
  ultimately show ?thesis by simp
qed

text \<open>
  A node leaves only by its own certificate or a manager's, and then for good: a
  \<open>Leave\<close> that succeeds was asked by one of these, of the leader, and afterwards neither the
  node table nor the peer list has the node, while every other node record is as before.
\<close>

theorem Leave_removes_node:
  assumes "ca_Leave load None ctx s i = (s', Inr ())"
    and "\<forall>oc \<in> set (rnOutcomes (caRaft s)). foreign_outcome oc"
  shows "IsLeader (caRaft s) \<and> (\<exists>c. cxPeerCert ctx = Some c \<and> (certCN c = i \<or> manager_cert c)) \<and>
    node_table (caRaft s') = (node_table (caRaft s))(i := None) \<and> gm_get (fsPeers (rnFsm (caRaft s'))) i = None"
proof -
  define r1 where "r1 = (if IsVoter (caRaft s) i then fst (RemoveServer (caRaft s) i) else caRaft s)"
  have r1: "rnFsm r1 = rnFsm (caRaft s)" "rnOutcomes r1 = rnOutcomes (caRaft s)"
    by (simp_all add: r1_def)
  from assms(1) obtain r2 e where run: "DeletePeer load r1 i = (r2, None)" "DeleteNode load r2 i = (caRaft s', e)"
    "e = None \<or> (\<exists>err. e = Some err \<and> error_is err ErrNodeNotFound)" "i \<noteq> []" "IsLeader (caRaft s)"
    "requireSelfOrManagerPeer ctx i = None"
    by (auto simp: ca_Leave_def r1_def handler_requireLeader_def split: option.splits prod.splits if_splits)
  note peer = DeletePeer_ok [OF run(1)]
  have "IsLeader r2"
    using run(1) DeletePeer_leader by blast
  then have "node_table (caRaft s') = (node_table r2)(i := None) \<and> fsPeers (rnFsm (caRaft s')) = fsPeers (rnFsm r2)"
    using assms(2) peer r1(2) run by (intro DeleteNode_gone [OF run(2)]) auto
  with peer r1 run(5,6) show ?thesis
    by (simp add: requireSelfOrManagerPeer_None)
qed

lemma demo_leaves: "\<exists>s'. ca_Leave load None demo_owner demo_ca ''n1'' = (s', Inr ())"
  by (simp add: ca_Leave_def handler_requireLeader_def demo_ca_simps(1) requireSelfOrManagerPeer_def peerCertificate_def
      demo_owner_def IsVoter_def DeletePeer_def DeleteNode_def leader_simps IsLeader_def store_apply_def fsm_step_def
      demo_ca_def demo_raft_def Apply_ops applyDeletePeer_def applyDeleteNode_def payload_defs gm_has_def)

theorem Leave_removes_node_witness:
  "\<exists>s' :: ca_server. ca_Leave (\<lambda>_ _. Inl ErrNotLeader) None demo_owner demo_ca ''n1'' = (s', Inr ()) \<and>
     node_table (caRaft s') ''n1'' = None"
proof -
  obtain s' where run: "ca_Leave (\<lambda>_ _. Inl ErrNotLeader) None demo_owner demo_ca ''n1'' = (s', Inr ())"
    using demo_leaves by blast
  have "rnOutcomes (caRaft demo_ca) = []"
    by (simp add: demo_ca_def demo_raft_def)
  with Leave_removes_node [OF run] run show ?thesis by simp
qed

end
