(* ===== verification/Placement.thy ===== *)
theory Placement
  imports Sandbox_Record
begin

text \<open>
  \<open>internal/scheduler/scheduler.go\<close> and \<open>quarantine.go\<close>: which node a sandbox is placed on,
  when a node counts as live or evictable, and the hold-off of recently evacuated nodes. The
  placement interface the evacuation planner and the control plane rely on is the locale
  \<open>placement\<close>, interpreted on \<open>SelectNodeOpts\<close>; the hold-off refines a countdown.
\<close>

section \<open>Heartbeat windows\<close>

definition HeartbeatStaleAfter :: duration where "HeartbeatStaleAfter = 30 * second"
definition HeartbeatEvictAfter :: duration where "HeartbeatEvictAfter = 60 * second"
definition QuarantineHeartbeats :: nat where "QuarantineHeartbeats = 3"

definition IsNodeLive :: "node \<Rightarrow> gotime \<Rightarrow> bool" where
  "IsNodeLive n now =
     (if is_zero_time (nHeartbeatAt n) then False
      else time_sub now (nHeartbeatAt n) \<le> HeartbeatStaleAfter)"

definition IsNodeEvictable :: "node \<Rightarrow> gotime \<Rightarrow> bool" where
  "IsNodeEvictable n now =
     (if nMembership n \<noteq> MembershipAccepted then False
      else if is_zero_time (nHeartbeatAt n) then False
      else time_sub now (nHeartbeatAt n) > HeartbeatEvictAfter)"

lemma live_window: "IsNodeLive n now \<longleftrightarrow> \<not> is_zero_time (nHeartbeatAt n) \<and> now \<le> nHeartbeatAt n + HeartbeatStaleAfter"
  by (simp add: IsNodeLive_def HeartbeatStaleAfter_def second_def time_sub_le max_int64_def)

lemma evict_window:
  "IsNodeEvictable n now \<longleftrightarrow> nMembership n = MembershipAccepted \<and> \<not> is_zero_time (nHeartbeatAt n) \<and>
     nHeartbeatAt n + HeartbeatEvictAfter < now"
  by (simp add: IsNodeEvictable_def HeartbeatEvictAfter_def second_def time_sub_gr max_int64_def)

lemma live_not_evictable: "IsNodeLive n now \<Longrightarrow> \<not> IsNodeEvictable n now"
  by (simp add: live_window evict_window HeartbeatStaleAfter_def HeartbeatEvictAfter_def second_def)

section \<open>Selecting a node\<close>

text \<open>The keys of a \<open>map[string]struct{}\<close> of excluded node ids.\<close>

type_synonym id_set = "string list"

definition candidate :: "id_set \<Rightarrow> node \<Rightarrow> bool" where
  "candidate exclude n \<longleftrightarrow>
     \<not> (nID n = [] \<or> nMembership n \<noteq> MembershipAccepted) \<and> Schedulable (nAvailability n) \<and>
     nID n \<notin> set exclude"

fun count_sandboxes :: "(string, int) gomap \<Rightarrow> sandbox list \<Rightarrow> (string, int) gomap" where
  "count_sandboxes counts [] = counts"
| "count_sandboxes counts (sb # sbs) =
     (if sbNodeID sb = [] then count_sandboxes counts sbs
      else if sbDesired sb = DesiredRemoved then count_sandboxes counts sbs
      else count_sandboxes (gm_put (sbNodeID sb)
             ((case gm_get counts (sbNodeID sb) of None \<Rightarrow> 0 | Some c \<Rightarrow> c) + 1) counts) sbs)"

definition count_of :: "(string, int) gomap \<Rightarrow> string \<Rightarrow> int" where
  "count_of counts nid = (case gm_get counts nid of None \<Rightarrow> 0 | Some c \<Rightarrow> c)"

record pick =
  pkLive :: string
  pkLiveCount :: int
  pkAny :: string
  pkAnyCount :: int

definition select_step :: "(string, int) gomap \<Rightarrow> gotime \<Rightarrow> id_set \<Rightarrow> pick \<Rightarrow> node \<Rightarrow> pick" where
  "select_step counts now exclude p n =
     (if \<not> candidate exclude n then p
      else
       (let c = count_of counts (nID n);
            p = (if c < pkAnyCount p then p\<lparr>pkAnyCount := c, pkAny := nID n\<rparr> else p)
        in if is_zero_time (nHeartbeatAt n) then p
           else if time_sub now (nHeartbeatAt n) > HeartbeatStaleAfter then p
           else if c < pkLiveCount p then p\<lparr>pkLiveCount := c, pkLive := nID n\<rparr>
           else p))"

definition SelectNodeOpts :: "node list \<Rightarrow> sandbox list \<Rightarrow> gotime \<Rightarrow> id_set \<Rightarrow> string" where
  "SelectNodeOpts nodes sandboxes now exclude =
     (let counts = count_sandboxes [] sandboxes;
          p = foldl (select_step counts now exclude)
                \<lparr>pkLive = [], pkLiveCount = max_int64, pkAny = [], pkAnyCount = max_int64\<rparr> nodes
      in if pkLive p \<noteq> [] then pkLive p else pkAny p)"

definition SelectNode :: "node list \<Rightarrow> sandbox list \<Rightarrow> gotime \<Rightarrow> string" where
  "SelectNode nodes sandboxes now = SelectNodeOpts nodes sandboxes now []"

fun HasLiveSchedulableNode :: "node list \<Rightarrow> gotime \<Rightarrow> id_set \<Rightarrow> bool" where
  "HasLiveSchedulableNode [] now exclude = False"
| "HasLiveSchedulableNode (n # ns) now exclude =
     (if \<not> candidate exclude n then HasLiveSchedulableNode ns now exclude
      else if IsNodeLive n now then True
      else HasLiveSchedulableNode ns now exclude)"

lemma HasLive_iff: "HasLiveSchedulableNode ns now ex \<longleftrightarrow> (\<exists>n \<in> set ns. candidate ex n \<and> IsNodeLive n now)"
  by (induction ns) auto

subsection \<open>The load of a node\<close>

definition counts_on :: "string \<Rightarrow> sandbox \<Rightarrow> bool" where
  "counts_on nid sb \<longleftrightarrow> sbNodeID sb = nid \<and> nid \<noteq> [] \<and> sbDesired sb \<noteq> DesiredRemoved"

definition node_load :: "sandbox list \<Rightarrow> string \<Rightarrow> int" where
  "node_load sbs nid = int (length (filter (counts_on nid) sbs))"

lemma count_sandboxes_load:
  "count_of (count_sandboxes counts sbs) nid = count_of counts nid + node_load sbs nid"
proof (induction counts sbs rule: count_sandboxes.induct)
  case (1 counts)
  then show ?case by (simp add: node_load_def)
next
  case (2 counts sb sbs)
  then show ?case
    by (auto simp: node_load_def counts_on_def count_of_def)
qed

lemma count_of_load [simp]: "count_of (count_sandboxes [] sbs) nid = node_load sbs nid"
  by (simp add: count_sandboxes_load) (simp add: count_of_def)

lemma node_load_le: "node_load sbs nid \<le> int (length sbs)"
  by (simp add: node_load_def)

subsection \<open>What the loop computes\<close>

text \<open>A running minimum: nothing seen below the bound yet, or the first least element seen.\<close>

definition least_so_far :: "(node \<Rightarrow> int) \<Rightarrow> node set \<Rightarrow> string \<Rightarrow> int \<Rightarrow> bool" where
  "least_so_far f S best c \<longleftrightarrow>
     (best = [] \<and> c = max_int64 \<and> (\<forall>m \<in> S. max_int64 \<le> f m)) \<or>
     (\<exists>n \<in> S. best = nID n \<and> c = f n \<and> (\<forall>m \<in> S. f n \<le> f m))"

lemma least_so_far_insert:
  assumes "least_so_far f S best c"
  shows "least_so_far f (insert n S) (if f n < c then nID n else best) (if f n < c then f n else c)"
proof (cases "f n < c")
  case True
  have "\<forall>m \<in> S. f n \<le> f m"
    using assms True by (auto simp: least_so_far_def intro: order.trans [OF less_imp_le])
  with True show ?thesis
    by (simp add: least_so_far_def)
next
  case False
  with assms show ?thesis
    by (auto simp: least_so_far_def)
qed

definition fresh_candidate :: "gotime \<Rightarrow> id_set \<Rightarrow> node \<Rightarrow> bool" where
  "fresh_candidate now ex n \<longleftrightarrow> candidate ex n \<and> IsNodeLive n now"

definition picks_least :: "sandbox list \<Rightarrow> gotime \<Rightarrow> id_set \<Rightarrow> node set \<Rightarrow> pick \<Rightarrow> bool" where
  "picks_least sbs now ex S p \<longleftrightarrow>
     least_so_far (\<lambda>n. node_load sbs (nID n)) {n \<in> S. candidate ex n} (pkAny p) (pkAnyCount p) \<and>
     least_so_far (\<lambda>n. node_load sbs (nID n)) {n \<in> S. fresh_candidate now ex n} (pkLive p) (pkLiveCount p)"

lemma Collect_insert: "{x \<in> insert n S. P x} = (if P n then insert n {x \<in> S. P x} else {x \<in> S. P x})"
  by auto

lemma select_step_skip: "\<not> candidate ex n \<Longrightarrow> select_step counts now ex p n = p"
  by (simp add: select_step_def)

lemma select_step_fields:
  fixes sbs :: "sandbox list" and now :: gotime and p :: pick
  assumes "candidate ex n"
  defines "c \<equiv> node_load sbs (nID n)" and "q \<equiv> select_step (count_sandboxes [] sbs) now ex p n"
  shows "pkAny q = (if c < pkAnyCount p then nID n else pkAny p)"
    and "pkAnyCount q = (if c < pkAnyCount p then c else pkAnyCount p)"
    and "pkLive q = (if fresh_candidate now ex n then if c < pkLiveCount p then nID n else pkLive p else pkLive p)"
    and "pkLiveCount q = (if fresh_candidate now ex n then if c < pkLiveCount p then c else pkLiveCount p else pkLiveCount p)"
  using assms(1)
  by (simp_all add: q_def c_def select_step_def Let_def fresh_candidate_def IsNodeLive_def)

lemma select_step_least:
  assumes "picks_least sbs now ex S p"
  shows "picks_least sbs now ex (insert n S) (select_step (count_sandboxes [] sbs) now ex p n)"
proof (cases "candidate ex n")
  case False
  then have "{m \<in> insert n S. candidate ex m} = {m \<in> S. candidate ex m}"
    "{m \<in> insert n S. fresh_candidate now ex m} = {m \<in> S. fresh_candidate now ex m}"
    by (auto simp: fresh_candidate_def)
  with assms False show ?thesis
    by (simp add: picks_least_def select_step_skip)
next
  case True
  have cand: "{m \<in> insert n S. candidate ex m} = insert n {m \<in> S. candidate ex m}"
    using True by auto
  have live: "{m \<in> insert n S. fresh_candidate now ex m} =
      (if fresh_candidate now ex n then insert n {m \<in> S. fresh_candidate now ex m} else {m \<in> S. fresh_candidate now ex m})"
    by auto
  from assms have
    "least_so_far (\<lambda>n. node_load sbs (nID n)) {m \<in> S. candidate ex m} (pkAny p) (pkAnyCount p)"
    "least_so_far (\<lambda>n. node_load sbs (nID n)) {m \<in> S. fresh_candidate now ex m} (pkLive p) (pkLiveCount p)"
    by (simp_all add: picks_least_def)
  from this(2) least_so_far_insert [OF this(1), of n] least_so_far_insert [OF this(2), of n]
  show ?thesis
    unfolding picks_least_def cand live select_step_fields [OF True]
    by (auto simp only: split: if_splits)
qed

lemma select_fold_least:
  "picks_least sbs now ex S p \<Longrightarrow>
     picks_least sbs now ex (S \<union> set ns) (foldl (select_step (count_sandboxes [] sbs) now ex) p ns)"
proof (induction ns arbitrary: S p)
  case Nil
  then show ?case by simp
next
  case (Cons n ns)
  from Cons.IH [OF select_step_least [OF Cons.prems, of n]] show ?case
    by simp
qed

definition least_loaded :: "sandbox list \<Rightarrow> node set \<Rightarrow> string \<Rightarrow> bool" where
  "least_loaded sbs S r \<longleftrightarrow> (\<exists>n \<in> S. r = nID n \<and> (\<forall>m \<in> S. node_load sbs (nID n) \<le> node_load sbs (nID m)))"

lemma least_so_far_final:
  assumes "least_so_far (\<lambda>n. node_load sbs (nID n)) S best c" and "int (length sbs) < max_int64"
  shows "(best = [] \<and> S = {}) \<or> least_loaded sbs S best"
proof -
  have "node_load sbs nid < max_int64" for nid
    using node_load_le [of sbs nid] assms(2) by linarith
  then have "S = {}" if "\<forall>m \<in> S. max_int64 \<le> node_load sbs (nID m)"
    using that by (meson all_not_in_conv linorder_not_le)
  with assms(1) show ?thesis
    by (auto simp: least_so_far_def least_loaded_def)
qed

definition candidates :: "node list \<Rightarrow> id_set \<Rightarrow> node set" where
  "candidates ns ex = {n \<in> set ns. candidate ex n}"

definition live_candidates :: "node list \<Rightarrow> gotime \<Rightarrow> id_set \<Rightarrow> node set" where
  "live_candidates ns now ex = {n \<in> set ns. fresh_candidate now ex n}"

lemma candidate_ID: "candidate ex n \<Longrightarrow> nID n \<noteq> []"
  by (simp add: candidate_def)

lemma SelectNodeOpts_least:
  assumes "int (length sbs) < max_int64"
  shows "if live_candidates ns now ex \<noteq> {}
         then least_loaded sbs (live_candidates ns now ex) (SelectNodeOpts ns sbs now ex)
         else if candidates ns ex \<noteq> {} then least_loaded sbs (candidates ns ex) (SelectNodeOpts ns sbs now ex)
         else SelectNodeOpts ns sbs now ex = []"
proof -
  define p where "p = foldl (select_step (count_sandboxes [] sbs) now ex)
      \<lparr>pkLive = [], pkLiveCount = max_int64, pkAny = [], pkAnyCount = max_int64\<rparr> ns"
  have "picks_least sbs now ex {} \<lparr>pkLive = [], pkLiveCount = max_int64, pkAny = [], pkAnyCount = max_int64\<rparr>"
    by (simp add: picks_least_def least_so_far_def)
  from select_fold_least [OF this, of ns] have "picks_least sbs now ex (set ns) p"
    by (simp add: p_def)
  then have any_least: "least_so_far (\<lambda>n. node_load sbs (nID n)) {n \<in> set ns. candidate ex n} (pkAny p) (pkAnyCount p)"
    and live_least: "least_so_far (\<lambda>n. node_load sbs (nID n)) {n \<in> set ns. fresh_candidate now ex n} (pkLive p) (pkLiveCount p)"
    by (simp_all add: picks_least_def)
  have any: "(pkAny p = [] \<and> {n \<in> set ns. candidate ex n} = {}) \<or> least_loaded sbs {n \<in> set ns. candidate ex n} (pkAny p)"
    and live: "(pkLive p = [] \<and> {n \<in> set ns. fresh_candidate now ex n} = {}) \<or>
      least_loaded sbs {n \<in> set ns. fresh_candidate now ex n} (pkLive p)"
    by (rule least_so_far_final [OF any_least assms]) (rule least_so_far_final [OF live_least assms])
  have ne: "least_loaded sbs {n \<in> set ns. fresh_candidate now ex n} r \<Longrightarrow> r \<noteq> []" for r
    by (auto simp: least_loaded_def fresh_candidate_def candidate_ID)
  have res: "SelectNodeOpts ns sbs now ex = (if pkLive p \<noteq> [] then pkLive p else pkAny p)"
    by (simp add: SelectNodeOpts_def p_def Let_def)
  show ?thesis
    unfolding res live_candidates_def candidates_def using any live ne
    by (auto simp: least_loaded_def)
qed

text \<open>
  Placement spreads: the chosen node is a least-loaded one among the accepted,
  schedulable, not excluded nodes with a fresh heartbeat; only when no such node is live is it
  a least-loaded candidate without a fresh heartbeat, and only when there is no candidate at
  all is nothing chosen. The load is the number of assigned sandboxes not desired removed.
\<close>

theorem SelectNodeOpts_spread:
  assumes "int (length sbs) < max_int64"
  shows "if live_candidates ns now ex \<noteq> {}
         then least_loaded sbs (live_candidates ns now ex) (SelectNodeOpts ns sbs now ex)
         else if candidates ns ex \<noteq> {} then least_loaded sbs (candidates ns ex) (SelectNodeOpts ns sbs now ex)
         else SelectNodeOpts ns sbs now ex = []"
  using assms by (rule SelectNodeOpts_least)

definition demo_node :: "string \<Rightarrow> gotime \<Rightarrow> node" where
  "demo_node i hb = zero_node\<lparr>nID := i, nRole := RoleWorker, nMembership := MembershipAccepted, nHeartbeatAt := hb\<rparr>"

lemma demo_node_simps [simp]:
  "nID (demo_node i hb) = i" "nMembership (demo_node i hb) = MembershipAccepted"
  "nAvailability (demo_node i hb) = []" "nHeartbeatAt (demo_node i hb) = hb" "nRole (demo_node i hb) = RoleWorker"
  "nLabels (demo_node i hb) = []"
  by (simp_all add: demo_node_def zero_node_def)

lemma demo_node_candidate [simp]: "candidate ex (demo_node i hb) \<longleftrightarrow> i \<noteq> [] \<and> i \<notin> set ex"
  by (simp add: candidate_def Schedulable_def Effective_def)

theorem SelectNodeOpts_spread_witness:
  "SelectNodeOpts [demo_node ''n1'' (100 * second), demo_node ''n2'' (100 * second)] [demo_sandbox] (110 * second) [] = ''n2''"
proof -
  let ?ns = "[demo_node ''n1'' (100 * second), demo_node ''n2'' (100 * second)]"
  have live: "live_candidates ?ns (110 * second) [] = set ?ns"
    by (auto simp: live_candidates_def fresh_candidate_def IsNodeLive_def is_zero_time_def zero_time_def second_def HeartbeatStaleAfter_def
        time_sub_def min_int64_def max_int64_def)
  have load: "node_load [demo_sandbox] ''n1'' = 1" "node_load [demo_sandbox] ''n2'' = 0"
    by (simp_all add: node_load_def counts_on_def demo_sandbox_def)
  have "least_loaded [demo_sandbox] (set ?ns) (SelectNodeOpts ?ns [demo_sandbox] (110 * second) [])"
    using SelectNodeOpts_spread [of "[demo_sandbox]" ?ns "110 * second" "[]"]
    unfolding live by (simp add: max_int64_def)
  then show ?thesis
    by (auto simp: least_loaded_def load)
qed

section \<open>The placement interface\<close>

text \<open>
  What the evacuation planner and the create handlers rely on: the answer is empty or the id
  of a candidate, and with a live candidate present it is a live one.
\<close>

locale placement =
  fixes select :: "node list \<Rightarrow> sandbox list \<Rightarrow> gotime \<Rightarrow> id_set \<Rightarrow> string"
    and has_live :: "node list \<Rightarrow> gotime \<Rightarrow> id_set \<Rightarrow> bool"
  assumes select_candidate: "select ns sbs now ex \<noteq> [] \<Longrightarrow>
      \<exists>n \<in> set ns. nID n = select ns sbs now ex \<and> candidate ex n"
    and select_live: "has_live ns now ex \<Longrightarrow> int (length sbs) < max_int64 \<Longrightarrow>
      \<exists>n \<in> set ns. nID n = select ns sbs now ex \<and> candidate ex n \<and> IsNodeLive n now"
begin

lemma select_not_excluded: "x \<in> set ex \<Longrightarrow> x \<noteq> [] \<Longrightarrow> select ns sbs now ex \<noteq> x"
  using select_candidate [of ns sbs now ex] by (auto simp: candidate_def)

lemma select_schedulable:
  "select ns sbs now ex \<noteq> [] \<Longrightarrow> \<exists>n \<in> set ns. nID n = select ns sbs now ex \<and>
     nMembership n = MembershipAccepted \<and> Schedulable (nAvailability n)"
  using select_candidate [of ns sbs now ex] by (auto simp: candidate_def)

lemma select_live_target:
  assumes "has_live ns now ex" and "int (length sbs) < max_int64"
  shows "select ns sbs now ex \<noteq> [] \<and> select ns sbs now ex \<notin> set ex"
  using select_live [OF assms] by (auto simp: candidate_def)

lemma select_unique_node:
  assumes "has_live ns now ex" and "int (length sbs) < max_int64" and "distinct (map nID ns)"
    and "n \<in> set ns" and "nID n = select ns sbs now ex"
  shows "candidate ex n \<and> IsNodeLive n now \<and> \<not> IsNodeEvictable n now"
proof -
  obtain m where "m \<in> set ns" "nID m = select ns sbs now ex" "candidate ex m" "IsNodeLive m now"
    using select_live [OF assms(1,2)] by blast
  with assms(3-5) show ?thesis
    by (metis distinct_map inj_on_contraD live_not_evictable)
qed

end

lemma SelectNodeOpts_candidate:
  assumes "SelectNodeOpts ns sbs now ex \<noteq> []"
  shows "\<exists>n \<in> set ns. nID n = SelectNodeOpts ns sbs now ex \<and> candidate ex n"
proof -
  define p where "p = foldl (select_step (count_sandboxes [] sbs) now ex)
      \<lparr>pkLive = [], pkLiveCount = max_int64, pkAny = [], pkAnyCount = max_int64\<rparr> ns"
  have "picks_least sbs now ex {} \<lparr>pkLive = [], pkLiveCount = max_int64, pkAny = [], pkAnyCount = max_int64\<rparr>"
    by (simp add: picks_least_def least_so_far_def)
  from select_fold_least [OF this, of ns] have "picks_least sbs now ex (set ns) p"
    by (simp add: p_def)
  moreover have "SelectNodeOpts ns sbs now ex = (if pkLive p \<noteq> [] then pkLive p else pkAny p)"
    by (simp add: SelectNodeOpts_def p_def Let_def)
  ultimately show ?thesis
    using assms by (auto simp: picks_least_def least_so_far_def fresh_candidate_def split: if_splits)
qed

interpretation nodes: placement SelectNodeOpts HasLiveSchedulableNode
proof
  show "\<exists>n \<in> set ns. nID n = SelectNodeOpts ns sbs now ex \<and> candidate ex n"
    if "SelectNodeOpts ns sbs now ex \<noteq> []" for ns sbs now ex
    using that by (rule SelectNodeOpts_candidate)
next
  fix ns now ex and sbs :: "sandbox list"
  assume "HasLiveSchedulableNode ns now ex" and len: "int (length sbs) < max_int64"
  then have "live_candidates ns now ex \<noteq> {}"
    by (auto simp: HasLive_iff live_candidates_def fresh_candidate_def)
  then have "least_loaded sbs (live_candidates ns now ex) (SelectNodeOpts ns sbs now ex)"
    using SelectNodeOpts_least [OF len, of ns now ex] by simp
  then show "\<exists>n \<in> set ns. nID n = SelectNodeOpts ns sbs now ex \<and> candidate ex n \<and> IsNodeLive n now"
    by (auto simp: least_loaded_def live_candidates_def fresh_candidate_def)
qed

section \<open>Quarantine\<close>

text \<open>The consecutive successful heartbeats of each quarantined node since its evacuation.\<close>

type_synonym quarantine = "(string, nat) gomap"

definition NewQuarantine :: quarantine where
  "NewQuarantine = []"

definition MarkEvicted :: "quarantine \<Rightarrow> string \<Rightarrow> quarantine" where
  "MarkEvicted q nodeID = (if nodeID = [] then q else gm_put nodeID 0 q)"

definition NoteHeartbeat :: "quarantine \<Rightarrow> string \<Rightarrow> quarantine" where
  "NoteHeartbeat q nodeID =
     (if nodeID = [] then q
      else case gm_get q nodeID of
        None \<Rightarrow> q
      | Some n \<Rightarrow>
          let n = n + 1 in
          if n \<ge> QuarantineHeartbeats then gm_del nodeID q else gm_put nodeID n q)"

definition Excluded :: "quarantine \<Rightarrow> id_set" where
  "Excluded q = map fst q"

definition Contains :: "quarantine \<Rightarrow> string \<Rightarrow> bool" where
  "Contains q nodeID = (if nodeID = [] then False else gm_has q nodeID)"

subsection \<open>The hold-off as a countdown\<close>

text \<open>
  The contract: each node has a number of heartbeats left to serve. Evacuating a node sets
  it, a heartbeat counts one down (stopping at 0), and the node is held exactly while some
  are left.
\<close>

locale countdown =
  fixes mark :: "'q \<Rightarrow> string \<Rightarrow> 'q" and note_beat :: "'q \<Rightarrow> string \<Rightarrow> 'q"
    and held :: "'q \<Rightarrow> string \<Rightarrow> bool" and left :: "'q \<Rightarrow> string \<Rightarrow> nat" and invar :: "'q \<Rightarrow> bool"
    and total :: nat
  assumes left_mark: "invar q \<Longrightarrow> n \<noteq> [] \<Longrightarrow> left (mark q n) m = (if m = n then total else left q m)"
    and left_beat: "invar q \<Longrightarrow> left (note_beat q n) m = (if m = n then left q m - 1 else left q m)"
    and held_left: "invar q \<Longrightarrow> held q n \<longleftrightarrow> 0 < left q n"
    and invar_mark: "invar q \<Longrightarrow> invar (mark q n)"
    and invar_beat: "invar q \<Longrightarrow> invar (note_beat q n)"
begin

lemma invar_beats: "invar q \<Longrightarrow> invar (foldl note_beat q ns)"
  by (induction ns arbitrary: q) (auto simp: invar_beat)

lemma left_beats: "invar q \<Longrightarrow> left (foldl note_beat q ns) m = left q m - count_list ns m"
  by (induction ns arbitrary: q) (auto simp: invar_beat left_beat)

lemma held_after_mark:
  assumes "invar q" and "n \<noteq> []"
  shows "held (foldl note_beat (mark q n) ns) n \<longleftrightarrow> count_list ns n < total"
  using assms by (auto simp: held_left invar_beats left_beats invar_mark left_mark)

end

definition quarantine_wf :: "quarantine \<Rightarrow> bool" where
  "quarantine_wf q \<longleftrightarrow> gm_wf q \<and> (\<forall>n c. gm_get q n = Some c \<longrightarrow> n \<noteq> [] \<and> c < QuarantineHeartbeats)"

definition beats_left :: "quarantine \<Rightarrow> string \<Rightarrow> nat" where
  "beats_left q n = (case gm_get q n of None \<Rightarrow> 0 | Some c \<Rightarrow> QuarantineHeartbeats - c)"

lemma quarantine_wf_new: "quarantine_wf NewQuarantine"
  by (simp add: quarantine_wf_def NewQuarantine_def)

lemma quarantine_wf_mark: "quarantine_wf q \<Longrightarrow> quarantine_wf (MarkEvicted q n)"
  by (auto simp: quarantine_wf_def MarkEvicted_def QuarantineHeartbeats_def split: if_splits)

lemma quarantine_wf_beat: "quarantine_wf q \<Longrightarrow> quarantine_wf (NoteHeartbeat q n)"
  by (auto simp: quarantine_wf_def NoteHeartbeat_def QuarantineHeartbeats_def Let_def
      split: option.splits if_splits)

interpretation holdoff: countdown MarkEvicted NoteHeartbeat Contains beats_left quarantine_wf QuarantineHeartbeats
proof
  fix q n m
  assume wf: "quarantine_wf q"
  show "beats_left (MarkEvicted q n) m = (if m = n then QuarantineHeartbeats else beats_left q m)" if "n \<noteq> []"
    using that by (simp add: beats_left_def MarkEvicted_def)
  show "beats_left (NoteHeartbeat q n) m = (if m = n then beats_left q m - 1 else beats_left q m)"
    using wf by (auto simp: beats_left_def NoteHeartbeat_def Let_def quarantine_wf_def split: option.splits)
  show "Contains q n \<longleftrightarrow> 0 < beats_left q n"
    using wf by (auto simp: Contains_def beats_left_def gm_has_def quarantine_wf_def split: option.splits)
qed (simp_all add: quarantine_wf_mark quarantine_wf_beat)

lemma Excluded_Contains:
  assumes "quarantine_wf q" shows "n \<in> set (Excluded q) \<longleftrightarrow> Contains q n"
proof -
  have "gm_get q [] = None"
    using assms by (cases "gm_get q []") (auto simp: quarantine_wf_def)
  then show ?thesis
    by (auto simp: Excluded_def Contains_def gm_has_def map_of_eq_None_iff)
qed

text \<open>
  An evacuated node is kept out of placement for exactly three heartbeats of its
  own: after \<open>MarkEvicted\<close>, whatever heartbeats of whatever nodes follow, the node is among
  the excluded ids if and only if fewer than three of them were its own.
\<close>

theorem quarantine_three_heartbeats:
  assumes "quarantine_wf q" and "n \<noteq> []"
  shows "n \<in> set (Excluded (foldl NoteHeartbeat (MarkEvicted q n) beats)) \<longleftrightarrow> count_list beats n < 3"
  using assms holdoff.held_after_mark [OF assms, of beats]
  by (simp add: Excluded_Contains holdoff.invar_beats quarantine_wf_mark) (simp add: QuarantineHeartbeats_def)

theorem quarantine_three_heartbeats_witness:
  "''n1'' \<in> set (Excluded (foldl NoteHeartbeat (MarkEvicted NewQuarantine ''n1'') [''n1'', ''n2'', ''n1'']))"
  using quarantine_three_heartbeats [OF quarantine_wf_new, of "''n1''" "[''n1'', ''n2'', ''n1'']"] by simp

end
