(* ===== verification/Vacate.thy ===== *)
theory Vacate
  imports Placement
begin

text \<open>
  \<open>internal/scheduler/evict.go\<close>: the plan that moves running sandboxes off nodes that left the
  cluster, went silent or are draining. The working copies the source keeps behind pointers
  are a list updated by index, \<open>byID\<close> the index of each sandbox; since the ids of the store's
  list are distinct, each copy is updated at most once, and a decision carries its value.
\<close>

section \<open>Reasons and messages\<close>

datatype vacate_reason = ReasonHeartbeat | ReasonDrain | ReasonGone

definition classifyVacate :: "(string, node) gomap \<Rightarrow> string \<Rightarrow> gotime \<Rightarrow> vacate_reason option" where
  "classifyVacate byNode nodeID now =
     (case gm_get byNode nodeID of
        None \<Rightarrow> Some ReasonGone
      | Some n \<Rightarrow>
          if IsNodeEvictable n now then Some ReasonHeartbeat
          else if Effective (nAvailability n) = AvailabilityDrain then Some ReasonDrain
          else None)"

definition shortNode :: "string \<Rightarrow> string" where
  "shortNode i = (if length i \<le> 12 then i else take 12 i)"

definition mountFailMessage :: "vacate_reason \<Rightarrow> string \<Rightarrow> string" where
  "mountFailMessage reason nodeID =
     (case reason of
        ReasonGone \<Rightarrow> ''node '' @ shortNode nodeID @ '' left cluster; host mounts cannot be rescheduled''
      | _ \<Rightarrow> ''node '' @ shortNode nodeID @ '' heartbeat stale; host mounts cannot be rescheduled'')"

definition rescheduleMessage :: "vacate_reason \<Rightarrow> string \<Rightarrow> string" where
  "rescheduleMessage reason nodeID =
     (case reason of
        ReasonDrain \<Rightarrow> ''rescheduled: node '' @ shortNode nodeID @ '' draining''
      | ReasonGone \<Rightarrow> ''rescheduled: node '' @ shortNode nodeID @ '' left cluster''
      | ReasonHeartbeat \<Rightarrow> ''rescheduled: node '' @ shortNode nodeID @ '' heartbeat stale'')"

section \<open>The plan\<close>

record evict_decision =
  edSandbox :: sandbox
  edSourceNodeID :: string
  edFailedMount :: bool
  edReason :: vacate_reason

fun nodes_by_id :: "(string, node) gomap \<Rightarrow> node list \<Rightarrow> (string, node) gomap" where
  "nodes_by_id m [] = m"
| "nodes_by_id m (n # ns) = nodes_by_id (if nID n = [] then m else gm_put (nID n) n m) ns"

text \<open>The index of each sandbox's working copy; of equal ids, the last one wins.\<close>

fun index_by_id :: "(string, nat) gomap \<Rightarrow> nat \<Rightarrow> sandbox list \<Rightarrow> (string, nat) gomap" where
  "index_by_id m i [] = m"
| "index_by_id m i (sb # sbs) = index_by_id (gm_put (sbID sb) i m) (Suc i) sbs"

definition fail_mount :: "vacate_reason \<Rightarrow> string \<Rightarrow> gotime \<Rightarrow> sandbox \<Rightarrow> sandbox" where
  "fail_mount reason src now cur =
     cur\<lparr>sbStatus := zero_status\<lparr>stPhase := PhaseFailed, stMessage := mountFailMessage reason src, stUpdatedAt := now\<rparr>,
         sbUpdatedAt := now\<rparr>"

definition bump_generation :: "int \<Rightarrow> int" where
  "bump_generation g = wrap64 ((if g < 1 then 1 else g) + 1)"

definition move_sandbox :: "vacate_reason \<Rightarrow> string \<Rightarrow> string \<Rightarrow> gotime \<Rightarrow> sandbox \<Rightarrow> sandbox" where
  "move_sandbox reason oldNode target now cur =
     cur\<lparr>sbNodeID := target,
         sbGeneration := bump_generation (sbGeneration cur),
         sbStatus := zero_status\<lparr>stPhase := PhasePending, stMessage := rescheduleMessage reason oldNode, stUpdatedAt := now\<rparr>,
         sbUpdatedAt := now\<rparr>"

text \<open>One iteration of the planning loop: the working copies after it, and its decision if any.\<close>

definition vacate_one ::
  "node list \<Rightarrow> (string, node) gomap \<Rightarrow> (string, nat) gomap \<Rightarrow> gotime \<Rightarrow> id_set \<Rightarrow>
     sandbox list \<Rightarrow> sandbox \<Rightarrow> sandbox list \<times> evict_decision option" where
  "vacate_one nodes byNode byID now exclude working sb =
     (if sbDesired sb \<noteq> DesiredRunning then (working, None)
      else if sbNodeID sb = [] then (working, None)
      else case classifyVacate byNode (sbNodeID sb) now of
        None \<Rightarrow> (working, None)
      | Some reason \<Rightarrow>
        (case gm_get byID (sbID sb) of
           None \<Rightarrow> (working, None)
         | Some i \<Rightarrow>
           (let cur = working ! i in
            if HasHostMounts (sbSpec cur) then
              (if reason = ReasonDrain then (working, None)
               else
                (let cur' = fail_mount reason (sbNodeID sb) now cur in
                 (working[i := cur'],
                  Some \<lparr>edSandbox = cur', edSourceNodeID = sbNodeID sb, edFailedMount = True, edReason = reason\<rparr>)))
            else
              (let excludeAll = sbNodeID sb # exclude in
               if \<not> HasLiveSchedulableNode nodes now excludeAll then (working, None)
               else
                (let target = SelectNodeOpts nodes working now excludeAll in
                 if target = [] \<or> target = sbNodeID sb then (working, None)
                 else
                  (let cur' = move_sandbox reason (sbNodeID sb) target now cur in
                   (working[i := cur'],
                    Some \<lparr>edSandbox = cur', edSourceNodeID = sbNodeID sb, edFailedMount = False, edReason = reason\<rparr>)))))))"

fun vacate_loop ::
  "node list \<Rightarrow> (string, node) gomap \<Rightarrow> (string, nat) gomap \<Rightarrow> gotime \<Rightarrow> id_set \<Rightarrow>
     sandbox list \<Rightarrow> sandbox list \<Rightarrow> evict_decision list" where
  "vacate_loop nodes byNode byID now exclude working [] = []"
| "vacate_loop nodes byNode byID now exclude working (sb # sbs) =
     (case vacate_one nodes byNode byID now exclude working sb of
        (working', None) \<Rightarrow> vacate_loop nodes byNode byID now exclude working' sbs
      | (working', Some d) \<Rightarrow> d # vacate_loop nodes byNode byID now exclude working' sbs)"

definition PlanVacate :: "node list \<Rightarrow> sandbox list \<Rightarrow> gotime \<Rightarrow> id_set \<Rightarrow> evict_decision list" where
  "PlanVacate nodes sandboxes now exclude =
     (if length sandboxes = 0 then []
      else vacate_loop nodes (nodes_by_id [] nodes) (index_by_id [] 0 sandboxes) now exclude
             (map CloneSandbox sandboxes) sandboxes)"

section \<open>Invariant of the loop\<close>

lemma nodes_by_id_other:
  "i \<notin> nID ` set ns \<Longrightarrow> gm_get (nodes_by_id m ns) i = gm_get m i"
  by (induction m ns rule: nodes_by_id.induct) auto

lemma nodes_by_id_get:
  assumes "distinct (map nID ns)" and "n \<in> set ns" and "nID n \<noteq> []"
  shows "gm_get (nodes_by_id m ns) (nID n) = Some n"
  using assms
proof (induction m ns rule: nodes_by_id.induct)
  case (1 m)
  then show ?case by simp
next
  case (2 m k ns)
  then show ?case
    by (cases "n = k") (auto simp: nodes_by_id_other)
qed

lemma nodes_by_id_only:
  "gm_get (nodes_by_id m ns) i = Some n \<Longrightarrow> gm_get m i = Some n \<or> (n \<in> set ns \<and> nID n = i \<and> i \<noteq> [])"
  by (induction m ns rule: nodes_by_id.induct) (auto split: if_splits)

lemma nodes_by_id_None:
  "i \<noteq> [] \<Longrightarrow> gm_get (nodes_by_id [] ns) i = None \<longleftrightarrow> i \<notin> nID ` set ns"
proof -
  have "i \<noteq> [] \<Longrightarrow> gm_get (nodes_by_id m ns) i = None \<longleftrightarrow> gm_get m i = None \<and> i \<notin> nID ` set ns" for m
    by (induction m ns rule: nodes_by_id.induct) (auto split: if_splits)
  then show "i \<noteq> [] \<Longrightarrow> ?thesis" by simp
qed

lemma index_by_id_other: "i \<notin> sbID ` set sbs \<Longrightarrow> gm_get (index_by_id m k sbs) i = gm_get m i"
  by (induction m k sbs rule: index_by_id.induct) auto

lemma index_by_id_get:
  "distinct (map sbID sbs) \<Longrightarrow> j < length sbs \<Longrightarrow> gm_get (index_by_id m k sbs) (sbID (sbs ! j)) = Some (k + j)"
proof (induction m k sbs arbitrary: j rule: index_by_id.induct)
  case (1 m k)
  then show ?case by simp
next
  case (2 m k sb sbs)
  then show ?case
    by (cases j) (auto simp: index_by_id_other)
qed

text \<open>
  While the loop runs, the copies of the sandboxes still to come are untouched clones, each
  behind its own index.
\<close>

definition pending :: "(string, nat) gomap \<Rightarrow> sandbox list \<Rightarrow> sandbox list \<Rightarrow> bool" where
  "pending byID working rest \<longleftrightarrow>
     distinct (map sbID rest) \<and>
     (\<forall>sb \<in> set rest. \<exists>i < length working. gm_get byID (sbID sb) = Some i \<and> working ! i = CloneSandbox sb) \<and>
     (\<forall>a b i. gm_get byID a = Some i \<longrightarrow> gm_get byID b = Some i \<longrightarrow> a = b)"

lemma index_by_id_inj:
  assumes "distinct (map sbID sbs)"
    and "gm_get (index_by_id [] 0 sbs) a = Some i" and "gm_get (index_by_id [] 0 sbs) b = Some i"
  shows "a = b"
proof -
  have "\<exists>j < length sbs. x = sbID (sbs ! j) \<and> k = j" if "gm_get (index_by_id [] 0 sbs) x = Some k" for x k
  proof -
    have "x \<in> sbID ` set sbs"
      using that index_by_id_other [of x sbs "[]" 0] by auto
    then obtain j where "j < length sbs" "x = sbID (sbs ! j)"
      by (auto simp: in_set_conv_nth)
    with that index_by_id_get [OF assms(1), of j "[]" 0] show ?thesis by auto
  qed
  from this [OF assms(2)] this [OF assms(3)] show ?thesis by auto
qed

lemma pending_start:
  assumes "distinct (map sbID sbs)"
  shows "pending (index_by_id [] 0 sbs) (map CloneSandbox sbs) sbs"
  using assms index_by_id_inj [OF assms] index_by_id_get [OF assms, of _ "[]" 0]
  by (fastforce simp: pending_def in_set_conv_nth)

text \<open>What one iteration does with a sandbox whose copy is still a clone.\<close>

definition decides :: "node list \<Rightarrow> gotime \<Rightarrow> id_set \<Rightarrow> sandbox list \<Rightarrow> sandbox \<Rightarrow> evict_decision option" where
  "decides nodes now exclude working sb =
     (if sbDesired sb \<noteq> DesiredRunning \<or> sbNodeID sb = [] then None
      else case classifyVacate (nodes_by_id [] nodes) (sbNodeID sb) now of
        None \<Rightarrow> None
      | Some reason \<Rightarrow>
          if HasHostMounts (sbSpec sb) then
            (if reason = ReasonDrain then None
             else Some \<lparr>edSandbox = fail_mount reason (sbNodeID sb) now sb, edSourceNodeID = sbNodeID sb,
                        edFailedMount = True, edReason = reason\<rparr>)
          else
           (let target = SelectNodeOpts nodes working now (sbNodeID sb # exclude) in
            if \<not> HasLiveSchedulableNode nodes now (sbNodeID sb # exclude) \<or> target = [] \<or> target = sbNodeID sb then None
            else Some \<lparr>edSandbox = move_sandbox reason (sbNodeID sb) target now sb, edSourceNodeID = sbNodeID sb,
                       edFailedMount = False, edReason = reason\<rparr>))"

lemma vacate_one_decides:
  assumes "pending byID working (sb # rest)" and "sandbox_wf sb"
  shows "snd (vacate_one nodes (nodes_by_id [] nodes) byID now exclude working sb) = decides nodes now exclude working sb"
    and "pending byID (fst (vacate_one nodes (nodes_by_id [] nodes) byID now exclude working sb)) rest"
    and "length (fst (vacate_one nodes (nodes_by_id [] nodes) byID now exclude working sb)) = length working"
proof -
  obtain i where i: "i < length working" "gm_get byID (sbID sb) = Some i" "working ! i = sb"
    using assms by (auto simp: pending_def CloneSandbox_same)
  show "snd (vacate_one nodes (nodes_by_id [] nodes) byID now exclude working sb) = decides nodes now exclude working sb"
    using i by (auto simp: vacate_one_def decides_def Let_def split: option.splits)
  have fst: "\<exists>v. fst (vacate_one nodes (nodes_by_id [] nodes) byID now exclude working sb) = working[i := v]"
    using i by (auto simp: vacate_one_def Let_def split: option.splits) (metis list_update_id)+
  then show "length (fst (vacate_one nodes (nodes_by_id [] nodes) byID now exclude working sb)) = length working"
    by auto
  have "gm_get byID (sbID r) \<noteq> Some i" if "r \<in> set rest" for r
    using assms(1) i(2) that by (fastforce simp: pending_def)
  then have "pending byID (working[i := v]) rest" for v
    using assms(1) i(1) by (fastforce simp: pending_def nth_list_update)
  with fst show "pending byID (fst (vacate_one nodes (nodes_by_id [] nodes) byID now exclude working sb)) rest"
    by auto
qed

section \<open>What the plan decides\<close>

lemma vacate_loop_sound:
  assumes "pending byID working rest" and "\<forall>sb \<in> set rest. sandbox_wf sb"
    and "d \<in> set (vacate_loop nodes (nodes_by_id [] nodes) byID now exclude working rest)"
  shows "\<exists>sb \<in> set rest. \<exists>w. length w = length working \<and> decides nodes now exclude w sb = Some d"
  using assms
proof (induction rest arbitrary: working)
  case Nil
  then show ?case by simp
next
  case (Cons sb rest)
  obtain w' r where one: "vacate_one nodes (nodes_by_id [] nodes) byID now exclude working sb = (w', r)"
    by fastforce
  have wf: "sandbox_wf sb"
    using Cons.prems(2) by simp
  note step = vacate_one_decides [OF Cons.prems(1) wf, of nodes now exclude, unfolded one]
  have r: "r = decides nodes now exclude working sb" and w': "pending byID w' rest" "length w' = length working"
    using step by simp_all
  show ?case
  proof (cases "r = Some d")
    case True
    with r show ?thesis by auto
  next
    case False
    with Cons.prems(3) one have "d \<in> set (vacate_loop nodes (nodes_by_id [] nodes) byID now exclude w' rest)"
      by (auto split: option.splits)
    with Cons.IH [OF w'(1)] Cons.prems(2) w'(2) show ?thesis by auto
  qed
qed

lemma vacate_loop_complete:
  assumes "pending byID working rest" and "\<forall>sb \<in> set rest. sandbox_wf sb" and "sb \<in> set rest"
  shows "\<exists>w. length w = length working \<and> (\<forall>d. decides nodes now exclude w sb = Some d \<longrightarrow>
     d \<in> set (vacate_loop nodes (nodes_by_id [] nodes) byID now exclude working rest))"
  using assms
proof (induction rest arbitrary: working)
  case Nil
  then show ?case by simp
next
  case (Cons s rest)
  obtain w' r where one: "vacate_one nodes (nodes_by_id [] nodes) byID now exclude working s = (w', r)"
    by fastforce
  have wf: "sandbox_wf s"
    using Cons.prems(2) by simp
  note step = vacate_one_decides [OF Cons.prems(1) wf, of nodes now exclude, unfolded one]
  have r: "r = decides nodes now exclude working s" and w': "pending byID w' rest" "length w' = length working"
    using step by simp_all
  show ?case
  proof (cases "sb = s")
    case True
    with one r show ?thesis by (intro exI [of _ working]) auto
  next
    case False
    with Cons.prems Cons.IH [OF w'(1)] obtain w where "length w = length w'"
      "\<forall>d. decides nodes now exclude w sb = Some d \<longrightarrow>
         d \<in> set (vacate_loop nodes (nodes_by_id [] nodes) byID now exclude w' rest)"
      by auto
    with one w'(2) show ?thesis
      by (intro exI [of _ w]) (auto split: option.split)
  qed
qed

definition plan_input :: "sandbox list \<Rightarrow> bool" where
  "plan_input sbs \<longleftrightarrow> distinct (map sbID sbs) \<and> (\<forall>sb \<in> set sbs. sandbox_wf sb) \<and> int (length sbs) < max_int64"

lemma PlanVacate_decides:
  assumes "plan_input sbs" and "d \<in> set (PlanVacate nodes sbs now exclude)"
  shows "\<exists>sb \<in> set sbs. \<exists>w. int (length w) < max_int64 \<and> decides nodes now exclude w sb = Some d"
proof -
  from assms(1) have sbs: "distinct (map sbID sbs)" "\<forall>sb \<in> set sbs. sandbox_wf sb" "int (length sbs) < max_int64"
    by (simp_all add: plan_input_def)
  have "d \<in> set (vacate_loop nodes (nodes_by_id [] nodes) (index_by_id [] 0 sbs) now exclude (map CloneSandbox sbs) sbs)"
    using assms(2) by (simp add: PlanVacate_def split: if_splits)
  from vacate_loop_sound [OF pending_start [OF sbs(1)] sbs(2) this] obtain sb w where
    "sb \<in> set sbs" "length w = length sbs" "decides nodes now exclude w sb = Some d"
    by auto
  with sbs(3) show ?thesis
    by (intro bexI [of _ sb] exI [of _ w]) simp_all
qed

lemma decides_Some:
  assumes "decides nodes now exclude w sb = Some d" and "int (length w) < max_int64"
  shows "sbDesired sb = DesiredRunning \<and> sbNodeID sb \<noteq> [] \<and> edSourceNodeID d = sbNodeID sb \<and>
    classifyVacate (nodes_by_id [] nodes) (sbNodeID sb) now = Some (edReason d) \<and>
    edFailedMount d = HasHostMounts (sbSpec sb) \<and>
    (if HasHostMounts (sbSpec sb)
     then edReason d \<noteq> ReasonDrain \<and> edSandbox d = fail_mount (edReason d) (sbNodeID sb) now sb
     else \<exists>n \<in> set nodes. candidate (sbNodeID sb # exclude) n \<and> IsNodeLive n now \<and>
       edSandbox d = move_sandbox (edReason d) (sbNodeID sb) (nID n) now sb)"
  using assms nodes.select_live [OF _ assms(2), of nodes now "sbNodeID sb # exclude"]
  by (auto simp: decides_def Let_def split: option.splits if_splits)

text \<open>
  Every decision of the plan is justified: it takes a sandbox that is desired running
  off a node that left, is stale beyond the eviction window, or is draining, for that reason. A
  sandbox with host mounts is never moved: it is marked failed where it was, and left alone on
  a draining node. Any other one goes to a node that is accepted, schedulable, live, not
  excluded and not the source, with a bumped generation and its phase reset.
\<close>

theorem PlanVacate_sound:
  assumes "plan_input sbs" and "d \<in> set (PlanVacate nodes sbs now exclude)"
  shows "\<exists>sb \<in> set sbs. sbDesired sb = DesiredRunning \<and> edSourceNodeID d = sbNodeID sb \<and>
    classifyVacate (nodes_by_id [] nodes) (sbNodeID sb) now = Some (edReason d) \<and>
    (if HasHostMounts (sbSpec sb)
     then edReason d \<noteq> ReasonDrain \<and> edSandbox d = fail_mount (edReason d) (sbNodeID sb) now sb
     else \<exists>n \<in> set nodes. candidate (sbNodeID sb # exclude) n \<and> IsNodeLive n now \<and>
       edSandbox d = move_sandbox (edReason d) (sbNodeID sb) (nID n) now sb)"
  using PlanVacate_decides [OF assms] decides_Some by blast

lemma decides_movable:
  assumes "sbDesired sb = DesiredRunning" and "sbNodeID sb \<noteq> []"
    and "classifyVacate (nodes_by_id [] nodes) (sbNodeID sb) now = Some reason"
    and "\<not> HasHostMounts (sbSpec sb)"
    and "HasLiveSchedulableNode nodes now (sbNodeID sb # exclude)"
    and "int (length w) < max_int64"
  shows "\<exists>d. decides nodes now exclude w sb = Some d \<and> sbID (edSandbox d) = sbID sb \<and>
    edReason d = reason \<and> sbNodeID (edSandbox d) \<noteq> sbNodeID sb"
proof -
  have "SelectNodeOpts nodes w now (sbNodeID sb # exclude) \<noteq> []"
    "SelectNodeOpts nodes w now (sbNodeID sb # exclude) \<noteq> sbNodeID sb"
    using nodes.select_live_target [OF assms(5,6)] by auto
  with assms show ?thesis
    by (simp add: decides_def Let_def move_sandbox_def)
qed

lemma PlanVacate_contains:
  assumes "plan_input sbs" and "sb \<in> set sbs"
  shows "\<exists>w. int (length w) < max_int64 \<and>
    (\<forall>d. decides nodes now exclude w sb = Some d \<longrightarrow> d \<in> set (PlanVacate nodes sbs now exclude))"
proof -
  from assms have "distinct (map sbID sbs)" "\<forall>sb \<in> set sbs. sandbox_wf sb" "int (length sbs) < max_int64" "sbs \<noteq> []"
    by (auto simp: plan_input_def)
  with vacate_loop_complete [OF pending_start, of sbs sb nodes now exclude] assms(2) obtain w where
    "length w = length sbs"
    "\<forall>d. decides nodes now exclude w sb = Some d \<longrightarrow> d \<in> set (PlanVacate nodes sbs now exclude)"
    by (auto simp: PlanVacate_def)
  with \<open>int (length sbs) < max_int64\<close> show ?thesis
    by (intro exI [of _ w]) simp
qed

text \<open>
  Claim C25: no sandbox is stranded: a running sandbox without host mounts whose node left, went
  stale or drains is reassigned by the plan, for that reason and to another node, whenever some
  other live schedulable node is not excluded.
\<close>

theorem PlanVacate_complete:
  assumes "plan_input sbs" and "sb \<in> set sbs" and "sbDesired sb = DesiredRunning" and "sbNodeID sb \<noteq> []"
    and "classifyVacate (nodes_by_id [] nodes) (sbNodeID sb) now = Some reason"
    and "\<not> HasHostMounts (sbSpec sb)"
    and "HasLiveSchedulableNode nodes now (sbNodeID sb # exclude)"
  shows "\<exists>d \<in> set (PlanVacate nodes sbs now exclude).
    sbID (edSandbox d) = sbID sb \<and> edReason d = reason \<and> sbNodeID (edSandbox d) \<noteq> sbNodeID sb"
  using PlanVacate_contains [OF assms(1,2), of nodes now exclude] decides_movable [OF assms(3-7)] by blast

text \<open>
  Claim C26: evacuation does not ping-pong: judged by the same nodes at the same time, the node
  a sandbox is moved to gives no reason to move it again.
\<close>

theorem PlanVacate_settles:
  assumes "plan_input sbs" and "distinct (map nID nodes)"
    and "d \<in> set (PlanVacate nodes sbs now exclude)" and "\<not> edFailedMount d"
  shows "classifyVacate (nodes_by_id [] nodes) (sbNodeID (edSandbox d)) now = None"
proof -
  obtain sb w where "decides nodes now exclude w sb = Some d" "int (length w) < max_int64"
    using PlanVacate_decides [OF assms(1,3)] by blast
  from decides_Some [OF this] assms(4) obtain n where n: "n \<in> set nodes" "candidate (sbNodeID sb # exclude) n"
    "IsNodeLive n now" "edSandbox d = move_sandbox (edReason d) (sbNodeID sb) (nID n) now sb"
    by (auto split: if_splits)
  then have "gm_get (nodes_by_id [] nodes) (nID n) = Some n"
    using assms(2) by (intro nodes_by_id_get) (auto simp: candidate_def)
  with n show ?thesis
    by (auto simp: classifyVacate_def move_sandbox_def live_not_evictable candidate_def
        dest: Schedulable_not_drain)
qed

lemma bump_generation_less: "is_int64 g \<Longrightarrow> g < max_int64 \<Longrightarrow> g < bump_generation g \<and> 1 < bump_generation g"
  by (auto simp: bump_generation_def wrap64_id is_int64_def max_int64_def min_int64_def)

section \<open>A worked plan\<close>

definition demo_now :: gotime where "demo_now = unix_epoch + 1000 * second"

definition demo_nodes :: "node list" where
  "demo_nodes = [demo_node ''n1'' (demo_now - 90 * second), demo_node ''n2'' (demo_now - 5 * second)]"

lemma demo_windows:
  "IsNodeEvictable (demo_node i (demo_now - 90 * second)) demo_now"
  "IsNodeLive (demo_node i (demo_now - 5 * second)) demo_now"
  "\<not> IsNodeLive (demo_node i (demo_now - 90 * second)) demo_now"
  by (simp_all add: evict_window live_window demo_now_def unix_epoch_def second_def HeartbeatEvictAfter_def
      HeartbeatStaleAfter_def is_zero_time_def zero_time_def)

lemma demo_plan_input: "plan_input [demo_sandbox]"
  by (simp add: plan_input_def sandbox_wf_def spec_wf_def demo_sandbox_def zero_spec_def max_int64_def)

lemma demo_classify: "classifyVacate (nodes_by_id [] demo_nodes) ''n1'' demo_now = Some ReasonHeartbeat"
  by (simp add: classifyVacate_def demo_nodes_def demo_windows)

lemma demo_has_live: "HasLiveSchedulableNode demo_nodes demo_now [''n1'']"
  by (simp add: demo_nodes_def demo_windows)

lemma demo_sandbox_facts:
  "sbDesired demo_sandbox = DesiredRunning" "sbNodeID demo_sandbox = ''n1''" "sbID demo_sandbox = ''s1''"
  "\<not> HasHostMounts (sbSpec demo_sandbox)" "sbGeneration demo_sandbox = 1" "sbName demo_sandbox = ''web''"
  by (simp_all add: demo_sandbox_def HasHostMounts_def zero_spec_def host_type_def)

definition demo_decision :: evict_decision where
  "demo_decision = \<lparr>edSandbox = move_sandbox ReasonHeartbeat ''n1'' ''n2'' demo_now demo_sandbox,
     edSourceNodeID = ''n1'', edFailedMount = False, edReason = ReasonHeartbeat\<rparr>"

lemma demo_select: "SelectNodeOpts demo_nodes w demo_now [''n1''] = ''n2''" if "int (length w) < max_int64" for w
proof -
  from nodes.select_live [OF demo_has_live that] obtain n where
    "n \<in> set demo_nodes" "nID n = SelectNodeOpts demo_nodes w demo_now [''n1'']" "candidate [''n1''] n"
    by blast
  then show ?thesis
    by (auto simp: demo_nodes_def)
qed

lemma demo_plan: "demo_decision \<in> set (PlanVacate demo_nodes [demo_sandbox] demo_now [])"
proof -
  obtain w where w: "int (length w) < max_int64"
    "\<And>d. decides demo_nodes demo_now [] w demo_sandbox = Some d \<Longrightarrow> d \<in> set (PlanVacate demo_nodes [demo_sandbox] demo_now [])"
    using PlanVacate_contains [OF demo_plan_input, of demo_sandbox demo_nodes demo_now "[]"] by auto
  have "decides demo_nodes demo_now [] w demo_sandbox = Some demo_decision"
    using demo_select [OF w(1)]
    by (simp add: decides_def demo_sandbox_facts demo_classify demo_has_live demo_decision_def)
  then show ?thesis by (rule w(2))
qed

theorem PlanVacate_sound_witness:
  "\<exists>sb \<in> set [demo_sandbox]. sbDesired sb = DesiredRunning \<and> edSourceNodeID demo_decision = sbNodeID sb"
  using PlanVacate_sound [OF demo_plan_input demo_plan] by blast

theorem PlanVacate_complete_witness:
  "\<exists>d \<in> set (PlanVacate demo_nodes [demo_sandbox] demo_now []). sbID (edSandbox d) = ''s1''"
  using PlanVacate_complete [OF demo_plan_input, of demo_sandbox demo_nodes demo_now ReasonHeartbeat "[]"]
  by (auto simp: demo_sandbox_facts demo_classify demo_has_live)

theorem PlanVacate_settles_witness:
  "classifyVacate (nodes_by_id [] demo_nodes) (sbNodeID (edSandbox demo_decision)) demo_now = None"
  by (rule PlanVacate_settles [OF demo_plan_input _ demo_plan]) (simp_all add: demo_nodes_def demo_decision_def)

end
