(* ===== verification/Sandbox_Control.thy ===== *)
theory Sandbox_Control
  imports Control_Access Vacate
begin

text \<open>
  The sandbox service of a manager (\<open>internal/grpcapi/sandbox.go\<close>): the client's calls, the
  heartbeats and the status reports of the workers, with the store and the quarantine as its
  state. Each handler is one function from state and request to state and response; the clock,
  random bytes, the JSON codec and, where a call is forwarded to the leader, the leader's
  answer are arguments.
\<close>

section \<open>State and requests\<close>

record control =
  cnRaft :: raft_node
  cnQuarantine :: quarantine

record create_request =
  crSpecJson :: string
  crSandboxId :: string
  crStart :: bool

record heartbeat_request =
  hbNodeId :: string
  hbGrpcAddr :: string
  hbSandboxCount :: "32 word"

record heartbeat_response =
  hrRemoved :: bool
  hrDesiredRole :: string
  hrAssigned :: "sandbox_proto list"
  hrLeaderGrpc :: string
  hrManagerAddrs :: "string list"

record status_request =
  srSandboxId :: string
  srStatus :: "status_proto option"
  srGeneration :: int

text \<open>Writing back a sandbox, as all handlers end: the store's error is translated.\<close>

definition save_or_fail :: "ca_loader \<Rightarrow> control \<Rightarrow> sandbox \<Rightarrow> 'r \<Rightarrow> control \<times> 'r result" where
  "save_or_fail load c sb resp =
     (let (s', e) = SaveSandbox load (cnRaft c) (Some sb) in
      (c\<lparr>cnRaft := s'\<rparr>, case e of Some err \<Rightarrow> Inl (mapStoreErr err) | None \<Rightarrow> Inr resp))"

text \<open>The guards of a client's write: a cluster peer, and the leader.\<close>

definition client_write_guard :: "rpc_context \<Rightarrow> control \<Rightarrow> go_error option" where
  "client_write_guard ctx c = or_else (requireClusterPeer ctx) (handler_requireLeader (cnRaft c))"

section \<open>Create\<close>

text \<open>The pinning loop: the first named volume that lives on a node decides; an unknown one is an error.\<close>

fun pin_to_volume :: "raft_node \<Rightarrow> string \<Rightarrow> string list \<Rightarrow> string result" where
  "pin_to_volume s nodeID [] = Inr nodeID"
| "pin_to_volume s nodeID (name # names) =
     (case GetVolumeByName s name of
        Inl e \<Rightarrow> Inl (StatusError InvalidArgument (Wrapped [Lit ''volume '', Quoted name, Lit '': ''] e))
      | Inr v \<Rightarrow> if volNodeID v \<noteq> [] then Inr (volNodeID v) else pin_to_volume s nodeID names)"

definition new_sandbox :: "create_request \<Rightarrow> spec \<Rightarrow> string \<Rightarrow> string \<Rightarrow> gotime \<Rightarrow> sandbox" where
  "new_sandbox req spc i nodeID now =
     \<lparr>sbID = i, sbName = spName spc, sbSlug = spName spc, sbSpec = spc, sbNodeID = nodeID,
      sbDesired = (if crStart req then DesiredRunning else DesiredStopped),
      sbStatus = zero_status\<lparr>stPhase := PhaseCreated, stUpdatedAt := now\<rparr>,
      sbEphemeral = lpEphemeral (spLifecycle spc), sbLabels = spLabels spc,
      sbCreatedAt = now, sbUpdatedAt = now, sbGeneration = 1\<rparr>"

definition ctl_Create ::
  "ca_loader \<Rightarrow> json_codec \<Rightarrow> string result \<Rightarrow> gotime \<Rightarrow> rpc_context \<Rightarrow> control \<Rightarrow> create_request \<Rightarrow>
     control \<times> sandbox_proto result" where
  "ctl_Create load json rand now ctx c req =
     (case client_write_guard ctx c of
        Some e \<Rightarrow> (c, Inl e)
      | None \<Rightarrow>
     (case SpecFromJSON json (crSpecJson req) of
        Inl e \<Rightarrow> (c, Inl (StatusError InvalidArgument e))
      | Inr spc \<Rightarrow>
     (case ValidateSpec spc of
        Some e \<Rightarrow> (c, Inl (StatusError InvalidArgument e))
      | None \<Rightarrow>
     (case GetSandboxByName (cnRaft c) (spName spc) of
        Inr _ \<Rightarrow> (c, Inl (StatusError AlreadyExists SandboxErrNameExists))
      | Inl e \<Rightarrow>
          if \<not> error_is e ErrSandboxNotFound then (c, Inl (mapStoreErr e))
          else
     (case (if crSandboxId req = [] then sandbox_NewID rand else Inr (crSandboxId req)) of
        Inl e \<Rightarrow> (c, Inl (StatusError Internal e))
      | Inr i \<Rightarrow>
     (case (ListNodes (cnRaft c), ListSandboxes (cnRaft c)) of
        (Inl e, _) \<Rightarrow> (c, Inl (mapStoreErr e))
      | (_, Inl e) \<Rightarrow> (c, Inl (mapStoreErr e))
      | (Inr nodes, Inr all) \<Rightarrow>
     (case pin_to_volume (cnRaft c) (SelectNodeOpts nodes all now (Excluded (cnQuarantine c))) (NamedVolumeNames spc) of
        Inl e \<Rightarrow> (c, Inl e)
      | Inr nodeID \<Rightarrow>
          (let sb = new_sandbox req spc i nodeID now in save_or_fail load c sb (ToProto json sb)))))))))"

section \<open>The other calls of a client\<close>

definition set_desired ::
  "desired_state \<Rightarrow> ca_loader \<Rightarrow> json_codec \<Rightarrow> gotime \<Rightarrow> rpc_context \<Rightarrow> control \<Rightarrow> string \<Rightarrow> control \<times> sandbox_proto result" where
  "set_desired d load json now ctx c i =
     (case client_write_guard ctx c of
        Some e \<Rightarrow> (c, Inl e)
      | None \<Rightarrow>
          (case GetSandbox (cnRaft c) i of
             Inl e \<Rightarrow> (c, Inl (mapStoreErr e))
           | Inr sb \<Rightarrow>
               (let sb' = sb\<lparr>sbDesired := d, sbUpdatedAt := now\<rparr> in save_or_fail load c sb' (ToProto json sb'))))"

definition ctl_Start ::
  "ca_loader \<Rightarrow> json_codec \<Rightarrow> gotime \<Rightarrow> rpc_context \<Rightarrow> control \<Rightarrow> string \<Rightarrow> control \<times> sandbox_proto result" where
  "ctl_Start = set_desired DesiredRunning"

definition ctl_Stop ::
  "ca_loader \<Rightarrow> json_codec \<Rightarrow> gotime \<Rightarrow> rpc_context \<Rightarrow> control \<Rightarrow> string \<Rightarrow> control \<times> sandbox_proto result" where
  "ctl_Stop = set_desired DesiredStopped"

definition ctl_Remove :: "ca_loader \<Rightarrow> rpc_context \<Rightarrow> control \<Rightarrow> string \<Rightarrow> control \<times> unit result" where
  "ctl_Remove load ctx c i =
     (case client_write_guard ctx c of
        Some e \<Rightarrow> (c, Inl e)
      | None \<Rightarrow>
          (case GetSandbox (cnRaft c) i of
             Inl e \<Rightarrow> (c, Inl (mapStoreErr e))
           | Inr _ \<Rightarrow>
               (let (s', e) = DeleteSandbox load (cnRaft c) i in
                (c\<lparr>cnRaft := s'\<rparr>, case e of Some err \<Rightarrow> Inl (mapStoreErr err) | None \<Rightarrow> Inr ()))))"

definition ctl_Get :: "json_codec \<Rightarrow> rpc_context \<Rightarrow> control \<Rightarrow> string \<Rightarrow> sandbox_proto result" where
  "ctl_Get json ctx c i =
     (case requireClusterPeer ctx of
        Some e \<Rightarrow> Inl e
      | None \<Rightarrow>
          (case GetSandbox (cnRaft c) i of Inl e \<Rightarrow> Inl (mapStoreErr e) | Inr sb \<Rightarrow> Inr (ToProto json sb)))"

definition ctl_GetByName :: "json_codec \<Rightarrow> rpc_context \<Rightarrow> control \<Rightarrow> string \<Rightarrow> sandbox_proto result" where
  "ctl_GetByName json ctx c name =
     (case requireClusterPeer ctx of
        Some e \<Rightarrow> Inl e
      | None \<Rightarrow>
          if name = [] then Inl (status_error InvalidArgument ''name required'')
          else
            (case GetSandboxByName (cnRaft c) name of Inl e \<Rightarrow> Inl (mapStoreErr e) | Inr sb \<Rightarrow> Inr (ToProto json sb)))"

definition ctl_List :: "json_codec \<Rightarrow> rpc_context \<Rightarrow> control \<Rightarrow> sandbox_proto list result" where
  "ctl_List json ctx c =
     (case requireClusterPeer ctx of
        Some e \<Rightarrow> Inl e
      | None \<Rightarrow>
          (case ListSandboxes (cnRaft c) of
             Inl e \<Rightarrow> Inl (mapStoreErr e)
           | Inr sbs \<Rightarrow> Inr (map (ToProto json) sbs)))"

section \<open>The workers' calls\<close>

definition forward :: "control \<Rightarrow> leader_link \<Rightarrow> (string \<Rightarrow> 'r result) \<Rightarrow> 'r result" where
  "forward c link remote = (case dialLeader (cnRaft c) link of Inl e \<Rightarrow> Inl e | Inr addr \<Rightarrow> remote addr)"

definition attach_endpoints :: "raft_node \<Rightarrow> heartbeat_response \<Rightarrow> heartbeat_response" where
  "attach_endpoints s resp =
     (let (leader, addrs) = managerEndpoints s in resp\<lparr>hrLeaderGrpc := leader, hrManagerAddrs := addrs\<rparr>)"

definition heartbeat_record :: "heartbeat_request \<Rightarrow> gotime \<Rightarrow> node \<Rightarrow> node" where
  "heartbeat_record req now n =
     n\<lparr>nGRPCAddr := hbGrpcAddr req, nHeartbeatAt := now, nSandboxCount := sint (hbSandboxCount req)\<rparr>"

definition no_heartbeat_response :: heartbeat_response where
  "no_heartbeat_response = \<lparr>hrRemoved = False, hrDesiredRole = [], hrAssigned = [], hrLeaderGrpc = [], hrManagerAddrs = []\<rparr>"

definition ctl_Heartbeat ::
  "ca_loader \<Rightarrow> json_codec \<Rightarrow> gotime \<Rightarrow> leader_link \<Rightarrow> (string \<Rightarrow> heartbeat_response result) \<Rightarrow>
     rpc_context \<Rightarrow> control \<Rightarrow> heartbeat_request \<Rightarrow> control \<times> heartbeat_response result" where
  "ctl_Heartbeat load json now link remote ctx c req =
     (if \<not> IsLeader (cnRaft c) then (c, forward c link remote)
      else if hbNodeId req = [] then (c, Inl (status_error InvalidArgument ''node_id required''))
      else
        (case requireNodeOrManagerPeer (peerCertificate ctx) (hbNodeId req) of
           Some e \<Rightarrow> (c, Inl e)
         | None \<Rightarrow>
        (case GetNode (cnRaft c) (hbNodeId req) of
           Inl e \<Rightarrow> if error_is e ErrNodeNotFound then (c, Inr (no_heartbeat_response\<lparr>hrRemoved := True\<rparr>))
                   else (c, Inl (mapStoreErr e))
         | Inr n \<Rightarrow>
             (let (s', e) = SaveNode load (cnRaft c) (Some (heartbeat_record req now n)) in
              case e of
                Some err \<Rightarrow> (c\<lparr>cnRaft := s'\<rparr>, Inl (mapStoreErr err))
              | None \<Rightarrow>
                  (let c' = c\<lparr>cnRaft := s', cnQuarantine := NoteHeartbeat (cnQuarantine c) (hbNodeId req)\<rparr> in
                   case ListSandboxesByNode s' (hbNodeId req) of
                     Inl e' \<Rightarrow> (c', Inl (mapStoreErr e'))
                   | Inr assigned \<Rightarrow>
                       (c', Inr (attach_endpoints s'
                          (no_heartbeat_response\<lparr>hrDesiredRole := nRole n, hrAssigned := map (ToProto json) assigned\<rparr>))))))))"

text \<open>The status report: the check of owner and generation, then the write.\<close>

definition status_check :: "certificate \<Rightarrow> sandbox \<Rightarrow> status_request \<Rightarrow> go_error option" where
  "status_check cert sb req =
     or_else (if sbNodeID sb \<noteq> [] then requireNodeOrManagerPeer (Some cert) (sbNodeID sb) else None)
       (case CheckAssignmentGeneration (sbGeneration sb) (srGeneration req) of
          None \<Rightarrow> None | Some e \<Rightarrow> Some (StatusError FailedPrecondition e))"

definition status_record :: "gotime \<Rightarrow> status_request \<Rightarrow> sandbox \<Rightarrow> sandbox" where
  "status_record now req sb =
     sb\<lparr>sbStatus := (StatusFromProto (srStatus req))\<lparr>stUpdatedAt := now\<rparr>, sbUpdatedAt := now\<rparr>"

definition ctl_UpdateStatus ::
  "ca_loader \<Rightarrow> gotime \<Rightarrow> leader_link \<Rightarrow> (string \<Rightarrow> unit result) \<Rightarrow> rpc_context \<Rightarrow> control \<Rightarrow> status_request \<Rightarrow>
     control \<times> unit result" where
  "ctl_UpdateStatus load now link remote ctx c req =
     (if \<not> IsLeader (cnRaft c) then (c, forward c link remote)
      else
        (case peerCertificate ctx of
           None \<Rightarrow> (c, Inl (status_error Unauthenticated ''client certificate required''))
         | Some cert \<Rightarrow>
        (case GetSandbox (cnRaft c) (srSandboxId req) of
           Inl e \<Rightarrow> (c, Inl (mapStoreErr e))
         | Inr sb \<Rightarrow>
        (case status_check cert sb req of
           Some e \<Rightarrow> (c, Inl e)
         | None \<Rightarrow> save_or_fail load c (status_record now req sb) ()))))"

definition ctl_ListNodeSandboxes :: "json_codec \<Rightarrow> rpc_context \<Rightarrow> control \<Rightarrow> string \<Rightarrow> sandbox_proto list result" where
  "ctl_ListNodeSandboxes json ctx c reqNode =
     (case peerCertificate ctx of
        None \<Rightarrow> Inl (status_error Unauthenticated ''client certificate required'')
      | Some cert \<Rightarrow>
          (let nodeID = (if reqNode = [] then certCN cert else reqNode);
               allowed = (if nodeID = certCN cert then True
                          else (case RoleFromCertificate (Some cert) of
                                  Inl _ \<Rightarrow> False | Inr role \<Rightarrow> CanAccessControlPlane role)) in
           if \<not> allowed then Inl (status_error PermissionDenied ''cannot list other node sandboxes'')
           else
             (case ListSandboxesByNode (cnRaft c) nodeID of
                Inl e \<Rightarrow> Inl (mapStoreErr e)
              | Inr sbs \<Rightarrow> Inr (map (ToProto json) sbs))))"

section \<open>What the handlers leave alone\<close>

definition same_but_sandboxes :: "fsm \<Rightarrow> fsm \<Rightarrow> bool" where
  "same_but_sandboxes f g \<longleftrightarrow> fsCluster f = fsCluster g \<and> fsNodes f = fsNodes g \<and> fsPeers f = fsPeers g \<and>
     fsVolumes f = fsVolumes g \<and> fsVolumeNames f = fsVolumeNames g \<and> fsApiKeys f = fsApiKeys g"

definition same_but_nodes :: "fsm \<Rightarrow> fsm \<Rightarrow> bool" where
  "same_but_nodes f g \<longleftrightarrow> fsCluster f = fsCluster g \<and> fsPeers f = fsPeers g \<and> fsSandboxes f = fsSandboxes g \<and>
     fsSandboxNames f = fsSandboxNames g \<and> fsVolumes f = fsVolumes g \<and> fsVolumeNames f = fsVolumeNames g \<and>
     fsApiKeys f = fsApiKeys g"

lemma applySaveSandbox_frame: "same_but_sandboxes f (fst (applySaveSandbox f raw))"
  by (cases rule: applySaveSandbox_cases [of f raw]) (simp_all add: same_but_sandboxes_def)

lemma applySaveNode_frame: "same_but_nodes f (fst (applySaveNode f raw))"
  by (simp add: applySaveNode_def same_but_nodes_def split: sum.split option.split)

lemma SaveSandbox_frame: "same_but_sandboxes (rnFsm s) (rnFsm (fst (SaveSandbox load s sb)))"
proof -
  have refl: "same_but_sandboxes f f" for f by (simp add: same_but_sandboxes_def)
  have "same_but_sandboxes (rnFsm s) (rnFsm (fst (store_apply load s (encodeCommand opSaveSandbox ob))))" for ob
    using store_apply_fsm [of load s "encodeCommand opSaveSandbox ob"] applySaveSandbox_frame [of "rnFsm s" "Object ob"]
    by (auto simp: Apply_ops refl)
  then show ?thesis
    by (simp add: SaveSandbox_def refl split: option.split)
qed

lemma SaveNode_frame: "same_but_nodes (rnFsm s) (rnFsm (fst (SaveNode load s n)))"
proof -
  have refl: "same_but_nodes f f" for f by (simp add: same_but_nodes_def)
  have "same_but_nodes (rnFsm s) (rnFsm (fst (store_apply load s (encodeCommand opSaveNode ob))))" for ob
    using store_apply_fsm [of load s "encodeCommand opSaveNode ob"] applySaveNode_frame [of "rnFsm s" "Object ob"]
    by (auto simp: Apply_ops refl)
  then show ?thesis
    by (simp add: SaveNode_def refl split: option.split)
qed

lemma save_or_fail_Inr:
  assumes "save_or_fail load c sb resp = (c', Inr r)"
  shows "r = resp \<and> snd (SaveSandbox load (cnRaft c) (Some sb)) = None \<and>
    c' = c\<lparr>cnRaft := fst (SaveSandbox load (cnRaft c) (Some sb))\<rparr> \<and>
    sandbox_table (cnRaft c') = (sandbox_table (cnRaft c))(sbID sb \<mapsto> stored_sandbox sb)"
proof -
  have ok: "snd (SaveSandbox load (cnRaft c) (Some sb)) = None" "r = resp"
    "c' = c\<lparr>cnRaft := fst (SaveSandbox load (cnRaft c) (Some sb))\<rparr>"
    using assms by (auto simp: save_or_fail_def Let_def split: prod.splits option.splits)
  with sandboxes_db.save_ok [OF ok(1)] show ?thesis by simp
qed

lemma save_or_fail_frame:
  "same_but_sandboxes (rnFsm (cnRaft c)) (rnFsm (cnRaft (fst (save_or_fail load c sb resp))))"
  "cnQuarantine (fst (save_or_fail load c sb resp)) = cnQuarantine c"
  "j \<noteq> sbID sb \<Longrightarrow> sandbox_table (cnRaft (fst (save_or_fail load c sb resp))) j = sandbox_table (cnRaft c) j"
  "replica load (rnFsm (cnRaft c)) \<Longrightarrow> replica load (rnFsm (cnRaft (fst (save_or_fail load c sb resp))))"
  using SaveSandbox_frame [of "cnRaft c" load "Some sb"] sandboxes_db.save_frame [of j sb load "cnRaft c"]
    SaveSandbox_replica [of load "cnRaft c" "Some sb"]
  by (simp_all add: save_or_fail_def case_prod_beta)

lemma table_frame: "sandbox_table s' j = sandbox_table s j \<Longrightarrow> GetSandbox s' j = GetSandbox s j"
  by (simp add: GetSandbox_table)

section \<open>Status reports\<close>

lemma GetSandbox_Inr: "GetSandbox s i = Inr sb \<longleftrightarrow> (\<exists>r. sandbox_table s i = Some r \<and> sb = CloneSandbox r)"
  by (auto simp: GetSandbox_table split: option.split)

lemma status_record_keeps [simp]:
  "sbID (status_record now req sb) = sbID sb" "sbNodeID (status_record now req sb) = sbNodeID sb"
  "sbGeneration (status_record now req sb) = sbGeneration sb" "sbName (status_record now req sb) = sbName sb"
  by (simp_all add: status_record_def)

lemma status_check_None:
  "status_check cert sb req = None \<longleftrightarrow>
     (sbNodeID sb = [] \<or> certCN cert = sbNodeID sb \<or> manager_cert cert) \<and> (sbGeneration sb \<le> 0 \<or> srGeneration req = sbGeneration sb)"
  by (auto simp: status_check_def requireNodeOrManagerPeer_None CheckAssignmentGeneration_def)

lemma UpdateStatus_cases:
  assumes "ctl_UpdateStatus load now link remote ctx c req = (c', r)" and "IsLeader (cnRaft c)"
  obtains (rejected) e where "c' = c" "r = Inl e"
  | (accepted) cert sb where "cxPeerCert ctx = Some cert" "GetSandbox (cnRaft c) (srSandboxId req) = Inr sb"
      "status_check cert sb req = None" "save_or_fail load c (status_record now req sb) () = (c', r)"
  using assms by (auto simp: ctl_UpdateStatus_def peerCertificate_def split: option.splits sum.splits)

lemma UpdateStatus_stale:
  assumes "IsLeader (cnRaft c)" and "GetSandbox (cnRaft c) (srSandboxId req) = Inr sb"
    and "sbGeneration sb > 0" and "srGeneration req \<noteq> sbGeneration sb"
  shows "\<exists>e. ctl_UpdateStatus load now link remote ctx c req = (c, Inl e)"
proof -
  have stale: "status_check cert sb req \<noteq> None" for cert
    using assms(3,4) by (simp add: status_check_None)
  obtain c' r where run: "ctl_UpdateStatus load now link remote ctx c req = (c', r)" by fastforce
  from this assms(1) show ?thesis
  proof (cases rule: UpdateStatus_cases)
    case (rejected e)
    with run show ?thesis by simp
  next
    case (accepted cert sb')
    with assms(2) stale [of cert] show ?thesis by simp
  qed
qed



text \<open>
  An accepted status report comes from the sandbox's node or from a manager and
  carries its generation, and changes only the observed status and the update time of that one
  sandbox: owner, generation, desired state and spec, and all other records, stay.
\<close>

theorem accepted_report_effect:
  assumes "IsLeader (cnRaft c)" and "ctl_UpdateStatus load now link remote ctx c req = (c', Inr ())"
    and "GetSandbox (cnRaft c) (srSandboxId req) = Inr sb" and "sbID sb = srSandboxId req"
    and "sandbox_wf sb" and "text_patches sb" and "sbName sb \<noteq> []"
  shows "(\<exists>cert. cxPeerCert ctx = Some cert \<and> (sbNodeID sb = [] \<or> certCN cert = sbNodeID sb \<or> manager_cert cert)) \<and>
    (sbGeneration sb \<le> 0 \<or> srGeneration req = sbGeneration sb) \<and>
    GetSandbox (cnRaft c') (sbID sb) =
      Inr (sb\<lparr>sbStatus := (StatusFromProto (srStatus req))\<lparr>stUpdatedAt := now\<rparr>, sbUpdatedAt := now\<rparr>) \<and>
    (\<forall>j. j \<noteq> sbID sb \<longrightarrow> GetSandbox (cnRaft c') j = GetSandbox (cnRaft c) j) \<and>
    same_but_sandboxes (rnFsm (cnRaft c)) (rnFsm (cnRaft c')) \<and> cnQuarantine c' = cnQuarantine c"
  using assms(2,1)
proof (cases rule: UpdateStatus_cases)
  case (rejected e)
  then show ?thesis by simp
next
  case (accepted cert sb')
  then have sb': "sb' = sb" using assms(3) by simp
  let ?new = "status_record now req sb"
  have wf: "sandbox_wf ?new" "text_patches ?new" "sbName ?new \<noteq> []"
    using assms(5-7) by (simp_all add: sandbox_wf_def text_patches_def status_record_def)
  have "sandbox_table (cnRaft c') = (sandbox_table (cnRaft c))(sbID ?new \<mapsto> stored_sandbox ?new)"
    using save_or_fail_Inr [OF accepted(4) [unfolded sb']] by blast
  then have table: "sandbox_table (cnRaft c') = (sandbox_table (cnRaft c))(sbID sb \<mapsto> ?new)"
    by (simp only: stored_sandbox_same [OF wf] status_record_keeps)
  have c': "c' = fst (save_or_fail load c ?new ())"
    using accepted(4) sb' by simp
  note frame = save_or_fail_frame(1,2) [where c = c and load = load and sb = ?new and resp = "()", folded c']
  have "GetSandbox (cnRaft c') (sbID sb) = Inr ?new"
    by (simp add: GetSandbox_table table CloneSandbox_same wf(1))
  moreover have "\<forall>j. j \<noteq> sbID sb \<longrightarrow> GetSandbox (cnRaft c') j = GetSandbox (cnRaft c) j"
    by (simp add: GetSandbox_table table)
  ultimately show ?thesis
    using accepted(1,3) frame(1,2) by (auto simp: sb' status_check_None status_record_def)
qed

definition demo_worker :: rpc_context where
  "demo_worker = \<lparr>cxInternal = False, cxPeerCert = Some \<lparr>certCN = ''n1'', certOUs = [role_OU RoleWorker]\<rparr>\<rparr>"

definition demo_manager :: rpc_context where
  "demo_manager = \<lparr>cxInternal = False, cxPeerCert = Some \<lparr>certCN = ''m2'', certOUs = [role_OU RoleManager]\<rparr>\<rparr>"

definition demo_control :: "bool \<Rightarrow> control" where
  "demo_control leader = \<lparr>cnRaft = demo_raft leader demo_fsm, cnQuarantine = NewQuarantine\<rparr>"

definition demo_link :: leader_link where
  "demo_link = \<lparr>lkHost = Some (Inr ()), lkDial = (\<lambda>_. Inr ())\<rparr>"

definition demo_report :: status_request where
  "demo_report = \<lparr>srSandboxId = ''s1'',
     srStatus = Some \<lparr>spPhase = PhaseRunning, spLocalName = ''s1'', spMessage = [], spStartedAt = 5, spStoppedAt = 0, spUpdatedAt = 0\<rparr>,
     srGeneration = 1\<rparr>"

lemma demo_control_simps:
  "IsLeader (cnRaft (demo_control leader)) = leader" "rnFsm (cnRaft (demo_control leader)) = demo_fsm"
  "GetSandbox (cnRaft (demo_control leader)) ''s1'' = Inr demo_sandbox"
  by (simp_all add: demo_control_def demo_raft_def IsLeader_def GetSandbox_table demo_fsm_simps CloneSandbox_same
      demo_sandbox_plain)

lemma demo_saves:
  assumes "sbID sb = ''s1''" and "sbName sb = ''web''"
  shows "snd (SaveSandbox load (cnRaft (demo_control True)) (Some sb)) = None"
  using assms by (simp add: SaveSandbox_def leader_simps IsLeader_def store_apply_def fsm_step_def demo_control_def
      demo_raft_def Apply_ops applySaveSandbox_def payload_defs effective_name_def demo_fsm_simps Let_def
      demo_sandbox_plain)

lemma demo_report_accepted:
  assumes "cert = \<lparr>certCN = ''n1'', certOUs = ous\<rparr> \<or> manager_cert cert"
  shows "\<exists>c'. ctl_UpdateStatus load now link remote \<lparr>cxInternal = False, cxPeerCert = Some cert\<rparr> (demo_control True) demo_report
    = (c', Inr ())"
proof -
  have "status_check cert demo_sandbox demo_report = None"
    using assms by (auto simp: status_check_None demo_sandbox_facts demo_report_def)
  then show ?thesis
    using demo_saves [of "status_record now demo_report demo_sandbox" load]
    by (simp add: ctl_UpdateStatus_def demo_control_simps peerCertificate_def demo_report_def [THEN arg_cong [where f = srSandboxId]]
        save_or_fail_def case_prod_beta demo_sandbox_plain)
qed

theorem accepted_report_effect_witness:
  "\<exists>c' :: control. GetSandbox (cnRaft c') ''s1'' =
     Inr (demo_sandbox\<lparr>sbStatus := (StatusFromProto (srStatus demo_report))\<lparr>stUpdatedAt := 9\<rparr>, sbUpdatedAt := 9\<rparr>)"
proof -
  obtain c' where run: "ctl_UpdateStatus (\<lambda>_ _. Inl ErrNotLeader) 9 demo_link (\<lambda>_. Inr ())
      \<lparr>cxInternal = False, cxPeerCert = Some \<lparr>certCN = ''n1'', certOUs = []\<rparr>\<rparr> (demo_control True) demo_report = (c', Inr ())"
    using demo_report_accepted by blast
  have "srSandboxId demo_report = ''s1''" by (simp add: demo_report_def)
  note effect = accepted_report_effect [OF _ run, of demo_sandbox, THEN conjunct2, THEN conjunct2, THEN conjunct1]
  have "GetSandbox (cnRaft c') (sbID demo_sandbox) =
     Inr (demo_sandbox\<lparr>sbStatus := (StatusFromProto (srStatus demo_report))\<lparr>stUpdatedAt := 9\<rparr>, sbUpdatedAt := 9\<rparr>)"
    by (rule effect) (simp_all add: demo_control_simps demo_sandbox_plain \<open>srSandboxId demo_report = _\<close>)
  then show ?thesis
    unfolding demo_sandbox_plain by (rule exI)
qed

text \<open>
  A follower forwards a status report without looking at its sender, over its own
  connection, so the leader sees a manager's certificate: a caller with no certificate at all
  has its report applied for any sandbox whose generation it names.
\<close>

theorem follower_forwards_unchecked:
  assumes "\<not> IsLeader (cnRaft follower)" and "dialLeader (cnRaft follower) link = Inr addr"
    and "IsLeader (cnRaft leader)" and "manager_cert cert"
    and "GetSandbox (cnRaft leader) (srSandboxId req) = Inr sb" and "srGeneration req = sbGeneration sb"
    and "remote addr = snd (ctl_UpdateStatus load now link' remote' \<lparr>cxInternal = False, cxPeerCert = Some cert\<rparr> leader req)"
    and "snd (SaveSandbox load (cnRaft leader) (Some (status_record now req sb))) = None"
  shows "ctl_UpdateStatus load now link remote \<lparr>cxInternal = False, cxPeerCert = None\<rparr> follower req = (follower, Inr ())"
proof -
  have "status_check cert sb req = None"
    using assms(4,6) by (simp add: status_check_None)
  then have "remote addr = Inr ()"
    using assms(3,5,7,8) by (simp add: ctl_UpdateStatus_def peerCertificate_def save_or_fail_def case_prod_beta)
  with assms(1,2) show ?thesis
    by (simp add: ctl_UpdateStatus_def forward_def)
qed

theorem follower_forwards_unchecked_witness:
  "ctl_UpdateStatus (\<lambda>_ _. Inl ErrNotLeader) 9 demo_link
     (\<lambda>_. snd (ctl_UpdateStatus (\<lambda>_ _. Inl ErrNotLeader) 9 demo_link (\<lambda>_. Inr ()) demo_manager (demo_control True) demo_report))
     \<lparr>cxInternal = False, cxPeerCert = None\<rparr> (demo_control False) demo_report = (demo_control False, Inr ())"
proof (rule follower_forwards_unchecked)
  show "dialLeader (cnRaft (demo_control False)) demo_link = Inr ''10.0.0.1:17946''"
    by (simp add: dialLeader_def demo_link_def LeaderGRPC_def demo_control_def demo_raft_def IsLeader_def getPeer_def
        peerByRaftAddr_def demo_fsm_def NewFSM_def Let_def)
  show "manager_cert \<lparr>certCN = ''m2'', certOUs = [role_OU RoleManager]\<rparr>"
    by (simp add: manager_cert_def)
  show "snd (ctl_UpdateStatus (\<lambda>_ _. Inl ErrNotLeader) 9 demo_link (\<lambda>_. Inr ()) demo_manager (demo_control True) demo_report) =
      snd (ctl_UpdateStatus (\<lambda>_ _. Inl ErrNotLeader) 9 demo_link (\<lambda>_. Inr ())
        \<lparr>cxInternal = False, cxPeerCert = Some \<lparr>certCN = ''m2'', certOUs = [role_OU RoleManager]\<rparr>\<rparr> (demo_control True) demo_report)"
    by (simp add: demo_manager_def)
  show "GetSandbox (cnRaft (demo_control True)) (srSandboxId demo_report) = Inr demo_sandbox"
    by (simp add: demo_control_simps demo_report_def)
  show "snd (SaveSandbox (\<lambda>_ _. Inl ErrNotLeader) (cnRaft (demo_control True)) (Some (status_record 9 demo_report demo_sandbox))) = None"
    by (rule demo_saves) (simp_all add: demo_sandbox_plain)
qed (simp_all add: demo_control_simps demo_report_def demo_sandbox_facts)

section \<open>Creation\<close>

lemma ctl_Create_Inr:
  assumes "ctl_Create load json rand now ctx c req = (c', Inr p)"
  obtains spc i nodeID where "client_write_guard ctx c = None" "SpecFromJSON json (crSpecJson req) = Inr spc"
    "ValidateSpec spc = None" "getSandboxByName (rnFsm (cnRaft c)) (spName spc) = Inl ErrSandboxNotFound"
    "crSandboxId req \<noteq> [] \<longrightarrow> i = crSandboxId req"
    "pin_to_volume (cnRaft c) (SelectNodeOpts (listNodes (rnFsm (cnRaft c))) (listSandboxes (rnFsm (cnRaft c))) now
       (Excluded (cnQuarantine c))) (NamedVolumeNames spc) = Inr nodeID"
    "save_or_fail load c (new_sandbox req spc i nodeID now) (ToProto json (new_sandbox req spc i nodeID now)) = (c', Inr p)"
proof -
  have only: "getSandboxByName f n = Inl e \<Longrightarrow> e = ErrSandboxNotFound" for f n e
    by (auto simp: getSandboxByName_def split: option.splits)
  show thesis
    using assms that by (auto simp: ctl_Create_def Let_def sandbox_NewID_def GetSandboxByName_def ListNodes_def
        ListSandboxes_def split: option.splits sum.splits if_splits dest: only)
qed

lemma client_write_guard_None:
  "client_write_guard ctx c = None \<longleftrightarrow> (cxInternal ctx \<or> cxPeerCert ctx \<noteq> None) \<and> IsLeader (cnRaft c)"
  by (auto simp: client_write_guard_def requireClusterPeer_def handler_requireLeader_def peerCertificate_def)

lemma new_sandbox_simps [simp]:
  "sbID (new_sandbox req spc i n now) = i" "sbName (new_sandbox req spc i n now) = spName spc"
  "sbGeneration (new_sandbox req spc i n now) = 1" "sbNodeID (new_sandbox req spc i n now) = n"
  "sbSpec (new_sandbox req spc i n now) = spc" "sbLabels (new_sandbox req spc i n now) = spLabels spc"
  by (simp_all add: new_sandbox_def)

lemma ctl_Create_saved:
  assumes "ctl_Create load json rand now ctx c req = (c', Inr p)"
  obtains sb where "p = ToProto json sb" "sandbox_table (cnRaft c') = (sandbox_table (cnRaft c))(sbID sb \<mapsto> stored_sandbox sb)"
    "sbGeneration sb = 1" "ValidateSpec (sbSpec sb) = None" "sbName sb = spName (sbSpec sb)"
    "getSandboxByName (rnFsm (cnRaft c)) (sbName sb) = Inl ErrSandboxNotFound"
    "crSandboxId req \<noteq> [] \<longrightarrow> sbID sb = crSandboxId req"
    "sbDesired sb = (if crStart req then DesiredRunning else DesiredStopped)"
  using assms
proof (cases rule: ctl_Create_Inr)
  case (1 spc i nodeID)
  let ?sb = "new_sandbox req spc i nodeID now"
  have p: "p = ToProto json ?sb" and table: "sandbox_table (cnRaft c') = (sandbox_table (cnRaft c))(sbID ?sb \<mapsto> stored_sandbox ?sb)"
    using save_or_fail_Inr [OF 1(7)] by blast+
  have "sbDesired ?sb = (if crStart req then DesiredRunning else DesiredStopped)"
    by (simp add: new_sandbox_def)
  then show thesis
    using 1(3-5) by (intro that [OF p table]) simp_all
qed

lemma stored_sandbox_keeps:
  "sbID (stored_sandbox sb) = sbID sb" "sbGeneration (stored_sandbox sb) = sbGeneration sb"
  "sbNodeID (stored_sandbox sb) = sbNodeID sb" "sbDesired (stored_sandbox sb) = sbDesired sb"
  "sbStatus (stored_sandbox sb) = sbStatus sb"
  by (simp_all add: stored_sandbox_def CloneSandbox_keeps)

text \<open>
  A sandbox is created only by a cluster peer on the leader, from a spec that passes
  validation, under a name nobody had; it starts at generation 1 with the desired state the
  request asks for, and no other sandbox is touched.
\<close>

theorem Create_checks:
  assumes "ctl_Create load json rand now ctx c req = (c', Inr p)"
  shows "(cxInternal ctx \<or> cxPeerCert ctx \<noteq> None) \<and> IsLeader (cnRaft c) \<and>
    (\<exists>spc. SpecFromJSON json (crSpecJson req) = Inr spc \<and> ValidateSpec spc = None \<and> pbName p = spName spc \<and>
       GetSandboxByName (cnRaft c) (spName spc) = Inl ErrSandboxNotFound) \<and>
    pbGeneration p = 1 \<and> pbDesired p = (if crStart req then DesiredRunning else DesiredStopped) \<and>
    (\<forall>j. j \<noteq> pbId p \<longrightarrow> GetSandbox (cnRaft c') j = GetSandbox (cnRaft c) j)"
  using assms
proof (cases rule: ctl_Create_Inr)
  case (1 spc i nodeID)
  let ?sb = "new_sandbox req spc i nodeID now"
  have p: "p = ToProto json ?sb" and table: "sandbox_table (cnRaft c') = (sandbox_table (cnRaft c))(sbID ?sb \<mapsto> stored_sandbox ?sb)"
    using save_or_fail_Inr [OF 1(7)] by blast+
  show ?thesis
    using 1(1-4) table by (auto simp: p ToProto_def client_write_guard_None GetSandboxByName_def GetSandbox_table new_sandbox_def)
qed

text \<open>
  Creation does not protect an existing sandbox: a request that names the identifier
  of one, under a fresh name, replaces it and starts its generation over at 1, so that
  reports of the replaced assignment's first generation pass the fence again.
\<close>

theorem Create_overwrites:
  assumes "ctl_Create load json rand now ctx c req = (c', Inr p)"
    and "GetSandbox (cnRaft c) (crSandboxId req) = Inr old" and "crSandboxId req \<noteq> []"
  shows "\<exists>sb. GetSandbox (cnRaft c') (crSandboxId req) = Inr sb \<and> sbGeneration sb = 1 \<and>
    CheckAssignmentGeneration (sbGeneration sb) 1 = None \<and>
    (sbGeneration old > 1 \<longrightarrow> CheckAssignmentGeneration (sbGeneration old) 1 \<noteq> None)"
  using assms(1)
proof (cases rule: ctl_Create_saved)
  case (1 sb)
  with assms(3) have "GetSandbox (cnRaft c') (crSandboxId req) = Inr (CloneSandbox (stored_sandbox sb))"
    by (simp add: GetSandbox_table)
  with 1(3) show ?thesis
    by (auto simp: CloneSandbox_keeps stored_sandbox_keeps CheckAssignmentGeneration_None)
qed

definition demo_spec :: spec where
  "demo_spec = zero_spec\<lparr>spName := ''db'', spImage := OCIImage ''alpine''\<rparr>"

definition demo_codec :: json_codec where
  "demo_codec = demo_json\<lparr>jUnspec := (\<lambda>_. Inr demo_spec)\<rparr>"

definition demo_request :: "string \<Rightarrow> create_request" where
  "demo_request i = \<lparr>crSpecJson = ''{}'', crSandboxId = i, crStart = True\<rparr>"

lemma demo_spec_simps:
  "spName demo_spec = ''db''" "spMounts demo_spec = []" "spPatches demo_spec = []" "spRlimits demo_spec = []"
  "spLabels demo_spec = []" "spImage demo_spec = OCIImage ''alpine''" "spNetwork demo_spec = spNetwork zero_spec"
  "spResources demo_spec = spResources zero_spec" "spLifecycle demo_spec = spLifecycle zero_spec"
  by (simp_all add: demo_spec_def zero_spec_def)

lemma demo_spec_valid: "ValidateSpec (NormalizeSpec demo_spec) = None"
proof -
  have trim: "trim_space ''db'' = ''db''" "trim_space ''alpine'' = ''alpine''"
    by (rule trim_space_plain; simp add: plain_char_def)+
  have parts: "spPatches (NormalizeSpec demo_spec) = []" "spRlimits (NormalizeSpec demo_spec) = []"
    "spImage (NormalizeSpec demo_spec) = OCIImage ''alpine''"
    by (simp_all add: NormalizeSpec_def demo_spec_simps OCIImage_def default_str_def)
  show ?thesis
    by (simp add: ValidateSpec_def Let_def spec_checks_None demo_spec_simps trim parts normalize_resources_def)
      (simp add: valid_image_def OCIImage_def trim valid_network_def zero_spec_def)
qed

lemma demo_create:
  assumes "i \<noteq> []"
  shows "\<exists>c' p. ctl_Create load demo_codec (Inr []) 9 \<lparr>cxInternal = True, cxPeerCert = None\<rparr> (demo_control True) (demo_request i) = (c', Inr p)
    \<and> pbId p = i"
proof -
  let ?spc = "NormalizeSpec demo_spec"
  have free: "GetSandboxByName (cnRaft (demo_control True)) ''db'' = Inl ErrSandboxNotFound"
    by (simp add: GetSandboxByName_def getSandboxByName_def demo_control_simps demo_fsm_simps)
  have pin: "pin_to_volume s n (NamedVolumeNames ?spc) = Inr n" for s n
    by (simp add: NamedVolumeNames_def demo_spec_simps)
  have save: "snd (SaveSandbox load (cnRaft (demo_control True)) (Some sb)) = None"
    if "sbID sb = i" "sbName sb = ''db''" for sb
    using that assms by (simp add: SaveSandbox_def leader_simps IsLeader_def store_apply_def fsm_step_def
        demo_control_def demo_raft_def Apply_ops applySaveSandbox_def payload_defs effective_name_def demo_fsm_simps
        Let_def case_prod_beta)
  show ?thesis
    using assms by (simp add: ctl_Create_def client_write_guard_def requireClusterPeer_def handler_requireLeader_def
        demo_control_simps demo_request_def SpecFromJSON_def demo_codec_def demo_spec_valid demo_spec_simps free
        ListNodes_def ListSandboxes_def pin Let_def save_or_fail_def case_prod_beta save ToProto_def)
qed

theorem Create_checks_witness:
  "\<exists>c' p. ctl_Create (\<lambda>_ _. Inl ErrNotLeader) demo_codec (Inr []) 9 \<lparr>cxInternal = True, cxPeerCert = None\<rparr> (demo_control True)
     (demo_request ''s9'') = (c', Inr p) \<and> pbGeneration p = 1 \<and> pbDesired p = DesiredRunning"
proof -
  obtain c' p where run: "ctl_Create (\<lambda>_ _. Inl ErrNotLeader) demo_codec (Inr []) 9 \<lparr>cxInternal = True, cxPeerCert = None\<rparr>
      (demo_control True) (demo_request ''s9'') = (c', Inr p)"
    using demo_create [of "''s9''"] by blast
  from Create_checks [OF run] run show ?thesis
    by (simp add: demo_request_def)
qed

theorem Create_overwrites_witness:
  "\<exists>c' sb. GetSandbox (cnRaft (c' :: control)) ''s1'' = Inr sb \<and> sbGeneration sb = 1 \<and> sbName demo_sandbox = ''web''"
proof -
  obtain c' p where run: "ctl_Create (\<lambda>_ _. Inl ErrNotLeader) demo_codec (Inr []) 9 \<lparr>cxInternal = True, cxPeerCert = None\<rparr>
      (demo_control True) (demo_request ''s1'') = (c', Inr p)"
    using demo_create [of "''s1''"] by blast
  have "GetSandbox (cnRaft (demo_control True)) (crSandboxId (demo_request ''s1'')) = Inr demo_sandbox"
    by (simp add: demo_request_def demo_control_simps)
  from Create_overwrites [OF run this] show ?thesis
    by (auto simp: demo_request_def demo_sandbox_plain)
qed

section \<open>Heartbeats\<close>

lemma listSandboxesByNode_filter:
  "listSandboxesByNode f i = filter (\<lambda>sb. sbNodeID sb = i) (listSandboxes f)"
  by (simp add: listSandboxesByNode_def listSandboxes_def filter_map comp_def case_prod_unfold CloneSandbox_keeps)

text \<open>
  A heartbeat on the leader is accepted from the node itself or from a manager, and
  writes only that node's address, time and sandbox count: its role, certificate, availability
  and labels, every other node and everything else stay; a node that was removed is told so.
  The answer carries exactly the sandboxes assigned to the node.
\<close>

theorem Heartbeat_effect:
  assumes "IsLeader (cnRaft c)" and "ctl_Heartbeat load json now link remote ctx c req = (c', Inr resp)"
    and "\<forall>n \<in> snd ` set (fsNodes (rnFsm (cnRaft c))). gm_wf (nLabels n)" and "fsm_keyed (rnFsm (cnRaft c))"
  shows "(\<exists>cert. cxPeerCert ctx = Some cert \<and> (certCN cert = hbNodeId req \<or> manager_cert cert)) \<and>
    same_but_nodes (rnFsm (cnRaft c)) (rnFsm (cnRaft c')) \<and>
    (case node_table (cnRaft c) (hbNodeId req) of
       None \<Rightarrow> c' = c \<and> hrRemoved resp
     | Some n \<Rightarrow> \<not> hrRemoved resp \<and> hrDesiredRole resp = nRole n \<and>
         node_table (cnRaft c') = (node_table (cnRaft c))(hbNodeId req \<mapsto>
           n\<lparr>nGRPCAddr := hbGrpcAddr req, nHeartbeatAt := now, nSandboxCount := sint (hbSandboxCount req)\<rparr>) \<and>
         hrAssigned resp = map (ToProto json) (filter (\<lambda>sb. sbNodeID sb = hbNodeId req) (listSandboxes (rnFsm (cnRaft c)))))"
proof -
  have refl: "same_but_nodes f f" for f by (simp add: same_but_nodes_def)
  have guard: "hbNodeId req \<noteq> []" "requireNodeOrManagerPeer (cxPeerCert ctx) (hbNodeId req) = None"
    using assms(1,2) by (auto simp: ctl_Heartbeat_def peerCertificate_def split: if_splits option.splits)
  show ?thesis
  proof (cases "node_table (cnRaft c) (hbNodeId req)")
    case None
    then have "GetNode (cnRaft c) (hbNodeId req) = Inl ErrNodeNotFound"
      by (simp add: GetNode_def getNode_def)
    with assms(1,2) guard have "c' = c" "resp = no_heartbeat_response\<lparr>hrRemoved := True\<rparr>"
      by (simp_all add: ctl_Heartbeat_def peerCertificate_def)
    with None guard show ?thesis
      by (auto simp: requireNodeOrManagerPeer_None refl)
  next
    case (Some n)
    have wf: "gm_wf (nLabels n)" and idn: "nID n = hbNodeId req"
      using Some assms(3,4) by (auto simp: fsm_keyed_def keyed_def dest!: map_of_SomeD)
    let ?n = "heartbeat_record req now n"
    have get: "GetNode (cnRaft c) (hbNodeId req) = Inr n"
      using Some wf by (simp add: GetNode_def getNode_def clone_node_def)
    obtain s' e where save: "SaveNode load (cnRaft c) (Some ?n) = (s', e)" by fastforce
    with assms(1,2) guard get have e: "e = None"
      by (auto simp: ctl_Heartbeat_def peerCertificate_def split: option.splits)
    have c': "c' = c\<lparr>cnRaft := s', cnQuarantine := NoteHeartbeat (cnQuarantine c) (hbNodeId req)\<rparr>"
      and resp: "hrRemoved resp = False" "hrDesiredRole resp = nRole n"
        "hrAssigned resp = map (ToProto json) (listSandboxesByNode (rnFsm s') (hbNodeId req))"
      using assms(1,2) guard get save e
      by (auto simp: ctl_Heartbeat_def peerCertificate_def ListSandboxesByNode_def attach_endpoints_def
          no_heartbeat_response_def case_prod_beta Let_def)
    have "node_table s' = (node_table (cnRaft c))(nID ?n \<mapsto> clone_node ?n)"
      using nodes_db.save_ok [of load "cnRaft c" ?n] save e by simp
    moreover have "nID ?n = hbNodeId req" "clone_node ?n = ?n"
      using idn wf by (simp_all add: heartbeat_record_def clone_node_def)
    moreover have frame: "same_but_nodes (rnFsm (cnRaft c)) (rnFsm s')"
      using SaveNode_frame [of "cnRaft c" load "Some ?n"] save by simp
    moreover from frame have "listSandboxesByNode (rnFsm s') i = filter (\<lambda>sb. sbNodeID sb = i) (listSandboxes (rnFsm (cnRaft c)))" for i
      by (simp add: listSandboxesByNode_filter same_but_nodes_def listSandboxes_def)
    ultimately show ?thesis
      using Some guard c' resp by (auto simp: requireNodeOrManagerPeer_None heartbeat_record_def)
  qed
qed

definition demo_node_control :: control where
  "demo_node_control = \<lparr>cnRaft = demo_raft True (NewFSM\<lparr>fsNodes := [(''n1'', demo_node ''n1'' 5)]\<rparr>), cnQuarantine = NewQuarantine\<rparr>"

definition demo_beat :: heartbeat_request where
  "demo_beat = \<lparr>hbNodeId = ''n1'', hbGrpcAddr = ''10.0.0.2:17948'', hbSandboxCount = 3\<rparr>"

lemma demo_node_control_simps:
  "IsLeader (cnRaft demo_node_control)" "fsNodes (rnFsm (cnRaft demo_node_control)) = [(''n1'', demo_node ''n1'' 5)]"
  by (simp_all add: demo_node_control_def demo_raft_def IsLeader_def)

lemma demo_node_keyed: "fsm_keyed (rnFsm (cnRaft demo_node_control))"
  by (simp add: demo_node_control_def demo_raft_def NewFSM_def fsm_keyed_def keyed_def gm_wf_def demo_node_def zero_node_def)

lemma demo_beat_accepted:
  "\<exists>c' resp. ctl_Heartbeat load json 9 link remote demo_worker demo_node_control demo_beat = (c', Inr resp)"
proof -
  have node: "nID (demo_node ''n1'' 5) = ''n1''" "nLabels (demo_node ''n1'' 5) = []"
    by (simp_all add: demo_node_def zero_node_def)
  then have get: "GetNode (cnRaft demo_node_control) ''n1'' = Inr (demo_node ''n1'' 5)"
    by (simp add: GetNode_def getNode_def demo_node_control_simps clone_node_def)
  have "snd (SaveNode load (cnRaft demo_node_control) (Some n)) = None" if "nID n = ''n1''" for n
    using that by (simp add: SaveNode_def leader_simps IsLeader_def store_apply_def fsm_step_def demo_node_control_def
        demo_raft_def Apply_ops applySaveNode_def payload_defs case_prod_beta)
  moreover have "requireNodeOrManagerPeer (peerCertificate demo_worker) ''n1'' = None"
    by (simp add: requireNodeOrManagerPeer_def peerCertificate_def demo_worker_def)
  ultimately show ?thesis
    using node by (simp add: ctl_Heartbeat_def demo_node_control_simps demo_beat_def get case_prod_beta heartbeat_record_def
        ListSandboxesByNode_def Let_def)
qed

theorem Heartbeat_effect_witness:
  "\<exists>c' resp. ctl_Heartbeat (\<lambda>_ _. Inl ErrNotLeader) demo_json 9 demo_link (\<lambda>_. Inl ErrNotLeader) demo_worker demo_node_control demo_beat =
     (c', Inr resp) \<and> \<not> hrRemoved resp \<and> same_but_nodes (rnFsm (cnRaft demo_node_control)) (rnFsm (cnRaft c'))"
proof -
  obtain c' resp where run: "ctl_Heartbeat (\<lambda>_ _. Inl ErrNotLeader) demo_json 9 demo_link (\<lambda>_. Inl ErrNotLeader)
      demo_worker demo_node_control demo_beat = (c', Inr resp)"
    using demo_beat_accepted by blast
  have "\<forall>n \<in> snd ` set (fsNodes (rnFsm (cnRaft demo_node_control))). gm_wf (nLabels n)"
    by (simp add: demo_node_control_simps demo_node_def zero_node_def)
  from Heartbeat_effect [OF demo_node_control_simps(1) run this demo_node_keyed] run show ?thesis
    by (simp add: demo_node_control_simps demo_beat_def)
qed

end
