(* ===== verification/Node_Admin.thy ===== *)
theory Node_Admin
  imports Vacate Sandbox_Control
begin

text \<open>
  Node management and evacuation on a manager (\<open>internal/daemon/node.go\<close>,
  \<open>internal/daemon/evict.go\<close>): list, inspect, promote, demote, remove and update, and the
  eviction pass over the replicated records. A daemon's Raft store, sandbox server and identity
  may be nil. \<open>applyRoleChange\<close> rewrites this process's certificate files and sockets
  (\<open>role.go\<close>), not the replicated state: its outcome is the argument \<open>role_err\<close>.
\<close>

section \<open>The daemon\<close>

record node_daemon =
  ndRaft :: "raft_node option"
  ndQuarantine :: "quarantine option"
  ndLocalID :: "string option"

definition isLocalNode :: "node_daemon \<Rightarrow> string \<Rightarrow> bool" where
  "isLocalNode d i = (case ndLocalID d of None \<Rightarrow> False | Some l \<Rightarrow> l = i)"

definition managerRaft :: "node_daemon \<Rightarrow> raft_node result" where
  "managerRaft d =
     (case ndRaft d of
        None \<Rightarrow> Inl (status_error FailedPrecondition ''node management requires a manager node'')
      | Some r \<Rightarrow> Inr r)"

definition managerLeader :: "node_daemon \<Rightarrow> raft_node result" where
  "managerLeader d =
     (case managerRaft d of
        Inl e \<Rightarrow> Inl e
      | Inr r \<Rightarrow>
          if \<not> IsLeader r then Inl (status_error Unavailable ''not the raft leader; run this command on the leader'')
          else Inr r)"

definition shortID :: "string \<Rightarrow> string" where
  "shortID i = (if length i > 12 then take 12 i else i)"

definition mapNodeErr :: "go_error \<Rightarrow> go_error" where
  "mapNodeErr e = (if error_is e ErrNodeNotFound then StatusError NotFound e else StatusError Internal e)"

section \<open>Finding nodes\<close>

definition resolveNode :: "raft_node \<Rightarrow> string \<Rightarrow> node result" where
  "resolveNode raft idOrPrefix =
     (case GetNode raft idOrPrefix of
        Inr n \<Rightarrow> Inr n
      | Inl err \<Rightarrow>
          if \<not> error_is err ErrNodeNotFound then Inl (StatusError Internal err)
          else
            (case ListNodes raft of
               Inl e \<Rightarrow> Inl (StatusError Internal e)
             | Inr nodes \<Rightarrow>
                 (case filter (\<lambda>n. has_prefix idOrPrefix (nID n)) nodes of
                    [] \<Rightarrow> Inl (StatusError NotFound (Errorf [Lit ''node '', Quoted idOrPrefix, Lit '' not found'']))
                  | [n] \<Rightarrow> Inr n
                  | matches \<Rightarrow> Inl (StatusError FailedPrecondition
                      (Errorf [Lit ''node id prefix '', Quoted idOrPrefix, Lit '' is ambiguous ('',
                               Num (int (length matches)), Lit '' matches)''])))))"

definition countManagers :: "raft_node \<Rightarrow> nat result" where
  "countManagers raft =
     (case ListNodes raft of
        Inl e \<Rightarrow> Inl e
      | Inr nodes \<Rightarrow> Inr (length (filter (\<lambda>n. nRole n = RoleManager) nodes)))"

definition peerIDSet :: "raft_node \<Rightarrow> id_set" where
  "peerIDSet raft = map piNodeID (ListPeers raft)"

section \<open>What is shown of a node\<close>

record node_info =
  niNodeId :: string
  niRole :: string
  niNodeType :: string
  niMembership :: string
  niAvailability :: string
  niLabels :: labels
  niRuntimeGrpcAddr :: string
  niHostname :: string
  niSandboxCount :: int
  niFingerprint :: string
  niIssuedAt :: int
  niExpiresAt :: int
  niHeartbeat :: int
  niStatus :: string
  niManagerStatus :: string

definition nodeType :: "node \<Rightarrow> string \<Rightarrow> string" where
  "nodeType n leaderID =
     (if nRole n \<noteq> RoleManager then RoleWorker else if nID n = leaderID then ''leader'' else RoleManager)"

text \<open>\<open>net.SplitHostPort\<close>, as its result or the fact that it fails.\<close>

fun last_index :: "char \<Rightarrow> string \<Rightarrow> nat option" where
  "last_index c [] = None"
| "last_index c (x # xs) = (case last_index c xs of Some i \<Rightarrow> Some (Suc i) | None \<Rightarrow> if x = c then Some 0 else None)"

fun first_index :: "char \<Rightarrow> string \<Rightarrow> nat option" where
  "first_index c [] = None"
| "first_index c (x # xs) = (if x = c then Some 0 else map_option Suc (first_index c xs))"

definition splitHostPort :: "string \<Rightarrow> (string \<times> string) option" where
  "splitHostPort hp =
     (case last_index CHR '':'' hp of
        None \<Rightarrow> None
      | Some i \<Rightarrow>
          if hp ! 0 = CHR ''['' then
            (case first_index CHR '']'' hp of
               None \<Rightarrow> None
             | Some e \<Rightarrow>
                 if Suc e \<noteq> i then None
                 else if CHR ''['' \<in> set (drop 1 hp) \<or> CHR '']'' \<in> set (drop (Suc e) hp) then None
                 else Some (take (e - 1) (drop 1 hp), drop (Suc i) hp))
          else if CHR '':'' \<in> set (take i hp) \<or> CHR ''['' \<in> set hp \<or> CHR '']'' \<in> set hp then None
          else Some (take i hp, drop (Suc i) hp))"

definition hostnameFromAddr :: "string \<Rightarrow> string" where
  "hostnameFromAddr addr0 =
     (let addr = trim_space addr0 in
      if addr = [] then []
      else (case splitHostPort addr of Some (host, _) \<Rightarrow> host | None \<Rightarrow> addr))"

definition to_int32 :: "int \<Rightarrow> int" where
  "to_int32 x = (x + 2 ^ 31) mod 2 ^ 32 - 2 ^ 31"

definition nodeToInfo :: "node \<Rightarrow> string \<Rightarrow> id_set \<Rightarrow> gotime \<Rightarrow> node_info" where
  "nodeToInfo n leaderID peers now =
     \<lparr>niNodeId = nID n, niRole = nRole n, niNodeType = nodeType n leaderID, niMembership = nMembership n,
      niAvailability = Effective (nAvailability n), niLabels = CloneLabels (nLabels n),
      niRuntimeGrpcAddr = nGRPCAddr n, niHostname = hostnameFromAddr (nGRPCAddr n),
      niSandboxCount = to_int32 (nSandboxCount n), niFingerprint = nFingerprint n,
      niIssuedAt = unix_nano (nIssuedAt n), niExpiresAt = unix_nano (nExpiresAt n),
      niHeartbeat = (if is_zero_time (nHeartbeatAt n) then 0 else unix_nano (nHeartbeatAt n)),
      niStatus = (if IsNodeLive n now then StatusReady else StatusDown),
      niManagerStatus =
        (if nRole n = RoleManager then
           (if nID n = leaderID then ''leader'' else if nID n \<in> set peers then ''reachable'' else ''unreachable'')
         else [])\<rparr>"

definition nodeListLocal :: "raft_node \<Rightarrow> gotime \<Rightarrow> node_info list result" where
  "nodeListLocal raft now =
     (case ListNodes raft of
        Inl e \<Rightarrow> Inl (StatusError Internal e)
      | Inr nodes \<Rightarrow> Inr (map (\<lambda>n. nodeToInfo n (LeaderID raft) (peerIDSet raft) now) nodes))"

definition nodeInspectLocal :: "raft_node \<Rightarrow> gotime \<Rightarrow> string \<Rightarrow> node_info result" where
  "nodeInspectLocal raft now nodeID =
     (case resolveNode raft nodeID of
        Inl e \<Rightarrow> Inl e
      | Inr n \<Rightarrow> Inr (nodeToInfo n (LeaderID raft) (peerIDSet raft) now))"

section \<open>The eviction pass\<close>

type_synonym evict_state = "raft_node \<times> quarantine \<times> id_set"

definition evict_save :: "ca_loader \<Rightarrow> evict_decision \<Rightarrow> evict_state \<Rightarrow> evict_state" where
  "evict_save load dec st =
     (case st of (raft, q, marked) \<Rightarrow>
        (case SaveSandbox load raft (Some (edSandbox dec)) of
           (raft', Some _) \<Rightarrow> (raft', q, marked)
         | (raft', None) \<Rightarrow>
             if edReason dec = ReasonHeartbeat \<and> edSourceNodeID dec \<notin> set marked
             then (raft', MarkEvicted q (edSourceNodeID dec), edSourceNodeID dec # marked)
             else (raft', q, marked)))"

definition runEviction :: "ca_loader \<Rightarrow> gotime \<Rightarrow> node_daemon \<Rightarrow> node_daemon" where
  "runEviction load now d =
     (case (ndRaft d, ndQuarantine d) of
        (Some raft, Some q) \<Rightarrow>
          if \<not> IsLeader raft then d
          else
            (case (ListNodes raft, ListSandboxes raft) of
               (Inr nodes, Inr sandboxes) \<Rightarrow>
                 (case fold (evict_save load) (PlanVacate nodes sandboxes now (Excluded q)) (raft, q, []) of
                    (raft', q', _) \<Rightarrow> d\<lparr>ndRaft := Some raft', ndQuarantine := Some q'\<rparr>)
             | _ \<Rightarrow> d)
      | _ \<Rightarrow> d)"

definition vacateLogPrefix :: "vacate_reason \<Rightarrow> string" where
  "vacateLogPrefix r = (case r of ReasonDrain \<Rightarrow> ''drain'' | ReasonGone \<Rightarrow> ''gone'' | _ \<Rightarrow> ''eviction'')"

section \<open>Roles\<close>

definition NodePromote ::
  "ca_loader \<Rightarrow> (role \<Rightarrow> go_error option) \<Rightarrow> node_daemon \<Rightarrow> string \<Rightarrow> node_daemon \<times> unit result" where
  "NodePromote load role_err d req =
     (case managerLeader d of
        Inl e \<Rightarrow> (d, Inl e)
      | Inr raft \<Rightarrow>
          if req = [] then (d, Inl (status_error InvalidArgument ''node_id is required''))
          else
     (case resolveNode raft req of
        Inl e \<Rightarrow> (d, Inl e)
      | Inr n \<Rightarrow>
          if nRole n = RoleManager
          then (d, Inl (StatusError FailedPrecondition
                 (Errorf [Lit ''node '', Str (shortID (nID n)), Lit '' is already a manager''])))
          else
     (case SaveNode load raft (Some (n\<lparr>nRole := RoleManager\<rparr>)) of
        (raft1, Some e) \<Rightarrow> (d\<lparr>ndRaft := Some raft1\<rparr>, Inl (StatusError Internal e))
      | (raft1, None) \<Rightarrow>
          (d\<lparr>ndRaft := Some raft1\<rparr>,
           if isLocalNode d (nID n) then
             (case role_err RoleManager of
                Some e \<Rightarrow> Inl (StatusError Internal (Wrapped [Lit ''apply promote locally: ''] e))
              | None \<Rightarrow> Inr ())
           else Inr ()))))"

definition NodeDemote ::
  "ca_loader \<Rightarrow> (role \<Rightarrow> go_error option) \<Rightarrow> node_daemon \<Rightarrow> string \<Rightarrow> node_daemon \<times> unit result" where
  "NodeDemote load role_err d req =
     (case managerLeader d of
        Inl e \<Rightarrow> (d, Inl e)
      | Inr raft \<Rightarrow>
          if req = [] then (d, Inl (status_error InvalidArgument ''node_id is required''))
          else
     (case resolveNode raft req of
        Inl e \<Rightarrow> (d, Inl e)
      | Inr n \<Rightarrow>
          if nRole n \<noteq> RoleManager
          then (d, Inl (StatusError FailedPrecondition
                 (Errorf [Lit ''node '', Str (shortID (nID n)), Lit '' is not a manager''])))
          else
     (case countManagers raft of
        Inl e \<Rightarrow> (d, Inl (StatusError Internal e))
      | Inr managers \<Rightarrow>
          if managers \<le> 1 then (d, Inl (status_error FailedPrecondition ''cannot demote the last manager''))
          else if NumVoters raft \<le> 1
          then (d, Inl (status_error FailedPrecondition ''cannot demote the sole raft voter''))
          else if isLocalNode d (nID n) \<and> IsLeader raft then
            (case LeadershipTransfer raft of
               (raft1, Some e) \<Rightarrow> (d\<lparr>ndRaft := Some raft1\<rparr>,
                 Inl (StatusError Unavailable (Wrapped [Lit ''transfer leadership before demote: ''] e)))
             | (raft1, None) \<Rightarrow> (d\<lparr>ndRaft := Some raft1\<rparr>,
                 Inl (status_error Unavailable ''leadership transferred; re-run node demote on the new leader'')))
          else
     (case (if IsVoter raft (nID n) then RemoveServer raft (nID n) else (raft, None)) of
        (raft1, Some e) \<Rightarrow> (d\<lparr>ndRaft := Some raft1\<rparr>, Inl (StatusError Internal (Wrapped [Lit ''remove raft voter: ''] e)))
      | (raft1, None) \<Rightarrow>
     (case DeletePeer load raft1 (nID n) of
        (raft2, Some e) \<Rightarrow> (d\<lparr>ndRaft := Some raft2\<rparr>, Inl (StatusError Internal e))
      | (raft2, None) \<Rightarrow>
     (case SaveNode load raft2 (Some (n\<lparr>nRole := RoleWorker\<rparr>)) of
        (raft3, Some e) \<Rightarrow> (d\<lparr>ndRaft := Some raft3\<rparr>, Inl (StatusError Internal e))
      | (raft3, None) \<Rightarrow>
          (d\<lparr>ndRaft := Some raft3\<rparr>,
           if isLocalNode d (nID n) then
             (case role_err RoleWorker of
                Some e \<Rightarrow> Inl (StatusError Internal (Wrapped [Lit ''apply demote locally: ''] e))
              | None \<Rightarrow> Inr ())
           else Inr ())))))))"

section \<open>Removal\<close>

text \<open>What a manager must give up before its record goes: its vote and its peer entry.\<close>

definition drop_manager :: "ca_loader \<Rightarrow> raft_node \<Rightarrow> node \<Rightarrow> raft_node \<times> go_error option" where
  "drop_manager load raft n =
     (case countManagers raft of
        Inl e \<Rightarrow> (raft, Some (StatusError Internal e))
      | Inr managers \<Rightarrow>
          if managers \<le> 1 then (raft, Some (status_error FailedPrecondition ''cannot remove the last manager''))
          else
     (case (if IsVoter raft (nID n) then RemoveServer raft (nID n) else (raft, None)) of
        (raft1, Some e) \<Rightarrow> (raft1, Some (StatusError Internal (Wrapped [Lit ''remove raft voter: ''] e)))
      | (raft1, None) \<Rightarrow>
     (case DeletePeer load raft1 (nID n) of
        (raft2, Some e) \<Rightarrow> (raft2, Some (StatusError Internal e))
      | (raft2, None) \<Rightarrow> (raft2, None))))"

definition NodeRemove ::
  "ca_loader \<Rightarrow> gotime \<Rightarrow> node_daemon \<Rightarrow> string \<Rightarrow> bool \<Rightarrow> node_daemon \<times> unit result" where
  "NodeRemove load now d req force =
     (case managerLeader d of
        Inl e \<Rightarrow> (d, Inl e)
      | Inr raft \<Rightarrow>
          if req = [] then (d, Inl (status_error InvalidArgument ''node_id is required''))
          else
     (case resolveNode raft req of
        Inl e \<Rightarrow> (d, Inl e)
      | Inr n \<Rightarrow>
          if isLocalNode d (nID n)
          then (d, Inl (status_error FailedPrecondition ''cannot remove this node; use cellar leave''))
          else if IsNodeLive n now \<and> \<not> force
          then (d, Inl (status_error FailedPrecondition ''node appears live; pass --force to remove''))
          else
     (case (if nRole n = RoleManager then drop_manager load raft n else (raft, None)) of
        (raft1, Some e) \<Rightarrow> (d\<lparr>ndRaft := Some raft1\<rparr>, Inl e)
      | (raft1, None) \<Rightarrow>
     (case DeleteNode load raft1 (nID n) of
        (raft2, Some e) \<Rightarrow> (d\<lparr>ndRaft := Some raft2\<rparr>, Inl (StatusError Internal e))
      | (raft2, None) \<Rightarrow> (runEviction load now (d\<lparr>ndRaft := Some raft2\<rparr>), Inr ())))))"

section \<open>Update\<close>

record update_call =
  uqNodeID :: string
  uqRole :: string
  uqAvailability :: string
  uqLabelAdd :: labels
  uqLabelRm :: "string list"

text \<open>The availability of the updated record, and whether it changed.\<close>

definition update_availability :: "string \<Rightarrow> node \<Rightarrow> (node \<times> bool) result" where
  "update_availability a n =
     (if a = [] then Inr (n, False)
      else
        (case ParseAvailability a of
           Inl e \<Rightarrow> Inl (StatusError InvalidArgument e)
         | Inr av \<Rightarrow> if nAvailability n \<noteq> av then Inr (n\<lparr>nAvailability := av\<rparr>, True) else Inr (n, False)))"

definition update_labels :: "labels \<Rightarrow> string list \<Rightarrow> node \<times> bool \<Rightarrow> node \<times> bool" where
  "update_labels add rm nc =
     (case nc of (n, changed) \<Rightarrow>
        if add \<noteq> [] \<or> rm \<noteq> []
        then (n\<lparr>nLabels := fold gm_del rm (fold (\<lambda>(k, v). gm_put k v) add (CloneLabels (nLabels n)))\<rparr>, True)
        else (n, changed))"

definition update_role ::
  "ca_loader \<Rightarrow> (role \<Rightarrow> go_error option) \<Rightarrow> node_daemon \<Rightarrow> string \<Rightarrow> node \<Rightarrow> node_daemon \<times> unit result" where
  "update_role load role_err d r n =
     (if r = RoleManager then (if nRole n \<noteq> RoleManager then NodePromote load role_err d (nID n) else (d, Inr ()))
      else if r = RoleWorker then (if nRole n \<noteq> RoleWorker then NodeDemote load role_err d (nID n) else (d, Inr ()))
      else (d, Inl (status_error InvalidArgument ''role must be worker or manager'')))"

text \<open>The second half of \<open>NodeUpdate\<close>, over the record read after the role change.\<close>

definition update_record ::
  "ca_loader \<Rightarrow> gotime \<Rightarrow> node_daemon \<Rightarrow> raft_node \<Rightarrow> update_call \<Rightarrow> node \<Rightarrow> node_daemon \<times> node_info result" where
  "update_record load now d raft req n0 =
     (case update_availability (uqAvailability req) n0 of
        Inl e \<Rightarrow> (d, Inl e)
      | Inr nc \<Rightarrow>
     (case update_labels (uqLabelAdd req) (uqLabelRm req) nc of
        (n, changed) \<Rightarrow>
     (case (if changed then SaveNode load raft (Some n) else (raft, None)) of
        (raft1, Some e) \<Rightarrow> (d\<lparr>ndRaft := Some raft1\<rparr>, Inl (StatusError Internal e))
      | (raft1, None) \<Rightarrow>
          (d\<lparr>ndRaft := Some raft1\<rparr>, Inr (nodeToInfo n (LeaderID raft1) (peerIDSet raft1) now)))))"

definition NodeUpdate ::
  "ca_loader \<Rightarrow> (role \<Rightarrow> go_error option) \<Rightarrow> gotime \<Rightarrow> node_daemon \<Rightarrow> update_call \<Rightarrow> node_daemon \<times> node_info result" where
  "NodeUpdate load role_err now d req =
     (case managerLeader d of
        Inl e \<Rightarrow> (d, Inl e)
      | Inr raft \<Rightarrow>
          if uqNodeID req = [] then (d, Inl (status_error InvalidArgument ''node_id is required''))
          else
     (case resolveNode raft (uqNodeID req) of
        Inl e \<Rightarrow> (d, Inl e)
      | Inr n \<Rightarrow>
          if uqRole req = [] then update_record load now d raft req n
          else
     (case update_role load role_err d (uqRole req) n of
        (d1, Inl e) \<Rightarrow> (d1, Inl e)
      | (d1, Inr _) \<Rightarrow>
     (let raft1 = (case ndRaft d1 of None \<Rightarrow> raft | Some r \<Rightarrow> r) in
      case GetNode raft1 (nID n) of
        Inl e \<Rightarrow> (d1, Inl (mapNodeErr e))
      | Inr n1 \<Rightarrow> update_record load now d1 raft1 req n1))))"

section \<open>Some manager always remains\<close>

definition manager_at :: "raft_node \<Rightarrow> string \<Rightarrow> bool" where
  "manager_at s i = (\<exists>n. node_table s i = Some n \<and> nRole n = RoleManager)"

definition has_manager :: "raft_node \<Rightarrow> bool" where
  "has_manager s = list_ex (\<lambda>(_, n). nRole n = RoleManager) (fsNodes (rnFsm s))"

definition nodes_wf :: "raft_node \<Rightarrow> bool" where
  "nodes_wf s = keyed nID (fsNodes (rnFsm s))"

lemma nodes_wf_replica: "replica load (rnFsm s) \<Longrightarrow> nodes_wf s"
  using replica_keyed by (auto simp: nodes_wf_def fsm_keyed_def)

lemma has_manager_iff: "nodes_wf s \<Longrightarrow> has_manager s \<longleftrightarrow> (\<exists>i. manager_at s i)"
  by (force simp: has_manager_def manager_at_def nodes_wf_def keyed_def list_ex_iff gm_get_mem)

lemma clone_node_role [simp]: "nRole (clone_node n) = nRole n" "nID (clone_node n) = nID n"
  by (simp_all add: clone_node_def)

lemma countManagers_two:
  assumes "nodes_wf s" and "countManagers s = Inr m" and "\<not> m \<le> 1"
  shows "\<exists>j. j \<noteq> i \<and> manager_at s j"
proof -
  let ?f = "filter (\<lambda>(_, n). nRole n = RoleManager) (fsNodes (rnFsm s))"
  have len: "length ?f = m"
    using assms(2) by (simp add: countManagers_def ListNodes_def listNodes_def filter_map comp_def case_prod_unfold)
  have "distinct (map fst ?f)"
    using assms(1) by (simp add: nodes_wf_def keyed_def gm_wf_def distinct_map_fst_filter)
  then have "card (set (map fst ?f)) = m"
    using len distinct_card [of "map fst ?f"] by simp
  then have "\<not> set (map fst ?f) \<subseteq> {i}"
    using assms(3) card_mono [of "{i}" "set (map fst ?f)"] by (metis card_1_singleton_iff finite.emptyI finite.insertI is_singletonI is_singleton_altdef)
  then obtain x where "x \<in> set ?f" "fst x \<noteq> i" by (auto simp del: set_filter)
  then have "(fst x, snd x) \<in> set (fsNodes (rnFsm s))" "nRole (snd x) = RoleManager"
    by (simp_all add: case_prod_unfold)
  moreover have "gm_wf (fsNodes (rnFsm s))"
    using assms(1) by (simp add: nodes_wf_def keyed_def)
  ultimately have "manager_at s (fst x)"
    unfolding manager_at_def using gm_get_mem by fast
  with \<open>fst x \<noteq> i\<close> show ?thesis by blast
qed

lemma resolveNode_Inr:
  assumes "resolveNode s req = Inr n" and "nodes_wf s"
  shows "\<exists>m. node_table s (nID n) = Some m \<and> n = clone_node m"
proof -
  have mem: "\<exists>m. node_table s (nID n) = Some m \<and> n = clone_node m" if "n \<in> set (listNodes (rnFsm s))"
    using that assms(2) by (force simp: listNodes_def nodes_wf_def keyed_def gm_get_mem)
  show ?thesis
  proof (cases "GetNode s req")
    case (Inr m)
    with assms show ?thesis
      by (auto simp: resolveNode_def GetNode_def getNode_def nodes_wf_def keyed_def split: option.splits)
  next
    case (Inl e)
    with assms(1) have "filter (\<lambda>n. has_prefix req (nID n)) (listNodes (rnFsm s)) = [n]"
      by (auto simp: resolveNode_def ListNodes_def split: list.splits if_splits)
    then have "n \<in> set (filter (\<lambda>n. has_prefix req (nID n)) (listNodes (rnFsm s)))" by simp
    then show ?thesis by (intro mem) simp
  qed
qed

text \<open>An operation touches one node: the state stays reachable, and the table changes there only.\<close>

definition touches :: "ca_loader \<Rightarrow> string \<Rightarrow> raft_node \<Rightarrow> raft_node \<Rightarrow> bool" where
  "touches load i s s' \<longleftrightarrow> (replica load (rnFsm s) \<longrightarrow> replica load (rnFsm s')) \<and> (\<forall>j. j \<noteq> i \<longrightarrow> node_table s' j = node_table s j)"

lemma touches_refl [simp]: "touches load i s s"
  by (simp add: touches_def)

lemma touches_trans: "touches load i s s' \<Longrightarrow> touches load i s' s'' \<Longrightarrow> touches load i s s''"
  by (simp add: touches_def)

lemma SaveNode_touches: "touches load (nID n) s (fst (SaveNode load s (Some n)))"
  using nodes_db.save_frame [of _ n load s] by (auto simp: touches_def SaveNode_replica)

lemma DeleteNode_touches: "touches load i s (fst (DeleteNode load s i))"
  using nodes_db.remove_frame [of _ i load s] by (auto simp: touches_def DeleteNode_def store_apply_replica split: option.split)

lemma DeletePeer_nodes: "node_table (fst (DeletePeer load s i)) = node_table s"
proof -
  have "fsNodes (fst (applyDeletePeer f raw)) = fsNodes f" for f raw
    by (auto simp: applyDeletePeer_def split: sum.split)
  then show ?thesis
    using store_apply_fsm [of load s "encodeCommand opDeletePeer (no_fields\<lparr>jID := Given i\<rparr>)"]
    by (auto simp: DeletePeer_def Apply_ops split: option.split)
qed

lemma DeletePeer_touches: "touches load j s (fst (DeletePeer load s i))"
  by (simp add: touches_def DeletePeer_nodes) (simp add: DeletePeer_def store_apply_replica split: option.split)

lemma RemoveServer_touches: "touches load j s (fst (RemoveServer s i))"
  by (simp add: touches_def)

lemma LeadershipTransfer_touches: "touches load j s (fst (LeadershipTransfer s))"
  by (simp add: touches_def LeadershipTransfer_def)

lemma manager_spared:
  assumes "touches load i s s'" and "replica load (rnFsm s)" and "has_manager s"
    and "(\<exists>j. j \<noteq> i \<and> manager_at s j) \<or> (manager_at s i \<longrightarrow> manager_at s' i)"
  shows "replica load (rnFsm s') \<and> has_manager s'"
proof -
  have s': "replica load (rnFsm s')" "\<And>j. j \<noteq> i \<Longrightarrow> manager_at s' j = manager_at s j"
    using assms(1,2) by (auto simp: touches_def manager_at_def)
  obtain k where "manager_at s k"
    using assms(2,3) by (auto simp: has_manager_iff [OF nodes_wf_replica])
  then have "\<exists>k. manager_at s' k"
    using assms(4) s'(2) by metis
  with s'(1) show ?thesis
    by (simp add: has_manager_iff [OF nodes_wf_replica])
qed

lemma touching_calls:
  "SaveNode load s (Some n) = (s', e) \<Longrightarrow> nID n = i \<Longrightarrow> touches load i s s'"
  "DeleteNode load s i = (s', e) \<Longrightarrow> touches load i s s'"
  "DeletePeer load s k = (s', e) \<Longrightarrow> touches load i s s'"
  "RemoveServer s k = (s', e) \<Longrightarrow> touches load i s s'"
  "LeadershipTransfer s = (s', e) \<Longrightarrow> touches load i s s'"
  using SaveNode_touches [of load n s] DeleteNode_touches [of load i s] DeletePeer_touches [of load i s k]
    RemoveServer_touches [of load i s k] LeadershipTransfer_touches [of load i s] by auto

text \<open>Each operation leaves the store as it is, or touches the resolved node under its guards.\<close>

definition healthy :: "ca_loader \<Rightarrow> node_daemon \<Rightarrow> bool" where
  "healthy load d \<longleftrightarrow> (\<exists>s. ndRaft d = Some s \<and> replica load (rnFsm s) \<and> has_manager s)"

lemma managerLeader_Inr: "managerLeader d = Inr s \<Longrightarrow> ndRaft d = Some s \<and> IsLeader s"
  by (auto simp: managerLeader_def managerRaft_def split: option.splits if_splits)

lemma NodePromote_cases:
  "fst (NodePromote load role_err d req) = d \<or>
   (\<exists>s n s' e. ndRaft d = Some s \<and> resolveNode s req = Inr n \<and> SaveNode load s (Some (n\<lparr>nRole := RoleManager\<rparr>)) = (s', e) \<and>
      fst (NodePromote load role_err d req) = d\<lparr>ndRaft := Some s'\<rparr>)"
  by (auto simp: NodePromote_def dest!: managerLeader_Inr split: sum.splits prod.splits option.splits)

lemma NodeDemote_cases:
  "fst (NodeDemote load role_err d req) = d \<or>
   (\<exists>s n m s'. ndRaft d = Some s \<and> resolveNode s req = Inr n \<and> countManagers s = Inr m \<and> \<not> m \<le> 1 \<and> touches load (nID n) s s' \<and>
      fst (NodeDemote load role_err d req) = d\<lparr>ndRaft := Some s'\<rparr>)"
proof (cases "fst (NodeDemote load role_err d req) = d")
  case False
  then obtain s n m where s: "managerLeader d = Inr s" "req \<noteq> []" "resolveNode s req = Inr n" "countManagers s = Inr m"
      "\<not> m \<le> 1" "nRole n = RoleManager"
    by (auto simp: NodeDemote_def split: sum.splits if_splits)
  let ?i = "nID n"
  obtain r1 e1 where 1: "(if IsVoter s ?i then RemoveServer s ?i else (s, None)) = (r1, e1)" by fastforce
  obtain r2 e2 where 2: "DeletePeer load r1 ?i = (r2, e2)" by fastforce
  obtain r3 e3 where 3: "SaveNode load r2 (Some (n\<lparr>nRole := RoleWorker\<rparr>)) = (r3, e3)" by fastforce
  obtain r0 e0 where 0: "LeadershipTransfer s = (r0, e0)" by fastforce
  have t1: "touches load ?i s r1"
    using 1 by (auto dest: touching_calls(4) split: if_splits)
  then have t2: "touches load ?i s r2"
    using touching_calls(3) [OF 2] touches_trans by blast
  then have t3: "touches load ?i s r3"
    using touching_calls(1) [OF 3] touches_trans by fastforce
  note eqs = NodeDemote_def s 0 1 2 3
  have "fst (NodeDemote load role_err d req) \<in> {d, d\<lparr>ndRaft := Some r0\<rparr>, d\<lparr>ndRaft := Some r1\<rparr>, d\<lparr>ndRaft := Some r2\<rparr>, d\<lparr>ndRaft := Some r3\<rparr>}"
    by (cases e0; cases e1; cases e2; cases e3) (simp_all add: eqs)
  with False t1 t2 t3 touching_calls(5) [OF 0] s managerLeader_Inr [OF s(1)] show ?thesis by auto
qed simp

lemma drop_manager_touches:
  "drop_manager load s n = (s', e) \<Longrightarrow> s' = s \<and> e \<noteq> None \<or> (\<exists>m. countManagers s = Inr m \<and> \<not> m \<le> 1 \<and> touches load (nID n) s s')"
  by (auto simp: drop_manager_def dest!: touching_calls(3,4) [where i = "nID n"] intro: touches_trans
      split: sum.splits prod.splits option.splits if_splits)

lemma evict_save_touches: "touches load j (fst st) (fst (evict_save load dec st))"
proof -
  obtain s q m where st: "st = (s, q, m)" by (cases st)
  have "touches load j s (fst (SaveSandbox load s sb))" for sb
    using SaveSandbox_frame [of s load sb] by (simp add: touches_def SaveSandbox_replica same_but_sandboxes_def)
  then show ?thesis
    by (auto simp: evict_save_def st case_prod_beta split: option.split)
qed

lemma runEviction_touches:
  "runEviction load now d = d \<or>
   (\<exists>s s' q. ndRaft d = Some s \<and> (\<forall>j. touches load j s s') \<and> runEviction load now d = d\<lparr>ndRaft := Some s', ndQuarantine := q\<rparr>)"
proof -
  have "touches load j (fst st) (fst (fold (evict_save load) ds st))" for j ds st
  proof (induction ds arbitrary: st)
    case (Cons dec ds)
    then show ?case
      using evict_save_touches [of load j st dec] touches_trans by fastforce
  qed simp
  note touch = this [where st = "(s, q, [])" for s q, simplified]
  show ?thesis
  proof (cases "runEviction load now d = d")
    case False
    then obtain s q where s: "ndRaft d = Some s" "ndQuarantine d = Some q"
      by (auto simp: runEviction_def split: option.splits)
    obtain s' q' m where run: "fold (evict_save load) (PlanVacate (listNodes (rnFsm s)) (listSandboxes (rnFsm s)) now (Excluded q)) (s, q, [])
        = (s', q', m)" by (cases rule: prod_cases3) auto
    have "\<forall>j. touches load j s s'"
      using touch [of _ s _ q] by (metis run fst_conv)
    with False s run show ?thesis
      by (auto simp: runEviction_def ListNodes_def ListSandboxes_def)
  qed simp
qed

lemma resolved_manager:
  assumes "resolveNode s req = Inr n" and "replica load (rnFsm s)"
  shows "manager_at s (nID n) \<longleftrightarrow> nRole n = RoleManager"
  using resolveNode_Inr [OF assms(1) nodes_wf_replica [OF assms(2)]] by (auto simp: manager_at_def)

lemma healthy_touch:
  assumes "healthy load d" and "ndRaft d = Some s" and "touches load i s s'"
    and "replica load (rnFsm s) \<Longrightarrow> (\<exists>j. j \<noteq> i \<and> manager_at s j) \<or> (manager_at s i \<longrightarrow> manager_at s' i)"
  shows "healthy load (d\<lparr>ndRaft := Some s', ndQuarantine := q\<rparr>)" "healthy load (d\<lparr>ndRaft := Some s'\<rparr>)"
  using assms manager_spared [of load i s s'] by (auto simp: healthy_def)

lemma SaveNode_at: "SaveNode load s (Some n) = (s', e) \<Longrightarrow>
    node_table s' = node_table s \<or> node_table s' = (node_table s)(nID n \<mapsto> clone_node n)"
  using nodes_db.save_any [of load s n] by simp

lemma healthy_save:
  assumes "healthy load d" and "ndRaft d = Some s" and "SaveNode load s (Some n) = (s', e)"
    and "replica load (rnFsm s) \<Longrightarrow> manager_at s (nID n) \<Longrightarrow> nRole n = RoleManager"
  shows "healthy load (d\<lparr>ndRaft := Some s'\<rparr>)"
proof (rule healthy_touch(2) [OF assms(1,2) touching_calls(1) [OF assms(3) refl]])
  assume "replica load (rnFsm s)"
  then show "(\<exists>j. j \<noteq> nID n \<and> manager_at s j) \<or> (manager_at s (nID n) \<longrightarrow> manager_at s' (nID n))"
    using assms(4) SaveNode_at [OF assms(3)] by (auto simp: manager_at_def)
qed

lemma NodePromote_healthy: "healthy load d \<Longrightarrow> healthy load (fst (NodePromote load role_err d req))"
  using NodePromote_cases [of load role_err d req] healthy_save [of load d] by fastforce

lemma NodeDemote_healthy: "healthy load d \<Longrightarrow> healthy load (fst (NodeDemote load role_err d req))"
  using NodeDemote_cases [of load role_err d req] healthy_touch(2) [of load d] countManagers_two nodes_wf_replica by metis

lemma runEviction_healthy:
  assumes "healthy load d" shows "healthy load (runEviction load now d)"
proof -
  have keep: "manager_at s' i = manager_at s i" if "\<forall>j. touches load j s s'" for i s s'
    using spec [OF that, of "CHR ''x'' # i"] by (simp add: touches_def manager_at_def)
  consider "runEviction load now d = d"
    | s s' q where "ndRaft d = Some s" "\<forall>j. touches load j s s'" "runEviction load now d = d\<lparr>ndRaft := Some s', ndQuarantine := q\<rparr>"
    using runEviction_touches by blast
  then show ?thesis
  proof cases
    case 2
    then show ?thesis
      using healthy_touch(1) [OF assms 2(1), of undefined s' q] keep by auto
  qed (simp add: assms)
qed

lemma NodeRemove_healthy:
  assumes "healthy load d" shows "healthy load (fst (NodeRemove load now d req force))"
proof (cases "fst (NodeRemove load now d req force) = d")
  case False
  then obtain s n where s: "managerLeader d = Inr s" "req \<noteq> []" "resolveNode s req = Inr n"
      "\<not> isLocalNode d (nID n)" "\<not> (IsNodeLive n now \<and> \<not> force)"
    by (auto simp: NodeRemove_def split: sum.splits if_splits)
  let ?i = "nID n"
  note raft = conjunct1 [OF managerLeader_Inr [OF s(1)]]
  obtain r1 e1 where 1: "(if nRole n = RoleManager then drop_manager load s n else (s, None)) = (r1, e1)" by fastforce
  obtain r2 e2 where 2: "DeleteNode load r1 ?i = (r2, e2)" by fastforce
  have spare: "r1 = s \<and> e1 \<noteq> None \<or> touches load ?i s r1 \<and>
      (replica load (rnFsm s) \<longrightarrow> (\<exists>j. j \<noteq> ?i \<and> manager_at s j) \<or> \<not> manager_at s ?i)"
  proof (cases "nRole n = RoleManager")
    case True
    with 1 drop_manager_touches [of load s n r1 e1] countManagers_two nodes_wf_replica show ?thesis
      by (metis (full_types))
  next
    case False
    with 1 resolved_manager [OF s(3)] show ?thesis by auto
  qed
  then have h1: "healthy load (d\<lparr>ndRaft := Some r1\<rparr>)"
    using healthy_touch(2) [OF assms raft, of ?i r1] assms raft by (auto simp: healthy_def)
  have h2: "healthy load (d\<lparr>ndRaft := Some r2\<rparr>)" if "e1 = None"
    using spare that healthy_touch(2) [OF assms raft touches_trans [OF _ touching_calls(2) [OF 2]]] by blast
  have "fst (NodeRemove load now d req force) \<in> {d, d\<lparr>ndRaft := Some r1\<rparr>} \<or>
      e1 = None \<and> fst (NodeRemove load now d req force) \<in> {d\<lparr>ndRaft := Some r2\<rparr>, runEviction load now (d\<lparr>ndRaft := Some r2\<rparr>)}"
    by (cases e1; cases e2) (simp_all add: NodeRemove_def s 1 2)
  then show ?thesis
    using assms h1 h2 runEviction_healthy by auto
qed (simp add: assms)

lemma update_keeps_role:
  "update_availability a n = Inr (n', ch) \<Longrightarrow> nID n' = nID n \<and> nRole n' = nRole n"
  "update_labels add rm (n', ch) = (n'', ch') \<Longrightarrow> nID n'' = nID n' \<and> nRole n'' = nRole n'"
  by (auto simp: update_availability_def update_labels_def split: if_splits sum.splits)

lemma update_record_healthy:
  assumes "healthy load d" and "ndRaft d = Some s"
    and "replica load (rnFsm s) \<Longrightarrow> manager_at s (nID n) \<Longrightarrow> nRole n = RoleManager"
  shows "healthy load (fst (update_record load now d s req n))"
proof (cases "update_availability (uqAvailability req) n")
  case (Inl e)
  with assms(1) show ?thesis by (simp add: update_record_def)
next
  case (Inr nc)
  obtain n1 c1 where 1: "nc = (n1, c1)" by (cases nc)
  obtain n2 c2 where 2: "update_labels (uqLabelAdd req) (uqLabelRm req) (n1, c1) = (n2, c2)" by fastforce
  obtain s' e where 3: "(if c2 then SaveNode load s (Some n2) else (s, None)) = (s', e)" by fastforce
  have same: "nID n2 = nID n \<and> nRole n2 = nRole n"
    using update_keeps_role(1) [OF Inr [unfolded 1]] update_keeps_role(2) [OF 2] by simp
  have "healthy load (d\<lparr>ndRaft := Some s'\<rparr>)"
  proof (cases c2)
    case True
    with 3 same assms(3) show ?thesis
      by (intro healthy_save [OF assms(1,2)]) auto
  next
    case False
    with 3 assms(1,2) show ?thesis by (auto simp: healthy_def)
  qed
  then show ?thesis
    by (cases e) (simp_all add: update_record_def Inr 1 2 3)
qed

lemma update_role_healthy: "healthy load d \<Longrightarrow> healthy load (fst (update_role load role_err d r n))"
  by (simp add: update_role_def NodePromote_healthy NodeDemote_healthy)

lemma NodeUpdate_healthy:
  assumes "healthy load d" shows "healthy load (fst (NodeUpdate load role_err now d req))"
proof (cases "fst (NodeUpdate load role_err now d req) = d")
  case False
  then obtain s n where s: "managerLeader d = Inr s" "uqNodeID req \<noteq> []" "resolveNode s (uqNodeID req) = Inr n"
    by (auto simp: NodeUpdate_def split: sum.splits if_splits)
  note raft = conjunct1 [OF managerLeader_Inr [OF s(1)]]
  show ?thesis
  proof (cases "uqRole req = []")
    case True
    then have "fst (NodeUpdate load role_err now d req) = fst (update_record load now d s req n)"
      by (simp add: NodeUpdate_def s)
    then show ?thesis
      using update_record_healthy [OF assms raft, of n now req] resolved_manager [OF s(3), of load] by simp
  next
    case False
    obtain d1 r where 1: "update_role load role_err d (uqRole req) n = (d1, r)" by fastforce
    have h1: "healthy load d1"
      using update_role_healthy [OF assms, of role_err "uqRole req" n] 1 by simp
    then obtain s1 where s1: "ndRaft d1 = Some s1" by (auto simp: healthy_def)
    have "healthy load (fst (update_record load now d1 s1 req n1))" if n1: "GetNode s1 (nID n) = Inr n1" for n1
    proof (rule update_record_healthy [OF h1 s1])
      assume "replica load (rnFsm s1)" and m: "manager_at s1 (nID n1)"
      then have "nodes_wf s1" using nodes_wf_replica by blast
      with n1 m show "nRole n1 = RoleManager"
        by (auto simp: GetNode_table manager_at_def nodes_wf_def keyed_def split: option.splits)
    qed
    with h1 s1 False show ?thesis
      by (cases r; cases "GetNode s1 (nID n)") (simp_all add: NodeUpdate_def s 1)
  qed
qed (simp add: assms)

text \<open>
  The daemons that administration reaches from a cluster with a manager. Between two operations
  the environment may do anything that keeps the node records: elections, the library's
  answers, entries of the other tables.
\<close>

inductive administered :: "ca_loader \<Rightarrow> node_daemon \<Rightarrow> bool" for load where
  start: "ndRaft d = Some s \<Longrightarrow> replica load (rnFsm s) \<Longrightarrow> has_manager s \<Longrightarrow> administered load d"
| promote: "administered load d \<Longrightarrow> administered load (fst (NodePromote load role_err d i))"
| demote: "administered load d \<Longrightarrow> administered load (fst (NodeDemote load role_err d i))"
| remove: "administered load d \<Longrightarrow> administered load (fst (NodeRemove load now d i force))"
| update: "administered load d \<Longrightarrow> administered load (fst (NodeUpdate load role_err now d req))"
| evict: "administered load d \<Longrightarrow> administered load (runEviction load now d)"
| other: "administered load d \<Longrightarrow> ndRaft d = Some s \<Longrightarrow> replica load (rnFsm s') \<Longrightarrow>
    fsNodes (rnFsm s') = fsNodes (rnFsm s) \<Longrightarrow> administered load (d'\<lparr>ndRaft := Some s'\<rparr>)"

lemma administered_healthy: "administered load d \<Longrightarrow> healthy load d"
proof (induction rule: administered.induct)
  case (start d s)
  then show ?case by (auto simp: healthy_def)
next
  case (other d s s' d')
  then show ?case by (auto simp: healthy_def has_manager_def)
qed (simp_all add: NodePromote_healthy NodeDemote_healthy NodeRemove_healthy NodeUpdate_healthy runEviction_healthy)

text \<open>
  Claim C1: administration never leaves a cluster without a manager: however promotions,
  demotions, removals, updates and eviction passes are interleaved, failing half-way included
  (a call of the Raft library refused, an entry lost or committed after all), some node record
  keeps the manager role.
\<close>

theorem some_manager_remains:
  assumes "administered load d"
  shows "\<exists>s. ndRaft d = Some s \<and> has_manager s \<and> (\<exists>i n. GetNode s i = Inr n \<and> nRole n = RoleManager)"
proof -
  from administered_healthy [OF assms] obtain s where s: "ndRaft d = Some s" "replica load (rnFsm s)" "has_manager s"
    by (auto simp: healthy_def)
  then obtain i n where "node_table s i = Some n" "nRole n = RoleManager"
    by (auto simp: has_manager_iff [OF nodes_wf_replica] manager_at_def)
  then have "GetNode s i = Inr (clone_node n) \<and> nRole (clone_node n) = RoleManager"
    by (simp add: GetNode_table)
  with s show ?thesis by blast
qed

definition demo_manager_node :: node where
  "demo_manager_node = zero_node\<lparr>nID := ''m1'', nRole := RoleManager, nMembership := MembershipAccepted\<rparr>"

definition demo_managed_fsm :: fsm where
  "demo_managed_fsm = NewFSM\<lparr>fsNodes := [(''m1'', demo_manager_node)]\<rparr>"

definition demo_daemon :: node_daemon where
  "demo_daemon = \<lparr>ndRaft = Some (demo_raft True demo_managed_fsm), ndQuarantine = Some NewQuarantine, ndLocalID = Some ''m2''\<rparr>"

lemma demo_managed_replica: "replica load demo_managed_fsm"
proof -
  let ?f = "fst (fsm_Apply load 0 NewFSM (encodeCommand opSaveNode (no_fields\<lparr>jNode := Given demo_manager_node\<rparr>)))"
  have "replica load ?f"
    by (intro replica.applied replica.start)
  moreover have "?f = demo_managed_fsm"
    by (simp add: Apply_ops applySaveNode_def payload_defs demo_managed_fsm_def demo_manager_node_def NewFSM_def
        clone_node_def zero_node_def)
  ultimately show ?thesis by simp
qed

lemma demo_administered: "administered load demo_daemon"
  by (rule administered.start [where s = "demo_raft True demo_managed_fsm"])
    (simp_all add: demo_daemon_def demo_raft_def demo_managed_replica,
      simp add: has_manager_def demo_managed_fsm_def demo_manager_node_def)

theorem some_manager_remains_witness:
  "\<exists>s. ndRaft (fst (NodeDemote (\<lambda>_ _. Inl ErrNotLeader) (\<lambda>_. None)
      (fst (NodeRemove (\<lambda>_ _. Inl ErrNotLeader) 7 demo_daemon ''m1'' True)) ''m1'')) = Some s \<and> has_manager s"
  using some_manager_remains [OF administered.demote [OF administered.remove [OF demo_administered]]] by blast

section \<open>Removal\<close>

lemma resolveNode_prefix:
  assumes "resolveNode s req = Inr n" and "nodes_wf s"
  shows "nID n = req \<or> has_prefix req (nID n)"
proof (cases "GetNode s req")
  case (Inr m)
  with assms show ?thesis
    by (auto simp: resolveNode_def GetNode_table nodes_wf_def keyed_def split: option.splits)
next
  case (Inl e)
  with assms(1) have "filter (\<lambda>n. has_prefix req (nID n)) (listNodes (rnFsm s)) = [n]"
    by (auto simp: resolveNode_def ListNodes_def split: list.splits if_splits)
  then have "n \<in> set (filter (\<lambda>n. has_prefix req (nID n)) (listNodes (rnFsm s)))" by simp
  then show ?thesis by simp
qed

text \<open>
  A node is removed only by the leader and only on purpose: when a removal succeeds,
  the id or prefix in the request resolved to one node, not the daemon's own, which was not
  live or whose removal was forced, and which was not the only manager; its record is gone
  and every other record is as before, the eviction pass that follows included.
\<close>

theorem NodeRemove_effect:
  assumes "NodeRemove load now d req force = (d', Inr ())" and "ndRaft d = Some s" and "replica load (rnFsm s)"
  shows "\<exists>n s'. IsLeader s \<and> GetNode s (nID n) = Inr n \<and> (nID n = req \<or> has_prefix req (nID n)) \<and> \<not> isLocalNode d (nID n) \<and>
    (force \<or> \<not> IsNodeLive n now) \<and> (nRole n = RoleManager \<longrightarrow> (\<exists>j. j \<noteq> nID n \<and> manager_at s j)) \<and>
    ndRaft d' = Some s' \<and> node_table s' = (node_table s)(nID n := None)"
proof -
  obtain n where s: "managerLeader d = Inr s" "req \<noteq> []" "resolveNode s req = Inr n"
      "\<not> isLocalNode d (nID n)" "\<not> (IsNodeLive n now \<and> \<not> force)"
    using assms(1,2) by (auto simp: NodeRemove_def dest: managerLeader_Inr split: sum.splits if_splits)
  let ?i = "nID n"
  note wf = nodes_wf_replica [OF assms(3)]
  obtain r1 e1 where 1: "(if nRole n = RoleManager then drop_manager load s n else (s, None)) = (r1, e1)" by fastforce
  obtain r2 e2 where 2: "DeleteNode load r1 ?i = (r2, e2)" by fastforce
  have ok: "e1 = None" "e2 = None" "d' = runEviction load now (d\<lparr>ndRaft := Some r2\<rparr>)"
    using assms(1) by (auto simp: NodeRemove_def s 1 2 split: option.splits)
  have r1: "touches load ?i s r1 \<and> (nRole n = RoleManager \<longrightarrow> (\<exists>j. j \<noteq> ?i \<and> manager_at s j))"
    using 1 ok(1) drop_manager_touches [of load s n r1 e1] countManagers_two [OF wf] by (metis touches_refl prod.inject)
  have r2: "node_table r2 = (node_table s)(?i := None)"
    using nodes_db.remove_ok [of load r1 ?i] 2 ok(2) r1 by (auto simp: touches_def)
  have "\<exists>s'. ndRaft d' = Some s' \<and> (\<forall>j. node_table s' j = node_table r2 j)"
    using runEviction_touches [of load now "d\<lparr>ndRaft := Some r2\<rparr>"]
  proof
    assume "\<exists>s s' q. ndRaft (d\<lparr>ndRaft := Some r2\<rparr>) = Some s \<and> (\<forall>j. touches load j s s') \<and>
      runEviction load now (d\<lparr>ndRaft := Some r2\<rparr>) = d\<lparr>ndRaft := Some r2\<rparr>\<lparr>ndRaft := Some s', ndQuarantine := q\<rparr>"
    then obtain s' q where s': "\<forall>j. touches load j r2 s'" "ndRaft d' = Some s'" by (auto simp: ok(3))
    have "node_table s' j = node_table r2 j" for j
      using spec [OF s'(1), of "CHR ''x'' # j"] by (simp add: touches_def)
    with s'(2) show ?thesis by blast
  qed (simp add: ok(3))
  then obtain s' where s': "ndRaft d' = Some s'" "node_table s' = (node_table s)(?i := None)"
    using r2 by (auto simp: fun_eq_iff)
  have "GetNode s ?i = Inr n \<and> (?i = req \<or> has_prefix req ?i)"
    using resolveNode_Inr [OF s(3) wf] resolveNode_prefix [OF s(3) wf] by (auto simp: GetNode_table)
  with s s' r1 show ?thesis
    using managerLeader_Inr [OF s(1)] by blast
qed

definition demo_removal_fsm :: fsm where
  "demo_removal_fsm = NewFSM\<lparr>fsNodes := [(''n1'', zero_node\<lparr>nID := ''n1'', nRole := RoleWorker\<rparr>)]\<rparr>"

definition demo_removal_daemon :: node_daemon where
  "demo_removal_daemon = \<lparr>ndRaft = Some (demo_raft True demo_removal_fsm), ndQuarantine = None, ndLocalID = Some ''m1''\<rparr>"

lemma demo_removal_replica: "replica load demo_removal_fsm"
proof -
  let ?n = "zero_node\<lparr>nID := ''n1'', nRole := RoleWorker\<rparr> :: node"
  have "replica load (fst (fsm_Apply load 0 NewFSM (encodeCommand opSaveNode (no_fields\<lparr>jNode := Given ?n\<rparr>))))"
    by (intro replica.applied replica.start)
  moreover have "fst (fsm_Apply load 0 NewFSM (encodeCommand opSaveNode (no_fields\<lparr>jNode := Given ?n\<rparr>))) = demo_removal_fsm"
    by (simp add: Apply_ops applySaveNode_def payload_defs demo_removal_fsm_def NewFSM_def clone_node_def zero_node_def)
  ultimately show ?thesis by simp
qed

lemma demo_removed: "\<exists>d'. NodeRemove load 7 demo_removal_daemon ''n'' False = (d', Inr ())"
proof -
  let ?n = "zero_node\<lparr>nID := ''n1'', nRole := RoleWorker\<rparr> :: node" and ?s = "demo_raft True demo_removal_fsm"
  have "managerLeader demo_removal_daemon = Inr ?s"
    by (simp add: managerLeader_def managerRaft_def demo_removal_daemon_def IsLeader_def demo_raft_def)
  moreover have "resolveNode ?s ''n'' = Inr ?n"
    by (simp add: resolveNode_def GetNode_table demo_raft_def demo_removal_fsm_def ListNodes_def listNodes_def has_prefix_def
        clone_node_def zero_node_def)
  moreover have "\<not> IsNodeLive ?n 7"
    by (simp add: IsNodeLive_def zero_node_def is_zero_time_def zero_time_def)
  moreover have "snd (DeleteNode load ?s ''n1'') = None"
    by (simp add: DeleteNode_def leader_simps IsLeader_def store_apply_def fsm_step_def demo_raft_def Apply_ops
        applyDeleteNode_def payload_defs gm_has_def demo_removal_fsm_def)
  ultimately show ?thesis
    by (simp add: NodeRemove_def demo_removal_daemon_def isLocalNode_def case_prod_beta zero_node_def)
qed

theorem NodeRemove_effect_witness:
  "\<exists>d' s'. NodeRemove (\<lambda>_ _. Inl ErrNotLeader) 7 demo_removal_daemon ''n'' False = (d', Inr ()) \<and>
     ndRaft d' = Some s' \<and> node_table s' ''n1'' = None"
proof -
  obtain d' where run: "NodeRemove (\<lambda>_ _. Inl ErrNotLeader) 7 demo_removal_daemon ''n'' False = (d', Inr ())"
    using demo_removed by blast
  have raft: "ndRaft demo_removal_daemon = Some (demo_raft True demo_removal_fsm)"
    by (simp add: demo_removal_daemon_def)
  have "replica (\<lambda>_ _. Inl ErrNotLeader) (rnFsm (demo_raft True demo_removal_fsm))"
    by (simp add: demo_raft_def demo_removal_replica)
  from NodeRemove_effect [OF run raft this] obtain n s' where "GetNode (demo_raft True demo_removal_fsm) (nID n) = Inr n"
    "ndRaft d' = Some s'" "node_table s' = (node_table (demo_raft True demo_removal_fsm))(nID n := None)" by blast
  moreover from this(1) have "nID n = ''n1''"
    by (auto simp: GetNode_table demo_raft_def demo_removal_fsm_def split: if_splits)
  ultimately show ?thesis using run by auto
qed

end
