(* ===== verification/Go_Text.thy ===== *)
theory Go_Text
  imports Control_Access
begin

text \<open>
  The texts of the standard library that the gateway and the runtime server decide on: lower-casing,
  searching and number parsing of \<open>strings\<close> and \<open>strconv\<close>, the text of an error value, and the
  cleaning and joining of \<open>path/filepath\<close>.
\<close>

section \<open>Package strings\<close>

text \<open>
  \<open>strings.ToLower\<close>, as far as a comparison with ASCII text can tell: the capital letters, and the
  two other code points whose lower case is an ASCII letter (U+0130 and U+212A). \<open>strings.EqualFold\<close>
  instead folds U+017F and U+212A.
\<close>

function go_lower :: "string \<Rightarrow> string" where
  "go_lower s =
     (case s of
        [] \<Rightarrow> []
      | c # r \<Rightarrow>
          if has_prefix (bytes_of [196, 176]) s then CHR ''i'' # go_lower (drop 1 r)
          else if has_prefix (bytes_of [226, 132, 170]) s then CHR ''k'' # go_lower (drop 2 r)
          else ascii_lower c # go_lower r)"
  by pat_completeness auto
termination by (relation "measure length") auto

function go_fold :: "string \<Rightarrow> string" where
  "go_fold s =
     (case s of
        [] \<Rightarrow> []
      | c # r \<Rightarrow>
          if has_prefix (bytes_of [197, 191]) s then CHR ''s'' # go_fold (drop 1 r)
          else if has_prefix (bytes_of [226, 132, 170]) s then CHR ''k'' # go_fold (drop 2 r)
          else ascii_lower c # go_fold r)"
  by pat_completeness auto
termination by (relation "measure length") auto

declare go_lower.simps [simp del] go_fold.simps [simp del]

fun contains :: "string \<Rightarrow> string \<Rightarrow> bool" where
  "contains p [] = (p = [])"
| "contains p (c # s) = (has_prefix p (c # s) \<or> contains p s)"

text \<open>A text of lower-case ASCII is its own lower case.\<close>

lemma go_lower_plain:
  "\<forall>c \<in> set s. ascii_lower c = c \<and> (of_char c :: nat) < 128 \<Longrightarrow> go_lower s = s"
proof (induction s)
  case (Cons c s)
  have "\<not> has_prefix (bytes_of (n # ns)) (c # s)" if "128 \<le> n" "n < 256" for n ns
  proof
    assume "has_prefix (bytes_of (n # ns)) (c # s)"
    then have "c = char_of n" by (simp add: has_prefix_def bytes_of_def)
    then have "(of_char c :: nat) = n" using that by simp
    with Cons.prems that show False by simp
  qed
  with Cons show ?case by (subst go_lower.simps) simp
qed (simp add: go_lower.simps)

definition parse_uint :: "nat \<Rightarrow> string \<Rightarrow> nat option" where
  "parse_uint bits s =
     (if s \<noteq> [] \<and> (\<forall>c \<in> set s. 48 \<le> (of_char c :: nat) \<and> (of_char c :: nat) \<le> 57) then
        (let n = foldl (\<lambda>a c. 10 * a + (of_char c - 48)) 0 s in if n < 2 ^ bits then Some n else None)
      else None)"

section \<open>Error texts\<close>

text \<open>What \<open>Error()\<close> returns; the quoting of \<open>%q\<close> is an argument.\<close>

definition code_name :: "grpc_code \<Rightarrow> string" where
  "code_name c =
     (case c of
        OK \<Rightarrow> ''OK'' | Canceled \<Rightarrow> ''Canceled'' | Unknown \<Rightarrow> ''Unknown'' | InvalidArgument \<Rightarrow> ''InvalidArgument''
      | DeadlineExceeded \<Rightarrow> ''DeadlineExceeded'' | NotFound \<Rightarrow> ''NotFound'' | AlreadyExists \<Rightarrow> ''AlreadyExists''
      | PermissionDenied \<Rightarrow> ''PermissionDenied'' | ResourceExhausted \<Rightarrow> ''ResourceExhausted''
      | FailedPrecondition \<Rightarrow> ''FailedPrecondition'' | Aborted \<Rightarrow> ''Aborted'' | OutOfRange \<Rightarrow> ''OutOfRange''
      | Unimplemented \<Rightarrow> ''Unimplemented'' | Internal \<Rightarrow> ''Internal'' | Unavailable \<Rightarrow> ''Unavailable''
      | DataLoss \<Rightarrow> ''DataLoss'' | Unauthenticated \<Rightarrow> ''Unauthenticated'')"

fun part_text :: "(string \<Rightarrow> string) \<Rightarrow> msg_part \<Rightarrow> string" where
  "part_text quote (Lit s) = s"
| "part_text quote (Num n) = (if n < 0 then ''-'' @ show_nat (nat (- n)) else show_nat (nat n))"
| "part_text quote (Str s) = s"
| "part_text quote (Quoted s) = quote s"

fun error_text :: "(string \<Rightarrow> string) \<Rightarrow> go_error \<Rightarrow> string" where
  "error_text quote ErrNotInitialized = ''cluster not initialized''"
| "error_text quote ErrAlreadyInitialized = ''cluster already initialized''"
| "error_text quote ErrNodeNotFound = ''node not found''"
| "error_text quote ErrSandboxNotFound = ''sandbox not found''"
| "error_text quote ErrVolumeNotFound = ''volume not found''"
| "error_text quote ErrNameExists = ''name already exists''"
| "error_text quote ErrAPIKeyNotFound = ''api key not found''"
| "error_text quote ErrNotLeader = ''not the raft leader''"
| "error_text quote SandboxErrNameExists = ''name already exists''"
| "error_text quote ErrStaleAssignment = ''stale assignment generation''"
| "error_text quote (Errorf ps) = concat (map (part_text quote) ps)"
| "error_text quote (Wrapped ps e) = concat (map (part_text quote) ps) @ error_text quote e"
| "error_text quote (StatusError c e) = ''rpc error: code = '' @ code_name c @ '' desc = '' @ error_text quote e"
| "error_text quote (LibraryError s) = s"

text \<open>\<open>status.FromError\<close>: the message of a status, or the whole text where one is wrapped.\<close>

definition status_message :: "(string \<Rightarrow> string) \<Rightarrow> go_error \<Rightarrow> string" where
  "status_message quote e = (case e of StatusError c m \<Rightarrow> error_text quote m | _ \<Rightarrow> error_text quote e)"

section \<open>File paths\<close>

text \<open>
  \<open>filepath.Clean\<close> on the components between slashes: empty and \<open>.\<close> components are dropped, \<open>..\<close>
  takes the component before it away, at the root it is dropped and at the start of a relative path
  it stays. The accumulator is the reversed result.
\<close>

fun clean_comps :: "bool \<Rightarrow> string list \<Rightarrow> string list \<Rightarrow> string list" where
  "clean_comps rooted acc [] = rev acc"
| "clean_comps rooted acc (c # cs) =
     (if c = [] \<or> c = ''.'' then clean_comps rooted acc cs
      else if c = ''..'' then
        (if acc \<noteq> [] \<and> hd acc \<noteq> ''..'' then clean_comps rooted (tl acc) cs
         else if rooted then clean_comps rooted acc cs
         else clean_comps rooted (c # acc) cs)
      else clean_comps rooted (c # acc) cs)"

definition path_rooted :: "string \<Rightarrow> bool" where
  "path_rooted p \<longleftrightarrow> has_prefix ''/'' p"

definition path_comps :: "string \<Rightarrow> string list" where
  "path_comps p = clean_comps (path_rooted p) [] (split_on CHR ''/'' p)"

definition filepath_Clean :: "string \<Rightarrow> string" where
  "filepath_Clean p =
     (if path_rooted p then CHR ''/'' # join_on CHR ''/'' (path_comps p)
      else if path_comps p = [] then ''.'' else join_on CHR ''/'' (path_comps p))"

definition filepath_Join :: "string \<Rightarrow> string \<Rightarrow> string" where
  "filepath_Join a b =
     (if a = [] \<and> b = [] then [] else if a = [] then filepath_Clean b else if b = [] then filepath_Clean a
      else filepath_Clean (a @ CHR ''/'' # b))"

section \<open>Facts on paths\<close>

lemma split_on_join: "split_on c (p @ c # q) = split_on c p @ split_on c q"
  by (induction p) (auto split: list.split)

lemma clean_comps_append:
  "clean_comps rooted acc (xs @ ys) = clean_comps rooted (rev (clean_comps rooted acc xs)) ys"
  by (induction xs arbitrary: acc) auto

text \<open>Cleaning keeps plain names, and what it leaves of a rooted path is plain.\<close>

definition plain_name :: "string \<Rightarrow> bool" where
  "plain_name c \<longleftrightarrow> c \<noteq> [] \<and> c \<noteq> ''.'' \<and> c \<noteq> ''..''"

lemma clean_comps_plain: "\<forall>c \<in> set xs. plain_name c \<Longrightarrow> clean_comps rooted acc xs = rev acc @ xs"
  by (induction xs arbitrary: acc) (auto simp: plain_name_def)

lemma clean_comps_all_plain:
  "\<forall>c \<in> set acc. plain_name c \<Longrightarrow> \<forall>c \<in> set (clean_comps True acc xs). plain_name c"
proof (induction xs arbitrary: acc)
  case (Cons x xs)
  have up: "\<forall>c \<in> set (tl acc). plain_name c" using Cons.prems by (cases acc) simp_all
  consider "x = [] \<or> x = ''.''" | "x = ''..''" | "plain_name x" by (auto simp: plain_name_def)
  then show ?case
  proof cases
    case 1
    with Cons.IH [OF Cons.prems] show ?thesis by auto
  next
    case 2
    with Cons.IH [OF Cons.prems] Cons.IH [OF up] show ?thesis by auto
  next
    case 3
    then have "clean_comps True acc (x # xs) = clean_comps True (x # acc) xs" by (simp add: plain_name_def)
    moreover have "\<forall>c \<in> set (x # acc). plain_name c" using 3 Cons.prems by simp
    ultimately show ?thesis using Cons.IH by metis
  qed
qed simp

lemma clean_comps_subset: "set (clean_comps rooted acc xs) \<subseteq> set acc \<union> set xs"
proof (induction xs arbitrary: acc)
  case (Cons x xs)
  have "set (tl acc) \<subseteq> set acc" by (cases acc) auto
  then show ?case
    using Cons.IH [of acc] Cons.IH [of "x # acc"] Cons.IH [of "tl acc"] by auto
qed simp

lemma clean_comps_no_parent:
  "''..'' \<notin> set xs \<Longrightarrow> clean_comps True acc xs = rev acc @ filter plain_name xs"
  by (induction xs arbitrary: acc) (auto simp: plain_name_def)

lemma split_join: "ps \<noteq> [] \<Longrightarrow> \<forall>p \<in> set ps. c \<notin> set p \<Longrightarrow> split_on c (join_on c ps) = ps"
proof (induction c ps rule: join_on.induct)
  case (2 c p)
  then show ?case by (induction p) auto
next
  case (3 c p q ps)
  then show ?case by (simp add: split_on_append)
qed simp

text \<open>Cleaning a path again changes nothing.\<close>

lemma path_comps_Clean:
  assumes "path_rooted p"
  shows "path_comps (filepath_Clean p) = path_comps p"
proof (cases "path_comps p = []")
  case True
  with assms show ?thesis by (simp add: filepath_Clean_def path_comps_def path_rooted_def has_prefix_def)
next
  case False
  have plain: "\<forall>c \<in> set (path_comps p). plain_name c"
    using assms clean_comps_all_plain [of "[]"] by (simp add: path_comps_def)
  have "set (path_comps p) \<subseteq> set (split_on CHR ''/'' p)"
    using clean_comps_subset [of "path_rooted p" "[]"] by (simp add: path_comps_def)
  then have "\<forall>c \<in> set (path_comps p). CHR ''/'' \<notin> set c"
    using split_on_parts by blast
  with False have "split_on CHR ''/'' (join_on CHR ''/'' (path_comps p)) = path_comps p"
    by (intro split_join) simp_all
  moreover have "path_rooted (CHR ''/'' # s)" for s
    by (simp add: path_rooted_def has_prefix_def)
  ultimately show ?thesis
    using assms plain by (simp add: filepath_Clean_def path_comps_def [of "CHR ''/'' # s" for s] clean_comps_plain)
qed

text \<open>How far below its start a relative path stays: None once it has climbed above it.\<close>

fun path_depth :: "nat \<Rightarrow> string list \<Rightarrow> nat option" where
  "path_depth d [] = Some d"
| "path_depth d (c # cs) =
     (if c = [] \<or> c = ''.'' then path_depth d cs
      else if c = ''..'' then (if d = 0 then None else path_depth (d - 1) cs)
      else path_depth (d + 1) cs)"

lemma clean_comps_below:
  "path_depth (length acc) xs \<noteq> None \<Longrightarrow> \<forall>c \<in> set acc. plain_name c \<Longrightarrow>
     clean_comps True (acc @ base) xs = rev base @ clean_comps True acc xs"
proof (induction xs arbitrary: acc)
  case (Cons c cs)
  show ?case
  proof (cases "c = ''..''")
    case True
    with Cons.prems obtain a acc' where acc: "acc = a # acc'" "a \<noteq> ''..''"
      by (cases acc) (auto simp: plain_name_def)
    with True Cons show ?thesis by simp
  next
    case False
    then show ?thesis
      using Cons.prems Cons.IH [of acc] Cons.IH [of "c # acc"] by (auto simp: plain_name_def)
  qed
qed simp

lemma path_comps_Join:
  assumes "path_rooted root" and "rel \<noteq> []"
  shows "path_comps (root @ CHR ''/'' # rel) = clean_comps True (rev (path_comps root)) (split_on CHR ''/'' rel)"
proof -
  have "path_rooted (root @ CHR ''/'' # rel)"
    using assms(1) by (auto simp: path_rooted_def has_prefix_iff)
  then show ?thesis
    using assms(1) by (simp add: path_comps_def split_on_join clean_comps_append)
qed

text \<open>
  A joined path whose relative part never climbs above its start lies below the root, at the place
  the relative part names.
\<close>

lemma Join_below:
  assumes "path_rooted root" and "rel \<noteq> []" and "path_depth 0 (split_on CHR ''/'' rel) \<noteq> None"
  shows "path_comps (root @ CHR ''/'' # rel) = path_comps root @ clean_comps True [] (split_on CHR ''/'' rel)"
  using clean_comps_below [of "[]" "split_on CHR ''/'' rel" "rev (path_comps root)"] assms
  by (simp add: path_comps_Join)

end
