(* ===== verification/Cli_Lists.thy ===== *)
theory Cli_Lists
  imports Node_Admin Go_Text
begin

text \<open>
  The listings of the command line (\<open>cmd/cellar/sandbox_list.go\<close> and the helpers of \<open>node.go\<close>):
  filters, the resolution of node prefixes, and what is written for a sandbox or a node. The
  alignment of tables, protobuf's JSON and YAML are libraries, and so arguments.
\<close>

section \<open>Filters\<close>

text \<open>\<open>strings.Cut\<close> at a character: what is before, what is after, and whether it was found.\<close>

definition strings_Cut :: "char \<Rightarrow> string \<Rightarrow> string \<times> string \<times> bool" where
  "strings_Cut c s =
     (if c \<in> set s then (takeWhile (\<lambda>x. x \<noteq> c) s, tl (dropWhile (\<lambda>x. x \<noteq> c) s), True) else (s, [], False))"

record list_filter =
  lfPhases :: "string list"
  lfDesireds :: "string list"
  lfImages :: "string list"

fun parse_filters :: "list_filter \<Rightarrow> string list \<Rightarrow> list_filter result" where
  "parse_filters f [] = Inr f"
| "parse_filters f (r # rs) =
     (case strings_Cut CHR ''='' r of
        (key, value, ok) \<Rightarrow>
          if \<not> ok \<or> key = [] \<or> value = [] then Inl (Errorf [Lit ''invalid --filter '', Quoted r, Lit '' (want key=value)''])
          else if key = ''phase'' then parse_filters (f\<lparr>lfPhases := lfPhases f @ [value]\<rparr>) rs
          else if key = ''desired'' then parse_filters (f\<lparr>lfDesireds := lfDesireds f @ [value]\<rparr>) rs
          else if key = ''image'' then parse_filters (f\<lparr>lfImages := lfImages f @ [value]\<rparr>) rs
          else Inl (Errorf [Lit ''unknown --filter key '', Quoted key, Lit '' (supported: phase, desired, image)'']))"

definition parseSandboxFilters :: "string list \<Rightarrow> list_filter result" where
  "parseSandboxFilters raw = parse_filters \<lparr>lfPhases = [], lfDesireds = [], lfImages = []\<rparr> raw"

fun any_equal :: "string list \<Rightarrow> string \<Rightarrow> bool" where
  "any_equal [] got = False"
| "any_equal (w # ws) got = (w = got \<or> any_equal ws got)"

definition matchAny :: "string list \<Rightarrow> string \<Rightarrow> bool" where
  "matchAny want got = (length want = 0 \<or> any_equal want got)"

definition sandboxImageRef :: "json_codec \<Rightarrow> sandbox_proto \<Rightarrow> string" where
  "sandboxImageRef json sb = ImageReference (sbSpec (FromProto json sb))"

definition proto_phase :: "sandbox_proto \<Rightarrow> string" where
  "proto_phase sb = (case pbStatus sb of None \<Rightarrow> [] | Some st \<Rightarrow> spPhase st)"

definition applySandboxFilters :: "json_codec \<Rightarrow> sandbox_proto list \<Rightarrow> list_filter \<Rightarrow> sandbox_proto list" where
  "applySandboxFilters json sandboxes f =
     (if length (lfPhases f) = 0 \<and> length (lfDesireds f) = 0 \<and> length (lfImages f) = 0 then sandboxes
      else filter (\<lambda>sb. matchAny (lfPhases f) (proto_phase sb) \<and> matchAny (lfDesireds f) (pbDesired sb) \<and>
                        matchAny (lfImages f) (sandboxImageRef json sb)) sandboxes)"

definition filterSandboxesByNode :: "sandbox_proto list \<Rightarrow> string \<Rightarrow> sandbox_proto list" where
  "filterSandboxesByNode sandboxes nodeID = (if nodeID = [] then sandboxes else filter (\<lambda>sb. pbNodeId sb = nodeID) sandboxes)"

definition resolveNodeIDPrefix :: "node_info list \<Rightarrow> string \<Rightarrow> string result" where
  "resolveNodeIDPrefix nodes idOrPrefix =
     (if idOrPrefix = [] then Inl (errorf ''node id is required'')
      else if idOrPrefix \<in> set (map niNodeId nodes) then Inr idOrPrefix
      else
        (case filter (has_prefix idOrPrefix) (map niNodeId nodes) of
           [] \<Rightarrow> Inl (Errorf [Lit ''node '', Quoted idOrPrefix, Lit '' not found''])
         | [i] \<Rightarrow> Inr i
         | matches \<Rightarrow> Inl (Errorf [Lit ''node id prefix '', Quoted idOrPrefix, Lit '' is ambiguous ('',
                                  Num (int (length matches)), Lit '' matches)''])))"

section \<open>Text\<close>

definition shortNodeID :: "string \<Rightarrow> string" where
  "shortNodeID i = (if length i > 12 then take 12 i else i)"

definition nodeHostname :: "node_info option \<Rightarrow> string" where
  "nodeHostname n =
     (case n of
        None \<Rightarrow> []
      | Some n \<Rightarrow>
          (let h = trim_space (niHostname n); addr = trim_space (niRuntimeGrpcAddr n) in
           if h \<noteq> [] then h
           else if addr = [] then []
           else (case splitHostPort addr of Some (host, _) \<Rightarrow> host | None \<Rightarrow> addr)))"

definition show_int :: "int \<Rightarrow> string" where
  "show_int n = (if n < 0 then ''-'' @ show_nat (nat (- n)) else show_nat (nat n))"

definition sandboxCountDisplay :: "node_info option \<Rightarrow> string" where
  "sandboxCountDisplay n =
     (case n of None \<Rightarrow> ''-'' | Some n \<Rightarrow> if niStatus n \<noteq> StatusReady then ''-'' else show_int (niSandboxCount n))"

fun parse_labels :: "labels \<Rightarrow> string list \<Rightarrow> labels result" where
  "parse_labels m [] = Inr m"
| "parse_labels m (p # ps) =
     (case strings_Cut CHR ''='' p of
        (k, v, ok) \<Rightarrow>
          if \<not> ok \<or> k = [] then Inl (Errorf [Lit ''invalid --label-add '', Quoted p, Lit '' (want key=value)''])
          else parse_labels (gm_put k v m) ps)"

definition parseLabelPairs :: "string list \<Rightarrow> labels result" where
  "parseLabelPairs pairs = parse_labels [] pairs"

text \<open>A row of a table: its cells, separated by tabs, which the writer \<open>align\<close> lays out.\<close>

definition row :: "string list \<Rightarrow> string" where
  "row cells = join_on CHR 0x09 cells @ [CHR 0x0A]"

definition sandbox_rows :: "json_codec \<Rightarrow> sandbox_proto list \<Rightarrow> string" where
  "sandbox_rows json sandboxes =
     row [''ID'', ''NAME'', ''NODE'', ''DESIRED'', ''PHASE'', ''IMAGE''] @
     concat (map (\<lambda>sb. row [pbId sb, pbName sb, shortNodeID (pbNodeId sb), pbDesired sb, proto_phase sb, sandboxImageRef json sb]) sandboxes)"

text \<open>The encoders: a sandbox's JSON, the array of them, and YAML from that array.\<close>

record 'doc list_encoders =
  leAlign :: "string \<Rightarrow> string"
  leMarshal :: "sandbox_proto \<Rightarrow> string result"
  leArray :: "string list \<Rightarrow> string result"
  leDocs :: "string \<Rightarrow> 'doc list result"
  leYaml :: "'doc list \<Rightarrow> string result"

definition writeSandboxTable :: "'doc list_encoders \<Rightarrow> json_codec \<Rightarrow> sandbox_proto list \<Rightarrow> string" where
  "writeSandboxTable enc json sandboxes = leAlign enc (sandbox_rows json sandboxes)"

fun marshal_all :: "(sandbox_proto \<Rightarrow> string result) \<Rightarrow> sandbox_proto list \<Rightarrow> string list result" where
  "marshal_all f [] = Inr []"
| "marshal_all f (sb # sbs) =
     (case f sb of Inl e \<Rightarrow> Inl e | Inr b \<Rightarrow> (case marshal_all f sbs of Inl e \<Rightarrow> Inl e | Inr bs \<Rightarrow> Inr (b # bs)))"

definition sandboxListToJSONArray :: "'doc list_encoders \<Rightarrow> sandbox_proto list \<Rightarrow> string result" where
  "sandboxListToJSONArray enc sandboxes =
     (case marshal_all (leMarshal enc) sandboxes of
        Inl e \<Rightarrow> Inl e
      | Inr parts \<Rightarrow> (case leArray enc parts of Inl e \<Rightarrow> Inl e | Inr out \<Rightarrow> Inr (out @ [CHR 0x0A])))"

definition sandboxListToYAML :: "'doc list_encoders \<Rightarrow> sandbox_proto list \<Rightarrow> string result" where
  "sandboxListToYAML enc sandboxes =
     (case sandboxListToJSONArray enc sandboxes of
        Inl e \<Rightarrow> Inl e
      | Inr jsonBytes \<Rightarrow> (case leDocs enc jsonBytes of Inl e \<Rightarrow> Inl e | Inr docs \<Rightarrow> leYaml enc docs))"

text \<open>What is written, for a writer that does not fail.\<close>

definition writeSandboxList :: "'doc list_encoders \<Rightarrow> json_codec \<Rightarrow> string \<Rightarrow> sandbox_proto list \<Rightarrow> string result" where
  "writeSandboxList enc json format sandboxes =
     (let f = go_lower format in
      if f = ''table'' \<or> f = [] then Inr (writeSandboxTable enc json sandboxes)
      else if f = ''json'' then sandboxListToJSONArray enc sandboxes
      else if f = ''yaml'' \<or> f = ''yml'' then sandboxListToYAML enc sandboxes
      else Inl (Errorf [Lit ''unsupported --format '', Quoted format, Lit '' (want table|json|yaml)'']))"

section \<open>What filters keep\<close>

lemma any_equal_iff: "any_equal ws g \<longleftrightarrow> g \<in> set ws"
  by (induction ws) auto

lemma Cut_split: "strings_Cut c s = (k, v, True) \<longleftrightarrow> c \<notin> set k \<and> s = k @ c # v"
proof
  assume "strings_Cut c s = (k, v, True)"
  then have k: "c \<in> set s" "k = takeWhile (\<lambda>x. x \<noteq> c) s" "v = tl (dropWhile (\<lambda>x. x \<noteq> c) s)"
    by (auto simp: strings_Cut_def split: if_splits)
  from k(1) have "dropWhile (\<lambda>x. x \<noteq> c) s \<noteq> []" by (auto simp: dropWhile_eq_Nil_conv)
  then have "dropWhile (\<lambda>x. x \<noteq> c) s = c # v" using k(3) hd_dropWhile [of "\<lambda>x. x \<noteq> c" s] by (cases "dropWhile (\<lambda>x. x \<noteq> c) s") auto
  then have "s = k @ c # v" using takeWhile_dropWhile_id [of "\<lambda>x. x \<noteq> c" s] k(2) by simp
  moreover have "c \<notin> set k" using k(2) by (auto dest: set_takeWhileD)
  ultimately show "c \<notin> set k \<and> s = k @ c # v" by blast
next
  assume "c \<notin> set k \<and> s = k @ c # v"
  then show "strings_Cut c s = (k, v, True)"
    by (auto simp: strings_Cut_def takeWhile_append dropWhile_append)
qed

definition filter_values :: "string \<Rightarrow> string list \<Rightarrow> string list" where
  "filter_values key raw =
     concat (map (\<lambda>r. case strings_Cut CHR ''='' r of (k, v, ok) \<Rightarrow> if ok \<and> k = key then [v] else []) raw)"

lemma filter_values_iff:
  assumes "CHR ''='' \<notin> set key"
  shows "v \<in> set (filter_values key raw) \<longleftrightarrow> key @ CHR ''='' # v \<in> set raw"
proof -
  have "(\<exists>r \<in> set raw. strings_Cut CHR ''='' r = (key, v, True)) \<longleftrightarrow> key @ CHR ''='' # v \<in> set raw"
    using assms by (auto simp: Cut_split)
  moreover have "v \<in> set (filter_values key raw) \<longleftrightarrow> (\<exists>r \<in> set raw. strings_Cut CHR ''='' r = (key, v, True))"
    by (induction raw) (auto simp: filter_values_def split: prod.splits if_splits)
  ultimately show ?thesis by blast
qed

lemma filter_values_Cons:
  "strings_Cut CHR ''='' r = (k, v, ok) \<Longrightarrow>
     filter_values key (r # raw) = (if ok \<and> k = key then [v] else []) @ filter_values key raw"
  by (simp add: filter_values_def)

lemma parse_filters_values:
  "parse_filters f raw = Inr g \<Longrightarrow>
     lfPhases g = lfPhases f @ filter_values ''phase'' raw \<and> lfDesireds g = lfDesireds f @ filter_values ''desired'' raw \<and>
     lfImages g = lfImages f @ filter_values ''image'' raw \<and>
     (\<forall>r \<in> set raw. \<exists>k \<in> {''phase'', ''desired'', ''image''}. \<exists>v. v \<noteq> [] \<and> r = k @ CHR ''='' # v)"
proof (induction raw arbitrary: f)
  case Nil
  then show ?case by (simp add: filter_values_def)
next
  case (Cons r raw)
  obtain k v ok where cut: "strings_Cut CHR ''='' r = (k, v, ok)" by (cases "strings_Cut CHR ''='' r") auto
  with Cons.prems have ok: "ok" "v \<noteq> []" and key: "k = ''phase'' \<or> k = ''desired'' \<or> k = ''image''"
    by (auto split: if_splits)
  then have r: "r = k @ CHR ''='' # v" using cut Cut_split [of "CHR ''=''" r k v] by simp
  from key show ?case
  proof (elim disjE)
    assume "k = ''phase''"
    with Cons cut ok r show ?thesis by (auto simp: filter_values_Cons)
  next
    assume "k = ''desired''"
    with Cons cut ok r show ?thesis by (auto simp: filter_values_Cons)
  next
    assume "k = ''image''"
    with Cons cut ok r show ?thesis by (auto simp: filter_values_Cons)
  qed
qed

lemma matchAny_iff: "matchAny ws g \<longleftrightarrow> (ws \<noteq> [] \<longrightarrow> g \<in> set ws)"
  by (auto simp: matchAny_def any_equal_iff)

lemma match_values:
  assumes "CHR ''='' \<notin> set key"
  shows "matchAny (filter_values key raw) g \<longleftrightarrow> ((\<exists>v. key @ CHR ''='' # v \<in> set raw) \<longrightarrow> key @ CHR ''='' # g \<in> set raw)"
  using filter_values_iff [OF assms, of _ raw] by (auto simp: matchAny_iff) (metis list.set_intros(1) neq_Nil_conv)+

definition sandbox_attr :: "json_codec \<Rightarrow> sandbox_proto \<Rightarrow> string \<Rightarrow> string" where
  "sandbox_attr json sb key =
     (if key = ''phase'' then proto_phase sb else if key = ''desired'' then pbDesired sb else sandboxImageRef json sb)"

text \<open>
  Filters on one attribute are alternatives and filters on several narrow: the listing
  keeps, in its order, exactly the sandboxes whose value is among those given for each attribute
  that any filter names; and a filter that is not one of the three attributes with a value is
  refused.
\<close>

theorem filters_keep:
  assumes "parseSandboxFilters raw = Inr f"
  shows "applySandboxFilters json sbs f =
      filter (\<lambda>sb. \<forall>key \<in> {''phase'', ''desired'', ''image''}.
        (\<exists>v. key @ ''='' @ v \<in> set raw) \<longrightarrow> key @ ''='' @ sandbox_attr json sb key \<in> set raw) sbs \<and>
    (\<forall>r \<in> set raw. \<exists>key \<in> {''phase'', ''desired'', ''image''}. \<exists>v. v \<noteq> [] \<and> r = key @ ''='' @ v)"
proof -
  note v = parse_filters_values [OF assms [unfolded parseSandboxFilters_def]]
  have f: "lfPhases f = filter_values ''phase'' raw" "lfDesireds f = filter_values ''desired'' raw" "lfImages f = filter_values ''image'' raw"
    using v by simp_all
  have "applySandboxFilters json sbs f = filter (\<lambda>sb. matchAny (lfPhases f) (proto_phase sb) \<and> matchAny (lfDesireds f) (pbDesired sb) \<and>
      matchAny (lfImages f) (sandboxImageRef json sb)) sbs"
    by (auto simp: applySandboxFilters_def matchAny_def)
  then show ?thesis
    using v by (simp add: f match_values sandbox_attr_def)
qed

theorem filters_keep_witness:
  "map pbId (applySandboxFilters demo_json
      (map (\<lambda>(i, d). \<lparr>pbId = i, pbName = i, pbSlug = i, pbSpecJson = [], pbNodeId = [], pbDesired = d, pbStatus = None, pbEphemeral = False,
          pbLabelsJson = [], pbCreatedAt = 0, pbUpdatedAt = 0, pbGeneration = 1\<rparr>) [(''a'', ''running''), (''b'', ''stopped''), (''c'', ''gone'')])
      \<lparr>lfPhases = [], lfDesireds = [''gone'', ''running''], lfImages = []\<rparr>) = [''a'', ''c'']"
proof -
  have "parseSandboxFilters [''desired=gone'', ''desired=running''] = Inr \<lparr>lfPhases = [], lfDesireds = [''gone'', ''running''], lfImages = []\<rparr>"
    by code_simp
  from filters_keep [OF this] show ?thesis
    by (auto simp: sandbox_attr_def)
qed

section \<open>Prefixes\<close>

text \<open>The two implementations of node prefixes, here and in the daemon, agree on which node is meant.\<close>

lemma shortNodeID_is_shortNode: "shortNodeID = shortNode"
  by (rule ext) (simp add: shortNodeID_def shortNode_def)

lemma listed_ids: "nodeListLocal s now = Inr nodes \<Longrightarrow> map niNodeId nodes = map nID (listNodes (rnFsm s))"
  by (auto simp: nodeListLocal_def ListNodes_def nodeToInfo_def)

lemma node_known:
  assumes "nodes_wf s"
  shows "p \<in> nID ` set (listNodes (rnFsm s)) \<longleftrightarrow> (\<exists>n. GetNode s p = Inr n)" and "GetNode s p = Inr n \<Longrightarrow> nID n = p"
proof -
  have "(\<exists>m. gm_get (fsNodes (rnFsm s)) p = Some m) \<longleftrightarrow> p \<in> nID ` set (listNodes (rnFsm s))"
  proof
    assume "\<exists>m. gm_get (fsNodes (rnFsm s)) p = Some m"
    then obtain m where m: "gm_get (fsNodes (rnFsm s)) p = Some m" by blast
    then have "nID m = p" using assms by (simp add: nodes_wf_def keyed_def)
    moreover have "clone_node m \<in> set (listNodes (rnFsm s))"
      using gm_get_Some_mem [OF m] by (force simp: listNodes_def)
    ultimately show "p \<in> nID ` set (listNodes (rnFsm s))" by (intro image_eqI [of _ _ "clone_node m"]) simp_all
  next
    assume "p \<in> nID ` set (listNodes (rnFsm s))"
    then obtain k m where km: "(k, m) \<in> set (fsNodes (rnFsm s))" "p = nID m" by (auto simp: listNodes_def)
    with assms have "gm_get (fsNodes (rnFsm s)) k = Some m" by (simp add: nodes_wf_def keyed_def gm_get_mem)
    then show "\<exists>m. gm_get (fsNodes (rnFsm s)) p = Some m" using assms km(2) by (auto simp: nodes_wf_def keyed_def)
  qed
  then show "p \<in> nID ` set (listNodes (rnFsm s)) \<longleftrightarrow> (\<exists>n. GetNode s p = Inr n)"
    by (auto simp: GetNode_def getNode_def split: option.splits)
  show "GetNode s p = Inr n \<Longrightarrow> nID n = p"
    using assms by (auto simp: GetNode_def getNode_def nodes_wf_def keyed_def split: option.splits)
qed

text \<open>
  Claim C36: the command line and the daemon mean the same node: an identifier or prefix of one that
  is not empty resolves, over the list the leader gives out, to exactly the node that the leader's
  own resolution finds, and it fails in the one where it fails in the other.
\<close>

theorem prefix_resolution_agrees:
  assumes "replica load (rnFsm s)" and "nodeListLocal s now = Inr nodes" and "p \<noteq> []"
  shows "resolveNodeIDPrefix nodes p = Inr i \<longleftrightarrow> (\<exists>n. resolveNode s p = Inr n \<and> nID n = i)"
proof -
  note wf = nodes_wf_replica [OF assms(1)]
  show ?thesis
  proof (cases "GetNode s p")
    case (Inr n)
    with node_known [OF wf, of p] have "p \<in> nID ` set (listNodes (rnFsm s))" "nID n = p" by blast+
    with Inr assms(3) show ?thesis
      by (auto simp: resolveNodeIDPrefix_def listed_ids [OF assms(2)] resolveNode_def)
  next
    case (Inl e)
    then have e: "e = ErrNodeNotFound" by (auto simp: GetNode_def getNode_def split: option.splits)
    from Inl node_known(1) [OF wf, of p] have "p \<notin> nID ` set (listNodes (rnFsm s))" by simp
    then have "resolveNodeIDPrefix nodes p =
        (case map nID (filter (\<lambda>n. has_prefix p (nID n)) (listNodes (rnFsm s))) of
           [] \<Rightarrow> Inl (Errorf [Lit ''node '', Quoted p, Lit '' not found''])
         | [i] \<Rightarrow> Inr i
         | matches \<Rightarrow> Inl (Errorf [Lit ''node id prefix '', Quoted p, Lit '' is ambiguous ('', Num (int (length matches)), Lit '' matches)'']))"
      using assms(3) by (simp add: resolveNodeIDPrefix_def listed_ids [OF assms(2)] filter_map comp_def)
    with Inl e show ?thesis
      by (cases "filter (\<lambda>n. has_prefix p (nID n)) (listNodes (rnFsm s))") (auto simp: resolveNode_def ListNodes_def split: list.splits)
  qed
qed

theorem prefix_resolution_agrees_witness:
  "\<exists>nodes. nodeListLocal (demo_raft True demo_removal_fsm) 7 = Inr nodes \<and> resolveNodeIDPrefix nodes ''n'' = Inr ''n1'' \<and>
     (\<exists>n. resolveNode (demo_raft True demo_removal_fsm) ''n'' = Inr n \<and> nID n = ''n1'')"
proof -
  let ?s = "demo_raft True demo_removal_fsm"
  have rep: "replica (\<lambda>_ _. Inl ErrNotLeader) (rnFsm ?s)"
    using demo_removal_replica by (simp add: demo_raft_def)
  obtain nodes where nodes: "nodeListLocal ?s 7 = Inr nodes" by (simp add: nodeListLocal_def ListNodes_def)
  have "\<exists>n. resolveNode ?s ''n'' = Inr n \<and> nID n = ''n1''"
    by (simp add: resolveNode_def GetNode_table demo_raft_def demo_removal_fsm_def ListNodes_def listNodes_def has_prefix_def)
  with prefix_resolution_agrees [OF rep nodes, of "''n''" "''n1''"] nodes show ?thesis by simp
qed

end
