(* ===== verification/Identity_Store.thy ===== *)
theory Identity_Store
  imports Ca_Material
begin

text \<open>
  A node's identity on disk (\<open>internal/identity/identity.go\<close>): the certificate, the key, the CA
  certificate and the daemon's state under its data directory, loaded at start and replaced file
  by file. The directory is a map from file names to contents and modes; what the operating
  system answers to each call is the argument \<open>os\<close>, and \<open>codec\<close> stands for \<open>encoding/json\<close> on
  the two records that are written.
\<close>

section \<open>Records\<close>

record material =
  mtNodeID :: string
  mtRole :: role
  mtClusterID :: string
  mtCertificate :: string
  mtPrivateKey :: string
  mtCACert :: string
  mtNotBefore :: gotime
  mtNotAfter :: gotime

record daemon_state =
  dsNodeID :: string
  dsRole :: role
  dsClusterID :: string
  dsAdvertiseAddr :: string
  dsListenAddr :: string
  dsRaftAddr :: string
  dsManagerAddr :: string
  dsManagerAddrs :: "string list"
  dsInitialized :: bool

definition zero_daemon_state :: daemon_state where
  "zero_daemon_state = \<lparr>dsNodeID = [], dsRole = [], dsClusterID = [], dsAdvertiseAddr = [], dsListenAddr = [],
     dsRaftAddr = [], dsManagerAddr = [], dsManagerAddrs = [], dsInitialized = False\<rparr>"

section \<open>Files\<close>

abbreviation certFile :: string where "certFile \<equiv> ''node.crt''"
abbreviation keyFile :: string where "keyFile \<equiv> ''node.key''"
abbreviation caFile :: string where "caFile \<equiv> ''ca.crt''"
abbreviation metaFile :: string where "metaFile \<equiv> ''identity.json''"
abbreviation stateFile :: string where "stateFile \<equiv> ''daemon.json''"

type_synonym stored_file = "string \<times> nat"
type_synonym data_dir = "(string, stored_file) gomap"

text \<open>One atomic write: where it may fail, what a failing write leaves, and the temporary's name.\<close>

record write_answers =
  waMkdir :: "go_error option"
  waCreate :: "string result"
  waWrite :: "(string \<times> go_error) option"
  waChmod :: "go_error option"
  waSync :: "go_error option"
  waClose :: "go_error option"
  waRename :: "go_error option"

record os_answers =
  osMkdir :: "go_error option"
  osRead :: "string \<Rightarrow> go_error option"
  osWrite :: "string \<Rightarrow> write_answers"
  osRemove :: "string \<Rightarrow> go_error option"

record id_codec =
  icState :: "daemon_state \<Rightarrow> string result"
  icDecode :: "daemon_state \<Rightarrow> string \<Rightarrow> daemon_state"
  icMeta :: "string \<Rightarrow> role \<Rightarrow> gotime \<Rightarrow> string result"

definition not_exist :: go_error where
  "not_exist = LibraryError ''file does not exist''"

definition read_file :: "os_answers \<Rightarrow> data_dir \<Rightarrow> string \<Rightarrow> string result" where
  "read_file os dir name =
     (case osRead os name of
        Some e \<Rightarrow> Inl e
      | None \<Rightarrow> (case gm_get dir name of None \<Rightarrow> Inl not_exist | Some (data, _) \<Rightarrow> Inr data))"

text \<open>
  \<open>atomicWrite\<close>: the contents go to a temporary file, created with mode 0600, which replaces the
  target by a rename once it is complete; the deferred removal drops it on every failure.
\<close>

definition mode_0600 :: nat where "mode_0600 = 384"
definition mode_0644 :: nat where "mode_0644 = 420"

definition atomicWrite :: "write_answers \<Rightarrow> string \<Rightarrow> string \<Rightarrow> nat \<Rightarrow> data_dir \<Rightarrow> data_dir \<times> go_error option" where
  "atomicWrite w path data mode dir =
     (case waMkdir w of
        Some e \<Rightarrow> (dir, Some e)
      | None \<Rightarrow>
     (case waCreate w of
        Inl e \<Rightarrow> (dir, Some e)
      | Inr tmp \<Rightarrow>
          (let dir1 = gm_put tmp ([], mode_0600) dir in
     (case waWrite w of
        Some (part, e) \<Rightarrow> (gm_del tmp (gm_put tmp (part, mode_0600) dir1), Some e)
      | None \<Rightarrow>
          (let dir2 = gm_put tmp (data, mode_0600) dir1 in
     (case waChmod w of
        Some e \<Rightarrow> (gm_del tmp dir2, Some e)
      | None \<Rightarrow>
          (let dir3 = gm_put tmp (data, mode) dir2 in
     (case or_else (waSync w) (or_else (waClose w) (waRename w)) of
        Some e \<Rightarrow> (gm_del tmp dir3, Some e)
      | None \<Rightarrow> (gm_put path (data, mode) (gm_del tmp dir3), None)))))))))"

section \<open>The store\<close>

record id_store =
  isDir :: data_dir
  isMat :: "material option"
  isState :: daemon_state

definition NewIdStore :: "data_dir \<Rightarrow> id_store" where
  "NewIdStore dir = \<lparr>isDir = dir, isMat = None, isState = zero_daemon_state\<rparr>"

definition HasIdentity :: "id_store \<Rightarrow> bool" where
  "HasIdentity s \<longleftrightarrow> isMat s \<noteq> None"

text \<open>The certificate in the PEM file, as \<open>Load\<close> reads it.\<close>

definition leaf_certificate :: "x509_lib \<Rightarrow> string \<Rightarrow> x509_cert result" where
  "leaf_certificate lib certPEM =
     (case xPemDecode lib certPEM of
        None \<Rightarrow> Inl (errorf ''invalid node certificate PEM'')
      | Some (_, bytes) \<Rightarrow> xParseCertificate lib bytes)"

definition id_Load :: "x509_lib \<Rightarrow> id_codec \<Rightarrow> os_answers \<Rightarrow> id_store \<Rightarrow> id_store \<times> go_error option" where
  "id_Load lib codec os s =
     (case osMkdir os of
        Some e \<Rightarrow> (s, Some e)
      | None \<Rightarrow>
          (let s1 = (case read_file os (isDir s) stateFile of
                       Inl _ \<Rightarrow> s | Inr b \<Rightarrow> s\<lparr>isState := icDecode codec (isState s) b\<rparr>) in
     (case read_file os (isDir s) certFile of
        Inl e \<Rightarrow> if e = not_exist then (s1, None) else (s1, Some e)
      | Inr certPEM \<Rightarrow>
     (case read_file os (isDir s) keyFile of
        Inl e \<Rightarrow> (s1, Some e)
      | Inr keyPEM \<Rightarrow>
     (case read_file os (isDir s) caFile of
        Inl e \<Rightarrow> (s1, Some e)
      | Inr caPEM \<Rightarrow>
     (case leaf_certificate lib certPEM of
        Inl e \<Rightarrow> (s1, Some e)
      | Inr cert \<Rightarrow>
     (case (if dsRole (isState s1) = [] then RoleFromCertificate (Some (xcSubject cert)) else Inr (dsRole (isState s1))) of
        Inl e \<Rightarrow> (s1, Some e)
      | Inr role \<Rightarrow>
          (s1\<lparr>isMat := Some
             \<lparr>mtNodeID = (if dsNodeID (isState s1) = [] then certCN (xcSubject cert) else dsNodeID (isState s1)),
              mtRole = role, mtClusterID = dsClusterID (isState s1), mtCertificate = certPEM, mtPrivateKey = keyPEM,
              mtCACert = caPEM, mtNotBefore = xcNotBefore cert, mtNotAfter = xcNotAfter cert\<rparr>\<rparr>, None))))))))"

text \<open>\<open>Save\<close>: five files in order, the memory only after the last.\<close>

definition saved_state :: "material \<Rightarrow> daemon_state \<Rightarrow> daemon_state" where
  "saved_state mat st = st\<lparr>dsNodeID := mtNodeID mat, dsRole := mtRole mat, dsClusterID := mtClusterID mat, dsInitialized := True\<rparr>"

definition write_file :: "os_answers \<Rightarrow> string \<Rightarrow> string \<Rightarrow> nat \<Rightarrow> data_dir \<times> go_error option \<Rightarrow> data_dir \<times> go_error option" where
  "write_file os name data mode r =
     (case r of (dir, Some e) \<Rightarrow> (dir, Some e) | (dir, None) \<Rightarrow> atomicWrite (osWrite os name) name data mode dir)"

definition write_encoded :: "os_answers \<Rightarrow> string \<Rightarrow> string result \<Rightarrow> nat \<Rightarrow> data_dir \<times> go_error option \<Rightarrow> data_dir \<times> go_error option" where
  "write_encoded os name enc mode r =
     (case r of
        (dir, Some e) \<Rightarrow> (dir, Some e)
      | (dir, None) \<Rightarrow> (case enc of Inl e \<Rightarrow> (dir, Some e) | Inr data \<Rightarrow> write_file os name data mode (dir, None)))"

definition id_Save :: "id_codec \<Rightarrow> os_answers \<Rightarrow> id_store \<Rightarrow> material \<Rightarrow> daemon_state \<Rightarrow> id_store \<times> go_error option" where
  "id_Save codec os s mat st =
     (let r1 = write_file os certFile (mtCertificate mat) mode_0644 (isDir s, osMkdir os);
          r2 = write_file os keyFile (mtPrivateKey mat) mode_0600 r1;
          r3 = write_file os caFile (mtCACert mat) mode_0644 r2;
          r4 = write_encoded os metaFile (icMeta codec (mtNodeID mat) (mtRole mat) (mtNotAfter mat)) mode_0600 r3;
          r5 = write_encoded os stateFile (icState codec (saved_state mat st)) mode_0600 r4 in
      case r5 of
        (dir, Some e) \<Rightarrow> (s\<lparr>isDir := dir\<rparr>, Some e)
      | (dir, None) \<Rightarrow> (s\<lparr>isDir := dir, isMat := Some mat, isState := saved_state mat st\<rparr>, None))"

definition id_SaveState :: "id_codec \<Rightarrow> os_answers \<Rightarrow> id_store \<Rightarrow> daemon_state \<Rightarrow> id_store \<times> go_error option" where
  "id_SaveState codec os s st =
     (case write_encoded os stateFile (icState codec st) mode_0600 (isDir s, osMkdir os) of
        (dir, Some e) \<Rightarrow> (s\<lparr>isDir := dir\<rparr>, Some e)
      | (dir, None) \<Rightarrow> (s\<lparr>isDir := dir, isState := st\<rparr>, None))"

text \<open>\<open>Clear\<close>: the five files are removed in order; one that is not there is no error.\<close>

fun remove_files :: "os_answers \<Rightarrow> string list \<Rightarrow> data_dir \<Rightarrow> data_dir \<times> go_error option" where
  "remove_files os [] dir = (dir, None)"
| "remove_files os (name # names) dir =
     (case osRemove os name of
        Some e \<Rightarrow> if e \<noteq> not_exist then (dir, Some e) else remove_files os names dir
      | None \<Rightarrow> remove_files os names (gm_del name dir))"

definition identity_files :: "string list" where
  "identity_files = [certFile, keyFile, caFile, metaFile, stateFile]"

definition id_Clear :: "os_answers \<Rightarrow> id_store \<Rightarrow> id_store \<times> go_error option" where
  "id_Clear os s =
     (case remove_files os identity_files (isDir s) of
        (dir, Some e) \<Rightarrow> (s\<lparr>isDir := dir\<rparr>, Some e)
      | (dir, None) \<Rightarrow> (\<lparr>isDir = dir, isMat = None, isState = zero_daemon_state\<rparr>, None))"

section \<open>What a write leaves on disk\<close>

text \<open>Temporary files never have the name of an identity file (\<open>os.CreateTemp(dir, ".tmp-*")\<close>).\<close>

definition os_fresh :: "os_answers \<Rightarrow> bool" where
  "os_fresh os \<longleftrightarrow> (\<forall>n t. waCreate (osWrite os n) = Inr t \<longrightarrow> t \<notin> set identity_files)"

lemma atomicWrite_get:
  assumes "atomicWrite w path data mode dir = (dir', e)" and "\<And>t. waCreate w = Inr t \<Longrightarrow> n \<noteq> t"
  shows "gm_get dir' n = (if e = None \<and> n = path then Some (data, mode) else gm_get dir n)"
  using assms by (auto simp: atomicWrite_def Let_def split: option.splits sum.splits prod.splits)

text \<open>The first \<open>k\<close> identity files hold the new contents, the others what they held.\<close>

definition files_upto :: "stored_file list \<Rightarrow> data_dir \<Rightarrow> nat \<Rightarrow> data_dir \<Rightarrow> bool" where
  "files_upto new old k dir \<longleftrightarrow>
     (\<forall>j < length identity_files. gm_get dir (identity_files ! j) =
        (if j < k then Some (new ! j) else gm_get old (identity_files ! j)))"

definition wrote_upto :: "stored_file list \<Rightarrow> data_dir \<Rightarrow> nat \<Rightarrow> data_dir \<times> go_error option \<Rightarrow> bool" where
  "wrote_upto new old k r \<longleftrightarrow>
     (if snd r = None then files_upto new old k (fst r) else \<exists>j < k. files_upto new old j (fst r))"

lemma identity_files_distinct: "distinct identity_files"
  by (simp add: identity_files_def)

lemma wrote_upto_write:
  assumes "wrote_upto new old k r" and "os_fresh os" and "k < length identity_files" and "new ! k = (data, mode)"
  shows "wrote_upto new old (Suc k) (write_file os (identity_files ! k) data mode r)"
proof (cases "snd r")
  case (Some e)
  with assms(1) show ?thesis
    by (cases r) (auto simp: wrote_upto_def write_file_def less_Suc_eq)
next
  case None
  let ?w = "osWrite os (identity_files ! k)"
  obtain dir where r: "r = (dir, None)" using None by (cases r) auto
  obtain dir' e where w: "atomicWrite ?w (identity_files ! k) data mode dir = (dir', e)" by fastforce
  have old: "files_upto new old k dir" using assms(1) by (simp add: r wrote_upto_def)
  have get: "gm_get dir' (identity_files ! j) = (if e = None \<and> j = k then Some (data, mode) else gm_get dir (identity_files ! j))"
    if "j < length identity_files" for j
    using atomicWrite_get [OF w, of "identity_files ! j"] assms(2,3) that identity_files_distinct
    by (auto simp: os_fresh_def nth_eq_iff_index_eq) (metis nth_mem)+
  have "files_upto new old (if e = None then Suc k else k) dir'"
    using old assms(3,4) by (auto simp: files_upto_def get less_Suc_eq)
  then show ?thesis
    by (auto simp: r write_file_def w wrote_upto_def split: if_splits)
qed

lemma wrote_upto_encoded:
  assumes "wrote_upto new old k r" and "os_fresh os" and "k < length identity_files"
    and "\<And>d. enc = Inr d \<Longrightarrow> new ! k = (d, mode)"
  shows "wrote_upto new old (Suc k) (write_encoded os (identity_files ! k) enc mode r)"
proof (cases "snd r")
  case (Some e)
  with assms(1) show ?thesis
    by (cases r) (auto simp: wrote_upto_def write_encoded_def less_Suc_eq)
next
  case None
  then obtain dir where r: "r = (dir, None)" by (cases r) auto
  show ?thesis
  proof (cases enc)
    case (Inl e)
    with assms(1) show ?thesis
      by (auto simp: r wrote_upto_def write_encoded_def)
  next
    case (Inr d)
    with wrote_upto_write [OF assms(1-3) assms(4) [OF Inr]] show ?thesis
      by (simp add: r write_encoded_def)
  qed
qed

definition new_files :: "id_codec \<Rightarrow> material \<Rightarrow> daemon_state \<Rightarrow> stored_file list" where
  "new_files codec mat st =
     [(mtCertificate mat, mode_0644), (mtPrivateKey mat, mode_0600), (mtCACert mat, mode_0644),
      (projr (icMeta codec (mtNodeID mat) (mtRole mat) (mtNotAfter mat)), mode_0600),
      (projr (icState codec (saved_state mat st)), mode_0600)]"

lemma id_Save_files:
  assumes "os_fresh os" and "id_Save codec os s mat st = (s', e)"
  shows "wrote_upto (new_files codec mat st) (isDir s) 5 (isDir s', e) \<and>
    (e \<noteq> None \<longrightarrow> isMat s' = isMat s \<and> isState s' = isState s) \<and>
    (e = None \<longrightarrow> isMat s' = Some mat \<and> isState s' = saved_state mat st)"
proof -
  let ?new = "new_files codec mat st" and ?old = "isDir s"
  define r1 where "r1 = write_file os certFile (mtCertificate mat) mode_0644 (isDir s, osMkdir os)"
  define r2 where "r2 = write_file os keyFile (mtPrivateKey mat) mode_0600 r1"
  define r3 where "r3 = write_file os caFile (mtCACert mat) mode_0644 r2"
  define r4 where "r4 = write_encoded os metaFile (icMeta codec (mtNodeID mat) (mtRole mat) (mtNotAfter mat)) mode_0600 r3"
  define r5 where "r5 = write_encoded os stateFile (icState codec (saved_state mat st)) mode_0600 r4"
  have names: "identity_files ! 0 = certFile" "identity_files ! Suc 0 = keyFile" "identity_files ! 2 = caFile"
    "identity_files ! 3 = metaFile" "identity_files ! 4 = stateFile" "length identity_files = 5"
    by (simp_all add: identity_files_def)
  have w0: "wrote_upto ?new ?old 1 r1"
  proof (cases "osMkdir os")
    case None
    then have "wrote_upto ?new ?old 0 (isDir s, osMkdir os)"
      by (simp add: wrote_upto_def files_upto_def)
    from wrote_upto_write [OF this assms(1), of "mtCertificate mat" mode_0644] show ?thesis
      by (simp add: names r1_def new_files_def)
  next
    case (Some e)
    then show ?thesis by (auto simp: r1_def write_file_def wrote_upto_def files_upto_def)
  qed
  have w1: "wrote_upto ?new ?old 2 r2"
    using wrote_upto_write [OF w0 assms(1), of "mtPrivateKey mat" mode_0600]
    by (simp add: names r2_def new_files_def numeral_2_eq_2)
  have w2: "wrote_upto ?new ?old 3 r3"
    using wrote_upto_write [OF w1 assms(1), of "mtCACert mat" mode_0644]
    by (simp add: names r3_def new_files_def)
  have w3: "wrote_upto ?new ?old 4 r4"
    using wrote_upto_encoded [OF w2 assms(1), of "icMeta codec (mtNodeID mat) (mtRole mat) (mtNotAfter mat)" mode_0600]
    by (simp add: names r4_def new_files_def)
  have w4: "wrote_upto ?new ?old 5 r5"
    using wrote_upto_encoded [OF w3 assms(1), of "icState codec (saved_state mat st)" mode_0600]
    by (simp add: names r5_def new_files_def)
  have save: "id_Save codec os s mat st = (case r5 of (dir, Some e) \<Rightarrow> (s\<lparr>isDir := dir\<rparr>, Some e)
      | (dir, None) \<Rightarrow> (s\<lparr>isDir := dir, isMat := Some mat, isState := saved_state mat st\<rparr>, None))"
    by (simp add: id_Save_def Let_def r1_def r2_def r3_def r4_def r5_def)
  obtain dir f where r5: "r5 = (dir, f)" by fastforce
  with w4 assms(2) show ?thesis
    by (cases f) (auto simp: save)
qed

text \<open>
  Saving an identity replaces its files one by one, each completely: whatever fails, a
  prefix of the files (certificate, key, CA, metadata, state) is new and the rest is as it was, the
  memory changes only when all five are written, and the key file is private either way.
\<close>

theorem save_identity_files:
  assumes "os_fresh os" and "id_Save codec os s mat st = (s', e)"
  shows "(\<exists>k \<le> 5. (e = None \<longleftrightarrow> k = 5) \<and> files_upto (new_files codec mat st) (isDir s) k (isDir s')) \<and>
    (if e = None then isMat s' = Some mat \<and> isState s' = saved_state mat st
     else isMat s' = isMat s \<and> isState s' = isState s) \<and>
    (\<forall>data mode. gm_get (isDir s') keyFile = Some (data, mode) \<longrightarrow>
       gm_get (isDir s) keyFile = Some (data, mode) \<or> (data = mtPrivateKey mat \<and> mode = mode_0600))"
proof -
  have key: "identity_files ! 1 = keyFile" "new_files codec mat st ! 1 = (mtPrivateKey mat, mode_0600)"
    "1 < length identity_files"
    by (simp_all add: identity_files_def new_files_def)
  from id_Save_files [OF assms] obtain k where k: "k \<le> 5" "e = None \<longleftrightarrow> k = 5"
    "files_upto (new_files codec mat st) (isDir s) k (isDir s')"
    by (auto simp: wrote_upto_def split: if_splits intro: less_imp_le)
  then have "gm_get (isDir s') keyFile = (if 1 < k then Some (mtPrivateKey mat, mode_0600) else gm_get (isDir s) keyFile)"
    using key unfolding files_upto_def by metis
  then have "\<forall>data mode. gm_get (isDir s') keyFile = Some (data, mode) \<longrightarrow>
       gm_get (isDir s) keyFile = Some (data, mode) \<or> (data = mtPrivateKey mat \<and> mode = mode_0600)"
    by auto
  moreover have "if e = None then isMat s' = Some mat \<and> isState s' = saved_state mat st
     else isMat s' = isMat s \<and> isState s' = isState s"
    using id_Save_files [OF assms] by simp
  ultimately show ?thesis
    using k by blast
qed

text \<open>A machine without failures, and a node's first identity on it.\<close>

definition os_ok :: os_answers where
  "os_ok = \<lparr>osMkdir = None, osRead = (\<lambda>_. None),
     osWrite = (\<lambda>_. \<lparr>waMkdir = None, waCreate = Inr ''.tmp-1'', waWrite = None, waChmod = None,
                     waSync = None, waClose = None, waRename = None\<rparr>),
     osRemove = (\<lambda>_. None)\<rparr>"

definition os_key_fails :: os_answers where
  "os_key_fails = os_ok\<lparr>osWrite := (\<lambda>n. if n = keyFile then (osWrite os_ok n)\<lparr>waSync := Some (LibraryError ''no space'')\<rparr> else osWrite os_ok n)\<rparr>"

definition demo_id_codec :: id_codec where
  "demo_id_codec = \<lparr>icState = (\<lambda>st. Inr (dsNodeID st @ ''/'' @ dsRole st)),
     icDecode = (\<lambda>st b. case split_on CHR ''/'' b of
        [i, r] \<Rightarrow> st\<lparr>dsNodeID := i, dsRole := r, dsInitialized := True\<rparr> | _ \<Rightarrow> st),
     icMeta = (\<lambda>i r t. Inr i)\<rparr>"

definition demo_material :: material where
  "demo_material = \<lparr>mtNodeID = ''n1'', mtRole = RoleWorker, mtClusterID = [], mtCertificate = ''cert'',
     mtPrivateKey = ''key'', mtCACert = ''ca'', mtNotBefore = 0, mtNotAfter = 9\<rparr>"

lemma os_demo_fresh: "os_fresh os_ok" "os_fresh os_key_fails"
  by (auto simp: os_fresh_def os_ok_def os_key_fails_def identity_files_def)

theorem save_identity_files_witness:
  "\<exists>s' :: id_store. id_Save demo_id_codec os_key_fails (NewIdStore []) demo_material zero_daemon_state =
     (s', Some (LibraryError ''no space'')) \<and> isMat s' = None \<and> gm_get (isDir s') keyFile = None"
proof -
  let ?run = "id_Save demo_id_codec os_key_fails (NewIdStore []) demo_material zero_daemon_state"
  have e: "snd ?run = Some (LibraryError ''no space'')" "gm_get (isDir (fst ?run)) keyFile = None"
    by (simp_all add: id_Save_def write_file_def write_encoded_def atomicWrite_def os_key_fails_def os_ok_def
        NewIdStore_def Let_def demo_id_codec_def)
  moreover obtain s' e' where run: "?run = (s', e')" by fastforce
  moreover from save_identity_files [OF os_demo_fresh(2) run] e run have "isMat s' = None"
    by (simp add: NewIdStore_def)
  ultimately show ?thesis by auto
qed

section \<open>Restarts\<close>

text \<open>What a fresh process finds: no read fails other than on a missing file.\<close>

definition os_reads :: "os_answers \<Rightarrow> bool" where
  "os_reads os \<longleftrightarrow> osMkdir os = None \<and> (\<forall>n. osRead os n = None)"

definition boot :: "x509_lib \<Rightarrow> id_codec \<Rightarrow> os_answers \<Rightarrow> data_dir \<Rightarrow> id_store \<times> go_error option" where
  "boot lib codec os dir = id_Load lib codec os (NewIdStore dir)"

lemma os_reads_ok: "os_reads os_ok"
  by (simp add: os_reads_def os_ok_def)

lemma read_present: "os_reads os \<Longrightarrow> gm_get dir n = Some (data, mode) \<Longrightarrow> read_file os dir n = Inr data"
  by (simp add: read_file_def os_reads_def)

lemma boot_identity:
  assumes "os_reads os" and "gm_get dir certFile = Some (c, m1)" and "gm_get dir keyFile = Some (k, m2)"
    and "gm_get dir caFile = Some (r, m3)" and "gm_get dir stateFile = Some (b, m4)"
    and "leaf_certificate lib c = Inr cert"
    and "icDecode codec zero_daemon_state b = st" and "dsNodeID st \<noteq> []" and "dsRole st \<noteq> []"
  shows "boot lib codec os dir = (\<lparr>isDir = dir, isMat = Some
      \<lparr>mtNodeID = dsNodeID st, mtRole = dsRole st, mtClusterID = dsClusterID st, mtCertificate = c, mtPrivateKey = k,
       mtCACert = r, mtNotBefore = xcNotBefore cert, mtNotAfter = xcNotAfter cert\<rparr>, isState = st\<rparr>, None)"
  using assms(1,6-) read_present [OF assms(1,2)] read_present [OF assms(1,3)] read_present [OF assms(1,4)]
    read_present [OF assms(1,5)]
  by (simp add: boot_def id_Load_def NewIdStore_def os_reads_def)

lemma saved_files:
  assumes "os_fresh os" and "id_Save codec os s mat st = (s', None)"
  shows "gm_get (isDir s') certFile = Some (mtCertificate mat, mode_0644)"
    and "gm_get (isDir s') keyFile = Some (mtPrivateKey mat, mode_0600)"
    and "gm_get (isDir s') caFile = Some (mtCACert mat, mode_0644)"
    and "gm_get (isDir s') stateFile = Some (projr (icState codec (saved_state mat st)), mode_0600)"
proof -
  have "files_upto (new_files codec mat st) (isDir s) 5 (isDir s')"
    using id_Save_files [OF assms] by (simp add: wrote_upto_def)
  then have all: "\<forall>j < 5. gm_get (isDir s') (identity_files ! j) = Some (new_files codec mat st ! j)"
    by (simp add: files_upto_def identity_files_def)
  show "gm_get (isDir s') certFile = Some (mtCertificate mat, mode_0644)"
    using all [rule_format, of 0] by (simp add: identity_files_def new_files_def)
  show "gm_get (isDir s') keyFile = Some (mtPrivateKey mat, mode_0600)"
    using all [rule_format, of 1] by (simp add: identity_files_def new_files_def)
  show "gm_get (isDir s') caFile = Some (mtCACert mat, mode_0644)"
    using all [rule_format, of 2] by (simp add: identity_files_def new_files_def)
  show "gm_get (isDir s') stateFile = Some (projr (icState codec (saved_state mat st)), mode_0600)"
    using all [rule_format, of 4] by (simp add: identity_files_def new_files_def)
qed

text \<open>
  A node that restarts is the node that was saved: a fresh process on the same directory
  loads the material and the state that \<open>Save\<close> wrote, provided the JSON codec reads back the
  state it wrote and the certificate's PEM parses to the validity recorded in the material.
\<close>

theorem identity_roundtrip:
  assumes "os_fresh os" and "id_Save codec os s mat st = (s', None)" and "os_reads os'"
    and "icDecode codec zero_daemon_state (projr (icState codec (saved_state mat st))) = saved_state mat st"
    and "leaf_certificate lib (mtCertificate mat) = Inr cert"
    and "mtNotBefore mat = xcNotBefore cert" and "mtNotAfter mat = xcNotAfter cert"
    and "mtNodeID mat \<noteq> []" and "mtRole mat \<noteq> []"
  shows "boot lib codec os' (isDir s') = (\<lparr>isDir = isDir s', isMat = Some mat, isState = saved_state mat st\<rparr>, None)"
  using boot_identity [OF assms(3) saved_files [OF assms(1,2)] assms(5,4)] assms(6-)
  by (simp add: saved_state_def)

definition demo_leaf_lib :: "x509_lib \<Rightarrow> x509_lib" where
  "demo_leaf_lib lib = lib\<lparr>xPemDecode := (\<lambda>p. Some (''CERTIFICATE'', p)),
     xParseCertificate := (\<lambda>b. Inr \<lparr>xcSubject = \<lparr>certCN = ''n1'', certOUs = [role_OU RoleWorker]\<rparr>,
       xcNotBefore = 0, xcNotAfter = 9, xcRaw = b\<rparr>)\<rparr>"

lemma demo_leaf: "leaf_certificate (demo_leaf_lib lib) p = Inr \<lparr>xcSubject = \<lparr>certCN = ''n1'', certOUs = [role_OU RoleWorker]\<rparr>,
       xcNotBefore = 0, xcNotAfter = 9, xcRaw = p\<rparr>"
  by (simp add: leaf_certificate_def demo_leaf_lib_def)

lemma demo_state: "saved_state demo_material zero_daemon_state =
    zero_daemon_state\<lparr>dsNodeID := ''n1'', dsRole := RoleWorker, dsInitialized := True\<rparr>"
  by (simp add: saved_state_def demo_material_def zero_daemon_state_def)

lemma demo_save: "snd (id_Save demo_id_codec os_ok (NewIdStore []) demo_material zero_daemon_state) = None"
  by (simp add: id_Save_def write_file_def write_encoded_def atomicWrite_def os_ok_def
      NewIdStore_def Let_def demo_id_codec_def)

theorem identity_roundtrip_witness:
  "\<exists>s' :: id_store. id_Save demo_id_codec os_ok (NewIdStore []) demo_material zero_daemon_state = (s', None) \<and>
     isMat (fst (boot (demo_leaf_lib undefined) demo_id_codec os_ok (isDir s'))) = Some demo_material"
proof -
  obtain s' where run: "id_Save demo_id_codec os_ok (NewIdStore []) demo_material zero_daemon_state = (s', None)"
    using demo_save by (metis prod.collapse)
  have "boot (demo_leaf_lib undefined) demo_id_codec os_ok (isDir s') =
      (\<lparr>isDir = isDir s', isMat = Some demo_material, isState = saved_state demo_material zero_daemon_state\<rparr>, None)"
    by (rule identity_roundtrip [OF os_demo_fresh(1) run os_reads_ok _ demo_leaf])
      (simp_all add: saved_state_def demo_id_codec_def demo_material_def zero_daemon_state_def)
  with run show ?thesis by auto
qed

text \<open>
  The files are not replaced together: when a save stops after the certificate, the next
  process loads, without an error, the new certificate with the old key.
\<close>

theorem torn_identity_loads:
  assumes "os_fresh os" and "id_Save codec os s mat st = (s', Some e)" and "os_reads os'"
    and "gm_get (isDir s') certFile = Some (mtCertificate mat, mode_0644)"
    and "gm_get (isDir s') keyFile = gm_get (isDir s) keyFile" and "mtPrivateKey mat \<noteq> k"
    and "gm_get (isDir s) keyFile = Some (k, m2)" and "gm_get (isDir s) caFile = Some (r, m3)"
    and "gm_get (isDir s) stateFile = Some (b, m4)" and "leaf_certificate lib (mtCertificate mat) = Inr cert"
    and "dsNodeID (icDecode codec zero_daemon_state b) \<noteq> []" and "dsRole (icDecode codec zero_daemon_state b) \<noteq> []"
  shows "\<exists>st' mat'. boot lib codec os' (isDir s') = (st', None) \<and> isMat st' = Some mat' \<and>
     mtCertificate mat' = mtCertificate mat \<and> mtPrivateKey mat' = k"
proof -
  from id_Save_files [OF assms(1,2)] obtain j where j: "j < 5" "files_upto (new_files codec mat st) (isDir s) j (isDir s')"
    by (auto simp: wrote_upto_def)
  then have all: "\<And>i. i < 5 \<Longrightarrow> gm_get (isDir s') (identity_files ! i) =
      (if i < j then Some (new_files codec mat st ! i) else gm_get (isDir s) (identity_files ! i))"
    by (simp add: files_upto_def identity_files_def)
  have "\<not> 1 < j"
    using all [of 1] assms(5-7) by (auto simp: identity_files_def new_files_def)
  then have "gm_get (isDir s') caFile = Some (r, m3)" "gm_get (isDir s') stateFile = Some (b, m4)"
    using all [of 2] all [of 4] assms(8,9) by (auto simp: identity_files_def)
  moreover have "gm_get (isDir s') keyFile = Some (k, m2)" using assms(5,7) by simp
  ultimately have "boot lib codec os' (isDir s') = (\<lparr>isDir = isDir s', isMat = Some
      \<lparr>mtNodeID = dsNodeID (icDecode codec zero_daemon_state b), mtRole = dsRole (icDecode codec zero_daemon_state b),
       mtClusterID = dsClusterID (icDecode codec zero_daemon_state b), mtCertificate = mtCertificate mat, mtPrivateKey = k,
       mtCACert = r, mtNotBefore = xcNotBefore cert, mtNotAfter = xcNotAfter cert\<rparr>,
       isState = icDecode codec zero_daemon_state b\<rparr>, None)"
    using boot_identity [OF assms(3,4) _ _ _ assms(10) refl assms(11,12)] by blast
  then show ?thesis by simp
qed

definition demo_old_store :: id_store where
  "demo_old_store = fst (id_Save demo_id_codec os_ok (NewIdStore []) demo_material zero_daemon_state)"

definition demo_renewed :: material where
  "demo_renewed = demo_material\<lparr>mtCertificate := ''cert2'', mtPrivateKey := ''key2''\<rparr>"

lemma demo_old_files:
  "gm_get (isDir demo_old_store) keyFile = Some (''key'', mode_0600)"
  "gm_get (isDir demo_old_store) caFile = Some (''ca'', mode_0644)"
  "gm_get (isDir demo_old_store) stateFile = Some (''n1/worker'', mode_0600)"
proof -
  have run: "id_Save demo_id_codec os_ok (NewIdStore []) demo_material zero_daemon_state = (demo_old_store, None)"
    using demo_save by (simp add: demo_old_store_def prod_eq_iff)
  note f = saved_files [OF os_demo_fresh(1) run]
  show "gm_get (isDir demo_old_store) keyFile = Some (''key'', mode_0600)"
    using f(2) by (simp add: demo_material_def)
  show "gm_get (isDir demo_old_store) caFile = Some (''ca'', mode_0644)"
    using f(3) by (simp add: demo_material_def)
  show "gm_get (isDir demo_old_store) stateFile = Some (''n1/worker'', mode_0600)"
    using f(4) by (simp add: demo_state demo_id_codec_def)
qed

theorem torn_identity_loads_witness:
  "\<exists>st' mat'. boot (demo_leaf_lib undefined) demo_id_codec os_ok
       (isDir (fst (id_Save demo_id_codec os_key_fails demo_old_store demo_renewed zero_daemon_state))) = (st', None) \<and>
     isMat st' = Some mat' \<and> mtCertificate mat' = mtCertificate demo_renewed \<and> mtPrivateKey mat' = ''key''"
proof -
  let ?run = "id_Save demo_id_codec os_key_fails demo_old_store demo_renewed zero_daemon_state"
  have r: "snd ?run = Some (LibraryError ''no space'')"
    "gm_get (isDir (fst ?run)) certFile = Some (mtCertificate demo_renewed, mode_0644)"
    "gm_get (isDir (fst ?run)) keyFile = gm_get (isDir demo_old_store) keyFile"
    by (simp_all add: id_Save_def write_file_def write_encoded_def atomicWrite_def os_key_fails_def os_ok_def
        Let_def demo_id_codec_def)
  then have "?run = (fst ?run, Some (LibraryError ''no space''))" by (simp add: prod_eq_iff)
  from torn_identity_loads [OF os_demo_fresh(2) this os_reads_ok r(2,3) _ demo_old_files demo_leaf] show ?thesis
    by (simp add: demo_renewed_def demo_material_def demo_id_codec_def zero_daemon_state_def)
qed

text \<open>
  Leaving: after \<open>Clear\<close> a fresh process has no identity and no state.
\<close>

lemma remove_files_get:
  "remove_files os names dir = (dir', None) \<Longrightarrow> \<forall>n. osRemove os n = Some not_exist \<longrightarrow> gm_get dir n = None \<Longrightarrow>
     gm_get dir' n = (if n \<in> set names then None else gm_get dir n)"
  by (induction names arbitrary: dir) (auto split: option.splits if_splits)

theorem cleared_identity_gone:
  assumes "id_Clear os s = (s', None)" and "\<forall>n. osRemove os n = Some not_exist \<longrightarrow> gm_get (isDir s) n = None"
    and "os_reads os'"
  shows "boot lib codec os' (isDir s') = (NewIdStore (isDir s'), None) \<and> s' = NewIdStore (isDir s')"
proof -
  obtain dir where dir: "remove_files os identity_files (isDir s) = (dir, None)" "s' = NewIdStore dir"
    using assms(1) by (auto simp: id_Clear_def NewIdStore_def split: prod.splits option.splits)
  from remove_files_get [OF this(1) assms(2)] have "gm_get dir certFile = None" "gm_get dir stateFile = None"
    by (simp_all add: identity_files_def)
  with dir(2) assms(3) show ?thesis
    by (simp add: boot_def id_Load_def NewIdStore_def os_reads_def read_file_def)
qed

end
