(* ===== verification/Runtime_Agent.thy ===== *)
theory Runtime_Agent
  imports Sandbox_Record
begin

text \<open>
  The reconciler of a node (\<open>internal/runtime/agent.go\<close>): it turns the sandboxes assigned to the
  node into local virtual machines and reports what it sees. What the driver and the control
  plane answer during a pass is the argument \<open>env\<close> (the driver is present on every node that
  runs an agent); the stops, removals, creations and reports are recorded in order. The clock is
  read once per pass. The texts of errors and durations, which go into status messages, are
  the functions \<open>txt\<close> and \<open>dur\<close>.
\<close>

section \<open>State\<close>

datatype agent_action =
    AStop string int
  | ARemove string
  | ACreate sandbox
  | AReport string int sb_status

record restart_backoff =
  boAttempts :: int
  boNotBefore :: gotime
  boReason :: string

record agent =
  agLocal :: "string list"
  agRestarts :: "(string, restart_backoff) gomap"
  agActions :: "agent_action list"

record agent_env =
  evFind :: "string \<Rightarrow> string result"
  evInspect :: "string \<Rightarrow> status_phase result"
  evCreate :: "sandbox \<Rightarrow> go_error option"
  evReport :: "string \<Rightarrow> int \<Rightarrow> sb_status \<Rightarrow> go_error option"
  evText :: "go_error \<Rightarrow> string"
  evDur :: "duration \<Rightarrow> string"
  evNow :: gotime

section \<open>Back-off\<close>

definition restart_base :: duration where "restart_base = 5 * second"
definition restart_cap :: duration where "restart_cap = 60 * second"

fun delay_loop :: "duration \<Rightarrow> nat \<Rightarrow> duration" where
  "delay_loop d 0 = (if d > restart_cap then restart_cap else d)"
| "delay_loop d (Suc n) = (if d \<ge> restart_cap then restart_cap else delay_loop (d * 2) n)"

definition nextRestartDelay :: "int \<Rightarrow> duration" where
  "nextRestartDelay attempts = delay_loop restart_base (if attempts < 0 then 0 else nat attempts)"

definition zero_backoff :: restart_backoff where
  "zero_backoff = \<lparr>boAttempts = 0, boNotBefore = zero_time, boReason = []\<rparr>"

definition noteRestart :: "agent_env \<Rightarrow> string \<Rightarrow> go_error \<Rightarrow> agent \<Rightarrow> agent" where
  "noteRestart env i err a =
     (let rb = (case gm_get (agRestarts a) i of None \<Rightarrow> zero_backoff | Some rb \<Rightarrow> rb) in
      a\<lparr>agRestarts := gm_put i
          \<lparr>boAttempts = wrap64 (boAttempts rb + 1), boNotBefore = evNow env + nextRestartDelay (boAttempts rb),
           boReason = evText env err\<rparr> (agRestarts a)\<rparr>)"

section \<open>Acting\<close>

definition act :: "agent_action \<Rightarrow> agent \<Rightarrow> agent" where
  "act x a = a\<lparr>agActions := agActions a @ [x]\<rparr>"

definition track :: "string \<Rightarrow> agent \<Rightarrow> agent" where
  "track i a = (if i \<in> set (agLocal a) then a else a\<lparr>agLocal := agLocal a @ [i]\<rparr>)"

definition untrack :: "string \<Rightarrow> agent \<Rightarrow> agent" where
  "untrack i a = a\<lparr>agLocal := filter (\<lambda>j. j \<noteq> i) (agLocal a)\<rparr>"

definition forget_restart :: "string \<Rightarrow> agent \<Rightarrow> agent" where
  "forget_restart i a = a\<lparr>agRestarts := gm_del i (agRestarts a)\<rparr>"

definition agent_report :: "agent_env \<Rightarrow> sandbox \<Rightarrow> sb_status \<Rightarrow> agent \<Rightarrow> agent \<times> go_error option" where
  "agent_report env sb st a =
     (act (AReport (sbID sb) (sbGeneration sb) st) a, evReport env (sbID sb) (sbGeneration sb) st)"

definition reap :: "agent_env \<Rightarrow> string \<Rightarrow> go_error \<Rightarrow> agent \<Rightarrow> agent" where
  "reap env i cause a = noteRestart env i cause (untrack i (act (ARemove i) (act (AStop i 5) a)))"

definition LocalName :: "string \<Rightarrow> string" where
  "LocalName i = i"

text \<open>\<open>Duration.Round(time.Second)\<close> of a non-negative duration.\<close>

definition round_second :: "duration \<Rightarrow> duration" where
  "round_second d = (let r = d mod second in if r + r < second then d - r else d + (second - r))"

definition waiting_message :: "agent_env \<Rightarrow> restart_backoff \<Rightarrow> string" where
  "waiting_message env rb =
     (let msg = ''waiting '' @ evDur env (round_second (time_sub (boNotBefore rb) (evNow env))) @ '' before recreate'' in
      if boReason rb \<noteq> [] then boReason rb @ ''; '' @ msg else msg)"

text \<open>\<open>createDesiredRunning\<close>: its end, past the back-off, and its start.\<close>

definition create_now :: "agent_env \<Rightarrow> sandbox \<Rightarrow> agent \<Rightarrow> agent \<times> go_error option" where
  "create_now env sb a =
     (let a1 = fst (agent_report env sb (zero_status\<lparr>stPhase := PhaseStarting, stUpdatedAt := evNow env\<rparr>) a);
          a2 = act (ACreate sb) a1 in
      case evCreate env sb of
        Some err \<Rightarrow> (noteRestart env (sbID sb) err a2, Some err)
      | None \<Rightarrow>
          agent_report env sb (zero_status\<lparr>stPhase := PhaseRunning, stLocalName := LocalName (sbID sb),
              stStartedAt := evNow env, stUpdatedAt := evNow env\<rparr>)
            (forget_restart (sbID sb) (track (sbID sb) a2)))"

definition createDesiredRunning :: "agent_env \<Rightarrow> sandbox \<Rightarrow> agent \<Rightarrow> agent \<times> go_error option" where
  "createDesiredRunning env sb a =
     (case gm_get (agRestarts a) (sbID sb) of
        Some rb \<Rightarrow>
          if evNow env < boNotBefore rb then
            agent_report env sb (zero_status\<lparr>stPhase := PhaseStarting, stMessage := waiting_message env rb,
                                             stUpdatedAt := evNow env\<rparr>) a
          else create_now env sb a
      | None \<Rightarrow> create_now env sb a)"

section \<open>One sandbox\<close>

text \<open>The first lines of \<open>reconcileOne\<close>: a virtual machine found locally is tracked.\<close>

definition discover :: "agent_env \<Rightarrow> string \<Rightarrow> agent \<Rightarrow> agent" where
  "discover env i a =
     (if i \<in> set (agLocal a) then a
      else (case evFind env i of Inl _ \<Rightarrow> a | Inr found \<Rightarrow> if found \<noteq> [] then track i a else a))"

definition reconcile_stopped :: "agent_env \<Rightarrow> sandbox \<Rightarrow> agent \<Rightarrow> agent \<times> go_error option" where
  "reconcile_stopped env sb a0 =
     (let i = sbID sb; a = forget_restart i a0 in
      if i \<in> set (agLocal a) then
        (let a1 = act (AStop i 10) a;
             a2 = (if sbDesired sb = DesiredRemoved then untrack i (act (ARemove i) a1) else a1) in
         agent_report env sb (zero_status\<lparr>stPhase := PhaseStopped, stLocalName := LocalName i,
             stUpdatedAt := evNow env, stStoppedAt := evNow env\<rparr>) a2)
      else agent_report env sb (zero_status\<lparr>stPhase := PhaseStopped, stUpdatedAt := evNow env\<rparr>) a)"

definition reconcile_running :: "agent_env \<Rightarrow> sandbox \<Rightarrow> agent \<Rightarrow> agent \<times> go_error option" where
  "reconcile_running env sb a =
     (let i = sbID sb in
      if i \<notin> set (agLocal a) then createDesiredRunning env sb a
      else
        (case evInspect env i of
           Inl e \<Rightarrow>
             (let err = Wrapped [Lit ''inspect: ''] e in (noteRestart env i err (untrack i a), Some err))
         | Inr phase \<Rightarrow>
             if phase = PhaseRunning then
               agent_report env sb (zero_status\<lparr>stPhase := PhaseRunning, stLocalName := LocalName i,
                   stUpdatedAt := evNow env, stStartedAt := evNow env\<rparr>) a
             else
               (let msg = ''sandbox not running'';
                    a1 = fst (agent_report env sb (zero_status\<lparr>stPhase := phase, stLocalName := LocalName i, stMessage := msg,
                        stUpdatedAt := evNow env, stStoppedAt := evNow env\<rparr>) a) in
                (reap env i (errorf msg) a1, None))))"

definition reconcileOne :: "agent_env \<Rightarrow> sandbox \<Rightarrow> agent \<Rightarrow> agent \<times> go_error option" where
  "reconcileOne env sb a0 =
     (let a = discover env (sbID sb) a0 in
      if sbDesired sb = DesiredRemoved \<or> sbDesired sb = DesiredStopped then reconcile_stopped env sb a
      else if sbDesired sb = DesiredRunning then reconcile_running env sb a
      else (a, None))"

section \<open>A pass\<close>

fun wanted :: "(string, sandbox) gomap \<Rightarrow> sandbox list \<Rightarrow> (string, sandbox) gomap" where
  "wanted m [] = m"
| "wanted m (sb # sbs) = wanted (gm_put (sbID sb) sb m) sbs"

definition reconcile_wanted :: "agent_env \<Rightarrow> string \<times> sandbox \<Rightarrow> agent \<Rightarrow> agent" where
  "reconcile_wanted env e a =
     (case reconcileOne env (snd e) a of
        (a1, None) \<Rightarrow> a1
      | (a1, Some err) \<Rightarrow>
          fst (agent_report env (snd e) (zero_status\<lparr>stPhase := PhaseFailed, stMessage := evText env err,
              stUpdatedAt := evNow env\<rparr>) a1))"

definition drop_unwanted :: "(string, sandbox) gomap \<Rightarrow> string \<Rightarrow> agent \<Rightarrow> agent" where
  "drop_unwanted want i a =
     (if gm_has want i then a
      else forget_restart i (untrack i (act (ARemove i) (act (AStop i 10) a))))"

definition agent_reconcile :: "agent_env \<Rightarrow> sandbox list result \<Rightarrow> agent \<Rightarrow> agent \<times> go_error option" where
  "agent_reconcile env assigned a =
     (case assigned of
        Inl e \<Rightarrow> (a, Some e)
      | Inr sbs \<Rightarrow>
          (let want = wanted [] sbs;
               a1 = fold (reconcile_wanted env) want a in
           (fold (drop_unwanted want) (agLocal a1) a1, None)))"

text \<open>\<open>TeardownLocal\<close>, its concurrent stops in the order of the tracked ids.\<close>

definition TeardownLocal :: "agent \<Rightarrow> agent" where
  "TeardownLocal a =
     fold (\<lambda>i b. act (ARemove i) (act (AStop i 5) b)) (agLocal a) (a\<lparr>agLocal := [], agRestarts := []\<rparr>)"

section \<open>The back-off is bounded\<close>

lemma delay_loop_closed: "0 < d \<Longrightarrow> delay_loop d n = min restart_cap (d * 2 ^ n)"
proof (induction n arbitrary: d)
  case (Suc n)
  have "(1 :: int) \<le> 2 ^ Suc n" by (rule one_le_power) simp
  then have "d * 1 \<le> d * 2 ^ Suc n" using Suc.prems by (intro mult_left_mono) simp_all
  then show ?case
    using Suc by (cases "restart_cap \<le> d") (simp_all add: mult.assoc min_absorb1 order_trans [of restart_cap d])
qed (simp add: min_def)

text \<open>
  The restart delay is exponential and bounded: after \<open>n\<close> failed attempts it is five
  seconds doubled \<open>n\<close> times, never above one minute, and never shorter than after fewer
  attempts; a negative count, which the counter reaches only by wrapping around, counts as
  none.
\<close>

theorem restart_delay_closed:
  "nextRestartDelay k = min (60 * second) (5 * second * 2 ^ nat k) \<and> nextRestartDelay k \<in> {5 * second .. 60 * second} \<and>
   (j \<le> k \<longrightarrow> nextRestartDelay j \<le> nextRestartDelay k)"
proof -
  have closed: "nextRestartDelay k = min (60 * second) (5 * second * 2 ^ nat k)" for k
    by (simp add: nextRestartDelay_def delay_loop_closed restart_base_def restart_cap_def second_def)
  have mono: "(2 :: int) ^ nat j \<le> 2 ^ nat k" if "j \<le> k" for j k
    using that by (intro power_increasing nat_mono) simp_all
  have "5 * second * 1 \<le> 5 * second * 2 ^ nat k"
    by (intro mult_left_mono) (simp_all add: second_def)
  moreover have "5 * second * 2 ^ nat j \<le> 5 * second * 2 ^ nat k" if "j \<le> k"
    using mono [OF that] by (intro mult_left_mono) (simp_all add: second_def)
  then have "j \<le> k \<longrightarrow> min (60 * second) (5 * second * 2 ^ nat j) \<le> min (60 * second) (5 * second * 2 ^ nat k)"
    by (intro impI min.mono order_refl)
  moreover have "(0 :: duration) < second" by (simp add: second_def)
  ultimately show ?thesis
    unfolding closed by simp
qed

theorem restart_delay_closed_witness:
  "nextRestartDelay 1 = 10 * second \<and> nextRestartDelay 4 = 60 * second \<and> nextRestartDelay 1 \<le> nextRestartDelay 4"
  using restart_delay_closed [of 1 1] restart_delay_closed [of 4 1] by (simp add: second_def)

section \<open>What a pass does\<close>

text \<open>
  An agent may extend another by actions a sandbox allows: creations past the back-off, reports
  under the sandbox's own generation, stops and removals of this sandbox.
\<close>

definition allowed :: "agent_env \<Rightarrow> sandbox \<Rightarrow> (string, restart_backoff) gomap \<Rightarrow> agent_action \<Rightarrow> bool" where
  "allowed env sb rs x =
     (case x of
        ACreate s \<Rightarrow> s = sb \<and> sbDesired sb = DesiredRunning \<and>
          (case gm_get rs (sbID sb) of None \<Rightarrow> True | Some rb \<Rightarrow> boNotBefore rb \<le> evNow env)
      | AReport i g st \<Rightarrow> i = sbID sb \<and> g = sbGeneration sb
      | AStop i t \<Rightarrow> i = sbID sb \<and> (sbDesired sb = DesiredRunning \<longrightarrow> evInspect env i \<noteq> Inr PhaseRunning)
      | ARemove i \<Rightarrow> i = sbID sb \<and> (sbDesired sb = DesiredRunning \<longrightarrow> evInspect env i \<noteq> Inr PhaseRunning) \<and>
          sbDesired sb \<noteq> DesiredStopped)"

definition extends :: "agent_env \<Rightarrow> sandbox \<Rightarrow> agent \<Rightarrow> agent \<Rightarrow> bool" where
  "extends env sb a b \<longleftrightarrow> (\<exists>xs. agActions b = agActions a @ xs \<and> (\<forall>x \<in> set xs. allowed env sb (agRestarts a) x)) \<and>
     set (agLocal b) \<subseteq> insert (sbID sb) (set (agLocal a)) \<and>
     (\<forall>j. j \<noteq> sbID sb \<longrightarrow> gm_get (agRestarts b) j = gm_get (agRestarts a) j)"

lemmas agent_defs = agent_report_def act_def track_def untrack_def forget_restart_def noteRestart_def reap_def

lemma create_now_extends:
  assumes "sbDesired sb = DesiredRunning" and "case gm_get (agRestarts a) (sbID sb) of None \<Rightarrow> True | Some rb \<Rightarrow> boNotBefore rb \<le> evNow env"
  shows "extends env sb a (fst (create_now env sb a))"
  using assms by (auto simp: create_now_def extends_def agent_defs allowed_def Let_def split: option.split)

lemma createDesiredRunning_extends:
  assumes "sbDesired sb = DesiredRunning"
  shows "extends env sb a (fst (createDesiredRunning env sb a))"
proof -
  have "extends env sb a (fst (agent_report env sb st a))" for st
    by (simp add: extends_def agent_defs allowed_def subset_insertI)
  with create_now_extends [OF assms] show ?thesis
    by (auto simp: createDesiredRunning_def split: option.split)
qed

lemma reconcile_stopped_extends:
  "sbDesired sb \<noteq> DesiredRunning \<Longrightarrow> extends env sb a (fst (reconcile_stopped env sb a))"
  by (auto simp: reconcile_stopped_def extends_def agent_defs allowed_def Let_def)

lemma reconcile_running_extends:
  assumes "sbDesired sb = DesiredRunning"
  shows "extends env sb a (fst (reconcile_running env sb a))"
  using assms createDesiredRunning_extends [OF assms, of env a]
  by (auto simp: reconcile_running_def Let_def split: sum.split) (auto simp: extends_def agent_defs allowed_def Let_def)

lemma discover_keeps:
  "agActions (discover env i a) = agActions a" "agRestarts (discover env i a) = agRestarts a"
  "set (agLocal (discover env i a)) \<subseteq> insert i (set (agLocal a))"
  by (auto simp: discover_def track_def split: sum.split)

lemma reconcileOne_extends: "extends env sb a (fst (reconcileOne env sb a))"
proof -
  have "extends env sb a b" if "extends env sb (discover env (sbID sb) a) b" for b
    using that discover_keeps [of env "sbID sb" a] unfolding extends_def by auto
  moreover have "extends env sb (discover env (sbID sb) a) (fst (reconcileOne env sb a))"
    using reconcile_stopped_extends reconcile_running_extends
    by (auto simp: reconcileOne_def Let_def extends_def subset_insertI)
  ultimately show ?thesis .
qed

lemma reconcile_wanted_extends: "extends env (snd e) a (reconcile_wanted env e a)"
proof -
  obtain b err where run: "reconcileOne env (snd e) a = (b, err)" by fastforce
  then have "extends env (snd e) a b"
    using reconcileOne_extends [of env "snd e" a] by simp
  then show ?thesis
    by (cases err) (auto simp: reconcile_wanted_def run extends_def agent_defs allowed_def)
qed

lemma allowed_cong: "gm_get rs (sbID sb) = gm_get rs' (sbID sb) \<Longrightarrow> allowed env sb rs x = allowed env sb rs' x"
  by (simp add: allowed_def split: agent_action.split)

lemma fold_wanted:
  assumes "distinct (map fst es)" and "\<forall>e \<in> set es. sbID (snd e) = fst e"
    and "\<forall>e \<in> set es. gm_get (agRestarts a) (fst e) = gm_get rs (fst e)"
  shows "(\<exists>xs. agActions (fold (reconcile_wanted env) es a) = agActions a @ xs \<and>
      (\<forall>x \<in> set xs. \<exists>e \<in> set es. allowed env (snd e) rs x)) \<and>
    set (agLocal (fold (reconcile_wanted env) es a)) \<subseteq> fst ` set es \<union> set (agLocal a)"
  using assms
proof (induction es arbitrary: a)
  case Nil
  then show ?case by simp
next
  case (Cons e es)
  let ?b = "reconcile_wanted env e a"
  have id: "sbID (snd e) = fst e" using Cons.prems(2) by simp
  from reconcile_wanted_extends [of env e a] obtain ys where ys: "agActions ?b = agActions a @ ys"
      "\<forall>x \<in> set ys. allowed env (snd e) (agRestarts a) x" "set (agLocal ?b) \<subseteq> insert (fst e) (set (agLocal a))"
      "\<forall>j. j \<noteq> fst e \<longrightarrow> gm_get (agRestarts ?b) j = gm_get (agRestarts a) j"
    by (auto simp: extends_def id)
  have "\<forall>x \<in> set ys. allowed env (snd e) rs x"
    using ys(2) Cons.prems(3) allowed_cong [of "agRestarts a" "snd e" rs env] by (simp add: id)
  moreover have "(\<exists>xs. agActions (fold (reconcile_wanted env) es ?b) = agActions ?b @ xs \<and>
      (\<forall>x \<in> set xs. \<exists>e \<in> set es. allowed env (snd e) rs x)) \<and>
    set (agLocal (fold (reconcile_wanted env) es ?b)) \<subseteq> fst ` set es \<union> set (agLocal ?b)"
  proof (rule Cons.IH)
    have "fst f \<noteq> fst e" if "f \<in> set es" for f
      using Cons.prems(1) that by (auto simp: image_iff)
    with ys(4) Cons.prems(3) show "\<forall>f \<in> set es. gm_get (agRestarts ?b) (fst f) = gm_get rs (fst f)" by auto
  qed (use Cons.prems in auto)
  ultimately show ?case
    using ys(1,3) by (auto simp: ball_Un)
qed

lemma fold_drop:
  "agActions (fold (drop_unwanted want) ids a) =
     agActions a @ concat (map (\<lambda>i. [AStop i 10, ARemove i]) (filter (\<lambda>i. \<not> gm_has want i) ids)) \<and>
   set (agLocal (fold (drop_unwanted want) ids a)) = {i \<in> set (agLocal a). i \<in> set ids \<longrightarrow> gm_has want i}"
  by (induction ids arbitrary: a) (auto simp: drop_unwanted_def agent_defs)

lemma wanted_entries:
  "gm_wf m \<Longrightarrow> \<forall>e \<in> set m. sbID (snd e) = fst e \<Longrightarrow>
     gm_wf (wanted m sbs) \<and> (\<forall>e \<in> set (wanted m sbs). sbID (snd e) = fst e \<and> (e \<in> set m \<or> snd e \<in> set sbs)) \<and>
     fst ` set (wanted m sbs) = fst ` set m \<union> sbID ` set sbs"
proof (induction sbs arbitrary: m)
  case (Cons sb sbs)
  have mem: "e \<in> set (gm_put k v m) \<Longrightarrow> e = (k, v) \<or> e \<in> set m" for e k v
    by (induction m) (auto split: if_splits)
  have dom: "fst ` set (gm_put k v m) = insert k (fst ` set m)" for k v
    by (induction m) auto
  let ?m = "gm_put (sbID sb) sb m"
  have ids: "sbID (snd e) = fst e" "e \<in> set m \<or> snd e = sb" if "e \<in> set ?m" for e
    using Cons.prems(2) mem [OF that] by auto
  have IH: "gm_wf (wanted ?m sbs)" "fst ` set (wanted ?m sbs) = fst ` set ?m \<union> sbID ` set sbs"
      "\<And>e. e \<in> set (wanted ?m sbs) \<Longrightarrow> sbID (snd e) = fst e \<and> (e \<in> set ?m \<or> snd e \<in> set sbs)"
    using Cons.IH [of ?m] Cons.prems(1) ids(1) by auto
  have "e \<in> set m \<or> snd e \<in> set (sb # sbs)" if "e \<in> set (wanted ?m sbs)" for e
    using IH(3) [OF that] ids(2) [of e] by auto
  with IH show ?case
    unfolding wanted.simps dom by auto
qed simp

text \<open>
  Claim C24: a pass of the agent does what the assignment allows and no more. Every machine it
  creates is of an assigned sandbox that should be running and whose back-off has expired;
  every status it reports carries the assignment generation it was given; it stops or removes
  only machines that are not assigned, should not run, or do not run; and afterwards it tracks
  only assigned sandboxes.
\<close>

theorem agent_pass:
  assumes "agent_reconcile env (Inr sbs) a = (a', e)"
  shows "e = None \<and> set (agLocal a') \<subseteq> sbID ` set sbs \<and> (\<exists>xs. agActions a' = agActions a @ xs \<and>
    (\<forall>x \<in> set xs. case x of
       ACreate sb \<Rightarrow> sb \<in> set sbs \<and> sbDesired sb = DesiredRunning \<and>
         (\<forall>rb. gm_get (agRestarts a) (sbID sb) = Some rb \<longrightarrow> boNotBefore rb \<le> evNow env)
     | AReport i g st \<Rightarrow> \<exists>sb \<in> set sbs. i = sbID sb \<and> g = sbGeneration sb
     | AStop i t \<Rightarrow> i \<notin> sbID ` set sbs \<or>
         (\<exists>sb \<in> set sbs. i = sbID sb \<and> (sbDesired sb = DesiredRunning \<longrightarrow> evInspect env i \<noteq> Inr PhaseRunning))
     | ARemove i \<Rightarrow> i \<notin> sbID ` set sbs \<or>
         (\<exists>sb \<in> set sbs. i = sbID sb \<and> sbDesired sb \<noteq> DesiredStopped \<and>
            (sbDesired sb = DesiredRunning \<longrightarrow> evInspect env i \<noteq> Inr PhaseRunning))))"
proof -
  let ?want = "wanted [] sbs"
  let ?a1 = "fold (reconcile_wanted env) ?want a"
  have want: "gm_wf ?want" "\<forall>e \<in> set ?want. sbID (snd e) = fst e \<and> snd e \<in> set sbs" "fst ` set ?want = sbID ` set sbs"
    using wanted_entries [of "[]" sbs] by auto
  have a': "a' = fold (drop_unwanted ?want) (agLocal ?a1) ?a1" "e = None"
    using assms by (simp_all add: agent_reconcile_def Let_def)
  have "distinct (map fst ?want)" using want(1) by (simp add: gm_wf_def)
  from fold_wanted [OF this, of a "agRestarts a" env] want obtain xs where
    xs: "agActions ?a1 = agActions a @ xs" "\<forall>x \<in> set xs. \<exists>sb \<in> set sbs. allowed env sb (agRestarts a) x"
    by (metis (no_types, lifting))
  have has: "gm_has ?want i \<longleftrightarrow> i \<in> sbID ` set sbs" for i
    unfolding gm_has_def map_of_eq_None_iff using want(3) by simp
  let ?ys = "concat (map (\<lambda>i. [AStop i 10, ARemove i]) (filter (\<lambda>i. \<not> gm_has ?want i) (agLocal ?a1)))"
  have "agActions a' = agActions a @ (xs @ ?ys)" "set (agLocal a') \<subseteq> sbID ` set sbs"
    using fold_drop [of ?want "agLocal ?a1" ?a1] xs(1) by (auto simp: a'(1) has)
  moreover have "case x of
       ACreate sb \<Rightarrow> sb \<in> set sbs \<and> sbDesired sb = DesiredRunning \<and>
         (\<forall>rb. gm_get (agRestarts a) (sbID sb) = Some rb \<longrightarrow> boNotBefore rb \<le> evNow env)
     | AReport i g st \<Rightarrow> \<exists>sb \<in> set sbs. i = sbID sb \<and> g = sbGeneration sb
     | AStop i t \<Rightarrow> i \<notin> sbID ` set sbs \<or>
         (\<exists>sb \<in> set sbs. i = sbID sb \<and> (sbDesired sb = DesiredRunning \<longrightarrow> evInspect env i \<noteq> Inr PhaseRunning))
     | ARemove i \<Rightarrow> i \<notin> sbID ` set sbs \<or>
         (\<exists>sb \<in> set sbs. i = sbID sb \<and> sbDesired sb \<noteq> DesiredStopped \<and>
            (sbDesired sb = DesiredRunning \<longrightarrow> evInspect env i \<noteq> Inr PhaseRunning))" if x: "x \<in> set (xs @ ?ys)" for x
  proof (cases "x \<in> set xs")
    case True
    with xs(2) obtain sb where "sb \<in> set sbs" "allowed env sb (agRestarts a) x" by blast
    then show ?thesis
      by (auto simp: allowed_def split: agent_action.splits option.splits)
  next
    case False
    with x have "x \<in> set ?ys" by simp
    then show ?thesis by (auto simp: has)
  qed
  ultimately show ?thesis
    using a'(2) by blast
qed

definition demo_env :: agent_env where
  "demo_env = \<lparr>evFind = (\<lambda>_. Inr []), evInspect = (\<lambda>_. Inr PhaseStopped), evCreate = (\<lambda>_. None),
     evReport = (\<lambda>_ _ _. None), evText = (\<lambda>_. []), evDur = (\<lambda>_. []), evNow = 100 * second\<rparr>"

definition demo_agent :: agent where
  "demo_agent = \<lparr>agLocal = [''old''], agRestarts = [], agActions = []\<rparr>"

theorem agent_pass_witness:
  "\<exists>a' :: agent. agent_reconcile demo_env (Inr [demo_sandbox]) demo_agent = (a', None) \<and> set (agLocal a') \<subseteq> {''s1''} \<and>
     (\<forall>s. ACreate s \<in> set (agActions a') \<longrightarrow> s = demo_sandbox)"
proof -
  obtain a' e where run: "agent_reconcile demo_env (Inr [demo_sandbox]) demo_agent = (a', e)" by fastforce
  have "sbID demo_sandbox = ''s1''" by (simp add: demo_sandbox_def)
  with agent_pass [OF run] run show ?thesis
    by (fastforce simp: demo_agent_def split: agent_action.splits)
qed

end
