(* ===== verification/Daemon_State.thy ===== *)
theory Daemon_State
  imports Identity_Store Sandbox_Control Runtime_Agent
begin

text \<open>
  The state of \<open>cellard\<close> (\<open>type Daemon\<close> of \<open>internal/daemon/daemon.go\<close>): its configuration, its
  identity store, the servers and the Raft store it holds while it is a manager, its agent, the
  assignments of the last heartbeat and the sockets it serves. A pointer that may be nil is an
  option. Of the servers only what they keep is held: the signer of the CA server, the quarantine
  of the sandbox server.
\<close>

record daemon_config =
  cgDataDir :: string
  cgSocketPath :: string
  cgListenAddr :: string
  cgRaftAddr :: string

text \<open>The goroutines that belong to the cluster context, and what the remote listener registers.\<close>

datatype cluster_loop = LeadershipLoop | RenewLoop | AgentLoop | HeartbeatLoop

record remote_server =
  rsListen :: string
  rsKeyGuard :: bool
  rsControl :: bool
  rsSandboxAPI :: bool
  rsRuntime :: bool

record ca_signer =
  cgRoot :: "root_ca option"
  cgReady :: bool

record daemon =
  dnCfg :: daemon_config
  dnId :: id_store
  dnRaft :: "raft_node option"
  dnCa :: "ca_signer option"
  dnQuarantine :: "quarantine option"
  dnSandboxAPI :: bool
  dnRuntimeSrv :: bool
  dnDriver :: bool
  dnAgent :: "agent option"
  dnRuntimeErr :: "go_error option"
  dnLastAssigned :: "sandbox list"
  dnRemote :: "remote_server option"
  dnLocal :: bool
  dnCluster :: bool
  dnLoops :: "cluster_loop list"
  dnRaftDir :: bool
  dnTeardown :: "agent_action list"

text \<open>The leader's store, where the daemon holds one: the guard of every local path.\<close>

definition leader_raft :: "daemon \<Rightarrow> raft_node option" where
  "leader_raft d = (case dnRaft d of Some r \<Rightarrow> if IsLeader r then Some r else None | None \<Rightarrow> None)"

definition node_material :: "daemon \<Rightarrow> material option" where
  "node_material d = isMat (dnId d)"

lemma leader_raft_Some: "leader_raft d = Some r \<longleftrightarrow> dnRaft d = Some r \<and> IsLeader r"
  by (auto simp: leader_raft_def split: option.splits)

end
