(* ===== verification/Manager_Dial.thy ===== *)
theory Manager_Dial
  imports Daemon_State
begin

text \<open>
  Which manager a node calls, and in which order (\<open>internal/daemon/manager_dial.go\<close>): the
  preferred address, the known addresses, what a reply teaches, and the fail-over loop that every
  remote call of the daemon runs in.
\<close>

section \<open>Addresses\<close>

definition raft_addr :: "raft_node \<Rightarrow> string" where
  "raft_addr r = (if LeaderGRPC r \<noteq> [] then LeaderGRPC r else rnGRPCAdvertise r)"

definition prefer_addr :: "daemon \<Rightarrow> string" where
  "prefer_addr d =
     (let state = isState (dnId d);
          p1 = (case dnRaft d of None \<Rightarrow> [] | Some r \<Rightarrow> raft_addr r);
          p2 = (if p1 = [] then dsManagerAddr state else p1) in
      if p2 = [] then dsAdvertiseAddr state else p2)"

definition managerDialAddrs :: "daemon \<Rightarrow> string list" where
  "managerDialAddrs d =
     (let state = isState (dnId d) in
      MergeManagerAddrs (prefer_addr d) [dsManagerAddrs state, [dsManagerAddr state, dsAdvertiseAddr state]])"

definition managerDialAddr :: "daemon \<Rightarrow> string" where
  "managerDialAddr d = (let addrs = managerDialAddrs d in if length addrs = 0 then [] else addrs ! 0)"

fun slices_equal_from :: "nat \<Rightarrow> string list \<Rightarrow> string list \<Rightarrow> bool" where
  "slices_equal_from 0 a b = True"
| "slices_equal_from (Suc i) a b = (if a ! i \<noteq> b ! i then False else slices_equal_from i a b)"

definition stringSlicesEqual :: "string list \<Rightarrow> string list \<Rightarrow> bool" where
  "stringSlicesEqual a b = (if length a \<noteq> length b then False else slices_equal_from (length a) a b)"

text \<open>What a reply teaches is saved when it changes anything; a failing save is dropped.\<close>

definition applyManagerEndpoints :: "id_codec \<Rightarrow> os_answers \<Rightarrow> daemon \<Rightarrow> string \<Rightarrow> string list \<Rightarrow> daemon" where
  "applyManagerEndpoints codec os d leader addrs =
     (if leader = [] \<and> length addrs = 0 then d
      else
        (let state = isState (dnId d);
             switch = (leader \<noteq> [] \<and> dsManagerAddr state \<noteq> leader);
             new1 = (if switch then state\<lparr>dsManagerAddr := leader\<rparr> else state);
             merged = MergeManagerAddrs (dsManagerAddr new1) [addrs, dsManagerAddrs state];
             grown = (\<not> stringSlicesEqual merged (dsManagerAddrs new1));
             new2 = (if grown then new1\<lparr>dsManagerAddrs := merged\<rparr> else new1) in
         if \<not> (switch \<or> grown) then d
         else d\<lparr>dnId := fst (id_SaveState codec os (dnId d) new2)\<rparr>))"

definition seedManagerAddrs :: "string \<Rightarrow> string \<Rightarrow> string list \<Rightarrow> string \<times> string list" where
  "seedManagerAddrs remoteAddr leader fromIssue =
     (let prefer = (if leader \<noteq> [] then leader else remoteAddr) in
      (prefer, MergeManagerAddrs prefer [[remoteAddr], fromIssue]))"

section \<open>Fail-over\<close>

definition isRetryableManagerErr :: "go_error option \<Rightarrow> bool" where
  "isRetryableManagerErr err =
     (case err of
        None \<Rightarrow> False
      | Some e \<Rightarrow>
          (case status_code e of
             None \<Rightarrow> True
           | Some c \<Rightarrow> c \<in> {Unavailable, DeadlineExceeded, ResourceExhausted}))"

text \<open>The loop: \<open>fn\<close> reads and writes the caller's variables, here of type \<open>'s\<close>.\<close>

fun try_managers :: "(string \<Rightarrow> 's \<Rightarrow> 's \<times> go_error option) \<Rightarrow> string list \<Rightarrow> go_error option \<Rightarrow> 's \<Rightarrow> 's \<times> go_error option" where
  "try_managers fn [] lastErr s = (s, lastErr)"
| "try_managers fn (addr # addrs) lastErr s =
     (case fn addr s of
        (s', None) \<Rightarrow> (s', None)
      | (s', Some err) \<Rightarrow>
          if \<not> isRetryableManagerErr (Some err) then (s', Some err) else try_managers fn addrs (Some err) s')"

definition forEachManager :: "daemon \<Rightarrow> (string \<Rightarrow> 's \<Rightarrow> 's \<times> go_error option) \<Rightarrow> 's \<Rightarrow> 's \<times> go_error option" where
  "forEachManager d fn s =
     (let addrs = managerDialAddrs d in
      if length addrs = 0 then (s, Some (errorf ''no manager address'')) else try_managers fn addrs None s)"

text \<open>A remote call in the loop: the response variable is set by every attempt.\<close>

definition call_managers :: "daemon \<Rightarrow> (string \<Rightarrow> 'r result) \<Rightarrow> 'r result" where
  "call_managers d remote =
     (case forEachManager d (\<lambda>addr _. case remote addr of Inl e \<Rightarrow> (None, Some e) | Inr r \<Rightarrow> (Some r, None)) None of
        (_, Some e) \<Rightarrow> Inl e
      | (resp, None) \<Rightarrow> Inr (the resp))"

section \<open>What the addresses are\<close>

lemma stringSlicesEqual_eq: "stringSlicesEqual a b \<longleftrightarrow> a = b"
proof -
  have "slices_equal_from n a b \<longleftrightarrow> (\<forall>i < n. a ! i = b ! i)" for n
    by (induction n) (auto simp: less_Suc_eq)
  then show ?thesis by (auto simp: stringSlicesEqual_def list_eq_iff_nth_eq)
qed

lemma merge_members: "set (MergeManagerAddrs p as) = insert p (\<Union> (set ` set as)) - {[]}"
  by (auto simp: MergeManagerAddrs_def merge_set add_addr_props)

lemma merge_hd: "p \<noteq> [] \<Longrightarrow> \<exists>zs. MergeManagerAddrs p as = p # zs"
  using merge_prefix [of "add_addr [] p" as] by (auto simp: MergeManagerAddrs_def add_addr_def)

lemma merge_nodup: "distinct (MergeManagerAddrs p as)"
  by (simp add: MergeManagerAddrs_def merge_distinct add_addr_props)

lemma managerDialAddrs_Nil: "managerDialAddrs d = [] \<longleftrightarrow> prefer_addr d = [] \<and> set (dsManagerAddrs (isState (dnId d))) \<subseteq> {[]}"
proof -
  have "managerDialAddrs d = [] \<longleftrightarrow> set (managerDialAddrs d) = {}" by simp
  also have "\<dots> \<longleftrightarrow> prefer_addr d = [] \<and> set (dsManagerAddrs (isState (dnId d))) \<subseteq> {[]}"
    by (auto simp: managerDialAddrs_def Let_def merge_members prefer_addr_def split: if_splits option.splits)
  finally show ?thesis .
qed

section \<open>What the loop does\<close>

abbreviation retry :: "(string \<Rightarrow> go_error option) \<Rightarrow> string \<Rightarrow> bool" where
  "retry answer a \<equiv> isRetryableManagerErr (answer a)"

definition decisive :: "(string \<Rightarrow> go_error option) \<Rightarrow> string list \<Rightarrow> string" where
  "decisive answer addrs = (case List.find (\<lambda>a. \<not> retry answer a) addrs of Some a \<Rightarrow> a | None \<Rightarrow> last addrs)"

lemma retry_None [simp]: "isRetryableManagerErr None = False"
  by (simp add: isRetryableManagerErr_def)

lemma decisive_Cons:
  "decisive answer (a # addrs) = (if retry answer a \<and> addrs \<noteq> [] then decisive answer addrs else a)"
  by (cases "List.find (\<lambda>a. \<not> retry answer a) addrs") (auto simp: decisive_def)

lemma try_managers_log:
  "try_managers (\<lambda>a log. (log @ [a], answer a)) addrs e log =
     (log @ takeWhile (retry answer) addrs @ take 1 (dropWhile (retry answer) addrs),
      if addrs = [] then e else answer (decisive answer addrs))"
proof (induction addrs arbitrary: e log)
  case (Cons a addrs)
  show ?case
    by (cases "answer a"; cases "retry answer a") (simp_all add: Cons decisive_Cons)
qed simp

lemma try_managers_result:
  "addrs \<noteq> [] \<Longrightarrow> try_managers (\<lambda>addr _. case remote addr of Inl e \<Rightarrow> (None, Some e) | Inr r \<Rightarrow> (Some r, None)) addrs e0 v0 =
     (let a = decisive (\<lambda>a. case remote a of Inl e \<Rightarrow> Some e | Inr r \<Rightarrow> None) addrs in
      case remote a of Inl e \<Rightarrow> (None, Some e) | Inr r \<Rightarrow> (Some r, None))"
proof (induction addrs arbitrary: e0 v0)
  case (Cons a addrs)
  show ?case
    by (cases "remote a"; cases "addrs = []") (simp_all add: Cons decisive_Cons Let_def)
qed simp

lemma call_managers_eq:
  "call_managers d remote =
     (if managerDialAddrs d = [] then Inl (errorf ''no manager address'')
      else remote (decisive (\<lambda>a. case remote a of Inl e \<Rightarrow> Some e | Inr r \<Rightarrow> None) (managerDialAddrs d)))"
  by (auto simp: call_managers_def forEachManager_def try_managers_result Let_def split: sum.split)

text \<open>
  Fail-over is a search: the loop calls the known addresses in order, each at most once,
  up to and including the first whose answer is decisive (success, or an error that another
  manager would repeat), and its result is that answer, or the last one when none is.
\<close>

theorem failover_is_search:
  "forEachManager d (\<lambda>a log. (log @ [a], answer a)) [] =
     (let addrs = managerDialAddrs d in
      if addrs = [] then ([], Some (errorf ''no manager address''))
      else (takeWhile (retry answer) addrs @ take 1 (dropWhile (retry answer) addrs), answer (decisive answer addrs))) \<and>
   distinct (fst (forEachManager d (\<lambda>a log. (log @ [a], answer a)) []))"
proof -
  let ?as = "managerDialAddrs d"
  have "distinct ?as" by (simp add: managerDialAddrs_def Let_def merge_nodup)
  moreover have "takeWhile P xs @ take 1 (dropWhile P xs) = take (Suc (length (takeWhile P xs))) xs" for P and xs :: "string list"
    by (induction xs) auto
  ultimately have "distinct (takeWhile (retry answer) ?as @ take 1 (dropWhile (retry answer) ?as))"
    by (metis distinct_take)
  then show ?thesis
    by (simp add: forEachManager_def try_managers_log Let_def)
qed

text \<open>
  A remote call succeeds as long as some known manager answers it and the others fail
  only in ways that are worth a retry (unreachable, overloaded, too slow).
\<close>

theorem failover_reaches:
  assumes "a \<in> set (managerDialAddrs d)" and "remote a = Inr r"
    and "\<forall>b \<in> set (managerDialAddrs d). \<forall>e. remote b = Inl e \<longrightarrow> isRetryableManagerErr (Some e)"
  shows "\<exists>b r'. b \<in> set (managerDialAddrs d) \<and> remote b = Inr r' \<and> call_managers d remote = Inr r'"
proof -
  let ?answer = "\<lambda>a. case remote a of Inl e \<Rightarrow> Some e | Inr r \<Rightarrow> None"
  have "\<not> retry ?answer a" using assms(2) by (simp add: isRetryableManagerErr_def)
  then obtain b where b: "List.find (\<lambda>a. \<not> retry ?answer a) (managerDialAddrs d) = Some b"
    using assms(1) by (cases "List.find (\<lambda>a. \<not> retry ?answer a) (managerDialAddrs d)") (auto simp: find_None_iff)
  then have in_b: "b \<in> set (managerDialAddrs d)" and "\<not> retry ?answer b" by (auto simp: find_Some_iff)
  then obtain r' where r': "remote b = Inr r'"
    using assms(3) by (cases "remote b") auto
  have "managerDialAddrs d \<noteq> []" using assms(1) by auto
  with b have "call_managers d remote = remote b"
    by (simp add: call_managers_eq decisive_def)
  with in_b r' show ?thesis by auto
qed

lemma merge_idem:
  assumes "MergeManagerAddrs p [as, bs] = m"
  shows "MergeManagerAddrs p [as, m] = m"
proof -
  have known: "foldl add_addr out xs = out" if "set xs \<subseteq> insert [] (set out)" for out xs
    using that by (induction xs) (auto simp: add_addr_def)
  have fresh: "foldl add_addr out xs = out @ xs" if "distinct (out @ xs)" "[] \<notin> set xs" for out xs
    using that by (induction xs arbitrary: out) (auto simp: add_addr_def)
  let ?x = "foldl add_addr (add_addr [] p) as"
  obtain ys where m: "m = ?x @ ys"
    using foldl_add_addr_prefix [of ?x bs] assms by (auto simp: MergeManagerAddrs_def)
  have "distinct m" "[] \<notin> set m"
    using merge_nodup [of p "[as, bs]"] merge_members [of p "[as, bs]"] by (auto simp: assms)
  with m have "foldl add_addr ?x ys = ?x @ ys" "foldl add_addr ?x ?x = ?x"
    using known [of ?x ?x] fresh [of ?x ys] by auto
  then show ?thesis unfolding MergeManagerAddrs_def m by simp
qed

lemma SaveState_memory: "snd (id_SaveState codec os s st) = None \<Longrightarrow> isState (fst (id_SaveState codec os s st)) = st"
  by (auto simp: id_SaveState_def split: prod.splits option.splits)

text \<open>
  What a reply teaches a worker is used at once: after it is saved the leader it names is
  dialled first, every address it lists and every address known before is dialled too, and
  learning the same reply again changes nothing.
\<close>

theorem learned_endpoints:
  assumes "\<forall>st. snd (id_SaveState codec os (dnId d) st) = None" and "dnRaft d = None" and "leader \<noteq> []"
  shows "let d' = applyManagerEndpoints codec os d leader addrs in
     managerDialAddr d' = leader \<and>
     set addrs \<union> set (dsManagerAddrs (isState (dnId d))) - {[]} \<subseteq> set (managerDialAddrs d') \<and>
     applyManagerEndpoints codec os d' leader addrs = d'"
proof -
  let ?st = "isState (dnId d)" and ?d' = "applyManagerEndpoints codec os d leader addrs"
  let ?m = "MergeManagerAddrs leader [addrs, dsManagerAddrs ?st]"
  have st': "dsManagerAddr (isState (dnId ?d')) = leader" "dsManagerAddrs (isState (dnId ?d')) = ?m" "dnRaft ?d' = None"
    using assms SaveState_memory [of codec os "dnId d"]
    by (auto simp: applyManagerEndpoints_def stringSlicesEqual_eq Let_def)
  then have "applyManagerEndpoints codec os ?d' leader addrs = ?d'"
    using merge_idem [of leader addrs "dsManagerAddrs ?st", OF refl]
    by (simp add: applyManagerEndpoints_def [of codec os ?d'] stringSlicesEqual_eq)
  moreover obtain zs where "managerDialAddrs ?d' = leader # zs"
    using merge_hd [OF assms(3)] st' assms(3) by (auto simp: managerDialAddrs_def prefer_addr_def Let_def)
  then have "managerDialAddr ?d' = leader" by (simp add: managerDialAddr_def)
  moreover have "set ?m \<subseteq> insert [] (set (managerDialAddrs ?d'))"
    by (auto simp: managerDialAddrs_def Let_def merge_members st')
  then have "set addrs \<union> set (dsManagerAddrs ?st) - {[]} \<subseteq> set (managerDialAddrs ?d')"
    by (auto simp: merge_members)
  ultimately show ?thesis by (simp add: Let_def)
qed

section \<open>A worker on two managers\<close>

definition demo_worker_daemon :: daemon where
  "demo_worker_daemon = \<lparr>dnCfg = \<lparr>cgDataDir = ''/d'', cgSocketPath = ''/s'', cgListenAddr = '':17946'', cgRaftAddr = '':17947''\<rparr>,
     dnId = \<lparr>isDir = [], isMat = Some demo_material,
       isState = (saved_state demo_material zero_daemon_state)\<lparr>dsManagerAddr := ''m1'', dsManagerAddrs := [''m1'', ''m2'']\<rparr>\<rparr>,
     dnRaft = None, dnCa = None, dnQuarantine = None, dnSandboxAPI = False, dnRuntimeSrv = False, dnDriver = False,
     dnAgent = None, dnRuntimeErr = None, dnLastAssigned = [], dnRemote = None, dnLocal = True, dnCluster = True,
     dnLoops = [], dnRaftDir = False, dnTeardown = []\<rparr>"

lemma demo_worker_daemon_addrs: "managerDialAddrs demo_worker_daemon = [''m1'', ''m2'']"
  by (simp add: managerDialAddrs_def prefer_addr_def demo_worker_daemon_def saved_state_def zero_daemon_state_def
      MergeManagerAddrs_def add_addr_def)

theorem failover_reaches_witness:
  "\<exists>b r'. b \<in> set (managerDialAddrs demo_worker_daemon) \<and>
     (if b = ''m2'' then Inr (7 :: nat) else Inl (status_error Unavailable ''down'')) = Inr r' \<and>
     call_managers demo_worker_daemon (\<lambda>b. if b = ''m2'' then Inr (7 :: nat) else Inl (status_error Unavailable ''down'')) = Inr r'"
  by (rule failover_reaches [of "''m2''" _ _ 7]) (simp_all add: demo_worker_daemon_addrs isRetryableManagerErr_def)

lemma os_ok_SaveState: "snd (id_SaveState demo_id_codec os_ok s st) = None"
  by (simp add: id_SaveState_def write_encoded_def write_file_def atomicWrite_def os_ok_def demo_id_codec_def)

theorem learned_endpoints_witness:
  "managerDialAddr (applyManagerEndpoints demo_id_codec os_ok demo_worker_daemon ''m3'' [''m3'', ''m4'']) = ''m3'' \<and>
   {''m1'', ''m2'', ''m3'', ''m4''} \<subseteq> set (managerDialAddrs (applyManagerEndpoints demo_id_codec os_ok demo_worker_daemon ''m3'' [''m3'', ''m4'']))"
proof -
  have "dnRaft demo_worker_daemon = None" "dsManagerAddrs (isState (dnId demo_worker_daemon)) = [''m1'', ''m2'']"
    by (simp_all add: demo_worker_daemon_def)
  with learned_endpoints [of demo_id_codec os_ok demo_worker_daemon "''m3''" "[''m3'', ''m4'']"] show ?thesis
    by (simp add: Let_def os_ok_SaveState)
qed

end
