(* ===== verification/Node_Clients.thy ===== *)
theory Node_Clients
  imports Ca_Control Node_Admin
begin

text \<open>
  A node's calls to managers (\<open>internal/grpcapi/client.go\<close>, the TLS configurations of
  \<open>ca.go\<close>, \<open>internal/ca\<close>'s \<open>GenerateKeyAndCSR\<close>) and the node service of a manager
  (\<open>node.go\<close>). Dialling and the remote side are the argument \<open>net\<close>: what the peer at an address
  answers to a call made under a TLS configuration (an address that cannot be dialled answers with
  the dial's error). \<open>tls\<close> is \<open>crypto/tls\<close>'s reading of key pairs and pools.
\<close>

section \<open>TLS configurations\<close>

record tls_lib =
  tlX509KeyPair :: "string \<Rightarrow> string \<Rightarrow> go_error option"
  tlAppendCerts :: "string \<Rightarrow> bool"

record tls_config =
  tcPair :: "(string \<times> string) option"
  tcRoots :: "string option"
  tcClientCAs :: "string option"
  tcServerName :: string
  tcSkipVerify :: bool
  tcVerifyClientIfGiven :: bool

definition zero_tls :: tls_config where
  "zero_tls = \<lparr>tcPair = None, tcRoots = None, tcClientCAs = None, tcServerName = [], tcSkipVerify = False,
     tcVerifyClientIfGiven = False\<rparr>"

definition InsecureTLSConfig :: tls_config where
  "InsecureTLSConfig = zero_tls\<lparr>tcSkipVerify := True\<rparr>"

definition ServerTLSFromPEMs :: "tls_lib \<Rightarrow> string \<Rightarrow> string \<Rightarrow> string \<Rightarrow> tls_config result" where
  "ServerTLSFromPEMs tls certPEM keyPEM caPEM =
     (case tlX509KeyPair tls certPEM keyPEM of
        Some e \<Rightarrow> Inl e
      | None \<Rightarrow>
          if \<not> tlAppendCerts tls caPEM then Inl (errorf ''failed to parse CA certificate'')
          else Inr (zero_tls\<lparr>tcPair := Some (certPEM, keyPEM), tcClientCAs := Some caPEM, tcVerifyClientIfGiven := True\<rparr>))"

definition ClientTLSFromPEMs :: "tls_lib \<Rightarrow> string \<Rightarrow> string \<Rightarrow> string \<Rightarrow> string \<Rightarrow> tls_config result" where
  "ClientTLSFromPEMs tls certPEM keyPEM caPEM serverName =
     (if \<not> tlAppendCerts tls caPEM then Inl (errorf ''failed to parse CA certificate'')
      else
        (let cfg = zero_tls\<lparr>tcRoots := Some caPEM, tcServerName := serverName\<rparr> in
         if length certPEM > 0 \<and> length keyPEM > 0 then
           (case tlX509KeyPair tls certPEM keyPEM of
              Some e \<Rightarrow> Inl e
            | None \<Rightarrow> Inr (cfg\<lparr>tcPair := Some (certPEM, keyPEM)\<rparr>))
         else Inr cfg))"

section \<open>Addresses\<close>

abbreviation TLSServerName :: string where "TLSServerName \<equiv> ''cellar-manager''"
abbreviation TLSRuntimeServerName :: string where "TLSRuntimeServerName \<equiv> ''cellar-runtime''"

definition joinHostPort :: "string \<Rightarrow> string \<Rightarrow> string" where
  "joinHostPort host port =
     (if CHR '':'' \<in> set host then ''['' @ host @ '']:'' @ port else host @ '':'' @ port)"

definition normalizeAddr :: "string \<Rightarrow> string" where
  "normalizeAddr addr0 =
     (let addr = trim_space addr0 in
      case splitHostPort addr of Some _ \<Rightarrow> addr | None \<Rightarrow> joinHostPort addr ''17946'')"

section \<open>Calls\<close>

record cluster_net =
  ntRootCert :: "string \<Rightarrow> string result"
  ntIssue :: "string \<Rightarrow> tls_config \<Rightarrow> issue_call \<Rightarrow> issue_reply result"
  ntRaftJoin :: "string \<Rightarrow> tls_config \<Rightarrow> join_call \<Rightarrow> go_error option"
  ntRaftLeave :: "string \<Rightarrow> tls_config \<Rightarrow> string \<Rightarrow> go_error option"

definition verifyCADigest :: "x509_lib \<Rightarrow> string \<Rightarrow> string \<Rightarrow> go_error option" where
  "verifyCADigest lib certPEM wantPrefix =
     (case xPemDecode lib certPEM of
        None \<Rightarrow> Some (errorf ''invalid CA certificate PEM'')
      | Some (_, bytes) \<Rightarrow>
          (case xParseCertificate lib bytes of
             Inl e \<Rightarrow> Some e
           | Inr cert \<Rightarrow>
               (let got = take 25 (hex_encode (xSha256 lib (xcRaw cert))) in
                if got \<noteq> wantPrefix
                then Some (Errorf [Lit ''CA digest mismatch: token pins '', Str wantPrefix, Lit '', got '', Str got])
                else None)))"

definition DownloadRootCA :: "x509_lib \<Rightarrow> cluster_net \<Rightarrow> string \<Rightarrow> string \<Rightarrow> string result" where
  "DownloadRootCA lib net remoteAddr joinToken =
     (case token_Parse joinToken of
        Inl e \<Rightarrow> Inl e
      | Inr parsed \<Rightarrow>
          (case ntRootCert net (normalizeAddr remoteAddr) of
             Inl e \<Rightarrow> Inl e
           | Inr cert \<Rightarrow>
               (case verifyCADigest lib cert (ptCADigestPrefix parsed) of Some e \<Rightarrow> Inl e | None \<Rightarrow> Inr cert)))"

definition IssueWithToken :: "tls_lib \<Rightarrow> cluster_net \<Rightarrow> string \<Rightarrow> string \<Rightarrow> string \<Rightarrow> string \<Rightarrow> issue_reply result" where
  "IssueWithToken tls net remoteAddr caPEM joinToken csrPEM =
     (case ClientTLSFromPEMs tls [] [] caPEM TLSServerName of
        Inl e \<Rightarrow> Inl e
      | Inr cfg \<Rightarrow> ntIssue net (normalizeAddr remoteAddr) cfg \<lparr>iqCsr = csrPEM, iqToken = joinToken, iqNodeID = []\<rparr>)"

definition IssueRenew ::
  "tls_lib \<Rightarrow> cluster_net \<Rightarrow> string \<Rightarrow> string \<Rightarrow> string \<Rightarrow> string \<Rightarrow> string \<Rightarrow> string \<Rightarrow> issue_reply result" where
  "IssueRenew tls net remoteAddr certPEM keyPEM caPEM nodeID csrPEM =
     (case ClientTLSFromPEMs tls certPEM keyPEM caPEM TLSServerName of
        Inl e \<Rightarrow> Inl e
      | Inr cfg \<Rightarrow> ntIssue net (normalizeAddr remoteAddr) cfg \<lparr>iqCsr = csrPEM, iqToken = [], iqNodeID = nodeID\<rparr>)"

definition RaftJoin ::
  "tls_lib \<Rightarrow> cluster_net \<Rightarrow> string \<Rightarrow> string \<Rightarrow> string \<Rightarrow> string \<Rightarrow> string \<Rightarrow> string \<Rightarrow> string \<Rightarrow> go_error option" where
  "RaftJoin tls net remoteAddr certPEM keyPEM caPEM nodeID raftAddr grpcAddr =
     (case ClientTLSFromPEMs tls certPEM keyPEM caPEM TLSServerName of
        Inl e \<Rightarrow> Some e
      | Inr cfg \<Rightarrow>
          ntRaftJoin net (normalizeAddr remoteAddr) cfg \<lparr>jqNodeID = nodeID, jqRaftAddr = raftAddr, jqGrpcAddr = grpcAddr\<rparr>)"

definition RaftLeave :: "tls_lib \<Rightarrow> cluster_net \<Rightarrow> string \<Rightarrow> string \<Rightarrow> string \<Rightarrow> string \<Rightarrow> string \<Rightarrow> go_error option" where
  "RaftLeave tls net remoteAddr certPEM keyPEM caPEM nodeID =
     (case ClientTLSFromPEMs tls certPEM keyPEM caPEM TLSServerName of
        Inl e \<Rightarrow> Some e
      | Inr cfg \<Rightarrow> ntRaftLeave net (normalizeAddr remoteAddr) cfg nodeID)"

section \<open>Keys and the first certificate\<close>

text \<open>
  \<open>GenerateKeyAndCSR\<close> over a fresh key and the library's request (\<open>mkreq\<close> is
  \<open>x509.CreateCertificateRequest\<close>); the key itself, which no caller keeps, is left out.
\<close>

definition GenerateKeyAndCSR ::
  "x509_lib \<Rightarrow> (string \<Rightarrow> string \<Rightarrow> string result) \<Rightarrow> string result \<Rightarrow> string \<Rightarrow> (string \<times> string) result" where
  "GenerateKeyAndCSR lib mkreq fresh commonName =
     (case fresh of
        Inl e \<Rightarrow> Inl (Wrapped [Lit ''generate key: ''] e)
      | Inr key \<Rightarrow>
     (case mkreq commonName key of
        Inl e \<Rightarrow> Inl (Wrapped [Lit ''create CSR: ''] e)
      | Inr csrDER \<Rightarrow>
     (case xMarshalECKey lib key of
        Inl e \<Rightarrow> Inl (Wrapped [Lit ''marshal key: ''] e)
      | Inr keyDER \<Rightarrow>
          Inr (xPemEncode lib ''EC PRIVATE KEY'' keyDER, xPemEncode lib ''CERTIFICATE REQUEST'' csrDER))))"

record self_issued =
  siNodeID :: string
  siCertPEM :: string
  siKeyPEM :: string
  siNotBefore :: gotime
  siNotAfter :: gotime

definition SelfIssue ::
  "x509_lib \<Rightarrow> (string \<Rightarrow> string \<Rightarrow> string result) \<Rightarrow> string result \<Rightarrow> string result \<Rightarrow> int result \<Rightarrow> gotime \<Rightarrow>
     root_ca \<Rightarrow> role \<Rightarrow> duration \<Rightarrow> self_issued result" where
  "SelfIssue lib mkreq rand_id fresh serial now root role validity =
     (case node_NewID rand_id of
        Inl e \<Rightarrow> Inl e
      | Inr nodeID \<Rightarrow>
     (case GenerateKeyAndCSR lib mkreq fresh nodeID of
        Inl e \<Rightarrow> Inl e
      | Inr (keyPEM, csrPEM) \<Rightarrow>
     (case ParseCSR lib csrPEM of
        Inl e \<Rightarrow> Inl e
      | Inr csr \<Rightarrow>
     (case SignNodeCSR lib serial now root
             \<lparr>irCSR = Some csr, irNodeID = nodeID, irRole = role, irValidity = validity\<rparr> of
        Inl e \<Rightarrow> Inl e
      | Inr issued \<Rightarrow>
          Inr \<lparr>siNodeID = nodeID, siCertPEM = isCertPEM issued, siKeyPEM = keyPEM,
               siNotBefore = xcNotBefore (isCert issued), siNotAfter = xcNotAfter (isCert issued)\<rparr>))))"

section \<open>The node service\<close>

text \<open>A server without a host answers with empty responses.\<close>

definition node_List :: "(rpc_context \<Rightarrow> node_info list result) option \<Rightarrow> rpc_context \<Rightarrow> node_info list result" where
  "node_List host ctx =
     (case requireClusterPeer ctx of
        Some e \<Rightarrow> Inl e
      | None \<Rightarrow> (case host of None \<Rightarrow> Inr [] | Some h \<Rightarrow> h (WithInternalCall ctx)))"

definition node_Inspect ::
  "(rpc_context \<Rightarrow> string \<Rightarrow> node_info option result) option \<Rightarrow> rpc_context \<Rightarrow> string \<Rightarrow> node_info option result" where
  "node_Inspect host ctx req =
     (case requireClusterPeer ctx of
        Some e \<Rightarrow> Inl e
      | None \<Rightarrow> (case host of None \<Rightarrow> Inr None | Some h \<Rightarrow> h (WithInternalCall ctx) req))"

section \<open>What the calls guarantee\<close>

lemma verifyCADigest_None:
  "verifyCADigest lib pem d = None \<longleftrightarrow>
     (\<exists>ty b c. xPemDecode lib pem = Some (ty, b) \<and> xParseCertificate lib b = Inr c \<and> DigestPrefix lib c = d)"
  by (auto simp: verifyCADigest_def DigestPrefix_def Let_def split: option.splits sum.splits prod.splits if_splits)

lemma DownloadRootCA_Inr:
  "DownloadRootCA lib net addr tok = Inr pem \<longleftrightarrow>
     (\<exists>p. token_Parse tok = Inr p \<and> ntRootCert net (normalizeAddr addr) = Inr pem \<and>
        verifyCADigest lib pem (ptCADigestPrefix p) = None)"
  by (auto simp: DownloadRootCA_def split: sum.splits option.splits)

lemma DigestPrefix_no_dash: "CHR ''-'' \<notin> set (DigestPrefix lib c)"
  using hex_encode_no_dash by (metis DigestPrefix_def in_set_takeD)

text \<open>
  Claim C12: a joining node trusts only the authority its token names. The root certificate is
  fetched over an unverified connection, but it is kept only when it parses and its digest is the
  one of the cluster that minted the token; what anybody else serves is refused.
\<close>

theorem join_pins_root:
  assumes "Format (DigestPrefix lib root) secs r = Inr tok"
    and "CHR ''-'' \<notin> set (secWorker secs)" and "CHR ''-'' \<notin> set (secManager secs)"
  shows "DownloadRootCA lib net addr tok = Inr pem \<longleftrightarrow> ntRootCert net (normalizeAddr addr) = Inr pem \<and>
    (\<exists>ty b c. xPemDecode lib pem = Some (ty, b) \<and> xParseCertificate lib b = Inr c \<and> DigestPrefix lib c = DigestPrefix lib root)"
proof -
  have tok: "tok = token_text (DigestPrefix lib root) (role_secret secs r)"
    using assms(1) by (simp add: Format_Inr)
  have "CHR ''-'' \<notin> set (role_secret secs r)" using assms(2,3) by (simp add: role_secret_def)
  with tok have "token_Parse tok = Inr \<lparr>ptCADigestPrefix = DigestPrefix lib root, ptSecret = role_secret secs r\<rparr>"
    by (simp add: token_Parse_text DigestPrefix_no_dash)
  then show ?thesis
    by (simp add: DownloadRootCA_Inr verifyCADigest_None)
qed

definition demo_net :: "string \<Rightarrow> cluster_net" where
  "demo_net pem = \<lparr>ntRootCert = (\<lambda>_. Inr pem), ntIssue = (\<lambda>_ _ _. Inl ErrNotLeader), ntRaftJoin = (\<lambda>_ _ _. None),
     ntRaftLeave = (\<lambda>_ _ _. None)\<rparr>"

theorem join_pins_root_witness:
  "DownloadRootCA demo_lib (demo_net ''root'') ''m1'' (token_text (DigestPrefix demo_lib (demo_cert ''root'')) ''00aa'') = Inr ''root'' \<and>
   DownloadRootCA demo_lib (demo_net ''fake'') ''m1'' (token_text (DigestPrefix demo_lib (demo_cert ''root'')) ''00aa'') \<noteq> Inr ''fake''"
proof -
  have tok: "Format (DigestPrefix demo_lib (demo_cert ''root'')) \<lparr>secWorker = ''00aa'', secManager = ''77ff''\<rparr> RoleWorker =
      Inr (token_text (DigestPrefix demo_lib (demo_cert ''root'')) ''00aa'')"
    by (simp add: Format_Inr role_secret_def)
  have parsed: "xPemDecode demo_lib p = Some (''CERTIFICATE'', p)" "xParseCertificate demo_lib p = Inr (demo_cert p)" for p
    by (simp_all add: demo_lib_def)
  have "DigestPrefix demo_lib (demo_cert ''fake'') \<noteq> DigestPrefix demo_lib (demo_cert ''root'')"
    by (simp add: DigestPrefix_def demo_lib_def demo_cert_def hex_encode.simps hex_digit_def Let_def)
  then show ?thesis
    using join_pins_root [OF tok, of "demo_net ''root''" "''m1''" "''root''"]
      join_pins_root [OF tok, of "demo_net ''fake''" "''m1''" "''fake''"]
    by (simp add: parsed demo_net_def)
qed

text \<open>
  An address without a port gets the default one and stays as it is from then on; the
  result splits into the host and that port, so it can be dialled.
\<close>

theorem default_port:
  assumes "h \<noteq> []" and "plain_char (hd h)" and "plain_char (last h)"
    and "CHR '':'' \<notin> set h" and "CHR ''['' \<notin> set h" and "CHR '']'' \<notin> set h"
  shows "normalizeAddr h = h @ '':17946'' \<and> splitHostPort (normalizeAddr h) = Some (h, ''17946'') \<and>
    normalizeAddr (normalizeAddr h) = normalizeAddr h"
proof -
  have last_none: "last_index c xs = None" if "c \<notin> set xs" for c xs
    using that by (induction xs) auto
  have last_app: "last_index c (xs @ c # ys) = Some (length xs)" if "c \<notin> set ys" for c xs ys
    using that last_none by (induction xs) auto
  have trim: "trim_space h = h" and split0: "splitHostPort h = None"
    using assms trim_space_plain [of h] last_none [of "CHR '':''" h] by (simp_all add: splitHostPort_def)
  then have norm: "normalizeAddr h = h @ '':17946''"
    using assms(4) by (simp add: normalizeAddr_def joinHostPort_def)
  have "last_index CHR '':'' (h @ CHR '':'' # ''17946'') = Some (length h)"
    by (rule last_app) simp
  moreover have "(h @ '':17946'') ! 0 = hd h" using assms(1) by (cases h) auto
  moreover have "hd h \<noteq> CHR ''[''" using assms(1,5) by (cases h) auto
  ultimately have split: "splitHostPort (h @ '':17946'') = Some (h, ''17946'')"
    using assms(4-6) by (simp add: splitHostPort_def)
  have "trim_space (h @ '':17946'') = h @ '':17946''"
    by (rule trim_space_plain) (use assms(1,2) in \<open>simp_all add: plain_char_def\<close>)
  with split have "normalizeAddr (h @ '':17946'') = h @ '':17946''" by (simp add: normalizeAddr_def)
  with norm split show ?thesis by simp
qed

theorem default_port_witness:
  "normalizeAddr ''10.0.0.7'' = ''10.0.0.7:17946'' \<and> splitHostPort (normalizeAddr ''10.0.0.7'') = Some (''10.0.0.7'', ''17946'')"
proof -
  have "normalizeAddr ''10.0.0.7'' = ''10.0.0.7'' @ '':17946'' \<and>
    splitHostPort (normalizeAddr ''10.0.0.7'') = Some (''10.0.0.7'', ''17946'') \<and>
    normalizeAddr (normalizeAddr ''10.0.0.7'') = normalizeAddr ''10.0.0.7''"
    by (rule default_port) (simp_all add: plain_char_def)
  then have "splitHostPort (normalizeAddr ''10.0.0.7'') = Some (''10.0.0.7'', ''17946'')" "normalizeAddr ''10.0.0.7'' = ''10.0.0.7:17946''"
    by (blast, simp)
  then show ?thesis by blast
qed

text \<open>
  A bracketed IPv6 host without a port is not recognised: it is wrapped again and can no longer be
  split into host and port.
\<close>

theorem bracketed_host_unusable:
  "normalizeAddr ''[::1]'' = ''[[::1]]:17946'' \<and> splitHostPort (normalizeAddr ''[::1]'') = None"
proof -
  have "trim_space ''[::1]'' = ''[::1]''"
    by (rule trim_space_plain) (simp_all add: plain_char_def)
  then show ?thesis
    by (simp add: normalizeAddr_def splitHostPort_def joinHostPort_def)
qed

lemma SelfIssue_Inr:
  assumes "SelfIssue lib mkreq rand_id fresh serial now root r v = Inr si" and "signs_templates lib"
  shows "\<exists>ic :: issued_cert. isCertPEM ic = siCertPEM si \<and> xcSubject (isCert ic) = \<lparr>certCN = siNodeID si, certOUs = [role_OU r]\<rparr> \<and>
    siNotBefore si = xcNotBefore (isCert ic) \<and> siNotAfter si = xcNotAfter (isCert ic) \<and> siNodeID si \<noteq> [] \<and>
    (r = RoleWorker \<or> r = RoleManager)"
proof -
  obtain nodeID csr ic where sign: "SignNodeCSR lib serial now root
      \<lparr>irCSR = Some csr, irNodeID = nodeID, irRole = r, irValidity = v\<rparr> = Inr ic"
    and parts: "siNodeID si = nodeID" "siCertPEM si = isCertPEM ic" "siNotBefore si = xcNotBefore (isCert ic)"
    "siNotAfter si = xcNotAfter (isCert ic)"
    using assms(1) by (auto simp: SelfIssue_def split: sum.splits prod.splits)
  show ?thesis
    by (rule exI [of _ ic]) (use parts SignNodeCSR_subject(1-3) [OF sign assms(2)] in simp)
qed

end
