(* ===== verification/Raft_Open.thy ===== *)
theory Raft_Open
  imports Store_Contract
begin

text \<open>
  Opening and closing a manager's store (\<open>Open\<close>, \<open>Close\<close> and the waits of
  \<open>internal/raftstore/store.go\<close>). The Raft library, the database and the network are the argument
  \<open>lib\<close>: what each call answers, the state of the started instance, and how that state moves
  between two polls of a wait, whose list ends at the deadline. What is open is followed, so that
  the error paths can be checked for leaks.
\<close>

section \<open>Addresses\<close>

record iface_addr =
  iaIPNet :: bool
  iaLoopback :: bool
  iaTo4 :: "string option"
  iaPrivate :: bool

fun first_private :: "iface_addr list \<Rightarrow> string" where
  "first_private [] = ''127.0.0.1''"
| "first_private (a # as) =
     (if \<not> iaIPNet a \<or> iaLoopback a then first_private as
      else (case iaTo4 a of
              None \<Rightarrow> first_private as
            | Some ip \<Rightarrow> if \<not> iaPrivate a then first_private as else ip))"

definition privateIPv4 :: "iface_addr list result \<Rightarrow> string" where
  "privateIPv4 addrs = (case addrs of Inl _ \<Rightarrow> ''127.0.0.1'' | Inr as \<Rightarrow> first_private as)"

definition resolveRaftAddr :: "iface_addr list result \<Rightarrow> string \<Rightarrow> string" where
  "resolveRaftAddr addrs addr = (if has_prefix '':'' addr then privateIPv4 addrs @ addr else addr)"

section \<open>Waiting\<close>

text \<open>One iteration of a wait checks the state and sleeps, while the library goes on.\<close>

type_synonym raft_polls = "(raft_node \<Rightarrow> raft_node) list"

fun poll :: "(raft_node \<Rightarrow> bool) \<Rightarrow> raft_polls \<Rightarrow> raft_node \<Rightarrow> raft_node \<times> bool" where
  "poll P [] s = (s, False)"
| "poll P (f # fs) s = (if P s then (s, True) else poll P fs (f s))"

definition wait_for :: "(raft_node \<Rightarrow> bool) \<Rightarrow> string \<Rightarrow> raft_polls \<Rightarrow> raft_node \<Rightarrow> raft_node \<times> go_error option" where
  "wait_for P msg fs s = (case poll P fs s of (s', True) \<Rightarrow> (s', None) | (s', False) \<Rightarrow> (s', Some (errorf msg)))"

definition waitUntilLeader :: "raft_polls \<Rightarrow> raft_node \<Rightarrow> raft_node \<times> go_error option" where
  "waitUntilLeader = wait_for IsLeader ''timed out waiting to become raft leader''"

definition WaitForLeader :: "raft_polls \<Rightarrow> raft_node \<Rightarrow> raft_node \<times> go_error option" where
  "WaitForLeader = wait_for (\<lambda>s. rnLeaderID s \<noteq> []) ''timed out waiting for raft leader''"

definition WaitInitialized :: "raft_polls \<Rightarrow> raft_node \<Rightarrow> raft_node \<times> go_error option" where
  "WaitInitialized = wait_for IsInitialized ''timed out waiting for cluster initialization''"

section \<open>Opening and closing\<close>

record store_config =
  scDataDir :: string
  scNodeID :: string
  scRaftAddr :: string
  scGRPCAdvertise :: string
  scBootstrap :: bool

datatype raft_resource = BoltDB | Transport | RaftInstance

record raft_lib =
  rlIfaces :: "iface_addr list result"
  rlMkdir :: "string \<Rightarrow> go_error option"
  rlBolt :: "go_error option"
  rlSnapshots :: "go_error option"
  rlResolve :: "string \<Rightarrow> go_error option"
  rlTransport :: "string \<Rightarrow> string result"
  rlHasState :: "bool result"
  rlBootstrap :: "raft_server list \<Rightarrow> go_error option"
  rlStart :: "raft_node result"
  rlElection :: raft_polls
  rlShutdown :: "go_error option"

text \<open>\<open>Close\<close>: the instance, then the transport and the database; a failing shutdown returns at once.\<close>

definition store_Close :: "raft_lib \<Rightarrow> raft_resource list \<Rightarrow> raft_resource list \<times> go_error option" where
  "store_Close lib opened =
     (if RaftInstance \<in> set opened then
        (case rlShutdown lib of Some e \<Rightarrow> (opened, Some e) | None \<Rightarrow> ([], None))
      else ([], None))"

definition store_Open :: "raft_lib \<Rightarrow> ca_loader \<Rightarrow> store_config \<Rightarrow> raft_resource list \<times> raft_node result" where
  "store_Open lib load cfg =
     (if scDataDir cfg = [] then ([], Inl (errorf ''data dir is required''))
      else if scNodeID cfg = [] then ([], Inl (errorf ''node id is required''))
      else
        (let raftAddr = resolveRaftAddr (rlIfaces lib) (if scRaftAddr cfg = [] then defaultRaftAddr else scRaftAddr cfg);
             raftDir = scDataDir cfg @ ''/raft'' in
     (case rlMkdir lib raftDir of
        Some e \<Rightarrow> ([], Inl (Wrapped [Lit ''create raft dir: ''] e))
      | None \<Rightarrow>
     (case rlMkdir lib (raftDir @ ''/snapshots'') of
        Some e \<Rightarrow> ([], Inl (Wrapped [Lit ''create snapshot dir: ''] e))
      | None \<Rightarrow>
     (case rlBolt lib of
        Some e \<Rightarrow> ([], Inl (Wrapped [Lit ''open raft boltdb: ''] e))
      | None \<Rightarrow>
     (case rlSnapshots lib of
        Some e \<Rightarrow> (remove1 BoltDB [BoltDB], Inl (Wrapped [Lit ''snapshot store: ''] e))
      | None \<Rightarrow>
     (case rlResolve lib raftAddr of
        Some e \<Rightarrow> (remove1 BoltDB [BoltDB], Inl (Wrapped [Lit ''resolve raft addr: ''] e))
      | None \<Rightarrow>
     (case rlTransport lib raftAddr of
        Inl e \<Rightarrow> (remove1 BoltDB [BoltDB], Inl (Wrapped [Lit ''raft transport: ''] e))
      | Inr local \<Rightarrow>
          (let opened = [Transport, BoltDB]; dropped = remove1 BoltDB (remove1 Transport opened) in
     (case rlHasState lib of
        Inl e \<Rightarrow> (dropped, Inl (Wrapped [Lit ''check raft state: ''] e))
      | Inr hasState \<Rightarrow>
     (case (if scBootstrap cfg \<and> \<not> hasState
            then rlBootstrap lib [\<lparr>svID = scNodeID cfg, svAddress = local, svVoter = True\<rparr>] else None) of
        Some e \<Rightarrow> (dropped, Inl (Wrapped [Lit ''bootstrap cluster: ''] e))
      | None \<Rightarrow>
     (case rlStart lib of
        Inl e \<Rightarrow> (dropped, Inl (Wrapped [Lit ''start raft: ''] e))
      | Inr r \<Rightarrow>
          (let running = RaftInstance # opened;
               s = r\<lparr>rnNodeID := scNodeID cfg, rnRaftAddr := local, rnGRPCAdvertise := scGRPCAdvertise cfg\<rparr> in
           if \<not> scBootstrap cfg then (running, Inr s)
           else
     (case waitUntilLeader (rlElection lib) s of
        (_, Some e) \<Rightarrow> (fst (store_Close lib running), Inl e)
      | (s1, None) \<Rightarrow>
     (case SavePeer load s1 \<lparr>piNodeID = scNodeID cfg, piRaftAddr = local, piGRPCAddr = scGRPCAdvertise cfg\<rparr> of
        (_, Some e) \<Rightarrow> (fst (store_Close lib running), Inl (Wrapped [Lit ''register bootstrap peer: ''] e))
      | (s2, None) \<Rightarrow> (running, Inr s2))))))))))))))))"

section \<open>What opening guarantees\<close>

lemma poll_True: "poll P fs s = (s', True) \<Longrightarrow> P s'"
  by (induction P fs s rule: poll.induct) (auto split: if_splits)

lemma wait_for_None: "wait_for P msg fs s = (s', None) \<Longrightarrow> P s'"
  using poll_True [of P fs s] by (auto simp: wait_for_def split: prod.splits bool.splits)

text \<open>
  A wait returns success exactly when the condition holds at one of the polls before the deadline,
  and then with the first such state.
\<close>

lemma wait_for_iff:
  "snd (wait_for P msg fs s) = None \<longleftrightarrow> (\<exists>k < length fs. P (fold (\<lambda>f. f) (take k fs) s))"
proof (induction fs arbitrary: s)
  case (Cons f fs)
  have "(\<exists>k < length (f # fs). P (fold (\<lambda>f. f) (take k (f # fs)) s)) \<longleftrightarrow>
      P s \<or> (\<exists>k < length fs. P (fold (\<lambda>f. f) (take k fs) (f s)))"
    by (auto simp: less_Suc_eq_0_disj)
  with Cons [of "f s"] show ?case
    by (auto simp: wait_for_def split: prod.splits bool.splits)
qed (simp add: wait_for_def)

text \<open>
  A store that fails to open leaves nothing open: on every error path the database, the
  transport and the Raft instance are closed again, unless the shutdown of the instance itself
  fails; a store that opens holds all three.
\<close>

theorem open_leaks_nothing:
  assumes "store_Open lib load cfg = (res, r)" and "rlShutdown lib = None"
  shows "if is_ok r then set res = {BoltDB, Transport, RaftInstance} else res = []"
  using assms
  by (auto simp: store_Open_def store_Close_def Let_def is_ok_def split: if_splits option.splits sum.splits prod.splits)

definition demo_raft_lib :: "raft_node \<Rightarrow> raft_lib" where
  "demo_raft_lib r = \<lparr>rlIfaces = Inr [], rlMkdir = (\<lambda>_. None), rlBolt = None, rlSnapshots = None,
     rlResolve = (\<lambda>_. None), rlTransport = Inr, rlHasState = Inr False, rlBootstrap = (\<lambda>_. None),
     rlStart = Inr r, rlElection = [\<lambda>s. s\<lparr>rnLeader := True\<rparr>, id], rlShutdown = None\<rparr>"

definition demo_store_config :: store_config where
  "demo_store_config = \<lparr>scDataDir = ''/d'', scNodeID = ''m1'', scRaftAddr = ''127.0.0.1:17947'',
     scGRPCAdvertise = ''10.0.0.1:17946'', scBootstrap = True\<rparr>"

theorem open_leaks_nothing_witness:
  "fst (store_Open (demo_raft_lib (demo_raft False NewFSM)\<lparr>rlStart := Inl ErrNotLeader\<rparr>) (\<lambda>_ _. Inl ErrNotLeader) demo_store_config) = []"
proof -
  let ?lib = "demo_raft_lib (demo_raft False NewFSM)\<lparr>rlStart := Inl ErrNotLeader\<rparr>"
  obtain res r where run: "store_Open ?lib (\<lambda>_ _. Inl ErrNotLeader) demo_store_config = (res, r)" by fastforce
  moreover from run have "\<not> is_ok r"
    by (auto simp: store_Open_def demo_raft_lib_def demo_store_config_def Let_def has_prefix_def resolveRaftAddr_def)
  ultimately show ?thesis
    using open_leaks_nothing [OF run] by (simp add: demo_raft_lib_def)
qed

lemma store_Open_cfg:
  assumes "store_Open lib load cfg = (res, Inr s)" and "\<not> scBootstrap cfg"
  shows "rnNodeID s = scNodeID cfg \<and> rnGRPCAdvertise s = scGRPCAdvertise cfg"
  using assms
  by (auto simp: store_Open_def Let_def split: if_splits option.splits sum.splits)

text \<open>
  The first manager comes up as the leader of a cluster of one: a bootstrapping store
  that opens is led by this node and knows it as a peer under the advertised address.
\<close>

theorem bootstrap_leads:
  assumes "store_Open lib load cfg = (res, Inr s)" and "scBootstrap cfg"
  shows "IsLeader s \<and> (\<exists>p. getPeer (rnFsm s) (scNodeID cfg) = Some p \<and> piGRPCAddr p = scGRPCAdvertise cfg \<and>
    rlTransport lib (resolveRaftAddr (rlIfaces lib) (if scRaftAddr cfg = [] then defaultRaftAddr else scRaftAddr cfg)) =
      Inr (piRaftAddr p))"
proof -
  obtain local r s1 where local: "rlTransport lib (resolveRaftAddr (rlIfaces lib)
        (if scRaftAddr cfg = [] then defaultRaftAddr else scRaftAddr cfg)) = Inr local"
    and wait: "waitUntilLeader (rlElection lib)
        (r\<lparr>rnNodeID := scNodeID cfg, rnRaftAddr := local, rnGRPCAdvertise := scGRPCAdvertise cfg\<rparr>) = (s1, None)"
    and save: "SavePeer load s1 \<lparr>piNodeID = scNodeID cfg, piRaftAddr = local, piGRPCAddr = scGRPCAdvertise cfg\<rparr> = (s, None)"
    using assms by (auto simp: store_Open_def Let_def split: if_splits option.splits sum.splits prod.splits)
  let ?p = "\<lparr>piNodeID = scNodeID cfg, piRaftAddr = local, piGRPCAddr = scGRPCAdvertise cfg\<rparr>"
  let ?d = "encodeCommand opSavePeer (no_fields\<lparr>jPeer := Given ?p\<rparr>)"
  have lead: "IsLeader s1"
    using wait_for_None [OF wait [unfolded waitUntilLeader_def]] .
  with save have app: "store_apply load s1 ?d = (s, None)"
    by (simp add: SavePeer_def split: if_splits)
  then have "rnFsm s = fst (applySavePeer (rnFsm s1) (Object (no_fields\<lparr>jPeer := Given ?p\<rparr>)))"
    "snd (applySavePeer (rnFsm s1) (Object (no_fields\<lparr>jPeer := Given ?p\<rparr>))) = None"
    using store_apply_ok [of load s1 ?d] by (simp_all add: Apply_ops)
  then have "getPeer (rnFsm s) (scNodeID cfg) = Some ?p"
    by (auto simp: applySavePeer_def payload_defs getPeer_def split: if_splits)
  moreover have "IsLeader s"
    using lead store_apply_keeps(1) [of load s1 ?d] app by (simp add: IsLeader_def)
  ultimately show ?thesis using local by auto
qed

theorem bootstrap_leads_witness:
  "\<exists>res s p. store_Open (demo_raft_lib (demo_raft False NewFSM)) (\<lambda>_ _. Inl ErrNotLeader) demo_store_config = (res, Inr s) \<and> IsLeader s \<and>
     getPeer (rnFsm s) ''m1'' = Some p"
proof -
  have "\<exists>res s. store_Open (demo_raft_lib (demo_raft False NewFSM)) (\<lambda>_ _. Inl ErrNotLeader) demo_store_config = (res, Inr s)"
    by (simp add: store_Open_def demo_raft_lib_def demo_store_config_def Let_def has_prefix_def resolveRaftAddr_def
        waitUntilLeader_def wait_for_def demo_raft_def IsLeader_def SavePeer_def store_apply_def fsm_step_def Apply_ops
        applySavePeer_def payload_defs)
  then obtain res s where run: "store_Open (demo_raft_lib (demo_raft False NewFSM)) (\<lambda>_ _. Inl ErrNotLeader) demo_store_config = (res, Inr s)"
    by blast
  with bootstrap_leads [OF run] show ?thesis by (auto simp: demo_store_config_def)
qed

end
