(* ===== verification/Renewal.thy ===== *)
theory Renewal
  imports Complex_Main Cellar_Prelude
begin

text \<open>
  When a certificate is renewed (\<open>internal/renew/renew.go\<close>). The code divides durations as
  \<open>float64\<close>s; here a \<open>float64\<close> is the rational it denotes, and every conversion and operation
  rounds to 53 bits, to nearest and ties to even, as IEEE 754 prescribes. The values are durations,
  quotients of durations and the threshold, so neither overflow nor subnormal numbers arise.
\<close>

section \<open>Double precision\<close>

definition round_half_even :: "rat \<Rightarrow> int" where
  "round_half_even q =
     (let f = \<lfloor>q\<rfloor>; r = q - of_int f in
      if r < 1 / 2 then f else if r > 1 / 2 then f + 1 else if even f then f else f + 1)"

text \<open>Exponent and mantissa, the mantissa in \<open>[2^52, 2^53)\<close>; the first argument bounds the exponent.\<close>

fun f64_norm :: "nat \<Rightarrow> rat \<Rightarrow> int \<times> rat" where
  "f64_norm 0 q = (0, q)"
| "f64_norm (Suc n) q =
     (if q \<ge> 2 ^ 53 then (case f64_norm n (q / 2) of (e, m) \<Rightarrow> (e + 1, m))
      else if q < 2 ^ 52 then (case f64_norm n (q * 2) of (e, m) \<Rightarrow> (e - 1, m))
      else (0, q))"

definition two_powi :: "int \<Rightarrow> rat" where
  "two_powi e = (if e \<ge> 0 then 2 ^ nat e else 1 / 2 ^ nat (- e))"

definition f64_pos :: "rat \<Rightarrow> rat" where
  "f64_pos q = (case f64_norm 1100 q of (e, m) \<Rightarrow> of_int (round_half_even m) * two_powi e)"

definition f64 :: "rat \<Rightarrow> rat" where
  "f64 q = (if q = 0 then 0 else if q < 0 then - f64_pos (- q) else f64_pos q)"

definition f64_of_int :: "int \<Rightarrow> rat" where
  "f64_of_int x = f64 (of_int x)"

definition duration_of_f64 :: "rat \<Rightarrow> duration" where
  "duration_of_f64 q = (if q < 0 then \<lceil>q\<rceil> else \<lfloor>q\<rfloor>)"

section \<open>The checks\<close>

definition DefaultThreshold :: rat where
  "DefaultThreshold = f64 (1 / 5)"

definition Needed :: "gotime \<Rightarrow> gotime \<Rightarrow> gotime \<Rightarrow> rat \<Rightarrow> bool" where
  "Needed notBefore notAfter now threshold0 =
     (let threshold = (if threshold0 \<le> 0 \<or> threshold0 \<ge> 1 then DefaultThreshold else threshold0) in
      if \<not> now < notAfter then True
      else
        (let lifetime = time_sub notAfter notBefore in
         if lifetime \<le> 0 then True
         else
           (let remaining = time_sub notAfter now in
            f64 (f64_of_int remaining / f64_of_int lifetime) < threshold)))"

definition NextCheck :: "gotime \<Rightarrow> gotime \<Rightarrow> gotime \<Rightarrow> rat \<Rightarrow> duration" where
  "NextCheck notBefore notAfter now threshold =
     (if Needed notBefore notAfter now threshold then 5 * minute
      else
        (let lifetime = time_sub notAfter notBefore in
         if lifetime \<le> 0 then 5 * minute
         else
           (let windowStart = notAfter - duration_of_f64 (f64 (f64_of_int lifetime * threshold));
                until = time_sub windowStart now in
            if until < hour then (if until < minute then minute else until) else hour)))"

section \<open>Rounding errors\<close>

lemma round_half_even_error: "\<bar>of_int (round_half_even q) - q\<bar> \<le> 1 / 2"
proof -
  have "of_int \<lfloor>q\<rfloor> \<le> q" "q < of_int \<lfloor>q\<rfloor> + 1" by linarith+
  then show ?thesis by (auto simp: round_half_even_def Let_def abs_le_iff)
qed

lemma two_powi_Suc: "two_powi (e + 1) = 2 * two_powi e"
proof (cases "e \<ge> 0")
  case True
  then show ?thesis by (simp add: two_powi_def nat_add_distrib)
next
  case False
  then have "nat (- e) = Suc (nat (- (e + 1)))" by simp
  with False show ?thesis by (cases "e = - 1") (auto simp: two_powi_def)
qed

lemma two_powi_pred: "two_powi (e - 1) = two_powi e / 2"
  using two_powi_Suc [of "e - 1"] by simp

lemma two_powi_pos [simp]: "0 < two_powi e"
  by (simp add: two_powi_def)

lemma f64_norm_value: "f64_norm n q = (e, m) \<Longrightarrow> q = m * two_powi e"
proof (induction n arbitrary: q e)
  case 0
  then show ?case by (simp add: two_powi_def)
next
  case (Suc n)
  show ?case
  proof (cases "q \<ge> 2 ^ 53")
    case True
    with Suc.prems obtain e' where "f64_norm n (q / 2) = (e', m)" "e = e' + 1"
      by (auto split: prod.splits)
    with Suc.IH [of "q / 2" e'] show ?thesis by (simp add: two_powi_Suc)
  next
    case False
    show ?thesis
    proof (cases "q < 2 ^ 52")
      case True
      with False Suc.prems obtain e' where "f64_norm n (q * 2) = (e', m)" "e = e' - 1"
        by (auto split: prod.splits)
      with Suc.IH [of "q * 2" e'] show ?thesis by (simp add: two_powi_pred)
    next
      case False': False
      with False Suc.prems show ?thesis by (simp add: two_powi_def)
    qed
  qed
qed

lemma f64_norm_mantissa:
  "2 ^ 52 \<le> q * 2 ^ n \<Longrightarrow> q < 2 ^ 53 * 2 ^ n \<Longrightarrow> f64_norm n q = (e, m) \<Longrightarrow> 2 ^ 52 \<le> m \<and> m < 2 ^ 53"
proof (induction n arbitrary: q e)
  case 0
  then show ?case by simp
next
  case (Suc n)
  show ?case
  proof (cases "q \<ge> 2 ^ 53")
    case True
    with Suc.prems(3) obtain e' where norm: "f64_norm n (q / 2) = (e', m)"
      by (auto split: prod.splits)
    have "(2 :: rat) ^ 52 * 1 \<le> (q / 2) * 2 ^ n"
      by (rule mult_mono) (use True in simp_all)
    moreover have "q / 2 < 2 ^ 53 * 2 ^ n" using Suc.prems(2) by simp
    ultimately show ?thesis using Suc.IH [OF _ _ norm] by simp
  next
    case False
    show ?thesis
    proof (cases "q < 2 ^ 52")
      case True
      with False Suc.prems(3) obtain e' where norm: "f64_norm n (q * 2) = (e', m)"
        by (auto split: prod.splits)
      have "q * 2 < 2 ^ 53 * 1" using True by simp
      also have "(2 :: rat) ^ 53 * 1 \<le> 2 ^ 53 * 2 ^ n"
        by (rule mult_left_mono) simp_all
      finally have "q * 2 < 2 ^ 53 * 2 ^ n" .
      moreover have "2 ^ 52 \<le> (q * 2) * 2 ^ n" using Suc.prems(1) by (simp add: mult_ac)
      ultimately show ?thesis using Suc.IH [OF _ _ norm] by simp
    next
      case False': False
      with False Suc.prems(3) show ?thesis by simp
    qed
  qed
qed

text \<open>In the range of durations and their quotients a rounding errs by at most one part in \<open>2^53\<close>.\<close>

definition f64_range :: "rat \<Rightarrow> bool" where
  "f64_range q \<longleftrightarrow> 1 / 2 ^ 200 \<le> q \<and> q \<le> 2 ^ 200"

lemma f64_error:
  assumes "f64_range q"
  shows "\<bar>f64 q - q\<bar> \<le> q / 2 ^ 53"
proof -
  obtain e m where norm: "f64_norm 1100 q = (e, m)" by fastforce
  have q: "0 < q" using assms by (simp add: f64_range_def)
  have "(2 :: rat) ^ 52 \<le> 1 / 2 ^ 200 * 2 ^ 1100" by simp
  also have "\<dots> \<le> q * 2 ^ 1100"
    by (rule mult_right_mono) (use assms in \<open>simp_all add: f64_range_def\<close>)
  finally have "2 ^ 52 \<le> q * 2 ^ 1100" .
  moreover have "q \<le> 2 ^ 200" using assms by (simp add: f64_range_def)
  then have "q < 2 ^ 53 * 2 ^ 1100" by (rule le_less_trans) simp
  ultimately have m: "2 ^ 52 \<le> m" using f64_norm_mantissa [OF _ _ norm] by simp
  have val: "q = m * two_powi e" using f64_norm_value [OF norm] .
  have "f64 q = of_int (round_half_even m) * two_powi e"
    using q by (simp add: f64_def f64_pos_def norm)
  then have "f64 q - q = (of_int (round_half_even m) - m) * two_powi e"
    by (simp only: left_diff_distrib val [symmetric])
  then have "\<bar>f64 q - q\<bar> = \<bar>of_int (round_half_even m) - m\<bar> * two_powi e"
    by (simp add: abs_mult abs_of_pos)
  also have "\<dots> \<le> (m / 2 ^ 53) * two_powi e"
    by (rule mult_right_mono) (use round_half_even_error [of m] m in \<open>simp_all add: order_less_imp_le\<close>)
  also have "\<dots> = q / 2 ^ 53" by (simp add: val)
  finally show ?thesis .
qed

lemma f64_near:
  assumes "f64_range q"
  shows "q * (999999 / 1000000) \<le> f64 q" and "f64 q \<le> q * (1000001 / 1000000)"
proof -
  have "0 < q" using assms by (simp add: f64_range_def)
  then have "q / 2 ^ 53 \<le> q / 1000000" by (simp add: field_simps)
  then have "\<bar>f64 q - q\<bar> \<le> q / 1000000"
    using f64_error [OF assms] by (rule order_trans [rotated])
  then have "f64 q - q \<le> q / 1000000" "q - f64 q \<le> q / 1000000"
    by (simp_all only: abs_le_iff minus_diff_eq)
  moreover have "q * (999999 / 1000000) = q - q / 1000000" "q * (1000001 / 1000000) = q + q / 1000000"
    by (simp_all add: field_simps)
  ultimately show "q * (999999 / 1000000) \<le> f64 q" "f64 q \<le> q * (1000001 / 1000000)"
    by linarith+
qed

lemma duration_range:
  assumes "0 < x" and "x \<le> max_int64"
  shows "f64_range (of_int x)"
proof -
  have "of_int x \<le> (of_int max_int64 :: rat)" "1 \<le> (of_int x :: rat)"
    using assms by (simp_all only: of_int_le_iff of_int_1_le_iff)
  then show ?thesis by (simp add: f64_range_def max_int64_def)
qed

lemma duration_near:
  assumes "0 < x" and "x \<le> max_int64"
  shows "of_int x * (999999 / 1000000) \<le> f64_of_int x" and "f64_of_int x \<le> of_int x * (1000001 / 1000000)"
    and "0 < f64_of_int x" and "f64_of_int x \<le> 2 ^ 64" and "999999 / 1000000 \<le> f64_of_int x"
proof -
  note near = f64_near [OF duration_range [OF assms]]
  have le: "of_int x \<le> (2 ^ 63 :: rat)" "1 \<le> (of_int x :: rat)"
  proof -
    have "of_int x \<le> (of_int max_int64 :: rat)" using assms(2) by (simp only: of_int_le_iff)
    then show "of_int x \<le> (2 ^ 63 :: rat)" by (simp add: max_int64_def)
    show "1 \<le> (of_int x :: rat)" using assms(1) by simp
  qed
  show "of_int x * (999999 / 1000000) \<le> f64_of_int x" "f64_of_int x \<le> of_int x * (1000001 / 1000000)"
    using near by (simp_all add: f64_of_int_def)
  with le show "0 < f64_of_int x" "f64_of_int x \<le> 2 ^ 64" "999999 / 1000000 \<le> f64_of_int x"
    by simp_all
qed

lemma ratio_near:
  assumes "0 < r" and "r \<le> max_int64" and "0 < l" and "l \<le> max_int64"
  defines "q \<equiv> f64 (f64_of_int r / f64_of_int l)"
  shows "of_int r / (of_int l :: rat) * (999997 / 1000000) \<le> q" and "q \<le> of_int r / (of_int l :: rat) * (1000010 / 1000000)"
proof -
  define a where "a = f64_of_int r"
  define b where "b = f64_of_int l"
  note a = duration_near [OF assms(1,2), folded a_def] and b = duration_near [OF assms(3,4), folded b_def]
  have r: "0 < (of_int r :: rat)" and l: "0 < (of_int l :: rat)" using assms(1,3) by simp_all
  have lo: "of_int r / (of_int l :: rat) * (999998 / 1000000) \<le> a / b"
  proof -
    have "of_int r / (of_int l :: rat) * (999998 / 1000000) \<le> (of_int r * (999999 / 1000000)) / (of_int l * (1000001 / 1000000))"
      using r l by (simp add: field_simps)
    also have "\<dots> \<le> a / b"
      by (rule frac_le) (use a b r l in simp_all)
    finally show ?thesis .
  qed
  have hi: "a / b \<le> of_int r / (of_int l :: rat) * (1000003 / 1000000)"
  proof -
    have "a / b \<le> (of_int r * (1000001 / 1000000)) / (of_int l * (999999 / 1000000))"
      by (rule frac_le) (use a b r l in simp_all)
    also have "\<dots> \<le> of_int r / (of_int l :: rat) * (1000003 / 1000000)"
      using r l by (simp add: field_simps)
    finally show ?thesis .
  qed
  have range: "f64_range (a / b)"
  proof -
    have "1 / 2 ^ 200 \<le> (999999 / 1000000 :: rat) / 2 ^ 64" by simp
    also have "\<dots> \<le> a / b" by (rule frac_le) (use a b in simp_all)
    finally have low: "1 / 2 ^ 200 \<le> a / b" .
    have "a / b \<le> 2 ^ 64 / (999999 / 1000000)" by (rule frac_le) (use a b in simp_all)
    moreover have "2 ^ 64 / (999999 / 1000000) \<le> (2 :: rat) ^ 200" by simp
    ultimately have "a / b \<le> 2 ^ 200" by (meson order_trans)
    with low show ?thesis by (simp only: f64_range_def simp_thms)
  qed
  have pos: "0 < of_int r / (of_int l :: rat)" using r l by simp
  have "of_int r / (of_int l :: rat) * (999997 / 1000000) \<le> (of_int r / (of_int l :: rat) * (999998 / 1000000)) * (999999 / 1000000)"
    using pos by simp
  also have "\<dots> \<le> (a / b) * (999999 / 1000000)" by (rule mult_right_mono [OF lo]) simp
  also have "\<dots> \<le> q" using f64_near(1) [OF range] by (simp add: q_def a_def b_def)
  finally show "of_int r / (of_int l :: rat) * (999997 / 1000000) \<le> q" .
  have "q \<le> (a / b) * (1000001 / 1000000)" using f64_near(2) [OF range] by (simp add: q_def a_def b_def)
  also have "\<dots> \<le> (of_int r / (of_int l :: rat) * (1000003 / 1000000)) * (1000001 / 1000000)" by (rule mult_right_mono [OF hi]) simp
  also have "\<dots> \<le> of_int r / (of_int l :: rat) * (1000010 / 1000000)" using pos by simp
  finally show "q \<le> of_int r / (of_int l :: rat) * (1000010 / 1000000)" .
qed

text \<open>The threshold itself is a rounded fifth.\<close>

lemma threshold_near:
  "1 / 5 * (999999 / 1000000) \<le> DefaultThreshold" "DefaultThreshold \<le> 1 / 5 * (1000001 / 1000000)"
  using f64_near [of "1 / 5"] by (simp_all add: DefaultThreshold_def f64_range_def)

section \<open>When a certificate is renewed\<close>

lemma Needed_default:
  "Needed nb na now DefaultThreshold =
     (na \<le> now \<or> time_sub na nb \<le> 0 \<or>
      f64 (f64_of_int (time_sub na now) / f64_of_int (time_sub na nb)) < DefaultThreshold)"
  using threshold_near by (simp add: Needed_def Let_def not_less)

text \<open>
  Claim C40: renewal starts when a fifth of the lifetime is left. Floating point included, a
  certificate with less than a fifth left (by a thousandth) is renewed, one with more is not, and
  an expired one always is.
\<close>

theorem renewal_window:
  assumes "0 < time_sub na nb"
  shows "(na \<le> now \<longrightarrow> Needed nb na now DefaultThreshold) \<and>
    (now < na \<longrightarrow> 5005 * time_sub na now \<le> 1000 * time_sub na nb \<longrightarrow> Needed nb na now DefaultThreshold) \<and>
    (now < na \<longrightarrow> 1001 * time_sub na nb \<le> 5000 * time_sub na now \<longrightarrow> \<not> Needed nb na now DefaultThreshold)"
proof -
  let ?l = "time_sub na nb" and ?r = "time_sub na now"
  let ?q = "f64 (f64_of_int ?r / f64_of_int ?l)"
  have le: "?l \<le> max_int64" "?r \<le> max_int64" by (simp_all add: time_sub_def min_int64_def max_int64_def)
  have l: "0 < (of_int ?l :: rat)" using assms by simp
  have needed: "Needed nb na now DefaultThreshold" if "now < na" "5005 * ?r \<le> 1000 * ?l"
  proof -
    have r: "0 < ?r" using that(1) by (simp add: time_sub_def max_int64_def min_int64_def)
    have "5005 * (of_int ?r :: rat) \<le> 1000 * of_int ?l" using that(2)
      by (metis (mono_tags) of_int_le_iff of_int_mult of_int_numeral)
    then have "of_int ?r / of_int ?l \<le> (1000 / 5005 :: rat)" using l by (simp add: field_simps)
    then have "of_int ?r / of_int ?l * (1000010 / 1000000) \<le> (1000 / 5005 :: rat) * (1000010 / 1000000)"
      by (rule mult_right_mono) simp
    also have "\<dots> < 1 / 5 * (999999 / 1000000)" by simp
    finally have "?q < DefaultThreshold"
      using ratio_near(2) [OF r le(2) assms le(1)] threshold_near(1) by linarith
    then show ?thesis by (simp add: Needed_default)
  qed
  have not_needed: "\<not> Needed nb na now DefaultThreshold" if "now < na" "1001 * ?l \<le> 5000 * ?r"
  proof -
    have r: "0 < ?r" using that(1) by (simp add: time_sub_def max_int64_def min_int64_def)
    have "1001 * (of_int ?l :: rat) \<le> 5000 * of_int ?r" using that(2)
      by (metis (mono_tags) of_int_le_iff of_int_mult of_int_numeral)
    then have "(1001 / 5000 :: rat) \<le> of_int ?r / of_int ?l" using l by (simp add: field_simps)
    then have "(1001 / 5000 :: rat) * (999997 / 1000000) \<le> of_int ?r / of_int ?l * (999997 / 1000000)"
      by (rule mult_right_mono) simp
    moreover have "1 / 5 * (1000001 / 1000000) < (1001 / 5000 :: rat) * (999997 / 1000000)" by simp
    ultimately have "DefaultThreshold < ?q"
      using ratio_near(1) [OF r le(2) assms le(1)] threshold_near(2) by linarith
    with that(1) assms show ?thesis by (simp add: Needed_default)
  qed
  show ?thesis
    using needed not_needed by (auto simp: Needed_default)
qed

theorem renewal_window_witness:
  "Needed 0 (100 * hour) (90 * hour) DefaultThreshold \<and> \<not> Needed 0 (100 * hour) (50 * hour) DefaultThreshold \<and>
   Needed 0 (100 * hour) (100 * hour) DefaultThreshold"
  using renewal_window [of "100 * hour" 0 "90 * hour"] renewal_window [of "100 * hour" 0 "50 * hour"]
    renewal_window [of "100 * hour" 0 "100 * hour"]
  by (simp add: time_sub_def min_int64_def max_int64_def time_unit_defs)

text \<open>
  The renewal loop always wakes up again, at the earliest after a minute and at the
  latest after an hour, whatever the certificate's times and the threshold are.
\<close>

theorem next_check_bounds:
  "minute \<le> NextCheck notBefore notAfter now threshold \<and> NextCheck notBefore notAfter now threshold \<le> hour"
  by (simp add: NextCheck_def Let_def minute_def hour_def second_def)

end
