(* ===== verification/Daemon_Lifecycle.thy ===== *)
theory Daemon_Lifecycle
  imports Manager_Dial Node_Clients Raft_Open Renewal
begin

text \<open>
  The life of a node (\<open>internal/daemon/daemon.go\<close>, \<open>role.go\<close> and \<open>startRuntimeLocked\<close> of
  \<open>sandbox.go\<close>): starting, forming or joining a cluster, resuming, changing role, renewing,
  leaving and shutting down. Everything outside the process is the argument \<open>h\<close>: files, keys and
  random bytes, the network, the Raft library, the runtime's installation. Goroutines are the list
  of running loops; a cancelled context ends those of the cluster.
\<close>

section \<open>The host\<close>

record host =
  hsOs :: os_answers
  hsCodec :: id_codec
  hsX509 :: x509_lib
  hsTls :: tls_lib
  hsNet :: cluster_net
  hsRaft :: raft_lib
  hsMkReq :: "string \<Rightarrow> string \<Rightarrow> string result"
  hsKey :: "string result"
  hsRootKey :: "string result"
  hsSerial :: "int result"
  hsRootSerial :: "int result"
  hsNodeID :: "string result"
  hsClusterID :: "string result"
  hsSecrets :: "string result \<times> string result"
  hsNow :: gotime
  hsInstalled :: "go_error option"
  hsListen :: "string \<Rightarrow> go_error option"
  hsListenLocal :: "go_error option"
  hsLeaderPolls :: raft_polls
  hsInitPolls :: raft_polls
  hsRemoveRaft :: "go_error option"

abbreviation hs_load :: "host \<Rightarrow> ca_loader" where
  "hs_load h \<equiv> LoadRootCA (hsX509 h)"

section \<open>Addresses and configuration\<close>

definition defaultAdvertise :: "string \<Rightarrow> string" where
  "defaultAdvertise listen = (if has_prefix '':'' listen then ''127.0.0.1'' @ listen else listen)"

definition daemon_defaultRaftAddr :: "string \<Rightarrow> string" where
  "daemon_defaultRaftAddr addr = (if has_prefix '':'' addr then ''127.0.0.1'' @ addr else addr)"

definition or_string :: "string \<Rightarrow> string \<Rightarrow> string" where
  "or_string a b = (if a = [] then b else a)"

text \<open>The platform's paths (\<open>internal/paths\<close>); \<open>plJoin\<close> is \<open>filepath.Join\<close>.\<close>

record platform =
  plDarwin :: bool
  plRoot :: bool
  plSudoUser :: string
  plLookup :: "string \<Rightarrow> string result"
  plHome :: "string result"
  plJoin :: "string list \<Rightarrow> string"
  plAbs :: "string \<Rightarrow> string result"

definition DarwinHomeDir :: "platform \<Rightarrow> string" where
  "DarwinHomeDir pl =
     (let own = (case plHome pl of Inr home \<Rightarrow> home | Inl _ \<Rightarrow> []) in
      if plRoot pl \<and> plSudoUser pl \<noteq> [] \<and> plSudoUser pl \<noteq> ''root'' then
        (case plLookup pl (plSudoUser pl) of Inr home \<Rightarrow> if home \<noteq> [] then home else own | Inl _ \<Rightarrow> own)
      else own)"

definition DefaultSocketPath :: "platform \<Rightarrow> string" where
  "DefaultSocketPath pl =
     (if plDarwin pl \<and> DarwinHomeDir pl \<noteq> [] then plJoin pl [DarwinHomeDir pl, ''.cellar'', ''cellar.sock'']
      else ''/var/run/cellar/cellar.sock'')"

definition DefaultDataDirPath :: "platform \<Rightarrow> string" where
  "DefaultDataDirPath pl =
     (if plDarwin pl \<and> DarwinHomeDir pl \<noteq> [] then plJoin pl [DarwinHomeDir pl, ''.cellar'']
      else ''/var/lib/cellar'')"

text \<open>\<open>New\<close>, over what the data directory holds.\<close>

definition DefaultListenAddr :: string where "DefaultListenAddr = '':17946''"
definition DefaultRaftAddr :: string where "DefaultRaftAddr = '':17947''"

definition absolute :: "platform \<Rightarrow> string \<Rightarrow> string" where
  "absolute pl p = (case plAbs pl p of Inl _ \<Rightarrow> p | Inr a \<Rightarrow> a)"

definition New_config :: "platform \<Rightarrow> daemon_config \<Rightarrow> daemon_config" where
  "New_config pl cfg =
     \<lparr>cgDataDir = absolute pl (or_string (cgDataDir cfg) (DefaultDataDirPath pl)),
      cgSocketPath = absolute pl (or_string (cgSocketPath cfg) (DefaultSocketPath pl)),
      cgListenAddr = or_string (cgListenAddr cfg) DefaultListenAddr,
      cgRaftAddr = or_string (cgRaftAddr cfg) DefaultRaftAddr\<rparr>"

definition New :: "platform \<Rightarrow> data_dir \<Rightarrow> bool \<Rightarrow> daemon_config \<Rightarrow> daemon" where
  "New pl dir raftDir cfg =
     \<lparr>dnCfg = New_config pl cfg, dnId = NewIdStore dir, dnRaft = None, dnCa = None, dnQuarantine = None,
      dnSandboxAPI = False, dnRuntimeSrv = False, dnDriver = False, dnAgent = None, dnRuntimeErr = None,
      dnLastAssigned = [], dnRemote = None, dnLocal = False, dnCluster = False, dnLoops = [], dnRaftDir = raftDir,
      dnTeardown = []\<rparr>"

definition ensureClusterCtx :: "daemon \<Rightarrow> daemon" where
  "ensureClusterCtx d = d\<lparr>dnCluster := True\<rparr>"

definition start_loop :: "cluster_loop \<Rightarrow> daemon \<Rightarrow> daemon" where
  "start_loop l d = d\<lparr>dnLoops := l # dnLoops d\<rparr>"

section \<open>The servers of a node\<close>

definition newCAServer :: ca_signer where
  "newCAServer = \<lparr>cgRoot = None, cgReady = False\<rparr>"

definition manager_servers :: "raft_node \<Rightarrow> daemon \<Rightarrow> daemon" where
  "manager_servers rs d =
     d\<lparr>dnRaft := Some rs, dnCa := Some newCAServer, dnQuarantine := Some NewQuarantine, dnSandboxAPI := True\<rparr>"

definition signer_update :: "ca_loader \<Rightarrow> daemon \<Rightarrow> daemon \<times> go_error option" where
  "signer_update load d =
     (case (dnRaft d, dnCa d) of
        (Some rs, Some c) \<Rightarrow>
          (case UpdateRootCA load \<lparr>caRaft = rs, caRoot = cgRoot c, caReady = cgReady c\<rparr> of
             (s, e) \<Rightarrow> (d\<lparr>dnCa := Some \<lparr>cgRoot = caRoot s, cgReady = caReady s\<rparr>\<rparr>, e))
      | _ \<Rightarrow> (d, None))"

definition id_ServerTLSConfig :: "tls_lib \<Rightarrow> id_store \<Rightarrow> tls_config result" where
  "id_ServerTLSConfig tls s =
     (case isMat s of
        None \<Rightarrow> Inl (errorf ''identity not loaded'')
      | Some mat \<Rightarrow>
          (case tlX509KeyPair tls (mtCertificate mat) (mtPrivateKey mat) of
             Some e \<Rightarrow> Inl e
           | None \<Rightarrow>
               if \<not> tlAppendCerts tls (mtCACert mat) then Inl (errorf ''failed to parse CA certificate'')
               else Inr (zero_tls\<lparr>tcPair := Some (mtCertificate mat, mtPrivateKey mat), tcClientCAs := Some (mtCACert mat),
                                 tcVerifyClientIfGiven := True\<rparr>)))"

definition id_ClientTLSConfig :: "tls_lib \<Rightarrow> id_store \<Rightarrow> string \<Rightarrow> tls_config result" where
  "id_ClientTLSConfig tls s serverName =
     (case isMat s of
        None \<Rightarrow> Inl (errorf ''identity not loaded'')
      | Some mat \<Rightarrow>
          (case tlX509KeyPair tls (mtCertificate mat) (mtPrivateKey mat) of
             Some e \<Rightarrow> Inl e
           | None \<Rightarrow>
               if \<not> tlAppendCerts tls (mtCACert mat) then Inl (errorf ''failed to parse CA certificate'')
               else Inr (zero_tls\<lparr>tcPair := Some (mtCertificate mat, mtPrivateKey mat), tcRoots := Some (mtCACert mat),
                                 tcServerName := serverName\<rparr>)))"

text \<open>The remote listener: what is registered depends on what the daemon holds at that moment.\<close>

definition remote_server_of :: "string \<Rightarrow> daemon \<Rightarrow> remote_server" where
  "remote_server_of listenAddr d =
     \<lparr>rsListen = listenAddr, rsKeyGuard = (dnRaft d \<noteq> None), rsControl = (dnCa d \<noteq> None),
      rsSandboxAPI = dnSandboxAPI d, rsRuntime = dnRuntimeSrv d\<rparr>"

definition startRemoteGRPCLocked :: "host \<Rightarrow> string \<Rightarrow> daemon \<Rightarrow> daemon \<times> go_error option" where
  "startRemoteGRPCLocked h listenAddr d =
     (if dnRemote d \<noteq> None then (d, None)
      else
        (case id_ServerTLSConfig (hsTls h) (dnId d) of
           Inl e \<Rightarrow> (d, Some e)
         | Inr _ \<Rightarrow>
             (case hsListen h listenAddr of
                Some e \<Rightarrow> (d, Some (Wrapped [Lit ''listen remote: ''] e))
              | None \<Rightarrow> (d\<lparr>dnRemote := Some (remote_server_of listenAddr d)\<rparr>, None))))"

definition restartRemoteGRPCLocked :: "host \<Rightarrow> string \<Rightarrow> daemon \<Rightarrow> daemon \<times> go_error option" where
  "restartRemoteGRPCLocked h listenAddr d = startRemoteGRPCLocked h listenAddr (d\<lparr>dnRemote := None\<rparr>)"

definition NewAgent :: agent where
  "NewAgent = \<lparr>agLocal = [], agRestarts = [], agActions = []\<rparr>"

definition startRuntimeLocked :: "host \<Rightarrow> daemon \<Rightarrow> daemon \<times> go_error option" where
  "startRuntimeLocked h d =
     (if dnAgent d \<noteq> None then (d, None)
      else
        (case hsInstalled h of
           Some e \<Rightarrow> (d\<lparr>dnRuntimeErr := Some e\<rparr>, None)
         | None \<Rightarrow>
             (case node_material d of
                None \<Rightarrow> (d, Some (errorf ''no identity for runtime agent''))
              | Some _ \<Rightarrow>
                  (start_loop HeartbeatLoop (start_loop AgentLoop
                     (d\<lparr>dnDriver := True, dnAgent := Some NewAgent, dnRuntimeErr := None, dnRuntimeSrv := True\<rparr>)), None))))"

text \<open>How every start ends: the runtime (whose error is only logged), then the remote listener.\<close>

definition start_services :: "host \<Rightarrow> string \<Rightarrow> daemon \<Rightarrow> daemon \<times> go_error option" where
  "start_services h listen d = startRemoteGRPCLocked h listen (fst (startRuntimeLocked h d))"

section \<open>Stopping\<close>

text \<open>
  \<open>stopClusterLocal\<close>: everything of the cluster is dropped under the lock, then stopped outside it:
  the remote listener, the loops, the virtual machines of the agent, Raft and the driver.
\<close>

definition stopClusterLocal :: "daemon \<Rightarrow> daemon" where
  "stopClusterLocal d =
     d\<lparr>dnRemote := None, dnRaft := None, dnDriver := False, dnAgent := None, dnCa := None, dnQuarantine := None,
       dnSandboxAPI := False, dnRuntimeSrv := False, dnRuntimeErr := None, dnLastAssigned := [], dnCluster := False,
       dnLoops := [],
       dnTeardown := (case dnAgent d of None \<Rightarrow> dnTeardown d | Some a \<Rightarrow> dnTeardown d @ agActions (TeardownLocal a))\<rparr>"

definition shutdown :: "daemon \<Rightarrow> daemon" where
  "shutdown d =
     d\<lparr>dnRemote := None, dnLocal := False, dnRaft := None, dnDriver := False, dnAgent := None, dnCa := None,
       dnQuarantine := None, dnSandboxAPI := False, dnRuntimeSrv := False, dnCluster := False, dnLoops := [],
       dnTeardown := (case dnAgent d of None \<Rightarrow> dnTeardown d | Some a \<Rightarrow> dnTeardown d @ agActions (TeardownLocal a))\<rparr>"

section \<open>Resuming\<close>

definition raft_config_of :: "daemon \<Rightarrow> string \<Rightarrow> string \<Rightarrow> string \<Rightarrow> bool \<Rightarrow> store_config" where
  "raft_config_of d nodeID raftAddr advertise bootstrap =
     \<lparr>scDataDir = cgDataDir (dnCfg d), scNodeID = nodeID, scRaftAddr = raftAddr, scGRPCAdvertise = advertise,
      scBootstrap = bootstrap\<rparr>"

definition open_raft :: "host \<Rightarrow> daemon \<Rightarrow> string \<Rightarrow> string \<Rightarrow> string \<Rightarrow> bool \<Rightarrow> daemon \<times> raft_node result" where
  "open_raft h d nodeID raftAddr advertise bootstrap =
     (let cfg = raft_config_of d nodeID raftAddr advertise bootstrap;
          created = (scDataDir cfg \<noteq> [] \<and> scNodeID cfg \<noteq> [] \<and> rlMkdir (hsRaft h) (scDataDir cfg @ ''/raft'') = None) in
      (d\<lparr>dnRaftDir := dnRaftDir d \<or> created\<rparr>, snd (store_Open (hsRaft h) (hs_load h) cfg)))"

text \<open>A resuming manager waits for the cluster, and goes on when the waits time out.\<close>

definition resumeManager :: "host \<Rightarrow> daemon \<Rightarrow> daemon_state \<Rightarrow> daemon \<times> go_error option" where
  "resumeManager h d state =
     (let listen = or_string (dsListenAddr state) (cgListenAddr (dnCfg d));
          raftAddr = daemon_defaultRaftAddr (or_string (dsRaftAddr state) (cgRaftAddr (dnCfg d)));
          advertise = or_string (dsAdvertiseAddr state) (defaultAdvertise listen) in
      case open_raft h d (dsNodeID state) raftAddr advertise False of
        (d1, Inl e) \<Rightarrow> (d1, Some e)
      | (d1, Inr rs) \<Rightarrow>
          (let rs1 = fst (WaitForLeader (hsLeaderPolls h) rs);
               rs2 = fst (WaitInitialized (hsInitPolls h) rs1);
               d2 = fst (signer_update (hs_load h) (manager_servers rs2 d1)) in
           start_services h listen (start_loop RenewLoop (start_loop LeadershipLoop d2))))"

definition resumeWorker :: "host \<Rightarrow> daemon \<Rightarrow> daemon_state \<Rightarrow> daemon \<times> go_error option" where
  "resumeWorker h d state =
     start_services h (or_string (dsListenAddr state) (cgListenAddr (dnCfg d))) (start_loop RenewLoop d)"

text \<open>\<open>Run\<close> up to the wait for the end: an error of a resume is only logged.\<close>

definition Run_start :: "host \<Rightarrow> daemon \<Rightarrow> daemon \<times> go_error option" where
  "Run_start h d =
     (case id_Load (hsX509 h) (hsCodec h) (hsOs h) (dnId d) of
        (st, Some e) \<Rightarrow> (d\<lparr>dnId := st\<rparr>, Some (Wrapped [Lit ''load identity: ''] e))
      | (st, None) \<Rightarrow>
          (case hsListenLocal h of
             Some e \<Rightarrow> (d\<lparr>dnId := st\<rparr>, Some e)
           | None \<Rightarrow>
               (let d1 = d\<lparr>dnId := st, dnLocal := True\<rparr> in
                if \<not> HasIdentity st then (d1, None)
                else
                  (let state = isState st; d2 = ensureClusterCtx d1 in
                   if dsRole state = RoleManager then (fst (resumeManager h d2 state), None)
                   else if dsRole state = RoleWorker then (fst (resumeWorker h d2 state), None)
                   else (d2, None)))))"

section \<open>Forming a cluster\<close>

record init_call =
  inListenAddr :: string
  inRaftAddr :: string
  inAdvertiseAddr :: string
  inCertValidity :: duration

record init_reply =
  iiClusterId :: string
  iiNodeId :: string
  iiWorkerToken :: string
  iiManagerToken :: string
  iiAdvertiseAddr :: string

record new_cluster =
  ncRoot :: root_ca
  ncSecrets :: secrets
  ncMaterial :: material
  ncState :: daemon_state
  ncValidity :: duration

text \<open>The addresses a request and the configuration choose: listen, Raft and advertised.\<close>

definition chosen_addrs :: "daemon_config \<Rightarrow> string \<Rightarrow> string \<Rightarrow> string \<Rightarrow> string \<times> string \<times> string" where
  "chosen_addrs cfg listen0 raft0 advertise0 =
     (let listen = or_string listen0 (cgListenAddr cfg) in
      (listen, daemon_defaultRaftAddr (or_string raft0 (cgRaftAddr cfg)), or_string advertise0 (defaultAdvertise listen)))"

definition init_material :: "host \<Rightarrow> daemon_config \<Rightarrow> init_call \<Rightarrow> new_cluster result" where
  "init_material h cfg req =
     (let (listen, raftAddr, advertise) = chosen_addrs cfg (inListenAddr req) (inRaftAddr req) (inAdvertiseAddr req);
          validity = (if inCertValidity req \<le> 0 then ca_DefaultNodeValidity else inCertValidity req) in
     (case GenerateRootCA (hsX509 h) (hsRootKey h) (hsRootSerial h) (hsNow h) ''cellar'' DefaultCAValidity of
        Inl e \<Rightarrow> Inl e
      | Inr rootCA \<Rightarrow>
     (case GenerateSecrets (fst (hsSecrets h)) (snd (hsSecrets h)) of
        Inl e \<Rightarrow> Inl e
      | Inr secs \<Rightarrow>
     (case node_NewID (hsClusterID h) of
        Inl e \<Rightarrow> Inl e
      | Inr clusterID \<Rightarrow>
     (case SelfIssue (hsX509 h) (hsMkReq h) (hsNodeID h) (hsKey h) (hsSerial h) (hsNow h) rootCA RoleManager validity of
        Inl e \<Rightarrow> Inl e
      | Inr si \<Rightarrow>
          Inr \<lparr>ncRoot = rootCA, ncSecrets = secs,
            ncMaterial = \<lparr>mtNodeID = siNodeID si, mtRole = RoleManager, mtClusterID = clusterID,
              mtCertificate = siCertPEM si, mtPrivateKey = siKeyPEM si, mtCACert = raCertPEM rootCA,
              mtNotBefore = siNotBefore si, mtNotAfter = siNotAfter si\<rparr>,
            ncState = zero_daemon_state\<lparr>dsNodeID := siNodeID si, dsRole := RoleManager, dsClusterID := clusterID,
              dsAdvertiseAddr := advertise, dsListenAddr := listen, dsRaftAddr := raftAddr, dsInitialized := True\<rparr>,
            ncValidity = validity\<rparr>)))))"

definition first_node :: "material \<Rightarrow> node" where
  "first_node mat = zero_node\<lparr>nID := mtNodeID mat, nRole := RoleManager, nMembership := MembershipAccepted,
     nIssuedAt := mtNotBefore mat, nExpiresAt := mtNotAfter mat, nCertificatePEM := mtCertificate mat\<rparr>"

definition Init :: "host \<Rightarrow> daemon \<Rightarrow> init_call \<Rightarrow> daemon \<times> init_reply result" where
  "Init h d req =
     (if HasIdentity (dnId d) then (d, Inl (errorf ''node already initialized; leave cluster first''))
      else
     (case init_material h (dnCfg d) req of
        Inl e \<Rightarrow> (d, Inl e)
      | Inr nc \<Rightarrow>
          (let mat = ncMaterial nc; state = ncState nc in
     (case id_Save (hsCodec h) (hsOs h) (dnId d) mat state of
        (st, Some e) \<Rightarrow> (d\<lparr>dnId := st\<rparr>, Inl e)
      | (st, None) \<Rightarrow>
     (case open_raft h (d\<lparr>dnId := st\<rparr>) (mtNodeID mat) (dsRaftAddr state) (dsAdvertiseAddr state) True of
        (d1, Inl e) \<Rightarrow> (d1, Inl e)
      | (d1, Inr rs) \<Rightarrow>
     (case CreateCluster (hs_load h) (hsNow h) rs
             \<lparr>cfClusterID = mtClusterID mat, cfCertValidity = ncValidity nc, cfRootCA = Some (ncRoot nc),
              cfJoinSecrets = ncSecrets nc\<rparr> of
        (rs1, Some e) \<Rightarrow> ((manager_servers rs1 d1)\<lparr>dnRaft := None\<rparr>, Inl e)
      | (rs1, None) \<Rightarrow>
          (let rs2 = fst (SaveNode (hs_load h) rs1 (Some (first_node mat))) in
     (case signer_update (hs_load h) (manager_servers rs2 d1) of
        (d2, Some e) \<Rightarrow> (d2, Inl e)
      | (d2, None) \<Rightarrow>
     (case start_services h (dsListenAddr state) (start_loop RenewLoop (start_loop LeadershipLoop (ensureClusterCtx d2))) of
        (d3, Some e) \<Rightarrow> (d3, Inl e)
      | (d3, None) \<Rightarrow>
     (case FormatPair (raDigestPrefix (ncRoot nc)) (ncSecrets nc) of
        Inl e \<Rightarrow> (d3, Inl e)
      | Inr pair \<Rightarrow>
          (d3, Inr \<lparr>iiClusterId = mtClusterID mat, iiNodeId = mtNodeID mat, iiWorkerToken = pairWorker pair,
                    iiManagerToken = pairManager pair, iiAdvertiseAddr = dsAdvertiseAddr state\<rparr>)))))))))))"

section \<open>Joining a cluster\<close>

record join_req =
  jnToken :: string
  jnRemoteAddr :: string
  jnListenAddr :: string
  jnRaftAddr :: string
  jnAdvertiseAddr :: string

record join_reply =
  jyNodeId :: string
  jyRole :: string
  jyClusterId :: string

text \<open>The certificate that comes back decides the validity, where it parses.\<close>

definition fill_validity :: "x509_lib \<Rightarrow> material \<Rightarrow> material" where
  "fill_validity lib mat =
     (case leaf_certificate lib (mtCertificate mat) of
        Inl _ \<Rightarrow> mat
      | Inr cert \<Rightarrow> mat\<lparr>mtNotBefore := xcNotBefore cert, mtNotAfter := xcNotAfter cert\<rparr>)"

definition issued_material :: "x509_lib \<Rightarrow> issue_reply \<Rightarrow> string \<Rightarrow> string \<Rightarrow> string \<Rightarrow> material" where
  "issued_material lib issued clusterID keyPEM caPEM =
     fill_validity lib \<lparr>mtNodeID = iyNodeID issued, mtRole = iyRole issued, mtClusterID = clusterID,
       mtCertificate = iyCertificate issued, mtPrivateKey = keyPEM, mtCACert = caPEM, mtNotBefore = zero_time,
       mtNotAfter = from_unix_nano (iyExpires issued)\<rparr>"

text \<open>
  A store that is opened to join an existing cluster: the leader is asked to add this voter, and
  the node waits until it sees a leader and the cluster object; any failure closes the store.
\<close>

definition join_raft ::
  "host \<Rightarrow> daemon \<Rightarrow> string \<Rightarrow> material \<Rightarrow> string \<Rightarrow> string \<Rightarrow> daemon \<times> (raft_node \<times> cluster) result" where
  "join_raft h d remoteAddr mat raftAddr advertise =
     (case open_raft h d (mtNodeID mat) raftAddr advertise False of
        (d1, Inl e) \<Rightarrow> (d1, Inl e)
      | (d1, Inr rs) \<Rightarrow>
     (case RaftJoin (hsTls h) (hsNet h) remoteAddr (mtCertificate mat) (mtPrivateKey mat) (mtCACert mat) (mtNodeID mat)
             (rnRaftAddr rs) advertise of
        Some e \<Rightarrow> (d1, Inl (Wrapped [Lit ''raft join: ''] e))
      | None \<Rightarrow>
     (case WaitForLeader (hsLeaderPolls h) rs of
        (_, Some e) \<Rightarrow> (d1, Inl e)
      | (rs1, None) \<Rightarrow>
     (case WaitInitialized (hsInitPolls h) rs1 of
        (_, Some e) \<Rightarrow> (d1, Inl e)
      | (rs2, None) \<Rightarrow>
     (case GetCluster rs2 of
        Inl e \<Rightarrow> (d1, Inl e)
      | Inr cluster \<Rightarrow> (d1, Inr (rs2, cluster)))))))"

definition join_request :: "host \<Rightarrow> join_req \<Rightarrow> (issue_reply \<times> material) result" where
  "join_request h req =
     (case DownloadRootCA (hsX509 h) (hsNet h) (jnRemoteAddr req) (jnToken req) of
        Inl e \<Rightarrow> Inl e
      | Inr caPEM \<Rightarrow>
     (case GenerateKeyAndCSR (hsX509 h) (hsMkReq h) (hsKey h) [] of
        Inl e \<Rightarrow> Inl e
      | Inr (keyPEM, csrPEM) \<Rightarrow>
     (case IssueWithToken (hsTls h) (hsNet h) (jnRemoteAddr req) caPEM (jnToken req) csrPEM of
        Inl e \<Rightarrow> Inl e
      | Inr issued \<Rightarrow> Inr (issued, issued_material (hsX509 h) issued [] keyPEM caPEM))))"

definition Join :: "host \<Rightarrow> daemon \<Rightarrow> join_req \<Rightarrow> daemon \<times> join_reply result" where
  "Join h d req =
     (if HasIdentity (dnId d) then (d, Inl (errorf ''node already joined a cluster''))
      else if jnToken req = [] \<or> jnRemoteAddr req = [] then (d, Inl (errorf ''token and remote_addr are required''))
      else
        (let (listen, raftAddr, advertise) = chosen_addrs (dnCfg d) (jnListenAddr req) (jnRaftAddr req) (jnAdvertiseAddr req) in
     (case join_request h req of
        Inl e \<Rightarrow> (d, Inl e)
      | Inr (issued, mat) \<Rightarrow>
          (let (prefer, addrs) = seedManagerAddrs (jnRemoteAddr req) (iyLeaderGrpc issued) (iyManagerAddrs issued);
               state = zero_daemon_state\<lparr>dsNodeID := iyNodeID issued, dsRole := iyRole issued, dsAdvertiseAddr := advertise,
                 dsListenAddr := listen, dsRaftAddr := raftAddr, dsManagerAddr := prefer, dsManagerAddrs := addrs,
                 dsInitialized := True\<rparr>;
               reply = (\<lambda>m. \<lparr>jyNodeId = iyNodeID issued, jyRole = iyRole issued, jyClusterId = mtClusterID m\<rparr>) in
           if iyRole issued = RoleManager then
             (case join_raft h d (jnRemoteAddr req) mat raftAddr advertise of
                (d1, Inl e) \<Rightarrow> (d1, Inl e)
              | (d1, Inr (rs, cluster)) \<Rightarrow>
                  (let mat1 = mat\<lparr>mtClusterID := clClusterID cluster\<rparr> in
             (case id_Save (hsCodec h) (hsOs h) (dnId d1) mat1 (state\<lparr>dsClusterID := clClusterID cluster\<rparr>) of
                (st, Some e) \<Rightarrow> (d1\<lparr>dnId := st\<rparr>, Inl e)
              | (st, None) \<Rightarrow>
                  (let d2 = fst (signer_update (hs_load h) (manager_servers rs (d1\<lparr>dnId := st\<rparr>))) in
             (case start_services h listen (start_loop RenewLoop (start_loop LeadershipLoop (ensureClusterCtx d2))) of
                (d3, Some e) \<Rightarrow> (d3, Inl e)
              | (d3, None) \<Rightarrow> (d3, Inr (reply mat1)))))))
           else
             (case id_Save (hsCodec h) (hsOs h) (dnId d) mat state of
                (st, Some e) \<Rightarrow> (d\<lparr>dnId := st\<rparr>, Inl e)
              | (st, None) \<Rightarrow>
             (case start_services h listen (start_loop RenewLoop (ensureClusterCtx (d\<lparr>dnId := st\<rparr>))) of
                (d3, Some e) \<Rightarrow> (d3, Inl e)
              | (d3, None) \<Rightarrow> (d3, Inr (reply mat))))))))"

section \<open>Leaving\<close>

text \<open>The loop's result, after the addresses that were called.\<close>

fun leave_loop :: "(string \<Rightarrow> go_error option) \<Rightarrow> string list \<Rightarrow> go_error option \<Rightarrow> string list \<times> go_error option" where
  "leave_loop call [] leaveErr = ([], leaveErr)"
| "leave_loop call (addr # addrs) leaveErr =
     (case call addr of
        None \<Rightarrow> ([addr], None)
      | Some e \<Rightarrow>
          if \<not> isRetryableManagerErr (Some e) then ([addr], Some e)
          else (let (called, err) = leave_loop call addrs (Some e) in (addr # called, err)))"

definition leave_addrs :: "daemon \<Rightarrow> string list" where
  "leave_addrs d =
     (let state = isState (dnId d);
          leader = (case dnRaft d of None \<Rightarrow> [] | Some r \<Rightarrow> if LeaderGRPC r \<noteq> [] then [LeaderGRPC r] else []) in
      MergeManagerAddrs [] [leader, dsManagerAddrs state, [dsManagerAddr state, dsAdvertiseAddr state]])"

definition sole_voter :: "daemon \<Rightarrow> bool" where
  "sole_voter d = (case dnRaft d of None \<Rightarrow> False | Some r \<Rightarrow> NumVoters r \<le> 1)"

definition leave_remote :: "host \<Rightarrow> daemon \<Rightarrow> material \<Rightarrow> bool \<Rightarrow> string list \<times> go_error option" where
  "leave_remote h d mat force =
     (if mtRole mat = RoleManager \<and> force \<and> sole_voter d then ([], None)
      else if length (leave_addrs d) > 0 then
        leave_loop (\<lambda>addr. RaftLeave (hsTls h) (hsNet h) addr (mtCertificate mat) (mtPrivateKey mat) (mtCACert mat) (mtNodeID mat))
          (leave_addrs d) None
      else ([], None))"

text \<open>The local part: the cluster's servers, the identity files, the Raft directory.\<close>

definition wipe :: "host \<Rightarrow> daemon \<Rightarrow> daemon \<times> unit result" where
  "wipe h d =
     (let d1 = stopClusterLocal d in
      case id_Clear (hsOs h) (dnId d1) of
        (st, Some e) \<Rightarrow> (d1\<lparr>dnId := st\<rparr>, Inl e)
      | (st, None) \<Rightarrow>
          (case hsRemoveRaft h of
             Some e \<Rightarrow> (d1\<lparr>dnId := st\<rparr>, Inl (Wrapped [Lit ''remove raft dir: ''] e))
           | None \<Rightarrow> (d1\<lparr>dnId := st, dnRaftDir := False\<rparr>, Inr ())))"

definition Leave :: "host \<Rightarrow> daemon \<Rightarrow> bool \<Rightarrow> string list \<times> daemon \<times> unit result" where
  "Leave h d force =
     (case node_material d of
        None \<Rightarrow> ([], d, Inl (errorf ''node is not part of a cluster''))
      | Some mat \<Rightarrow>
          if mtRole mat = RoleManager \<and> \<not> force then ([], d, Inl (errorf ''leaving as a manager requires --force''))
          else
            (case leave_remote h d mat force of
               (called, leaveErr) \<Rightarrow>
                 (case (if force then None else leaveErr) of
                    Some e \<Rightarrow> (called, d, Inl (Wrapped [Lit ''leave cluster: ''] e))
                  | None \<Rightarrow> (called, wipe h d))))"

section \<open>Changing role\<close>

text \<open>\<open>managerDialAddrLocked\<close>: one address, from Raft where it runs, else from the saved state.\<close>

definition managerDialAddrLocked :: "daemon \<Rightarrow> string" where
  "managerDialAddrLocked d =
     (let state = isState (dnId d);
          saved = (if dsManagerAddr state \<noteq> [] then dsManagerAddr state else dsAdvertiseAddr state) in
      case dnRaft d of
        None \<Rightarrow> saved
      | Some r \<Rightarrow>
          if LeaderGRPC r \<noteq> [] then LeaderGRPC r else if rnGRPCAdvertise r \<noteq> [] then rnGRPCAdvertise r else saved)"

definition forceRenewLocked :: "host \<Rightarrow> string \<Rightarrow> material \<Rightarrow> material result" where
  "forceRenewLocked h managerAddr mat =
     (case GenerateKeyAndCSR (hsX509 h) (hsMkReq h) (hsKey h) (mtNodeID mat) of
        Inl e \<Rightarrow> Inl e
      | Inr (keyPEM, csrPEM) \<Rightarrow>
          (case IssueRenew (hsTls h) (hsNet h) managerAddr (mtCertificate mat) (mtPrivateKey mat) (mtCACert mat)
                  (mtNodeID mat) csrPEM of
             Inl e \<Rightarrow> Inl e
           | Inr issued \<Rightarrow> Inr (issued_material (hsX509 h) issued (mtClusterID mat) keyPEM (mtCACert mat))))"

definition promoteLocal :: "host \<Rightarrow> daemon \<Rightarrow> daemon \<times> go_error option" where
  "promoteLocal h d =
     (case node_material d of
        None \<Rightarrow> (d, Some (errorf ''no identity''))
      | Some mat \<Rightarrow>
          if mtRole mat = RoleManager \<and> dnRaft d \<noteq> None then (d, None)
          else
            (let state = isState (dnId d); mgrAddr = managerDialAddrLocked d in
             if mgrAddr = [] then (d, Some (errorf ''no manager address for promote''))
             else
     (case forceRenewLocked h mgrAddr mat of
        Inl e \<Rightarrow> (d, Some (Wrapped [Lit ''reissue manager cert: ''] e))
      | Inr newMat \<Rightarrow>
          if mtRole newMat \<noteq> RoleManager
          then (d, Some (Errorf [Lit ''expected manager cert after promote, got '', Str (mtRole newMat)]))
          else
            (let raftAddr = daemon_defaultRaftAddr (or_string (dsRaftAddr state) (cgRaftAddr (dnCfg d)));
                 advertise = or_string (dsAdvertiseAddr state) (defaultAdvertise (dsListenAddr state));
                 listen = or_string (dsListenAddr state) (cgListenAddr (dnCfg d));
                 state1 = state\<lparr>dsRole := RoleManager, dsRaftAddr := raftAddr\<rparr> in
     (case id_Save (hsCodec h) (hsOs h) (dnId d) newMat state1 of
        (st, Some e) \<Rightarrow> (d\<lparr>dnId := st\<rparr>, Some e)
      | (st, None) \<Rightarrow>
     (case join_raft h (d\<lparr>dnId := st\<rparr>) mgrAddr newMat raftAddr advertise of
        (d1, Inl e) \<Rightarrow> (d1, Some e)
      | (d1, Inr (rs, cluster)) \<Rightarrow>
          (let newMat1 = newMat\<lparr>mtClusterID := clClusterID cluster\<rparr> in
     (case id_Save (hsCodec h) (hsOs h) (dnId d1) newMat1 (state1\<lparr>dsClusterID := clClusterID cluster\<rparr>) of
        (st1, Some e) \<Rightarrow> (d1\<lparr>dnId := st1\<rparr>, Some e)
      | (st1, None) \<Rightarrow>
          (let d2 = fst (signer_update (hs_load h) (manager_servers rs (d1\<lparr>dnId := st1\<rparr>))) in
           restartRemoteGRPCLocked h listen (start_loop LeadershipLoop (ensureClusterCtx d2)))))))))))"

definition demoteLocal :: "host \<Rightarrow> daemon \<Rightarrow> daemon \<times> go_error option" where
  "demoteLocal h d =
     (case node_material d of
        None \<Rightarrow> (d, Some (errorf ''no identity''))
      | Some mat \<Rightarrow>
          if mtRole mat = RoleWorker \<and> dnRaft d = None then (d, None)
          else
            (let state = isState (dnId d);
                 mgrAddr = or_string (or_string (managerDialAddrLocked d) (dsManagerAddr state)) (dsAdvertiseAddr state) in
             if mgrAddr = [] then (d, Some (errorf ''no manager address for demote renew''))
             else
               (let d1 = d\<lparr>dnRaft := None, dnCa := None, dnQuarantine := None, dnSandboxAPI := False,
                            dnRaftDir := (hsRemoveRaft h \<noteq> None \<and> dnRaftDir d)\<rparr>;
                    state1 = state\<lparr>dsRole := RoleWorker, dsManagerAddr := mgrAddr\<rparr>;
                    mat1 = mat\<lparr>mtRole := RoleWorker\<rparr> in
     (case id_Save (hsCodec h) (hsOs h) ((dnId d1)\<lparr>isMat := Some mat1\<rparr>) mat1 state1 of
        (st, Some e) \<Rightarrow> (d1\<lparr>dnId := st\<rparr>, Some e)
      | (st, None) \<Rightarrow>
     (case forceRenewLocked h mgrAddr mat1 of
        Inl e \<Rightarrow> (d1\<lparr>dnId := st\<rparr>, Some (Wrapped [Lit ''reissue worker cert: ''] e))
      | Inr newMat \<Rightarrow>
     (case id_Save (hsCodec h) (hsOs h) st (newMat\<lparr>mtRole := RoleWorker\<rparr>) state1 of
        (st1, Some e) \<Rightarrow> (d1\<lparr>dnId := st1\<rparr>, Some e)
      | (st1, None) \<Rightarrow>
          restartRemoteGRPCLocked h (or_string (dsListenAddr state) (cgListenAddr (dnCfg d))) (d1\<lparr>dnId := st1\<rparr>)))))))"

definition applyRoleChange :: "host \<Rightarrow> role \<Rightarrow> daemon \<Rightarrow> daemon \<times> go_error option" where
  "applyRoleChange h desired d =
     (case node_material d of
        None \<Rightarrow> (d, Some (errorf ''no identity''))
      | Some mat \<Rightarrow>
          if mtRole mat = desired then (d, None)
          else if desired = RoleManager then promoteLocal h d
          else if desired = RoleWorker then demoteLocal h d
          else (d, Some (Errorf [Lit ''unknown role '', Quoted desired])))"

text \<open>What a heartbeat's answer makes a node do; errors are only logged.\<close>

definition maybeApplyDesiredRole :: "host \<Rightarrow> string \<Rightarrow> bool \<Rightarrow> daemon \<Rightarrow> daemon" where
  "maybeApplyDesiredRole h desiredRole removed d =
     (if removed then
        (let d1 = stopClusterLocal d in
         d1\<lparr>dnId := fst (id_Clear (hsOs h) (dnId d1)), dnRaftDir := (hsRemoveRaft h \<noteq> None \<and> dnRaftDir d1)\<rparr>)
      else if desiredRole = [] then d
      else
        (case node_material d of
           None \<Rightarrow> d
         | Some mat \<Rightarrow> if mtRole mat = desiredRole then d else fst (applyRoleChange h desiredRole d)))"

section \<open>Renewal\<close>

text \<open>
  One round of \<open>renewLoop\<close>: the time it sleeps, and what it does when it wakes up; on any error
  the node keeps its certificate and tries again after the next sleep.
\<close>

definition renew_wait :: "daemon \<Rightarrow> gotime \<Rightarrow> duration" where
  "renew_wait d now =
     (case node_material d of
        None \<Rightarrow> minute
      | Some mat \<Rightarrow> NextCheck (mtNotBefore mat) (mtNotAfter mat) now DefaultThreshold)"

definition renew_step :: "host \<Rightarrow> daemon \<Rightarrow> daemon" where
  "renew_step h d =
     (case node_material d of
        None \<Rightarrow> d
      | Some mat \<Rightarrow>
          if \<not> Needed (mtNotBefore mat) (mtNotAfter mat) (hsNow h) DefaultThreshold then d
          else
     (case GenerateKeyAndCSR (hsX509 h) (hsMkReq h) (hsKey h) (mtNodeID mat) of
        Inl e \<Rightarrow> d
      | Inr (keyPEM, csrPEM) \<Rightarrow>
     (case call_managers d (\<lambda>addr. IssueRenew (hsTls h) (hsNet h) addr (mtCertificate mat) (mtPrivateKey mat)
             (mtCACert mat) (mtNodeID mat) csrPEM) of
        Inl e \<Rightarrow> d
      | Inr issued \<Rightarrow>
          (let d1 = applyManagerEndpoints (hsCodec h) (hsOs h) d (iyLeaderGrpc issued) (iyManagerAddrs issued);
               newMat = issued_material (hsX509 h) issued (mtClusterID mat) keyPEM (mtCACert mat) in
           d1\<lparr>dnId := fst (id_Save (hsCodec h) (hsOs h) (dnId d1) newMat (isState (dnId d1)))\<rparr>))))"

section \<open>Leadership, tokens and status\<close>

text \<open>One tick of \<open>watchLeadership\<close>: its variable \<open>wasLeader\<close> and whether the eviction loop runs.\<close>

record leader_watch =
  lwWasLeader :: bool
  lwEvicting :: bool

definition watch_tick :: "ca_loader \<Rightarrow> leader_watch \<times> daemon \<Rightarrow> leader_watch \<times> daemon" where
  "watch_tick load wd =
     (case wd of (w, d) \<Rightarrow>
        (case (dnRaft d, dnCa d) of
           (Some rs, Some c) \<Rightarrow>
             (let leader = IsLeader rs;
                  (w1, d1) = (if leader \<and> \<not> lwWasLeader w then (w\<lparr>lwEvicting := True\<rparr>, fst (signer_update load d)) else (w, d));
                  (w2, d2) = (if \<not> leader \<and> lwWasLeader w
                              then (w1\<lparr>lwEvicting := False\<rparr>, d1\<lparr>dnCa := Some \<lparr>cgRoot = None, cgReady = False\<rparr>\<rparr>)
                              else (w1, d1)) in
              (w2\<lparr>lwWasLeader := leader\<rparr>, d2))
         | _ \<Rightarrow> (w, d)))"

record token_reply =
  tyToken :: string
  tyAdvertiseAddr :: string
  tyJoinCommand :: string

definition JoinToken :: "daemon \<Rightarrow> string \<Rightarrow> token_reply result" where
  "JoinToken d reqRole =
     (case dnRaft d of
        None \<Rightarrow> Inl (errorf ''this node is not a manager'')
      | Some raft \<Rightarrow>
     (case GetCluster raft of
        Inl e \<Rightarrow> Inl e
      | Inr cluster \<Rightarrow>
          if reqRole \<noteq> RoleWorker \<and> reqRole \<noteq> RoleManager then Inl (errorf ''role must be worker or manager'')
          else
     (case Format (rcCACertHash (clRootCA cluster)) (rcJoinSecrets (clRootCA cluster)) reqRole of
        Inl e \<Rightarrow> Inl e
      | Inr tok \<Rightarrow>
          (let advertise = or_string (or_string (LeaderGRPC raft) (dsAdvertiseAddr (isState (dnId d)))) (rnGRPCAdvertise raft) in
           Inr \<lparr>tyToken = tok, tyAdvertiseAddr = advertise,
                tyJoinCommand = ''cellar join --token '' @ tok @ '' '' @ advertise\<rparr>))))"

record status_reply =
  suInitialized :: bool
  suNodeId :: string
  suRole :: string
  suClusterId :: string
  suAdvertiseAddr :: string
  suListenAddr :: string
  suRaftAddr :: string
  suIsLeader :: bool

definition daemon_Status :: "daemon \<Rightarrow> status_reply" where
  "daemon_Status d =
     (let state = isState (dnId d); mat = node_material d;
          cluster = (if dsClusterID state \<noteq> [] then dsClusterID state
                     else (case dnRaft d of None \<Rightarrow> []
                           | Some r \<Rightarrow> (case GetCluster r of Inl _ \<Rightarrow> [] | Inr c \<Rightarrow> clClusterID c))) in
      \<lparr>suInitialized = (dsInitialized state \<or> mat \<noteq> None),
       suNodeId = (case mat of None \<Rightarrow> [] | Some m \<Rightarrow> mtNodeID m),
       suRole = (case mat of None \<Rightarrow> [] | Some m \<Rightarrow> mtRole m),
       suClusterId = cluster, suAdvertiseAddr = dsAdvertiseAddr state, suListenAddr = dsListenAddr state,
       suRaftAddr = dsRaftAddr state,
       suIsLeader = (case dnRaft d of None \<Rightarrow> False | Some r \<Rightarrow> IsLeader r)\<rparr>)"

end
