(* ===== verification/Worker_Daemon.thy ===== *)
theory Worker_Daemon
  imports Daemon_Lifecycle
begin

text \<open>
  A node at work (\<open>internal/daemon/sandbox.go\<close>, the reads of \<open>node.go\<close>, \<open>apikey.go\<close>): the agent's
  assignments and reports, the heartbeat, and the local control socket's sandbox, node and API-key
  calls, each answered from this process where it can be and by a manager where it cannot. The
  function \<open>remote\<close> is what the manager at an address answers.
\<close>

section \<open>Assignments\<close>

definition ensureSandboxCreateRuntime :: "gotime \<Rightarrow> raft_node \<Rightarrow> bool \<Rightarrow> go_error option \<Rightarrow> go_error option" where
  "ensureSandboxCreateRuntime now raft drv runtimeErr =
     (case ListNodes raft of
        Inl e \<Rightarrow> Some e
      | Inr nodes \<Rightarrow>
          if list_ex (\<lambda>n. IsNodeLive n now) nodes then None
          else if drv then None
          else (case runtimeErr of
                  Some e \<Rightarrow> Some (StatusError FailedPrecondition e)
                | None \<Rightarrow> Some (status_error FailedPrecondition ''no node with a live sandbox runtime'')))"

definition fetchAssignments :: "daemon \<Rightarrow> sandbox list result" where
  "fetchAssignments d =
     (case leader_raft d of
        Some raft \<Rightarrow>
          (case node_material d of
             None \<Rightarrow> Inl (errorf ''no identity'')
           | Some mat \<Rightarrow> ListSandboxesByNode raft (mtNodeID mat))
      | None \<Rightarrow> Inr (map CloneSandbox (dnLastAssigned d)))"

definition cacheAssigned :: "json_codec \<Rightarrow> sandbox_proto list \<Rightarrow> daemon \<Rightarrow> daemon" where
  "cacheAssigned json protos d = d\<lparr>dnLastAssigned := map (FromProto json) protos\<rparr>"

section \<open>The heartbeat\<close>

definition assigned_count :: "daemon \<Rightarrow> nat" where
  "assigned_count d =
     (if dnAgent d = None then 0 else (case fetchAssignments d of Inl _ \<Rightarrow> 0 | Inr sbs \<Rightarrow> length sbs))"

definition own_record :: "material \<Rightarrow> node result \<Rightarrow> node" where
  "own_record mat r =
     (case r of
        Inr n \<Rightarrow> n
      | Inl _ \<Rightarrow> zero_node\<lparr>nID := mtNodeID mat, nRole := mtRole mat, nMembership := MembershipAccepted\<rparr>)"

text \<open>On the leader the node writes its own record; elsewhere it calls a manager.\<close>

definition heartbeat_local :: "host \<Rightarrow> json_codec \<Rightarrow> gotime \<Rightarrow> raft_node \<Rightarrow> material \<Rightarrow> daemon \<Rightarrow> daemon \<times> go_error option" where
  "heartbeat_local h json now raft mat d =
     (let grpcAddr = or_string (dsAdvertiseAddr (isState (dnId d))) (dsListenAddr (isState (dnId d)));
          n = (own_record mat (GetNode raft (mtNodeID mat)))
                \<lparr>nGRPCAddr := grpcAddr, nHeartbeatAt := now, nSandboxCount := int (assigned_count d)\<rparr> in
     (case SaveNode (hs_load h) raft (Some n) of
        (raft1, Some e) \<Rightarrow> (d\<lparr>dnRaft := Some raft1\<rparr>, Some e)
      | (raft1, None) \<Rightarrow>
          (let d1 = d\<lparr>dnRaft := Some raft1,
                      dnQuarantine := map_option (\<lambda>q. NoteHeartbeat q (mtNodeID mat)) (dnQuarantine d)\<rparr> in
     (case ListSandboxesByNode raft1 (mtNodeID mat) of
        Inl e \<Rightarrow> (d1, Some e)
      | Inr assigned \<Rightarrow>
          (maybeApplyDesiredRole h (nRole n) False (cacheAssigned json (map (ToProto json) assigned) d1), None)))))"

definition sendHeartbeat ::
  "host \<Rightarrow> id_codec \<Rightarrow> json_codec \<Rightarrow> gotime \<Rightarrow> (string \<Rightarrow> heartbeat_request \<Rightarrow> heartbeat_response result) \<Rightarrow> daemon \<Rightarrow>
     daemon \<times> go_error option" where
  "sendHeartbeat h codec json now remote d =
     (case node_material d of
        None \<Rightarrow> (d, None)
      | Some mat \<Rightarrow>
     (case leader_raft d of
        Some raft \<Rightarrow> heartbeat_local h json now raft mat d
      | None \<Rightarrow>
          (let req = \<lparr>hbNodeId = mtNodeID mat,
                      hbGrpcAddr = or_string (dsAdvertiseAddr (isState (dnId d))) (dsListenAddr (isState (dnId d))),
                      hbSandboxCount = word_of_int (int (assigned_count d))\<rparr> in
           case call_managers d (\<lambda>addr. remote addr req) of
             Inl e \<Rightarrow> (d, Some e)
           | Inr resp \<Rightarrow>
               (let d1 = cacheAssigned json (hrAssigned resp)
                           (applyManagerEndpoints codec (hsOs h) d (hrLeaderGrpc resp) (hrManagerAddrs resp)) in
                (maybeApplyDesiredRole h (hrDesiredRole resp) (hrRemoved resp) d1, None)))))"

section \<open>Status reports\<close>

definition report_checks :: "material \<Rightarrow> sandbox \<Rightarrow> int \<Rightarrow> go_error option" where
  "report_checks mat sb generation =
     or_else (if sbNodeID sb \<noteq> [] \<and> sbNodeID sb \<noteq> mtNodeID mat
              then Some (errorf ''sandbox not assigned to this node'') else None)
       (CheckAssignmentGeneration (sbGeneration sb) generation)"

definition reportSandboxStatus ::
  "ca_loader \<Rightarrow> gotime \<Rightarrow> (string \<Rightarrow> status_request \<Rightarrow> unit result) \<Rightarrow> daemon \<Rightarrow> string \<Rightarrow> int \<Rightarrow> sb_status \<Rightarrow>
     daemon \<times> go_error option" where
  "reportSandboxStatus load now remote d sandboxID generation st =
     (case node_material d of
        None \<Rightarrow> (d, Some (errorf ''no identity''))
      | Some mat \<Rightarrow>
     (case leader_raft d of
        Some raft \<Rightarrow>
          (case GetSandbox raft sandboxID of
             Inl e \<Rightarrow> (d, Some e)
           | Inr sb \<Rightarrow>
          (case report_checks mat sb generation of
             Some e \<Rightarrow> (d, Some e)
           | None \<Rightarrow>
               (let (raft1, e) = SaveSandbox load raft
                      (Some (sb\<lparr>sbStatus := st\<lparr>stUpdatedAt := now\<rparr>, sbUpdatedAt := now\<rparr>)) in
                (d\<lparr>dnRaft := Some raft1\<rparr>, e))))
      | None \<Rightarrow>
          (case call_managers d (\<lambda>addr. remote addr
                  \<lparr>srSandboxId = sandboxID, srStatus = Some (StatusToProto st), srGeneration = generation\<rparr>) of
             Inl e \<Rightarrow> (d, Some e)
           | Inr _ \<Rightarrow> (d, None))))"

section \<open>The local control socket\<close>

definition withManagerControl :: "daemon \<Rightarrow> (string \<Rightarrow> 'r result) \<Rightarrow> 'r result" where
  "withManagerControl d remote =
     (case node_material d of None \<Rightarrow> Inl (errorf ''node not joined'') | Some _ \<Rightarrow> call_managers d remote)"

definition put_control :: "control \<Rightarrow> daemon \<Rightarrow> daemon" where
  "put_control c d = d\<lparr>dnRaft := Some (cnRaft c), dnQuarantine := Some (cnQuarantine c)\<rparr>"

text \<open>The two shapes of a call: a write runs on the leader, a read on any manager.\<close>

definition on_leader ::
  "(control \<Rightarrow> control \<times> 'r result) \<Rightarrow> (string \<Rightarrow> 'r result) \<Rightarrow> daemon \<Rightarrow> daemon \<times> 'r result" where
  "on_leader local remote d =
     (case (leader_raft d, dnQuarantine d) of
        (Some raft, Some q) \<Rightarrow>
          (case local \<lparr>cnRaft = raft, cnQuarantine = q\<rparr> of (c, r) \<Rightarrow> (put_control c d, r))
      | _ \<Rightarrow> (d, withManagerControl d remote))"

definition on_manager :: "(control \<Rightarrow> 'r result) \<Rightarrow> (string \<Rightarrow> 'r result) \<Rightarrow> daemon \<Rightarrow> 'r result" where
  "on_manager local remote d =
     (case (dnRaft d, dnQuarantine d) of
        (Some raft, Some q) \<Rightarrow> local \<lparr>cnRaft = raft, cnQuarantine = q\<rparr>
      | _ \<Rightarrow> withManagerControl d remote)"

definition daemon_SandboxCreate ::
  "ca_loader \<Rightarrow> json_codec \<Rightarrow> string result \<Rightarrow> gotime \<Rightarrow> rpc_context \<Rightarrow> (string \<Rightarrow> sandbox_proto result) \<Rightarrow>
     create_request \<Rightarrow> daemon \<Rightarrow> daemon \<times> sandbox_proto result" where
  "daemon_SandboxCreate load json rand now ctx remote req d =
     on_leader
       (\<lambda>c. case ensureSandboxCreateRuntime now (cnRaft c) (dnDriver d) (dnRuntimeErr d) of
              Some e \<Rightarrow> (c, Inl e)
            | None \<Rightarrow> ctl_Create load json rand now (WithInternalCall ctx) c req) remote d"

definition daemon_SandboxStart ::
  "ca_loader \<Rightarrow> json_codec \<Rightarrow> gotime \<Rightarrow> rpc_context \<Rightarrow> (string \<Rightarrow> sandbox_proto result) \<Rightarrow> string \<Rightarrow> daemon \<Rightarrow>
     daemon \<times> sandbox_proto result" where
  "daemon_SandboxStart load json now ctx remote i = on_leader (\<lambda>c. ctl_Start load json now (WithInternalCall ctx) c i) remote"

definition daemon_SandboxStop ::
  "ca_loader \<Rightarrow> json_codec \<Rightarrow> gotime \<Rightarrow> rpc_context \<Rightarrow> (string \<Rightarrow> sandbox_proto result) \<Rightarrow> string \<Rightarrow> daemon \<Rightarrow>
     daemon \<times> sandbox_proto result" where
  "daemon_SandboxStop load json now ctx remote i = on_leader (\<lambda>c. ctl_Stop load json now (WithInternalCall ctx) c i) remote"

definition daemon_SandboxRemove ::
  "ca_loader \<Rightarrow> rpc_context \<Rightarrow> (string \<Rightarrow> unit result) \<Rightarrow> string \<Rightarrow> daemon \<Rightarrow> daemon \<times> unit result" where
  "daemon_SandboxRemove load ctx remote i = on_leader (\<lambda>c. ctl_Remove load (WithInternalCall ctx) c i) remote"

definition daemon_SandboxGet ::
  "json_codec \<Rightarrow> rpc_context \<Rightarrow> (string \<Rightarrow> sandbox_proto result) \<Rightarrow> string \<Rightarrow> daemon \<Rightarrow> sandbox_proto result" where
  "daemon_SandboxGet json ctx remote i = on_manager (\<lambda>c. ctl_Get json (WithInternalCall ctx) c i) remote"

definition daemon_SandboxGetByName ::
  "json_codec \<Rightarrow> rpc_context \<Rightarrow> (string \<Rightarrow> sandbox_proto result) \<Rightarrow> string \<Rightarrow> daemon \<Rightarrow> sandbox_proto result" where
  "daemon_SandboxGetByName json ctx remote name = on_manager (\<lambda>c. ctl_GetByName json (WithInternalCall ctx) c name) remote"

definition daemon_SandboxList ::
  "json_codec \<Rightarrow> rpc_context \<Rightarrow> (string \<Rightarrow> sandbox_proto list result) \<Rightarrow> daemon \<Rightarrow> sandbox_proto list result" where
  "daemon_SandboxList json ctx remote = on_manager (\<lambda>c. ctl_List json (WithInternalCall ctx) c) remote"

section \<open>Nodes and logs\<close>

definition daemon_NodeList :: "gotime \<Rightarrow> (string \<Rightarrow> node_info list result) \<Rightarrow> daemon \<Rightarrow> node_info list result" where
  "daemon_NodeList now remote d =
     (case dnRaft d of Some raft \<Rightarrow> nodeListLocal raft now | None \<Rightarrow> withManagerControl d remote)"

definition daemon_NodeInspect ::
  "gotime \<Rightarrow> (string \<Rightarrow> node_info option result) \<Rightarrow> string \<Rightarrow> daemon \<Rightarrow> node_info option result" where
  "daemon_NodeInspect now remote i d =
     (if i = [] then Inl (status_error InvalidArgument ''node_id is required'')
      else
        (case dnRaft d of
           Some raft \<Rightarrow> (case nodeInspectLocal raft now i of Inl e \<Rightarrow> Inl e | Inr n \<Rightarrow> Inr (Some n))
         | None \<Rightarrow> withManagerControl d remote))"

definition known_addr :: "raft_node \<Rightarrow> string \<Rightarrow> string option" where
  "known_addr raft nodeID =
     (let peer = map_option piGRPCAddr (List.find (\<lambda>p. piNodeID p = nodeID \<and> piGRPCAddr p \<noteq> []) (ListPeers raft)) in
      case GetNode raft nodeID of
        Inr n \<Rightarrow> if nGRPCAddr n \<noteq> [] then Some (nGRPCAddr n) else peer
      | Inl _ \<Rightarrow> peer)"

definition lookupNodeRuntimeAddr ::
  "gotime \<Rightarrow> (string \<Rightarrow> node_info option result) \<Rightarrow> string \<Rightarrow> daemon \<Rightarrow> string result" where
  "lookupNodeRuntimeAddr now remote nodeID d =
     (case (case dnRaft d of None \<Rightarrow> None | Some raft \<Rightarrow> known_addr raft nodeID) of
        Some addr \<Rightarrow> Inr addr
      | None \<Rightarrow>
          (let unknown = Inl (Errorf [Lit ''runtime address for node '', Str nodeID, Lit '' unknown (waiting for heartbeat)'']) in
           case daemon_NodeInspect now remote nodeID d of
             Inl e \<Rightarrow> Inl e
           | Inr None \<Rightarrow> unknown
           | Inr (Some n) \<Rightarrow>
               (let addr = trim_space (niRuntimeGrpcAddr n) in if addr \<noteq> [] then Inr addr else unknown)))"

text \<open>Where \<open>SandboxLogs\<close> reads from: this node's driver with the chosen sources, or a node's runtime.\<close>

datatype log_route = LocalLogs "string list" | RemoteLogs string

definition log_sources :: "string \<Rightarrow> string list" where
  "log_sources s = (if s = [] then [] else filter (\<lambda>t. t \<noteq> []) (map trim_space (split_on CHR '','' s)))"

definition SandboxLogs_route ::
  "gotime \<Rightarrow> json_codec \<Rightarrow> rpc_context \<Rightarrow> (string \<Rightarrow> sandbox_proto result) \<Rightarrow> (string \<Rightarrow> node_info option result) \<Rightarrow>
     string \<Rightarrow> string \<Rightarrow> daemon \<Rightarrow> log_route result" where
  "SandboxLogs_route now json ctx remote inspect i sources d =
     (case daemon_SandboxGet json ctx remote i d of
        Inl e \<Rightarrow> Inl e
      | Inr sb \<Rightarrow>
          if (case node_material d of None \<Rightarrow> False | Some mat \<Rightarrow> pbNodeId sb = mtNodeID mat) \<and> dnDriver d
          then Inr (LocalLogs (log_sources sources))
          else
            (case lookupNodeRuntimeAddr now inspect (pbNodeId sb) d of
               Inl e \<Rightarrow> Inl e
             | Inr addr \<Rightarrow>
                 (case node_material d of
                    None \<Rightarrow> Inl (errorf ''no identity'')
                  | Some _ \<Rightarrow> Inr (RemoteLogs addr))))"

section \<open>API keys\<close>

record key_info =
  kiId :: string
  kiName :: string
  kiMask :: string
  kiCreatedAt :: int
  kiLastUsedAt :: int
  kiDisabled :: bool

definition APIKeyInfoFromKey :: "api_key \<Rightarrow> key_info" where
  "APIKeyInfoFromKey k =
     \<lparr>kiId = kID k, kiName = kName k, kiMask = kMask k, kiCreatedAt = unix_nano (kCreatedAt k),
      kiLastUsedAt = (if is_zero_time (kLastUsed k) then 0 else unix_nano (kLastUsed k)), kiDisabled = kDisabled k\<rparr>"

record key_created =
  kcId :: string
  kcName :: string
  kcKey :: string
  kcMask :: string
  kcCreatedAt :: int

definition CreateAPIKeyResponse :: "generated \<Rightarrow> key_created" where
  "CreateAPIKeyResponse g =
     \<lparr>kcId = kID (gKey g), kcName = kName (gKey g), kcKey = gRaw g, kcMask = kMask (gKey g),
      kcCreatedAt = unix_nano (kCreatedAt (gKey g))\<rparr>"

definition IdentityPEMs :: "daemon \<Rightarrow> (string \<times> string \<times> string) result" where
  "IdentityPEMs d =
     (case node_material d of
        None \<Rightarrow> Inl (errorf ''no identity'')
      | Some mat \<Rightarrow> Inr (mtCertificate mat, mtPrivateKey mat, mtCACert mat))"

definition APIKeyCreate ::
  "ca_loader \<Rightarrow> (string \<Rightarrow> string) \<Rightarrow> string result \<Rightarrow> string result \<Rightarrow> gotime \<Rightarrow> string \<Rightarrow> daemon \<Rightarrow> daemon \<times> key_created result" where
  "APIKeyCreate load hash rand rand_id now name d =
     (case dnRaft d of
        None \<Rightarrow> (d, Inl (status_error FailedPrecondition ''API keys require a manager node''))
      | Some raft \<Rightarrow>
          if \<not> IsLeader raft
          then (d, Inl (status_error Unavailable ''not the raft leader; run api-key create on the leader''))
          else
            (case CreateAPIKeyOnStore load hash rand rand_id now raft name of
               (raft1, Inl e) \<Rightarrow> (d\<lparr>dnRaft := Some raft1\<rparr>, Inl e)
             | (raft1, Inr g) \<Rightarrow> (d\<lparr>dnRaft := Some raft1\<rparr>, Inr (CreateAPIKeyResponse g))))"

definition APIKeyList :: "daemon \<Rightarrow> key_info list result" where
  "APIKeyList d =
     (case dnRaft d of
        None \<Rightarrow> Inl (status_error FailedPrecondition ''API keys require a manager node'')
      | Some raft \<Rightarrow>
          (case ListAPIKeys raft of
             Inl e \<Rightarrow> Inl (StatusError Internal e)
           | Inr keys \<Rightarrow> Inr (map APIKeyInfoFromKey keys)))"

definition APIKeyDelete :: "ca_loader \<Rightarrow> string \<Rightarrow> daemon \<Rightarrow> daemon \<times> unit result" where
  "APIKeyDelete load i d =
     (case dnRaft d of
        None \<Rightarrow> (d, Inl (status_error FailedPrecondition ''API keys require a manager node''))
      | Some raft \<Rightarrow>
          if \<not> IsLeader raft
          then (d, Inl (status_error Unavailable ''not the raft leader; run api-key rm on the leader''))
          else if i = [] then (d, Inl (status_error InvalidArgument ''id is required''))
          else
            (let (raft1, e) = DeleteAPIKey load raft i in
             (d\<lparr>dnRaft := Some raft1\<rparr>, case e of Some err \<Rightarrow> Inl (mapStoreErr err) | None \<Rightarrow> Inr ())))"

end
