(* ===== verification/Runtime_Driver.thy ===== *)
theory Runtime_Driver
  imports Go_Text
begin

text \<open>
  The driver of the local microsandbox runtime (\<open>internal/runtime/msb.go\<close>): how a sandbox's spec
  becomes the options of the SDK, which handles the driver keeps, and the volumes of a node. The
  SDK itself is third-party: its option constructors are the constructors of the types here, its
  operations are arguments.
\<close>

section \<open>Options\<close>

record msb_rule =
  mrAction :: string
  mrDirection :: string
  mrDestination :: string
  mrProtocols :: "string list"
  mrPorts :: "string list"

datatype net_base = NetAllowAll | NetNone | NetPolicy string string "msb_rule list"

record msb_network =
  mnBase :: net_base
  mnMaxConnections :: "64 word option"
  mnOnViolation :: string

record msb_secret =
  msEnvVar :: string
  msValue :: string
  msPlaceholder :: string
  msRequireTLS :: bool
  msAllowHosts :: "string list"
  msAllowPatterns :: "string list"
  msOnViolation :: string

record msb_mount_options =
  mmReadonly :: bool
  mmNoexec :: bool
  mmNosuid :: bool
  mmNodev :: bool
  mmStatVirtualization :: string
  mmHostPermissions :: string
  mmOwner :: "(32 word \<times> 32 word) option"
  mmQuotaMiB :: "32 word"

datatype msb_mount =
    MountNamed string msb_mount_options
  | MountBind string msb_mount_options
  | MountTmpfs bool bool bool bool "32 word"
  | MountDisk string string string bool bool bool bool

datatype msb_patch =
    PatchText string string "32 word option" bool
  | PatchAppend string string
  | PatchMkdir string "32 word option" bool
  | PatchRemove string
  | PatchSymlink string string "32 word option" bool
  | PatchCopyFile string string "32 word option" bool
  | PatchCopyDir string string "32 word option" bool

datatype msb_init =
    InitAuto "(string, string) gomap" "string list"
  | InitCmd string "string list" "(string, string) gomap"

datatype msb_option =
    WithImage string
  | WithRootDisk "32 word"
  | WithBindRootfs string
  | WithImageDisk string string
  | WithCPUs "8 word"
  | WithMemory "32 word"
  | WithWorkdir string
  | WithShell string
  | WithUser string
  | WithScripts "(string, string) gomap"
  | WithLogLevel string
  | WithCmd "string list"
  | WithEntrypoint "string list"
  | WithEnv "(string, string) gomap"
  | WithLabels labels
  | WithEphemeral bool
  | WithMaxDuration duration
  | WithIdleTimeout duration
  | WithSecurityProfile string
  | WithNetwork msb_network
  | WithSecrets "msb_secret list"
  | WithInit msb_init
  | WithPatches "msb_patch list"
  | WithMounts "(string, msb_mount) gomap"
  | WithPullPolicy string

section \<open>Network\<close>

definition mapAction :: "policy_action \<Rightarrow> string" where
  "mapAction a = (if a = ActionAllow then ''allow'' else ''deny'')"

definition mapDirection :: "string \<Rightarrow> string" where
  "mapDirection d =
     (if go_lower d = ''ingress'' then ''ingress'' else if go_lower d = ''any'' then ''any'' else ''egress'')"

definition mapProtocols :: "string list \<Rightarrow> string list" where
  "mapProtocols ps = map go_lower ps"

definition mapPorts :: "port_range list \<Rightarrow> string list" where
  "mapPorts ports =
     map (\<lambda>p. if prStart p = prEnd p then show_nat (unat (prStart p))
              else show_nat (unat (prStart p)) @ ''-'' @ show_nat (unat (prEnd p))) ports"

text \<open>\<open>strings.Trim\<close> with a set of ASCII characters, and \<open>strings.Index\<close> of one.\<close>

definition trim_chars :: "char set \<Rightarrow> string \<Rightarrow> string" where
  "trim_chars cs s = rev (dropWhile (\<lambda>c. c \<in> cs) (rev (dropWhile (\<lambda>c. c \<in> cs) s)))"

definition index_of :: "char \<Rightarrow> string \<Rightarrow> nat option" where
  "index_of c s = (if c \<in> set s then Some (length (takeWhile (\<lambda>x. x \<noteq> c) s)) else None)"

definition quote_char :: char where "quote_char = CHR 0x22"

definition destinationString :: "string \<Rightarrow> string" where
  "destinationString raw =
     (let s = trim_space raw in
      if s = quote_char # ''any'' @ [quote_char] \<or> s = ''any'' then ''*''
      else
        (let s1 = trim_chars {quote_char} s in
         if has_prefix ''{'' s1 then
           (case index_of CHR '':'' s1 of
              None \<Rightarrow> s1
            | Some i \<Rightarrow>
                if i > 0 then
                  (let val = trim_chars {CHR '' '', quote_char, CHR ''}''} (drop (i + 1) s1);
                       key = trim_chars {quote_char} (take (i - 1) (drop 1 s1)) in
                   if key = ''domain_suffix'' \<and> \<not> has_prefix ''.'' val then ''.'' @ val else val)
                else s1)
         else s1))"

definition mapViolationAction :: "secret_violation_action option \<Rightarrow> string" where
  "mapViolationAction a =
     (case a of
        None \<Rightarrow> ''default''
      | Some v \<Rightarrow>
          if vaType v \<in> {''block'', ''block_and_log'', ''block_and_terminate''} then vaType v else ''default'')"

definition networkFromSpec :: "network_spec \<Rightarrow> msb_network option" where
  "networkFromSpec ns =
     (if \<not> nsEnabled ns then None
      else Some
        \<lparr>mnBase = (case nsPolicy ns of
                     None \<Rightarrow> NetAllowAll
                   | Some p \<Rightarrow> NetPolicy (mapAction (npDefaultEgress p)) (mapAction (npDefaultIngress p))
                       (map (\<lambda>r. \<lparr>mrAction = mapAction (nrAction r), mrDirection = mapDirection (nrDirection r),
                                   mrDestination = destinationString (nrDestination r),
                                   mrProtocols = mapProtocols (nrProtocols r), mrPorts = mapPorts (nrPorts r)\<rparr>) (npRules p))),
         mnMaxConnections = nsMaxConnections ns,
         mnOnViolation = (case nsSecrets ns of None \<Rightarrow> ''default'' | Some s \<Rightarrow> mapViolationAction (scOnViolation s))\<rparr>)"

definition secret_of :: "secret_entry \<Rightarrow> msb_secret" where
  "secret_of e =
     \<lparr>msEnvVar = seEnvVar e, msValue = seValue e, msPlaceholder = sePlaceholder e,
      msRequireTLS = RequireTLSIdentityEffective e,
      msAllowHosts = map hpValue (filter (\<lambda>h. hpType h = ''exact'') (seAllowedHosts e)),
      msAllowPatterns = map hpValue (filter (\<lambda>h. hpType h = ''wildcard'') (seAllowedHosts e)),
      msOnViolation = mapViolationAction (seOnViolation e)\<rparr>"

definition secretsFromSpec :: "network_spec \<Rightarrow> msb_secret list" where
  "secretsFromSpec ns =
     (case nsSecrets ns of None \<Rightarrow> [] | Some s \<Rightarrow> map secret_of (scEntries s))"

section \<open>Init, patches and mounts\<close>

fun env_map :: "('a \<Rightarrow> string) \<Rightarrow> ('a \<Rightarrow> string) \<Rightarrow> (string, string) gomap \<Rightarrow> 'a list \<Rightarrow> (string, string) gomap" where
  "env_map key val m [] = m"
| "env_map key val m (e # es) = env_map key val (gm_put (key e) (val e) m) es"

definition initFromSpec :: "handoff_init option \<Rightarrow> msb_init result" where
  "initFromSpec ini =
     (case ini of
        None \<Rightarrow> Inl (errorf ''init is required'')
      | Some h \<Rightarrow>
          (let env = env_map epKey epValue [] (hiEnv h) in
           if hiCmd h = [] \<or> hiCmd h = ''auto'' then Inr (InitAuto env (hiArgs h))
           else Inr (InitCmd (hiCmd h) (hiArgs h) env)))"

definition patch_text :: "patch \<Rightarrow> string" where
  "patch_text p = (case paContent p of None \<Rightarrow> [] | Some c \<Rightarrow> pcText c)"

definition patch_bytes :: "patch \<Rightarrow> string" where
  "patch_bytes p = (case paContent p of None \<Rightarrow> [] | Some c \<Rightarrow> if pcText c \<noteq> [] then pcText c else pcBytes c)"

definition patch_one :: "nat \<Rightarrow> patch \<Rightarrow> msb_patch result" where
  "patch_one i p =
     (if paType p = ''text'' then Inr (PatchText (paPath p) (patch_text p) (paMode p) (paReplace p))
      else if paType p = ''file'' then Inr (PatchText (paPath p) (patch_bytes p) (paMode p) (paReplace p))
      else if paType p = ''append'' then Inr (PatchAppend (paPath p) (patch_bytes p))
      else if paType p = ''mkdir'' then Inr (PatchMkdir (paPath p) (paMode p) (paReplace p))
      else if paType p = ''remove'' then Inr (PatchRemove (paPath p))
      else if paType p = ''symlink'' then Inr (PatchSymlink (paTarget p) (paLink p) (paMode p) (paReplace p))
      else if paType p = ''copy_file'' then Inr (PatchCopyFile (paSrc p) (paDst p) (paMode p) (paReplace p))
      else if paType p = ''copy_dir'' then Inr (PatchCopyDir (paSrc p) (paDst p) (paMode p) (paReplace p))
      else Inl (Errorf [Lit ''patch['', Num (int i), Lit '']: unsupported type '', Quoted (paType p)]))"

text \<open>A loop that converts each element and stops at the first error.\<close>

fun convert_all :: "(nat \<Rightarrow> 'a \<Rightarrow> 'b result) \<Rightarrow> nat \<Rightarrow> 'a list \<Rightarrow> 'b list result" where
  "convert_all f i [] = Inr []"
| "convert_all f i (x # xs) =
     (case f i x of
        Inl e \<Rightarrow> Inl e
      | Inr y \<Rightarrow> (case convert_all f (i + 1) xs of Inl e \<Rightarrow> Inl e | Inr ys \<Rightarrow> Inr (y # ys)))"

definition patchesFromSpec :: "patch list \<Rightarrow> msb_patch list result" where
  "patchesFromSpec patches = convert_all patch_one 0 patches"

definition msb_mount_opts :: "volume_mount \<Rightarrow> msb_mount_options" where
  "msb_mount_opts m =
     (let po = vmOptions m in
      \<lparr>mmReadonly = moReadonly po, mmNoexec = moNoexec po, mmNosuid = moNosuid po, mmNodev = moNodev po,
       mmStatVirtualization = vmStatVirtualization m, mmHostPermissions = vmHostPermissions m,
       mmOwner = (case (moOverrideUID po, moOverrideGID po) of (Some uid, Some gid) \<Rightarrow> Some (uid, gid) | _ \<Rightarrow> None),
       mmQuotaMiB = (case vmQuotaMiB m of None \<Rightarrow> 0 | Some q \<Rightarrow> q)\<rparr>)"

definition mount_one :: "nat \<Rightarrow> volume_mount \<Rightarrow> (string \<times> msb_mount) result" where
  "mount_one i m =
     (let po = vmOptions m in
      if vmType m = ''named'' then Inr (vmGuest m, MountNamed (vmName m) (msb_mount_opts m))
      else if vmType m = ''bind'' then Inr (vmGuest m, MountBind (vmHost m) (msb_mount_opts m))
      else if vmType m = ''tmpfs''
      then Inr (vmGuest m, MountTmpfs (moNoexec po) (moNosuid po) (moNodev po) (moReadonly po)
                             (case vmSizeMiB m of None \<Rightarrow> 0 | Some n \<Rightarrow> n))
      else if vmType m = ''disk_image''
      then Inr (vmGuest m, MountDisk (vmHost m) (vmFormat m) (vmFstype m) (moReadonly po) (moNoexec po) (moNosuid po) (moNodev po))
      else Inl (Errorf [Lit ''mount['', Num (int i), Lit '']: unsupported type '', Quoted (vmType m)]))"

definition mountsFromSpec :: "volume_mount list \<Rightarrow> (string, msb_mount) gomap result" where
  "mountsFromSpec mounts =
     (case convert_all mount_one 0 mounts of Inl e \<Rightarrow> Inl e | Inr ms \<Rightarrow> Inr (foldl (\<lambda>m (g, c). gm_put g c m) [] ms))"

section \<open>A spec's options\<close>

definition root_options :: "spec \<Rightarrow> msb_option list result" where
  "root_options s =
     (let im = spImage s in
      if rfType im = [] \<or> rfType im = ''oci'' then
        (if ImageReference s = [] then Inl (errorf ''oci image reference required'')
         else Inr (WithImage (ImageReference s) #
                   (case resDiskSizeMiB (spResources s) of None \<Rightarrow> [] | Some n \<Rightarrow> [WithRootDisk n])))
      else if rfType im = ''bind'' then
        (if rfPath im = [] then Inl (errorf ''image.path is required for bind rootfs'') else Inr [WithBindRootfs (rfPath im)])
      else if rfType im = ''disk_image'' then
        (if rfPath im = [] then Inl (errorf ''image.path is required for disk_image rootfs'')
         else Inr [WithImageDisk (rfPath im) (rfFstype im)])
      else Inl (Errorf [Lit ''unsupported image.type '', Quoted (rfType im)]))"

definition text_option :: "(string \<Rightarrow> msb_option) \<Rightarrow> string option \<Rightarrow> msb_option list" where
  "text_option c v = (case v of None \<Rightarrow> [] | Some t \<Rightarrow> if t = [] then [] else [c t])"

definition runtime_options_of :: "spec \<Rightarrow> msb_option list" where
  "runtime_options_of s =
     (let r = spRuntime s in
      (if resVCPUs (spResources s) > 0 then [WithCPUs (resVCPUs (spResources s))] else []) @
      (if resMemoryMiB (spResources s) > 0 then [WithMemory (resMemoryMiB (spResources s))] else []) @
      text_option WithWorkdir (roWorkdir r) @ text_option WithShell (roShell r) @ text_option WithUser (roUser r) @
      (if length (roScripts r) > 0 then [WithScripts (roScripts r)] else []) @
      text_option WithLogLevel (roLogLevel r) @
      (if length (roCmd r) > 0 then [WithCmd (roCmd r)] else []) @
      (if length (roEntrypoint r) > 0 then [WithEntrypoint (roEntrypoint r)] else []) @
      (if length (spEnv s) > 0 then [WithEnv (env_map evKey evValue [] (spEnv s))] else []) @
      (if length (spLabels s) > 0 then [WithLabels (spLabels s)] else []))"

definition seconds_of :: "64 word \<Rightarrow> duration" where
  "seconds_of n = wrap64 (wrap64 (uint n) * second)"

definition lifecycle_options :: "spec \<Rightarrow> msb_option list" where
  "lifecycle_options s =
     (let l = spLifecycle s in
      (if lpEphemeral l then [WithEphemeral True] else []) @
      (case lpMaxDurationSecs l of None \<Rightarrow> [] | Some n \<Rightarrow> [WithMaxDuration (seconds_of n)]) @
      (case lpIdleTimeoutSecs l of None \<Rightarrow> [] | Some n \<Rightarrow> [WithIdleTimeout (seconds_of n)]) @
      (if spSecurityProfile s = SecurityDefault \<or> spSecurityProfile s = [] then [] else [WithSecurityProfile (spSecurityProfile s)]))"

definition no_network :: msb_network where
  "no_network = \<lparr>mnBase = NetNone, mnMaxConnections = None, mnOnViolation = ''default''\<rparr>"

definition network_options :: "network_spec \<Rightarrow> msb_option list" where
  "network_options ns =
     (case networkFromSpec ns of
        Some net \<Rightarrow> [WithNetwork net]
      | None \<Rightarrow> if \<not> nsEnabled ns then [WithNetwork no_network] else []) @
     (let secrets = secretsFromSpec ns in if length secrets > 0 then [WithSecrets secrets] else [])"

definition pull_options :: "spec \<Rightarrow> msb_option list" where
  "pull_options s =
     (if spPullPolicy s = ''always'' then [WithPullPolicy ''always'']
      else if spPullPolicy s = ''never'' then [WithPullPolicy ''never''] else [])"

definition specToOptions :: "spec \<Rightarrow> msb_option list result" where
  "specToOptions s =
     (case root_options s of
        Inl e \<Rightarrow> Inl e
      | Inr root \<Rightarrow>
          (case (case spInit s of
                   None \<Rightarrow> Inr []
                 | Some h \<Rightarrow> (case initFromSpec (Some h) of Inl e \<Rightarrow> Inl e | Inr c \<Rightarrow> Inr [WithInit c])) of
             Inl e \<Rightarrow> Inl e
           | Inr ini \<Rightarrow>
               (case patchesFromSpec (spPatches s) of
                  Inl e \<Rightarrow> Inl e
                | Inr patches \<Rightarrow>
                    (case mountsFromSpec (spMounts s) of
                       Inl e \<Rightarrow> Inl e
                     | Inr mounts \<Rightarrow>
                         Inr (root @ runtime_options_of s @ lifecycle_options s @ network_options (spNetwork s) @ ini @
                              (if length patches > 0 then [WithPatches patches] else []) @
                              (if length mounts > 0 then [WithMounts mounts] else []) @ pull_options s)))))"

section \<open>Handles\<close>

text \<open>
  The SDK's operations on sandboxes and volumes over a state of the node of any type, handles being
  numbers; \<open>Ping\<close> only tells whether it failed. The driver is the map of the handles it keeps.
\<close>

record ('h, 'v) sdk =
  sdConnect :: "string \<Rightarrow> msb_option list \<Rightarrow> 'h \<Rightarrow> 'h \<times> nat result"
  sdPing :: "nat \<Rightarrow> 'h \<Rightarrow> bool"
  sdStart :: "string \<Rightarrow> 'h \<Rightarrow> 'h \<times> nat option result"
  sdRestart :: "nat \<Rightarrow> 'h \<Rightarrow> 'h \<times> nat option result"
  sdStop :: "nat \<Rightarrow> 'h \<Rightarrow> 'h \<times> go_error option"
  sdClose :: "nat \<Rightarrow> 'h \<Rightarrow> 'h"
  sdRemove :: "string \<Rightarrow> 'h \<Rightarrow> 'h \<times> go_error option"
  sdListVolumes :: "'h \<Rightarrow> (string \<times> 'v) option list result"
  sdCreateVolume :: "string \<Rightarrow> 32 word option \<Rightarrow> 'h \<Rightarrow> 'h \<times> 'v result"
  sdRemoveVolume :: "string \<Rightarrow> 'h \<Rightarrow> 'h \<times> go_error option"

type_synonym driver = "(string, nat) gomap"

fun driver_Close :: "('h, 'v) sdk \<Rightarrow> driver \<Rightarrow> 'h \<Rightarrow> driver \<times> 'h" where
  "driver_Close sdk [] h = ([], h)"
| "driver_Close sdk ((i, n) # d) h = driver_Close sdk d (sdClose sdk n h)"

definition FindBySandboxID :: "driver \<Rightarrow> string \<Rightarrow> string" where
  "FindBySandboxID d i = (if gm_has d i then i else [])"

text \<open>Keeping a new handle closes the one it replaces, if that is another.\<close>

definition keep_handle :: "('h, 'v) sdk \<Rightarrow> string \<Rightarrow> nat \<Rightarrow> driver \<Rightarrow> 'h \<Rightarrow> driver \<times> 'h" where
  "keep_handle sdk i n d h =
     (gm_put i n d, case gm_get d i of None \<Rightarrow> h | Some old \<Rightarrow> if old \<noteq> n then sdClose sdk old h else h)"

text \<open>The error's text ends with a parenthesis, which the wrapping here leaves out.\<close>

definition ensureRunning :: "(string \<Rightarrow> string) \<Rightarrow> ('h, 'v) sdk \<Rightarrow> string \<Rightarrow> driver \<Rightarrow> 'h \<Rightarrow> driver \<times> 'h \<times> go_error option" where
  "ensureRunning quote sdk i d h =
     (case gm_get d i of
        None \<Rightarrow> (d, h, Some (Errorf [Lit ''sandbox '', Str i, Lit '' not tracked'']))
      | Some n \<Rightarrow>
          if sdPing sdk n h then (d, h, None)
          else
            (case sdStart sdk i h of
               (h1, Inl e) \<Rightarrow>
                 (case sdRestart sdk n h1 of
                    (h2, Inl e2) \<Rightarrow> (d, h2, Some (Wrapped [Lit ''start sandbox: '', Str (error_text quote e), Lit '' (restart: ''] e2))
                  | (h2, Inr None) \<Rightarrow> (d, h2, None)
                  | (h2, Inr (Some m)) \<Rightarrow> (case keep_handle sdk i m d h2 of (d', h3) \<Rightarrow> (d', h3, None)))
             | (h1, Inr None) \<Rightarrow> (d, h1, None)
             | (h1, Inr (Some m)) \<Rightarrow> (case keep_handle sdk i m d h1 of (d', h2) \<Rightarrow> (d', h2, None))))"

definition CreateOrConnect ::
  "(string \<Rightarrow> string) \<Rightarrow> ('h, 'v) sdk \<Rightarrow> string \<Rightarrow> spec \<Rightarrow> bool \<Rightarrow> driver \<Rightarrow> 'h \<Rightarrow> driver \<times> 'h \<times> go_error option" where
  "CreateOrConnect quote sdk i s start d h =
     (case specToOptions s of
        Inl e \<Rightarrow> (d, h, Some e)
      | Inr opts \<Rightarrow>
          (case sdConnect sdk i opts h of
             (h1, Inl e) \<Rightarrow> (d, h1, Some (Wrapped [Lit ''msb create/connect '', Str i, Lit '': ''] e))
           | (h1, Inr n) \<Rightarrow>
               (case keep_handle sdk i n d h1 of
                  (d', h2) \<Rightarrow> if start then ensureRunning quote sdk i d' h2 else (d', h2, None))))"

definition driver_Stop :: "('h, 'v) sdk \<Rightarrow> string \<Rightarrow> driver \<Rightarrow> 'h \<Rightarrow> driver \<times> 'h \<times> go_error option" where
  "driver_Stop sdk i d h =
     (case gm_get d i of
        None \<Rightarrow>
          (case sdConnect sdk i [] h of
             (h1, Inl _) \<Rightarrow> (d, h1, None)
           | (h1, Inr n) \<Rightarrow> (case sdStop sdk n h1 of (h2, e) \<Rightarrow> (d, sdClose sdk n h2, e)))
      | Some n \<Rightarrow> (case sdStop sdk n h of (h1, e) \<Rightarrow> (d, h1, e)))"

definition driver_Remove :: "('h, 'v) sdk \<Rightarrow> string \<Rightarrow> driver \<Rightarrow> 'h \<Rightarrow> driver \<times> 'h \<times> go_error option" where
  "driver_Remove sdk i d h =
     (let h1 = (case gm_get d i of None \<Rightarrow> h | Some n \<Rightarrow> sdClose sdk n (fst (sdStop sdk n h))) in
      case sdRemove sdk i h1 of (h2, e) \<Rightarrow> (gm_del i d, h2, e))"

definition InspectPhase :: "('h, 'v) sdk \<Rightarrow> string \<Rightarrow> driver \<Rightarrow> 'h \<Rightarrow> driver \<times> 'h \<times> status_phase" where
  "InspectPhase sdk i d h =
     (case gm_get d i of
        None \<Rightarrow>
          (case sdConnect sdk i [] h of
             (h1, Inl _) \<Rightarrow> (d, h1, PhaseStopped)
           | (h1, Inr n) \<Rightarrow> (gm_put i n d, h1, if sdPing sdk n h1 then PhaseRunning else PhaseStopped))
      | Some n \<Rightarrow> (d, h, if sdPing sdk n h then PhaseRunning else PhaseStopped))"

section \<open>Volumes and logs\<close>

definition EnsureVolume :: "(string \<Rightarrow> string) \<Rightarrow> ('h, 'v) sdk \<Rightarrow> string \<Rightarrow> 32 word option \<Rightarrow> 'h \<Rightarrow> 'h \<times> go_error option" where
  "EnsureVolume quote sdk name capacityGiB h =
     (case sdCreateVolume sdk name (map_option (\<lambda>c. c * 1024) capacityGiB) h of
        (h1, Inr _) \<Rightarrow> (h1, None)
      | (h1, Inl e) \<Rightarrow> (h1, if contains ''already'' (go_lower (error_text quote e)) then None else Some e))"

definition driver_DeleteVolume :: "('h, 'v) sdk \<Rightarrow> string \<Rightarrow> 'h \<Rightarrow> 'h \<times> go_error option" where
  "driver_DeleteVolume sdk name h = sdRemoveVolume sdk name h"

fun find_volume :: "string \<Rightarrow> (string \<times> 'v) option list \<Rightarrow> 'v option" where
  "find_volume name [] = None"
| "find_volume name (None # vs) = find_volume name vs"
| "find_volume name (Some (n, v) # vs) = (if n = name then Some v else find_volume name vs)"

definition VolumeFS :: "('h, 'v) sdk \<Rightarrow> string \<Rightarrow> 'h \<Rightarrow> 'h \<times> 'v result" where
  "VolumeFS sdk name h =
     (case sdListVolumes sdk h of
        Inl e \<Rightarrow> (h, Inl e)
      | Inr vs \<Rightarrow>
          (case find_volume name vs of
             Some v \<Rightarrow> (h, Inr v)
           | None \<Rightarrow> sdCreateVolume sdk name None h))"

fun mapLogSources :: "string list \<Rightarrow> string list" where
  "mapLogSources [] = []"
| "mapLogSources (s # ss) =
     (let t = go_lower (trim_space s) in
      if t \<in> {''stdout'', ''stderr'', ''system'', ''output''} then t # mapLogSources ss else mapLogSources ss)"

record log_entry =
  leID :: string
  leSource :: string
  leTimestamp :: gotime
  leText :: string

text \<open>
  Following a log: the stream's entries until it ends or fails; what was emitted, and the result.
\<close>

fun follow_loop :: "(nat \<Rightarrow> go_error option) \<Rightarrow> nat \<Rightarrow> log_entry list \<Rightarrow> go_error option \<Rightarrow> log_entry list \<times> go_error option" where
  "follow_loop emit i [] fin = ([], fin)"
| "follow_loop emit i (e # es) fin =
     (case emit i of
        Some err \<Rightarrow> ([], Some err)
      | None \<Rightarrow> (case follow_loop emit (i + 1) es fin of (sent, r) \<Rightarrow> (e # sent, r)))"

record log_options =
  loFollow :: bool
  loSources :: "string list"
  loFromCursor :: string

definition FollowLogs ::
  "(nat \<Rightarrow> log_options \<Rightarrow> (log_entry list \<times> go_error option) result) \<Rightarrow> driver \<Rightarrow> (nat \<Rightarrow> go_error option) \<Rightarrow> string \<Rightarrow> log_options \<Rightarrow>
     log_entry list \<times> go_error option" where
  "FollowLogs stream d emit i opts =
     (case gm_get d i of
        None \<Rightarrow> ([], Some (Errorf [Lit ''sandbox '', Str i, Lit '' not running locally'']))
      | Some n \<Rightarrow>
          (case stream n (opts\<lparr>loSources := mapLogSources (loSources opts)\<rparr>) of
             Inl e \<Rightarrow> ([], Some e)
           | Inr (entries, fin) \<Rightarrow> follow_loop emit 0 entries fin))"

section \<open>Every valid spec can be run\<close>

lemma convert_all_total:
  "\<forall>i. \<forall>x \<in> set xs. \<exists>y. f i x = Inr y \<Longrightarrow> \<exists>ys. convert_all f i xs = Inr ys"
proof (induction xs arbitrary: i)
  case (Cons x xs)
  then obtain y where y: "f i x = Inr y" by fastforce
  from Cons obtain ys where "convert_all f (i + 1) xs = Inr ys" by fastforce
  with y show ?case by simp
qed simp

lemma validated_parts:
  "ValidateSpec s = None \<Longrightarrow> valid_image (spImage s) \<and> (\<forall>m \<in> set (spMounts s). valid_mount m) \<and>
     (\<forall>p \<in> set (spPatches s). valid_patch p) \<and> valid_network (spNetwork s) \<and>
     resVCPUs (spResources s) \<noteq> 0 \<and> resMemoryMiB (spResources s) \<noteq> 0"
  by (auto simp: ValidateSpec_def Let_def spec_checks_None split: if_splits)

lemma root_options_valid: "valid_image (spImage s) \<Longrightarrow> \<exists>opts. root_options s = Inr opts"
  by (auto simp: valid_image_def root_options_def ImageReference_def Let_def)

lemma patch_one_valid: "valid_patch p \<Longrightarrow> \<exists>q. patch_one i p = Inr q"
  by (auto simp: valid_patch_def patch_one_def)

lemma mount_one_valid: "valid_mount m \<Longrightarrow> \<exists>q. mount_one i m = Inr q"
  by (auto simp: valid_mount_def mount_one_def Let_def)

lemma initFromSpec_total: "\<exists>c. initFromSpec (Some h) = Inr c"
  by (simp add: initFromSpec_def Let_def)

text \<open>
  Claim C32: a spec that the managers accept never fails on the node for its form: every spec that
  \<open>ValidateSpec\<close> lets through has options for the runtime, with its CPUs and memory among them.
\<close>

theorem valid_spec_has_options:
  assumes "ValidateSpec s = None"
  shows "\<exists>opts. specToOptions s = Inr opts \<and> WithCPUs (resVCPUs (spResources s)) \<in> set opts \<and>
    WithMemory (resMemoryMiB (spResources s)) \<in> set opts"
proof -
  note v = validated_parts [OF assms]
  obtain root where root: "root_options s = Inr root"
    using v root_options_valid by blast
  obtain patches where patches: "patchesFromSpec (spPatches s) = Inr patches"
    using convert_all_total [of "spPatches s" patch_one 0] v patch_one_valid by (auto simp: patchesFromSpec_def)
  obtain ms where "convert_all mount_one 0 (spMounts s) = Inr ms"
    using convert_all_total [of "spMounts s" mount_one 0] v mount_one_valid by blast
  then have mounts: "mountsFromSpec (spMounts s) = Inr (foldl (\<lambda>m (g, c). gm_put g c m) [] ms)"
    by (simp add: mountsFromSpec_def)
  have ini: "\<exists>ini. (case spInit s of None \<Rightarrow> Inr [] | Some h \<Rightarrow>
      (case initFromSpec (Some h) of Inl e \<Rightarrow> Inl e | Inr c \<Rightarrow> Inr [WithInit c])) = Inr ini"
  proof (cases "spInit s")
    case (Some h)
    with initFromSpec_total [of h] show ?thesis by (elim exE) simp
  qed simp
  have "WithCPUs (resVCPUs (spResources s)) \<in> set (runtime_options_of s)"
    "WithMemory (resMemoryMiB (spResources s)) \<in> set (runtime_options_of s)"
    using v by (simp_all add: runtime_options_of_def Let_def word_greater_zero_iff)
  with root patches mounts ini show ?thesis
    by (auto simp: specToOptions_def)
qed

definition demo_run_spec :: spec where
  "demo_run_spec = zero_spec\<lparr>spName := ''web'', spImage := OCIImage ''alpine'',
     spResources := \<lparr>resVCPUs = 2, resMemoryMiB = 512, resDiskSizeMiB = None\<rparr>\<rparr>"

lemma demo_run_spec_valid: "ValidateSpec demo_run_spec = None"
proof -
  have "trim_space ''web'' = ''web''" "trim_space ''alpine'' = ''alpine''"
    by (rule trim_space_plain; simp add: plain_char_def)+
  then show ?thesis
    by (simp add: demo_run_spec_def ValidateSpec_def zero_spec_def OCIImage_def check_image_def validateSecrets_def Let_def)
qed

theorem valid_spec_has_options_witness:
  "\<exists>opts. specToOptions demo_run_spec = Inr opts \<and> WithCPUs 2 \<in> set opts \<and> WithMemory 512 \<in> set opts"
  using valid_spec_has_options [OF demo_run_spec_valid] by (simp add: demo_run_spec_def)

section \<open>Networks are closed by default\<close>

definition net_of :: "msb_option list \<Rightarrow> msb_network list" where
  "net_of opts = concat (map (\<lambda>p. case p of WithNetwork n \<Rightarrow> [n] | _ \<Rightarrow> []) opts)"

lemma net_of_simps [simp]: "net_of [] = []" "net_of (a @ b) = net_of a @ net_of b"
  "net_of (p # b) = (case p of WithNetwork n \<Rightarrow> [n] | _ \<Rightarrow> []) @ net_of b"
  by (simp_all add: net_of_def)

lemma net_of_others [simp]:
  "net_of (runtime_options_of s) = []" "net_of (lifecycle_options s) = []" "net_of (pull_options s) = []"
  "root_options s = Inr root \<Longrightarrow> net_of root = []"
  by (auto simp: runtime_options_of_def lifecycle_options_def pull_options_def root_options_def text_option_def Let_def
      split: option.splits if_splits)

lemma specToOptions_net:
  "specToOptions s = Inr opts \<Longrightarrow> net_of opts = net_of (network_options (spNetwork s))"
  by (auto simp: specToOptions_def split: sum.splits option.splits)

text \<open>
  Claim C31: a sandbox has exactly the network its spec asks for, and none by default. Its options
  hold one network: without an enabled network it is the closed one; with one and a policy, every
  default and every rule denies unless it literally says \<open>allow\<close>; only an enabled network without
  any policy is open.
\<close>

theorem network_closed_by_default:
  assumes "specToOptions s = Inr opts"
  shows "\<exists>net. net_of opts = [net] \<and>
    (\<not> nsEnabled (spNetwork s) \<longrightarrow> mnBase net = NetNone) \<and>
    (mnBase net = NetAllowAll \<longleftrightarrow> nsEnabled (spNetwork s) \<and> nsPolicy (spNetwork s) = None) \<and>
    (\<forall>p. nsEnabled (spNetwork s) \<and> nsPolicy (spNetwork s) = Some p \<longrightarrow>
       (\<exists>eg ing rules. mnBase net = NetPolicy eg ing rules \<and>
          (eg = ''allow'' \<longleftrightarrow> npDefaultEgress p = ''allow'') \<and> (ing = ''allow'' \<longleftrightarrow> npDefaultIngress p = ''allow'') \<and>
          length rules = length (npRules p) \<and>
          (\<forall>i < length rules. mrAction (rules ! i) = (if nrAction (npRules p ! i) = ''allow'' then ''allow'' else ''deny''))))"
proof (cases "nsEnabled (spNetwork s)")
  case False
  then have "network_options (spNetwork s) = WithNetwork no_network # (let secrets = secretsFromSpec (spNetwork s) in
      if length secrets > 0 then [WithSecrets secrets] else [])"
    by (simp add: network_options_def networkFromSpec_def)
  with False specToOptions_net [OF assms] show ?thesis
    by (simp add: no_network_def Let_def)
next
  case True
  then obtain net where net: "networkFromSpec (spNetwork s) = Some net"
    by (simp add: networkFromSpec_def)
  then have "net_of opts = [net]"
    using specToOptions_net [OF assms] by (simp add: network_options_def Let_def)
  with True net show ?thesis
    by (cases "nsPolicy (spNetwork s)") (auto simp: networkFromSpec_def mapAction_def)
qed

theorem network_closed_by_default_witness:
  "\<exists>opts net. specToOptions demo_run_spec = Inr opts \<and> net_of opts = [net] \<and> mnBase net = NetNone"
proof -
  obtain opts where "specToOptions demo_run_spec = Inr opts"
    using root_options_valid [of demo_run_spec] validated_parts [OF demo_run_spec_valid]
    by (auto simp: specToOptions_def demo_run_spec_def zero_spec_def patchesFromSpec_def mountsFromSpec_def)
  with network_closed_by_default [OF this] show ?thesis
    by (auto simp: demo_run_spec_def zero_spec_def)
qed

section \<open>The reach of a secret\<close>

text \<open>
  A secret reaches only the hosts its entry names. For a valid spec the runtime may put a
  secret in a request only to hosts and patterns of its own entry; it is unrestricted only if every
  host of the entry is of type \<open>any\<close>; and it needs a TLS identity unless the entry says it does not.
\<close>

theorem secret_reach:
  assumes "ValidateSpec s = None" and "ms \<in> set (secretsFromSpec (spNetwork s))"
  shows "\<exists>sc e. nsSecrets (spNetwork s) = Some sc \<and> e \<in> set (scEntries sc) \<and> msEnvVar ms = seEnvVar e \<and> msValue ms = seValue e \<and>
    set (msAllowHosts ms) = {hpValue h | h. h \<in> set (seAllowedHosts e) \<and> hpType h = ''exact''} \<and>
    set (msAllowPatterns ms) = {hpValue h | h. h \<in> set (seAllowedHosts e) \<and> hpType h = ''wildcard''} \<and>
    (msAllowHosts ms = [] \<and> msAllowPatterns ms = [] \<longleftrightarrow> (\<forall>h \<in> set (seAllowedHosts e). hpType h = ''any'')) \<and>
    (\<not> msRequireTLS ms \<longleftrightarrow> seRequireTLSIdentity e = Some False)"
proof -
  obtain sc where sc: "nsSecrets (spNetwork s) = Some sc"
    using assms(2) by (cases "nsSecrets (spNetwork s)") (auto simp: secretsFromSpec_def)
  with assms(2) obtain e where mem: "e \<in> set (scEntries sc)" and ms: "ms = secret_of e"
    by (auto simp: secretsFromSpec_def)
  note e = sc mem and ms = ms [unfolded secret_of_def]
  have "valid_network (spNetwork s)" using validated_parts [OF assms(1)] by blast
  with e have "valid_secret e" by (auto simp: valid_network_def)
  then have hosts: "\<forall>h \<in> set (seAllowedHosts e). hpType h = ''exact'' \<or> hpType h = ''wildcard'' \<or> hpType h = ''any''"
    by (auto simp: valid_secret_def valid_host_def)
  have "msAllowHosts ms = [] \<and> msAllowPatterns ms = [] \<longleftrightarrow> (\<forall>h \<in> set (seAllowedHosts e). hpType h = ''any'')"
    using hosts by (auto simp: ms filter_empty_conv)
  moreover have "\<not> msRequireTLS ms \<longleftrightarrow> seRequireTLSIdentity e = Some False"
    by (auto simp: ms RequireTLSIdentityEffective_def split: option.split)
  ultimately show ?thesis
    using e by (intro exI [of _ sc] exI [of _ e]) (auto simp: ms)
qed

definition demo_token_spec :: spec where
  "demo_token_spec = demo_run_spec\<lparr>spNetwork := \<lparr>nsEnabled = True, nsPolicy = None,
     nsSecrets = Some \<lparr>scEntries = [\<lparr>seEnvVar = ''TOKEN'', seValue = ''x'', seSource = [], sePlaceholder = [],
       seAllowedHosts = [\<lparr>hpType = ''exact'', hpValue = ''a.io''\<rparr>, \<lparr>hpType = ''any'', hpValue = []\<rparr>],
       seInjection = \<lparr>siHeaders = Some False, siBasicAuth = Some False, siQueryParams = None, siBody = None\<rparr>,
       seRequireTLSIdentity = None, seOnViolation = None\<rparr>], scOnViolation = None\<rparr>,
     nsMaxConnections = None\<rparr>\<rparr>"

lemma demo_nul: "nul \<noteq> CHR ''T''" "nul \<noteq> CHR ''O''" "nul \<noteq> CHR ''K''" "nul \<noteq> CHR ''E''" "nul \<noteq> CHR ''N''"
  by code_simp+

lemma demo_token_spec_valid: "ValidateSpec demo_token_spec = None"
proof -
  have "trim_space ''web'' = ''web''" "trim_space ''alpine'' = ''alpine''" "trim_space ''TOKEN'' = ''TOKEN''"
    "trim_space ''a.io'' = ''a.io''"
    by (rule trim_space_plain; simp add: plain_char_def)+
  then have "valid_network (spNetwork demo_token_spec)"
    by (simp add: demo_token_spec_def valid_network_def valid_secret_def valid_host_def valid_action_def demo_nul)
  then have secrets: "validateSecrets (spNetwork demo_token_spec) = None" by (simp only: validateSecrets_None)
  have "spName demo_token_spec = ''web''" "spImage demo_token_spec = OCIImage ''alpine''"
    "spResources demo_token_spec = \<lparr>resVCPUs = 2, resMemoryMiB = 512, resDiskSizeMiB = None\<rparr>"
    "spMounts demo_token_spec = []" "spPatches demo_token_spec = []" "spRlimits demo_token_spec = []"
    by (simp_all add: demo_token_spec_def demo_run_spec_def zero_spec_def)
  with secrets \<open>trim_space ''web'' = ''web''\<close> \<open>trim_space ''alpine'' = ''alpine''\<close> show ?thesis
    by (simp add: ValidateSpec_def OCIImage_def check_image_def Let_def)
qed

theorem secret_reach_witness:
  "\<exists>ms. secretsFromSpec (spNetwork demo_token_spec) = [ms] \<and> (msAllowHosts ms \<noteq> [] \<or> msAllowPatterns ms \<noteq> []) \<and> msRequireTLS ms"
proof -
  obtain ms where ms: "secretsFromSpec (spNetwork demo_token_spec) = [ms]"
    by (simp add: demo_token_spec_def secretsFromSpec_def)
  then have "ms \<in> set (secretsFromSpec (spNetwork demo_token_spec))" by simp
  from secret_reach [OF demo_token_spec_valid this] obtain sc e where
    e: "nsSecrets (spNetwork demo_token_spec) = Some sc" "e \<in> set (scEntries sc)"
      "(msAllowHosts ms = [] \<and> msAllowPatterns ms = [] \<longleftrightarrow> (\<forall>h \<in> set (seAllowedHosts e). hpType h = ''any''))"
      "\<not> msRequireTLS ms \<longleftrightarrow> seRequireTLSIdentity e = Some False" by blast
  from e(1,2) have "\<exists>h \<in> set (seAllowedHosts e). hpType h = ''exact''" "seRequireTLSIdentity e = None"
    by (auto simp: demo_token_spec_def)
  with e(3,4) ms show ?thesis by auto
qed

text \<open>
  What a spec may say and the options do not carry: how a secret may be injected, and a time limit
  of more than 292 years, which turns negative.
\<close>

lemma injection_ignored:
  "secretsFromSpec ns = secretsFromSpec (ns\<lparr>nsSecrets := map_option (\<lambda>sc. sc\<lparr>scEntries := map (\<lambda>e. e\<lparr>seInjection := other\<rparr>) (scEntries sc)\<rparr>) (nsSecrets ns)\<rparr>)"
  by (cases "nsSecrets ns") (simp_all add: secretsFromSpec_def secret_of_def RequireTLSIdentityEffective_def)

lemma long_limit_negative: "seconds_of 9223372037 < 0"
  by (simp add: seconds_of_def wrap64_def second_def)


section \<open>The handles the driver keeps\<close>

text \<open>What each operation does to the map of handles.\<close>

lemma keep_handle_get: "gm_get (fst (keep_handle sdk i n d h)) j = (if j = i then Some n else gm_get d j)"
  by (simp add: keep_handle_def)

lemma ensureRunning_keeps:
  "gm_get (fst (ensureRunning quote sdk i d h)) j \<noteq> None \<longleftrightarrow> gm_get d j \<noteq> None"
  "j \<noteq> i \<Longrightarrow> gm_get (fst (ensureRunning quote sdk i d h)) j = gm_get d j"
  by (auto simp: ensureRunning_def keep_handle_def split: option.splits prod.splits sum.splits)

lemma CreateOrConnect_cases:
  assumes "CreateOrConnect quote sdk i s start d h = (d', h', e)"
  obtains "d' = d" "e \<noteq> None"
    | n h1 where "d' = fst (keep_handle sdk i n d h1)" "e = None"
    | n h1 h2 where "d' = fst (ensureRunning quote sdk i (fst (keep_handle sdk i n d h1)) h2)"
proof (cases "specToOptions s")
  case (Inl e')
  with assms that(1) show ?thesis by (auto simp: CreateOrConnect_def)
next
  case (Inr opts)
  obtain h1 r where c: "sdConnect sdk i opts h = (h1, r)" by (metis prod.exhaust)
  show ?thesis
  proof (cases r)
    case (Inl e')
    with assms \<open>specToOptions s = Inr opts\<close> c that(1) show ?thesis by (auto simp: CreateOrConnect_def)
  next
    case (Inr n)
    obtain d1 h2 where k: "keep_handle sdk i n d h1 = (d1, h2)" by (metis prod.exhaust)
    show ?thesis
    proof (cases start)
      case True
      with assms \<open>specToOptions s = Inr opts\<close> c Inr k that(3) [of n h1 h2] show ?thesis by (simp add: CreateOrConnect_def)
    next
      case False
      with assms \<open>specToOptions s = Inr opts\<close> c Inr k that(2) [of n h1] show ?thesis by (simp add: CreateOrConnect_def)
    qed
  qed
qed

lemma CreateOrConnect_keeps:
  "snd (snd (CreateOrConnect quote sdk i s start d h)) = None \<Longrightarrow> gm_get (fst (CreateOrConnect quote sdk i s start d h)) i \<noteq> None"
  "j \<noteq> i \<Longrightarrow> gm_get (fst (CreateOrConnect quote sdk i s start d h)) j = gm_get d j"
proof -
  obtain d' h' e where run: "CreateOrConnect quote sdk i s start d h = (d', h', e)" by (metis prod_cases3)
  show "gm_get (fst (CreateOrConnect quote sdk i s start d h)) i \<noteq> None" if "snd (snd (CreateOrConnect quote sdk i s start d h)) = None"
    using run that by (cases rule: CreateOrConnect_cases) (simp_all add: run keep_handle_get ensureRunning_keeps(1) del: not_None_eq)
  show "gm_get (fst (CreateOrConnect quote sdk i s start d h)) j = gm_get d j" if "j \<noteq> i"
    using run that by (cases rule: CreateOrConnect_cases) (simp_all add: run keep_handle_get ensureRunning_keeps(2))
qed

lemma other_operations_keep:
  "j \<noteq> i \<Longrightarrow> gm_get (fst (driver_Stop sdk i d h)) j = gm_get d j"
  "j \<noteq> i \<Longrightarrow> gm_get (fst (driver_Remove sdk i d h)) j = gm_get d j"
  "j \<noteq> i \<Longrightarrow> gm_get (fst (InspectPhase sdk i d h)) j = gm_get d j"
  "gm_get (fst (driver_Remove sdk i d h)) i = None"
  by (auto simp: driver_Stop_def driver_Remove_def InspectPhase_def Let_def split: option.splits prod.splits sum.splits)

lemma InspectPhase_answered:
  "snd (snd (InspectPhase sdk i d h)) = PhaseRunning \<longleftrightarrow>
     (\<exists>n. gm_get (fst (InspectPhase sdk i d h)) i = Some n \<and> sdPing sdk n (fst (snd (InspectPhase sdk i d h))))"
  by (auto simp: InspectPhase_def split: option.splits prod.splits sum.splits)

text \<open>
  The driver keeps the handle of exactly the sandboxes it has connected to: creating or
  inspecting one keeps its handle when the runtime gave one, removing it drops the handle whatever
  the runtime says, nothing it does for one sandbox touches the handle of another, and a sandbox is
  reported running only if it answered.
\<close>

theorem driver_handles:
  "(snd (snd (CreateOrConnect quote sdk i s start d h)) = None \<longrightarrow> gm_get (fst (CreateOrConnect quote sdk i s start d h)) i \<noteq> None) \<and>
   gm_get (fst (driver_Remove sdk i d h)) i = None \<and>
   (snd (snd (InspectPhase sdk i d h)) = PhaseRunning \<longleftrightarrow>
      (\<exists>n. gm_get (fst (InspectPhase sdk i d h)) i = Some n \<and> sdPing sdk n (fst (snd (InspectPhase sdk i d h))))) \<and>
   (\<forall>j. j \<noteq> i \<longrightarrow> gm_get (fst (CreateOrConnect quote sdk i s start d h)) j = gm_get d j \<and>
      gm_get (fst (ensureRunning quote sdk i d h)) j = gm_get d j \<and> gm_get (fst (driver_Stop sdk i d h)) j = gm_get d j \<and>
      gm_get (fst (driver_Remove sdk i d h)) j = gm_get d j \<and> gm_get (fst (InspectPhase sdk i d h)) j = gm_get d j)"
  by (intro conjI allI impI; rule CreateOrConnect_keeps other_operations_keep InspectPhase_answered ensureRunning_keeps(2); assumption)

text \<open>A node of the demo runtime, whose state counts the handles given out; nothing there fails.\<close>

definition demo_sdk :: "(nat, string) sdk" where
  "demo_sdk = \<lparr>sdConnect = (\<lambda>_ _ h. (h + 1, Inr h)), sdPing = (\<lambda>_ _. True), sdStart = (\<lambda>_ h. (h, Inr None)),
     sdRestart = (\<lambda>_ h. (h, Inr None)), sdStop = (\<lambda>_ h. (h, None)), sdClose = (\<lambda>_ h. h), sdRemove = (\<lambda>_ h. (h, None)),
     sdListVolumes = (\<lambda>_. Inr []), sdCreateVolume = (\<lambda>name _ h. (h, Inr name)), sdRemoveVolume = (\<lambda>_ h. (h, None))\<rparr>"

theorem driver_handles_witness:
  "gm_get (fst (CreateOrConnect id demo_sdk ''s1'' demo_run_spec False [(''s2'', 7)] 0)) ''s2'' = Some 7 \<and>
   gm_get (fst (driver_Remove demo_sdk ''s1'' [(''s1'', 3)] 0)) ''s1'' = None"
  using driver_handles [of id demo_sdk "''s1''" demo_run_spec False "[(''s2'', 7)]" 0]
    driver_handles [of id demo_sdk "''s1''" demo_run_spec False "[(''s1'', 3)]" 0] by simp

text \<open>
  Asking for the phase of a sandbox the driver has no handle of, or stopping it, connects with no
  options at all: where the runtime has no such sandbox this makes one, of no image.
\<close>

lemma inspect_creates:
  "gm_get d i = None \<Longrightarrow> sdConnect sdk i [] h = (h1, Inr n) \<Longrightarrow> fst (InspectPhase sdk i d h) = gm_put i n d"
  by (simp add: InspectPhase_def)

text \<open>The quota handed to the runtime is in MiB, at 32 bits: 4194304 GiB are a quota of 0.\<close>

lemma large_quota_vanishes:
  "sdCreateVolume sdk name (Some 0) h = (h1, Inr v) \<Longrightarrow> EnsureVolume quote sdk name (Some 4194304) h = (h1, None)"
proof -
  have q: "map_option (\<lambda>c. c * 1024) (Some (4194304 :: 32 word)) = Some 0" by simp
  show "sdCreateVolume sdk name (Some 0) h = (h1, Inr v) \<Longrightarrow> ?thesis"
    by (simp only: EnsureVolume_def q prod.case sum.case)
qed

end
