(* ===== verification/Volume_Control.thy ===== *)
theory Volume_Control
  imports Sandbox_Control
begin

text \<open>
  The volume service of a manager (\<open>internal/grpcapi/volumes.go\<close>): named volumes, the default
  volume that the first request creates, and their deletion. Pushing a volume to its node does
  nothing in the source (\<open>pushEnsureVolume\<close> and \<open>pushDeleteVolume\<close> return nil at once).
\<close>

record volume_create_request =
  vcName :: string
  vcCapacityGib :: "32 word option"
  vcLabelsJson :: string

text \<open>\<open>uint64(gib) * 1024 * 1024 * 1024\<close>, at the width of the code.\<close>

definition capacity_bytes :: "32 word \<Rightarrow> 64 word" where
  "capacity_bytes gib = ucast gib * 1024 * 1024 * 1024"

definition pushEnsureVolume :: "volume \<Rightarrow> go_error option" where "pushEnsureVolume v = None"
definition pushDeleteVolume :: "volume \<Rightarrow> go_error option" where "pushDeleteVolume v = None"

definition new_volume :: "json_codec \<Rightarrow> volume_create_request \<Rightarrow> string \<Rightarrow> string \<Rightarrow> gotime \<Rightarrow> volume" where
  "new_volume json req i nodeID now =
     \<lparr>volID = i, volName = vcName req, volKind = VolumeKindNamed, volStatus = VolumeStatusReady, volNodeID = nodeID,
      volUsedBytes = None, volCapacityBytes = map_option capacity_bytes (vcCapacityGib req),
      volCapacityGiB = vcCapacityGib req, volLabels = labels_in json (vcLabelsJson req),
      volCreatedAt = now, volUpdatedAt = now\<rparr>"

definition save_volume_or_fail :: "ca_loader \<Rightarrow> json_codec \<Rightarrow> control \<Rightarrow> volume \<Rightarrow> control \<times> volume_proto result" where
  "save_volume_or_fail load json c v =
     (let (s', e) = SaveVolume load (cnRaft c) (Some v) in
      (c\<lparr>cnRaft := s'\<rparr>, case e of Some err \<Rightarrow> Inl (mapStoreErr err) | None \<Rightarrow> Inr (VolumeToProto json v)))"

definition ctl_CreateVolume ::
  "ca_loader \<Rightarrow> json_codec \<Rightarrow> string result \<Rightarrow> gotime \<Rightarrow> rpc_context \<Rightarrow> control \<Rightarrow> volume_create_request \<Rightarrow>
     control \<times> volume_proto result" where
  "ctl_CreateVolume load json rand now ctx c req =
     (case client_write_guard ctx c of
        Some e \<Rightarrow> (c, Inl e)
      | None \<Rightarrow>
     (case ValidateVolumeCreate (vcName req) (vcCapacityGib req) of
        Some e \<Rightarrow> (c, Inl (StatusError InvalidArgument e))
      | None \<Rightarrow>
     (case GetVolumeByName (cnRaft c) (vcName req) of
        Inr _ \<Rightarrow> (c, Inl (StatusError AlreadyExists ErrNameExists))
      | Inl e \<Rightarrow>
          if \<not> error_is e ErrVolumeNotFound then (c, Inl (mapStoreErr e))
          else
     (case sandbox_NewID rand of
        Inl e \<Rightarrow> (c, Inl (StatusError Internal e))
      | Inr i \<Rightarrow>
     (case (ListNodes (cnRaft c), ListSandboxes (cnRaft c)) of
        (Inl e, _) \<Rightarrow> (c, Inl (mapStoreErr e))
      | (_, Inl e) \<Rightarrow> (c, Inl (mapStoreErr e))
      | (Inr nodes, Inr all) \<Rightarrow>
          (let nodeID = SelectNodeOpts nodes all now (Excluded (cnQuarantine c)) in
           if nodeID = [] then (c, Inl (status_error FailedPrecondition ''no schedulable node for volume''))
           else save_volume_or_fail load json c (new_volume json req i nodeID now)))))))"

definition ctl_ListVolumes :: "json_codec \<Rightarrow> rpc_context \<Rightarrow> control \<Rightarrow> volume_proto list result" where
  "ctl_ListVolumes json ctx c =
     (case requireClusterPeer ctx of
        Some e \<Rightarrow> Inl e
      | None \<Rightarrow>
          (case ListVolumes (cnRaft c) of
             Inl e \<Rightarrow> Inl (mapStoreErr e)
           | Inr vs \<Rightarrow> Inr (map (VolumeToProto json) vs)))"

definition ctl_GetVolume :: "json_codec \<Rightarrow> rpc_context \<Rightarrow> control \<Rightarrow> string \<Rightarrow> volume_proto result" where
  "ctl_GetVolume json ctx c i =
     (case requireClusterPeer ctx of
        Some e \<Rightarrow> Inl e
      | None \<Rightarrow>
          (case GetVolume (cnRaft c) i of Inl e \<Rightarrow> Inl (mapStoreErr e) | Inr v \<Rightarrow> Inr (VolumeToProto json v)))"

definition default_volume :: "string \<Rightarrow> string \<Rightarrow> gotime \<Rightarrow> volume" where
  "default_volume i nodeID now =
     \<lparr>volID = i, volName = ''default'', volKind = VolumeKindDefault, volStatus = VolumeStatusReady, volNodeID = nodeID,
      volUsedBytes = None, volCapacityBytes = None, volCapacityGiB = None, volLabels = [],
      volCreatedAt = now, volUpdatedAt = now\<rparr>"

definition ctl_GetDefaultVolume ::
  "ca_loader \<Rightarrow> json_codec \<Rightarrow> string result \<Rightarrow> gotime \<Rightarrow> rpc_context \<Rightarrow> control \<Rightarrow> control \<times> volume_proto result" where
  "ctl_GetDefaultVolume load json rand now ctx c =
     (case requireClusterPeer ctx of
        Some e \<Rightarrow> (c, Inl e)
      | None \<Rightarrow>
     (case GetDefaultVolume (cnRaft c) of
        Inr v \<Rightarrow> (c, Inr (VolumeToProto json v))
      | Inl e \<Rightarrow>
          if \<not> error_is e ErrVolumeNotFound then (c, Inl (mapStoreErr e))
          else
     (case handler_requireLeader (cnRaft c) of
        Some e \<Rightarrow> (c, Inl e)
      | None \<Rightarrow>
     (case sandbox_NewID rand of
        Inl e \<Rightarrow> (c, Inl (StatusError Internal e))
      | Inr i \<Rightarrow>
     (case (ListNodes (cnRaft c), ListSandboxes (cnRaft c)) of
        (Inl e, _) \<Rightarrow> (c, Inl (mapStoreErr e))
      | (_, Inl e) \<Rightarrow> (c, Inl (mapStoreErr e))
      | (Inr nodes, Inr all) \<Rightarrow>
          save_volume_or_fail load json c
            (default_volume i (SelectNodeOpts nodes all now (Excluded (cnQuarantine c))) now))))))"

definition ctl_DeleteVolume :: "ca_loader \<Rightarrow> rpc_context \<Rightarrow> control \<Rightarrow> string \<Rightarrow> control \<times> string result" where
  "ctl_DeleteVolume load ctx c i =
     (case client_write_guard ctx c of
        Some e \<Rightarrow> (c, Inl e)
      | None \<Rightarrow>
          (case GetVolume (cnRaft c) i of
             Inl e \<Rightarrow> (c, Inl (mapStoreErr e))
           | Inr _ \<Rightarrow>
               (let (s', e) = DeleteVolume load (cnRaft c) i in
                (c\<lparr>cnRaft := s'\<rparr>, case e of Some err \<Rightarrow> Inl (mapStoreErr err) | None \<Rightarrow> Inr ''volume deleted''))))"

section \<open>What a created volume is\<close>

lemma capacity_bytes_unat: "unat (capacity_bytes gib) = unat gib * 2 ^ 30"
proof -
  have "unat gib < 2 ^ 32"
    using unsigned_less [of gib, where ?'a = nat] by simp
  then show ?thesis
    by (simp add: capacity_bytes_def unat_word_ariths unsigned_ucast_eq take_bit_nat_eq_self)
qed

text \<open>
  The capacity of a volume in bytes is its capacity in GiB times \<open>2\<^sup>3\<^sup>0\<close>, for every 32-bit
  request: the 64-bit product never wraps around, and distinct requests stay distinct.
\<close>

theorem capacity_no_overflow:
  "unat (capacity_bytes gib) = unat gib * 2 ^ 30 \<and> (capacity_bytes gib = capacity_bytes gib' \<longleftrightarrow> gib = gib')"
proof -
  have "gib = gib'" if "capacity_bytes gib = capacity_bytes gib'"
    using capacity_bytes_unat [of gib] capacity_bytes_unat [of gib'] that by (simp add: word_unat_eq_iff)
  then show ?thesis
    using capacity_bytes_unat by blast
qed

end
