(* ===== verification/Sandbox_Api.thy ===== *)
theory Sandbox_Api
  imports Worker_Daemon Volume_Control
begin

text \<open>
  The public API on a manager (\<open>internal/grpcapi/sandbox_api.go\<close> and the API part of
  \<open>volumes.go\<close>): which calls are served from this process and which are sent to the leader.
\<close>

section \<open>The public API on a manager\<close>

text \<open>
  \<open>internal/grpcapi/sandbox_api.go\<close> and the volumes' part of \<open>volumes.go\<close>: the server holds the
  store, the control service (nil or not) and the daemon as its host. A write runs here on the
  leader, a sandbox read wherever the control service is, and everything else goes to the leader
  over this node's identity.
\<close>

definition api_dialLeader :: "daemon \<Rightarrow> (string \<Rightarrow> unit result) \<Rightarrow> string result" where
  "api_dialLeader d dial =
     (let addr0 = (case dnRaft d of None \<Rightarrow> [] | Some r \<Rightarrow> raft_addr r);
          addr = (if addr0 = [] then managerDialAddr d else addr0) in
      if addr = [] then Inl (status_error Unavailable ''no raft leader'')
      else
        (case IdentityPEMs d of
           Inl e \<Rightarrow> Inl (StatusError FailedPrecondition e)
         | Inr _ \<Rightarrow> (case dial addr of Inl e \<Rightarrow> Inl e | Inr _ \<Rightarrow> Inr addr)))"

definition api_remote :: "daemon \<Rightarrow> (string \<Rightarrow> unit result) \<Rightarrow> (string \<Rightarrow> 'r result) \<Rightarrow> 'r result" where
  "api_remote d dial remote = (case api_dialLeader d dial of Inl e \<Rightarrow> Inl e | Inr addr \<Rightarrow> remote addr)"

definition api_write ::
  "(control \<Rightarrow> control \<times> 'r result) \<Rightarrow> (string \<Rightarrow> unit result) \<Rightarrow> (string \<Rightarrow> 'r result) \<Rightarrow> daemon \<Rightarrow> daemon \<times> 'r result" where
  "api_write local dial remote d =
     (case (leader_raft d, dnQuarantine d) of
        (Some raft, Some q) \<Rightarrow>
          (case local \<lparr>cnRaft = raft, cnQuarantine = q\<rparr> of (c, r) \<Rightarrow> (put_control c d, r))
      | _ \<Rightarrow> (d, api_remote d dial remote))"

definition api_read :: "(control \<Rightarrow> 'r result) \<Rightarrow> (string \<Rightarrow> unit result) \<Rightarrow> (string \<Rightarrow> 'r result) \<Rightarrow> daemon \<Rightarrow> 'r result" where
  "api_read local dial remote d =
     (case (dnRaft d, dnQuarantine d) of
        (Some raft, Some q) \<Rightarrow> local \<lparr>cnRaft = raft, cnQuarantine = q\<rparr>
      | _ \<Rightarrow> api_remote d dial remote)"

text \<open>The sandbox calls.\<close>

definition api_Create ::
  "ca_loader \<Rightarrow> json_codec \<Rightarrow> string result \<Rightarrow> gotime \<Rightarrow> rpc_context \<Rightarrow> create_request \<Rightarrow> (string \<Rightarrow> unit result) \<Rightarrow> (string \<Rightarrow> sandbox_proto result) \<Rightarrow> daemon \<Rightarrow> daemon \<times> sandbox_proto result" where
  "api_Create load json rand now ctx req = api_write (\<lambda>c. ctl_Create load json rand now (WithInternalCall ctx) c req)"

definition api_Start ::
  "ca_loader \<Rightarrow> json_codec \<Rightarrow> gotime \<Rightarrow> rpc_context \<Rightarrow> string \<Rightarrow> (string \<Rightarrow> unit result) \<Rightarrow> (string \<Rightarrow> sandbox_proto result) \<Rightarrow> daemon \<Rightarrow> daemon \<times> sandbox_proto result" where
  "api_Start load json now ctx i = api_write (\<lambda>c. ctl_Start load json now (WithInternalCall ctx) c i)"

definition api_Stop ::
  "ca_loader \<Rightarrow> json_codec \<Rightarrow> gotime \<Rightarrow> rpc_context \<Rightarrow> string \<Rightarrow> (string \<Rightarrow> unit result) \<Rightarrow> (string \<Rightarrow> sandbox_proto result) \<Rightarrow> daemon \<Rightarrow> daemon \<times> sandbox_proto result" where
  "api_Stop load json now ctx i = api_write (\<lambda>c. ctl_Stop load json now (WithInternalCall ctx) c i)"

definition api_Remove ::
  "ca_loader \<Rightarrow> rpc_context \<Rightarrow> string \<Rightarrow> (string \<Rightarrow> unit result) \<Rightarrow> (string \<Rightarrow> unit result) \<Rightarrow> daemon \<Rightarrow> daemon \<times> unit result" where
  "api_Remove load ctx i = api_write (\<lambda>c. ctl_Remove load (WithInternalCall ctx) c i)"

definition api_Get ::
  "json_codec \<Rightarrow> rpc_context \<Rightarrow> string \<Rightarrow> (string \<Rightarrow> unit result) \<Rightarrow> (string \<Rightarrow> sandbox_proto result) \<Rightarrow> daemon \<Rightarrow> sandbox_proto result" where
  "api_Get json ctx i = api_read (\<lambda>c. ctl_Get json (WithInternalCall ctx) c i)"

definition api_GetByName ::
  "json_codec \<Rightarrow> rpc_context \<Rightarrow> string \<Rightarrow> (string \<Rightarrow> unit result) \<Rightarrow> (string \<Rightarrow> sandbox_proto result) \<Rightarrow> daemon \<Rightarrow> sandbox_proto result" where
  "api_GetByName json ctx n = api_read (\<lambda>c. ctl_GetByName json (WithInternalCall ctx) c n)"

definition api_List ::
  "json_codec \<Rightarrow> rpc_context \<Rightarrow> (string \<Rightarrow> unit result) \<Rightarrow> (string \<Rightarrow> sandbox_proto list result) \<Rightarrow> daemon \<Rightarrow> sandbox_proto list result" where
  "api_List json ctx = api_read (\<lambda>c. ctl_List json (WithInternalCall ctx) c)"

text \<open>The volume calls all run on the leader, the reads too.\<close>

definition api_CreateVolume ::
  "ca_loader \<Rightarrow> json_codec \<Rightarrow> string result \<Rightarrow> gotime \<Rightarrow> rpc_context \<Rightarrow> volume_create_request \<Rightarrow> (string \<Rightarrow> unit result) \<Rightarrow> (string \<Rightarrow> volume_proto result) \<Rightarrow> daemon \<Rightarrow> daemon \<times> volume_proto result" where
  "api_CreateVolume load json rand now ctx req = api_write (\<lambda>c. ctl_CreateVolume load json rand now (WithInternalCall ctx) c req)"

definition api_ListVolumes ::
  "json_codec \<Rightarrow> rpc_context \<Rightarrow> (string \<Rightarrow> unit result) \<Rightarrow> (string \<Rightarrow> volume_proto list result) \<Rightarrow> daemon \<Rightarrow> daemon \<times> volume_proto list result" where
  "api_ListVolumes json ctx = api_write (\<lambda>c. (c, ctl_ListVolumes json (WithInternalCall ctx) c))"

definition api_GetVolume ::
  "json_codec \<Rightarrow> rpc_context \<Rightarrow> string \<Rightarrow> (string \<Rightarrow> unit result) \<Rightarrow> (string \<Rightarrow> volume_proto result) \<Rightarrow> daemon \<Rightarrow> daemon \<times> volume_proto result" where
  "api_GetVolume json ctx i = api_write (\<lambda>c. (c, ctl_GetVolume json (WithInternalCall ctx) c i))"

definition api_GetDefaultVolume ::
  "ca_loader \<Rightarrow> json_codec \<Rightarrow> string result \<Rightarrow> gotime \<Rightarrow> rpc_context \<Rightarrow> (string \<Rightarrow> unit result) \<Rightarrow> (string \<Rightarrow> volume_proto result) \<Rightarrow> daemon \<Rightarrow> daemon \<times> volume_proto result" where
  "api_GetDefaultVolume load json rand now ctx = api_write (\<lambda>c. ctl_GetDefaultVolume load json rand now (WithInternalCall ctx) c)"

definition api_DeleteVolume ::
  "ca_loader \<Rightarrow> rpc_context \<Rightarrow> string \<Rightarrow> (string \<Rightarrow> unit result) \<Rightarrow> (string \<Rightarrow> string result) \<Rightarrow> daemon \<Rightarrow> daemon \<times> string result" where
  "api_DeleteVolume load ctx i = api_write (\<lambda>c. ctl_DeleteVolume load (WithInternalCall ctx) c i)"

text \<open>Where the logs of a sandbox are streamed from.\<close>

definition api_Logs_addr ::
  "json_codec \<Rightarrow> rpc_context \<Rightarrow> gotime \<Rightarrow> (string \<Rightarrow> unit result) \<Rightarrow> (string \<Rightarrow> sandbox_proto result) \<Rightarrow>
     (string \<Rightarrow> node_info option result) \<Rightarrow> string \<Rightarrow> daemon \<Rightarrow> string result" where
  "api_Logs_addr json ctx now dial remote inspect i d =
     (case api_Get json ctx i dial remote d of
        Inl e \<Rightarrow> Inl e
      | Inr sb \<Rightarrow>
          if pbNodeId sb = [] then Inl (status_error FailedPrecondition ''sandbox has no owning node'')
          else
            (case lookupNodeRuntimeAddr now inspect (pbNodeId sb) d of
               Inl e \<Rightarrow> Inl (StatusError Unavailable e)
             | Inr addr \<Rightarrow>
                 (case IdentityPEMs d of
                    Inl e \<Rightarrow> Inl (StatusError FailedPrecondition e)
                  | Inr _ \<Rightarrow> Inr addr)))"

section \<open>Forwarding\<close>

text \<open>A call inside the leader and a call with a cluster certificate pass the same guard.\<close>

lemma guard_internal:
  "cxPeerCert ctx \<noteq> None \<Longrightarrow> client_write_guard ctx c = client_write_guard (WithInternalCall ctx') c"
  by (auto simp: client_write_guard_def requireClusterPeer_def WithInternalCall_def peerCertificate_def)

lemma writes_internal:
  assumes "cxPeerCert ctx \<noteq> None"
  shows "ctl_Create load json rand now ctx c req = ctl_Create load json rand now (WithInternalCall ctx') c req"
    and "ctl_Start load json now ctx c i = ctl_Start load json now (WithInternalCall ctx') c i"
    and "ctl_Stop load json now ctx c i = ctl_Stop load json now (WithInternalCall ctx') c i"
    and "ctl_Remove load ctx c i = ctl_Remove load (WithInternalCall ctx') c i"
    and "ctl_CreateVolume load json rand now ctx c vreq = ctl_CreateVolume load json rand now (WithInternalCall ctx') c vreq"
    and "ctl_DeleteVolume load ctx c i = ctl_DeleteVolume load (WithInternalCall ctx') c i"
  using guard_internal [OF assms, of c ctx']
  by (simp_all add: ctl_Create_def ctl_Start_def ctl_Stop_def set_desired_def ctl_Remove_def ctl_CreateVolume_def ctl_DeleteVolume_def)

definition serves_leader :: "daemon \<Rightarrow> control \<Rightarrow> bool" where
  "serves_leader d c \<longleftrightarrow> leader_raft d = Some (cnRaft c) \<and> dnQuarantine d = Some (cnQuarantine c)"

lemma api_write_leader: "serves_leader d c \<Longrightarrow> api_write f dial remote d = (put_control (fst (f c)) d, snd (f c))"
  by (cases c; cases "f c") (simp add: serves_leader_def api_write_def)

lemma api_write_other:
  "leader_raft d = None \<Longrightarrow> api_dialLeader d dial = Inr addr \<Longrightarrow> api_write f dial remote d = (d, remote addr)"
  by (simp add: api_write_def api_remote_def)


definition demo_api_leader :: daemon where
  "demo_api_leader = demo_worker_daemon\<lparr>dnRaft := Some (cnRaft (demo_control True)), dnQuarantine := Some NewQuarantine\<rparr>"

definition demo_api_follower :: daemon where
  "demo_api_follower = demo_worker_daemon\<lparr>dnRaft := Some (cnRaft (demo_control False)), dnQuarantine := Some NewQuarantine\<rparr>"


end
