(* ===== verification/Gateway_Upstream.thy ===== *)
theory Gateway_Upstream
  imports Sandbox_Api Go_Text
begin

text \<open>
  The gateway's way into the cluster (\<open>internal/gateway/config.go\<close>, \<open>upstream.go\<close>): which managers
  it knows, in which order it tries them, how long it avoids one that failed, and the calls it
  makes. What a connection attempt answers, and how long it took, are arguments.
\<close>

section \<open>Configuration\<close>

record gw_config =
  gcListenAddr :: string
  gcDataDir :: string
  gcSocketPath :: string
  gcUpstreams :: "string list"
  gcMaxBodyBytes :: int
  gcReadyTimeout :: duration

definition gw_DefaultListenAddr :: string where "gw_DefaultListenAddr = '':8080''"
definition DefaultMaxBodyBytes :: int where "DefaultMaxBodyBytes = 1048576"
definition DefaultWaitTimeout :: duration where "DefaultWaitTimeout = 90 * second"

definition gw_Normalize :: "platform \<Rightarrow> gw_config \<Rightarrow> gw_config \<times> go_error option" where
  "gw_Normalize pl c =
     (let c1 = \<lparr>gcListenAddr = or_string (gcListenAddr c) gw_DefaultListenAddr,
                gcDataDir = or_string (gcDataDir c) (DefaultDataDirPath pl),
                gcSocketPath = or_string (gcSocketPath c) (DefaultSocketPath pl),
                gcUpstreams = filter (\<lambda>u. u \<noteq> []) (map trim_space (gcUpstreams c)),
                gcMaxBodyBytes = (if gcMaxBodyBytes c \<le> 0 then DefaultMaxBodyBytes else gcMaxBodyBytes c),
                gcReadyTimeout = (if gcReadyTimeout c \<le> 0 then 3 * second else gcReadyTimeout c)\<rparr> in
      (c1, if gcUpstreams c1 = [] \<and> gcDataDir c1 = [] then Some (errorf ''data-dir or upstreams is required'') else None))"

definition ParseUpstreams :: "string \<Rightarrow> string list" where
  "ParseUpstreams s = filter (\<lambda>p. p \<noteq> []) (map trim_space (split_on CHR '','' s))"

section \<open>Discovery\<close>

text \<open>A resolver loads the node's identity anew from the data directory for every call.\<close>

definition gw_Resolve :: "id_store \<times> go_error option \<Rightarrow> string \<Rightarrow> string list \<Rightarrow> (string list \<times> string) result" where
  "gw_Resolve loaded dataDir overrides =
     (case loaded of
        (_, Some e) \<Rightarrow> Inl (Wrapped [Lit ''load identity: ''] e)
      | (store, None) \<Rightarrow>
          (let none = Inl (Errorf [Lit ''no cluster CA in '', Str dataDir, Lit '' (is cellard initialized?)'']) in
           case isMat store of
             None \<Rightarrow> none
           | Some mat \<Rightarrow>
               if length (mtCACert mat) = 0 then none
               else if length overrides > 0 then Inr (overrides, mtCACert mat)
               else
                 (let state = isState store;
                      addrs = (if dsRole state = RoleManager
                               then MergeManagerAddrs (trim_space (or_string (dsAdvertiseAddr state) (dsListenAddr state)))
                                      [dsManagerAddrs state]
                               else MergeManagerAddrs (trim_space (dsManagerAddr state))
                                      [dsManagerAddrs state, [trim_space (dsAdvertiseAddr state)]]) in
                  if length addrs = 0
                  then Inl (Errorf [Lit ''no manager address in '', Str dataDir,
                                    Lit '' (set --upstreams or join/init cellard)''])
                  else Inr (addrs, mtCACert mat))))"

record gw_identity =
  giCert :: string
  giKey :: string
  giCA :: string
  giClusterID :: string

definition gw_Identity :: "id_store \<times> go_error option \<Rightarrow> string \<Rightarrow> gw_identity result" where
  "gw_Identity loaded dataDir =
     (case loaded of
        (_, Some e) \<Rightarrow> Inl (Wrapped [Lit ''load identity: ''] e)
      | (store, None) \<Rightarrow>
          (case isMat store of
             None \<Rightarrow> Inl (Errorf [Lit ''no identity in '', Str dataDir])
           | Some mat \<Rightarrow>
               Inr \<lparr>giCert = mtCertificate mat, giKey = mtPrivateKey mat, giCA = mtCACert mat,
                    giClusterID = or_string (mtClusterID mat) (dsClusterID (isState store))\<rparr>))"

text \<open>The address of a node's runtime, asked of the local daemon.\<close>

definition gw_RuntimeAddr :: "(string \<Rightarrow> go_error option) \<Rightarrow> (string \<Rightarrow> node_info option result) \<Rightarrow> platform \<Rightarrow> string \<Rightarrow> string \<Rightarrow> string result" where
  "gw_RuntimeAddr dial inspect pl sock nodeID =
     (if nodeID = [] then Inl (errorf ''node_id required'')
      else
        (case dial (or_string sock (DefaultSocketPath pl)) of
           Some e \<Rightarrow> Inl (Wrapped [Lit ''dial control socket: ''] e)
         | None \<Rightarrow>
             (case inspect nodeID of
                Inl e \<Rightarrow> Inl e
              | Inr None \<Rightarrow> Inl (Errorf [Lit ''node '', Str nodeID, Lit '' not found''])
              | Inr (Some n) \<Rightarrow>
                  (let addr = trim_space (niRuntimeGrpcAddr n) in
                   if addr = []
                   then Inl (Errorf [Lit ''runtime address for node '', Str nodeID, Lit '' unknown (waiting for heartbeat)''])
                   else Inr addr))))"

section \<open>The pool\<close>

record pool =
  plLastOK :: string
  plBadUntil :: "(string, gotime) gomap"
  plClusterID :: string

definition new_pool :: pool where
  "new_pool = \<lparr>plLastOK = [], plBadUntil = [], plClusterID = []\<rparr>"

definition withAPIKey :: "string \<Rightarrow> metadata" where
  "withAPIKey apiKey = [(''authorization'', [''Bearer '' @ apiKey]), (''x-api-key'', [apiKey])]"

definition normalizeGRPCAddr :: "string \<Rightarrow> string" where
  "normalizeGRPCAddr addr0 =
     (let addr = trim_space addr0 in
      if has_prefix ''dns:///'' addr \<or> contains ''://'' addr then addr else ''dns:///'' @ addr)"

definition retryable :: "go_error option \<Rightarrow> bool" where
  "retryable err =
     (case err of
        None \<Rightarrow> False
      | Some e \<Rightarrow>
          (case status_code e of
             None \<Rightarrow> True
           | Some c \<Rightarrow> c = Unavailable \<or> c = DeadlineExceeded \<or> c = ResourceExhausted))"

definition markBad :: "gotime \<Rightarrow> string \<Rightarrow> pool \<Rightarrow> pool" where
  "markBad now addr u =
     u\<lparr>plBadUntil := gm_put addr (now + 5 * second) (plBadUntil u),
       plLastOK := (if plLastOK u = addr then [] else plLastOK u)\<rparr>"

definition markOK :: "string \<Rightarrow> pool \<Rightarrow> pool" where
  "markOK addr u = u\<lparr>plLastOK := addr, plBadUntil := gm_del addr (plBadUntil u)\<rparr>"

definition pickOrder :: "gotime \<Rightarrow> string list \<Rightarrow> pool \<Rightarrow> string list" where
  "pickOrder now addrs u =
     (let ok = plLastOK u;
          first = (if ok \<noteq> [] \<and> ok \<in> set addrs \<and>
                      (case gm_get (plBadUntil u) ok of None \<Rightarrow> True | Some until \<Rightarrow> now > until)
                   then [ok] else []);
          order = first @ filter (\<lambda>a. a \<noteq> ok \<and>
                      \<not> (case gm_get (plBadUntil u) a of None \<Rightarrow> False | Some until \<Rightarrow> now < until)) addrs in
      if length order = 0 then addrs else order)"

text \<open>
  One attempt: dialling fails, or the call answers, and for all but the last address the attempt
  has its own deadline that may have passed by then.
\<close>

record 'r attempt =
  atDial :: "go_error option"
  atAnswer :: "'r result"
  atExpired :: bool
  atNow :: gotime

fun try_upstreams ::
  "(nat \<Rightarrow> string \<Rightarrow> 'r attempt) \<Rightarrow> nat \<Rightarrow> string list \<Rightarrow> go_error option \<Rightarrow> pool \<Rightarrow> string list \<times> pool \<times> 'r result" where
  "try_upstreams att i [] lastErr u =
     ([], u, Inl (case lastErr of None \<Rightarrow> errorf ''no upstream managers reachable'' | Some e \<Rightarrow> e))"
| "try_upstreams att i (addr # rest) lastErr u =
     (let a = att i (normalizeGRPCAddr addr) in
      case atDial a of
        Some e \<Rightarrow> try_upstreams att (i + 1) rest (Some e) (markBad (atNow a) addr u)
      | None \<Rightarrow>
          (case atAnswer a of
             Inr r \<Rightarrow> ([addr], markOK addr u, Inr r)
           | Inl e \<Rightarrow>
               if retryable (Some e) \<or> (length rest > 0 \<and> atExpired a) then
                 (case try_upstreams att (i + 1) rest (Some e) (markBad (atNow a) addr u) of
                    (called, u', r) \<Rightarrow> (addr # called, u', r))
               else ([addr], u, Inl e)))"

record gw_env =
  geResolve :: "(string list \<times> string) result"
  geIdentity :: "gw_identity result option"
  geTls :: tls_lib
  geNow :: gotime

definition withConn :: "gw_env \<Rightarrow> (tls_config \<Rightarrow> nat \<Rightarrow> string \<Rightarrow> 'r attempt) \<Rightarrow> pool \<Rightarrow> string list \<times> pool \<times> 'r result" where
  "withConn env att u =
     (case geResolve env of
        Inl e \<Rightarrow> ([], u, Inl e)
      | Inr (addrs, caPEM) \<Rightarrow>
          if length addrs = 0 then ([], u, Inl (errorf ''no upstream managers''))
          else
            (case ClientTLSFromPEMs (geTls env) [] [] caPEM TLSServerName of
               Inl e \<Rightarrow> ([], u, Inl e)
             | Inr cfg \<Rightarrow> try_upstreams (att cfg) 0 (pickOrder (geNow env) addrs u) None u))"

definition up_ClusterID :: "gw_env \<Rightarrow> pool \<Rightarrow> pool \<times> string" where
  "up_ClusterID env u =
     (if plClusterID u \<noteq> [] then (u, plClusterID u)
      else
        (case geIdentity env of
           None \<Rightarrow> (u, [])
         | Some (Inl _) \<Rightarrow> (u, [])
         | Some (Inr i) \<Rightarrow> (u\<lparr>plClusterID := giClusterID i\<rparr>, giClusterID i)))"

section \<open>Calls to the managers\<close>

text \<open>
  What a manager answers to one method: the attempt's TLS configuration, number, address, the
  metadata that carries the key, and the request.
\<close>

type_synonym ('q, 'r) rpc = "tls_config \<Rightarrow> nat \<Rightarrow> string \<Rightarrow> metadata \<Rightarrow> 'q \<Rightarrow> 'r attempt"

type_synonym 'r upcall = "string list \<times> pool \<times> 'r result"

definition api_call :: "gw_env \<Rightarrow> ('q, 'r) rpc \<Rightarrow> string \<Rightarrow> 'q \<Rightarrow> pool \<Rightarrow> 'r upcall" where
  "api_call env rpc apiKey req = withConn env (\<lambda>cfg i addr. rpc cfg i addr (withAPIKey apiKey) req)"

record manager_api =
  maCreate :: "(create_request, sandbox_proto option) rpc"
  maStart :: "(string, sandbox_proto option) rpc"
  maStop :: "(string, sandbox_proto option) rpc"
  maRemove :: "(string, unit) rpc"
  maGet :: "(string, sandbox_proto option) rpc"
  maGetByName :: "(string, sandbox_proto option) rpc"
  maList :: "(string \<times> 32 word \<times> string, sandbox_proto list \<times> string) rpc"
  maCreateVolume :: "(volume_create_request, volume_proto option) rpc"
  maListVolumes :: "(unit, volume_proto list) rpc"
  maGetVolume :: "(string, volume_proto option) rpc"
  maGetDefaultVolume :: "(unit, volume_proto option) rpc"
  maDeleteVolume :: "(string, string) rpc"

definition up_Create :: "gw_env \<Rightarrow> manager_api \<Rightarrow> string \<Rightarrow> string \<Rightarrow> bool \<Rightarrow> pool \<Rightarrow> sandbox_proto option upcall" where
  "up_Create env api apiKey specJSON start =
     api_call env (maCreate api) apiKey \<lparr>crSpecJson = specJSON, crSandboxId = [], crStart = start\<rparr>"

definition up_Start :: "gw_env \<Rightarrow> manager_api \<Rightarrow> string \<Rightarrow> string \<Rightarrow> pool \<Rightarrow> sandbox_proto option upcall" where
  "up_Start env api apiKey i = api_call env (maStart api) apiKey i"

definition up_Stop :: "gw_env \<Rightarrow> manager_api \<Rightarrow> string \<Rightarrow> string \<Rightarrow> pool \<Rightarrow> sandbox_proto option upcall" where
  "up_Stop env api apiKey i = api_call env (maStop api) apiKey i"

definition up_Remove :: "gw_env \<Rightarrow> manager_api \<Rightarrow> string \<Rightarrow> string \<Rightarrow> pool \<Rightarrow> unit upcall" where
  "up_Remove env api apiKey i = api_call env (maRemove api) apiKey i"

definition up_Get :: "gw_env \<Rightarrow> manager_api \<Rightarrow> string \<Rightarrow> string \<Rightarrow> pool \<Rightarrow> sandbox_proto option upcall" where
  "up_Get env api apiKey i = api_call env (maGet api) apiKey i"

definition up_GetByName :: "gw_env \<Rightarrow> manager_api \<Rightarrow> string \<Rightarrow> string \<Rightarrow> pool \<Rightarrow> sandbox_proto option upcall" where
  "up_GetByName env api apiKey name = api_call env (maGetByName api) apiKey name"

definition up_List :: "gw_env \<Rightarrow> manager_api \<Rightarrow> string \<Rightarrow> string \<Rightarrow> 32 word \<Rightarrow> string \<Rightarrow> pool \<Rightarrow> (sandbox_proto list \<times> string) upcall" where
  "up_List env api apiKey cursor limit labelsJSON = api_call env (maList api) apiKey (cursor, limit, labelsJSON)"

definition up_CreateVolume :: "gw_env \<Rightarrow> manager_api \<Rightarrow> string \<Rightarrow> volume_create_request \<Rightarrow> pool \<Rightarrow> volume_proto option upcall" where
  "up_CreateVolume env api apiKey req = api_call env (maCreateVolume api) apiKey req"

definition up_ListVolumes :: "gw_env \<Rightarrow> manager_api \<Rightarrow> string \<Rightarrow> pool \<Rightarrow> volume_proto list upcall" where
  "up_ListVolumes env api apiKey = api_call env (maListVolumes api) apiKey ()"

definition up_GetVolume :: "gw_env \<Rightarrow> manager_api \<Rightarrow> string \<Rightarrow> string \<Rightarrow> pool \<Rightarrow> volume_proto option upcall" where
  "up_GetVolume env api apiKey i = api_call env (maGetVolume api) apiKey i"

definition up_GetDefaultVolume :: "gw_env \<Rightarrow> manager_api \<Rightarrow> string \<Rightarrow> pool \<Rightarrow> volume_proto option upcall" where
  "up_GetDefaultVolume env api apiKey = api_call env (maGetDefaultVolume api) apiKey ()"

definition up_DeleteVolume :: "gw_env \<Rightarrow> manager_api \<Rightarrow> string \<Rightarrow> string \<Rightarrow> pool \<Rightarrow> string upcall" where
  "up_DeleteVolume env api apiKey i = api_call env (maDeleteVolume api) apiKey i"

text \<open>
  Opening the log stream goes through the same managers without deadlines; a stream that opened
  is the answer, whatever it yields later.
\<close>

fun try_logs :: "(nat \<Rightarrow> string \<Rightarrow> 'r attempt) \<Rightarrow> nat \<Rightarrow> string list \<Rightarrow> go_error option \<Rightarrow> pool \<Rightarrow> pool \<times> 'r result" where
  "try_logs att i [] lastErr u =
     (u, Inl (case lastErr of None \<Rightarrow> errorf ''no upstream managers reachable'' | Some e \<Rightarrow> e))"
| "try_logs att i (addr # rest) lastErr u =
     (let a = att i (normalizeGRPCAddr addr) in
      case atDial a of
        Some e \<Rightarrow> try_logs att (i + 1) rest (Some e) (markBad (atNow a) addr u)
      | None \<Rightarrow>
          (case atAnswer a of
             Inl e \<Rightarrow> if retryable (Some e) then try_logs att (i + 1) rest (Some e) (markBad (atNow a) addr u)
                      else (u, Inl e)
           | Inr r \<Rightarrow> (markOK addr u, Inr r)))"

record logs_request =
  lqSandboxId :: string
  lqFollow :: bool
  lqSources :: string
  lqLastEventId :: string

definition up_Logs :: "gw_env \<Rightarrow> (logs_request, 'r) rpc \<Rightarrow> string \<Rightarrow> logs_request \<Rightarrow> pool \<Rightarrow> pool \<times> 'r result" where
  "up_Logs env rpc apiKey req u =
     (case geResolve env of
        Inl e \<Rightarrow> (u, Inl e)
      | Inr (addrs, caPEM) \<Rightarrow>
          (case ClientTLSFromPEMs (geTls env) [] [] caPEM TLSServerName of
             Inl e \<Rightarrow> (u, Inl e)
           | Inr cfg \<Rightarrow> try_logs (\<lambda>i addr. rpc cfg i addr (withAPIKey apiKey) req) 0 (pickOrder (geNow env) addrs u) None u))"

text \<open>\<open>Ready\<close> asks every manager without a key: being refused for the key is being present.\<close>

fun ready_loop :: "(nat \<Rightarrow> string \<Rightarrow> 'r attempt) \<Rightarrow> nat \<Rightarrow> string list \<Rightarrow> go_error option \<Rightarrow> go_error option" where
  "ready_loop att i [] lastErr = Some (case lastErr of None \<Rightarrow> errorf ''no upstream managers'' | Some e \<Rightarrow> e)"
| "ready_loop att i (addr # rest) lastErr =
     (let a = att i (normalizeGRPCAddr addr) in
      case atDial a of
        Some e \<Rightarrow> ready_loop att (i + 1) rest (Some e)
      | None \<Rightarrow>
          (case atAnswer a of
             Inr _ \<Rightarrow> None
           | Inl e \<Rightarrow>
               (case status_code e of
                  None \<Rightarrow> ready_loop att (i + 1) rest (Some e)
                | Some c \<Rightarrow>
                    if c = Unauthenticated \<or> c = PermissionDenied then None
                    else if c = Unimplemented
                    then ready_loop att (i + 1) rest (Some (Errorf [Lit ''SandboxAPI not available on '', Str addr]))
                    else ready_loop att (i + 1) rest (Some e))))"

definition up_Ready :: "gw_env \<Rightarrow> manager_api \<Rightarrow> go_error option" where
  "up_Ready env api =
     (case geResolve env of
        Inl e \<Rightarrow> Some e
      | Inr (addrs, caPEM) \<Rightarrow>
          (case ClientTLSFromPEMs (geTls env) [] [] caPEM TLSServerName of
             Inl e \<Rightarrow> Some e
           | Inr cfg \<Rightarrow> ready_loop (\<lambda>i addr. maList api cfg i addr [] ([], 0, [])) 0 addrs None))"

section \<open>Calls to a node's runtime\<close>

record runtime_link =
  rtAddr :: "(string \<Rightarrow> string result) option"
  rtDial :: "string \<Rightarrow> go_error option"

type_synonym runtime_conn = "string \<times> tls_config"

definition identityPEMs :: "gw_env \<Rightarrow> (string \<times> string \<times> string) result" where
  "identityPEMs env =
     (case geIdentity env of
        None \<Rightarrow> Inl (errorf ''no identity provider'')
      | Some (Inl e) \<Rightarrow> Inl e
      | Some (Inr i) \<Rightarrow> Inr (giCert i, giKey i, giCA i))"

definition up_runtimeAddr :: "runtime_link \<Rightarrow> string \<Rightarrow> string result" where
  "up_runtimeAddr rt nodeID =
     (case rtAddr rt of None \<Rightarrow> Inl (errorf ''no runtime address resolver'') | Some f \<Rightarrow> f nodeID)"

definition DialRuntime :: "tls_lib \<Rightarrow> (string \<Rightarrow> go_error option) \<Rightarrow> string \<Rightarrow> string \<Rightarrow> string \<Rightarrow> string \<Rightarrow> runtime_conn result" where
  "DialRuntime tls dial addr cert key ca =
     (case ClientTLSFromPEMs tls cert key ca TLSRuntimeServerName of
        Inl e \<Rightarrow> Inl e
      | Inr cfg \<Rightarrow> (case dial (normalizeAddr addr) of Some e \<Rightarrow> Inl e | None \<Rightarrow> Inr (normalizeAddr addr, cfg)))"

definition dialRuntime :: "gw_env \<Rightarrow> runtime_link \<Rightarrow> string \<Rightarrow> runtime_conn result" where
  "dialRuntime env rt nodeID =
     (case up_runtimeAddr rt nodeID of
        Inl e \<Rightarrow> Inl e
      | Inr addr \<Rightarrow>
          (case identityPEMs env of
             Inl e \<Rightarrow> Inl e
           | Inr (cert, key, ca) \<Rightarrow> DialRuntime (geTls env) (rtDial rt) addr cert key ca))"

definition up_AgentRelay ::
  "gw_env \<Rightarrow> manager_api \<Rightarrow> runtime_link \<Rightarrow> (runtime_conn \<Rightarrow> string \<Rightarrow> 'r result) \<Rightarrow> string \<Rightarrow> string \<Rightarrow> pool \<Rightarrow> pool \<times> 'r result" where
  "up_AgentRelay env api rt relay apiKey sandboxID u =
     (case up_Get env api apiKey sandboxID u of
        (_, u1, Inl e) \<Rightarrow> (u1, Inl e)
      | (_, u1, Inr sb) \<Rightarrow>
          (u1, if (case sb of None \<Rightarrow> True | Some s \<Rightarrow> pbNodeId s = [])
               then Inl (status_error FailedPrecondition ''sandbox has no owning node'')
               else (case dialRuntime env rt (pbNodeId (the sb)) of Inl e \<Rightarrow> Inl e | Inr conn \<Rightarrow> relay conn sandboxID)))"

definition volumeNodeID :: "gw_env \<Rightarrow> manager_api \<Rightarrow> string \<Rightarrow> string \<Rightarrow> pool \<Rightarrow> pool \<times> string result" where
  "volumeNodeID env api apiKey volumeID u =
     (case up_GetVolume env api apiKey volumeID u of
        (_, u1, Inl e) \<Rightarrow> (u1, Inl e)
      | (_, u1, Inr vol) \<Rightarrow>
          (u1, case vol of
                 None \<Rightarrow> Inl (status_error FailedPrecondition ''volume has no owning node'')
               | Some v \<Rightarrow> if pvNodeId v = [] then Inl (status_error FailedPrecondition ''volume has no owning node'')
                           else Inr (pvNodeId v)))"

definition withRuntime ::
  "gw_env \<Rightarrow> manager_api \<Rightarrow> runtime_link \<Rightarrow> string \<Rightarrow> string \<Rightarrow> (runtime_conn \<Rightarrow> 'r result) \<Rightarrow> pool \<Rightarrow> pool \<times> 'r result" where
  "withRuntime env api rt apiKey volumeID fn u =
     (case volumeNodeID env api apiKey volumeID u of
        (u1, Inl e) \<Rightarrow> (u1, Inl e)
      | (u1, Inr nodeID) \<Rightarrow>
          (u1, case dialRuntime env rt nodeID of Inl e \<Rightarrow> Inl e | Inr conn \<Rightarrow> fn conn))"

type_synonym ('q, 'r) runtime_call = "runtime_conn \<Rightarrow> string \<Rightarrow> 'q \<Rightarrow> 'r result"

definition up_VolumeFsRead ::
  "gw_env \<Rightarrow> manager_api \<Rightarrow> runtime_link \<Rightarrow> (string, 'r) runtime_call \<Rightarrow> string \<Rightarrow> string \<Rightarrow> string \<Rightarrow> pool \<Rightarrow> pool \<times> 'r result" where
  "up_VolumeFsRead env api rt call apiKey volumeID path = withRuntime env api rt apiKey volumeID (\<lambda>conn. call conn volumeID path)"

definition up_VolumeFsStat ::
  "gw_env \<Rightarrow> manager_api \<Rightarrow> runtime_link \<Rightarrow> (string, 'r) runtime_call \<Rightarrow> string \<Rightarrow> string \<Rightarrow> string \<Rightarrow> pool \<Rightarrow> pool \<times> 'r result" where
  "up_VolumeFsStat env api rt call apiKey volumeID path = withRuntime env api rt apiKey volumeID (\<lambda>conn. call conn volumeID path)"

definition up_VolumeFsList ::
  "gw_env \<Rightarrow> manager_api \<Rightarrow> runtime_link \<Rightarrow> (string, 'r) runtime_call \<Rightarrow> string \<Rightarrow> string \<Rightarrow> string \<Rightarrow> pool \<Rightarrow> pool \<times> 'r result" where
  "up_VolumeFsList env api rt call apiKey volumeID path = withRuntime env api rt apiKey volumeID (\<lambda>conn. call conn volumeID path)"

definition up_VolumeFsExists ::
  "gw_env \<Rightarrow> manager_api \<Rightarrow> runtime_link \<Rightarrow> (string, bool) runtime_call \<Rightarrow> string \<Rightarrow> string \<Rightarrow> string \<Rightarrow> pool \<Rightarrow> pool \<times> bool result" where
  "up_VolumeFsExists env api rt call apiKey volumeID path = withRuntime env api rt apiKey volumeID (\<lambda>conn. call conn volumeID path)"

definition up_VolumeFsMkdir ::
  "gw_env \<Rightarrow> manager_api \<Rightarrow> runtime_link \<Rightarrow> (string, unit) runtime_call \<Rightarrow> string \<Rightarrow> string \<Rightarrow> string \<Rightarrow> pool \<Rightarrow> pool \<times> unit result" where
  "up_VolumeFsMkdir env api rt call apiKey volumeID path = withRuntime env api rt apiKey volumeID (\<lambda>conn. call conn volumeID path)"

definition up_VolumeFsRemove ::
  "gw_env \<Rightarrow> manager_api \<Rightarrow> runtime_link \<Rightarrow> (string \<times> bool, unit) runtime_call \<Rightarrow> string \<Rightarrow> string \<Rightarrow> string \<Rightarrow> bool \<Rightarrow> pool \<Rightarrow> pool \<times> unit result" where
  "up_VolumeFsRemove env api rt call apiKey volumeID path recursive =
     withRuntime env api rt apiKey volumeID (\<lambda>conn. call conn volumeID (path, recursive))"

definition up_VolumeFsCopy ::
  "gw_env \<Rightarrow> manager_api \<Rightarrow> runtime_link \<Rightarrow> (string \<times> string, unit) runtime_call \<Rightarrow> string \<Rightarrow> string \<Rightarrow> string \<Rightarrow> string \<Rightarrow> pool \<Rightarrow> pool \<times> unit result" where
  "up_VolumeFsCopy env api rt call apiKey volumeID src dst =
     withRuntime env api rt apiKey volumeID (\<lambda>conn. call conn volumeID (src, dst))"

definition up_VolumeFsRename ::
  "gw_env \<Rightarrow> manager_api \<Rightarrow> runtime_link \<Rightarrow> (string \<times> string, unit) runtime_call \<Rightarrow> string \<Rightarrow> string \<Rightarrow> string \<Rightarrow> string \<Rightarrow> pool \<Rightarrow> pool \<times> unit result" where
  "up_VolumeFsRename env api rt call apiKey volumeID src dst =
     withRuntime env api rt apiKey volumeID (\<lambda>conn. call conn volumeID (src, dst))"

text \<open>
  Writing streams the body: the list of reads ends with the one that reports the end or an
  error, \<open>send\<close> answers the \<open>i\<close>-th message and \<open>fin\<close> the closing. The messages that were sent are
  returned with the error.
\<close>

datatype write_msg = WriteStart string string | WriteData string

datatype read_end = ReadMore | ReadEOF | ReadFailed go_error

fun write_loop :: "(nat \<Rightarrow> go_error option) \<Rightarrow> go_error option \<Rightarrow> nat \<Rightarrow> (string \<times> read_end) list \<Rightarrow> write_msg list \<times> go_error option" where
  "write_loop send fin i [] = ([], fin)"
| "write_loop send fin i ((buf, en) # reads) =
     (let rest = (\<lambda>j. case en of
                    ReadEOF \<Rightarrow> ([], fin)
                  | ReadFailed e \<Rightarrow> ([], Some e)
                  | ReadMore \<Rightarrow> write_loop send fin j reads) in
      if length buf > 0 then
        (case send i of
           Some e \<Rightarrow> ([], Some e)
         | None \<Rightarrow> (case rest (i + 1) of (ms, e) \<Rightarrow> (WriteData buf # ms, e)))
      else rest i)"

record write_stream =
  wsOpen :: "runtime_conn \<Rightarrow> go_error option"
  wsSend :: "nat \<Rightarrow> go_error option"
  wsClose :: "go_error option"

definition up_VolumeFsWrite ::
  "gw_env \<Rightarrow> manager_api \<Rightarrow> runtime_link \<Rightarrow> write_stream \<Rightarrow> string \<Rightarrow> string \<Rightarrow> string \<Rightarrow> (string \<times> read_end) list \<Rightarrow> pool \<Rightarrow>
     write_msg list \<times> pool \<times> go_error option" where
  "up_VolumeFsWrite env api rt ws apiKey volumeID path body u =
     (case volumeNodeID env api apiKey volumeID u of
        (u1, Inl e) \<Rightarrow> ([], u1, Some e)
      | (u1, Inr nodeID) \<Rightarrow>
          (case dialRuntime env rt nodeID of
             Inl e \<Rightarrow> ([], u1, Some e)
           | Inr conn \<Rightarrow>
               (case wsOpen ws conn of
                  Some e \<Rightarrow> ([], u1, Some e)
                | None \<Rightarrow>
                    (case wsSend ws 0 of
                       Some e \<Rightarrow> ([], u1, Some e)
                     | None \<Rightarrow>
                         (case write_loop (wsSend ws) (wsClose ws) 1 body of
                            (ms, e) \<Rightarrow> (WriteStart volumeID path # ms, u1, e))))))"

section \<open>The order of the managers\<close>

definition bad_at :: "gotime \<Rightarrow> pool \<Rightarrow> string \<Rightarrow> bool" where
  "bad_at now u a = (case gm_get (plBadUntil u) a of None \<Rightarrow> False | Some until \<Rightarrow> now < until)"

text \<open>The invariant of the pool: the manager that answered last is not one that is being avoided.\<close>

definition pool_ok :: "pool \<Rightarrow> bool" where
  "pool_ok u \<longleftrightarrow> plLastOK u = [] \<or> gm_get (plBadUntil u) (plLastOK u) = None"

lemma new_pool_ok: "pool_ok new_pool"
  by (simp add: pool_ok_def new_pool_def)

lemma markBad_ok: "pool_ok u \<Longrightarrow> pool_ok (markBad now a u)"
  by (auto simp: pool_ok_def markBad_def)

lemma markOK_ok: "pool_ok (markOK a u)"
  by (simp add: pool_ok_def markOK_def)

lemma pickOrder_ok:
  assumes "pool_ok u"
  shows "pickOrder now addrs u =
     (let good = (if plLastOK u \<noteq> [] \<and> plLastOK u \<in> set addrs then [plLastOK u] else []) @
          filter (\<lambda>a. a \<noteq> plLastOK u \<and> \<not> bad_at now u a) addrs in
      if good = [] then addrs else good)"
proof -
  have "(case gm_get (plBadUntil u) (plLastOK u) of None \<Rightarrow> True | Some until \<Rightarrow> now > until)" if "plLastOK u \<noteq> []"
    using assms that by (simp add: pool_ok_def)
  then show ?thesis by (auto simp: pickOrder_def bad_at_def Let_def)
qed

text \<open>
  The gateway tries exactly the managers it has no reason to avoid, the one that
  answered last first, and never none: while one manager is good the avoided ones are left out,
  and when all are being avoided it tries them all in their order.
\<close>

theorem pickOrder_spec:
  assumes "pool_ok u" and "[] \<notin> set addrs"
  shows "set (pickOrder now addrs u) =
      (if \<forall>a \<in> set addrs. bad_at now u a then set addrs else {a \<in> set addrs. \<not> bad_at now u a}) \<and>
    (addrs \<noteq> [] \<longrightarrow> pickOrder now addrs u \<noteq> []) \<and>
    (plLastOK u \<in> set addrs \<longrightarrow> hd (pickOrder now addrs u) = plLastOK u) \<and>
    (distinct addrs \<longrightarrow> distinct (pickOrder now addrs u))"
proof -
  have ok: "\<not> bad_at now u (plLastOK u)" if "plLastOK u \<noteq> []"
    using assms(1) that by (simp add: pool_ok_def bad_at_def)
  have ne: "a \<noteq> []" if "a \<in> set addrs" for a using assms(2) that by blast
  show ?thesis
    using ok ne by (auto simp: pickOrder_ok [OF assms(1)] Let_def filter_empty_conv split: if_splits)
qed

lemma pool_two: "pool_ok (markBad 0 ''m1'' (markOK ''m2'' new_pool))"
  by (intro markBad_ok markOK_ok)

theorem pickOrder_spec_witness:
  "set (pickOrder second [''m1'', ''m2'', ''m3''] (markBad 0 ''m1'' (markOK ''m2'' new_pool))) = {''m2'', ''m3''} \<and>
   hd (pickOrder second [''m1'', ''m2'', ''m3''] (markBad 0 ''m1'' (markOK ''m2'' new_pool))) = ''m2''"
proof -
  have "bad_at second (markBad 0 ''m1'' (markOK ''m2'' new_pool)) a \<longleftrightarrow> a = ''m1''" for a
    by (auto simp: bad_at_def markBad_def markOK_def new_pool_def second_def)
  moreover have "plLastOK (markBad 0 ''m1'' (markOK ''m2'' new_pool)) = ''m2''"
    by (simp add: markBad_def markOK_def)
  ultimately show ?thesis
    using pickOrder_spec [OF pool_two, of "[''m1'', ''m2'', ''m3'']" second] by auto
qed

section \<open>Fail-over\<close>

text \<open>The attempts that let the loop go on, and what they leave in the pool.\<close>

definition goes_on :: "'r attempt \<Rightarrow> bool \<Rightarrow> bool" where
  "goes_on a others \<longleftrightarrow> atDial a \<noteq> None \<or> (case atAnswer a of Inl e \<Rightarrow> retryable (Some e) \<or> (others \<and> atExpired a) | Inr _ \<Rightarrow> False)"

definition attempt_result :: "'r attempt \<Rightarrow> 'r result" where
  "attempt_result a = (case atDial a of Some e \<Rightarrow> Inl e | None \<Rightarrow> atAnswer a)"

lemma try_upstreams_ok: "pool_ok u \<Longrightarrow> pool_ok (fst (snd (try_upstreams att i addrs lastErr u)))"
proof (induction addrs arbitrary: i lastErr u)
  case (Cons addr rest)
  have "pool_ok (fst (snd (try_upstreams att (i + 1) rest e (markBad t addr u))))" for e t
    using Cons markBad_ok by blast
  then show ?case
    using Cons.prems markOK_ok by (simp add: Let_def split: option.split sum.split prod.split) (metis fst_conv snd_conv)
qed simp

lemma try_upstreams_cluster: "plClusterID (fst (snd (try_upstreams att i addrs lastErr u))) = plClusterID u"
proof (induction addrs arbitrary: i lastErr u)
  case (Cons addr rest)
  have "plClusterID (fst (snd (try_upstreams att (i + 1) rest e (markBad t addr u)))) = plClusterID u" for e t
    using Cons by (simp add: markBad_def)
  then show ?case
    by (simp add: Let_def markOK_def split: option.split sum.split prod.split) (metis fst_conv snd_conv)
qed simp

lemma try_upstreams_frame:
  "a \<notin> set addrs \<Longrightarrow> gm_get (plBadUntil (fst (snd (try_upstreams att i addrs lastErr u)))) a = gm_get (plBadUntil u) a"
proof (induction addrs arbitrary: i lastErr u)
  case (Cons addr rest)
  have "gm_get (plBadUntil (fst (snd (try_upstreams att (i + 1) rest e (markBad t addr u))))) a = gm_get (plBadUntil u) a" for e t
    using Cons by (simp add: markBad_def)
  then show ?case
    using Cons.prems by (simp add: Let_def markOK_def split: option.split sum.split prod.split) (metis fst_conv snd_conv)
qed simp

text \<open>One step: an attempt that goes on leaves the manager avoided for five seconds; another decides.\<close>

lemma try_upstreams_step:
  fixes att i addr rest
  defines "a \<equiv> att i (normalizeGRPCAddr addr)"
  shows "goes_on a (rest \<noteq> []) \<Longrightarrow> snd (try_upstreams att i (addr # rest) lastErr u) =
      snd (try_upstreams att (i + 1) rest (Some (projl (attempt_result a))) (markBad (atNow a) addr u))"
    and "\<not> goes_on a (rest \<noteq> []) \<Longrightarrow> snd (try_upstreams att i (addr # rest) lastErr u) =
      ((if is_ok (attempt_result a) then markOK addr u else u), attempt_result a)"
  unfolding a_def goes_on_def attempt_result_def
  by (auto simp: Let_def split: option.splits sum.splits prod.splits)

lemma try_upstreams_success:
  "snd (snd (try_upstreams att i addrs lastErr u)) = Inr r \<longleftrightarrow>
    (\<exists>k < length addrs. attempt_result (att (i + k) (normalizeGRPCAddr (addrs ! k))) = Inr r \<and>
       (\<forall>j < k. goes_on (att (i + j) (normalizeGRPCAddr (addrs ! j))) True))"
    (is "?L i addrs lastErr u \<longleftrightarrow> ?R i addrs")
proof (induction addrs arbitrary: i lastErr u)
  case (Cons addr rest)
  let ?a = "att i (normalizeGRPCAddr addr)"
  show ?case
  proof (cases "goes_on ?a (rest \<noteq> [])")
    case True
    then have e: "snd (try_upstreams att i (addr # rest) lastErr u) =
        snd (try_upstreams att (i + 1) rest (Some (projl (attempt_result ?a))) (markBad (atNow ?a) addr u))"
      by (rule try_upstreams_step(1))
    have no: "attempt_result ?a \<noteq> Inr r" "rest \<noteq> [] \<Longrightarrow> goes_on ?a True"
      using True by (auto simp: goes_on_def attempt_result_def split: option.splits sum.splits)
    have "?L i (addr # rest) lastErr u \<longleftrightarrow> ?R (i + 1) rest" using Cons e by simp
    also have "\<dots> \<longleftrightarrow> ?R i (addr # rest)"
    proof
      assume "?R (i + 1) rest"
      then obtain k where "k < length rest" "attempt_result (att (i + 1 + k) (normalizeGRPCAddr (rest ! k))) = Inr r"
        "\<forall>j < k. goes_on (att (i + 1 + j) (normalizeGRPCAddr (rest ! j))) True" by blast
      moreover from this(1) have "goes_on ?a True" using no(2) by (cases rest) simp_all
      ultimately show "?R i (addr # rest)"
        by (intro exI [of _ "Suc k"]) (auto simp: less_Suc_eq_0_disj)
    next
      assume "?R i (addr # rest)"
      then obtain k where k: "k < length (addr # rest)"
        "attempt_result (att (i + k) (normalizeGRPCAddr ((addr # rest) ! k))) = Inr r"
        "\<forall>j < k. goes_on (att (i + j) (normalizeGRPCAddr ((addr # rest) ! j))) True" by blast
      then obtain k' where k': "k = Suc k'" using no(1) by (cases k) simp_all
      have "goes_on (att (i + 1 + j) (normalizeGRPCAddr (rest ! j))) True" if "j < k'" for j
        using k(3) [rule_format, of "Suc j"] that k' by simp
      with k(1,2) k' show "?R (i + 1) rest" by (intro exI [of _ k']) simp
    qed
    finally show ?thesis .
  next
    case False
    then have s: "snd (try_upstreams att i (addr # rest) lastErr u) =
      ((if is_ok (attempt_result ?a) then markOK addr u else u), attempt_result ?a)"
      by (rule try_upstreams_step(2))
    have "\<not> goes_on ?a True \<or> rest = []" using False by (cases rest) auto
    then have "?R i (addr # rest) \<longleftrightarrow> attempt_result ?a = Inr r"
      by (fastforce simp: less_Suc_eq_0_disj)
    with s show ?thesis by simp
  qed
qed simp

lemma try_upstreams_pool:
  assumes "distinct addrs" and "k < length addrs" and "attempt_result (att (i + k) (normalizeGRPCAddr (addrs ! k))) = Inr r"
    and "\<forall>j < k. goes_on (att (i + j) (normalizeGRPCAddr (addrs ! j))) True"
  shows "plLastOK (fst (snd (try_upstreams att i addrs lastErr u))) = addrs ! k \<and>
    (\<forall>j < k. gm_get (plBadUntil (fst (snd (try_upstreams att i addrs lastErr u)))) (addrs ! j) =
       Some (atNow (att (i + j) (normalizeGRPCAddr (addrs ! j))) + 5 * second))"
  using assms
proof (induction addrs arbitrary: i k lastErr u)
  case (Cons addr rest)
  let ?a = "att i (normalizeGRPCAddr addr)"
  show ?case
  proof (cases k)
    case 0
    then have "\<not> goes_on ?a (rest \<noteq> [])"
      using Cons.prems(3) by (auto simp: goes_on_def attempt_result_def split: option.splits sum.splits)
    then show ?thesis
      using try_upstreams_step(2) [of att i addr rest lastErr u] Cons.prems(3) 0 by (simp add: markOK_def)
  next
    case (Suc k')
    then have rest: "k' < length rest" "attempt_result (att (i + 1 + k') (normalizeGRPCAddr (rest ! k'))) = Inr r"
      "\<forall>j < k'. goes_on (att (i + 1 + j) (normalizeGRPCAddr (rest ! j))) True" "addr \<notin> set rest"
      using Cons.prems by auto
    have "goes_on ?a True" using Cons.prems(4) Suc by auto
    with rest(1) have "goes_on ?a (rest \<noteq> [])" by (cases rest) simp_all
    then have s: "snd (try_upstreams att i (addr # rest) lastErr u) =
        snd (try_upstreams att (i + 1) rest (Some (projl (attempt_result ?a))) (markBad (atNow ?a) addr u))"
      by (rule try_upstreams_step(1))
    have "gm_get (plBadUntil (fst (snd (try_upstreams att i (addr # rest) lastErr u)))) addr = Some (atNow ?a + 5 * second)"
      unfolding s try_upstreams_frame [OF rest(4)] by (simp add: markBad_def)
    then show ?thesis
      using Cons.IH [OF _ rest(1-3), of "Some (projl (attempt_result ?a))" "markBad (atNow ?a) addr u"] Cons.prems(1) Suc s
      by (auto simp: less_Suc_eq_0_disj)
  qed
qed simp

lemma pickOrder_sub:
  assumes "pool_ok u" and "distinct addrs"
  shows "distinct (pickOrder now addrs u)" and "set (pickOrder now addrs u) \<subseteq> set addrs"
  using assms by (auto simp: pickOrder_ok Let_def split: if_splits)

text \<open>The manager that answered is the next call's first, and those before it are avoided for a while.\<close>

lemma try_upstreams_sticky:
  assumes "pool_ok u" and "distinct addrs" and "[] \<notin> set addrs" and "k < length (pickOrder t addrs u)"
    and "attempt_result (att k (normalizeGRPCAddr (pickOrder t addrs u ! k))) = Inr r"
    and "\<forall>j < k. goes_on (att j (normalizeGRPCAddr (pickOrder t addrs u ! j))) True"
    and "u' = fst (snd (try_upstreams att 0 (pickOrder t addrs u) None u))"
  shows "hd (pickOrder now addrs u') = pickOrder t addrs u ! k \<and>
    (\<forall>j < k. gm_get (plBadUntil u') (pickOrder t addrs u ! j) = Some (atNow (att j (normalizeGRPCAddr (pickOrder t addrs u ! j))) + 5 * second))"
proof -
  note order = pickOrder_sub [OF assms(1,2), of t]
  have "plLastOK u' = pickOrder t addrs u ! k \<and>
      (\<forall>j < k. gm_get (plBadUntil u') (pickOrder t addrs u ! j) = Some (atNow (att j (normalizeGRPCAddr (pickOrder t addrs u ! j))) + 5 * second))"
    using try_upstreams_pool [OF order(1) assms(4), of att 0 r None u] assms(5,6) unfolding assms(7) by simp
  moreover have mem: "pickOrder t addrs u ! k \<in> set addrs" by (rule subsetD [OF order(2) nth_mem [OF assms(4)]])
  moreover from mem assms(3) have "pickOrder t addrs u ! k \<noteq> []" by metis
  moreover have "pool_ok u'" unfolding assms(7) by (rule try_upstreams_ok [OF assms(1)])
  ultimately show ?thesis by (simp add: pickOrder_ok Let_def)
qed

text \<open>
  Claim C28: fail-over finds the first manager that answers and remembers it. A call succeeds
  exactly when some manager of the order answers it and every one before it failed in a way that
  another may not: it could not be dialled, or was unavailable, or ran out of its time. Then that
  manager is asked first by the next call, whenever it comes, and those before it are avoided for
  five seconds from their failure.
\<close>

theorem upstream_failover:
  fixes att :: "tls_config \<Rightarrow> nat \<Rightarrow> string \<Rightarrow> 'r attempt"
  assumes "pool_ok u" and "geResolve env = Inr (addrs, ca)" and "distinct addrs" and "[] \<notin> set addrs"
    and "ClientTLSFromPEMs (geTls env) [] [] ca TLSServerName = Inr cfg" and "withConn env att u = (called, u', res)"
  shows "pool_ok u' \<and> (let order = pickOrder (geNow env) addrs u; A = (\<lambda>k. att cfg k (normalizeGRPCAddr (order ! k))) in
    (\<forall>r. res = Inr r \<longleftrightarrow> (\<exists>k < length order. attempt_result (A k) = Inr r \<and> (\<forall>j < k. goes_on (A j) True))) \<and>
    (\<forall>k r. k < length order \<and> attempt_result (A k) = Inr r \<and> (\<forall>j < k. goes_on (A j) True) \<longrightarrow>
       (\<forall>now. hd (pickOrder now addrs u') = order ! k) \<and>
       (\<forall>j < k. gm_get (plBadUntil u') (order ! j) = Some (atNow (A j) + 5 * second))))"
proof (cases "addrs = []")
  case True
  then have "withConn env att u = ([], u, Inl (errorf ''no upstream managers''))" "pickOrder (geNow env) addrs u = []"
    using assms(2) by (simp_all add: withConn_def pickOrder_def)
  with assms(1,6) show ?thesis by auto
next
  case False
  let ?order = "pickOrder (geNow env) addrs u"
  have run: "withConn env att u = try_upstreams (att cfg) 0 ?order None u"
    using assms(2,5) False by (simp add: withConn_def)
  have u': "u' = fst (snd (try_upstreams (att cfg) 0 ?order None u))" and res: "res = snd (snd (try_upstreams (att cfg) 0 ?order None u))"
    using assms(6) run by simp_all
  note sticky = try_upstreams_sticky [OF assms(1,3,4) _ _ _ u']
  show ?thesis
  proof (unfold Let_def, intro conjI allI impI)
    show "pool_ok u'" unfolding u' by (rule try_upstreams_ok [OF assms(1)])
  next
    fix r
    show "res = Inr r \<longleftrightarrow> (\<exists>k < length ?order. attempt_result (att cfg k (normalizeGRPCAddr (?order ! k))) = Inr r \<and>
        (\<forall>j < k. goes_on (att cfg j (normalizeGRPCAddr (?order ! j))) True))"
      unfolding res try_upstreams_success by simp
  next
    fix k r now
    assume "k < length ?order \<and> attempt_result (att cfg k (normalizeGRPCAddr (?order ! k))) = Inr r \<and>
        (\<forall>j < k. goes_on (att cfg j (normalizeGRPCAddr (?order ! j))) True)"
    then show "hd (pickOrder now addrs u') = ?order ! k" using sticky by blast
  next
    fix k r j
    assume "k < length ?order \<and> attempt_result (att cfg k (normalizeGRPCAddr (?order ! k))) = Inr r \<and>
        (\<forall>j < k. goes_on (att cfg j (normalizeGRPCAddr (?order ! j))) True)" and "j < k"
    then show "gm_get (plBadUntil u') (?order ! j) = Some (atNow (att cfg j (normalizeGRPCAddr (?order ! j))) + 5 * second)"
      using sticky by blast
  qed
qed

definition demo_attempt :: "string \<Rightarrow> nat attempt" where
  "demo_attempt addr = \<lparr>atDial = None,
     atAnswer = (if addr = ''dns:///m2'' then Inr 7 else Inl (status_error Unavailable ''down'')), atExpired = False, atNow = 3\<rparr>"

definition demo_gw_env :: gw_env where
  "demo_gw_env = \<lparr>geResolve = Inr ([''m1'', ''m2''], ''ca''), geIdentity = None,
     geTls = \<lparr>tlX509KeyPair = (\<lambda>_ _. None), tlAppendCerts = (\<lambda>_. True)\<rparr>, geNow = 0\<rparr>"

lemma demo_normalize: "normalizeGRPCAddr ''m1'' = ''dns:///m1''" "normalizeGRPCAddr ''m2'' = ''dns:///m2''"
proof -
  have "trim_space ''m1'' = ''m1''" "trim_space ''m2'' = ''m2''"
    by (rule trim_space_plain; simp add: plain_char_def)+
  then show "normalizeGRPCAddr ''m1'' = ''dns:///m1''" "normalizeGRPCAddr ''m2'' = ''dns:///m2''"
    by (simp_all add: normalizeGRPCAddr_def has_prefix_def)
qed

theorem upstream_failover_witness:
  "\<exists>called u'. withConn demo_gw_env (\<lambda>_ _ a. demo_attempt a) new_pool = (called, u', Inr 7) \<and>
     hd (pickOrder 9 [''m1'', ''m2''] u') = ''m2'' \<and> gm_get (plBadUntil u') ''m1'' = Some (3 + 5 * second)"
proof -
  have env: "geResolve demo_gw_env = Inr ([''m1'', ''m2''], ''ca'')" "distinct [''m1'', ''m2'']" "[] \<notin> set [''m1'', ''m2'']"
    "ClientTLSFromPEMs (geTls demo_gw_env) [] [] ''ca'' TLSServerName = Inr (zero_tls\<lparr>tcRoots := Some ''ca'', tcServerName := TLSServerName\<rparr>)"
    by (simp_all add: demo_gw_env_def ClientTLSFromPEMs_def)
  obtain called u' res where run: "withConn demo_gw_env (\<lambda>_ _ a. demo_attempt a) new_pool = (called, u', res)"
    by (metis prod_cases3)
  have order: "pickOrder (geNow demo_gw_env) [''m1'', ''m2''] new_pool = [''m1'', ''m2'']"
    by (simp add: pickOrder_def new_pool_def)
  note facts = upstream_failover [OF new_pool_ok env run, unfolded Let_def order]
  have k: "1 < length [''m1'', ''m2''] \<and> attempt_result (demo_attempt (normalizeGRPCAddr ([''m1'', ''m2''] ! 1))) = Inr 7 \<and>
      (\<forall>j < 1. goes_on (demo_attempt (normalizeGRPCAddr ([''m1'', ''m2''] ! j))) True)"
    by (simp add: demo_normalize demo_attempt_def attempt_result_def goes_on_def retryable_def)
  have "res = Inr 7" using facts k by blast
  moreover have "hd (pickOrder 9 [''m1'', ''m2''] u') = [''m1'', ''m2''] ! 1" using facts k by blast
  moreover have "gm_get (plBadUntil u') ([''m1'', ''m2''] ! 0) = Some (atNow (demo_attempt (normalizeGRPCAddr ([''m1'', ''m2''] ! 0))) + 5 * second)"
    using facts k by (metis zero_less_one)
  ultimately show ?thesis
    using run by (simp add: demo_attempt_def)
qed

section \<open>What a call needs\<close>

lemma withConn_Inr:
  assumes "withConn env att u = (called, u', Inr r)"
  shows "\<exists>cfg i addr. attempt_result (att cfg i addr) = Inr r"
proof -
  obtain addrs cfg where "try_upstreams (att cfg) 0 (pickOrder (geNow env) addrs u) None u = (called, u', Inr r)"
    using assms by (auto simp: withConn_def split: sum.splits if_splits)
  then have "snd (snd (try_upstreams (att cfg) 0 (pickOrder (geNow env) addrs u) None u)) = Inr r" by simp
  then show ?thesis unfolding try_upstreams_success by blast
qed

lemma attempt_result_Inr: "attempt_result a = Inr r \<Longrightarrow> atAnswer a = Inr r"
  by (simp add: attempt_result_def split: option.splits)

lemma extract_gateway_key: "key \<noteq> [] \<Longrightarrow> extractAPIKey (Some (withAPIKey key)) = Inr key"
  by (simp add: extractAPIKey_def withAPIKey_def md_get_def)

lemma withRuntime_Inr:
  assumes "withRuntime env api rt apiKey volumeID fn u = (u', Inr r)"
  shows "\<exists>called v conn. up_GetVolume env api apiKey volumeID u = (called, u', Inr (Some v)) \<and> pvNodeId v \<noteq> [] \<and>
    dialRuntime env rt (pvNodeId v) = Inr conn \<and> fn conn = Inr r"
  using assms by (auto simp: withRuntime_def volumeNodeID_def split: prod.splits sum.splits option.splits if_splits)

text \<open>A manager whose public API is behind its key interceptor.\<close>

definition guarded ::
  "(string \<Rightarrow> string) \<Rightarrow> (string \<Rightarrow> raft_node) \<Rightarrow> string \<Rightarrow> ('q \<Rightarrow> raft_node \<Rightarrow> raft_node \<times> 'r result) \<Rightarrow> ('q, 'r) rpc \<Rightarrow> bool" where
  "guarded hash stores meth handler rpc \<longleftrightarrow>
     (\<forall>cfg i addr md q. atAnswer (rpc cfg i addr md q) =
        snd (APIKeyInterceptor hash None (''/cellar.v1.SandboxAPI/'' @ meth) (Some md) (handler q) (stores addr)))"

lemma guarded_answer:
  assumes "snd (APIKeyInterceptor hash None (''/cellar.v1.SandboxAPI/'' @ meth) (Some (withAPIKey key)) handler s) = Inr r"
    and "key \<noteq> []"
  shows "\<exists>raw k. ParseRaw key = Inr raw \<and> GetAPIKeyByHash s (hash raw) = Inr k \<and> \<not> kDisabled k"
proof -
  have "isSandboxAPIMethod (''/cellar.v1.SandboxAPI/'' @ meth)"
    by (simp add: isSandboxAPIMethod_def has_prefix_def)
  with assms(1) obtain k where "authenticateAPIKey hash s (Some (withAPIKey key)) = Inr k"
    by (auto simp: APIKeyInterceptor_def split: sum.splits)
  then show ?thesis
    using extract_gateway_key [OF assms(2)]
    by (auto simp: authenticateAPIKey_def split: sum.splits if_splits)
qed

lemma guarded_call:
  assumes "guarded hash stores meth handler rpc" and "key \<noteq> []" and "api_call env rpc key req u = (called, u', Inr r)"
  shows "\<exists>addr raw k. ParseRaw key = Inr raw \<and> GetAPIKeyByHash (stores addr) (hash raw) = Inr k \<and> \<not> kDisabled k"
proof -
  have "\<exists>cfg i addr. attempt_result (rpc cfg i addr (withAPIKey key) req) = Inr r"
    by (rule withConn_Inr [OF assms(3) [unfolded api_call_def]])
  then obtain cfg i addr where "attempt_result (rpc cfg i addr (withAPIKey key) req) = Inr r"
    by (elim exE)
  then have "snd (APIKeyInterceptor hash None (''/cellar.v1.SandboxAPI/'' @ meth) (Some (withAPIKey key)) (handler req) (stores addr)) = Inr r"
    using assms(1) [unfolded guarded_def, rule_format, of cfg i addr "withAPIKey key" req]
    by (simp add: attempt_result_Inr)
  from guarded_answer [OF this assms(2)] show ?thesis by blast
qed


text \<open>A gateway whose first manager holds the demo key and knows one volume.\<close>

definition demo_volume_proto :: volume_proto where
  "demo_volume_proto = \<lparr>pvId = ''v1'', pvName = ''data'', pvKind = ''directory'', pvStatus = ''ready'', pvNodeId = ''n1'',
     pvUsedBytes = None, pvCapacityBytes = None, pvCapacityGib = None, pvLabelsJson = [], pvCreatedAt = 0, pvUpdatedAt = 0\<rparr>"

definition demo_rpc :: "string \<Rightarrow> ('q \<Rightarrow> raft_node \<Rightarrow> raft_node \<times> 'r result) \<Rightarrow> ('q, 'r) rpc" where
  "demo_rpc meth handler cfg i addr md q =
     \<lparr>atDial = None, atAnswer = snd (APIKeyInterceptor rev None (''/cellar.v1.SandboxAPI/'' @ meth) (Some md) (handler q) demo_key_raft),
      atExpired = False, atNow = 0\<rparr>"

definition demo_no :: "'q \<Rightarrow> raft_node \<Rightarrow> raft_node \<times> 'r result" where
  "demo_no q s = (s, Inl (status_error Unimplemented ''demo''))"

definition demo_manager_api :: manager_api where
  "demo_manager_api =
     \<lparr>maCreate = demo_rpc ''Create'' demo_no, maStart = demo_rpc ''Start'' demo_no, maStop = demo_rpc ''Stop'' demo_no,
       maRemove = demo_rpc ''Remove'' demo_no, maGet = demo_rpc ''Get'' demo_no, maGetByName = demo_rpc ''GetByName'' demo_no,
       maList = demo_rpc ''List'' demo_no, maCreateVolume = demo_rpc ''CreateVolume'' demo_no, maListVolumes = demo_rpc ''ListVolumes'' demo_no,
       maGetVolume = demo_rpc ''GetVolume'' (\<lambda>_ s. (s, Inr (Some demo_volume_proto))),
       maGetDefaultVolume = demo_rpc ''GetDefaultVolume'' demo_no, maDeleteVolume = demo_rpc ''DeleteVolume'' demo_no\<rparr>"

definition demo_runtime_link :: runtime_link where
  "demo_runtime_link = \<lparr>rtAddr = Some (\<lambda>_. Inr ''10.0.0.7:17948''), rtDial = (\<lambda>_. None)\<rparr>"

definition demo_up_env :: gw_env where
  "demo_up_env = demo_gw_env\<lparr>geIdentity := Some (Inr \<lparr>giCert = ''crt'', giKey = ''key'', giCA = ''ca'', giClusterID = ''c1''\<rparr>)\<rparr>"

lemma demo_rpc_guarded: "guarded rev (\<lambda>_. demo_key_raft) meth handler (demo_rpc meth handler)"
  by (simp add: guarded_def demo_rpc_def)

lemma demo_key_parts:
  "gRaw demo_generated = key_Prefix @ hex_encode demo_bytes" "\<not> kDisabled (gKey demo_generated)"
proof -
  obtain b1 b2 where b: "b1 = demo_bytes" and g:
    "demo_generated = \<lparr>gKey = \<lparr>kID = hex_encode b2, kName = ''ci'', kKeyHash = rev (key_Prefix @ hex_encode b1),
       kMask = Mask (key_Prefix @ hex_encode b1), kCreatedAt = 7, kLastUsed = zero_time, kDisabled = False\<rparr>,
       gRaw = key_Prefix @ hex_encode b1\<rparr>"
    using demo_generated [unfolded Generate_Inr] by blast
  show "gRaw demo_generated = key_Prefix @ hex_encode demo_bytes" "\<not> kDisabled (gKey demo_generated)"
    unfolding g b by (simp_all only: generated.simps api_key.simps simp_thms)
qed

lemma demo_key_nonempty: "gRaw demo_generated \<noteq> []"
  by (simp add: demo_key_parts key_Prefix_def)

lemma demo_key_parses: "ParseRaw (gRaw demo_generated) = Inr (gRaw demo_generated)"
  unfolding demo_key_parts by (rule ParseRaw_key) (simp add: demo_bytes_def keyBytes_def)

lemma demo_key_accepted: "authenticateAPIKey rev demo_key_raft (Some (withAPIKey (gRaw demo_generated))) = Inr (gKey demo_generated)"
proof -
  have "GetAPIKeyByHash demo_key_raft (rev (gRaw demo_generated)) = Inr (gKey demo_generated)"
    unfolding demo_key_parts demo_generated_parts(2) [symmetric]
    by (simp add: GetAPIKeyByHash_def getAPIKeyByHash_def demo_key_raft_def demo_raft_def demo_generated_nonempty EqualHash_iff)
  then show ?thesis
    by (simp add: authenticateAPIKey_def extract_gateway_key [OF demo_key_nonempty] demo_key_parses demo_key_parts(2))
qed

lemma demo_up_volume:
  "\<exists>called u'. up_GetVolume demo_up_env demo_manager_api (gRaw demo_generated) i new_pool = (called, u', Inr (Some demo_volume_proto))"
  by (simp add: up_GetVolume_def api_call_def withConn_def demo_up_env_def demo_gw_env_def ClientTLSFromPEMs_def
      pickOrder_def new_pool_def demo_manager_api_def demo_rpc_def APIKeyInterceptor_def demo_key_accepted
      isSandboxAPIMethod_def has_prefix_def)

lemma demo_dial: "\<exists>conn. dialRuntime demo_up_env demo_runtime_link ''n1'' = Inr conn"
  by (simp add: dialRuntime_def up_runtimeAddr_def demo_runtime_link_def identityPEMs_def demo_up_env_def demo_gw_env_def
      DialRuntime_def ClientTLSFromPEMs_def)


section \<open>Writing a file\<close>

fun payload :: "write_msg \<Rightarrow> string" where
  "payload (WriteStart v p) = []"
| "payload (WriteData b) = b"

definition body_ends :: "(string \<times> read_end) list \<Rightarrow> bool" where
  "body_ends body \<longleftrightarrow> (\<forall>b \<in> set (butlast body). snd b = ReadMore) \<and> (body \<noteq> [] \<longrightarrow> snd (last body) = ReadEOF)"

lemma body_ends_Cons:
  "body_ends ((buf, en) # reads) \<longleftrightarrow> (if reads = [] then en = ReadEOF else en = ReadMore \<and> body_ends reads)"
  by (auto simp: body_ends_def)

lemma write_loop_sent:
  "body_ends body \<Longrightarrow> write_loop send fin i body = (ms, None) \<Longrightarrow>
     concat (map payload ms) = concat (map fst body) \<and> (\<forall>m \<in> set ms. \<exists>b. m = WriteData b \<and> b \<noteq> []) \<and> fin = None"
proof (induction body arbitrary: i ms)
  case (Cons b reads)
  obtain buf en where b: "b = (buf, en)" by (cases b)
  have tail: "concat (map payload ms') = concat (map fst reads) \<and> (\<forall>m \<in> set ms'. \<exists>b. m = WriteData b \<and> b \<noteq> []) \<and> fin = None"
    if "(case en of ReadEOF \<Rightarrow> ([], fin) | ReadFailed e \<Rightarrow> ([], Some e) | ReadMore \<Rightarrow> write_loop send fin j reads) = (ms', None)" for j ms'
    using Cons that b by (cases "reads = []") (auto simp: body_ends_Cons)
  show ?case
  proof (cases "buf = []")
    case True
    then show ?thesis using Cons.prems(2) b tail [of i ms] by (simp add: Let_def)
  next
    case False
    then obtain ms' where "send i = None" "ms = WriteData buf # ms'"
      "(case en of ReadEOF \<Rightarrow> ([], fin) | ReadFailed e \<Rightarrow> ([], Some e) | ReadMore \<Rightarrow> write_loop send fin (i + 1) reads) = (ms', None)"
      using Cons.prems(2) b by (auto simp: Let_def split: option.splits prod.splits)
    with tail False b show ?thesis by simp
  qed
qed simp

lemma written_messages:
  assumes "up_VolumeFsWrite env api rt ws key volumeID path body u = (ms, u', None)"
    and "body_ends body"
  shows "\<exists>data. ms = WriteStart volumeID path # data \<and> concat (map payload data) = concat (map fst body) \<and>
    (\<forall>m \<in> set data. \<exists>b. m = WriteData b \<and> b \<noteq> []) \<and> wsClose ws = None"
proof -
  obtain data where "write_loop (wsSend ws) (wsClose ws) 1 body = (data, None)" "ms = WriteStart volumeID path # data"
    using assms(1) by (auto simp: up_VolumeFsWrite_def split: prod.splits sum.splits option.splits)
  with write_loop_sent [OF assms(2)] show ?thesis by blast
qed

text \<open>
  A file that was written is the body that was sent. When writing reports no error, the
  node received one start message with the volume and the path, and then the bytes of the request's
  body, complete and in order, in non-empty messages, and acknowledged the end.
\<close>

theorem written_file_is_body:
  assumes "up_VolumeFsWrite env api rt ws key volumeID path body u = (ms, u', None)"
    and "body_ends body"
  shows "\<exists>data. ms = WriteStart volumeID path # data \<and> concat (map payload data) = concat (map fst body) \<and>
    (\<forall>m \<in> set data. \<exists>b. m = WriteData b \<and> b \<noteq> []) \<and> wsClose ws = None"
  using written_messages [OF assms] .


definition demo_write_stream :: write_stream where
  "demo_write_stream = \<lparr>wsOpen = (\<lambda>_. None), wsSend = (\<lambda>_. None), wsClose = None\<rparr>"

theorem written_file_is_body_witness:
  "\<exists>data u'. up_VolumeFsWrite demo_up_env demo_manager_api demo_runtime_link demo_write_stream (gRaw demo_generated) ''v1'' ''/a.txt''
       [(''hel'', ReadMore), ([], ReadMore), (''lo'', ReadEOF)] new_pool = (WriteStart ''v1'' ''/a.txt'' # data, u', None) \<and>
     concat (map payload data) = ''hello''"
proof -
  obtain called u' conn where v: "up_GetVolume demo_up_env demo_manager_api (gRaw demo_generated) ''v1'' new_pool =
      (called, u', Inr (Some demo_volume_proto))" and c: "dialRuntime demo_up_env demo_runtime_link ''n1'' = Inr conn"
    using demo_up_volume demo_dial by blast
  let ?body = "[(''hel'', ReadMore), ([], ReadMore), (''lo'', ReadEOF)]"
  have run: "up_VolumeFsWrite demo_up_env demo_manager_api demo_runtime_link demo_write_stream (gRaw demo_generated) ''v1'' ''/a.txt''
       ?body new_pool = ([WriteStart ''v1'' ''/a.txt'', WriteData ''hel'', WriteData ''lo''], u', None)"
    using v c by (simp add: up_VolumeFsWrite_def volumeNodeID_def demo_volume_proto_def demo_write_stream_def Let_def)
  have "body_ends ?body" by (simp add: body_ends_def)
  from written_file_is_body [OF run this] run show ?thesis by simp
qed

section \<open>A request may reach two managers\<close>

text \<open>
  A call that ran out of its time is tried again on the next manager, creations included: the first
  manager may have carried it out. Here the request to create one sandbox is answered by two.
\<close>

definition slow_create :: "(create_request, sandbox_proto option) rpc" where
  "slow_create cfg i addr md q =
     \<lparr>atDial = None, atAnswer = (if i = 0 then Inl (status_error DeadlineExceeded ''context deadline exceeded'') else Inr None),
      atExpired = True, atNow = 5 * second\<rparr>"

lemma create_reaches_two_managers:
  "fst (up_Create demo_gw_env (demo_manager_api\<lparr>maCreate := slow_create\<rparr>) ''k'' ''{}'' True new_pool) = [''m1'', ''m2'']"
  by (simp add: up_Create_def api_call_def withConn_def demo_gw_env_def ClientTLSFromPEMs_def pickOrder_def new_pool_def
      slow_create_def retryable_def)

end
