(* ===== verification/Runtime_Server.thy ===== *)
theory Runtime_Server
  imports Runtime_Driver Gateway_Upstream Runtime_Agent
begin

text \<open>
  The runtime service of a node (\<open>internal/grpcapi/runtime_server.go\<close>): the volumes it creates and
  deletes, the file operations on them, the logs and the agent relay. A volume's file system is the
  SDK's, except where the server goes to the operating system with a path it built itself; both are
  arguments, over a state of the node of any type.
\<close>

section \<open>Volumes and files\<close>

record 'h volume_fs =
  vfRoot :: string
  vfRead :: "string \<Rightarrow> 'h \<Rightarrow> string result"
  vfWrite :: "string \<Rightarrow> string \<Rightarrow> 'h \<Rightarrow> 'h \<times> go_error option"
  vfExists :: "string \<Rightarrow> 'h \<Rightarrow> bool result"
  vfMkdir :: "string \<Rightarrow> 'h \<Rightarrow> 'h \<times> go_error option"
  vfRemove :: "string \<Rightarrow> 'h \<Rightarrow> 'h \<times> go_error option"
  vfRemoveAll :: "string \<Rightarrow> 'h \<Rightarrow> 'h \<times> go_error option"

record os_file =
  ofIsDir :: bool
  ofSize :: int
  ofPerm :: "32 word"
  ofModTime :: gotime

record os_entry =
  oeName :: string
  oeIsDir :: bool
  oeInfo :: "(int \<times> gotime) option"

record 'h os =
  osStat :: "string \<Rightarrow> 'h \<Rightarrow> os_file result"
  osReadDir :: "string \<Rightarrow> 'h \<Rightarrow> os_entry list result"
  osRename :: "string \<Rightarrow> string \<Rightarrow> 'h \<Rightarrow> 'h \<times> go_error option"

record fs_metadata =
  fmKind :: string
  fmSize :: int
  fmMode :: "32 word"
  fmReadonly :: bool
  fmUid :: "32 word"
  fmGid :: "32 word"
  fmModified :: int
  fmCreated :: int
  fmPath :: string

record fs_entry =
  fePath :: string
  feKind :: string
  feSize :: int
  feMode :: "32 word"
  feModified :: int

type_synonym 'h node_sdk = "('h, 'h volume_fs) sdk"

section \<open>The server's state\<close>

text \<open>Whether it has a driver, and the local name of each volume it was told of.\<close>

record runtime_server =
  rvDriver :: bool
  rvVolumeNames :: "(string, string) gomap"

definition NewRuntimeServer :: "bool \<Rightarrow> runtime_server" where
  "NewRuntimeServer drv = \<lparr>rvDriver = drv, rvVolumeNames = []\<rparr>"

definition localVolumeName :: "runtime_server \<Rightarrow> string \<Rightarrow> string" where
  "localVolumeName r volumeID =
     (case gm_get (rvVolumeNames r) volumeID of Some name \<Rightarrow> if name \<noteq> [] then name else volumeID | None \<Rightarrow> volumeID)"

definition rememberVolume :: "runtime_server \<Rightarrow> string \<Rightarrow> string \<Rightarrow> runtime_server" where
  "rememberVolume r volumeID name =
     (if volumeID = [] then r
      else r\<lparr>rvVolumeNames := gm_put volumeID (if name = [] then volumeID else name) (rvVolumeNames r)\<rparr>)"

definition forgetVolume :: "runtime_server \<Rightarrow> string \<Rightarrow> runtime_server" where
  "forgetVolume r volumeID = r\<lparr>rvVolumeNames := gm_del volumeID (rvVolumeNames r)\<rparr>"

text \<open>\<open>MapFsErr\<close> on an error; the code also passes nil through.\<close>

definition MapFsErr :: "(string \<Rightarrow> string) \<Rightarrow> go_error \<Rightarrow> go_error" where
  "MapFsErr quote err =
     (case status_code err of
        Some _ \<Rightarrow> err
      | None \<Rightarrow>
          (let msg = error_text quote err; lower = go_lower msg in
           status_error
             (if contains ''path must be absolute'' lower \<or> contains ''path required'' lower \<or>
                 contains ''path must not contain'' lower \<or> contains ''volume_id'' lower \<or> contains ''escapes'' lower
              then InvalidArgument
              else if contains ''no such file'' lower \<or> contains ''not found'' lower then NotFound
              else if contains ''file exists'' lower \<or> contains ''already exists'' lower then AlreadyExists
              else if contains ''permission denied'' lower then PermissionDenied
              else if contains ''not a directory'' lower \<or> contains ''is a directory'' lower \<or> contains ''directory not empty'' lower
              then FailedPrecondition
              else Internal) msg))"

definition not_ready :: go_error where
  "not_ready = status_error Unavailable ''runtime not ready''"

definition volumeFS :: "(string \<Rightarrow> string) \<Rightarrow> 'h node_sdk \<Rightarrow> runtime_server \<Rightarrow> string \<Rightarrow> 'h \<Rightarrow> 'h \<times> 'h volume_fs result" where
  "volumeFS quote sdk r volumeID h =
     (if \<not> rvDriver r then (h, Inl not_ready)
      else if volumeID = [] then (h, Inl (status_error InvalidArgument ''volume_id required''))
      else
        (case VolumeFS sdk (localVolumeName r volumeID) h of
           (h1, Inl e) \<Rightarrow> (h1, Inl (MapFsErr quote e))
         | (h1, Inr fs) \<Rightarrow> (h1, Inr fs)))"

record ensure_request =
  erVolumeId :: string
  erName :: string
  erCapacityGib :: "32 word option"

definition EnsureLocalVolume ::
  "(string \<Rightarrow> string) \<Rightarrow> 'h node_sdk \<Rightarrow> ensure_request \<Rightarrow> runtime_server \<Rightarrow> 'h \<Rightarrow> runtime_server \<times> 'h \<times> go_error option" where
  "EnsureLocalVolume quote sdk req r h =
     (if \<not> rvDriver r then (r, h, Some not_ready)
      else
        (let name = (if erName req = [] then erVolumeId req else erName req) in
         if name = [] then (r, h, Some (status_error InvalidArgument ''volume name or volume_id required''))
         else
           (case EnsureVolume quote sdk name (erCapacityGib req) h of
              (h1, Some e) \<Rightarrow> (r, h1, Some (StatusError Internal e))
            | (h1, None) \<Rightarrow> (rememberVolume r (erVolumeId req) name, h1, None))))"

definition DeleteLocalVolume ::
  "(string \<Rightarrow> string) \<Rightarrow> 'h node_sdk \<Rightarrow> string \<Rightarrow> string \<Rightarrow> runtime_server \<Rightarrow> 'h \<Rightarrow> runtime_server \<times> 'h \<times> go_error option" where
  "DeleteLocalVolume quote sdk volumeID reqName r h =
     (if \<not> rvDriver r then (r, h, Some not_ready)
      else
        (let name = (if reqName = [] then localVolumeName r volumeID else reqName) in
         if name = [] then (r, h, Some (status_error InvalidArgument ''volume name or volume_id required''))
         else
           (case driver_DeleteVolume sdk name h of
              (h1, Some e) \<Rightarrow> (r, h1, Some (MapFsErr quote e))
            | (h1, None) \<Rightarrow> (forgetVolume r volumeID, h1, None))))"

section \<open>Reading and writing files\<close>

definition fs_chunk :: nat where "fs_chunk = 32 * 1024"

function fs_chunks :: "string \<Rightarrow> string list" where
  "fs_chunks data = (if data = [] then [] else take fs_chunk data # fs_chunks (drop fs_chunk data))"
  by pat_completeness auto
termination by (relation "measure length") (auto simp: fs_chunk_def)

declare fs_chunks.simps [simp del]

fun send_all :: "(nat \<Rightarrow> go_error option) \<Rightarrow> nat \<Rightarrow> string list \<Rightarrow> string list \<times> go_error option" where
  "send_all send i [] = ([], None)"
| "send_all send i (c # cs) =
     (case send i of
        Some e \<Rightarrow> ([], Some e)
      | None \<Rightarrow> (case send_all send (i + 1) cs of (sent, r) \<Rightarrow> (c # sent, r)))"

text \<open>What was sent to the client, and the call's result.\<close>

definition rt_VolumeFsRead ::
  "(string \<Rightarrow> string) \<Rightarrow> 'h node_sdk \<Rightarrow> (nat \<Rightarrow> go_error option) \<Rightarrow> runtime_server \<Rightarrow> string \<Rightarrow> string \<Rightarrow> 'h \<Rightarrow>
     'h \<times> string list \<times> go_error option" where
  "rt_VolumeFsRead quote sdk send r volumeID path h =
     (case volumeFS quote sdk r volumeID h of
        (h1, Inl e) \<Rightarrow> (h1, [], Some e)
      | (h1, Inr fs) \<Rightarrow>
          if path = [] then (h1, [], Some (status_error InvalidArgument ''path required''))
          else
            (case vfRead fs path h1 of
               Inl e \<Rightarrow> (h1, [], Some (MapFsErr quote e))
             | Inr data \<Rightarrow> (case send_all send 0 (fs_chunks data) of (sent, e) \<Rightarrow> (h1, sent, e))))"

definition msg_data :: "write_msg \<Rightarrow> string" where
  "msg_data m = (case m of WriteStart _ _ \<Rightarrow> [] | WriteData b \<Rightarrow> b)"

text \<open>The messages of the stream, and what ends it: None for its regular end.\<close>

definition rt_VolumeFsWrite ::
  "(string \<Rightarrow> string) \<Rightarrow> 'h node_sdk \<Rightarrow> runtime_server \<Rightarrow> write_msg list \<Rightarrow> go_error option \<Rightarrow> 'h \<Rightarrow> 'h \<times> go_error option" where
  "rt_VolumeFsWrite quote sdk r msgs fin h =
     (case msgs of
        [] \<Rightarrow> (h, Some (case fin of None \<Rightarrow> LibraryError ''EOF'' | Some e \<Rightarrow> e))
      | first # rest \<Rightarrow>
          (case first of
             WriteData _ \<Rightarrow> (h, Some (status_error InvalidArgument ''first message must be start''))
           | WriteStart volumeID path \<Rightarrow>
               (case volumeFS quote sdk r volumeID h of
                  (h1, Inl e) \<Rightarrow> (h1, Some e)
                | (h1, Inr fs) \<Rightarrow>
                    if path = [] then (h1, Some (status_error InvalidArgument ''path required''))
                    else
                      (case fin of
                         Some e \<Rightarrow> (h1, Some e)
                       | None \<Rightarrow>
                           (case vfWrite fs path (concat (map msg_data msgs)) h1 of
                              (h2, Some e) \<Rightarrow> (h2, Some (MapFsErr quote e))
                            | (h2, None) \<Rightarrow> (h2, None))))))"

section \<open>The operations that build host paths\<close>

definition no_root :: go_error where
  "no_root = status_error FailedPrecondition ''volume root unavailable''"

definition volumeStat :: "'h os \<Rightarrow> 'h volume_fs \<Rightarrow> string \<Rightarrow> 'h \<Rightarrow> fs_metadata result" where
  "volumeStat os fs rel h =
     (if vfRoot fs = [] then Inl no_root
      else
        (case osStat os (filepath_Join (vfRoot fs) rel) h of
           Inl e \<Rightarrow> Inl e
         | Inr fi \<Rightarrow>
             Inr \<lparr>fmKind = (if ofIsDir fi then ''directory'' else ''file''), fmSize = ofSize fi, fmMode = ofPerm fi,
                  fmReadonly = False, fmUid = 0, fmGid = 0, fmModified = unix_nano (ofModTime fi), fmCreated = 0, fmPath = rel\<rparr>))"

definition volumeList :: "'h os \<Rightarrow> 'h volume_fs \<Rightarrow> string \<Rightarrow> 'h \<Rightarrow> fs_entry list result" where
  "volumeList os fs rel h =
     (if vfRoot fs = [] then Inl no_root
      else
        (case osReadDir os (filepath_Join (vfRoot fs) rel) h of
           Inl e \<Rightarrow> Inl e
         | Inr entries \<Rightarrow>
             Inr (map (\<lambda>e. \<lparr>fePath = filepath_Join rel (oeName e), feKind = (if oeIsDir e then ''directory'' else ''file''),
                             feSize = (case oeInfo e of None \<Rightarrow> 0 | Some (n, _) \<Rightarrow> n), feMode = 0,
                             feModified = (case oeInfo e of None \<Rightarrow> 0 | Some (_, t) \<Rightarrow> unix_nano t)\<rparr>) entries)))"

definition volumeCopy :: "'h volume_fs \<Rightarrow> string \<Rightarrow> string \<Rightarrow> 'h \<Rightarrow> 'h \<times> go_error option" where
  "volumeCopy fs src dst h = (case vfRead fs src h of Inl e \<Rightarrow> (h, Some e) | Inr data \<Rightarrow> vfWrite fs dst data h)"

definition volumeRename :: "'h os \<Rightarrow> 'h volume_fs \<Rightarrow> string \<Rightarrow> string \<Rightarrow> 'h \<Rightarrow> 'h \<times> go_error option" where
  "volumeRename os fs src dst h =
     (if vfRoot fs = [] then (h, Some no_root)
      else osRename os (filepath_Join (vfRoot fs) src) (filepath_Join (vfRoot fs) dst) h)"

section \<open>The file calls\<close>

text \<open>A call on a volume: its file system, then the operation, whose error is mapped.\<close>

definition on_volume ::
  "(string \<Rightarrow> string) \<Rightarrow> 'h node_sdk \<Rightarrow> runtime_server \<Rightarrow> string \<Rightarrow> ('h volume_fs \<Rightarrow> 'h \<Rightarrow> 'h \<times> 'r result) \<Rightarrow> 'h \<Rightarrow> 'h \<times> 'r result" where
  "on_volume quote sdk r volumeID op h =
     (case volumeFS quote sdk r volumeID h of
        (h1, Inl e) \<Rightarrow> (h1, Inl e)
      | (h1, Inr fs) \<Rightarrow> (case op fs h1 of (h2, Inl e) \<Rightarrow> (h2, Inl (MapFsErr quote e)) | (h2, Inr v) \<Rightarrow> (h2, Inr v)))"

definition done_or :: "'h \<times> go_error option \<Rightarrow> 'h \<times> unit result" where
  "done_or he = (case he of (h, None) \<Rightarrow> (h, Inr ()) | (h, Some e) \<Rightarrow> (h, Inl e))"

definition rt_VolumeFsStat ::
  "(string \<Rightarrow> string) \<Rightarrow> 'h node_sdk \<Rightarrow> 'h os \<Rightarrow> runtime_server \<Rightarrow> string \<Rightarrow> string \<Rightarrow> 'h \<Rightarrow> 'h \<times> fs_metadata result" where
  "rt_VolumeFsStat quote sdk os r volumeID path = on_volume quote sdk r volumeID (\<lambda>fs h. (h, volumeStat os fs path h))"

definition rt_VolumeFsList ::
  "(string \<Rightarrow> string) \<Rightarrow> 'h node_sdk \<Rightarrow> 'h os \<Rightarrow> runtime_server \<Rightarrow> string \<Rightarrow> string \<Rightarrow> 'h \<Rightarrow> 'h \<times> fs_entry list result" where
  "rt_VolumeFsList quote sdk os r volumeID path = on_volume quote sdk r volumeID (\<lambda>fs h. (h, volumeList os fs path h))"

definition rt_VolumeFsExists ::
  "(string \<Rightarrow> string) \<Rightarrow> 'h node_sdk \<Rightarrow> runtime_server \<Rightarrow> string \<Rightarrow> string \<Rightarrow> 'h \<Rightarrow> 'h \<times> bool result" where
  "rt_VolumeFsExists quote sdk r volumeID path = on_volume quote sdk r volumeID (\<lambda>fs h. (h, vfExists fs path h))"

definition rt_VolumeFsMkdir ::
  "(string \<Rightarrow> string) \<Rightarrow> 'h node_sdk \<Rightarrow> runtime_server \<Rightarrow> string \<Rightarrow> string \<Rightarrow> 'h \<Rightarrow> 'h \<times> unit result" where
  "rt_VolumeFsMkdir quote sdk r volumeID path = on_volume quote sdk r volumeID (\<lambda>fs h. done_or (vfMkdir fs path h))"

definition rt_VolumeFsRemove ::
  "(string \<Rightarrow> string) \<Rightarrow> 'h node_sdk \<Rightarrow> runtime_server \<Rightarrow> string \<Rightarrow> string \<times> bool \<Rightarrow> 'h \<Rightarrow> 'h \<times> unit result" where
  "rt_VolumeFsRemove quote sdk r volumeID req =
     on_volume quote sdk r volumeID
       (\<lambda>fs h. done_or (case req of (path, recursive) \<Rightarrow> if recursive then vfRemoveAll fs path h else vfRemove fs path h))"

definition rt_VolumeFsCopy ::
  "(string \<Rightarrow> string) \<Rightarrow> 'h node_sdk \<Rightarrow> runtime_server \<Rightarrow> string \<Rightarrow> string \<times> string \<Rightarrow> 'h \<Rightarrow> 'h \<times> unit result" where
  "rt_VolumeFsCopy quote sdk r volumeID req =
     on_volume quote sdk r volumeID (\<lambda>fs h. done_or (case req of (src, dst) \<Rightarrow> volumeCopy fs src dst h))"

definition rt_VolumeFsRename ::
  "(string \<Rightarrow> string) \<Rightarrow> 'h node_sdk \<Rightarrow> 'h os \<Rightarrow> runtime_server \<Rightarrow> string \<Rightarrow> string \<times> string \<Rightarrow> 'h \<Rightarrow> 'h \<times> unit result" where
  "rt_VolumeFsRename quote sdk os r volumeID req =
     on_volume quote sdk r volumeID (\<lambda>fs h. done_or (case req of (src, dst) \<Rightarrow> volumeRename os fs src dst h))"

section \<open>Logs and the relay\<close>

record logs_chunk =
  lcId :: string
  lcSource :: string
  lcTs :: int
  lcText :: string

definition log_sources :: "string \<Rightarrow> string list" where
  "log_sources s = (if s = [] then [] else filter (\<lambda>t. t \<noteq> []) (map trim_space (split_on CHR '','' s)))"

definition chunk_of :: "log_entry \<Rightarrow> logs_chunk" where
  "chunk_of e = \<lparr>lcId = leID e, lcSource = leSource e, lcTs = unix_nano (leTimestamp e), lcText = leText e\<rparr>"

definition rt_Logs ::
  "(nat \<Rightarrow> log_options \<Rightarrow> (log_entry list \<times> go_error option) result) \<Rightarrow> driver \<Rightarrow> (nat \<Rightarrow> go_error option) \<Rightarrow> runtime_server \<Rightarrow>
     logs_request \<Rightarrow> logs_chunk list \<times> go_error option" where
  "rt_Logs stream d send r req =
     (if \<not> rvDriver r then ([], Some not_ready)
      else if lqSandboxId req = [] then ([], Some (status_error InvalidArgument ''sandbox_id required''))
      else
        (case FollowLogs stream d send (lqSandboxId req)
                \<lparr>loFollow = lqFollow req, loSources = log_sources (lqSources req), loFromCursor = lqLastEventId req\<rparr> of
           (entries, e) \<Rightarrow> (map chunk_of entries, e)))"

definition sandboxIDFromContext :: "metadata option \<Rightarrow> string \<Rightarrow> string" where
  "sandboxIDFromContext md key =
     (case md of None \<Rightarrow> [] | Some m \<Rightarrow> (case md_get m key of [] \<Rightarrow> [] | v # _ \<Rightarrow> trim_space v))"

text \<open>
  The two pumps of a relay: what each moved, and how it ended; \<open>None\<close> where it did not end by itself.
  The call returns with the first that ended, once both have: closing the socket ends the first pump,
  nothing ends the second but the client.
\<close>

fun relay_out :: "(nat \<Rightarrow> go_error option) \<Rightarrow> nat \<Rightarrow> (string \<times> read_end) list \<Rightarrow> string list \<times> go_error option option" where
  "relay_out send i [] = ([], None)"
| "relay_out send i ((buf, en) # reads) =
     (let rest = (\<lambda>j. case en of
                    ReadEOF \<Rightarrow> ([], Some None)
                  | ReadFailed e \<Rightarrow> ([], Some (Some e))
                  | ReadMore \<Rightarrow> relay_out send j reads) in
      if length buf > 0 then
        (case send i of
           Some e \<Rightarrow> ([], Some (Some e))
         | None \<Rightarrow> (case rest (i + 1) of (sent, r) \<Rightarrow> (buf # sent, r)))
      else rest i)"

datatype recv_end = RecvEOF | RecvFailed go_error | RecvOpen

fun relay_in :: "(nat \<Rightarrow> go_error option) \<Rightarrow> nat \<Rightarrow> string list \<Rightarrow> recv_end \<Rightarrow> string list \<times> go_error option option" where
  "relay_in write i [] fin = ([], case fin of RecvEOF \<Rightarrow> Some None | RecvFailed e \<Rightarrow> Some (Some e) | RecvOpen \<Rightarrow> None)"
| "relay_in write i (msg # msgs) fin =
     (if length msg = 0 then relay_in write i msgs fin
      else
        (case write i of
           Some e \<Rightarrow> ([], Some (Some e))
         | None \<Rightarrow> (case relay_in write (i + 1) msgs fin of (w, r) \<Rightarrow> (msg # w, r))))"

definition relay_result :: "bool \<Rightarrow> go_error option option \<Rightarrow> go_error option option \<Rightarrow> go_error option option" where
  "relay_result socket_first sock client =
     (case client of
        None \<Rightarrow> None
      | Some c \<Rightarrow>
          Some (let e = (case sock of None \<Rightarrow> c | Some s \<Rightarrow> if socket_first then s else c) in
                if e = Some (LibraryError ''EOF'') then None else e))"

definition rt_AgentRelay ::
  "(string \<Rightarrow> string) \<Rightarrow> (string \<Rightarrow> string result) \<Rightarrow> (string \<Rightarrow> go_error option) \<Rightarrow> string \<Rightarrow> runtime_server \<Rightarrow> metadata option \<Rightarrow>
     bool \<Rightarrow> go_error option option \<Rightarrow> go_error option option \<Rightarrow> go_error option option" where
  "rt_AgentRelay quote sockPath dial key r md socket_first sock client =
     (if \<not> rvDriver r then Some (Some not_ready)
      else if sandboxIDFromContext md key = [] then Some (Some (status_error InvalidArgument ''sandbox-id metadata required''))
      else
        (case sockPath (LocalName (sandboxIDFromContext md key)) of
           Inl e \<Rightarrow> Some (Some (StatusError FailedPrecondition e))
         | Inr path \<Rightarrow>
             (case dial path of
                Some e \<Rightarrow> Some (Some (StatusError Unavailable e))
              | None \<Rightarrow> relay_result socket_first sock client)))"

section \<open>Which host paths are used\<close>

definition below :: "string \<Rightarrow> string \<Rightarrow> bool" where
  "below base p \<longleftrightarrow> path_rooted p \<and> (\<exists>rest. path_comps p = path_comps base @ rest)"

definition stays_inside :: "string \<Rightarrow> bool" where
  "stays_inside rel \<longleftrightarrow> path_depth 0 (split_on CHR ''/'' rel) \<noteq> None"

lemma rooted_append: "path_rooted base \<Longrightarrow> path_rooted (base @ s)"
  by (auto simp: path_rooted_def has_prefix_iff)

lemma Clean_rooted: "path_rooted p \<Longrightarrow> path_rooted (filepath_Clean p)"
  by (simp add: filepath_Clean_def path_rooted_def has_prefix_def)

lemma Join_inside:
  assumes "path_rooted base" and "stays_inside rel"
  shows "below base (filepath_Join base rel)"
proof -
  have base: "base \<noteq> []" using assms(1) by (auto simp: path_rooted_def has_prefix_def)
  show ?thesis
  proof (cases "rel = []")
    case True
    with assms(1) base show ?thesis
      by (simp add: filepath_Join_def below_def path_comps_Clean Clean_rooted)
  next
    case False
    then have "filepath_Join base rel = filepath_Clean (base @ CHR ''/'' # rel)"
      using base by (simp add: filepath_Join_def)
    moreover have "path_comps (base @ CHR ''/'' # rel) = path_comps base @ clean_comps True [] (split_on CHR ''/'' rel)"
      using Join_below [OF assms(1) False] assms(2) by (simp add: stays_inside_def)
    ultimately show ?thesis
      using rooted_append [OF assms(1)] by (simp add: below_def path_comps_Clean Clean_rooted)
  qed
qed


definition demo_fs :: "nat volume_fs" where
  "demo_fs = \<lparr>vfRoot = ''/vols/v1'', vfRead = (\<lambda>_ _. Inr ''hello''), vfWrite = (\<lambda>_ _ h. (h, None)), vfExists = (\<lambda>_ _. Inr True),
     vfMkdir = (\<lambda>_ h. (h, None)), vfRemove = (\<lambda>_ h. (h, None)), vfRemoveAll = (\<lambda>_ h. (h, None))\<rparr>"

text \<open>A host where every path is a file, but for what \<open>f\<close> says of it; \<open>osRename\<close> counts.\<close>

definition demo_os :: "(string \<Rightarrow> bool) \<Rightarrow> nat os" where
  "demo_os f = \<lparr>osStat = (\<lambda>p _. Inr \<lparr>ofIsDir = f p, ofSize = 3, ofPerm = 420, ofModTime = unix_epoch\<rparr>),
     osReadDir = (\<lambda>p _. Inr (if f p then [\<lparr>oeName = ''shadow'', oeIsDir = False, oeInfo = None\<rparr>] else [])),
     osRename = (\<lambda>p q h. (h + 1, None))\<rparr>"

lemma demo_comps: "path_comps ''/vols/v1'' = [''vols'', ''v1'']" "path_comps ''/etc'' = [''etc'']"
  "stays_inside ''a/../b''" "stays_inside ''c''" "filepath_Join ''/vols/v1'' ''../../etc'' = ''/etc''"
  "filepath_Join ''/vols/v1'' ''../v2/a'' = ''/vols/v2/a''" "filepath_Join ''/vols/v1'' ''b'' = ''/vols/v1/b''"
  by code_simp+


text \<open>
  But the server checks no path: one that climbs leaves the volume. Here listing a volume lists a
  directory of the host, and renaming moves the file of another volume into this one.
\<close>

lemma listing_escapes:
  "map fePath (projr (volumeList (demo_os (\<lambda>p. p = ''/etc'')) demo_fs ''../../etc'' 0)) = [''../../etc/shadow'']"
  by (simp add: volumeList_def demo_fs_def demo_os_def demo_comps) code_simp

lemma renaming_escapes:
  "volumeRename os demo_fs ''../v2/a'' ''b'' h = osRename os ''/vols/v2/a'' ''/vols/v1/b'' h"
  by (simp add: volumeRename_def demo_fs_def demo_comps)

section \<open>A file's bytes\<close>

lemma fs_chunks_spec:
  "concat (fs_chunks data) = data \<and> (\<forall>c \<in> set (fs_chunks data). c \<noteq> [] \<and> length c \<le> fs_chunk)"
proof (induction data rule: fs_chunks.induct)
  case (1 data)
  show ?case
  proof (cases "data = []")
    case True
    then show ?thesis by (simp add: fs_chunks.simps)
  next
    case False
    then have "fs_chunks data = take fs_chunk data # fs_chunks (drop fs_chunk data)" "take fs_chunk data \<noteq> []"
      by (simp_all add: fs_chunks.simps [of data] fs_chunk_def)
    with 1 [OF False] show ?thesis by simp
  qed
qed

lemma send_all_ok: "send_all (\<lambda>_. None) i cs = (cs, None)"
  by (induction cs arbitrary: i) simp_all

lemma write_stored:
  assumes "volumeFS quote sdk r volumeID h = (h1, Inr fs)" and "path \<noteq> []" and "concat (map payload data) = bytes"
    and "\<forall>m \<in> set data. \<exists>b. m = WriteData b \<and> b \<noteq> []"
    and "rt_VolumeFsWrite quote sdk r (WriteStart volumeID path # data) None h = (h2, None)"
  shows "vfWrite fs path bytes h1 = (h2, None)"
proof -
  have "msg_data = payload"
  proof
    show "msg_data m = payload m" for m by (cases m) (simp_all add: msg_data_def)
  qed
  then have "concat (map msg_data (WriteStart volumeID path # data)) = bytes"
    using assms(3) by simp
  with assms(1,2,5) show ?thesis
    by (auto simp: rt_VolumeFsWrite_def split: prod.splits option.splits)
qed

text \<open>
  Claim C19: a file put through the gateway is read back byte for byte. When the gateway reports no
  error for a body and the node none for its messages, reading that path from the node yields the
  body, in chunks of at most 32 KiB none of which is empty; all that is asked of the volume's file
  system is that it reads what it last wrote and is still there.
\<close>

theorem put_then_get:
  assumes "up_VolumeFsWrite env api rt ws key volumeID path body u = (ms, u', None)" and "body_ends body" and "path \<noteq> []"
    and "volumeFS quote sdk r volumeID h = (h1, Inr fs)"
    and "\<And>d h'. vfWrite fs path d h1 = (h', None) \<Longrightarrow> vfRead fs path h' = Inr d \<and> volumeFS quote sdk r volumeID h' = (h', Inr fs)"
    and "rt_VolumeFsWrite quote sdk r ms None h = (h2, None)"
  shows "\<exists>chunks. rt_VolumeFsRead quote sdk (\<lambda>_. None) r volumeID path h2 = (h2, chunks, None) \<and>
    concat chunks = concat (map fst body) \<and> (\<forall>c \<in> set chunks. c \<noteq> [] \<and> length c \<le> 32768)"
proof -
  obtain data where ms: "ms = WriteStart volumeID path # data" "concat (map payload data) = concat (map fst body)"
    "\<forall>m \<in> set data. \<exists>b. m = WriteData b \<and> b \<noteq> []"
    using written_messages [OF assms(1,2)] by blast
  have "vfWrite fs path (concat (map fst body)) h1 = (h2, None)"
    using write_stored [OF assms(4,3) ms(2,3)] assms(6) ms(1) by blast
  from assms(5) [OF this]
  have "vfRead fs path h2 = Inr (concat (map fst body))" "volumeFS quote sdk r volumeID h2 = (h2, Inr fs)" by simp_all
  with assms(3) fs_chunks_spec [of "concat (map fst body)"] show ?thesis
    by (auto simp: rt_VolumeFsRead_def send_all_ok fs_chunk_def)
qed

text \<open>A node whose one volume holds one file: its state is the file's bytes.\<close>

definition one_file :: "string volume_fs" where
  "one_file = \<lparr>vfRoot = ''/vols/v1'', vfRead = (\<lambda>_ h. Inr h), vfWrite = (\<lambda>_ d _. (d, None)), vfExists = (\<lambda>_ _. Inr True),
     vfMkdir = (\<lambda>_ h. (h, None)), vfRemove = (\<lambda>_ h. ([], None)), vfRemoveAll = (\<lambda>_ h. ([], None))\<rparr>"

definition one_file_node :: "string node_sdk" where
  "one_file_node = \<lparr>sdConnect = (\<lambda>_ _ h. (h, Inr 0)), sdPing = (\<lambda>_ _. True), sdStart = (\<lambda>_ h. (h, Inr None)),
     sdRestart = (\<lambda>_ h. (h, Inr None)), sdStop = (\<lambda>_ h. (h, None)), sdClose = (\<lambda>_ h. h), sdRemove = (\<lambda>_ h. (h, None)),
     sdListVolumes = (\<lambda>_. Inr [None, Some (''v1'', one_file)]), sdCreateVolume = (\<lambda>_ _ h. (h, Inr one_file)),
     sdRemoveVolume = (\<lambda>_ h. (h, None))\<rparr>"

lemma one_file_volume: "volumeFS id one_file_node (NewRuntimeServer True) ''v1'' h = (h, Inr one_file)"
  by (simp add: volumeFS_def NewRuntimeServer_def VolumeFS_def localVolumeName_def one_file_node_def)

theorem put_then_get_witness:
  "\<exists>chunks. rt_VolumeFsRead id one_file_node (\<lambda>_. None) (NewRuntimeServer True) ''v1'' ''/a.txt'' ''hello'' = (''hello'', chunks, None) \<and>
     concat chunks = ''hello''"
proof -
  obtain called u' conn where v: "up_GetVolume demo_up_env demo_manager_api (gRaw demo_generated) ''v1'' new_pool =
      (called, u', Inr (Some demo_volume_proto))" and c: "dialRuntime demo_up_env demo_runtime_link ''n1'' = Inr conn"
    using demo_up_volume demo_dial by blast
  let ?body = "[(''hel'', ReadMore), (''lo'', ReadEOF)]"
  let ?ms = "[WriteStart ''v1'' ''/a.txt'', WriteData ''hel'', WriteData ''lo'']"
  have put: "up_VolumeFsWrite demo_up_env demo_manager_api demo_runtime_link demo_write_stream (gRaw demo_generated) ''v1'' ''/a.txt''
       ?body new_pool = (?ms, u', None)"
    using v c by (simp add: up_VolumeFsWrite_def volumeNodeID_def demo_volume_proto_def demo_write_stream_def Let_def)
  have stored: "rt_VolumeFsWrite id one_file_node (NewRuntimeServer True) ?ms None [] = (''hello'', None)"
    by (simp add: rt_VolumeFsWrite_def one_file_volume) (simp add: one_file_def msg_data_def)
  have "body_ends ?body" by (simp add: body_ends_def)
  moreover have "vfWrite one_file ''/a.txt'' d [] = (h', None) \<Longrightarrow> vfRead one_file ''/a.txt'' h' = Inr d \<and>
      volumeFS id one_file_node (NewRuntimeServer True) ''v1'' h' = (h', Inr one_file)" for d h'
    by (simp add: one_file_volume) (simp add: one_file_def)
  ultimately show ?thesis
    using put_then_get [OF put _ _ one_file_volume _ stored] by fastforce
qed

section \<open>Errors\<close>

text \<open>
  Every error of the file calls is a status, whatever the file system said, and mapping
  it again changes nothing; so the gateway can give each its HTTP code.
\<close>

theorem MapFsErr_is_status:
  "status_code (MapFsErr quote e) \<noteq> None \<and> MapFsErr quote (MapFsErr quote e) = MapFsErr quote e \<and>
   (status_code e \<noteq> None \<longrightarrow> MapFsErr quote e = e) \<and>
   (snd (on_volume quote sdk r volumeID opn h) = Inl err \<longrightarrow> status_code err \<noteq> None)"
proof -
  have st: "status_code (MapFsErr quote e) \<noteq> None" for e
    by (simp add: MapFsErr_def Let_def split: option.split)
  moreover have keep: "MapFsErr quote e = e" if "status_code e \<noteq> None" for e
    using that by (auto simp: MapFsErr_def)
  moreover have "snd (volumeFS quote sdk r volumeID h) = Inl err \<longrightarrow> status_code err \<noteq> None" for err
    using st by (auto simp: volumeFS_def not_ready_def split: prod.split sum.split)
  then have "snd (on_volume quote sdk r volumeID opn h) = Inl err \<longrightarrow> status_code err \<noteq> None" for err
    using st by (fastforce simp: on_volume_def split: prod.splits sum.splits)
  ultimately show ?thesis by blast
qed

lemma missing_file: "MapFsErr id (LibraryError ''no such file'') = status_error NotFound ''no such file''"
proof -
  have "go_lower ''no such file'' = ''no such file''"
    by (rule go_lower_plain) (simp add: ascii_lower_def)
  then show ?thesis by (simp add: MapFsErr_def has_prefix_def)
qed

theorem MapFsErr_is_status_witness:
  "MapFsErr id (MapFsErr id (LibraryError ''no such file'')) = status_error NotFound ''no such file''"
  using MapFsErr_is_status [of id "LibraryError ''no such file''"] missing_file by metis

section \<open>A relay may outlive its socket\<close>

text \<open>
  When the socket is closed the relay's first pump ends, and the call still waits for the second,
  which ends only when the client does: a client that waits for the relay keeps it open.
\<close>

lemma relay_waits_for_client:
  "relay_result True (Some e) None = None"
  by (simp add: relay_result_def)

text \<open>A file call on a volume the node does not have makes one, without the quota it had.\<close>

lemma file_call_creates_volume:
  assumes "rvDriver r" and "volumeID \<noteq> []" and "gm_get (rvVolumeNames r) volumeID = None" and "sdListVolumes sdk h = Inr []"
  shows "fst (volumeFS quote sdk r volumeID h) = fst (sdCreateVolume sdk volumeID None h)"
  using assms by (simp add: volumeFS_def VolumeFS_def localVolumeName_def split: prod.split sum.split)

end
