(* ===== verification/Cli_Commands.thy ===== *)
theory Cli_Commands
  imports Cli_Lists Worker_Daemon Runtime_Server
begin

text \<open>
  The commands of \<open>cellar\<close> (\<open>cmd/cellar\<close>): what each asks of the daemon behind the control socket,
  in which order, what it prints and how it ends. The daemon and all it changes is a state of any
  type; flags and the number of arguments have been checked by the command library.
\<close>

section \<open>The daemon's control service\<close>

record 'w control_client =
  clDial :: "go_error option"
  clInit :: "init_call \<Rightarrow> 'w \<Rightarrow> 'w \<times> init_reply result"
  clJoin :: "join_req \<Rightarrow> 'w \<Rightarrow> 'w \<times> join_reply result"
  clLeave :: "bool \<Rightarrow> 'w \<Rightarrow> 'w \<times> unit result"
  clJoinToken :: "string \<Rightarrow> 'w \<Rightarrow> 'w \<times> token_reply result"
  clStatus :: "'w \<Rightarrow> 'w \<times> status_reply result"
  clSandboxCreate :: "create_request \<Rightarrow> 'w \<Rightarrow> 'w \<times> sandbox_proto option result"
  clSandboxStart :: "string \<Rightarrow> 'w \<Rightarrow> 'w \<times> sandbox_proto option result"
  clSandboxStop :: "string \<Rightarrow> 'w \<Rightarrow> 'w \<times> unit result"
  clSandboxRemove :: "string \<Rightarrow> 'w \<Rightarrow> 'w \<times> unit result"
  clSandboxGet :: "string \<Rightarrow> 'w \<Rightarrow> 'w \<times> sandbox_proto option result"
  clSandboxList :: "'w \<Rightarrow> 'w \<times> sandbox_proto list result"
  clSandboxLogs :: "logs_request \<Rightarrow> 'w \<Rightarrow> 'w \<times> (logs_chunk list \<times> recv_end) result"
  clNodeList :: "'w \<Rightarrow> 'w \<times> node_info list result"
  clNodeInspect :: "string \<Rightarrow> 'w \<Rightarrow> 'w \<times> node_info option result"
  clNodePromote :: "string \<Rightarrow> 'w \<Rightarrow> 'w \<times> unit result"
  clNodeDemote :: "string \<Rightarrow> 'w \<Rightarrow> 'w \<times> unit result"
  clNodeRemove :: "string \<times> bool \<Rightarrow> 'w \<Rightarrow> 'w \<times> unit result"
  clNodeUpdate :: "update_call \<Rightarrow> 'w \<Rightarrow> 'w \<times> node_info option result"
  clAPIKeyCreate :: "string \<Rightarrow> 'w \<Rightarrow> 'w \<times> key_created result"
  clAPIKeyList :: "'w \<Rightarrow> 'w \<times> key_info list result"
  clAPIKeyDelete :: "string \<Rightarrow> 'w \<Rightarrow> 'w \<times> unit result"

text \<open>
  How a command ends: regularly, with an error that \<open>main\<close> prints, by reading a message that is not
  there, which panics, or not at all.
\<close>

datatype cli_end = CliDone | CliFailed go_error | CliPanic | CliWaits

type_synonym 'w cli_run = "'w \<times> string \<times> cli_end"

definition exit_code :: "cli_end \<Rightarrow> nat option" where
  "exit_code en = (case en of CliDone \<Rightarrow> Some 0 | CliFailed _ \<Rightarrow> Some 1 | CliPanic \<Rightarrow> Some 2 | CliWaits \<Rightarrow> None)"

definition cli_line :: "string \<Rightarrow> string" where "cli_line s = s @ [CHR 0x0A]"

definition cli_fail :: "go_error \<Rightarrow> 'w \<Rightarrow> 'w cli_run" where
  "cli_fail e w = (w, [], CliFailed e)"

text \<open>Every command dials first; a call's error is passed on with the command's name or as it is.\<close>

definition cli_dial :: "'w control_client \<Rightarrow> ('w \<Rightarrow> 'w cli_run) \<Rightarrow> 'w \<Rightarrow> 'w cli_run" where
  "cli_dial c k w = (case clDial c of Some e \<Rightarrow> cli_fail (Wrapped [Lit ''dial cellard: ''] e) w | None \<Rightarrow> k w)"

definition cli_call ::
  "'w control_client \<Rightarrow> string \<Rightarrow> ('w \<Rightarrow> 'w \<times> 'r result) \<Rightarrow> ('r \<Rightarrow> string \<times> cli_end) \<Rightarrow> 'w \<Rightarrow> 'w cli_run" where
  "cli_call c name call answer =
     cli_dial c (\<lambda>w. case call w of
                       (w', Inl e) \<Rightarrow> cli_fail (if name = [] then e else Wrapped [Lit (name @ '': '')] e) w'
                     | (w', Inr r) \<Rightarrow> (w', answer r))"

section \<open>Membership\<close>

definition cli_init :: "'w control_client \<Rightarrow> string \<Rightarrow> string \<Rightarrow> string \<Rightarrow> 'w \<Rightarrow> 'w cli_run" where
  "cli_init c advertise listen raft =
     cli_call c ''init'' (clInit c \<lparr>inListenAddr = listen, inRaftAddr = raft, inAdvertiseAddr = advertise, inCertValidity = 0\<rparr>)
       (\<lambda>r. (cli_line (''Cluster initialized: '' @ iiClusterId r @ '' (node '' @ iiNodeId r @ '')'') @ cli_line [] @
             cli_line ''To add a worker to this cluster, run the following command:'' @ cli_line [] @
             cli_line (''    cellar join --token '' @ iiWorkerToken r @ '' '' @ iiAdvertiseAddr r) @ cli_line [] @
             cli_line ''To add a manager to this cluster, run the following command:'' @ cli_line [] @
             cli_line (''    cellar join --token '' @ iiManagerToken r @ '' '' @ iiAdvertiseAddr r), CliDone))"

definition cli_join :: "'w control_client \<Rightarrow> string \<Rightarrow> string \<Rightarrow> string \<Rightarrow> string \<Rightarrow> string \<Rightarrow> 'w \<Rightarrow> 'w cli_run" where
  "cli_join c token advertise listen raft addr =
     (if token = [] then cli_fail (errorf ''--token is required'')
      else
        cli_call c ''join''
          (clJoin c \<lparr>jnToken = token, jnRemoteAddr = addr, jnListenAddr = listen, jnRaftAddr = raft, jnAdvertiseAddr = advertise\<rparr>)
          (\<lambda>r. (cli_line (''This node joined as a '' @ jyRole r @ '' ('' @ jyNodeId r @ '').''), CliDone)))"

definition cli_leave :: "'w control_client \<Rightarrow> bool \<Rightarrow> 'w \<Rightarrow> 'w cli_run" where
  "cli_leave c force = cli_call c ''leave'' (clLeave c force) (\<lambda>_. (cli_line ''Node left the cluster.'', CliDone))"

definition cli_join_token :: "'w control_client \<Rightarrow> string \<Rightarrow> 'w \<Rightarrow> 'w cli_run" where
  "cli_join_token c arg =
     (let role = go_lower arg in
      if role \<noteq> ''worker'' \<and> role \<noteq> ''manager'' then cli_fail (errorf ''role must be worker or manager'')
      else
        cli_call c ''join-token'' (clJoinToken c role)
          (\<lambda>r. (cli_line (''To add a '' @ role @ '' to this cluster, run the following command:'') @ cli_line [] @
                cli_line (''    '' @ tyJoinCommand r), CliDone)))"

definition show_bool :: "bool \<Rightarrow> string" where "show_bool b = (if b then ''true'' else ''false'')"

definition cli_status :: "'w control_client \<Rightarrow> 'w \<Rightarrow> 'w cli_run" where
  "cli_status c =
     cli_call c ''status'' (clStatus c)
       (\<lambda>r. (cli_line (''initialized: '' @ show_bool (suInitialized r)) @ cli_line (''node_id:     '' @ suNodeId r) @
             cli_line (''role:        '' @ suRole r) @ cli_line (''cluster_id:  '' @ suClusterId r) @
             cli_line (''is_leader:   '' @ show_bool (suIsLeader r)) @ cli_line (''advertise:   '' @ suAdvertiseAddr r) @
             cli_line (''listen:      '' @ suListenAddr r) @ cli_line (''raft:        '' @ suRaftAddr r), CliDone))"

section \<open>Sandboxes\<close>

record create_flags =
  cfgName :: string
  cfgImage :: string
  cfgMemoryMiB :: "32 word"
  cfgVCPUs :: "8 word"
  cfgStart :: bool

definition created_spec :: "create_flags \<Rightarrow> spec" where
  "created_spec f =
     NormalizeSpec (zero_spec\<lparr>spName := cfgName f, spImage := OCIImage (cfgImage f),
                              spResources := \<lparr>resVCPUs = cfgVCPUs f, resMemoryMiB = cfgMemoryMiB f, resDiskSizeMiB = None\<rparr>\<rparr>)"

text \<open>A message without its sandbox panics where the command reads it.\<close>

definition with_sandbox :: "(sandbox_proto \<Rightarrow> string) \<Rightarrow> sandbox_proto option \<Rightarrow> string \<times> cli_end" where
  "with_sandbox out sb = (case sb of None \<Rightarrow> ([], CliPanic) | Some s \<Rightarrow> (out s, CliDone))"

definition cli_sandbox_create :: "'w control_client \<Rightarrow> json_codec \<Rightarrow> create_flags \<Rightarrow> 'w \<Rightarrow> 'w cli_run" where
  "cli_sandbox_create c json f =
     (if trim_space (cfgName f) = [] then cli_fail (errorf ''--name is required'')
      else if cfgImage f = [] then cli_fail (errorf ''--image is required'')
      else
        (case ValidateSpec (created_spec f) of
           Some e \<Rightarrow> cli_fail e
         | None \<Rightarrow>
             cli_call c [] (clSandboxCreate c \<lparr>crSpecJson = jSpec json (created_spec f), crSandboxId = [], crStart = cfgStart f\<rparr>)
               (with_sandbox (\<lambda>sb. cli_line (''sandbox '' @ pbId sb @ '' created (name='' @ pbName sb @ '' node='' @ pbNodeId sb @
                                       '' phase='' @ proto_phase sb @ '')'')))))"

definition cli_sandbox_start :: "'w control_client \<Rightarrow> string \<Rightarrow> 'w \<Rightarrow> 'w cli_run" where
  "cli_sandbox_start c i =
     cli_call c [] (clSandboxStart c i)
       (with_sandbox (\<lambda>sb. cli_line (''sandbox '' @ pbId sb @ '' started (phase='' @ proto_phase sb @ '')'')))"

definition cli_sandbox_stop :: "'w control_client \<Rightarrow> string \<Rightarrow> 'w \<Rightarrow> 'w cli_run" where
  "cli_sandbox_stop c i = cli_call c [] (clSandboxStop c i) (\<lambda>_. ([], CliDone))"

definition cli_sandbox_rm :: "'w control_client \<Rightarrow> string \<Rightarrow> 'w \<Rightarrow> 'w cli_run" where
  "cli_sandbox_rm c i = cli_call c [] (clSandboxRemove c i) (\<lambda>_. ([], CliDone))"

definition sandbox_details :: "json_codec \<Rightarrow> sandbox_proto \<Rightarrow> string" where
  "sandbox_details json p =
     (let sb = FromProto json p; ref = ImageReference (sbSpec sb) in
      cli_line (''id:       '' @ sbID sb) @ cli_line (''name:     '' @ sbName sb) @ cli_line (''node:     '' @ sbNodeID sb) @
      cli_line (''desired:  '' @ sbDesired sb) @ cli_line (''phase:    '' @ stPhase (sbStatus sb)) @
      (if ref \<noteq> [] then cli_line (''image:    '' @ ref) else []) @
      cli_line (''local:    '' @ stLocalName (sbStatus sb)) @
      (if stMessage (sbStatus sb) \<noteq> [] then cli_line (''message:  '' @ stMessage (sbStatus sb)) else []))"

definition cli_sandbox_inspect :: "'w control_client \<Rightarrow> json_codec \<Rightarrow> string \<Rightarrow> 'w \<Rightarrow> 'w cli_run" where
  "cli_sandbox_inspect c json i = cli_call c [] (clSandboxGet c i) (with_sandbox (sandbox_details json))"

text \<open>Listing: of all nodes, of one named by a prefix, or of the local node.\<close>

definition list_scope :: "'w control_client \<Rightarrow> bool \<Rightarrow> string \<Rightarrow> sandbox_proto list \<Rightarrow> 'w \<Rightarrow> 'w \<times> sandbox_proto list result" where
  "list_scope c everywhere nodeArg sandboxes w =
     (if everywhere then (w, Inr sandboxes)
      else if nodeArg \<noteq> [] then
        (case clNodeList c w of
           (w', Inl e) \<Rightarrow> (w', Inl (Wrapped [Lit ''sandbox ls: resolve node: ''] e))
         | (w', Inr nodes) \<Rightarrow>
             (w', case resolveNodeIDPrefix nodes nodeArg of
                    Inl e \<Rightarrow> Inl (Wrapped [Lit ''sandbox ls: ''] e)
                  | Inr nodeID \<Rightarrow> Inr (filterSandboxesByNode sandboxes nodeID)))
      else
        (case clStatus c w of
           (w', Inl e) \<Rightarrow> (w', Inl (Wrapped [Lit ''sandbox ls: status: ''] e))
         | (w', Inr st) \<Rightarrow>
             (w', if \<not> suInitialized st \<or> suNodeId st = []
                  then Inl (errorf ''sandbox ls: local node is not initialized; use --all or join a cluster first'')
                  else Inr (filterSandboxesByNode sandboxes (suNodeId st)))))"

definition cli_sandbox_ls ::
  "'w control_client \<Rightarrow> 'doc list_encoders \<Rightarrow> json_codec \<Rightarrow> bool \<Rightarrow> string \<Rightarrow> string list \<Rightarrow> string \<Rightarrow> 'w \<Rightarrow> 'w cli_run" where
  "cli_sandbox_ls c enc json everywhere nodeArg filters format =
     (if everywhere \<and> nodeArg \<noteq> [] then cli_fail (errorf ''cannot combine --all with --node'')
      else
        (case parseSandboxFilters filters of
           Inl e \<Rightarrow> cli_fail e
         | Inr f \<Rightarrow>
             cli_dial c (\<lambda>w. case clSandboxList c w of
                 (w1, Inl e) \<Rightarrow> cli_fail (Wrapped [Lit ''sandbox ls: ''] e) w1
               | (w1, Inr sandboxes) \<Rightarrow>
                   (case list_scope c everywhere nodeArg sandboxes w1 of
                      (w2, Inl e) \<Rightarrow> cli_fail e w2
                    | (w2, Inr scoped) \<Rightarrow>
                        (case writeSandboxList enc json format (applySandboxFilters json scoped f) of
                           Inl e \<Rightarrow> cli_fail (Wrapped [Lit ''sandbox ls: ''] e) w2
                         | Inr out \<Rightarrow> (w2, out, CliDone))))))"

text \<open>A log's chunks: their text, each on lines of its own, or the chunk itself where it has none.\<close>

definition chunk_text :: "(logs_chunk \<Rightarrow> string) \<Rightarrow> logs_chunk \<Rightarrow> string" where
  "chunk_text enc c =
     (if lcText c \<noteq> [] then lcText c @ (if last (lcText c) = CHR 0x0A then [] else [CHR 0x0A]) else cli_line (enc c))"

definition log_end :: "recv_end \<Rightarrow> cli_end" where
  "log_end fin = (case fin of RecvEOF \<Rightarrow> CliDone | RecvFailed e \<Rightarrow> CliFailed e | RecvOpen \<Rightarrow> CliWaits)"

definition cli_sandbox_logs :: "'w control_client \<Rightarrow> (logs_chunk \<Rightarrow> string) \<Rightarrow> string \<Rightarrow> bool \<Rightarrow> string \<Rightarrow> 'w \<Rightarrow> 'w cli_run" where
  "cli_sandbox_logs c enc i follow sources =
     cli_call c [] (clSandboxLogs c \<lparr>lqSandboxId = i, lqFollow = follow, lqSources = sources, lqLastEventId = []\<rparr>)
       (\<lambda>(chunks, fin). (concat (map (chunk_text enc) chunks), log_end fin))"

section \<open>Nodes\<close>

definition node_rows :: "node_info list \<Rightarrow> string" where
  "node_rows nodes =
     row [''ID'', ''HOSTNAME'', ''TYPE'', ''STATUS'', ''AVAILABILITY'', ''MANAGER STATUS'', ''SANDBOXES''] @
     concat (map (\<lambda>n. row [shortNodeID (niNodeId n), nodeHostname (Some n), niNodeType n, niStatus n, niAvailability n,
                            niManagerStatus n, sandboxCountDisplay (Some n)]) nodes)"

definition cli_node_ls :: "'w control_client \<Rightarrow> (string \<Rightarrow> string) \<Rightarrow> 'w \<Rightarrow> 'w cli_run" where
  "cli_node_ls c align = cli_call c ''node ls'' (clNodeList c) (\<lambda>nodes. (align (node_rows nodes), CliDone))"

definition node_details :: "(int \<Rightarrow> string) \<Rightarrow> node_info \<Rightarrow> string" where
  "node_details rfc3339 n =
     cli_line (''ID: '' @ niNodeId n) @ cli_line (''Hostname: '' @ nodeHostname (Some n)) @ cli_line (''Role: '' @ niRole n) @
     cli_line (''NodeType: '' @ niNodeType n) @ cli_line (''Membership: '' @ niMembership n) @ cli_line (''Availability: '' @ niAvailability n) @
     cli_line (''Status: '' @ niStatus n) @ cli_line (''ManagerStatus: '' @ niManagerStatus n) @ cli_line (''RuntimeAddr: '' @ niRuntimeGrpcAddr n) @
     cli_line (''Sandboxes: '' @ sandboxCountDisplay (Some n)) @
     (if niHeartbeat n > 0 then cli_line (''Heartbeat: '' @ rfc3339 (niHeartbeat n)) else []) @
     cli_line (''PubKeyFingerprint: '' @ niFingerprint n) @
     (if niIssuedAt n > 0 then cli_line (''IssuedAt: '' @ rfc3339 (niIssuedAt n)) else []) @
     (if niExpiresAt n > 0 then cli_line (''ExpiresAt: '' @ rfc3339 (niExpiresAt n)) else []) @
     (if length (niLabels n) > 0 then cli_line ''Labels:'' @ concat (map (\<lambda>(k, v). cli_line (''  '' @ k @ ''='' @ v)) (niLabels n)) else [])"

definition cli_node_inspect :: "'w control_client \<Rightarrow> (int \<Rightarrow> string) \<Rightarrow> string \<Rightarrow> 'w \<Rightarrow> 'w cli_run" where
  "cli_node_inspect c rfc3339 i =
     cli_call c ''node inspect'' (clNodeInspect c i)
       (\<lambda>n. case n of None \<Rightarrow> ([], CliFailed (errorf ''empty response'')) | Some n \<Rightarrow> (node_details rfc3339 n, CliDone))"

text \<open>The commands on several nodes take one after the other and stop at the first that fails.\<close>

fun each_node :: "(string \<Rightarrow> 'w \<Rightarrow> 'w \<times> unit result) \<Rightarrow> string \<Rightarrow> string \<Rightarrow> string list \<Rightarrow> 'w \<Rightarrow> 'w cli_run" where
  "each_node call verb told [] w = (w, [], CliDone)"
| "each_node call verb told (i # ids) w =
     (case call i w of
        (w', Inl e) \<Rightarrow> cli_fail (Wrapped [Lit (''node '' @ verb @ '' ''), Str i, Lit '': ''] e) w'
      | (w', Inr _) \<Rightarrow>
          (case each_node call verb told ids w' of
             (w'', out, en) \<Rightarrow> (w'', cli_line (''Node '' @ i @ '' '' @ told @ ''.'') @ out, en)))"

definition cli_node_promote :: "'w control_client \<Rightarrow> string list \<Rightarrow> 'w \<Rightarrow> 'w cli_run" where
  "cli_node_promote c ids = cli_dial c (each_node (clNodePromote c) ''promote'' ''promoted to manager'' ids)"

definition cli_node_demote :: "'w control_client \<Rightarrow> string list \<Rightarrow> 'w \<Rightarrow> 'w cli_run" where
  "cli_node_demote c ids = cli_dial c (each_node (clNodeDemote c) ''demote'' ''demoted to worker'' ids)"

definition cli_node_rm :: "'w control_client \<Rightarrow> bool \<Rightarrow> string list \<Rightarrow> 'w \<Rightarrow> 'w cli_run" where
  "cli_node_rm c force ids = cli_dial c (each_node (\<lambda>i. clNodeRemove c (i, force)) ''rm'' ''removed'' ids)"

text \<open>The accessors of a missing node in the reply give empty texts.\<close>

definition cli_node_update :: "'w control_client \<Rightarrow> string \<Rightarrow> string \<Rightarrow> string list \<Rightarrow> string list \<Rightarrow> string \<Rightarrow> 'w \<Rightarrow> 'w cli_run" where
  "cli_node_update c i availability labelAdd labelRm role =
     (case parseLabelPairs labelAdd of
        Inl e \<Rightarrow> cli_fail e
      | Inr adds \<Rightarrow>
          if availability = [] \<and> role = [] \<and> length adds = 0 \<and> length labelRm = 0
          then cli_fail (errorf ''specify --availability, --label-add, --label-rm, and/or --role'')
          else
            cli_call c ''node update''
              (clNodeUpdate c \<lparr>uqNodeID = i, uqRole = role, uqAvailability = availability, uqLabelAdd = adds, uqLabelRm = labelRm\<rparr>)
              (\<lambda>n. (cli_line (''Node '' @ shortNodeID (case n of None \<Rightarrow> [] | Some n \<Rightarrow> niNodeId n) @ '' updated (availability='' @
                        (case n of None \<Rightarrow> [] | Some n \<Rightarrow> niAvailability n) @ '' role='' @
                        (case n of None \<Rightarrow> [] | Some n \<Rightarrow> niRole n) @ '').''), CliDone)))"

section \<open>API keys\<close>

definition cli_apikey_create :: "'w control_client \<Rightarrow> string \<Rightarrow> 'w \<Rightarrow> 'w cli_run" where
  "cli_apikey_create c name =
     (if name = [] then cli_fail (errorf ''--name is required'')
      else
        cli_call c ''api-key create'' (clAPIKeyCreate c name)
          (\<lambda>r. (cli_line (''API key created: '' @ kcId r @ '' ('' @ kcName r @ '')'') @ cli_line [] @
                cli_line ''Store this secret now; it will not be shown again:'' @ cli_line [] @ cli_line (''    '' @ kcKey r) @ cli_line [] @
                cli_line ''Export for the Go client:'' @ cli_line [] @ cli_line (''    export CELLAR_API_KEY='' @ kcKey r), CliDone)))"

definition key_rows :: "(int \<Rightarrow> string) \<Rightarrow> key_info list \<Rightarrow> string" where
  "key_rows rfc3339 keys =
     row [''ID'', ''NAME'', ''MASK'', ''CREATED''] @
     concat (map (\<lambda>k. row [kiId k, kiName k, kiMask k, rfc3339 (kiCreatedAt k)]) keys)"

definition cli_apikey_ls :: "'w control_client \<Rightarrow> (string \<Rightarrow> string) \<Rightarrow> (int \<Rightarrow> string) \<Rightarrow> 'w \<Rightarrow> 'w cli_run" where
  "cli_apikey_ls c align rfc3339 = cli_call c ''api-key ls'' (clAPIKeyList c) (\<lambda>keys. (align (key_rows rfc3339 keys), CliDone))"

definition cli_apikey_rm :: "'w control_client \<Rightarrow> string \<Rightarrow> 'w \<Rightarrow> 'w cli_run" where
  "cli_apikey_rm c i = cli_call c ''api-key rm'' (clAPIKeyDelete c i) (\<lambda>_. (cli_line ''API key deleted.'', CliDone))"

section \<open>The binaries\<close>

text \<open>The version line, and whether arguments ask for it before a terminator.\<close>

definition version_String :: "string \<Rightarrow> string \<Rightarrow> string \<Rightarrow> string" where
  "version_String version commit date = version @ '' (commit='' @ commit @ '' date='' @ date @ '')''"

fun Requested :: "string list \<Rightarrow> bool" where
  "Requested [] = False"
| "Requested (a # args) =
     (if a = ''--'' then False else if a = ''-version'' \<or> a = ''--version'' then True else Requested args)"

text \<open>\<open>main\<close> of \<open>cellar\<close>: the error goes to the other stream, and the process ends.\<close>

definition cli_main :: "(string \<Rightarrow> string) \<Rightarrow> 'w cli_run \<Rightarrow> 'w \<times> string \<times> string \<times> nat option" where
  "cli_main quote r =
     (case r of (w, out, en) \<Rightarrow> (w, out, case en of CliFailed e \<Rightarrow> cli_line (error_text quote e) | _ \<Rightarrow> [], exit_code en))"

text \<open>The other two processes: the gateway's configuration from its flags, and how both end.\<close>

definition gateway_flags :: "string \<Rightarrow> string \<Rightarrow> string \<Rightarrow> gw_config" where
  "gateway_flags listen dataDir upstreams =
     \<lparr>gcListenAddr = listen, gcDataDir = dataDir, gcSocketPath = [], gcUpstreams = ParseUpstreams upstreams, gcMaxBodyBytes = 0,
      gcReadyTimeout = 0\<rparr>"

definition ContextCanceled :: go_error where "ContextCanceled = LibraryError ''context canceled''"

definition process_exit :: "go_error option \<Rightarrow> nat" where
  "process_exit err = (if err \<noteq> None \<and> err \<noteq> Some ContextCanceled then 1 else 0)"

section \<open>Several nodes at once\<close>

lemma each_node_spec:
  assumes "each_node call verb told ids w = (w', out, en)"
  shows "\<exists>k \<le> length ids. out = concat (map (\<lambda>i. cli_line (''Node '' @ i @ '' '' @ told @ ''.'')) (take k ids)) \<and>
    (en = CliDone \<longleftrightarrow> k = length ids) \<and> en \<noteq> CliPanic \<and> en \<noteq> CliWaits \<and>
    w' = fold (\<lambda>i w. fst (call i w)) (take (Suc k) ids) w"
  using assms
proof (induction ids arbitrary: w w' out en)
  case (Cons i ids)
  obtain w1 r where c: "call i w = (w1, r)" by (cases "call i w")
  show ?case
  proof (cases r)
    case (Inl e)
    with Cons.prems c show ?thesis by (intro exI [of _ 0]) (auto simp: cli_fail_def)
  next
    case (Inr x)
    obtain w2 out2 en2 where rest: "each_node call verb told ids w1 = (w2, out2, en2)" by (cases "each_node call verb told ids w1") auto
    from Cons.IH [OF rest] obtain k where k: "k \<le> length ids" "out2 = concat (map (\<lambda>i. cli_line (''Node '' @ i @ '' '' @ told @ ''.'')) (take k ids))"
      "en2 = CliDone \<longleftrightarrow> k = length ids" "en2 \<noteq> CliPanic" "en2 \<noteq> CliWaits" "w2 = fold (\<lambda>i w. fst (call i w)) (take (Suc k) ids) w1" by blast
    with Cons.prems c Inr rest show ?thesis by (intro exI [of _ "Suc k"]) auto
  qed
qed (auto intro: exI [of _ 0])

lemma fold_healthy:
  assumes "\<And>i d. healthy load d \<Longrightarrow> healthy load (fst (call i d))" and "healthy load d"
  shows "healthy load (fold (\<lambda>i d. fst (call i d)) ids d)"
  using assms(2) by (induction ids arbitrary: d) (simp_all add: assms(1))

text \<open>A client of the leader's daemon, as far as nodes go.\<close>

definition leader_client :: "ca_loader \<Rightarrow> (role \<Rightarrow> go_error option) \<Rightarrow> gotime \<Rightarrow> node_daemon control_client \<Rightarrow> bool" where
  "leader_client load role_err now c \<longleftrightarrow>
     clNodePromote c = (\<lambda>i d. NodePromote load role_err d i) \<and> clNodeDemote c = (\<lambda>i d. NodeDemote load role_err d i) \<and>
     clNodeRemove c = (\<lambda>(i, force) d. NodeRemove load now d i force)"


text \<open>A client whose node calls reach the demo's leader; it answers nothing else.\<close>

definition unanswered :: "'q \<Rightarrow> 'w \<Rightarrow> 'w \<times> 'r result" where
  "unanswered q w = (w, Inl (status_error Unimplemented ''demo''))"

definition demo_client :: "node_daemon control_client" where
  "demo_client =
     \<lparr>clDial = None, clInit = unanswered, clJoin = unanswered, clLeave = unanswered, clJoinToken = unanswered, clStatus = unanswered (),
      clSandboxCreate = unanswered, clSandboxStart = unanswered, clSandboxStop = unanswered, clSandboxRemove = unanswered,
      clSandboxGet = unanswered, clSandboxList = unanswered (), clSandboxLogs = unanswered, clNodeList = unanswered (),
      clNodeInspect = unanswered, clNodePromote = (\<lambda>i d. NodePromote (\<lambda>_ _. Inl ErrNotLeader) (\<lambda>_. None) d i),
      clNodeDemote = (\<lambda>i d. NodeDemote (\<lambda>_ _. Inl ErrNotLeader) (\<lambda>_. None) d i),
      clNodeRemove = (\<lambda>(i, force) d. NodeRemove (\<lambda>_ _. Inl ErrNotLeader) 7 d i force), clNodeUpdate = unanswered,
      clAPIKeyCreate = unanswered, clAPIKeyList = unanswered (), clAPIKeyDelete = unanswered\<rparr>"


section \<open>What the command line asks for\<close>

lemma cli_call_sends:
  assumes "cli_call c name call answer w = (w', out, en)" and "\<And>e. en \<noteq> CliFailed e"
  shows "clDial c = None \<and> (\<exists>r. call w = (w', Inr r) \<and> answer r = (out, en))"
  using assms by (auto simp: cli_call_def cli_dial_def cli_fail_def split: option.splits prod.splits sum.splits if_splits)

lemma created_spec_parts:
  "spName (created_spec f) = cfgName f" "ImageReference (created_spec f) = cfgImage f"
  by (simp_all add: created_spec_def NormalizeSpec_def OCIImage_def ImageReference_def default_str_def)

text \<open>
  The command line only asks for sandboxes that can be had: a sandbox is requested with
  the name, the image and the start flag that were given and with no identifier, in a spec that is
  valid and in normal form, so that, its encoding being read back, the service's own validation
  accepts it; and when a flag is missing or the spec invalid, nothing is asked.
\<close>

theorem cli_create_sends_valid:
  assumes "json_keeps_spec json (created_spec f)"
    and "cli_sandbox_create c json f w = (w', out, en)"
  shows "(ValidateSpec (created_spec f) \<noteq> None \<or> trim_space (cfgName f) = [] \<or> cfgImage f = [] \<longrightarrow> w' = w \<and> (\<exists>e. en = CliFailed e)) \<and>
    ((\<forall>e. en \<noteq> CliFailed e) \<longrightarrow>
       (\<exists>req spc r. clSandboxCreate c req w = (w', Inr r) \<and> SpecFromJSON json (crSpecJson req) = Inr spc \<and> ValidateSpec spc = None \<and>
          normalized spc \<and> spName spc = cfgName f \<and> ImageReference spc = cfgImage f \<and> crStart req = cfgStart f \<and> crSandboxId req = []))"
proof -
  let ?req = "\<lparr>crSpecJson = jSpec json (created_spec f), crSandboxId = [], crStart = cfgStart f\<rparr>"
  have norm: "normalized (created_spec f)" "NormalizeSpec (created_spec f) = created_spec f"
    by (simp_all add: created_spec_def normalized_NormalizeSpec NormalizeSpec_normalized)
  have read: "SpecFromJSON json (jSpec json (created_spec f)) = Inr (created_spec f)"
    using assms(1) norm(2) by (simp add: SpecFromJSON_def json_keeps_spec_def)
  show ?thesis
  proof (cases "ValidateSpec (created_spec f) \<noteq> None \<or> trim_space (cfgName f) = [] \<or> cfgImage f = []")
    case True
    with assms(2) have "w' = w \<and> (\<exists>e. en = CliFailed e)"
      by (auto simp: cli_sandbox_create_def cli_fail_def split: if_splits)
    then show ?thesis by blast
  next
    case False
    have "\<exists>r. clSandboxCreate c ?req w = (w', Inr r)" if "\<forall>e. en \<noteq> CliFailed e"
      using cli_call_sends [of c "[]" "clSandboxCreate c ?req" _ w w' out en] assms(2) False that
      by (auto simp: cli_sandbox_create_def)
    with False read norm(1) created_spec_parts show ?thesis
      by (auto intro!: exI [of _ ?req] exI [of _ "created_spec f"])
  qed
qed

definition demo_flags :: create_flags where
  "demo_flags = \<lparr>cfgName = ''db'', cfgImage = ''alpine'', cfgMemoryMiB = 0, cfgVCPUs = 0, cfgStart = True\<rparr>"

definition demo_created :: sandbox_proto where
  "demo_created = \<lparr>pbId = ''s1'', pbName = ''db'', pbSlug = ''db'', pbSpecJson = [], pbNodeId = ''n1'', pbDesired = ''running'', pbStatus = None,
     pbEphemeral = False, pbLabelsJson = [], pbCreatedAt = 0, pbUpdatedAt = 0, pbGeneration = 1\<rparr>"

lemma demo_flags_spec: "created_spec demo_flags = NormalizeSpec demo_spec"
  by (simp add: created_spec_def demo_flags_def demo_spec_def zero_spec_def)

theorem cli_create_sends_valid_witness:
  "\<exists>w' out (req :: create_request). cli_sandbox_create (demo_client\<lparr>clSandboxCreate := \<lambda>_ d. (d, Inr (Some demo_created))\<rparr>)
       (demo_json\<lparr>jUnspec := \<lambda>_. Inr (created_spec demo_flags)\<rparr>) demo_flags demo_daemon = (w', out, CliDone) \<and>
     crSandboxId req = [] \<and> (crStart req \<longleftrightarrow> cfgStart demo_flags)"
proof -
  let ?c = "demo_client\<lparr>clSandboxCreate := \<lambda>_ d. (d, Inr (Some demo_created))\<rparr>"
    and ?j = "demo_json\<lparr>jUnspec := \<lambda>_. Inr (created_spec demo_flags)\<rparr>"
  have trim: "trim_space ''db'' = ''db''" by (rule trim_space_plain; simp add: plain_char_def)
  have flags: "cfgName demo_flags = ''db''" "cfgImage demo_flags = ''alpine''" by (simp_all add: demo_flags_def)
  have valid: "ValidateSpec (created_spec demo_flags) = None" by (simp add: demo_flags_spec demo_spec_valid)
  obtain w' out where run: "cli_sandbox_create ?c ?j demo_flags demo_daemon = (w', out, CliDone)"
    by (simp add: cli_sandbox_create_def flags trim valid cli_call_def cli_dial_def demo_client_def with_sandbox_def)
  have keeps: "json_keeps_spec ?j (created_spec demo_flags)"
    by (simp add: json_keeps_spec_def demo_json_def)
  have "\<forall>e. CliDone \<noteq> CliFailed e" by simp
  from mp [OF conjunct2 [OF cli_create_sends_valid [OF keeps run]] this]
  obtain req :: create_request where "crSandboxId req = []" "crStart req = cfgStart demo_flags" by blast
  with run show ?thesis by blast
qed

section \<open>Whose sandboxes are listed\<close>

text \<open>
  Without \<open>--all\<close> a listing is of one node: of the local one, or of the only one that the
  argument names in full or by a prefix; a listing is never silently of the whole cluster.
\<close>

theorem list_scope_one_node:
  assumes "list_scope c False nodeArg sandboxes w = (w', Inr kept)"
  shows "\<exists>node. node \<noteq> [] \<and> kept = filter (\<lambda>sb. pbNodeId sb = node) sandboxes \<and>
    (if nodeArg = [] then \<exists>st. clStatus c w = (w', Inr st) \<and> suInitialized st \<and> suNodeId st = node
     else \<exists>nodes. clNodeList c w = (w', Inr nodes) \<and> node \<in> set (map niNodeId nodes) \<and>
       (node = nodeArg \<or> has_prefix nodeArg node \<and> (\<forall>n \<in> set nodes. has_prefix nodeArg (niNodeId n) \<longrightarrow> niNodeId n = node)))"
proof (cases "nodeArg = []")
  case True
  with assms show ?thesis
    by (auto simp: list_scope_def filterSandboxesByNode_def split: prod.splits sum.splits if_splits)
next
  case False
  with assms obtain nodes node where n: "clNodeList c w = (w', Inr nodes)" "resolveNodeIDPrefix nodes nodeArg = Inr node"
    "kept = filterSandboxesByNode sandboxes node"
    by (auto simp: list_scope_def split: prod.splits sum.splits)
  have "node \<in> set (map niNodeId nodes) \<and> (node = nodeArg \<or> has_prefix nodeArg node \<and>
      (\<forall>n \<in> set nodes. has_prefix nodeArg (niNodeId n) \<longrightarrow> niNodeId n = node))"
  proof (cases "nodeArg \<in> set (map niNodeId nodes)")
    case True
    with n(2) False show ?thesis by (simp add: resolveNodeIDPrefix_def)
  next
    case missing: False
    with n(2) False have one: "filter (has_prefix nodeArg) (map niNodeId nodes) = [node]"
      by (auto simp: resolveNodeIDPrefix_def split: list.splits)
    then have "set (filter (has_prefix nodeArg) (map niNodeId nodes)) = {node}" by simp
    then show ?thesis by auto
  qed
  moreover from this False have "node \<noteq> []" by (auto simp: has_prefix_def)
  ultimately show ?thesis
    using n False by (auto simp: filterSandboxesByNode_def)
qed

theorem list_scope_one_node_witness:
  "list_scope (demo_client\<lparr>clStatus := \<lambda>d. (d, Inr \<lparr>suInitialized = True, suNodeId = ''n1'', suRole = RoleWorker, suClusterId = ''c'',
       suAdvertiseAddr = [], suListenAddr = [], suRaftAddr = [], suIsLeader = False\<rparr>)\<rparr>) False []
     [demo_created, demo_created\<lparr>pbNodeId := ''n2''\<rparr>] demo_daemon = (demo_daemon, Inr [demo_created]) \<and>
   (\<exists>node. node \<noteq> [] \<and> [demo_created] = filter (\<lambda>sb. pbNodeId sb = node) [demo_created, demo_created\<lparr>pbNodeId := ''n2''\<rparr>])"
  (is "?run = ?res \<and> ?ex")
proof -
  have run: "?run = ?res"
    by (simp add: list_scope_def filterSandboxesByNode_def demo_created_def)
  from list_scope_one_node [OF run] have ?ex by blast
  with run show ?thesis by blast
qed

end
