(* ===== verification/Gateway_Http.thy ===== *)
theory Gateway_Http
  imports Gateway_Upstream Spec_Ops
begin

text \<open>
  The gateway's HTTP interface to sandboxes (\<open>internal/gateway/errors.go\<close>, \<open>handlers.go\<close>): how the
  managers' errors become responses, the reading of a request, the waiting for a sandbox that
  starts, and the handlers. A response is kept as its status and the value its JSON encodes.
\<close>

section \<open>Responses\<close>

record cloud_sandbox =
  csID :: string
  csOrgID :: string
  csName :: string
  csSlug :: string
  csStatus :: string
  csSpec :: "spec option"
  csEphemeral :: bool
  csCreatedAt :: "gotime option"
  csStartedAt :: "gotime option"
  csStoppedAt :: "gotime option"
  csLastFailure :: "string option"

record cloud_volume =
  cvID :: string
  cvName :: "string option"
  cvKind :: string
  cvStatus :: string
  cvUsedBytes :: "64 word option"
  cvCapacityBytes :: "64 word option"
  cvLabels :: labels
  cvCreatedAt :: "gotime option"
  cvUpdatedAt :: "gotime option"

record cloud_file =
  cfPath :: string
  cfKind :: string
  cfSize :: int
  cfMode :: "32 word"
  cfUID :: "32 word"
  cfGID :: "32 word"
  cfReadonly :: bool
  cfModifiedAt :: "gotime option"
  cfCreatedAt :: "gotime option"

datatype http_body =
    NoBody
  | ErrorBody string string
  | StatusBody string
  | MessageBody string
  | SandboxBody cloud_sandbox
  | SandboxesBody "cloud_sandbox list" "string option"
  | VolumeBody cloud_volume
  | VolumesBody "cloud_volume list"
  | EntriesBody "cloud_file list"
  | MetadataBody cloud_file
  | ExistsBody bool
  | ChunksBody "string list"

record http_response =
  rsStatus :: nat
  rsBody :: http_body

definition http_json :: "nat \<Rightarrow> http_body \<Rightarrow> http_response" where
  "http_json st b = \<lparr>rsStatus = st, rsBody = b\<rparr>"

definition writeError :: "nat \<Rightarrow> string \<Rightarrow> string \<Rightarrow> http_response" where
  "writeError st code msg = http_json st (ErrorBody code msg)"

section \<open>Errors\<close>

definition grpcCodeToHTTP :: "grpc_code \<Rightarrow> nat" where
  "grpcCodeToHTTP c =
     (if c = OK then 200
      else if c \<in> {InvalidArgument, FailedPrecondition, OutOfRange} then 400
      else if c = Unauthenticated then 401
      else if c = PermissionDenied then 403
      else if c = NotFound then 404
      else if c \<in> {AlreadyExists, Aborted} then 409
      else if c = ResourceExhausted then 429
      else if c = Unimplemented then 501
      else if c = Unavailable then 503
      else if c \<in> {DeadlineExceeded, Canceled} then 504
      else 502)"

definition failedPreconditionHTTP :: "string \<Rightarrow> nat" where
  "failedPreconditionHTTP message =
     (let lower = go_lower message in
      if contains ''spec'' lower \<or> contains ''config'' lower then 400
      else if contains ''owning node'' lower \<or> contains ''not ready'' lower then 503
      else 409)"

definition cloudErrorCode :: "grpc_code \<Rightarrow> string \<Rightarrow> string \<Rightarrow> string" where
  "cloudErrorCode code message kind =
     (let lower = go_lower message in
      case code of
        NotFound \<Rightarrow>
          (if kind = ''volume'' then ''volume_not_found''
           else if kind = ''volume_file'' then ''volume_file_not_found''
           else if contains ''volume'' lower then ''volume_not_found''
           else if contains ''file'' lower \<or> contains ''no such'' lower then ''volume_file_not_found''
           else ''sandbox_not_found'')
      | AlreadyExists \<Rightarrow> ''name_already_exists''
      | InvalidArgument \<Rightarrow>
          (if contains ''spec'' lower \<or> contains ''config'' lower then ''invalid_sandbox_config''
           else if contains ''volume'' lower \<and> contains ''path'' lower then ''invalid_volume_path''
           else ''invalid_request'')
      | FailedPrecondition \<Rightarrow>
          (if contains ''spec'' lower \<or> contains ''config'' lower then ''invalid_sandbox_config''
           else if contains ''owning node'' lower \<or> contains ''not ready'' lower then ''unavailable''
           else ''failed_precondition'')
      | Unauthenticated \<Rightarrow> ''unauthenticated''
      | PermissionDenied \<Rightarrow> ''permission_denied''
      | ResourceExhausted \<Rightarrow> ''resource_exhausted''
      | Unimplemented \<Rightarrow> ''unimplemented''
      | Unavailable \<Rightarrow> ''unavailable''
      | DeadlineExceeded \<Rightarrow> ''deadline_exceeded''
      | Canceled \<Rightarrow> ''canceled''
      | c \<Rightarrow> code_name c)"

definition writeGRPCErrorKind :: "(string \<Rightarrow> string) \<Rightarrow> go_error \<Rightarrow> string \<Rightarrow> http_response" where
  "writeGRPCErrorKind quote err kind =
     (case status_code err of
        None \<Rightarrow> writeError 502 ''unavailable'' (error_text quote err)
      | Some c \<Rightarrow>
          (let msg = status_message quote err;
               httpStatus = (if c = FailedPrecondition then failedPreconditionHTTP msg else grpcCodeToHTTP c) in
           writeError httpStatus (cloudErrorCode c msg kind) msg))"

section \<open>Requests\<close>

text \<open>Headers, query parameters and path parameters by name, and the reads of the body.\<close>

record http_request =
  rqHeader :: "string \<Rightarrow> string"
  rqQuery :: "string \<Rightarrow> string"
  rqParam :: "string \<Rightarrow> string"
  rqBody :: "(string \<times> read_end) list"

definition gw_extractAPIKey :: "http_request \<Rightarrow> string option" where
  "gw_extractAPIKey rq =
     (let k = trim_space (rqHeader rq ''X-Api-Key'') in
      if k \<noteq> [] then Some k
      else
        (let auth = rqHeader rq ''Authorization'' in
         if length auth > length ''Bearer '' \<and> go_fold (take (length ''Bearer '') auth) = go_fold ''Bearer '' then
           (let k' = trim_space (drop (length ''Bearer '') auth) in if k' \<noteq> [] then Some k' else None)
         else None))"

definition key_required :: http_response where
  "key_required = writeError 401 ''unauthenticated'' ''API key required''"

definition queryBool :: "http_request \<Rightarrow> string \<Rightarrow> bool" where
  "queryBool rq name = (let v = go_lower (trim_space (rqQuery rq name)) in v = ''1'' \<or> v = ''true'' \<or> v = ''yes'')"

text \<open>\<open>io.ReadAll\<close> of an \<open>io.LimitReader\<close>: a limit that is not positive reads nothing.\<close>

fun limit_read :: "int \<Rightarrow> (string \<times> read_end) list \<Rightarrow> string \<times> go_error option" where
  "limit_read n [] = ([], None)"
| "limit_read n ((buf, en) # rest) =
     (if n \<le> 0 then ([], None)
      else if int (length buf) > n then (take (nat n) buf, None)
      else
        (case en of
           ReadEOF \<Rightarrow> (buf, None)
         | ReadFailed e \<Rightarrow> (buf, Some e)
         | ReadMore \<Rightarrow> (case limit_read (n - int (length buf)) rest of (b, e) \<Rightarrow> (buf @ b, e))))"

text \<open>The check of a body's size that every handler with a JSON body starts with.\<close>

definition read_body :: "int \<Rightarrow> http_request \<Rightarrow> string \<Rightarrow> http_response + string" where
  "read_body maxb rq noBody =
     (case limit_read (wrap64 (maxb + 1)) (rqBody rq) of
        (_, Some _) \<Rightarrow> Inl (writeError 400 ''invalid_request'' ''read body'')
      | (body, None) \<Rightarrow>
          if int (length body) > maxb then Inl (writeError 413 ''invalid_request'' ''request body too large'')
          else if length body = 0 then Inl (writeError 400 ''invalid_request'' noBody)
          else Inr body)"

definition parseWaitTimeout :: "http_request \<Rightarrow> duration" where
  "parseWaitTimeout rq =
     (let raw = trim_space (rqQuery rq ''wait_timeout'') in
      if raw = [] then DefaultWaitTimeout
      else (case parse_uint 64 raw of
              None \<Rightarrow> DefaultWaitTimeout
            | Some secs \<Rightarrow> wrap64 (wrap64 (int secs) * second)))"

section \<open>A sandbox as its client sees it\<close>

definition rfc3339Ptr :: "gotime \<Rightarrow> gotime option" where
  "rfc3339Ptr t = (if is_zero_time t then None else Some t)"

definition empty_cloud_sandbox :: "string \<Rightarrow> cloud_sandbox" where
  "empty_cloud_sandbox orgID =
     \<lparr>csID = [], csOrgID = orgID, csName = [], csSlug = [], csStatus = [], csSpec = None, csEphemeral = False,
      csCreatedAt = None, csStartedAt = None, csStoppedAt = None, csLastFailure = None\<rparr>"

definition toCloudSandbox :: "json_codec \<Rightarrow> sandbox_proto option \<Rightarrow> string \<Rightarrow> cloud_sandbox" where
  "toCloudSandbox json p orgID =
     (case p of
        None \<Rightarrow> empty_cloud_sandbox orgID
      | Some sb \<Rightarrow>
          (let s = FromProto json sb;
               spec = (if length (pbSpecJson sb) > 0
                       then (case SpecFromJSON json (pbSpecJson sb) of Inr parsed \<Rightarrow> parsed | Inl _ \<Rightarrow> sbSpec s)
                       else sbSpec s) in
           \<lparr>csID = sbID s, csOrgID = orgID, csName = sbName s, csSlug = or_string (sbSlug s) (sbName s),
            csStatus = or_string (stPhase (sbStatus s)) PhaseCreated, csSpec = Some (SpecRedacted spec),
            csEphemeral = sbEphemeral s, csCreatedAt = Some (sbCreatedAt s),
            csStartedAt = rfc3339Ptr (stStartedAt (sbStatus s)), csStoppedAt = rfc3339Ptr (stStoppedAt (sbStatus s)),
            csLastFailure = (if stPhase (sbStatus s) = PhaseFailed \<and> stMessage (sbStatus s) \<noteq> []
                             then Some (stMessage (sbStatus s)) else None)\<rparr>))"

section \<open>The server\<close>

text \<open>
  A server's configuration and the library it renders with. A request's upstream calls happen one
  after another: at the \<open>i\<close>-th the gateway and the managers are as in the \<open>i\<close>-th moment, the clock
  reads \<open>moNow\<close> after it, and \<open>moDone\<close> is the request's context 200 ms later, given its deadline.
\<close>

record gw_server =
  gsCfg :: gw_config
  gsJson :: json_codec
  gsQuote :: "string \<Rightarrow> string"

record moment =
  moEnv :: gw_env
  moApi :: manager_api
  moNow :: gotime
  moDone :: "gotime \<Rightarrow> go_error option"

type_synonym moments = "nat \<Rightarrow> moment"

definition handleHealthz :: http_response where
  "handleHealthz = http_json 200 (StatusBody ''ok'')"

definition handleReadyz :: "gw_server \<Rightarrow> moment \<Rightarrow> http_response" where
  "handleReadyz sv m =
     (case up_Ready (moEnv m) (moApi m) of
        Some e \<Rightarrow> writeError 503 ''unavailable'' (error_text (gsQuote sv) e)
      | None \<Rightarrow> http_json 200 (StatusBody ''ready''))"

definition writeSandbox :: "gw_server \<Rightarrow> moment \<Rightarrow> nat \<Rightarrow> sandbox_proto option \<Rightarrow> pool \<Rightarrow> pool \<times> http_response" where
  "writeSandbox sv m st sb u =
     (case up_ClusterID (moEnv m) u of (u1, org) \<Rightarrow> (u1, http_json st (SandboxBody (toCloudSandbox (gsJson sv) sb org))))"

section \<open>Waiting for a sandbox to run\<close>

text \<open>
  The loop returns the number of its last poll with what the code returns; it is a partial function,
  None where it would poll for ever. A second after the wait's own time the context is cancelled.
\<close>

definition phase_of :: "sandbox_proto option \<Rightarrow> string" where
  "phase_of sb = (case sb of None \<Rightarrow> [] | Some s \<Rightarrow> (case pbStatus s of None \<Rightarrow> [] | Some st \<Rightarrow> spPhase st))"

definition failure_message :: "sandbox_proto option \<Rightarrow> string" where
  "failure_message sb =
     or_string (case sb of None \<Rightarrow> [] | Some s \<Rightarrow> (case pbStatus s of None \<Rightarrow> [] | Some st \<Rightarrow> spMessage st)) ''sandbox failed''"

type_synonym wait_result = "nat \<times> pool \<times> sandbox_proto option \<times> go_error option"

text \<open>One turn of the loop: what the wait ends with, or the pool to go on with.\<close>

definition poll_once :: "moments \<Rightarrow> string \<Rightarrow> string \<Rightarrow> gotime \<Rightarrow> gotime \<Rightarrow> nat \<Rightarrow> pool \<Rightarrow> wait_result + pool" where
  "poll_once ms apiKey i deadline ctxDeadline k u =
     (case up_Get (moEnv (ms k)) (moApi (ms k)) apiKey i u of
        (_, u1, Inl e) \<Rightarrow> Inl (k, u1, None, Some e)
      | (_, u1, Inr sb) \<Rightarrow>
          if phase_of sb = PhaseRunning then Inl (k, u1, sb, None)
          else if phase_of sb = PhaseFailed then Inl (k, u1, sb, Some (status_error FailedPrecondition (failure_message sb)))
          else if phase_of sb = PhaseStopped \<or> phase_of sb = PhaseStopping
          then Inl (k, u1, sb, Some (status_error FailedPrecondition ''sandbox stopped before reaching running''))
          else if moNow (ms k) > deadline
          then Inl (k, u1, sb, Some (status_error DeadlineExceeded ''timed out waiting for sandbox to become running''))
          else
            (case moDone (ms k) ctxDeadline of
               Some e \<Rightarrow> Inl (k, u1, sb, Some e)
             | None \<Rightarrow> Inr u1))"

partial_function (option) wait_loop ::
  "moments \<Rightarrow> string \<Rightarrow> string \<Rightarrow> gotime \<Rightarrow> gotime \<Rightarrow> nat \<Rightarrow> pool \<Rightarrow> wait_result option" where
  "wait_loop ms apiKey i deadline ctxDeadline k u =
     (case poll_once ms apiKey i deadline ctxDeadline k u of
        Inl r \<Rightarrow> Some r
      | Inr u1 \<Rightarrow> wait_loop ms apiKey i deadline ctxDeadline (Suc k) u1)"

definition waitForRunning ::
  "moments \<Rightarrow> string \<Rightarrow> string \<Rightarrow> gotime \<Rightarrow> gotime \<Rightarrow> duration \<Rightarrow> nat \<Rightarrow> pool \<Rightarrow> wait_result option" where
  "waitForRunning ms apiKey i now ctxDeadline timeout k u =
     wait_loop ms apiKey i (now + (if timeout \<le> 0 then DefaultWaitTimeout else timeout)) ctxDeadline k u"

text \<open>The end of the handlers that may wait: the sandbox, or what the waiting ended with.\<close>

definition wait_and_write ::
  "gw_server \<Rightarrow> moments \<Rightarrow> http_request \<Rightarrow> string \<Rightarrow> string \<Rightarrow> nat \<Rightarrow> pool \<Rightarrow> (pool \<times> http_response) option" where
  "wait_and_write sv ms rq apiKey i k u =
     (let timeout = parseWaitTimeout rq; now = moNow (ms (k - 1)) in
      case waitForRunning ms apiKey i now (now + wrap64 (timeout + second)) timeout k u of
        None \<Rightarrow> None
      | Some (k1, u1, sb, Some e) \<Rightarrow> Some (u1, writeGRPCErrorKind (gsQuote sv) e ''sandbox'')
      | Some (k1, u1, sb, None) \<Rightarrow> Some (writeSandbox sv (ms k1) 200 sb u1))"

section \<open>Handlers\<close>

definition handleCreateSandbox :: "gw_server \<Rightarrow> moments \<Rightarrow> http_request \<Rightarrow> pool \<Rightarrow> (pool \<times> http_response) option" where
  "handleCreateSandbox sv ms rq u =
     (case gw_extractAPIKey rq of
        None \<Rightarrow> Some (u, key_required)
      | Some apiKey \<Rightarrow>
          (case read_body (gcMaxBodyBytes (gsCfg sv)) rq ''request body required'' of
             Inl r \<Rightarrow> Some (u, r)
           | Inr body \<Rightarrow>
               (case SpecFromJSON (gsJson sv) body of
                  Inl e \<Rightarrow> Some (u, writeError 400 ''invalid_sandbox_config'' (error_text (gsQuote sv) e))
                | Inr spec \<Rightarrow>
                    (case ValidateSpec spec of
                       Some e \<Rightarrow> Some (u, writeError 400 ''invalid_sandbox_config'' (error_text (gsQuote sv) e))
                     | None \<Rightarrow>
                         (case up_Create (moEnv (ms 0)) (moApi (ms 0)) apiKey body (queryBool rq ''start'') u of
                            (_, u1, Inl e) \<Rightarrow> Some (u1, writeGRPCErrorKind (gsQuote sv) e ''sandbox'')
                          | (_, u1, Inr sb) \<Rightarrow>
                              if trim_space (rqQuery rq ''wait_for'') = ''running'' \<and> sb \<noteq> None
                              then wait_and_write sv ms rq apiKey (pbId (the sb)) 1 u1
                              else Some (writeSandbox sv (ms 0) 200 sb u1))))))"

definition handleListSandboxes :: "gw_server \<Rightarrow> moments \<Rightarrow> http_request \<Rightarrow> pool \<Rightarrow> pool \<times> http_response" where
  "handleListSandboxes sv ms rq u =
     (case gw_extractAPIKey rq of
        None \<Rightarrow> (u, key_required)
      | Some apiKey \<Rightarrow>
          (let raw = trim_space (rqQuery rq ''limit'') in
           case (if raw = [] then Some 0 else parse_uint 32 raw) of
             None \<Rightarrow> (u, writeError 400 ''invalid_request'' ''invalid limit'')
           | Some n \<Rightarrow>
               (case up_List (moEnv (ms 0)) (moApi (ms 0)) apiKey (rqQuery rq ''cursor'') (word_of_nat n) (rqQuery rq ''labels'') u of
                  (_, u1, Inl e) \<Rightarrow> (u1, writeGRPCErrorKind (gsQuote sv) e ''sandbox'')
                | (_, u1, Inr (sbs, nxt)) \<Rightarrow>
                    (case up_ClusterID (moEnv (ms 0)) u1 of
                       (u2, org) \<Rightarrow>
                         (u2, http_json 200 (SandboxesBody (map (\<lambda>sb. toCloudSandbox (gsJson sv) (Some sb) org) sbs)
                                               (if nxt \<noteq> [] then Some nxt else None)))))))"

definition handleGetSandbox :: "gw_server \<Rightarrow> moments \<Rightarrow> http_request \<Rightarrow> pool \<Rightarrow> pool \<times> http_response" where
  "handleGetSandbox sv ms rq u =
     (case gw_extractAPIKey rq of
        None \<Rightarrow> (u, key_required)
      | Some apiKey \<Rightarrow>
          (case up_Get (moEnv (ms 0)) (moApi (ms 0)) apiKey (rqParam rq ''id'') u of
             (_, u1, Inl e) \<Rightarrow> (u1, writeGRPCErrorKind (gsQuote sv) e ''sandbox'')
           | (_, u1, Inr sb) \<Rightarrow> writeSandbox sv (ms 0) 200 sb u1))"

definition handleGetSandboxByName :: "gw_server \<Rightarrow> moments \<Rightarrow> http_request \<Rightarrow> pool \<Rightarrow> pool \<times> http_response" where
  "handleGetSandboxByName sv ms rq u =
     (case gw_extractAPIKey rq of
        None \<Rightarrow> (u, key_required)
      | Some apiKey \<Rightarrow>
          (case up_GetByName (moEnv (ms 0)) (moApi (ms 0)) apiKey (rqParam rq ''name'') u of
             (_, u1, Inl e) \<Rightarrow> (u1, writeGRPCErrorKind (gsQuote sv) e ''sandbox'')
           | (_, u1, Inr sb) \<Rightarrow> writeSandbox sv (ms 0) 200 sb u1))"

definition handleStartSandbox :: "gw_server \<Rightarrow> moments \<Rightarrow> http_request \<Rightarrow> pool \<Rightarrow> (pool \<times> http_response) option" where
  "handleStartSandbox sv ms rq u =
     (case gw_extractAPIKey rq of
        None \<Rightarrow> Some (u, key_required)
      | Some apiKey \<Rightarrow>
          (case up_Start (moEnv (ms 0)) (moApi (ms 0)) apiKey (rqParam rq ''id'') u of
             (_, u1, Inl e) \<Rightarrow> Some (u1, writeGRPCErrorKind (gsQuote sv) e ''sandbox'')
           | (_, u1, Inr sb) \<Rightarrow>
               if trim_space (rqQuery rq ''wait_for'') = ''running''
               then wait_and_write sv ms rq apiKey (rqParam rq ''id'') 1 u1
               else Some (writeSandbox sv (ms 0) 200 sb u1)))"

text \<open>
  The handlers by name look the sandbox up first and then use its identifier. Reading it from an
  answer without a sandbox panics, which \<open>gin.Recovery\<close> turns into a bare 500.
\<close>

definition recovered :: http_response where
  "recovered = http_json 500 NoBody"

definition handleStartSandboxByName :: "gw_server \<Rightarrow> moments \<Rightarrow> http_request \<Rightarrow> pool \<Rightarrow> (pool \<times> http_response) option" where
  "handleStartSandboxByName sv ms rq u =
     (case gw_extractAPIKey rq of
        None \<Rightarrow> Some (u, key_required)
      | Some apiKey \<Rightarrow>
          (case up_GetByName (moEnv (ms 0)) (moApi (ms 0)) apiKey (rqParam rq ''name'') u of
             (_, u1, Inl e) \<Rightarrow> Some (u1, writeGRPCErrorKind (gsQuote sv) e ''sandbox'')
           | (_, u1, Inr None) \<Rightarrow> Some (u1, recovered)
           | (_, u1, Inr (Some named)) \<Rightarrow>
               (case up_Start (moEnv (ms 1)) (moApi (ms 1)) apiKey (pbId named) u1 of
                  (_, u2, Inl e) \<Rightarrow> Some (u2, writeGRPCErrorKind (gsQuote sv) e ''sandbox'')
                | (_, u2, Inr sb) \<Rightarrow>
                    if trim_space (rqQuery rq ''wait_for'') = ''running''
                    then (case sb of
                            None \<Rightarrow> Some (u2, recovered)
                          | Some s \<Rightarrow> wait_and_write sv ms rq apiKey (pbId s) 2 u2)
                    else Some (writeSandbox sv (ms 1) 200 sb u2))))"

definition handleStopSandbox :: "gw_server \<Rightarrow> moments \<Rightarrow> http_request \<Rightarrow> pool \<Rightarrow> pool \<times> http_response" where
  "handleStopSandbox sv ms rq u =
     (case gw_extractAPIKey rq of
        None \<Rightarrow> (u, key_required)
      | Some apiKey \<Rightarrow>
          (case up_Stop (moEnv (ms 0)) (moApi (ms 0)) apiKey (rqParam rq ''id'') u of
             (_, u1, Inl e) \<Rightarrow> (u1, writeGRPCErrorKind (gsQuote sv) e ''sandbox'')
           | (_, u1, Inr sb) \<Rightarrow> writeSandbox sv (ms 0) 200 sb u1))"

definition handleStopSandboxByName :: "gw_server \<Rightarrow> moments \<Rightarrow> http_request \<Rightarrow> pool \<Rightarrow> pool \<times> http_response" where
  "handleStopSandboxByName sv ms rq u =
     (case gw_extractAPIKey rq of
        None \<Rightarrow> (u, key_required)
      | Some apiKey \<Rightarrow>
          (case up_GetByName (moEnv (ms 0)) (moApi (ms 0)) apiKey (rqParam rq ''name'') u of
             (_, u1, Inl e) \<Rightarrow> (u1, writeGRPCErrorKind (gsQuote sv) e ''sandbox'')
           | (_, u1, Inr None) \<Rightarrow> (u1, recovered)
           | (_, u1, Inr (Some named)) \<Rightarrow>
               (case up_Stop (moEnv (ms 1)) (moApi (ms 1)) apiKey (pbId named) u1 of
                  (_, u2, Inl e) \<Rightarrow> (u2, writeGRPCErrorKind (gsQuote sv) e ''sandbox'')
                | (_, u2, Inr sb) \<Rightarrow> writeSandbox sv (ms 1) 200 sb u2)))"

definition handleDeleteSandbox :: "gw_server \<Rightarrow> moments \<Rightarrow> http_request \<Rightarrow> pool \<Rightarrow> pool \<times> http_response" where
  "handleDeleteSandbox sv ms rq u =
     (case gw_extractAPIKey rq of
        None \<Rightarrow> (u, key_required)
      | Some apiKey \<Rightarrow>
          (case up_Remove (moEnv (ms 0)) (moApi (ms 0)) apiKey (rqParam rq ''id'') u of
             (_, u1, Inl e) \<Rightarrow> (u1, writeGRPCErrorKind (gsQuote sv) e ''sandbox'')
           | (_, u1, Inr _) \<Rightarrow> (u1, http_json 200 (MessageBody ''sandbox deleted''))))"

definition handleDeleteSandboxByName :: "gw_server \<Rightarrow> moments \<Rightarrow> http_request \<Rightarrow> pool \<Rightarrow> pool \<times> http_response" where
  "handleDeleteSandboxByName sv ms rq u =
     (case gw_extractAPIKey rq of
        None \<Rightarrow> (u, key_required)
      | Some apiKey \<Rightarrow>
          (case up_GetByName (moEnv (ms 0)) (moApi (ms 0)) apiKey (rqParam rq ''name'') u of
             (_, u1, Inl e) \<Rightarrow> (u1, writeGRPCErrorKind (gsQuote sv) e ''sandbox'')
           | (_, u1, Inr None) \<Rightarrow> (u1, recovered)
           | (_, u1, Inr (Some named)) \<Rightarrow>
               (case up_Remove (moEnv (ms 1)) (moApi (ms 1)) apiKey (pbId named) u1 of
                  (_, u2, Inl e) \<Rightarrow> (u2, writeGRPCErrorKind (gsQuote sv) e ''sandbox'')
                | (_, u2, Inr _) \<Rightarrow> (u2, http_json 200 (MessageBody ''sandbox deleted'')))))"

section \<open>Waiting ends, and with a running sandbox\<close>

text \<open>The clock and the pauses: between two polls that did not end the wait at least 200 ms pass.\<close>

definition poll_pause :: duration where "poll_pause = 200000000"

definition clock_advances :: "moments \<Rightarrow> nat \<Rightarrow> bool" where
  "clock_advances ms k \<longleftrightarrow> (\<forall>j \<ge> k. moNow (ms j) + poll_pause \<le> moNow (ms (Suc j)))"

lemma poll_once_again:
  "poll_once ms key i dl cdl k u = Inr u1 \<Longrightarrow> moNow (ms k) \<le> dl"
  by (auto simp: poll_once_def split: prod.splits sum.splits if_splits option.splits)

lemma poll_once_ended:
  "poll_once ms key i dl cdl k u = Inl r \<Longrightarrow> fst r = k"
  by (auto simp: poll_once_def split: prod.splits sum.splits if_splits option.splits)

lemma poll_once_running:
  "poll_once ms key i dl cdl k u = Inl (k', u1, sb, None) \<Longrightarrow>
     k' = k \<and> phase_of sb = PhaseRunning \<and> (\<exists>called. up_Get (moEnv (ms k)) (moApi (ms k)) key i u = (called, u1, Inr sb))"
  by (auto simp: poll_once_def split: prod.splits sum.splits if_splits option.splits)

lemma wait_loop_ends:
  assumes "clock_advances ms k0" and "k0 \<le> k" and "dl < moNow (ms k) + int n * poll_pause"
  shows "\<exists>r. wait_loop ms key i dl cdl k u = Some r \<and> k \<le> fst r \<and> fst r \<le> k + n"
  using assms(2,3)
proof (induction n arbitrary: k u)
  case 0
  then obtain r where "poll_once ms key i dl cdl k u = Inl r"
    using poll_once_again [of ms key i dl cdl k u] by (cases "poll_once ms key i dl cdl k u") auto
  then show ?case
    using poll_once_ended by (subst wait_loop.simps) fastforce
next
  case (Suc n)
  show ?case
  proof (cases "poll_once ms key i dl cdl k u")
    case (Inl r)
    then show ?thesis
      using poll_once_ended by (subst wait_loop.simps) fastforce
  next
    case (Inr u1)
    have "moNow (ms k) + poll_pause \<le> moNow (ms (Suc k))"
      using assms(1) Suc.prems(1) by (simp add: clock_advances_def)
    then have "dl < moNow (ms (Suc k)) + int n * poll_pause"
      using Suc.prems(2) by (simp add: algebra_simps)
    then have "\<exists>r. wait_loop ms key i dl cdl (Suc k) u1 = Some r \<and> Suc k \<le> fst r \<and> fst r \<le> Suc k + n"
      using Suc.prems(1) by (intro Suc.IH) simp_all
    with Inr show ?thesis by (subst wait_loop.simps) fastforce
  qed
qed

lemma wait_loop_running:
  "wait_loop ms key i dl cdl k u = Some r \<Longrightarrow> snd (snd (snd r)) = None \<longrightarrow>
     phase_of (fst (snd (snd r))) = PhaseRunning \<and>
     (\<exists>called v. up_Get (moEnv (ms (fst r))) (moApi (ms (fst r))) key i v = (called, fst (snd r), Inr (fst (snd (snd r)))))"
proof (induct rule: wait_loop.raw_induct [rotated, consumes 1, case_names step])
  case (step wl ms key i dl cdl k u r)
  show ?case
  proof (cases "poll_once ms key i dl cdl k u")
    case (Inl r')
    with step(2) have "r' = r" by simp
    with Inl poll_once_running [of ms key i dl cdl k u "fst r" "fst (snd r)" "fst (snd (snd r))"] show ?thesis
      by (cases r) (auto intro: exI [of _ u])
  next
    case (Inr u1)
    with step show ?thesis by simp
  qed
qed

text \<open>
  Claim C29: waiting for a sandbox ends, in bounded time, with a sandbox that runs. Whatever the
  managers answer, \<open>waitForRunning\<close> returns after at most one poll more than there are pauses of
  200 ms in its time; and when it returns no error, the sandbox it returns is the answer of its
  last poll, in phase running.
\<close>

theorem wait_ends_running:
  fixes timeout :: duration
  defines "t \<equiv> if timeout \<le> 0 then DefaultWaitTimeout else timeout"
  assumes "clock_advances ms k" and "now \<le> moNow (ms k)"
  shows "\<exists>k' u' sb err. waitForRunning ms key i now cdl timeout k u = Some (k', u', sb, err) \<and>
    k \<le> k' \<and> int (k' - k) \<le> t div poll_pause + 1 \<and>
    (err = None \<longrightarrow> phase_of sb = PhaseRunning \<and> (\<exists>called v. up_Get (moEnv (ms k')) (moApi (ms k')) key i v = (called, u', Inr sb)))"
proof -
  have t: "waitForRunning ms key i now cdl timeout k u = wait_loop ms key i (now + t) cdl k u" "0 < t"
    by (simp_all add: t_def waitForRunning_def DefaultWaitTimeout_def second_def)
  define n where "n = nat (t div poll_pause + 1)"
  have "t < (t div poll_pause + 1) * poll_pause"
    by (simp add: poll_pause_def)
  moreover have "int n = t div poll_pause + 1"
    using t(2) by (simp add: n_def poll_pause_def)
  ultimately have "now + t < moNow (ms k) + int n * poll_pause"
    using assms(3) by simp
  from wait_loop_ends [OF assms(2) order.refl this, of key i cdl u] obtain r where
    r: "wait_loop ms key i (now + t) cdl k u = Some r" "k \<le> fst r" "fst r \<le> k + n" by blast
  obtain k' u' sb err where "r = (k', u', sb, err)" by (metis prod_cases4)
  with r wait_loop_running [of ms key i "now + t" cdl k u r] t(1) \<open>int n = t div poll_pause + 1\<close>
  show ?thesis by auto
qed

text \<open>A sandbox that starts between two polls, one second apart.\<close>

definition demo_sandbox_proto :: "string \<Rightarrow> sandbox_proto" where
  "demo_sandbox_proto phase =
     \<lparr>pbId = ''s1'', pbName = ''web'', pbSlug = ''web'', pbSpecJson = ''{}web'', pbNodeId = ''n1'', pbDesired = DesiredRunning,
      pbStatus = Some \<lparr>spPhase = phase, spLocalName = [], spMessage = [], spStartedAt = 0, spStoppedAt = 0, spUpdatedAt = 0\<rparr>,
      pbEphemeral = False, pbLabelsJson = [], pbCreatedAt = 0, pbUpdatedAt = 0, pbGeneration = 1\<rparr>"

definition answer_rpc :: "'r \<Rightarrow> ('q, 'r) rpc" where
  "answer_rpc r cfg i addr md q = \<lparr>atDial = None, atAnswer = Inr r, atExpired = False, atNow = 0\<rparr>"

definition demo_moments :: "nat \<Rightarrow> moments" where
  "demo_moments n k =
     \<lparr>moEnv = demo_up_env,
      moApi = demo_manager_api\<lparr>maStart := answer_rpc (Some (demo_sandbox_proto PhasePending)),
                maGet := answer_rpc (Some (demo_sandbox_proto (if k < n then PhasePending else PhaseRunning)))\<rparr>,
      moNow = int k * second,
      moDone = (\<lambda>d. if d \<le> int k * second + poll_pause then Some (LibraryError ''context deadline exceeded'') else None)\<rparr>"

lemma demo_clock: "clock_advances (demo_moments n) k"
  by (simp add: clock_advances_def demo_moments_def poll_pause_def second_def algebra_simps)

lemma api_call_first:
  assumes "geResolve env = Inr (addrs, ca)" and "addrs \<noteq> []"
    and "ClientTLSFromPEMs (geTls env) [] [] ca TLSServerName = Inr cfg"
  shows "\<exists>called u'. api_call env (answer_rpc r) key q u = (called, u', Inr r)"
proof -
  have "pickOrder (geNow env) addrs u \<noteq> []" using assms(2) by (auto simp: pickOrder_def Let_def)
  then obtain a rest where "pickOrder (geNow env) addrs u = a # rest" by (cases "pickOrder (geNow env) addrs u") simp_all
  with assms show ?thesis by (simp add: api_call_def withConn_def answer_rpc_def)
qed

lemma demo_env_tls: "ClientTLSFromPEMs (geTls demo_up_env) [] [] ''ca'' TLSServerName =
    Inr (zero_tls\<lparr>tcRoots := Some ''ca'', tcServerName := TLSServerName\<rparr>)" "geResolve demo_up_env = Inr ([''m1'', ''m2''], ''ca'')"
  by (simp_all add: demo_up_env_def demo_gw_env_def ClientTLSFromPEMs_def)

theorem wait_ends_running_witness:
  "\<exists>k' u' sb err. waitForRunning (demo_moments 3) ''k'' ''s1'' 0 (91 * second) (90 * second) 1 new_pool = Some (k', u', sb, err) \<and>
     1 \<le> k' \<and> int (k' - 1) \<le> 451"
  using wait_ends_running [OF demo_clock [of 3 1], of 0 "''k''" "''s1''" "91 * second" "90 * second" new_pool]
  by (auto simp: demo_moments_def second_def poll_pause_def)

lemma error_body: "\<exists>code msg. rsBody (writeGRPCErrorKind quote e kind) = ErrorBody code msg"
  by (simp add: writeGRPCErrorKind_def writeError_def http_json_def Let_def split: option.split)

lemma key_required_body [simp]: "rsBody key_required = ErrorBody ''unauthenticated'' ''API key required''"
  by (simp add: key_required_def writeError_def http_json_def)

lemma error_not_sandbox [simp]: "rsBody (writeGRPCErrorKind quote e kind) \<noteq> SandboxBody s"
  using error_body [of quote e kind] by auto

lemma written_sandbox:
  "writeSandbox sv m st sb u = (u', r) \<Longrightarrow> rsStatus r = st \<and> (\<exists>org. rsBody r = SandboxBody (toCloudSandbox (gsJson sv) sb org))"
  by (auto simp: writeSandbox_def http_json_def split: prod.splits)

lemma cloud_status:
  "csStatus (toCloudSandbox json sb org) = (if sb = None then [] else or_string (phase_of sb) PhaseCreated)"
  by (auto simp: toCloudSandbox_def empty_cloud_sandbox_def phase_of_def FromProto_def StatusFromProto_def zero_status_def
      Let_def split: option.split)

lemma waited_sandbox:
  assumes "wait_and_write sv ms rq key i k u = Some (u', r)" and "rsBody r = SandboxBody s"
  shows "csStatus s = PhaseRunning \<and> rsStatus r = 200"
proof -
  obtain w where w: "waitForRunning ms key i (moNow (ms (k - 1))) (moNow (ms (k - 1)) + wrap64 (parseWaitTimeout rq + second))
      (parseWaitTimeout rq) k u = Some w"
    using assms(1) by (cases "waitForRunning ms key i (moNow (ms (k - 1))) (moNow (ms (k - 1)) + wrap64 (parseWaitTimeout rq + second))
      (parseWaitTimeout rq) k u") (auto simp: wait_and_write_def Let_def)
  obtain k1 u1 sb err where p: "w = (k1, u1, sb, err)" by (metis prod_cases4)
  have none: "err = None"
    using assms w p by (cases err) (auto simp: wait_and_write_def Let_def)
  then have run: "phase_of sb = PhaseRunning"
    using wait_loop_running [OF w [unfolded waitForRunning_def]] p by simp
  have wr: "writeSandbox sv (ms k1) 200 sb u1 = (u', r)"
    using assms(1) w p none by (simp add: wait_and_write_def Let_def)
  have "sb \<noteq> None" using run by (cases sb) (simp_all add: phase_of_def)
  with written_sandbox [OF wr] assms(2) run show ?thesis
    by (auto simp: cloud_status or_string_def)
qed

text \<open>
  When a client that asked to wait gets a sandbox, it runs: the handlers that start or
  create one and were asked for \<open>wait_for=running\<close> answer with a sandbox only in that state; the
  one exception is the empty value, for a manager that created a sandbox and returned none.
\<close>

theorem waited_for_running:
  assumes "trim_space (rqQuery rq ''wait_for'') = ''running''"
    and "h \<in> {handleStartSandbox, handleStartSandboxByName, handleCreateSandbox}"
    and "h sv ms rq u = Some (u', r)" and "rsBody r = SandboxBody s"
  shows "rsStatus r = 200 \<and> (csStatus s = ''running'' \<or> (h = handleCreateSandbox \<and> s = empty_cloud_sandbox (csOrgID s)))"
proof -
  consider "handleStartSandbox sv ms rq u = Some (u', r)" | "handleStartSandboxByName sv ms rq u = Some (u', r)"
    | "h = handleCreateSandbox" "handleCreateSandbox sv ms rq u = Some (u', r)"
    using assms(2,3) by auto
  then show ?thesis
  proof cases
    case 1
    then obtain key u1 where "wait_and_write sv ms rq key (rqParam rq ''id'') 1 u1 = Some (u', r)"
      using assms(1,4) by (auto simp: handleStartSandbox_def split: option.splits prod.splits sum.splits)
    from waited_sandbox [OF this assms(4)] show ?thesis by simp
  next
    case 2
    then obtain key i u1 where "wait_and_write sv ms rq key i 2 u1 = Some (u', r)"
      using assms(1,4) by (auto simp: handleStartSandboxByName_def recovered_def http_json_def split: option.splits prod.splits sum.splits)
    from waited_sandbox [OF this assms(4)] show ?thesis by simp
  next
    case 3
    then consider (w) key i u1 where "wait_and_write sv ms rq key i 1 u1 = Some (u', r)"
      | (n) u1 where "writeSandbox sv (ms 0) 200 None u1 = (u', r)"
      using assms(1,4) by (auto simp: handleCreateSandbox_def read_body_def writeError_def http_json_def
          split: option.splits prod.splits sum.splits if_splits)
    then show ?thesis
    proof cases
      case w
      from waited_sandbox [OF this assms(4)] show ?thesis by simp
    next
      case n
      with written_sandbox [OF n] assms(4) 3(1) show ?thesis
        by (auto simp: toCloudSandbox_def empty_cloud_sandbox_def)
    qed
  qed
qed

definition demo_server :: gw_server where
  "demo_server =
     \<lparr>gsCfg = \<lparr>gcListenAddr = '':8080'', gcDataDir = ''/d'', gcSocketPath = ''/s'', gcUpstreams = [], gcMaxBodyBytes = 16,
               gcReadyTimeout = 3 * second\<rparr>,
      gsJson = demo_json, gsQuote = id\<rparr>"

definition demo_http_request :: "string \<Rightarrow> http_request" where
  "demo_http_request secs =
     \<lparr>rqHeader = (\<lambda>n. if n = ''X-Api-Key'' then ''k'' else []),
      rqQuery = (\<lambda>n. if n = ''wait_for'' then ''running'' else if n = ''wait_timeout'' then secs else []),
      rqParam = (\<lambda>_. ''s1''), rqBody = []\<rparr>"

lemma demo_trims: "trim_space ''k'' = ''k''" "trim_space ''running'' = ''running''" "trim_space ''0'' = ''0''"
  by (rule trim_space_plain; simp add: plain_char_def)+

lemma demo_get:
  "\<exists>called u'. up_Get (moEnv (demo_moments n k)) (moApi (demo_moments n k)) key i u =
     (called, u', Inr (Some (demo_sandbox_proto (if k < n then PhasePending else PhaseRunning))))"
  "\<exists>called u'. up_Start (moEnv (demo_moments n k)) (moApi (demo_moments n k)) key i u =
     (called, u', Inr (Some (demo_sandbox_proto PhasePending)))"
proof -
  have first: "\<exists>called u'. api_call demo_up_env (answer_rpc r) key (i :: string) u = (called, u', Inr r)" for r :: "sandbox_proto option"
    by (rule api_call_first [OF demo_env_tls(2) _ demo_env_tls(1)]) simp
  show "\<exists>called u'. up_Get (moEnv (demo_moments n k)) (moApi (demo_moments n k)) key i u =
     (called, u', Inr (Some (demo_sandbox_proto (if k < n then PhasePending else PhaseRunning))))"
    using first by (simp add: up_Get_def demo_moments_def)
  show "\<exists>called u'. up_Start (moEnv (demo_moments n k)) (moApi (demo_moments n k)) key i u =
     (called, u', Inr (Some (demo_sandbox_proto PhasePending)))"
    using first by (simp add: up_Start_def demo_moments_def)
qed

theorem waited_for_running_witness:
  "\<exists>u' r s. handleStartSandbox demo_server (demo_moments 0) (demo_http_request []) new_pool = Some (u', r) \<and>
     rsBody r = SandboxBody s \<and> csStatus s = ''running''"
proof -
  let ?ms = "demo_moments 0"
  obtain c1 u1 where st: "up_Start (moEnv (?ms 0)) (moApi (?ms 0)) ''k'' ''s1'' new_pool = (c1, u1, Inr (Some (demo_sandbox_proto PhasePending)))"
    using demo_get(2) by blast
  obtain c2 u2 where gt: "up_Get (moEnv (?ms 1)) (moApi (?ms 1)) ''k'' ''s1'' u1 = (c2, u2, Inr (Some (demo_sandbox_proto PhaseRunning)))"
    using demo_get(1) [of 0 1 "''k''" "''s1''" u1] by (elim exE) simp
  have "poll_once ?ms ''k'' ''s1'' dl cdl 1 u1 = Inl (1, u2, Some (demo_sandbox_proto PhaseRunning), None)" for dl cdl
    by (simp add: poll_once_def gt [simplified] phase_of_def demo_sandbox_proto_def)
  then have "wait_loop ?ms ''k'' ''s1'' dl cdl 1 u1 = Some (1, u2, Some (demo_sandbox_proto PhaseRunning), None)" for dl cdl
    by (subst wait_loop.simps) simp
  then have run: "handleStartSandbox demo_server ?ms (demo_http_request []) new_pool =
      Some (writeSandbox demo_server (?ms 1) 200 (Some (demo_sandbox_proto PhaseRunning)) u2)"
    using st by (simp add: handleStartSandbox_def gw_extractAPIKey_def demo_http_request_def demo_trims Let_def wait_and_write_def waitForRunning_def)
  obtain u' r where w: "writeSandbox demo_server (?ms 1) 200 (Some (demo_sandbox_proto PhaseRunning)) u2 = (u', r)"
    by (metis prod.exhaust)
  then obtain s where s: "rsBody r = SandboxBody s" using written_sandbox by blast
  have q: "trim_space (rqQuery (demo_http_request []) ''wait_for'') = ''running''"
    by (simp add: demo_http_request_def demo_trims)
  have same: "handleStartSandbox demo_server ?ms (demo_http_request []) new_pool = Some (u', r)"
    by (simp only: run w)
  have ne: "csStatus (toCloudSandbox demo_json (Some (demo_sandbox_proto PhaseRunning)) org) \<noteq> []" for org
    by (simp add: cloud_status phase_of_def demo_sandbox_proto_def or_string_def)
  have "csStatus s \<noteq> []" using written_sandbox [OF w] s ne by (auto simp: demo_server_def)
  have "csStatus s = ''running'' \<or> s = empty_cloud_sandbox (csOrgID s)"
    using waited_for_running [where h = handleStartSandbox, OF q _ same s] by blast
  then have "csStatus s = ''running''"
  proof
    assume "s = empty_cloud_sandbox (csOrgID s)"
    from arg_cong [OF this, of csStatus] have "csStatus s = []"
      by (simp only: empty_cloud_sandbox_def cloud_sandbox.simps)
    with \<open>csStatus s \<noteq> []\<close> show ?thesis by (rule notE)
  qed
  with same s show ?thesis by blast
qed

section \<open>Wait times\<close>

lemma wrap64_shift: "wrap64 (z + 2 ^ 64 * m) = wrap64 z"
proof -
  have "z + 2 ^ 64 * m + 2 ^ 63 = (z + 2 ^ 63) + 2 ^ 64 * m" by simp
  then show ?thesis by (simp only: wrap64_def mod_mult_self2)
qed

lemma wrap64_mult: "wrap64 (wrap64 x * y) = wrap64 (x * y)"
proof -
  have "wrap64 x * y = x * y + 2 ^ 64 * (- ((x + 2 ^ 63) div 2 ^ 64) * y)"
    by (simp add: wrap64_def minus_div_mult_eq_mod [symmetric] algebra_simps)
  then show ?thesis by (simp only: wrap64_shift)
qed

text \<open>
  A wait of whole seconds is taken at its value up to 9223372036 seconds, the largest
  that a duration holds; a text that is no number is the default; what is larger wraps around.
\<close>

theorem wait_timeout_bounds:
  assumes "trim_space (rqQuery rq ''wait_timeout'') \<noteq> []"
  shows "(case parse_uint 64 (trim_space (rqQuery rq ''wait_timeout'')) of
      None \<Rightarrow> parseWaitTimeout rq = DefaultWaitTimeout
    | Some secs \<Rightarrow> is_int64 (parseWaitTimeout rq) \<and> parseWaitTimeout rq = wrap64 (int secs * second) \<and>
        (secs \<le> 9223372036 \<longleftrightarrow> parseWaitTimeout rq = int secs * second))"
proof (cases "parse_uint 64 (trim_space (rqQuery rq ''wait_timeout''))")
  case (Some secs)
  let ?d = "parseWaitTimeout rq"
  have "?d = wrap64 (wrap64 (int secs) * second)"
    using assms Some by (simp add: parseWaitTimeout_def)
  moreover have "wrap64 (wrap64 (int secs) * second) = wrap64 (int secs * second)" by (rule wrap64_mult)
  ultimately have d: "?d = wrap64 (int secs * second)" by simp
  then have r: "is_int64 ?d" by (simp add: wrap64_range)
  have "secs \<le> 9223372036 \<longleftrightarrow> ?d = int secs * second"
  proof
    assume "secs \<le> 9223372036"
    then have "is_int64 (int secs * second)"
      by (simp add: is_int64_def min_int64_def max_int64_def second_def)
    then show "?d = int secs * second" using d by (simp add: wrap64_id)
  next
    assume "?d = int secs * second"
    with r have "int secs * second \<le> max_int64" by (simp add: is_int64_def)
    then show "secs \<le> 9223372036" by (simp add: max_int64_def second_def)
  qed
  with d r Some show ?thesis by simp
qed (use assms in \<open>simp add: parseWaitTimeout_def\<close>)

lemma demo_seconds:
  "trim_space ''9223372037'' = ''9223372037''" "parse_uint 64 ''9223372037'' = Some 9223372037"
  "trim_space ''30'' = ''30''" "parse_uint 64 ''30'' = Some 30" "parse_uint 64 ''0'' = Some 0"
  by ((rule trim_space_plain; simp add: plain_char_def) | simp add: parse_uint_def)+

theorem wait_timeout_bounds_witness:
  "parseWaitTimeout (demo_http_request ''30'') = 30 * second"
  using wait_timeout_bounds [of "demo_http_request ''30''"] by (simp add: demo_http_request_def demo_seconds)

text \<open>
  The wait's default does not help a client that sends \<open>wait_timeout=0\<close>: the loop would wait 90 s,
  but the context was given 0 s and one more, and the client is told, with the code of a bad
  gateway, that the context expired, while the sandbox was starting.
\<close>

lemma zero_wait_cut_short:
  "parseWaitTimeout (demo_http_request ''0'') = 0"
  "\<exists>u'. wait_and_write demo_server (demo_moments 3) (demo_http_request ''0'') ''k'' ''s1'' 1 u =
     Some (u', writeError 502 ''unavailable'' ''context deadline exceeded'')"
proof -
  show z: "parseWaitTimeout (demo_http_request ''0'') = 0"
    by (simp add: parseWaitTimeout_def demo_http_request_def demo_trims demo_seconds wrap64_def)
  obtain c u1 where gt: "up_Get (moEnv (demo_moments 3 1)) (moApi (demo_moments 3 1)) ''k'' ''s1'' u =
      (c, u1, Inr (Some (demo_sandbox_proto PhasePending)))"
    using demo_get(1) [of 3 1 "''k''" "''s1''" u] by (elim exE) simp
  have "poll_once (demo_moments 3) ''k'' ''s1'' (90 * second) second 1 u =
      Inl (1, u1, Some (demo_sandbox_proto PhasePending), Some (LibraryError ''context deadline exceeded''))"
    using gt by (simp add: poll_once_def) (simp add: phase_of_def demo_sandbox_proto_def demo_moments_def second_def poll_pause_def)
  then have "waitForRunning (demo_moments 3) ''k'' ''s1'' 0 second 0 1 u =
      Some (1, u1, Some (demo_sandbox_proto PhasePending), Some (LibraryError ''context deadline exceeded''))"
    by (simp add: waitForRunning_def DefaultWaitTimeout_def wait_loop.simps)
  moreover have "moNow (demo_moments 3 0) = 0" "wrap64 second = second"
    by (simp_all add: demo_moments_def wrap64_def second_def)
  ultimately show "\<exists>u'. wait_and_write demo_server (demo_moments 3) (demo_http_request ''0'') ''k'' ''s1'' 1 u =
     Some (u', writeError 502 ''unavailable'' ''context deadline exceeded'')"
    by (simp add: wait_and_write_def z writeGRPCErrorKind_def)
qed

section \<open>Bodies\<close>

lemma limit_read_all:
  "body_ends body \<Longrightarrow> 0 < n \<Longrightarrow> limit_read n body =
     (take (nat n) (concat (map fst body)), None)"
proof (induction body arbitrary: n)
  case (Cons b reads)
  obtain buf en where b: "b = (buf, en)" by (cases b)
  consider "int (length buf) > n" | "int (length buf) \<le> n" "en = ReadEOF" "reads = []"
    | "int (length buf) \<le> n" "en = ReadMore" "reads \<noteq> []" "body_ends reads"
    using Cons.prems(1) b by (cases "reads = []"; cases "int (length buf) > n") (simp_all add: body_ends_Cons)
  then show ?case
  proof cases
    case 1
    with b Cons.prems(2) show ?thesis by simp
  next
    case 2
    with b Cons.prems(2) show ?thesis by simp
  next
    case 3
    show ?thesis
    proof (cases "int (length buf) = n")
      case True
      have "limit_read 0 reads = ([], None)" using 3(3) by (cases reads) auto
      with True b 3 Cons.prems(2) show ?thesis by auto
    next
      case False
      with 3 Cons.IH [OF 3(4), of "n - int (length buf)"] b Cons.prems(2) show ?thesis
        by (simp add: nat_diff_distrib)
    qed
  qed
qed simp

text \<open>
  A handler acts on the whole body or not at all: a body that arrives without an error is
  handed on complete if its size is between one byte and the configured limit; any other is refused
  with 400 or 413, so a truncated body is never taken for a request.
\<close>

theorem read_body_whole:
  assumes "body_ends (rqBody rq)" and "0 \<le> maxb" and "maxb < max_int64"
  shows "read_body maxb rq none =
    (let b = concat (map fst (rqBody rq)) in
     if int (length b) > maxb then Inl (writeError 413 ''invalid_request'' ''request body too large'')
     else if b = [] then Inl (writeError 400 ''invalid_request'' none)
     else Inr b)"
proof -
  have w: "wrap64 (maxb + 1) = maxb + 1"
    using assms(2,3) by (intro wrap64_id) (simp add: is_int64_def min_int64_def max_int64_def)
  have "limit_read (maxb + 1) (rqBody rq) = (take (nat (maxb + 1)) (concat (map fst (rqBody rq))), None)"
    using assms(2) by (intro limit_read_all [OF assms(1)]) simp
  with assms(2) show ?thesis
    by (auto simp: read_body_def w Let_def min_def)
qed

theorem read_body_whole_witness:
  "read_body 16 (demo_http_request []\<lparr>rqBody := [(''{'', ReadMore), (''}'', ReadEOF)]\<rparr>) ''invalid JSON'' = Inr ''{}''"
  using read_body_whole [of "demo_http_request []\<lparr>rqBody := [(''{'', ReadMore), (''}'', ReadEOF)]\<rparr>" 16 "''invalid JSON''"]
  by (simp add: body_ends_def max_int64_def)

section \<open>Secrets\<close>

lemma erase_normalize: "erase_values (NormalizeSpec s) = NormalizeSpec (erase_values s)"
  by (simp add: erase_values_def NormalizeSpec_def normalize_network_def split: option.split)

lemma normalize_wf: "spec_wf (NormalizeSpec s) = spec_wf s"
  by (simp add: spec_wf_def NormalizeSpec_def)

text \<open>
  Claim C30: the values of secrets do not leave the cluster through the gateway: what a client is
  sent for a sandbox has every secret value empty, and it is the same for two sandboxes whose specs
  differ only in such values, so nothing of them can be learned from it.
\<close>

theorem responses_keep_secrets:
  assumes "jUnspec json b1 = Inr s" and "jUnspec json b2 = Inr t" and "b1 \<noteq> []" and "b2 \<noteq> []"
    and "spec_wf s" and "spec_wf t" and "erase_values s = erase_values t"
  shows "toCloudSandbox json (Some (p\<lparr>pbSpecJson := b1\<rparr>)) org = toCloudSandbox json (Some (p\<lparr>pbSpecJson := b2\<rparr>)) org \<and>
    (\<forall>sp sc. csSpec (toCloudSandbox json (Some (p\<lparr>pbSpecJson := b1\<rparr>)) org) = Some sp \<and> nsSecrets (spNetwork sp) = Some sc \<longrightarrow>
       (\<forall>e \<in> set (scEntries sc). seValue e = []))"
proof -
  have "SpecRedacted (NormalizeSpec s) = erase_values (NormalizeSpec s)" "SpecRedacted (NormalizeSpec t) = erase_values (NormalizeSpec t)"
    using assms(5,6) by (simp_all add: SpecRedacted_erase normalize_wf)
  moreover have "erase_values (NormalizeSpec s) = erase_values (NormalizeSpec t)"
    using assms(7) by (simp add: erase_normalize)
  moreover have "\<forall>sc. nsSecrets (spNetwork (erase_values x)) = Some sc \<longrightarrow> (\<forall>e \<in> set (scEntries sc). seValue e = [])" for x
    by (auto simp: erase_values_def redact_entries_def)
  ultimately show ?thesis
    using assms(1-4) by (simp add: toCloudSandbox_def FromProto_def SpecFromJSON_def Let_def)
qed

definition secret_json :: json_codec where
  "secret_json = demo_json\<lparr>jUnspec := \<lambda>b. Inr (demo_secret_spec b)\<rparr>"

theorem responses_keep_secrets_witness:
  "toCloudSandbox secret_json (Some (demo_sandbox_proto PhaseRunning\<lparr>pbSpecJson := ''hunter2''\<rparr>)) ''c1'' =
   toCloudSandbox secret_json (Some (demo_sandbox_proto PhaseRunning\<lparr>pbSpecJson := ''swordfish''\<rparr>)) ''c1''"
  using responses_keep_secrets [of secret_json "''hunter2''" "demo_secret_spec ''hunter2''" "''swordfish''" "demo_secret_spec ''swordfish''"
      "demo_sandbox_proto PhaseRunning" "''c1''"]
  by (simp add: secret_json_def demo_secret_spec_def zero_spec_def spec_wf_def erase_values_def redact_entries_def)

end
