(* ===== verification/Gateway_Files.thy ===== *)
theory Gateway_Files
  imports Gateway_Http Runtime_Server "HOL-Library.Sublist"
begin

text \<open>
  The gateway's HTTP interface to volumes and their files (\<open>internal/gateway/handlers_fs.go\<close>), and
  the streams of \<open>handlers.go\<close>: the logs of a sandbox as server-sent events and the relay to its
  agent over a web socket.
\<close>

section \<open>Paths in headers\<close>

text \<open>\<open>base64.RawURLEncoding\<close> and \<open>base64.URLEncoding\<close>, decoding.\<close>

definition b64url_val :: "char \<Rightarrow> nat option" where
  "b64url_val c =
     (let n = of_char c :: nat in
      if 65 \<le> n \<and> n \<le> 90 then Some (n - 65)
      else if 97 \<le> n \<and> n \<le> 122 then Some (n - 71)
      else if 48 \<le> n \<and> n \<le> 57 then Some (n + 4)
      else if n = 45 then Some 62
      else if n = 95 then Some 63
      else None)"

definition b64_bytes :: "nat \<Rightarrow> nat list \<Rightarrow> string" where
  "b64_bytes k vs =
     (let n = foldl (\<lambda>a v. 64 * a + v) 0 vs in
      take k [char_of (n div 65536), char_of (n div 256 mod 256), char_of (n mod 256)])"

fun b64_raw :: "string \<Rightarrow> string option" where
  "b64_raw [] = Some []"
| "b64_raw [a] = None"
| "b64_raw [a, b] =
     (case (b64url_val a, b64url_val b) of (Some x, Some y) \<Rightarrow> Some (b64_bytes 1 [x, y, 0, 0]) | _ \<Rightarrow> None)"
| "b64_raw [a, b, c] =
     (case (b64url_val a, b64url_val b, b64url_val c) of
        (Some x, Some y, Some z) \<Rightarrow> Some (b64_bytes 2 [x, y, z, 0]) | _ \<Rightarrow> None)"
| "b64_raw (a # b # c # d # s) =
     (case (b64url_val a, b64url_val b, b64url_val c, b64url_val d, b64_raw s) of
        (Some x, Some y, Some z, Some w, Some r) \<Rightarrow> Some (b64_bytes 3 [x, y, z, w] @ r) | _ \<Rightarrow> None)"

fun b64_padded :: "string \<Rightarrow> string option" where
  "b64_padded [] = Some []"
| "b64_padded (a # b # c # d # s) =
     (if s = [] \<and> d = CHR ''='' then (if c = CHR ''='' then b64_raw [a, b] else b64_raw [a, b, c])
      else
        (case (b64_raw [a, b, c, d], b64_padded s) of (Some p, Some r) \<Rightarrow> Some (p @ r) | _ \<Rightarrow> None))"
| "b64_padded s = None"

definition strip_newlines :: "string \<Rightarrow> string" where
  "strip_newlines s = filter (\<lambda>c. c \<noteq> cr \<and> c \<noteq> lf) s"

definition headerFilePath :: string where "headerFilePath = ''x-msb-file-path''"
definition headerFileRecursive :: string where "headerFileRecursive = ''x-msb-file-recursive''"

definition decodeMSBPath :: "http_request \<Rightarrow> http_response + string" where
  "decodeMSBPath rq =
     (let raw = trim_space (rqHeader rq headerFilePath) in
      if raw = [] then Inl (writeError 400 ''invalid_request'' ''x-msb-file-path header required'')
      else
        (case (case b64_raw (strip_newlines raw) of Some b \<Rightarrow> Some b | None \<Rightarrow> b64_padded (strip_newlines raw)) of
           None \<Rightarrow> Inl (writeError 400 ''invalid_volume_path'' ''invalid x-msb-file-path encoding'')
         | Some path \<Rightarrow>
             if path = [] then Inl (writeError 400 ''invalid_volume_path'' ''path is empty'') else Inr path))"

definition recursiveHeader :: "http_request \<Rightarrow> bool" where
  "recursiveHeader rq =
     (let v = go_lower (trim_space (rqHeader rq headerFileRecursive)) in v = ''1'' \<or> v = ''true'' \<or> v = ''yes'')"

section \<open>JSON bodies\<close>

record volume_body =
  vbName :: string
  vbCapacityGiB :: "32 word option"
  vbLabels :: labels

text \<open>What \<open>encoding/json\<close> makes of a body, None where it refuses it.\<close>

record body_codec =
  bcVolume :: "string \<Rightarrow> volume_body option"
  bcPath :: "string \<Rightarrow> string option"
  bcCopy :: "string \<Rightarrow> (string \<times> string) option"

definition readJSONBody :: "int \<Rightarrow> (string \<Rightarrow> 'b option) \<Rightarrow> http_request \<Rightarrow> http_response + 'b" where
  "readJSONBody maxb decode rq =
     (case read_body maxb rq ''invalid JSON'' of
        Inl r \<Rightarrow> Inl r
      | Inr body \<Rightarrow>
          (case decode body of
             None \<Rightarrow> Inl (writeError 400 ''invalid_request'' ''invalid JSON'')
           | Some b \<Rightarrow> Inr b))"

section \<open>Responses\<close>

definition toCloudVolume :: "json_codec \<Rightarrow> volume_proto option \<Rightarrow> cloud_volume" where
  "toCloudVolume json p =
     (case p of
        None \<Rightarrow> \<lparr>cvID = [], cvName = None, cvKind = [], cvStatus = [], cvUsedBytes = None, cvCapacityBytes = None,
                cvLabels = [], cvCreatedAt = None, cvUpdatedAt = None\<rparr>
      | Some p \<Rightarrow>
          (let v = VolumeFromProto json p in
           \<lparr>cvID = volID v, cvName = (if volName v \<noteq> [] then Some (volName v) else None), cvKind = volKind v,
            cvStatus = volStatus v, cvUsedBytes = volUsedBytes v, cvCapacityBytes = volCapacityBytes v,
            cvLabels = volLabels v, cvCreatedAt = Some (volCreatedAt v), cvUpdatedAt = Some (volUpdatedAt v)\<rparr>))"

definition fsTimePtr :: "int \<Rightarrow> gotime option" where
  "fsTimePtr nanos = (if nanos = 0 then None else Some (from_unix_nano nanos))"

definition zero_cloud_file :: cloud_file where
  "zero_cloud_file = \<lparr>cfPath = [], cfKind = [], cfSize = 0, cfMode = 0, cfUID = 0, cfGID = 0, cfReadonly = False,
     cfModifiedAt = None, cfCreatedAt = None\<rparr>"

definition metaToCloud :: "fs_metadata option \<Rightarrow> cloud_file" where
  "metaToCloud m =
     (case m of
        None \<Rightarrow> zero_cloud_file
      | Some m \<Rightarrow>
          \<lparr>cfPath = fmPath m, cfKind = fmKind m, cfSize = fmSize m, cfMode = fmMode m, cfUID = fmUid m, cfGID = fmGid m,
           cfReadonly = fmReadonly m, cfModifiedAt = fsTimePtr (fmModified m), cfCreatedAt = fsTimePtr (fmCreated m)\<rparr>)"

definition entryToCloud :: "fs_entry \<Rightarrow> cloud_file" where
  "entryToCloud e = zero_cloud_file\<lparr>cfPath := fePath e, cfKind := feKind e, cfSize := feSize e, cfMode := feMode e,
     cfModifiedAt := fsTimePtr (feModified e)\<rparr>"

section \<open>Volumes\<close>

definition handleListVolumes :: "gw_server \<Rightarrow> moments \<Rightarrow> http_request \<Rightarrow> pool \<Rightarrow> pool \<times> http_response" where
  "handleListVolumes sv ms rq u =
     (case gw_extractAPIKey rq of
        None \<Rightarrow> (u, key_required)
      | Some apiKey \<Rightarrow>
          (case up_ListVolumes (moEnv (ms 0)) (moApi (ms 0)) apiKey u of
             (_, u1, Inl e) \<Rightarrow> (u1, writeGRPCErrorKind (gsQuote sv) e ''volume'')
           | (_, u1, Inr vols) \<Rightarrow> (u1, http_json 200 (VolumesBody (map (\<lambda>v. toCloudVolume (gsJson sv) (Some v)) vols)))))"

definition handleCreateVolume :: "gw_server \<Rightarrow> body_codec \<Rightarrow> moments \<Rightarrow> http_request \<Rightarrow> pool \<Rightarrow> pool \<times> http_response" where
  "handleCreateVolume sv bc ms rq u =
     (case gw_extractAPIKey rq of
        None \<Rightarrow> (u, key_required)
      | Some apiKey \<Rightarrow>
          (case readJSONBody (gcMaxBodyBytes (gsCfg sv)) (bcVolume bc) rq of
             Inl r \<Rightarrow> (u, r)
           | Inr body \<Rightarrow>
               if trim_space (vbName body) = [] then (u, writeError 400 ''invalid_request'' ''name is required'')
               else
                 (case up_CreateVolume (moEnv (ms 0)) (moApi (ms 0)) apiKey
                         \<lparr>vcName = vbName body, vcCapacityGib = vbCapacityGiB body,
                          vcLabelsJson = labels_out (gsJson sv) (vbLabels body)\<rparr> u of
                    (_, u1, Inl e) \<Rightarrow> (u1, writeGRPCErrorKind (gsQuote sv) e ''volume'')
                  | (_, u1, Inr vol) \<Rightarrow> (u1, http_json 200 (VolumeBody (toCloudVolume (gsJson sv) vol))))))"

definition handleGetDefaultVolume :: "gw_server \<Rightarrow> moments \<Rightarrow> http_request \<Rightarrow> pool \<Rightarrow> pool \<times> http_response" where
  "handleGetDefaultVolume sv ms rq u =
     (case gw_extractAPIKey rq of
        None \<Rightarrow> (u, key_required)
      | Some apiKey \<Rightarrow>
          (case up_GetDefaultVolume (moEnv (ms 0)) (moApi (ms 0)) apiKey u of
             (_, u1, Inl e) \<Rightarrow> (u1, writeGRPCErrorKind (gsQuote sv) e ''volume'')
           | (_, u1, Inr vol) \<Rightarrow> (u1, http_json 200 (VolumeBody (toCloudVolume (gsJson sv) vol)))))"

definition handleDeleteVolume :: "gw_server \<Rightarrow> moments \<Rightarrow> http_request \<Rightarrow> pool \<Rightarrow> pool \<times> http_response" where
  "handleDeleteVolume sv ms rq u =
     (case gw_extractAPIKey rq of
        None \<Rightarrow> (u, key_required)
      | Some apiKey \<Rightarrow>
          (case up_DeleteVolume (moEnv (ms 0)) (moApi (ms 0)) apiKey (rqParam rq ''id'') u of
             (_, u1, Inl e) \<Rightarrow> (u1, writeGRPCErrorKind (gsQuote sv) e ''volume'')
           | (_, u1, Inr msg) \<Rightarrow> (u1, http_json 200 (MessageBody (if msg = [] then ''volume deleted'' else msg)))))"

section \<open>Files\<close>

text \<open>What a node's runtime answers, and the way to it.\<close>

record node_calls =
  ncLink :: runtime_link
  ncRead :: "(string, string list \<times> recv_end) runtime_call"
  ncWrite :: write_stream
  ncStat :: "(string, fs_metadata option) runtime_call"
  ncList :: "(string, fs_entry list) runtime_call"
  ncExists :: "(string, bool) runtime_call"
  ncMkdir :: "(string, unit) runtime_call"
  ncRemove :: "(string \<times> bool, unit) runtime_call"
  ncCopy :: "(string \<times> string, unit) runtime_call"
  ncRename :: "(string \<times> string, unit) runtime_call"

text \<open>
  Copying a stream to the client: its chunks up to its end, whether that is regular or an error,
  stopping after a chunk when the client has gone.
\<close>

fun copy_chunks :: "(nat \<Rightarrow> bool) \<Rightarrow> nat \<Rightarrow> string list \<Rightarrow> string list" where
  "copy_chunks gone i [] = []"
| "copy_chunks gone i (c # cs) =
     (if length c = 0 then copy_chunks gone i cs
      else if gone i then [c] else c # copy_chunks gone (i + 1) cs)"

definition handleVolumeFsGetContent ::
  "gw_server \<Rightarrow> node_calls \<Rightarrow> (nat \<Rightarrow> bool) \<Rightarrow> moments \<Rightarrow> http_request \<Rightarrow> pool \<Rightarrow> pool \<times> http_response" where
  "handleVolumeFsGetContent sv nc gone ms rq u =
     (case gw_extractAPIKey rq of
        None \<Rightarrow> (u, key_required)
      | Some apiKey \<Rightarrow>
          (case decodeMSBPath rq of
             Inl r \<Rightarrow> (u, r)
           | Inr path \<Rightarrow>
               (case up_VolumeFsRead (moEnv (ms 0)) (moApi (ms 0)) (ncLink nc) (ncRead nc) apiKey (rqParam rq ''id'') path u of
                  (u1, Inl e) \<Rightarrow> (u1, writeGRPCErrorKind (gsQuote sv) e ''volume_file'')
                | (u1, Inr (chunks, fin)) \<Rightarrow> (u1, http_json 200 (ChunksBody (copy_chunks gone 0 chunks))))))"

definition handleVolumeFsPutContent :: "gw_server \<Rightarrow> node_calls \<Rightarrow> moments \<Rightarrow> http_request \<Rightarrow> pool \<Rightarrow> pool \<times> http_response" where
  "handleVolumeFsPutContent sv nc ms rq u =
     (case gw_extractAPIKey rq of
        None \<Rightarrow> (u, key_required)
      | Some apiKey \<Rightarrow>
          (case decodeMSBPath rq of
             Inl r \<Rightarrow> (u, r)
           | Inr path \<Rightarrow>
               (case up_VolumeFsWrite (moEnv (ms 0)) (moApi (ms 0)) (ncLink nc) (ncWrite nc) apiKey (rqParam rq ''id'') path (rqBody rq) u of
                  (_, u1, Some e) \<Rightarrow> (u1, writeGRPCErrorKind (gsQuote sv) e ''volume_file'')
                | (_, u1, None) \<Rightarrow> (u1, http_json 204 NoBody))))"

text \<open>The handlers that take a path from the header, call the node and answer.\<close>

definition with_path ::
  "gw_server \<Rightarrow> http_request \<Rightarrow> (string \<Rightarrow> string \<Rightarrow> pool \<Rightarrow> pool \<times> 'r result) \<Rightarrow> ('r \<Rightarrow> http_response) \<Rightarrow> pool \<Rightarrow> pool \<times> http_response" where
  "with_path sv rq call answer u =
     (case gw_extractAPIKey rq of
        None \<Rightarrow> (u, key_required)
      | Some apiKey \<Rightarrow>
          (case decodeMSBPath rq of
             Inl r \<Rightarrow> (u, r)
           | Inr path \<Rightarrow>
               (case call apiKey path u of
                  (u1, Inl e) \<Rightarrow> (u1, writeGRPCErrorKind (gsQuote sv) e ''volume_file'')
                | (u1, Inr v) \<Rightarrow> (u1, answer v))))"

definition handleVolumeFsList :: "gw_server \<Rightarrow> node_calls \<Rightarrow> moments \<Rightarrow> http_request \<Rightarrow> pool \<Rightarrow> pool \<times> http_response" where
  "handleVolumeFsList sv nc ms rq =
     with_path sv rq (\<lambda>key path. up_VolumeFsList (moEnv (ms 0)) (moApi (ms 0)) (ncLink nc) (ncList nc) key (rqParam rq ''id'') path)
       (\<lambda>entries. http_json 200 (EntriesBody (map entryToCloud entries)))"

definition handleVolumeFsStat :: "gw_server \<Rightarrow> node_calls \<Rightarrow> moments \<Rightarrow> http_request \<Rightarrow> pool \<Rightarrow> pool \<times> http_response" where
  "handleVolumeFsStat sv nc ms rq =
     with_path sv rq (\<lambda>key path. up_VolumeFsStat (moEnv (ms 0)) (moApi (ms 0)) (ncLink nc) (ncStat nc) key (rqParam rq ''id'') path)
       (\<lambda>meta. http_json 200 (MetadataBody (metaToCloud meta)))"

definition handleVolumeFsExists :: "gw_server \<Rightarrow> node_calls \<Rightarrow> moments \<Rightarrow> http_request \<Rightarrow> pool \<Rightarrow> pool \<times> http_response" where
  "handleVolumeFsExists sv nc ms rq =
     with_path sv rq (\<lambda>key path. up_VolumeFsExists (moEnv (ms 0)) (moApi (ms 0)) (ncLink nc) (ncExists nc) key (rqParam rq ''id'') path)
       (\<lambda>b. http_json 200 (ExistsBody b))"

definition handleVolumeFsRemove :: "gw_server \<Rightarrow> node_calls \<Rightarrow> moments \<Rightarrow> http_request \<Rightarrow> pool \<Rightarrow> pool \<times> http_response" where
  "handleVolumeFsRemove sv nc ms rq =
     with_path sv rq (\<lambda>key path. up_VolumeFsRemove (moEnv (ms 0)) (moApi (ms 0)) (ncLink nc) (ncRemove nc) key (rqParam rq ''id'') path
         (recursiveHeader rq))
       (\<lambda>_. http_json 204 NoBody)"

text \<open>The handlers that take their paths from a JSON body.\<close>

definition with_body ::
  "gw_server \<Rightarrow> http_request \<Rightarrow> (string \<Rightarrow> 'b option) \<Rightarrow> ('b \<Rightarrow> bool) \<Rightarrow> string \<Rightarrow> (string \<Rightarrow> 'b \<Rightarrow> pool \<Rightarrow> pool \<times> unit result) \<Rightarrow>
     pool \<Rightarrow> pool \<times> http_response" where
  "with_body sv rq decode full missing call u =
     (case gw_extractAPIKey rq of
        None \<Rightarrow> (u, key_required)
      | Some apiKey \<Rightarrow>
          (case readJSONBody (gcMaxBodyBytes (gsCfg sv)) decode rq of
             Inl r \<Rightarrow> (u, r)
           | Inr body \<Rightarrow>
               if \<not> full body then (u, writeError 400 ''invalid_request'' missing)
               else
                 (case call apiKey body u of
                    (u1, Inl e) \<Rightarrow> (u1, writeGRPCErrorKind (gsQuote sv) e ''volume_file'')
                  | (u1, Inr _) \<Rightarrow> (u1, http_json 204 NoBody))))"

definition handleVolumeFsMkdir :: "gw_server \<Rightarrow> body_codec \<Rightarrow> node_calls \<Rightarrow> moments \<Rightarrow> http_request \<Rightarrow> pool \<Rightarrow> pool \<times> http_response" where
  "handleVolumeFsMkdir sv bc nc ms rq =
     with_body sv rq (bcPath bc) (\<lambda>path. path \<noteq> []) ''path is required''
       (\<lambda>key path. up_VolumeFsMkdir (moEnv (ms 0)) (moApi (ms 0)) (ncLink nc) (ncMkdir nc) key (rqParam rq ''id'') path)"

definition handleVolumeFsCopy :: "gw_server \<Rightarrow> body_codec \<Rightarrow> node_calls \<Rightarrow> moments \<Rightarrow> http_request \<Rightarrow> pool \<Rightarrow> pool \<times> http_response" where
  "handleVolumeFsCopy sv bc nc ms rq =
     with_body sv rq (bcCopy bc) (\<lambda>(src, dst). src \<noteq> [] \<and> dst \<noteq> []) ''from and to are required''
       (\<lambda>key (src, dst). up_VolumeFsCopy (moEnv (ms 0)) (moApi (ms 0)) (ncLink nc) (ncCopy nc) key (rqParam rq ''id'') src dst)"

definition handleVolumeFsRename :: "gw_server \<Rightarrow> body_codec \<Rightarrow> node_calls \<Rightarrow> moments \<Rightarrow> http_request \<Rightarrow> pool \<Rightarrow> pool \<times> http_response" where
  "handleVolumeFsRename sv bc nc ms rq =
     with_body sv rq (bcCopy bc) (\<lambda>(src, dst). src \<noteq> [] \<and> dst \<noteq> []) ''from and to are required''
       (\<lambda>key (src, dst). up_VolumeFsRename (moEnv (ms 0)) (moApi (ms 0)) (ncLink nc) (ncRename nc) key (rqParam rq ''id'') src dst)"

section \<open>Logs as events\<close>

definition newline :: string where "newline = [lf]"

definition sse_text :: "string \<Rightarrow> string \<Rightarrow> string \<Rightarrow> string" where
  "sse_text event i render =
     (if i \<noteq> [] then ''id: '' @ i @ newline else []) @ ''event: '' @ event @ newline @ ''data: '' @ render @ newline @ newline"

text \<open>
  The stream's chunks, each an event, until a write fails, the client has gone or the stream ends;
  only its regular end is told to the client.
\<close>

fun log_events :: "(logs_chunk \<Rightarrow> string) \<Rightarrow> (nat \<Rightarrow> bool) \<Rightarrow> (nat \<Rightarrow> bool) \<Rightarrow> nat \<Rightarrow> logs_chunk list \<Rightarrow> recv_end \<Rightarrow> string list" where
  "log_events render written gone i [] fin =
     (if fin = RecvEOF \<and> written i then [sse_text ''end'' [] ''{}''] else [])"
| "log_events render written gone i (c # cs) fin =
     (if \<not> written i then []
      else sse_text ''log'' (lcId c) (render c) # (if gone i then [] else log_events render written gone (i + 1) cs fin))"

definition handleSandboxLogs ::
  "gw_server \<Rightarrow> (logs_request, logs_chunk list \<times> recv_end) rpc \<Rightarrow> (logs_chunk \<Rightarrow> string) \<Rightarrow> (nat \<Rightarrow> bool) \<Rightarrow> (nat \<Rightarrow> bool) \<Rightarrow> moments \<Rightarrow>
     http_request \<Rightarrow> pool \<Rightarrow> pool \<times> http_response" where
  "handleSandboxLogs sv logs render written gone ms rq u =
     (case gw_extractAPIKey rq of
        None \<Rightarrow> (u, key_required)
      | Some apiKey \<Rightarrow>
          (case up_Logs (moEnv (ms 0)) logs apiKey
                  \<lparr>lqSandboxId = rqParam rq ''id'', lqFollow = True, lqSources = rqQuery rq ''sources'',
                   lqLastEventId = rqHeader rq ''Last-Event-ID''\<rparr> u of
             (u1, Inl e) \<Rightarrow> (u1, writeGRPCErrorKind (gsQuote sv) e ''sandbox'')
           | (u1, Inr (chunks, fin)) \<Rightarrow> (u1, http_json 200 (ChunksBody (log_events render written gone 0 chunks fin)))))"

section \<open>The agent over a web socket\<close>

definition headerHasToken :: "string \<Rightarrow> string \<Rightarrow> bool" where
  "headerHasToken hdr token = (go_lower token \<in> (\<lambda>part. go_lower (trim_space part)) ` set (split_on CHR '','' hdr))"

text \<open>The request's \<open>Connection\<close> header afterwards, and gorilla's test as an argument.\<close>

definition prepareWebSocketRequest :: "(string \<Rightarrow> string \<Rightarrow> bool) \<Rightarrow> http_request \<Rightarrow> string \<times> bool" where
  "prepareWebSocketRequest isUpgrade rq =
     (let conn = (if go_fold (rqHeader rq ''Upgrade'') = go_fold ''websocket'' \<and> \<not> headerHasToken (rqHeader rq ''Connection'') ''upgrade''
                  then ''Upgrade'' else rqHeader rq ''Connection'') in
      (conn, isUpgrade conn (rqHeader rq ''Upgrade'')))"

datatype agent_answer = AgentRefused http_response | AgentUpgrade

definition handleSandboxAgent ::
  "gw_server \<Rightarrow> (string \<Rightarrow> string \<Rightarrow> bool) \<Rightarrow> runtime_link \<Rightarrow> (runtime_conn \<Rightarrow> string \<Rightarrow> unit result) \<Rightarrow> moments \<Rightarrow> http_request \<Rightarrow>
     pool \<Rightarrow> pool \<times> agent_answer" where
  "handleSandboxAgent sv isUpgrade rt relay ms rq u =
     (case gw_extractAPIKey rq of
        None \<Rightarrow> (u, AgentRefused key_required)
      | Some apiKey \<Rightarrow>
          if \<not> snd (prepareWebSocketRequest isUpgrade rq)
          then (u, AgentRefused (writeError 400 ''invalid_request'' ''WebSocket upgrade required''))
          else
            (case up_AgentRelay (moEnv (ms 0)) (moApi (ms 0)) rt relay apiKey (rqParam rq ''id'') u of
               (u1, Inl e) \<Rightarrow> (u1, AgentRefused (writeGRPCErrorKind (gsQuote sv) e ''sandbox''))
             | (u1, Inr _) \<Rightarrow> (u1, AgentUpgrade)))"

text \<open>The two pumps, up to the first error of either side; \<open>mt\<close> is the type of a frame (1 text, 2 binary).\<close>

fun pump_to_client :: "(nat \<Rightarrow> bool) \<Rightarrow> nat \<Rightarrow> string list \<Rightarrow> string list" where
  "pump_to_client sent i [] = []"
| "pump_to_client sent i (d # ds) =
     (if length d = 0 then pump_to_client sent i ds
      else if sent i then d # pump_to_client sent (i + 1) ds else [])"

fun pump_to_agent :: "(nat \<Rightarrow> bool) \<Rightarrow> nat \<Rightarrow> (nat \<times> string) list \<Rightarrow> string list" where
  "pump_to_agent sent i [] = []"
| "pump_to_agent sent i ((mt, d) # frames) =
     (if mt \<noteq> 2 \<and> mt \<noteq> 1 then pump_to_agent sent i frames
      else if length d = 0 then pump_to_agent sent i frames
      else if sent i then d # pump_to_agent sent (i + 1) frames else [])"

section \<open>Paths arrive unchanged\<close>

definition b64url_digit :: "nat \<Rightarrow> char" where
  "b64url_digit v = char_of
     (if v < 26 then v + 65 else if v < 52 then v + 71 else if v < 62 then v - 4 else if v = 62 then 45 else (95 :: nat))"

text \<open>What a client sends: the path in URL-safe base64, without padding or with it.\<close>

fun b64url :: "bool \<Rightarrow> string \<Rightarrow> string" where
  "b64url pad [] = []"
| "b64url pad [a] =
     (let n = of_char a * 65536 :: nat in
      [b64url_digit (n div 262144), b64url_digit (n div 4096 mod 64)] @ (if pad then ''=='' else []))"
| "b64url pad [a, b] =
     (let n = of_char a * 65536 + of_char b * 256 :: nat in
      [b64url_digit (n div 262144), b64url_digit (n div 4096 mod 64), b64url_digit (n div 64 mod 64)] @ (if pad then ''='' else []))"
| "b64url pad (a # b # c # s) =
     (let n = of_char a * 65536 + of_char b * 256 + of_char c :: nat in
      [b64url_digit (n div 262144), b64url_digit (n div 4096 mod 64), b64url_digit (n div 64 mod 64), b64url_digit (n mod 64)] @
      b64url pad s)"

lemma b64url_val_digit: "v < 64 \<Longrightarrow> b64url_val (b64url_digit v) = Some v"
  by (simp add: b64url_val_def b64url_digit_def Let_def) presburger

lemma b64url_digit_plain:
  "v < 64 \<Longrightarrow> plain_char (b64url_digit v) \<and> b64url_digit v \<noteq> CHR ''='' \<and> b64url_digit v \<noteq> cr \<and> b64url_digit v \<noteq> lf"
proof -
  assume v: "v < 64"
  have n: "(of_char (b64url_digit v) :: nat) \<in> {45} \<union> {48..57} \<union> {65..90} \<union> {95} \<union> {97..122}"
    using v by (auto simp: b64url_digit_def)
  then show ?thesis
    by (auto simp: plain_char_def cr_def lf_def)
qed

lemma horner:
  fixes n p q x :: nat
  shows "n = 64 * p + w \<Longrightarrow> p = 64 * q + z \<Longrightarrow> q = 64 * x + y \<Longrightarrow> 64 * (64 * (64 * x + y) + z) + w = n"
  by simp

lemma regroup:
  fixes a b c :: nat
  assumes "a < 256" "b < 256" "c < 256"
  defines "n \<equiv> a * 65536 + b * 256 + c"
  shows "64 * (64 * (64 * (n div 262144) + n div 4096 mod 64) + n div 64 mod 64) + n mod 64 = n"
    "n div 65536 = a" "n div 256 mod 256 = b" "n mod 256 = c" "n div 262144 < 64"
proof -
  have "n div 64 div 64 = n div 4096" "n div 4096 div 64 = n div 262144"
    by (simp_all add: div_mult2_eq [symmetric])
  then have "n = 64 * (n div 64) + n mod 64" "n div 64 = 64 * (n div 4096) + n div 64 mod 64"
    "n div 4096 = 64 * (n div 262144) + n div 4096 mod 64"
    by (metis mult_div_mod_eq)+
  then show "64 * (64 * (64 * (n div 262144) + n div 4096 mod 64) + n div 64 mod 64) + n mod 64 = n"
    by (rule horner)
  have n: "n = (a * 256 + b) * 256 + c" by (simp add: n_def)
  then have d: "n div 256 = a * 256 + b" using assms(3) by simp
  show "n mod 256 = c" using assms(3) by (simp only: n mod_mult_self3 mod_less)
  show "n div 256 mod 256 = b" using d assms(2) by simp
  have "n div 65536 = n div 256 div 256" by (simp add: div_mult2_eq [symmetric])
  then show "n div 65536 = a" using d assms(2) by simp
  show "n div 262144 < 64" using assms(1-3) by (simp add: n_def)
qed

lemma char_byte: "(of_char c :: nat) < 256"
  by (metis mod_less_divisor of_char_mod_256 zero_less_numeral)

lemma b64_bytes_digits:
  fixes a b c :: char
  defines "n \<equiv> of_char a * 65536 + of_char b * 256 + of_char c :: nat"
  shows "b64_bytes k [n div 262144, n div 4096 mod 64, n div 64 mod 64, n mod 64] = take k [a, b, c]"
proof -
  note r = regroup [OF char_byte [of a] char_byte [of b] char_byte [of c], folded n_def]
  have "foldl (\<lambda>a v. 64 * a + v) 0 [n div 262144, n div 4096 mod 64, n div 64 mod 64, n mod 64] = n"
    using r(1) by simp
  moreover have "char_of (n div 65536) = a" "char_of (n div 256 mod 256) = b" "char_of (n mod 256) = c"
    using r(2-4) by (simp_all only: char_of_char)
  ultimately show ?thesis by (simp only: b64_bytes_def Let_def)
qed

text \<open>The digits of three bytes, and of fewer with zero bytes for the missing ones.\<close>

lemma digits_small:
  fixes a b c :: char
  defines "n \<equiv> of_char a * 65536 + of_char b * 256 + of_char c :: nat"
  shows "n div 262144 < 64" "n div 4096 mod 64 < 64" "n div 64 mod 64 < 64" "n mod 64 < 64"
  using regroup(5) [OF char_byte [of a] char_byte [of b] char_byte [of c]] by (simp_all add: n_def)

lemma zero_char: "(of_char (char_of (0 :: nat)) :: nat) = 0"
  by simp

lemma b64_raw_one: "b64_raw (b64url False [a]) = Some [a]"
proof -
  define n where "n = (of_char a * 65536 :: nat)"
  have n: "n = of_char a * 65536 + of_char (char_of (0 :: nat)) * 256 + of_char (char_of (0 :: nat))" by (simp add: n_def)
  have z: "n div 64 mod 64 = 0" "n mod 64 = 0" by (simp_all add: n_def)
  have "b64_raw (b64url False [a]) = Some (b64_bytes 1 [n div 262144, n div 4096 mod 64, n div 64 mod 64, n mod 64])"
    using digits_small [of a "char_of (0 :: nat)" "char_of (0 :: nat)", folded n]
    by (simp add: b64url_val_digit z Let_def flip: n_def)
  also have "\<dots> = Some [a]"
    using b64_bytes_digits [of 1 a "char_of (0 :: nat)" "char_of (0 :: nat)", folded n] by simp
  finally show ?thesis .
qed

lemma b64_raw_two: "b64_raw (b64url False [a, b]) = Some [a, b]"
proof -
  define n where "n = (of_char a * 65536 + of_char b * 256 :: nat)"
  have n: "n = of_char a * 65536 + of_char b * 256 + of_char (char_of (0 :: nat))" by (simp add: n_def)
  have z: "n mod 64 = 0" by (simp add: n_def mod_add_left_eq [symmetric])
  have "b64_raw (b64url False [a, b]) = Some (b64_bytes 2 [n div 262144, n div 4096 mod 64, n div 64 mod 64, n mod 64])"
    using digits_small [of a b "char_of (0 :: nat)", folded n]
    by (simp add: b64url_val_digit z Let_def flip: n_def)
  also have "\<dots> = Some [a, b]"
    using b64_bytes_digits [of 2 a b "char_of (0 :: nat)", folded n] by (simp add: numeral_2_eq_2)
  finally show ?thesis .
qed

lemma b64_raw_step:
  assumes "x < 64" "y < 64" "z < 64" "w < 64"
  shows "b64_raw (b64url_digit x # b64url_digit y # b64url_digit z # b64url_digit w # s) =
     (case b64_raw s of None \<Rightarrow> None | Some r \<Rightarrow> Some (b64_bytes 3 [x, y, z, w] @ r))"
  using assms by (simp add: b64url_val_digit split: option.split)

lemma b64_raw_three:
  fixes a b c :: char
  defines "n \<equiv> of_char a * 65536 + of_char b * 256 + of_char c :: nat"
  defines "ds \<equiv> [b64url_digit (n div 262144), b64url_digit (n div 4096 mod 64), b64url_digit (n div 64 mod 64), b64url_digit (n mod 64)]"
  shows "b64_raw (ds @ s) = (case b64_raw s of None \<Rightarrow> None | Some r \<Rightarrow> Some ([a, b, c] @ r))"
    and "d \<in> set ds \<Longrightarrow> plain_char d \<and> d \<noteq> CHR ''='' \<and> d \<noteq> cr \<and> d \<noteq> lf"
proof -
  note small = digits_small [of a b c, folded n_def]
  have "b64_bytes 3 [n div 262144, n div 4096 mod 64, n div 64 mod 64, n mod 64] = [a, b, c]"
    using b64_bytes_digits [of 3 a b c, folded n_def] by (simp add: numeral_3_eq_3)
  then show "b64_raw (ds @ s) = (case b64_raw s of None \<Rightarrow> None | Some r \<Rightarrow> Some ([a, b, c] @ r))"
    by (simp only: ds_def append.simps b64_raw_step [OF small])
  show "plain_char d \<and> d \<noteq> CHR ''='' \<and> d \<noteq> cr \<and> d \<noteq> lf" if "d \<in> set ds"
  proof -
    have "d = b64url_digit (n div 262144) \<or> d = b64url_digit (n div 4096 mod 64) \<or> d = b64url_digit (n div 64 mod 64) \<or>
        d = b64url_digit (n mod 64)"
      using that by (simp only: ds_def list.set insert_iff empty_iff simp_thms)
    then show ?thesis
      by (elim disjE; hypsubst) (rule b64url_digit_plain small)+
  qed
qed

lemma b64_raw_url: "b64_raw (b64url False p) = Some p"
proof (induction "False" p rule: b64url.induct)
  case (2 a)
  show ?case by (rule b64_raw_one)
next
  case (3 a b)
  show ?case by (rule b64_raw_two)
next
  case (4 a b c s)
  then show ?case using b64_raw_three(1) [of a b c "b64url False s"] by (simp add: Let_def)
qed simp

lemma b64_padded_url: "b64_padded (b64url True p) = Some p"
proof (induction "True" p rule: b64url.induct)
  case (2 a)
  then show ?case using b64_raw_one [of a] by (simp add: Let_def)
next
  case (3 a b)
  have "b64url_digit v \<noteq> CHR ''=''" if "v < 64" for v using b64url_digit_plain that by blast
  then show ?case using b64_raw_two [of a b] by (simp add: Let_def)
next
  case (4 a b c s)
  define n where "n = (of_char a * 65536 + of_char b * 256 + of_char c :: nat)"
  let ?ds = "[b64url_digit (n div 262144), b64url_digit (n div 4096 mod 64), b64url_digit (n div 64 mod 64), b64url_digit (n mod 64)]"
  have "b64url_digit (n mod 64) \<noteq> CHR ''=''"
    using b64_raw_three(2) [of "b64url_digit (n mod 64)" a b c, folded n_def] by simp
  moreover have "b64_raw ?ds = Some [a, b, c]"
    using b64_raw_three(1) [of a b c "[]", folded n_def] by simp
  moreover have "b64url True (a # b # c # s) = ?ds @ b64url True s"
    by (simp add: n_def Let_def)
  ultimately show ?case using 4 by (simp del: b64_raw.simps b64url.simps)
qed simp

lemma b64_raw_rejects_padding: "CHR ''='' \<in> set s \<Longrightarrow> b64_raw s = None"
proof (induction s rule: b64_raw.induct)
  have no: "b64url_val CHR ''='' = None" by (simp add: b64url_val_def)
  case (3 a b)
  with no show ?case by (auto split: option.split)
next
  have no: "b64url_val CHR ''='' = None" by (simp add: b64url_val_def)
  case (4 a b c)
  with no show ?case by (auto split: option.split)
next
  have no: "b64url_val CHR ''='' = None" by (simp add: b64url_val_def)
  case (5 a b c d s)
  with no show ?case by (auto split: option.split)
qed simp_all

lemma equals_plain: "plain_char CHR ''=''" "CHR ''='' \<noteq> cr" "CHR ''='' \<noteq> lf"
  by code_simp+

lemma b64url_plain: "d \<in> set (b64url pad p) \<Longrightarrow> plain_char d \<and> d \<noteq> cr \<and> d \<noteq> lf"
proof (induction pad p rule: b64url.induct)
  case (2 pad a)
  then show ?case
    using b64url_digit_plain digits_small [of a "char_of (0 :: nat)" "char_of (0 :: nat)"] by (auto simp: Let_def equals_plain)
next
  case (3 pad a b)
  then show ?case
    using b64url_digit_plain digits_small [of a b "char_of (0 :: nat)"] by (auto simp: Let_def equals_plain)
next
  case (4 pad a b c s)
  define n where "n = (of_char a * 65536 + of_char b * 256 + of_char c :: nat)"
  have "d \<in> set [b64url_digit (n div 262144), b64url_digit (n div 4096 mod 64), b64url_digit (n div 64 mod 64), b64url_digit (n mod 64)] \<or>
      d \<in> set (b64url pad s)"
    using 4(2) by (simp add: n_def Let_def)
  with 4(1) [OF n_def] b64_raw_three(2) [of d a b c, folded n_def] show ?case by blast
qed simp

lemma b64url_nonempty: "p \<noteq> [] \<Longrightarrow> b64url pad p \<noteq> []"
  by (induction pad p rule: b64url.induct) (simp_all add: Let_def)

lemma b64url_header:
  assumes "p \<noteq> []"
  shows "trim_space (b64url pad p) = b64url pad p" "strip_newlines (b64url pad p) = b64url pad p"
proof -
  have ne: "b64url pad p \<noteq> []" by (rule b64url_nonempty [OF assms])
  then have "hd (b64url pad p) \<in> set (b64url pad p)" "last (b64url pad p) \<in> set (b64url pad p)" by simp_all
  then show "trim_space (b64url pad p) = b64url pad p"
    using ne b64url_plain by (intro trim_space_plain) blast+
  show "strip_newlines (b64url pad p) = b64url pad p"
    unfolding strip_newlines_def by (rule filter_True) (use b64url_plain in blast)
qed

lemma b64url_padding: "b64url True p = b64url False p \<or> CHR ''='' \<in> set (b64url True p)"
  by (induction "True" p rule: b64url.induct) (auto simp: Let_def)

text \<open>
  A file's path reaches the node as the client meant it: any path, of any bytes, that is
  sent in the header as URL-safe base64, with padding or without, is decoded to itself.
\<close>

theorem path_header_roundtrip:
  assumes "path \<noteq> []" and "rqHeader rq ''x-msb-file-path'' = b64url pad path"
  shows "decodeMSBPath rq = Inr path"
proof -
  have "(case b64_raw (b64url pad path) of Some b \<Rightarrow> Some b | None \<Rightarrow> b64_padded (b64url pad path)) = Some path"
  proof (cases "pad \<and> CHR ''='' \<in> set (b64url pad path)")
    case True
    then have pad: pad and "b64_raw (b64url pad path) = None" by (auto intro: b64_raw_rejects_padding)
    moreover have "b64_padded (b64url pad path) = Some path" using pad by (simp only: b64_padded_url)
    ultimately show ?thesis by (simp del: b64_raw.simps)
  next
    case False
    then have "b64url pad path = b64url False path" using b64url_padding by (cases pad) auto
    then show ?thesis by (simp add: b64_raw_url)
  qed
  then show ?thesis
    using assms(1) by (simp add: decodeMSBPath_def headerFilePath_def assms(2) b64url_header [OF assms(1)] b64url_nonempty Let_def cong: option.case_cong)
qed

theorem path_header_roundtrip_witness:
  "decodeMSBPath (demo_http_request []\<lparr>rqHeader := \<lambda>_. b64url True ''/a.txt''\<rparr>) = Inr ''/a.txt''"
  by (rule path_header_roundtrip [of _ _ True]) simp_all

section \<open>Streams reach the client in order\<close>

lemma log_events_all:
  "\<forall>i. written i \<Longrightarrow> \<forall>i. \<not> gone i \<Longrightarrow> log_events render written gone i cs fin =
     map (\<lambda>c. sse_text ''log'' (lcId c) (render c)) cs @ (if fin = RecvEOF then [sse_text ''end'' [] ''{}''] else [])"
  by (induction cs arbitrary: i) auto

lemma log_events_prefix:
  "prefix (log_events render written gone i cs fin)
     (map (\<lambda>c. sse_text ''log'' (lcId c) (render c)) cs @ (if fin = RecvEOF then [sse_text ''end'' [] ''{}''] else []))"
  by (induction cs arbitrary: i) auto

lemma log_events_end:
  "length cs < length (log_events render written gone i cs fin) \<Longrightarrow> fin = RecvEOF"
  by (induction cs arbitrary: i) (auto split: if_splits)

lemma copy_chunks_prefix: "prefix (copy_chunks gone i cs) (filter (\<lambda>c. c \<noteq> []) cs)"
  by (induction cs arbitrary: i) auto

lemma copy_chunks_all: "\<forall>i. \<not> gone i \<Longrightarrow> copy_chunks gone i cs = filter (\<lambda>c. c \<noteq> []) cs"
  by (induction cs arbitrary: i) auto

lemma pump_to_client_prefix: "prefix (pump_to_client sent i ds) (filter (\<lambda>d. d \<noteq> []) ds)"
  by (induction ds arbitrary: i) auto

lemma pump_to_agent_prefix:
  "prefix (pump_to_agent sent i fs) (filter (\<lambda>d. d \<noteq> []) (map snd (filter (\<lambda>(mt, d). mt = 1 \<or> mt = 2) fs)))"
  by (induction fs arbitrary: i) (auto split: if_splits)

text \<open>
  What a client sees of a stream is the stream: of a sandbox's log it gets the lines in
  their order, none twice and none left out before the last it gets, and the closing event only
  after all of them and only if the log ended regularly; if it stays and nothing fails it gets all.
\<close>

theorem log_stream_faithful:
  assumes "log_events render written gone i cs fin = es"
  shows "(\<exists>n \<le> length cs. take (length cs) es = map (\<lambda>c. sse_text ''log'' (lcId c) (render c)) (take n cs)) \<and>
    (length cs < length es \<longrightarrow> fin = RecvEOF \<and> es = map (\<lambda>c. sse_text ''log'' (lcId c) (render c)) cs @ [sse_text ''end'' [] ''{}'']) \<and>
    ((\<forall>i. written i) \<and> (\<forall>i. \<not> gone i) \<longrightarrow> take (length cs) es = map (\<lambda>c. sse_text ''log'' (lcId c) (render c)) cs \<and>
       (fin = RecvEOF \<longrightarrow> length es = length cs + 1))"
proof -
  let ?lines = "map (\<lambda>c. sse_text ''log'' (lcId c) (render c)) cs"
  let ?full = "?lines @ (if fin = RecvEOF then [sse_text ''end'' [] ''{}''] else [])"
  obtain rest where full: "?full = es @ rest"
    using log_events_prefix [of render written gone i cs fin, unfolded assms prefix_def] by (elim exE)
  have "take (length cs) es = take (min (length cs) (length es)) ?lines"
  proof -
    have "take (min (length cs) (length es)) ?full = take (min (length cs) (length es)) (es @ rest)" using full by simp
    then show ?thesis by (simp add: min_def split: if_splits)
  qed
  then have one: "\<exists>n \<le> length cs. take (length cs) es = map (\<lambda>c. sse_text ''log'' (lcId c) (render c)) (take n cs)"
    by (intro exI [of _ "min (length cs) (length es)"]) (simp add: take_map)
  have two: "fin = RecvEOF \<and> es = ?lines @ [sse_text ''end'' [] ''{}'']" if long: "length cs < length es"
  proof -
    have eof: "fin = RecvEOF" by (rule log_events_end [of cs render written gone i fin]) (simp only: assms long)
    then have "length es + length rest = length cs + 1" using arg_cong [OF full, of length] by simp
    with long have "rest = []" by (cases rest) simp_all
    with full eof show ?thesis by simp
  qed
  have three: "take (length cs) es = ?lines \<and> (fin = RecvEOF \<longrightarrow> length es = length cs + 1)"
    if "(\<forall>i. written i) \<and> (\<forall>i. \<not> gone i)"
  proof -
    from that have "es = ?full" using log_events_all [of written gone render i cs fin] assms by simp
    then show ?thesis by simp
  qed
  from one two three show ?thesis by (intro conjI impI) simp_all
qed

theorem log_stream_faithful_witness:
  "log_events lcText (\<lambda>i. i < 2) (\<lambda>_. False) 0
     [\<lparr>lcId = [], lcSource = [], lcTs = 0, lcText = ''a''\<rparr>, \<lparr>lcId = [], lcSource = [], lcTs = 0, lcText = ''b''\<rparr>,
      \<lparr>lcId = [], lcSource = [], lcTs = 0, lcText = ''c''\<rparr>] RecvEOF = [sse_text ''log'' [] ''a'', sse_text ''log'' [] ''b''] \<and>
   (\<exists>n \<le> 3. take 3 [sse_text ''log'' [] ''a'', sse_text ''log'' [] ''b''] = map (\<lambda>c. sse_text ''log'' (lcId c) (lcText c)) (take n
     [\<lparr>lcId = [], lcSource = [], lcTs = 0, lcText = ''a''\<rparr>, \<lparr>lcId = [], lcSource = [], lcTs = 0, lcText = ''b''\<rparr>,
      \<lparr>lcId = [], lcSource = [], lcTs = 0, lcText = ''c''\<rparr>]))"
  (is "?run = ?es \<and> ?ex")
proof -
  have run: "?run = ?es" by simp
  from log_stream_faithful [OF run, THEN conjunct1] show ?thesis
    unfolding run by (simp only: list.size) (simp add: numeral_3_eq_3)
qed

text \<open>
  A read that fails on the node looks like an empty file: the stream opens without an error, the
  response's status is sent with it, and what the stream then fails with is dropped.
\<close>

lemma failed_read_is_empty_file:
  assumes "gw_extractAPIKey rq = Some key" and "decodeMSBPath rq = Inr path"
    and "up_VolumeFsRead (moEnv (ms 0)) (moApi (ms 0)) (ncLink nc) (ncRead nc) key (rqParam rq ''id'') path u = (u1, Inr ([], RecvFailed e))"
  shows "handleVolumeFsGetContent sv nc gone ms rq u = (u1, http_json 200 (ChunksBody []))"
  using assms by (simp add: handleVolumeFsGetContent_def)

end
