(* ===== verification/Remote_Calls.thy ===== *)
theory Remote_Calls
  imports Gateway_Files
begin

text \<open>
  The calls one node makes to another over mutual TLS (\<open>internal/grpcapi/sandbox_client.go\<close>), and
  the way of a sandbox's log through them: from the node's runtime over the daemon or the public API
  of a manager to the client. What the other side answers is an argument.
\<close>

section \<open>Dialling\<close>

definition DialMTLS :: "tls_lib \<Rightarrow> (string \<Rightarrow> go_error option) \<Rightarrow> string \<Rightarrow> string \<Rightarrow> string \<Rightarrow> string \<Rightarrow> runtime_conn result" where
  "DialMTLS tls dial addr cert key ca =
     (case ClientTLSFromPEMs tls cert key ca TLSServerName of
        Inl e \<Rightarrow> Inl e
      | Inr cfg \<Rightarrow> (case dial (normalizeAddr addr) of Some e \<Rightarrow> Inl e | None \<Rightarrow> Inr (normalizeAddr addr, cfg)))"

text \<open>The services of a manager behind a connection.\<close>

record control_stub =
  scCreate :: "runtime_conn \<Rightarrow> create_request \<Rightarrow> sandbox_proto option result"
  scStart :: "runtime_conn \<Rightarrow> string \<Rightarrow> sandbox_proto option result"
  scStop :: "runtime_conn \<Rightarrow> string \<Rightarrow> sandbox_proto option result"
  scRemove :: "runtime_conn \<Rightarrow> string \<Rightarrow> unit result"
  scGet :: "runtime_conn \<Rightarrow> string \<Rightarrow> sandbox_proto option result"
  scGetByName :: "runtime_conn \<Rightarrow> string \<Rightarrow> sandbox_proto option result"
  scList :: "runtime_conn \<Rightarrow> unit \<Rightarrow> sandbox_proto list result"
  scNodeList :: "runtime_conn \<Rightarrow> unit \<Rightarrow> node_info list result"
  scNodeInspect :: "runtime_conn \<Rightarrow> string \<Rightarrow> node_info option result"
  scHeartbeat :: "runtime_conn \<Rightarrow> heartbeat_request \<Rightarrow> heartbeat_response result"
  scUpdateStatus :: "runtime_conn \<Rightarrow> status_request \<Rightarrow> unit result"

text \<open>Where a call goes: the library, the address and the caller's material.\<close>

record mtls =
  mlTls :: tls_lib
  mlDial :: "string \<Rightarrow> go_error option"
  mlAddr :: string
  mlCert :: string
  mlKey :: string
  mlCA :: string

definition over_mtls :: "(runtime_conn \<Rightarrow> 'q \<Rightarrow> 'r result) \<Rightarrow> mtls \<Rightarrow> 'q \<Rightarrow> 'r result" where
  "over_mtls call m req =
     (case DialMTLS (mlTls m) (mlDial m) (mlAddr m) (mlCert m) (mlKey m) (mlCA m) of Inl e \<Rightarrow> Inl e | Inr conn \<Rightarrow> call conn req)"

definition SandboxCreateRemote :: "control_stub \<Rightarrow> mtls \<Rightarrow> create_request \<Rightarrow> sandbox_proto option result" where
  "SandboxCreateRemote stub m req = over_mtls (scCreate stub) m req"

definition SandboxStartRemote :: "control_stub \<Rightarrow> mtls \<Rightarrow> string \<Rightarrow> sandbox_proto option result" where
  "SandboxStartRemote stub m i = over_mtls (scStart stub) m i"

definition SandboxStopRemote :: "control_stub \<Rightarrow> mtls \<Rightarrow> string \<Rightarrow> sandbox_proto option result" where
  "SandboxStopRemote stub m i = over_mtls (scStop stub) m i"

definition SandboxRemoveRemote :: "control_stub \<Rightarrow> mtls \<Rightarrow> string \<Rightarrow> go_error option" where
  "SandboxRemoveRemote stub m i = (case over_mtls (scRemove stub) m i of Inl e \<Rightarrow> Some e | Inr _ \<Rightarrow> None)"

definition SandboxGetRemote :: "control_stub \<Rightarrow> mtls \<Rightarrow> string \<Rightarrow> sandbox_proto option result" where
  "SandboxGetRemote stub m i = over_mtls (scGet stub) m i"

definition SandboxGetByNameRemote :: "control_stub \<Rightarrow> mtls \<Rightarrow> string \<Rightarrow> sandbox_proto option result" where
  "SandboxGetByNameRemote stub m name = over_mtls (scGetByName stub) m name"

definition SandboxListRemote :: "control_stub \<Rightarrow> mtls \<Rightarrow> sandbox_proto list result" where
  "SandboxListRemote stub m = over_mtls (scList stub) m ()"

definition NodeListRemote :: "control_stub \<Rightarrow> mtls \<Rightarrow> node_info list result" where
  "NodeListRemote stub m = over_mtls (scNodeList stub) m ()"

definition NodeInspectRemote :: "control_stub \<Rightarrow> mtls \<Rightarrow> string \<Rightarrow> node_info option result" where
  "NodeInspectRemote stub m i = over_mtls (scNodeInspect stub) m i"

definition RuntimeHeartbeatRemote :: "control_stub \<Rightarrow> mtls \<Rightarrow> heartbeat_request \<Rightarrow> heartbeat_response result" where
  "RuntimeHeartbeatRemote stub m req = over_mtls (scHeartbeat stub) m req"

definition UpdateSandboxStatusRemote :: "control_stub \<Rightarrow> mtls \<Rightarrow> status_request \<Rightarrow> go_error option" where
  "UpdateSandboxStatusRemote stub m req = (case over_mtls (scUpdateStatus stub) m req of Inl e \<Rightarrow> Some e | Inr _ \<Rightarrow> None)"

definition SandboxIDMetadataKey :: string where "SandboxIDMetadataKey = ''sandbox-id''"

definition AgentRelayMetadata :: "string \<Rightarrow> metadata" where
  "AgentRelayMetadata sandboxID = [(SandboxIDMetadataKey, [sandboxID])]"

section \<open>Forwarding a log\<close>

text \<open>
  The chunks that were forwarded, and how the call ended: not at all, regularly, or with an error.
\<close>

fun forward_logs :: "(nat \<Rightarrow> go_error option) \<Rightarrow> nat \<Rightarrow> logs_chunk list \<Rightarrow> recv_end \<Rightarrow> logs_chunk list \<times> go_error option option" where
  "forward_logs send i [] fin = ([], case fin of RecvEOF \<Rightarrow> Some None | RecvFailed e \<Rightarrow> Some (Some e) | RecvOpen \<Rightarrow> None)"
| "forward_logs send i (c # cs) fin =
     (case send i of
        Some e \<Rightarrow> ([], Some (Some e))
      | None \<Rightarrow> (case forward_logs send (i + 1) cs fin of (sent, r) \<Rightarrow> (c # sent, r)))"

type_synonym log_source = "runtime_conn \<Rightarrow> logs_request \<Rightarrow> (logs_chunk list \<times> recv_end) result"

definition StreamRemoteLogs ::
  "log_source \<Rightarrow> mtls \<Rightarrow> logs_request \<Rightarrow> (nat \<Rightarrow> go_error option) \<Rightarrow> logs_chunk list \<times> go_error option option" where
  "StreamRemoteLogs logs m req send =
     (case DialRuntime (mlTls m) (mlDial m) (mlAddr m) (mlCert m) (mlKey m) (mlCA m) of
        Inl e \<Rightarrow> ([], Some (Some e))
      | Inr conn \<Rightarrow>
          (case logs conn req of
             Inl e \<Rightarrow> ([], Some (Some e))
           | Inr (chunks, fin) \<Rightarrow> forward_logs send 0 chunks fin))"

text \<open>The daemon's log call: from its own driver, or from the node that has the sandbox.\<close>

definition daemon_SandboxLogs ::
  "gotime \<Rightarrow> json_codec \<Rightarrow> rpc_context \<Rightarrow> (string \<Rightarrow> sandbox_proto result) \<Rightarrow> (string \<Rightarrow> node_info option result) \<Rightarrow>
     (nat \<Rightarrow> log_options \<Rightarrow> (log_entry list \<times> go_error option) result) \<Rightarrow> driver \<Rightarrow>
     tls_lib \<Rightarrow> (string \<Rightarrow> go_error option) \<Rightarrow> log_source \<Rightarrow> logs_request \<Rightarrow> (nat \<Rightarrow> go_error option) \<Rightarrow> daemon \<Rightarrow>
     logs_chunk list \<times> go_error option option" where
  "daemon_SandboxLogs now json ctx remote inspect stream drv tls dial logs req send d =
     (case SandboxLogs_route now json ctx remote inspect (lqSandboxId req) (lqSources req) d of
        Inl e \<Rightarrow> ([], Some (Some e))
      | Inr (LocalLogs sources) \<Rightarrow>
          (case FollowLogs stream drv send (lqSandboxId req)
                  \<lparr>loFollow = lqFollow req, loSources = sources, loFromCursor = lqLastEventId req\<rparr> of
             (entries, e) \<Rightarrow> (map chunk_of entries, Some e))
      | Inr (RemoteLogs addr) \<Rightarrow>
          (case node_material d of
             None \<Rightarrow> ([], Some (Some (errorf ''no identity'')))
           | Some mat \<Rightarrow>
               StreamRemoteLogs logs
                 \<lparr>mlTls = tls, mlDial = dial, mlAddr = addr, mlCert = mtCertificate mat, mlKey = mtPrivateKey mat, mlCA = mtCACert mat\<rparr>
                 req send))"

text \<open>The public API's log call always goes to the node.\<close>

definition api_Logs ::
  "json_codec \<Rightarrow> rpc_context \<Rightarrow> gotime \<Rightarrow> (string \<Rightarrow> unit result) \<Rightarrow> (string \<Rightarrow> sandbox_proto result) \<Rightarrow>
     (string \<Rightarrow> node_info option result) \<Rightarrow> tls_lib \<Rightarrow> (string \<Rightarrow> go_error option) \<Rightarrow> log_source \<Rightarrow> logs_request \<Rightarrow>
     (nat \<Rightarrow> go_error option) \<Rightarrow> daemon \<Rightarrow> logs_chunk list \<times> go_error option option" where
  "api_Logs json ctx now dial_leader remote inspect tls dial logs req send d =
     (case api_Logs_addr json ctx now dial_leader remote inspect (lqSandboxId req) d of
        Inl e \<Rightarrow> ([], Some (Some e))
      | Inr addr \<Rightarrow>
          (case IdentityPEMs d of
             Inl e \<Rightarrow> ([], Some (Some (StatusError FailedPrecondition e)))
           | Inr (cert, key, ca) \<Rightarrow>
               StreamRemoteLogs logs
                 \<lparr>mlTls = tls, mlDial = dial, mlAddr = addr, mlCert = cert, mlKey = key, mlCA = ca\<rparr> req send))"

section \<open>Who is called\<close>

lemma over_mtls_dialled:
  "over_mtls call m req = Inr r \<Longrightarrow> \<exists>conn. DialMTLS (mlTls m) (mlDial m) (mlAddr m) (mlCert m) (mlKey m) (mlCA m) = Inr conn"
  "(case over_mtls call m req of Inl e \<Rightarrow> Some e | Inr _ \<Rightarrow> None) = None \<Longrightarrow>
     \<exists>conn. DialMTLS (mlTls m) (mlDial m) (mlAddr m) (mlCert m) (mlKey m) (mlCA m) = Inr conn"
  by (auto simp: over_mtls_def split: sum.splits)

lemma client_config:
  assumes "ClientTLSFromPEMs tls cert key ca name = Inr cfg" and "cert \<noteq> []" and "key \<noteq> []"
  shows "tcRoots cfg = Some ca \<and> tcServerName cfg = name \<and> \<not> tcSkipVerify cfg \<and> tcPair cfg = Some (cert, key)"
  using assms by (cases "tlAppendCerts tls ca"; cases "tlX509KeyPair tls cert key")
    (auto simp: ClientTLSFromPEMs_def Let_def zero_tls_def)

text \<open>
  A node's calls go to a manager of its own cluster and say who makes them: whatever of
  the remote calls succeeds was answered over a connection that trusts only the cluster's authority,
  insists on a manager's certificate, and presents the caller's own.
\<close>

theorem remote_calls_authenticated:
  assumes "mlCert m \<noteq> []" and "mlKey m \<noteq> []"
    and "SandboxCreateRemote stub m creq = Inr a \<or> SandboxStartRemote stub m i = Inr a \<or> SandboxStopRemote stub m i = Inr a \<or>
      SandboxGetRemote stub m i = Inr a \<or> SandboxGetByNameRemote stub m i = Inr a \<or> SandboxRemoveRemote stub m i = None \<or>
      SandboxListRemote stub m = Inr b \<or> NodeListRemote stub m = Inr c \<or> NodeInspectRemote stub m i = Inr n \<or>
      RuntimeHeartbeatRemote stub m hreq = Inr h \<or> UpdateSandboxStatusRemote stub m sreq = None"
  shows "\<exists>cfg. DialMTLS (mlTls m) (mlDial m) (mlAddr m) (mlCert m) (mlKey m) (mlCA m) = Inr (normalizeAddr (mlAddr m), cfg) \<and>
    tcRoots cfg = Some (mlCA m) \<and> tcServerName cfg = TLSServerName \<and> \<not> tcSkipVerify cfg \<and> tcPair cfg = Some (mlCert m, mlKey m)"
proof -
  from assms(3) obtain conn where "DialMTLS (mlTls m) (mlDial m) (mlAddr m) (mlCert m) (mlKey m) (mlCA m) = Inr conn"
    unfolding SandboxCreateRemote_def SandboxStartRemote_def SandboxStopRemote_def SandboxGetRemote_def SandboxGetByNameRemote_def
      SandboxRemoveRemote_def SandboxListRemote_def NodeListRemote_def NodeInspectRemote_def RuntimeHeartbeatRemote_def
      UpdateSandboxStatusRemote_def
    by (elim disjE) (drule over_mtls_dialled, elim exE, assumption)+
  then obtain cfg where cfg: "ClientTLSFromPEMs (mlTls m) (mlCert m) (mlKey m) (mlCA m) TLSServerName = Inr cfg"
    "DialMTLS (mlTls m) (mlDial m) (mlAddr m) (mlCert m) (mlKey m) (mlCA m) = Inr (normalizeAddr (mlAddr m), cfg)"
    unfolding DialMTLS_def by (cases "ClientTLSFromPEMs (mlTls m) (mlCert m) (mlKey m) (mlCA m) TLSServerName")
      (simp_all split: option.splits)
  from client_config [OF cfg(1) assms(1,2)] cfg(2) show ?thesis by blast
qed

section \<open>A log on its way\<close>

lemma follow_loop_prefix:
  "follow_loop emit i es fin = (sent, r) \<Longrightarrow> prefix sent es \<and> (r = None \<longrightarrow> sent = es \<and> fin = None)"
  by (induction emit i es fin arbitrary: sent r rule: follow_loop.induct) (auto split: option.splits prod.splits)

lemma forward_logs_prefix:
  "forward_logs send i cs fin = (sent, r) \<Longrightarrow> prefix sent cs \<and> (r = Some None \<longrightarrow> sent = cs \<and> fin = RecvEOF)"
  by (induction send i cs fin arbitrary: sent r rule: forward_logs.induct) (auto split: option.splits prod.splits recv_end.splits)

lemma node_log:
  assumes "rt_Logs stream drv send r req = (cs, e)" and "cs \<noteq> [] \<or> e = None"
  shows "\<exists>n opts entries fin. gm_get drv (lqSandboxId req) = Some n \<and> stream n opts = Inr (entries, fin) \<and>
    prefix cs (map chunk_of entries) \<and> (e = None \<longrightarrow> cs = map chunk_of entries \<and> fin = None)"
  using assms
  by (auto simp: rt_Logs_def FollowLogs_def dest!: follow_loop_prefix intro!: exI map_mono_prefix split: if_splits prod.splits option.splits sum.splits)

text \<open>What the receiver of a stream sees of its end.\<close>

definition stream_end :: "go_error option option \<Rightarrow> recv_end" where
  "stream_end r = (case r of None \<Rightarrow> RecvOpen | Some None \<Rightarrow> RecvEOF | Some (Some e) \<Rightarrow> RecvFailed e)"

definition log_event :: "(logs_chunk \<Rightarrow> string) \<Rightarrow> log_entry \<Rightarrow> string" where
  "log_event render e = sse_text ''log'' (leID e) (render (chunk_of e))"

lemma log_event_chunk: "sse_text ''log'' (lcId (chunk_of e)) (render (chunk_of e)) = log_event render e"
  by (simp add: log_event_def chunk_of_def)

lemma events_prefix:
  assumes "prefix cs (map chunk_of entries)" and "log_events render written gone i cs fin = es"
    and "fin = RecvEOF \<Longrightarrow> cs = map chunk_of entries"
  shows "prefix es (map (log_event render) entries @ [sse_text ''end'' [] ''{}'']) \<and> (length entries < length es \<longrightarrow> fin = RecvEOF)"
proof -
  let ?ev = "\<lambda>c. sse_text ''log'' (lcId c) (render c)"
  have all: "map ?ev (map chunk_of entries) = map (log_event render) entries"
    by (simp add: log_event_chunk)
  have es: "prefix es (map ?ev cs @ (if fin = RecvEOF then [sse_text ''end'' [] ''{}''] else []))"
    using log_events_prefix [of render written gone i cs fin] assms(2) by simp
  show ?thesis
  proof (cases "fin = RecvEOF")
    case True
    with es assms(3) show ?thesis by (simp only: all if_True) simp
  next
    case False
    with es have "prefix es (map ?ev cs)" by simp
    moreover have "prefix (map ?ev cs) (map (log_event render) entries)"
      using map_mono_prefix [OF assms(1), of ?ev] by (simp only: all)
    ultimately have pre: "prefix es (map (log_event render) entries)" by (rule prefix_order.trans)
    then have "length es \<le> length entries" using prefix_length_le by fastforce
    moreover have "prefix es (map (log_event render) entries @ [sse_text ''end'' [] ''{}''])" using pre by (rule prefix_prefix)
    ultimately show ?thesis by simp
  qed
qed

text \<open>
  Claim C23: what a client of the gateway sees of a log is what the sandbox wrote: with any failure
  of the node, of the manager in between or of the client's connection, the events it gets are the
  first of the node's entries, in their order and unchanged, and the closing event comes only after
  all of them and only if the log itself ended regularly.
\<close>

theorem log_pipeline:
  assumes "rt_Logs stream drv sendN r req = (cs, e)"
    and "DialRuntime (mlTls m) (mlDial m) (mlAddr m) (mlCert m) (mlKey m) (mlCA m) = Inr conn"
    and "logs conn req = Inr (cs, stream_end (Some e))" and "StreamRemoteLogs logs m req sendM = (cs', e')"
    and "log_events render written gone 0 cs' (stream_end e') = es" and "es \<noteq> []"
  shows "\<exists>n opts entries fin. gm_get drv (lqSandboxId req) = Some n \<and> stream n opts = Inr (entries, fin) \<and>
    prefix es (map (log_event render) entries @ [sse_text ''end'' [] ''{}'']) \<and> (length entries < length es \<longrightarrow> fin = None)"
proof -
  have fwd: "forward_logs sendM 0 cs (stream_end (Some e)) = (cs', e')"
    using assms(2-4) by (simp add: StreamRemoteLogs_def)
  note f = forward_logs_prefix [OF fwd]
  have eof: "stream_end e' = RecvEOF \<Longrightarrow> cs' = cs \<and> e = None"
    using f by (auto simp: stream_end_def split: option.splits)
  have "cs \<noteq> [] \<or> e = None"
  proof (rule ccontr)
    assume none: "\<not> ?thesis"
    then have "cs' = []" "stream_end e' \<noteq> RecvEOF" using f eof by auto
    with assms(5,6) show False by simp
  qed
  from node_log [OF assms(1) this] obtain n opts entries fin where
    n: "gm_get drv (lqSandboxId req) = Some n" "stream n opts = Inr (entries, fin)" "prefix cs (map chunk_of entries)"
    "e = None \<longrightarrow> cs = map chunk_of entries \<and> fin = None" by blast
  have "prefix cs' (map chunk_of entries)" using f n(3) by (blast intro: prefix_order.trans)
  from events_prefix [OF this assms(5)] n(4) eof
  have "prefix es (map (log_event render) entries @ [sse_text ''end'' [] ''{}''])" "length entries < length es \<longrightarrow> fin = None"
    by blast+
  with n(1,2) show ?thesis by blast
qed

text \<open>A node with a sandbox that wrote two lines, and a manager's material.\<close>

definition demo_entries :: "log_entry list" where
  "demo_entries = [\<lparr>leID = ''1'', leSource = ''stdout'', leTimestamp = unix_epoch, leText = ''a''\<rparr>,
     \<lparr>leID = ''2'', leSource = ''stderr'', leTimestamp = unix_epoch, leText = ''b''\<rparr>]"

definition demo_log_stream :: "nat \<Rightarrow> log_options \<Rightarrow> (log_entry list \<times> go_error option) result" where
  "demo_log_stream n opts = Inr (demo_entries, None)"

definition demo_mtls :: mtls where
  "demo_mtls = \<lparr>mlTls = geTls demo_gw_env, mlDial = (\<lambda>_. None), mlAddr = ''10.0.0.7:17948'', mlCert = ''crt'', mlKey = ''key'', mlCA = ''ca''\<rparr>"

definition demo_logs_request :: logs_request where
  "demo_logs_request = \<lparr>lqSandboxId = ''s1'', lqFollow = True, lqSources = [], lqLastEventId = []\<rparr>"

lemma demo_runtime_dial:
  "\<exists>conn. DialRuntime (mlTls demo_mtls) (mlDial demo_mtls) (mlAddr demo_mtls) (mlCert demo_mtls) (mlKey demo_mtls) (mlCA demo_mtls) = Inr conn"
  by (simp add: DialRuntime_def ClientTLSFromPEMs_def demo_mtls_def demo_gw_env_def)

lemma demo_rt_Logs:
  "rt_Logs demo_log_stream [(''s1'', 4)] (\<lambda>_. None) (NewRuntimeServer True) demo_logs_request = (map chunk_of demo_entries, None)"
  by (simp add: rt_Logs_def NewRuntimeServer_def demo_logs_request_def FollowLogs_def demo_log_stream_def demo_entries_def)

theorem log_pipeline_witness:
  "\<exists>es. log_events lcText (\<lambda>_. True) (\<lambda>_. False) 0 (map chunk_of demo_entries) RecvEOF = es \<and> length es = 3 \<and>
     (\<exists>entries. prefix es (map (log_event lcText) entries @ [sse_text ''end'' [] ''{}'']))"
proof -
  obtain conn where conn: "DialRuntime (mlTls demo_mtls) (mlDial demo_mtls) (mlAddr demo_mtls) (mlCert demo_mtls) (mlKey demo_mtls) (mlCA demo_mtls) = Inr conn"
    using demo_runtime_dial by blast
  define logs :: log_source where "logs = (\<lambda>_ _. Inr (map chunk_of demo_entries, stream_end (Some None)))"
  have run: "StreamRemoteLogs logs demo_mtls demo_logs_request (\<lambda>_. None) = (map chunk_of demo_entries, Some None)"
    by (simp add: StreamRemoteLogs_def conn logs_def demo_entries_def stream_end_def)
  define es where "es = log_events lcText (\<lambda>_. True) (\<lambda>_. False) 0 (map chunk_of demo_entries) (stream_end (Some None))"
  have len: "length es = 3" by (simp add: es_def demo_entries_def stream_end_def)
  then have "es \<noteq> []" by auto
  from log_pipeline [OF demo_rt_Logs conn _ run es_def [symmetric] this]
  have "\<exists>entries. prefix es (map (log_event lcText) entries @ [sse_text ''end'' [] ''{}''])"
    by (auto simp: logs_def)
  with len show ?thesis by (auto simp: es_def stream_end_def)
qed

section \<open>The sandbox a relay is for\<close>

lemma relay_metadata: "sandboxIDFromContext (Some (AgentRelayMetadata i)) SandboxIDMetadataKey = trim_space i"
  by (simp add: sandboxIDFromContext_def AgentRelayMetadata_def md_get_def)

theorem remote_calls_authenticated_witness:
  "\<exists>cfg :: tls_config. tcRoots cfg = Some ''ca'' \<and> tcServerName cfg = TLSServerName \<and> tcPair cfg = Some (''crt'', ''key'')"
proof -
  define stub :: control_stub where
    "stub = \<lparr>scCreate = \<lambda>_ _. Inr None, scStart = \<lambda>_ _. Inr None, scStop = \<lambda>_ _. Inr None, scRemove = \<lambda>_ _. Inr (),
       scGet = \<lambda>_ _. Inr None, scGetByName = \<lambda>_ _. Inr None, scList = \<lambda>_ _. Inr [], scNodeList = \<lambda>_ _. Inr [],
       scNodeInspect = \<lambda>_ _. Inr None, scHeartbeat = \<lambda>_ _. Inl (errorf ''demo''), scUpdateStatus = \<lambda>_ _. Inr ()\<rparr>"
  have "SandboxStartRemote stub demo_mtls ''s1'' = Inr None"
    by (simp add: SandboxStartRemote_def over_mtls_def DialMTLS_def ClientTLSFromPEMs_def demo_mtls_def demo_gw_env_def stub_def)
  then show ?thesis
    using remote_calls_authenticated [of demo_mtls stub _ None "''s1''"] by (auto simp: demo_mtls_def)
qed

end
