(* ===== verification/Daemon_Invariants.thy ===== *)
theory Daemon_Invariants
  imports Sandbox_Api
begin

text \<open>
  What holds of a node's process at every moment: the daemon as a state machine over its
  operations, with the environment free to answer anything at each step, and the invariants of
  its pointers, sockets and loops.
\<close>

section \<open>The state machine\<close>

text \<open>
  The first state is what \<open>Run\<close> leaves behind on any data directory. Raft, the agent and the
  quarantine move by themselves; \<open>put_control\<close> is any write of the sandbox server.
\<close>

inductive daemon_step :: "daemon \<Rightarrow> daemon \<Rightarrow> bool" where
  init: "daemon_step d (fst (Init h d req))"
| join: "daemon_step d (fst (Join h d jreq))"
| leave: "daemon_step d (fst (snd (Leave h d force)))"
| heartbeat: "daemon_step d (fst (sendHeartbeat h codec json now remote d))"
| renewal: "daemon_step d (renew_step h d)"
| watch: "daemon_step d (snd (watch_tick load (w, d)))"
| role: "daemon_step d (fst (applyRoleChange h desired d))"
| report: "daemon_step d (fst (reportSandboxStatus load now rep d i g st))"
| sandbox_write: "dnRaft d \<noteq> None \<Longrightarrow> dnQuarantine d \<noteq> None \<Longrightarrow> daemon_step d (put_control c d)"
| key_create: "daemon_step d (fst (APIKeyCreate load hash rand rand_id now name d))"
| key_delete: "daemon_step d (fst (APIKeyDelete load i d))"
| raft_moves: "dnRaft d \<noteq> None \<Longrightarrow> daemon_step d (d\<lparr>dnRaft := Some r\<rparr>)"
| agent_moves: "dnAgent d \<noteq> None \<Longrightarrow> daemon_step d (d\<lparr>dnAgent := Some a\<rparr>)"
| stop: "daemon_step d (shutdown d)"

inductive reachable :: "daemon \<Rightarrow> bool" where
  start: "reachable (fst (Run_start h (New pl dir raftDir cfg)))"
| step: "reachable d \<Longrightarrow> daemon_step d d' \<Longrightarrow> reachable d'"

section \<open>The invariant\<close>

definition servers_together :: "daemon \<Rightarrow> bool" where
  "servers_together d \<longleftrightarrow> (dnCa d \<noteq> None \<longleftrightarrow> dnSandboxAPI d) \<and> (dnQuarantine d \<noteq> None \<longleftrightarrow> dnSandboxAPI d) \<and>
     (dnRaft d \<noteq> None \<longrightarrow> dnSandboxAPI d)"

definition runtime_together :: "daemon \<Rightarrow> bool" where
  "runtime_together d \<longleftrightarrow> (dnAgent d \<noteq> None \<longleftrightarrow> dnDriver d) \<and> (dnRuntimeSrv d \<longleftrightarrow> dnDriver d)"

definition member_only :: "daemon \<Rightarrow> bool" where
  "member_only d \<longleftrightarrow> (dnSandboxAPI d \<or> dnRemote d \<noteq> None \<or> dnAgent d \<noteq> None \<longrightarrow> HasIdentity (dnId d))"

definition api_guarded :: "daemon \<Rightarrow> bool" where
  "api_guarded d \<longleftrightarrow> (\<forall>rs. dnRemote d = Some rs \<longrightarrow> (rsSandboxAPI rs \<longrightarrow> rsKeyGuard rs) \<and> (rsControl rs \<longleftrightarrow> rsSandboxAPI rs))"

definition loops_scoped :: "daemon \<Rightarrow> bool" where
  "loops_scoped d \<longleftrightarrow> (dnLoops d \<noteq> [] \<longrightarrow> dnCluster d)"

definition daemon_ok :: "daemon \<Rightarrow> bool" where
  "daemon_ok d \<longleftrightarrow> servers_together d \<and> runtime_together d \<and> member_only d \<and> api_guarded d \<and> loops_scoped d"

lemmas daemon_ok_defs = daemon_ok_def servers_together_def runtime_together_def member_only_def api_guarded_def
  loops_scoped_def

section \<open>The building blocks\<close>

lemma signer_update_keeps:
  assumes "signer_update load d = (d', e)"
  shows "\<exists>c. d' = d\<lparr>dnCa := c\<rparr> \<and> (c = None \<longleftrightarrow> dnCa d = None)"
proof (cases "dnRaft d = None \<or> dnCa d = None")
  case True
  with assms have "d' = d" by (auto simp: signer_update_def split: option.splits)
  then show ?thesis by (intro exI [of _ "dnCa d"]) simp
next
  case False
  then obtain rs c where rc: "dnRaft d = Some rs" "dnCa d = Some c" by auto
  obtain s f where u: "UpdateRootCA load \<lparr>caRaft = rs, caRoot = cgRoot c, caReady = cgReady c\<rparr> = (s, f)" by fastforce
  with assms rc have "d' = d\<lparr>dnCa := Some \<lparr>cgRoot = caRoot s, cgReady = caReady s\<rparr>\<rparr>"
    by (simp add: signer_update_def)
  with rc(2) show ?thesis
    by (intro exI [of _ "Some \<lparr>cgRoot = caRoot s, cgReady = caReady s\<rparr>"]) simp
qed

lemma startRuntime_cases:
  assumes "startRuntimeLocked h d = (d', e)"
  obtains (same) "d' = d" | (failed) err where "d' = d\<lparr>dnRuntimeErr := err\<rparr>"
  | (started) "HasIdentity (dnId d)" "dnAgent d = None"
      "d' = d\<lparr>dnDriver := True, dnAgent := Some NewAgent, dnRuntimeErr := None, dnRuntimeSrv := True,
              dnLoops := HeartbeatLoop # AgentLoop # dnLoops d\<rparr>"
proof (cases "dnAgent d")
  case (Some a)
  with assms have "d' = d" by (simp add: startRuntimeLocked_def)
  then show ?thesis by (rule same)
next
  case agent: None
  show ?thesis
  proof (cases "hsInstalled h")
    case (Some err)
    with assms agent have "d' = d\<lparr>dnRuntimeErr := Some err\<rparr>" by (simp add: startRuntimeLocked_def)
    then show ?thesis by (rule failed)
  next
    case installed: None
    show ?thesis
    proof (cases "node_material d")
      case None
      with assms agent installed have "d' = d" by (simp add: startRuntimeLocked_def)
      then show ?thesis by (rule same)
    next
      case (Some mat)
      then have "HasIdentity (dnId d)" by (simp add: HasIdentity_def node_material_def)
      moreover have "d' = d\<lparr>dnDriver := True, dnAgent := Some NewAgent, dnRuntimeErr := None, dnRuntimeSrv := True,
              dnLoops := HeartbeatLoop # AgentLoop # dnLoops d\<rparr>"
        using assms agent installed Some by (simp add: startRuntimeLocked_def start_loop_def)
      ultimately show ?thesis using agent by (intro started)
    qed
  qed
qed

lemma startRemote_cases:
  assumes "startRemoteGRPCLocked h listen d = (d', e)"
  obtains (same) "d' = d" | (started) "HasIdentity (dnId d)" "d' = d\<lparr>dnRemote := Some (remote_server_of listen d)\<rparr>"
proof (cases "dnRemote d")
  case (Some rs)
  with assms have "d' = d" by (simp add: startRemoteGRPCLocked_def)
  then show ?thesis by (rule same)
next
  case remote: None
  show ?thesis
  proof (cases "id_ServerTLSConfig (hsTls h) (dnId d)")
    case (Inl err)
    with assms remote have "d' = d" by (simp add: startRemoteGRPCLocked_def)
    then show ?thesis by (rule same)
  next
    case tls: (Inr cfg)
    then have id: "HasIdentity (dnId d)"
      by (cases "isMat (dnId d)") (simp_all add: id_ServerTLSConfig_def HasIdentity_def)
    show ?thesis
    proof (cases "hsListen h listen")
      case None
      with assms remote tls have "d' = d\<lparr>dnRemote := Some (remote_server_of listen d)\<rparr>"
        by (simp add: startRemoteGRPCLocked_def)
      with id show ?thesis by (rule started)
    next
      case (Some err)
      with assms remote tls have "d' = d" by (simp add: startRemoteGRPCLocked_def)
      then show ?thesis by (rule same)
    qed
  qed
qed

text \<open>Services may start once the API is served only next to a Raft store.\<close>

lemma start_services_ok:
  assumes "daemon_ok d" and "dnCluster d" and "dnSandboxAPI d \<longrightarrow> dnRaft d \<noteq> None"
  shows "daemon_ok (fst (start_services h listen d))"
proof -
  obtain d1 e1 where d1: "startRuntimeLocked h d = (d1, e1)" by fastforce
  obtain d2 e2 where d2: "startRemoteGRPCLocked h listen d1 = (d2, e2)" by fastforce
  have ok1: "daemon_ok d1 \<and> (dnSandboxAPI d1 \<longrightarrow> dnRaft d1 \<noteq> None)"
    using d1 by (cases rule: startRuntime_cases) (use assms in \<open>auto simp: daemon_ok_defs\<close>)
  have "daemon_ok d2"
    using d2 by (cases rule: startRemote_cases) (use ok1 in \<open>auto simp: daemon_ok_defs remote_server_of_def\<close>)
  then show ?thesis by (simp add: start_services_def d1 d2)
qed

lemma restartRemote_ok:
  assumes "daemon_ok d" and "dnSandboxAPI d \<longrightarrow> dnRaft d \<noteq> None"
  shows "daemon_ok (fst (restartRemoteGRPCLocked h listen d))"
proof -
  obtain d2 e2 where d2: "startRemoteGRPCLocked h listen (d\<lparr>dnRemote := None\<rparr>) = (d2, e2)" by fastforce
  have "daemon_ok d2"
    using d2 by (cases rule: startRemote_cases) (use assms in \<open>auto simp: daemon_ok_defs remote_server_of_def\<close>)
  then show ?thesis by (simp add: restartRemoteGRPCLocked_def d2)
qed

lemma id_Save_identity: "HasIdentity s \<Longrightarrow> HasIdentity (fst (id_Save codec os s mat st))"
  by (auto simp: id_Save_def HasIdentity_def Let_def split: prod.splits option.splits)

lemma id_Save_ok_identity: "id_Save codec os s mat st = (s', None) \<Longrightarrow> HasIdentity s'"
  by (auto simp: id_Save_def HasIdentity_def Let_def split: prod.splits option.splits)

lemma manager_servers_ok:
  assumes "daemon_ok d" and "HasIdentity (dnId d)"
  shows "daemon_ok (manager_servers rs d)"
  using assms by (auto simp: daemon_ok_defs manager_servers_def)

lemma daemon_ok_ca: "daemon_ok d \<Longrightarrow> (c = None \<longleftrightarrow> dnCa d = None) \<Longrightarrow> daemon_ok (d\<lparr>dnCa := c\<rparr>)"
  by (simp add: daemon_ok_def servers_together_def runtime_together_def member_only_def api_guarded_def loops_scoped_def)

lemma signer_update_ok:
  assumes "daemon_ok d"
  shows "daemon_ok (fst (signer_update load d))"
proof -
  obtain d' e where u: "signer_update load d = (d', e)" by fastforce
  obtain c where d': "d' = d\<lparr>dnCa := c\<rparr>" and c: "c = None \<longleftrightarrow> dnCa d = None"
    using signer_update_keeps [OF u] by (elim exE conjE)
  show ?thesis
    unfolding u fst_conv d' by (rule daemon_ok_ca [OF assms c])
qed

lemma open_raft_keeps: "open_raft h d i a b fresh = (d', r) \<Longrightarrow> \<exists>x. d' = d\<lparr>dnRaftDir := x\<rparr>"
  by (auto simp: open_raft_def Let_def)

lemma join_raft_keeps: "join_raft h d a m b c = (d', r) \<Longrightarrow> \<exists>x. d' = d\<lparr>dnRaftDir := x\<rparr>"
  using open_raft_keeps by (fastforce simp: join_raft_def split: prod.splits sum.splits option.splits)

text \<open>Changes the invariant does not see.\<close>

lemma daemon_ok_frame [simp]:
  "daemon_ok (d\<lparr>dnRaftDir := x\<rparr>) = daemon_ok d" "daemon_ok (d\<lparr>dnLastAssigned := as\<rparr>) = daemon_ok d"
  "daemon_ok (d\<lparr>dnTeardown := t\<rparr>) = daemon_ok d" "daemon_ok (d\<lparr>dnRuntimeErr := e\<rparr>) = daemon_ok d"
  by (simp_all add: daemon_ok_defs)

lemma daemon_ok_id: "daemon_ok d \<Longrightarrow> (HasIdentity (dnId d) \<Longrightarrow> HasIdentity st) \<Longrightarrow> daemon_ok (d\<lparr>dnId := st\<rparr>)"
  by (auto simp: daemon_ok_defs)

lemma daemon_ok_raft: "daemon_ok d \<Longrightarrow> dnSandboxAPI d \<Longrightarrow> daemon_ok (d\<lparr>dnRaft := r\<rparr>)"
  by (auto simp: daemon_ok_defs)

lemma ensure_ok [simp]: "daemon_ok d \<Longrightarrow> daemon_ok (ensureClusterCtx d)"
  by (auto simp: daemon_ok_defs ensureClusterCtx_def)

lemma start_loop_ok: "daemon_ok d \<Longrightarrow> dnCluster d \<Longrightarrow> daemon_ok (start_loop l d)"
  by (auto simp: daemon_ok_defs start_loop_def)

lemma stop_ok: "daemon_ok (stopClusterLocal d)" "daemon_ok (shutdown d)"
  by (simp_all add: daemon_ok_defs stopClusterLocal_def shutdown_def)

lemma stop_none [simp]:
  "dnSandboxAPI (stopClusterLocal d) = False" "dnRemote (stopClusterLocal d) = None" "dnAgent (stopClusterLocal d) = None"
  by (simp_all add: stopClusterLocal_def)

lemma stop_any_id: "daemon_ok ((stopClusterLocal d)\<lparr>dnId := st\<rparr>)"
  using stop_ok(1) [of d] by (simp add: daemon_ok_defs)

lemma start_cluster_fields [simp]:
  "dnCluster (ensureClusterCtx d) = True" "dnCluster (start_loop l d) = dnCluster d"
  "dnSandboxAPI (start_loop l d) = dnSandboxAPI d" "dnRaft (start_loop l d) = dnRaft d"
  "dnSandboxAPI (ensureClusterCtx d) = dnSandboxAPI d" "dnRaft (ensureClusterCtx d) = dnRaft d"
  "dnId (start_loop l d) = dnId d" "dnId (ensureClusterCtx d) = dnId d"
  by (simp_all add: ensureClusterCtx_def start_loop_def)

text \<open>A daemon that has become a manager, with its signer warmed.\<close>

lemma new_manager:
  assumes "daemon_ok d" and "HasIdentity (dnId d)" and "signer_update load (manager_servers rs d) = (d', e)"
  shows "daemon_ok d'" and "dnRaft d' = Some rs" and "dnSandboxAPI d'" and "dnCluster d' = dnCluster d" and "dnId d' = dnId d"
proof -
  show "daemon_ok d'"
    using signer_update_ok [OF manager_servers_ok [OF assms(1,2)], of load rs] assms(3) by simp
  obtain c where "d' = (manager_servers rs d)\<lparr>dnCa := c\<rparr>"
    using signer_update_keeps [OF assms(3)] by (elim exE conjE)
  then show "dnRaft d' = Some rs" "dnSandboxAPI d'" "dnCluster d' = dnCluster d" "dnId d' = dnId d"
    by (simp_all add: manager_servers_def)
qed

section \<open>Every operation keeps it\<close>

lemma manager_services_ok:
  assumes "daemon_ok d" and "HasIdentity (dnId d)" and "signer_update load (manager_servers rs d) = (d', e)"
  shows "daemon_ok (fst (start_services h listen (start_loop RenewLoop (start_loop LeadershipLoop (ensureClusterCtx d')))))"
proof -
  note m = new_manager [OF assms]
  show ?thesis
    by (rule start_services_ok) (use m in \<open>simp_all add: start_loop_ok\<close>)
qed

lemma Init_saved_ok:
  assumes "\<not> HasIdentity (dnId d)" and "init_material h (dnCfg d) req = Inr nc"
    and "id_Save (hsCodec h) (hsOs h) (dnId d) (ncMaterial nc) (ncState nc) = (st, None)" and "daemon_ok (d\<lparr>dnId := st\<rparr>)"
  shows "daemon_ok (fst (Init h d req))"
proof -
  note defs = Init_def Let_def assms(1-3)
  obtain d1 r where op: "open_raft h (d\<lparr>dnId := st\<rparr>) (mtNodeID (ncMaterial nc)) (dsRaftAddr (ncState nc))
      (dsAdvertiseAddr (ncState nc)) True = (d1, r)" by fastforce
  have d1: "daemon_ok d1" "HasIdentity (dnId d1)"
    using open_raft_keeps [OF op] assms(4) id_Save_ok_identity assms(3) by auto
  show ?thesis
  proof (cases r)
    case (Inl err)
    then show ?thesis using op d1 by (simp add: defs)
  next
    case (Inr rs)
    obtain rs1 ce where cc: "CreateCluster (hs_load h) (hsNow h) rs
         \<lparr>cfClusterID = mtClusterID (ncMaterial nc), cfCertValidity = ncValidity nc, cfRootCA = Some (ncRoot nc),
          cfJoinSecrets = ncSecrets nc\<rparr> = (rs1, ce)" by fastforce
    show ?thesis
    proof (cases ce)
      case (Some err)
      have "daemon_ok ((manager_servers rs1 d1)\<lparr>dnRaft := None\<rparr>)"
        by (rule daemon_ok_raft [OF manager_servers_ok [OF d1]]) (simp add: manager_servers_def)
      then show ?thesis using op Inr cc Some by (simp add: defs)
    next
      case None
      let ?rs2 = "fst (SaveNode (hs_load h) rs1 (Some (first_node (ncMaterial nc))))"
      obtain d2 ue where up: "signer_update (hs_load h) (manager_servers ?rs2 d1) = (d2, ue)" by fastforce
      note m = new_manager(1) [OF d1 up] and services = manager_services_ok [OF d1 up]
      show ?thesis
        using op Inr cc None up m services [of h "dsListenAddr (ncState nc)"]
        by (simp add: defs case_prod_beta split: option.splits sum.splits)
    qed
  qed
qed

lemma Init_ok:
  assumes "daemon_ok d"
  shows "daemon_ok (fst (Init h d req))"
proof (cases "HasIdentity (dnId d) \<or> \<not> is_ok (init_material h (dnCfg d) req)")
  case True
  then show ?thesis using assms by (auto simp: Init_def is_ok_def split: sum.splits)
next
  case False
  then obtain nc where nc: "init_material h (dnCfg d) req = Inr nc" by (auto simp: is_ok_def split: sum.splits)
  obtain st e where save: "id_Save (hsCodec h) (hsOs h) (dnId d) (ncMaterial nc) (ncState nc) = (st, e)" by fastforce
  have ok_st: "daemon_ok (d\<lparr>dnId := st\<rparr>)"
    by (rule daemon_ok_id) (use assms False in simp_all)
  show ?thesis
  proof (cases e)
    case (Some err)
    then show ?thesis using False nc save ok_st by (simp add: Init_def Let_def)
  next
    case None
    then show ?thesis using False nc save ok_st by (intro Init_saved_ok [of d h req nc st]) simp_all
  qed
qed

lemma join_manager_ok:
  assumes "daemon_ok d" and "\<not> HasIdentity (dnId d)" and "join_raft h d addr mat raftAddr advertise = (d1, Inr (rs, cluster))"
    and "id_Save (hsCodec h) (hsOs h) (dnId d1) mat1 state1 = (st, e)"
    and "signer_update (hs_load h) (manager_servers rs (d1\<lparr>dnId := st\<rparr>)) = (d2, ue)"
  shows "daemon_ok (d1\<lparr>dnId := st\<rparr>) \<and> (e = None \<longrightarrow>
    daemon_ok (fst (start_services h listen (start_loop RenewLoop (start_loop LeadershipLoop (ensureClusterCtx d2))))))"
proof -
  have d1: "daemon_ok d1" "dnId d1 = dnId d" using join_raft_keeps [OF assms(3)] assms(1) by auto
  have ok_st: "daemon_ok (d1\<lparr>dnId := st\<rparr>)"
    by (rule daemon_ok_id [OF d1(1)]) (use assms(2) d1(2) in simp)
  moreover have "daemon_ok (fst (start_services h listen (start_loop RenewLoop (start_loop LeadershipLoop (ensureClusterCtx d2)))))"
    if "e = None"
    using id_Save_ok_identity assms(4) that by (intro manager_services_ok [OF ok_st _ assms(5)]) simp
  ultimately show ?thesis by blast
qed

lemma Join_ok:
  assumes "daemon_ok d"
  shows "daemon_ok (fst (Join h d req))"
proof (cases "HasIdentity (dnId d) \<or> jnToken req = [] \<or> jnRemoteAddr req = [] \<or> \<not> is_ok (join_request h req)")
  case True
  then show ?thesis using assms by (auto simp: Join_def is_ok_def split: sum.splits prod.splits)
next
  case False
  then obtain issued mat where jr: "join_request h req = Inr (issued, mat)" by (auto simp: is_ok_def split: sum.splits)
  obtain listen raftAddr advertise where addrs:
    "chosen_addrs (dnCfg d) (jnListenAddr req) (jnRaftAddr req) (jnAdvertiseAddr req) = (listen, raftAddr, advertise)"
    by (cases "chosen_addrs (dnCfg d) (jnListenAddr req) (jnRaftAddr req) (jnAdvertiseAddr req)")
  obtain pref known where seed:
    "seedManagerAddrs (jnRemoteAddr req) (iyLeaderGrpc issued) (iyManagerAddrs issued) = (pref, known)" by fastforce
  define state where "state = zero_daemon_state\<lparr>dsNodeID := iyNodeID issued, dsRole := iyRole issued,
      dsAdvertiseAddr := advertise, dsListenAddr := listen, dsRaftAddr := raftAddr, dsManagerAddr := pref,
      dsManagerAddrs := known, dsInitialized := True\<rparr>"
  note defs = Join_def Let_def state_def
  show ?thesis
  proof (cases "iyRole issued = RoleManager")
    case manager: True
    obtain d1 r where j: "join_raft h d (jnRemoteAddr req) mat raftAddr advertise = (d1, r)" by fastforce
    show ?thesis
    proof (cases r)
      case (Inl e)
      then show ?thesis using False addrs jr seed manager j join_raft_keeps [OF j] assms by (auto simp: defs)
    next
      case (Inr rc)
      obtain rs cluster where rc: "rc = (rs, cluster)" by fastforce
      obtain st e where save: "id_Save (hsCodec h) (hsOs h) (dnId d1) (mat\<lparr>mtClusterID := clClusterID cluster\<rparr>)
          (state\<lparr>dsClusterID := clClusterID cluster\<rparr>) = (st, e)" by fastforce
      obtain d2 ue where up: "signer_update (hs_load h) (manager_servers rs (d1\<lparr>dnId := st\<rparr>)) = (d2, ue)" by fastforce
      have "\<not> HasIdentity (dnId d)" using False by simp
      note ok = join_manager_ok [OF assms this j [unfolded Inr rc] save up, of listen]
      show ?thesis
        using False addrs jr seed manager j Inr rc save up ok
        by (cases e) (simp_all add: defs case_prod_beta split: option.splits)
    qed
  next
    case worker: False
    obtain st e where save: "id_Save (hsCodec h) (hsOs h) (dnId d) mat state = (st, e)" by fastforce
    have ok_st: "daemon_ok (d\<lparr>dnId := st\<rparr>)"
      by (rule daemon_ok_id [OF assms]) (use False in simp)
    have "\<not> dnSandboxAPI d" "dnRaft d = None" using assms False by (auto simp: daemon_ok_defs)
    then have services: "daemon_ok (fst (start_services h listen (start_loop RenewLoop (ensureClusterCtx (d\<lparr>dnId := st\<rparr>)))))"
      by (intro start_services_ok) (use ok_st in \<open>simp_all add: start_loop_ok\<close>)
    show ?thesis
      using False addrs jr seed worker save ok_st services
      by (simp add: defs case_prod_beta split: option.splits)
  qed
qed

lemma wipe_ok: "daemon_ok (fst (wipe h d))"
proof -
  obtain st e where c: "id_Clear (hsOs h) (dnId (stopClusterLocal d)) = (st, e)" by fastforce
  show ?thesis
    using stop_any_id [where d = d and st = st] by (cases e; cases "hsRemoveRaft h") (simp_all add: wipe_def Let_def c)
qed

lemma Leave_ok:
  assumes "daemon_ok d"
  shows "daemon_ok (fst (snd (Leave h d force)))"
proof (cases "node_material d")
  case None
  then show ?thesis using assms by (simp add: Leave_def)
next
  case (Some mat)
  obtain called err where r: "leave_remote h d mat force = (called, err)" by fastforce
  show ?thesis
    using assms wipe_ok [of h d] Some r
    by (simp add: Leave_def split: option.split)
qed

text \<open>A promotion once the node has its manager certificate, up to the store's opening and beyond it.\<close>

lemma promote_joined_ok:
  assumes "daemon_ok d" and "HasIdentity st"
    and "join_raft h (d\<lparr>dnId := st\<rparr>) mgr mat raftAddr advertise = (d1, Inr (rs, cluster))"
    and "id_Save (hsCodec h) (hsOs h) st mat1 state1 = (st1, e1)"
    and "signer_update (hs_load h) (manager_servers rs (d1\<lparr>dnId := st1\<rparr>)) = (d2, ue)"
  shows "daemon_ok (d1\<lparr>dnId := st1\<rparr>) \<and> daemon_ok d2 \<and>
    daemon_ok (fst (restartRemoteGRPCLocked h listen (start_loop LeadershipLoop (ensureClusterCtx d2))))"
proof -
  obtain x where "d1 = (d\<lparr>dnId := st\<rparr>)\<lparr>dnRaftDir := x\<rparr>"
    using join_raft_keeps [OF assms(3)] by blast
  moreover have "daemon_ok (d\<lparr>dnId := st\<rparr>)" by (rule daemon_ok_id [OF assms(1,2)])
  ultimately have ok1: "daemon_ok d1" "dnId d1 = st" by simp_all
  have st1: "HasIdentity st1"
    using id_Save_identity [OF assms(2), of "hsCodec h" "hsOs h" mat1 state1] assms(4) by simp
  have ok2: "daemon_ok (d1\<lparr>dnId := st1\<rparr>)" by (rule daemon_ok_id [OF ok1(1) st1])
  note m = new_manager [OF ok2 _ assms(5)]
  have "daemon_ok (fst (restartRemoteGRPCLocked h listen (start_loop LeadershipLoop (ensureClusterCtx d2))))"
    by (rule restartRemote_ok) (use m st1 in \<open>simp_all add: start_loop_ok\<close>)
  with ok2 m st1 show ?thesis by simp
qed

lemma promote_renewed_ok:
  assumes "daemon_ok d" and "node_material d = Some mat" and "mgr = managerDialAddrLocked d" and "mgr \<noteq> []"
    and "\<not> (mtRole mat = RoleManager \<and> dnRaft d \<noteq> None)" and "forceRenewLocked h mgr mat = Inr newMat"
    and "mtRole newMat = RoleManager"
  shows "daemon_ok (fst (promoteLocal h d))"
proof -
  let ?state = "isState (dnId d)"
  define raftAddr where "raftAddr = daemon_defaultRaftAddr (or_string (dsRaftAddr ?state) (cgRaftAddr (dnCfg d)))"
  define advertise where "advertise = or_string (dsAdvertiseAddr ?state) (defaultAdvertise (dsListenAddr ?state))"
  define state1 where "state1 = ?state\<lparr>dsRole := RoleManager, dsRaftAddr := raftAddr\<rparr>"
  note eqs = promoteLocal_def Let_def state1_def raftAddr_def advertise_def assms(3) and given = assms(2,4-7)
  obtain st e where save: "id_Save (hsCodec h) (hsOs h) (dnId d) newMat state1 = (st, e)" by fastforce
  have "HasIdentity (dnId d)" using assms(2) by (simp add: HasIdentity_def node_material_def)
  from id_Save_identity [OF this, of "hsCodec h" "hsOs h" newMat state1] have st: "HasIdentity st" using save by simp
  have ok_st: "daemon_ok (d\<lparr>dnId := st\<rparr>)" by (rule daemon_ok_id [OF assms(1) st])
  obtain d1 r where j: "join_raft h (d\<lparr>dnId := st\<rparr>) mgr newMat raftAddr advertise = (d1, r)" by fastforce
  then have ok1: "daemon_ok d1" using ok_st join_raft_keeps by fastforce
  show ?thesis
  proof (cases "e = None \<and> is_ok r")
    case False
    then show ?thesis using ok_st ok1 save j given by (cases e; cases r) (auto simp: eqs is_ok_def)
  next
    case True
    then obtain rs cluster where r: "e = None" "r = Inr (rs, cluster)" by (cases r) (auto simp: is_ok_def)
    obtain st1 e1 where save1: "id_Save (hsCodec h) (hsOs h) st (newMat\<lparr>mtClusterID := clClusterID cluster\<rparr>)
        (state1\<lparr>dsClusterID := clClusterID cluster\<rparr>) = (st1, e1)" by fastforce
    obtain d2 ue where up: "signer_update (hs_load h) (manager_servers rs (d1\<lparr>dnId := st1\<rparr>)) = (d2, ue)" by fastforce
    from promote_joined_ok [OF assms(1) st j [unfolded r] save1 up] show ?thesis
      using given save j r save1 up join_raft_keeps [OF j] by (cases e1) (auto simp: eqs)
  qed
qed

lemma promote_ok:
  assumes "daemon_ok d"
  shows "daemon_ok (fst (promoteLocal h d))"
proof (cases "node_material d")
  case None
  then show ?thesis using assms by (simp add: promoteLocal_def)
next
  case (Some mat)
  show ?thesis
  proof (cases "(mtRole mat = RoleManager \<and> dnRaft d \<noteq> None) \<or> managerDialAddrLocked d = []")
    case True
    then show ?thesis using assms Some by (auto simp: promoteLocal_def Let_def)
  next
    case go: False
    show ?thesis
    proof (cases "\<exists>newMat. forceRenewLocked h (managerDialAddrLocked d) mat = Inr newMat \<and> mtRole newMat = RoleManager")
      case True
      with go show ?thesis using promote_renewed_ok [OF assms Some refl] by blast
    next
      case False
      then show ?thesis using assms Some go
        by (cases "forceRenewLocked h (managerDialAddrLocked d) mat") (auto simp: promoteLocal_def Let_def)
    qed
  qed
qed

lemma demote_started_ok:
  assumes "daemon_ok d" and "node_material d = Some mat" and "\<not> (mtRole mat = RoleWorker \<and> dnRaft d = None)"
    and "mgr = or_string (or_string (managerDialAddrLocked d) (dsManagerAddr (isState (dnId d)))) (dsAdvertiseAddr (isState (dnId d)))"
    and "mgr \<noteq> []"
  shows "daemon_ok (fst (demoteLocal h d))"
proof -
  let ?state = "isState (dnId d)"
  define d1 where "d1 = d\<lparr>dnRaft := None, dnCa := None, dnQuarantine := None, dnSandboxAPI := False,
      dnRaftDir := (hsRemoveRaft h \<noteq> None \<and> dnRaftDir d)\<rparr>"
  define state1 where "state1 = ?state\<lparr>dsRole := RoleWorker, dsManagerAddr := mgr\<rparr>"
  define mat1 where "mat1 = mat\<lparr>mtRole := RoleWorker\<rparr>"
  have ok1: "daemon_ok d1" "\<not> dnSandboxAPI d1" using assms(1) by (simp_all add: d1_def daemon_ok_defs)
  have ok_id: "daemon_ok (d1\<lparr>dnId := st\<rparr>)" if "HasIdentity st" for st
    by (rule daemon_ok_id [OF ok1(1) that])
  have keeps: "HasIdentity st'" if "id_Save (hsCodec h) (hsOs h) st m x = (st', e)" "HasIdentity st" for st m x st' e
    using id_Save_identity [OF that(2), of "hsCodec h" "hsOs h" m x] that(1) by simp
  obtain st e where save: "id_Save (hsCodec h) (hsOs h) ((dnId d1)\<lparr>isMat := Some mat1\<rparr>) mat1 state1 = (st, e)" by fastforce
  then have st: "HasIdentity st" by (rule keeps) (simp add: HasIdentity_def)
  note eqs = assms(2-5) save d1_def state1_def mat1_def
  show ?thesis
  proof (cases "e = None \<and> is_ok (forceRenewLocked h mgr mat1)")
    case False
    then show ?thesis using ok_id [OF st] eqs
      by (cases e; cases "forceRenewLocked h mgr mat1") (auto simp: demoteLocal_def Let_def is_ok_def)
  next
    case True
    then obtain newMat where renew: "e = None" "forceRenewLocked h mgr mat1 = Inr newMat" by (auto simp: is_ok_def split: sum.splits)
    obtain st1 e1 where save1: "id_Save (hsCodec h) (hsOs h) st (newMat\<lparr>mtRole := RoleWorker\<rparr>) state1 = (st1, e1)" by fastforce
    note st1 = keeps [OF this st]
    have "daemon_ok (fst (restartRemoteGRPCLocked h (or_string (dsListenAddr ?state) (cgListenAddr (dnCfg d))) (d1\<lparr>dnId := st1\<rparr>)))"
      by (rule restartRemote_ok) (use ok_id [OF st1] ok1(2) in simp_all)
    then show ?thesis
      using ok_id [OF st] ok_id [OF st1] eqs renew save1 by (cases e1) (auto simp: demoteLocal_def Let_def)
  qed
qed

lemma demote_ok:
  assumes "daemon_ok d"
  shows "daemon_ok (fst (demoteLocal h d))"
proof (cases "node_material d")
  case None
  then show ?thesis using assms by (simp add: demoteLocal_def)
next
  case (Some mat)
  show ?thesis
  proof (cases "(mtRole mat = RoleWorker \<and> dnRaft d = None) \<or>
      or_string (or_string (managerDialAddrLocked d) (dsManagerAddr (isState (dnId d)))) (dsAdvertiseAddr (isState (dnId d))) = []")
    case True
    then show ?thesis using assms Some by (auto simp: demoteLocal_def Let_def)
  next
    case False
    then show ?thesis using demote_started_ok [OF assms Some _ refl] by blast
  qed
qed

lemma applyRole_ok: "daemon_ok d \<Longrightarrow> daemon_ok (fst (applyRoleChange h desired d))"
  using promote_ok [of d h] demote_ok [of d h] by (simp add: applyRoleChange_def split: option.split)

lemma maybeApply_ok: "daemon_ok d \<Longrightarrow> daemon_ok (maybeApplyDesiredRole h desired removed d)"
proof -
  assume ok: "daemon_ok d"
  have "daemon_ok (((stopClusterLocal d)\<lparr>dnId := st\<rparr>)\<lparr>dnRaftDir := x\<rparr>)" for st x
    using stop_any_id by (simp only: daemon_ok_frame)
  then show ?thesis
    using ok applyRole_ok [OF ok, of h desired] by (simp add: maybeApplyDesiredRole_def Let_def split: option.split)
qed

lemma id_SaveState_identity: "HasIdentity s \<Longrightarrow> HasIdentity (fst (id_SaveState codec os s st))"
  by (auto simp: id_SaveState_def HasIdentity_def split: prod.splits option.splits)

lemma endpoints_ok: "daemon_ok d \<Longrightarrow> daemon_ok (applyManagerEndpoints codec os d leader addrs)"
  using id_SaveState_identity by (auto simp: applyManagerEndpoints_def Let_def intro!: daemon_ok_id)

lemma endpoints_identity: "HasIdentity (dnId d) \<Longrightarrow> HasIdentity (dnId (applyManagerEndpoints codec os d leader addrs))"
  using id_SaveState_identity by (auto simp: applyManagerEndpoints_def Let_def)

lemma leader_has_api: "daemon_ok d \<Longrightarrow> dnRaft d \<noteq> None \<Longrightarrow> dnSandboxAPI d"
  by (simp add: daemon_ok_defs)

lemma heartbeat_local_ok:
  assumes "daemon_ok d" and "dnRaft d \<noteq> None"
  shows "daemon_ok (fst (heartbeat_local h json now raft mat d))"
proof -
  define n where "n = (own_record mat (GetNode raft (mtNodeID mat)))
      \<lparr>nGRPCAddr := or_string (dsAdvertiseAddr (isState (dnId d))) (dsListenAddr (isState (dnId d))),
       nHeartbeatAt := now, nSandboxCount := int (assigned_count d)\<rparr>"
  obtain raft1 e where save: "SaveNode (hs_load h) raft (Some n) = (raft1, e)" by fastforce
  note api = leader_has_api [OF assms]
  have ok1: "daemon_ok (d\<lparr>dnRaft := Some raft1\<rparr>)" by (rule daemon_ok_raft [OF assms(1) api])
  have ok2: "daemon_ok (d\<lparr>dnRaft := Some raft1, dnQuarantine := map_option f (dnQuarantine d)\<rparr>)" for f
    using ok1 by (simp add: daemon_ok_defs)
  then have ok3: "daemon_ok (maybeApplyDesiredRole h (nRole n) False
      (cacheAssigned json ps (d\<lparr>dnRaft := Some raft1, dnQuarantine := map_option f (dnQuarantine d)\<rparr>)))" for ps f
    by (intro maybeApply_ok) (simp only: cacheAssigned_def daemon_ok_frame)
  have role: "nRole n = nRole (own_record mat (GetNode raft (mtNodeID mat)))" by (simp add: n_def)
  show ?thesis
    using ok1 ok2 ok3 [unfolded role] save
    by (simp add: heartbeat_local_def Let_def n_def [symmetric] ListSandboxesByNode_def split: option.split)
qed

lemma heartbeat_ok:
  assumes "daemon_ok d"
  shows "daemon_ok (fst (sendHeartbeat h codec json now remote d))"
proof (cases "node_material d")
  case None
  then show ?thesis using assms by (simp add: sendHeartbeat_def)
next
  case (Some mat)
  show ?thesis
  proof (cases "leader_raft d")
    case (Some raft)
    then have "dnRaft d \<noteq> None" by (simp add: leader_raft_Some)
    with Some show ?thesis
      using heartbeat_local_ok [OF assms, of h json now raft mat] \<open>node_material d = Some mat\<close>
      by (simp add: sendHeartbeat_def)
  next
    case None
    have "daemon_ok (maybeApplyDesiredRole h r rm (cacheAssigned json ps (applyManagerEndpoints codec (hsOs h) d l as)))"
      for r rm ps l as
      by (intro maybeApply_ok) (simp only: cacheAssigned_def daemon_ok_frame endpoints_ok [OF assms])
    then show ?thesis
      using assms Some None by (simp add: sendHeartbeat_def Let_def split: sum.split)
  qed
qed

lemma renew_ok:
  assumes "daemon_ok d"
  shows "daemon_ok (renew_step h d)"
proof (cases "HasIdentity (dnId d)")
  case False
  then show ?thesis using assms by (simp add: renew_step_def node_material_def HasIdentity_def)
next
  case True
  have "daemon_ok ((applyManagerEndpoints c os d l as)\<lparr>dnId := fst (id_Save c os (dnId (applyManagerEndpoints c os d l as)) m st)\<rparr>)"
    for c os l as m st
    by (rule daemon_ok_id [OF endpoints_ok [OF assms] id_Save_identity [OF endpoints_identity [OF True]]])
  then show ?thesis
    using assms by (simp add: renew_step_def Let_def split: option.split sum.split prod.split)
qed

lemma watch_ok:
  assumes "daemon_ok d"
  shows "daemon_ok (snd (watch_tick load (w, d)))"
proof (cases "dnRaft d = None \<or> dnCa d = None")
  case True
  then show ?thesis using assms by (auto simp: watch_tick_def split: option.split)
next
  case False
  then obtain rs c where rc: "dnRaft d = Some rs" "dnCa d = Some c" by auto
  have "daemon_ok (d\<lparr>dnCa := Some x\<rparr>)" for x
    using rc(2) by (intro daemon_ok_ca [OF assms]) simp
  with assms signer_update_ok [OF assms, of load] rc show ?thesis
    by (simp add: watch_tick_def Let_def)
qed

lemma report_ok:
  assumes "daemon_ok d"
  shows "daemon_ok (fst (reportSandboxStatus load now rep d i g st))"
proof -
  have "daemon_ok (d\<lparr>dnRaft := Some r\<rparr>)" if "leader_raft d = Some r0" for r r0
    using that by (intro daemon_ok_raft [OF assms leader_has_api [OF assms]]) (simp add: leader_raft_Some)
  with assms show ?thesis
    by (simp add: reportSandboxStatus_def case_prod_beta Let_def split: option.split sum.split)
qed

lemma keys_ok:
  assumes "daemon_ok d"
  shows "daemon_ok (fst (APIKeyCreate load hash rand rand_id now name d))" "daemon_ok (fst (APIKeyDelete load i d))"
proof -
  have "daemon_ok (d\<lparr>dnRaft := Some r\<rparr>)" if "dnRaft d = Some r0" for r r0
    using that by (intro daemon_ok_raft [OF assms leader_has_api [OF assms]]) simp
  with assms show "daemon_ok (fst (APIKeyCreate load hash rand rand_id now name d))" "daemon_ok (fst (APIKeyDelete load i d))"
    by (simp_all add: APIKeyCreate_def APIKeyDelete_def case_prod_beta Let_def split: option.split sum.split prod.split)
qed

lemma resume_ok:
  assumes "daemon_ok d" and "HasIdentity (dnId d)" and "dnCluster d" and "\<not> dnSandboxAPI d"
  shows "daemon_ok (fst (resumeManager h d state))" and "daemon_ok (fst (resumeWorker h d state))"
proof -
  show "daemon_ok (fst (resumeWorker h d state))"
    unfolding resumeWorker_def by (rule start_services_ok) (use assms in \<open>simp_all add: start_loop_ok\<close>)
  define listen where "listen = or_string (dsListenAddr state) (cgListenAddr (dnCfg d))"
  define raftAddr where "raftAddr = daemon_defaultRaftAddr (or_string (dsRaftAddr state) (cgRaftAddr (dnCfg d)))"
  define advertise where "advertise = or_string (dsAdvertiseAddr state) (defaultAdvertise listen)"
  obtain d1 r where op: "open_raft h d (dsNodeID state) raftAddr advertise False = (d1, r)" by fastforce
  then obtain x where d1: "d1 = d\<lparr>dnRaftDir := x\<rparr>" using open_raft_keeps by blast
  then have ok1: "daemon_ok d1" "HasIdentity (dnId d1)" "dnCluster d1" using assms by simp_all
  note defs = resumeManager_def Let_def listen_def raftAddr_def advertise_def
  show "daemon_ok (fst (resumeManager h d state))"
  proof (cases r)
    case (Inl e)
    then show ?thesis using op ok1 by (simp add: defs)
  next
    case (Inr rs)
    let ?rs2 = "fst (WaitInitialized (hsInitPolls h) (fst (WaitForLeader (hsLeaderPolls h) rs)))"
    obtain d2 ue where up: "signer_update (hs_load h) (manager_servers ?rs2 d1) = (d2, ue)" by fastforce
    note m = new_manager [OF ok1(1,2) up]
    have "daemon_ok (fst (start_services h listen (start_loop RenewLoop (start_loop LeadershipLoop d2))))"
      by (rule start_services_ok) (use m ok1 in \<open>simp_all add: start_loop_ok\<close>)
    then show ?thesis using op Inr up by (simp add: defs)
  qed
qed

lemma Run_start_ok: "daemon_ok (fst (Run_start h (New pl dir raftDir cfg)))"
proof -
  let ?d = "New pl dir raftDir cfg"
  obtain st e where load: "id_Load (hsX509 h) (hsCodec h) (hsOs h) (dnId ?d) = (st, e)" by fastforce
  have fresh: "daemon_ok (?d\<lparr>dnId := s\<rparr>)" "daemon_ok (?d\<lparr>dnId := s, dnLocal := True\<rparr>)" for s
    by (simp_all add: daemon_ok_defs New_def)
  have "daemon_ok (fst (resumeManager h (ensureClusterCtx (?d\<lparr>dnId := st, dnLocal := True\<rparr>)) s))"
    "daemon_ok (fst (resumeWorker h (ensureClusterCtx (?d\<lparr>dnId := st, dnLocal := True\<rparr>)) s))" if "HasIdentity st" for s
    by (rule resume_ok; use fresh that in \<open>simp add: New_def ensureClusterCtx_def daemon_ok_defs\<close>)+
  with fresh show ?thesis
    by (simp add: Run_start_def load Let_def split: option.split)
qed

section \<open>The invariant of every reachable state\<close>

lemma step_ok: "daemon_step d d' \<Longrightarrow> daemon_ok d \<Longrightarrow> daemon_ok d'"
proof (induction rule: daemon_step.induct)
  case (sandbox_write d c)
  then show ?case by (simp add: put_control_def daemon_ok_defs)
next
  case (raft_moves d r)
  then show ?case by (simp add: daemon_ok_defs)
next
  case (agent_moves d a)
  then show ?case by (simp add: daemon_ok_defs)
qed (simp_all add: Init_ok Join_ok Leave_ok heartbeat_ok renew_ok watch_ok applyRole_ok report_ok keys_ok stop_ok)

lemma reachable_ok: "reachable d \<Longrightarrow> daemon_ok d"
proof (induction rule: reachable.induct)
  case (start h pl dir raftDir cfg)
  show ?case by (rule Run_start_ok)
next
  case (step d d')
  then show ?case using step_ok by blast
qed

section \<open>A concrete host\<close>

text \<open>A machine on which everything succeeds, and a fresh daemon on it, for the examples.\<close>

definition demo_host :: host where
  "demo_host = \<lparr>hsOs = os_ok, hsCodec = demo_id_codec, hsX509 = demo_lib\<lparr>xSign := (\<lambda>t _ _. Inr (tmCN t))\<rparr>,
     hsTls = \<lparr>tlX509KeyPair = (\<lambda>_ _. None), tlAppendCerts = (\<lambda>_. True)\<rparr>, hsNet = demo_net ''root'',
     hsRaft = demo_raft_lib (demo_raft False NewFSM), hsMkReq = (\<lambda>_ _. Inr ''csr''), hsKey = Inr ''key'',
     hsRootKey = Inr ''rootkey'', hsSerial = Inr 7, hsRootSerial = Inr 8, hsNodeID = Inr ''n'', hsClusterID = Inr ''c'',
     hsSecrets = (Inr ''w'', Inr ''m''), hsNow = 0, hsInstalled = None, hsListen = (\<lambda>_. None), hsListenLocal = None,
     hsLeaderPolls = [id], hsInitPolls = [id], hsRemoveRaft = None\<rparr>"

definition demo_platform :: platform where
  "demo_platform = \<lparr>plDarwin = False, plRoot = True, plSudoUser = [], plLookup = (\<lambda>_. Inl ErrNotLeader), plHome = Inr ''/root'',
     plJoin = concat, plAbs = Inr\<rparr>"

definition demo_daemon :: daemon where
  "demo_daemon = New demo_platform [] False \<lparr>cgDataDir = ''/d'', cgSocketPath = ''/s'', cgListenAddr = [], cgRaftAddr = []\<rparr>"

definition demo_init :: init_call where
  "demo_init = \<lparr>inListenAddr = [], inRaftAddr = [], inAdvertiseAddr = ''10.0.0.1:17946'', inCertValidity = 0\<rparr>"

text \<open>The first manager of a cluster on that host.\<close>

definition demo_first_manager :: daemon where
  "demo_first_manager = fst (Init demo_host (fst (Run_start demo_host demo_daemon)) demo_init)"

lemma demo_first_manager_serves: "case dnRemote demo_first_manager of None \<Rightarrow> False | Some rs \<Rightarrow> rsSandboxAPI rs"
  by code_simp

text \<open>
  Claim C6: in every state a node's process can reach, whatever the network, the disk and the
  cluster answer: the public API is served only behind the API-key interceptor, together with the
  control service; the servers of a manager, and the agent with its driver and runtime service,
  come and go together; a Raft store, a listener or an agent exist only on a node with an
  identity; and no loop of the cluster runs without its context.
\<close>

theorem daemon_invariant:
  assumes "reachable d"
  shows "(\<forall>rs. dnRemote d = Some rs \<longrightarrow> (rsSandboxAPI rs \<longrightarrow> rsKeyGuard rs) \<and> (rsControl rs \<longleftrightarrow> rsSandboxAPI rs)) \<and>
    (dnCa d \<noteq> None \<longleftrightarrow> dnSandboxAPI d) \<and> (dnQuarantine d \<noteq> None \<longleftrightarrow> dnSandboxAPI d) \<and> (dnRaft d \<noteq> None \<longrightarrow> dnSandboxAPI d) \<and>
    (dnAgent d \<noteq> None \<longleftrightarrow> dnDriver d) \<and> (dnRuntimeSrv d \<longleftrightarrow> dnDriver d) \<and>
    (dnRaft d \<noteq> None \<or> dnRemote d \<noteq> None \<or> dnAgent d \<noteq> None \<longrightarrow> HasIdentity (dnId d)) \<and>
    (dnLoops d \<noteq> [] \<longrightarrow> dnCluster d)"
  using reachable_ok [OF assms] by (auto simp: daemon_ok_defs)

theorem daemon_invariant_witness:
  "\<exists>rs. dnRemote demo_first_manager = Some rs \<and> rsSandboxAPI rs \<and> rsKeyGuard rs \<and> rsControl rs"
proof -
  have "reachable demo_first_manager"
    unfolding demo_first_manager_def demo_daemon_def by (rule reachable.step [OF reachable.start daemon_step.init])
  note inv = daemon_invariant [OF this, THEN conjunct1]
  with demo_first_manager_serves show ?thesis by (auto split: option.splits)
qed

end
