(* ===== verification/Cluster_Entry.thy ===== *)
theory Cluster_Entry
  imports Daemon_Invariants
begin

text \<open>
  How nodes enter and leave a cluster, as theorems about \<open>Init\<close>, \<open>Join\<close>, \<open>Leave\<close> and the role
  changes of the daemon (\<open>internal/daemon/daemon.go\<close>, \<open>role.go\<close>): what a success establishes, what
  a failure leaves behind.
\<close>

section \<open>Leaving\<close>

lemma leave_loop_accepted:
  "leave_loop call addrs e0 = (called, None) \<Longrightarrow> addrs \<noteq> [] \<Longrightarrow> called \<noteq> [] \<and> call (last called) = None"
proof (induction addrs arbitrary: e0 called)
  case (Cons a addrs)
  show ?case
  proof (cases "call a")
    case None
    then show ?thesis using Cons.prems by auto
  next
    case (Some e)
    show ?thesis
    proof (cases "isRetryableManagerErr (Some e)")
      case False
      then show ?thesis using Cons.prems Some by simp
    next
      case True
      obtain c r where rec: "leave_loop call addrs (Some e) = (c, r)" by fastforce
      with Cons.prems Some True have *: "called = a # c" "r = None" by simp_all
      then have "addrs \<noteq> []" using rec by auto
      with Cons.IH [of "Some e" c] rec * show ?thesis by simp
    qed
  qed
qed simp

lemma wipe_Inr:
  assumes "wipe h d = (d', Inr ())"
    and "\<forall>n. osRemove (hsOs h) n = Some not_exist \<longrightarrow> gm_get (isDir (dnId d)) n = None"
  shows "\<exists>dir. remove_files (hsOs h) identity_files (isDir (dnId d)) = (dir, None) \<and>
    d' = (stopClusterLocal d)\<lparr>dnId := NewIdStore dir, dnRaftDir := False\<rparr> \<and>
    gm_get dir certFile = None \<and> gm_get dir stateFile = None"
proof -
  have dnId: "dnId (stopClusterLocal d) = dnId d" by (simp add: stopClusterLocal_def)
  obtain st where st: "id_Clear (hsOs h) (dnId d) = (st, None)"
    "d' = (stopClusterLocal d)\<lparr>dnId := st, dnRaftDir := False\<rparr>"
    using assms(1) by (auto simp: wipe_def Let_def dnId split: prod.splits option.splits)
  then obtain dir where dir: "remove_files (hsOs h) identity_files (isDir (dnId d)) = (dir, None)" "st = NewIdStore dir"
    by (auto simp: id_Clear_def NewIdStore_def split: prod.splits option.splits)
  from remove_files_get [OF dir(1) assms(2)] have "gm_get dir certFile = None" "gm_get dir stateFile = None"
    by (simp_all add: identity_files_def)
  with dir st show ?thesis by blast
qed

lemma teardown_all: "i \<in> set (agLocal a) \<Longrightarrow> ARemove i \<in> set (agActions (TeardownLocal a))"
proof -
  have mono: "x \<in> set (agActions b) \<Longrightarrow> x \<in> set (agActions (fold (\<lambda>i b. act (ARemove i) (act (AStop i 5) b)) is b))" for x b "is"
    by (induction "is" arbitrary: b) (auto simp: act_def)
  have "i \<in> set is \<Longrightarrow> ARemove i \<in> set (agActions (fold (\<lambda>i b. act (ARemove i) (act (AStop i 5) b)) is b))" for "is" b
  proof (induction "is" arbitrary: b)
    case (Cons j "is")
    then show ?case using mono [of "ARemove j" "act (ARemove j) (act (AStop j 5) b)" "is"] by (auto simp: act_def)
  qed simp
  then show "i \<in> set (agLocal a) \<Longrightarrow> ?thesis" by (simp add: TeardownLocal_def)
qed


section \<open>Joining\<close>

lemma fill_validity_keeps [simp]:
  "mtNodeID (fill_validity lib m) = mtNodeID m" "mtRole (fill_validity lib m) = mtRole m"
  "mtClusterID (fill_validity lib m) = mtClusterID m" "mtCertificate (fill_validity lib m) = mtCertificate m"
  "mtPrivateKey (fill_validity lib m) = mtPrivateKey m" "mtCACert (fill_validity lib m) = mtCACert m"
  by (simp_all add: fill_validity_def split: sum.split)

lemma issued_material_fields [simp]:
  "mtNodeID (issued_material lib i c k ca) = iyNodeID i" "mtRole (issued_material lib i c k ca) = iyRole i"
  "mtClusterID (issued_material lib i c k ca) = c" "mtCertificate (issued_material lib i c k ca) = iyCertificate i"
  "mtPrivateKey (issued_material lib i c k ca) = k" "mtCACert (issued_material lib i c k ca) = ca"
  by (simp_all add: issued_material_def)

lemma id_Save_state: "id_Save codec os s mat st = (s', None) \<Longrightarrow> isMat s' = Some mat \<and> isState s' = saved_state mat st"
  by (auto simp: id_Save_def Let_def split: prod.splits option.splits)

lemma start_services_keeps:
  assumes "start_services h listen d = (d', e)"
  shows "dnId d' = dnId d \<and> dnRaft d' = dnRaft d \<and> (e = None \<longrightarrow> dnRemote d' \<noteq> None)"
proof -
  obtain d1 e1 where d1: "startRuntimeLocked h d = (d1, e1)" by fastforce
  then have *: "dnId d1 = dnId d" "dnRaft d1 = dnRaft d"
    by (cases rule: startRuntime_cases; simp)+
  have d2: "startRemoteGRPCLocked h listen d1 = (d', e)"
    using assms by (simp add: start_services_def d1)
  then have "dnId d' = dnId d1" "dnRaft d' = dnRaft d1"
    by (cases rule: startRemote_cases; simp)+
  moreover have "dnRemote d' \<noteq> None" if "e = None"
    using d2 that by (auto simp: startRemoteGRPCLocked_def split: option.splits sum.splits if_splits)
  ultimately show ?thesis using * by simp
qed

lemma join_raft_Inr:
  assumes "join_raft h d a m b c = (d', Inr (rs, cluster))"
  shows "IsInitialized rs \<and> GetCluster rs = Inr cluster"
proof -
  obtain rs0 rs1 where w: "WaitInitialized (hsInitPolls h) rs1 = (rs, None)" and "GetCluster rs = Inr cluster"
    using assms by (auto simp: join_raft_def split: prod.splits sum.splits option.splits)
  with wait_for_None [OF w [unfolded WaitInitialized_def]] show ?thesis by simp
qed

text \<open>How a join goes that succeeds: what was asked and saved, and on a manager the store that was opened.\<close>

lemma join_request_Inr:
  assumes "join_request h req = Inr (issued, mat)"
  obtains p where "token_Parse (jnToken req) = Inr p" "verifyCADigest (hsX509 h) (mtCACert mat) (ptCADigestPrefix p) = None"
proof -
  from assms obtain pem k where "DownloadRootCA (hsX509 h) (hsNet h) (jnRemoteAddr req) (jnToken req) = Inr pem"
    and "mat = issued_material (hsX509 h) issued [] k pem"
    by (auto simp: join_request_def split: sum.splits)
  then show thesis using that by (auto simp: DownloadRootCA_Inr)
qed

lemma seedManagerAddrs_known:
  assumes "seedManagerAddrs addr leader managers = (pref, known)" and "addr \<noteq> []"
  shows "pref = (if leader \<noteq> [] then leader else addr)" and "addr \<in> set known"
  using assms by (auto simp: seedManagerAddrs_def Let_def merge_members)

lemma Join_manager:
  assumes "Join h d req = (d', Inr rep)" and "join_request h req = Inr (issued, mat)" and "iyRole issued = RoleManager"
    and "seedManagerAddrs (jnRemoteAddr req) (iyLeaderGrpc issued) (iyManagerAddrs issued) = (pref, known)"
  shows "\<exists>rs cluster. jyNodeId rep = iyNodeID issued \<and> jyRole rep = iyRole issued \<and> jyClusterId rep = clClusterID cluster \<and>
    dnRaft d' = Some rs \<and> IsInitialized rs \<and> GetCluster rs = Inr cluster \<and> dnRemote d' \<noteq> None \<and>
    node_material d' = Some (mat\<lparr>mtClusterID := clClusterID cluster\<rparr>) \<and>
    dsManagerAddr (isState (dnId d')) = pref \<and> dsManagerAddrs (isState (dnId d')) = known"
proof -
  obtain listen raftAddr advertise where addrs:
    "chosen_addrs (dnCfg d) (jnListenAddr req) (jnRaftAddr req) (jnAdvertiseAddr req) = (listen, raftAddr, advertise)"
    by (cases "chosen_addrs (dnCfg d) (jnListenAddr req) (jnRaftAddr req) (jnAdvertiseAddr req)")
  have guard: "\<not> HasIdentity (dnId d)" "jnToken req \<noteq> []" "jnRemoteAddr req \<noteq> []"
    using assms(1) by (auto simp: Join_def split: if_splits)
  define state where "state = zero_daemon_state\<lparr>dsNodeID := iyNodeID issued, dsRole := iyRole issued,
      dsAdvertiseAddr := advertise, dsListenAddr := listen, dsRaftAddr := raftAddr, dsManagerAddr := pref,
      dsManagerAddrs := known, dsInitialized := True\<rparr>"
  note defs = Join_def Let_def addrs assms(2,4) state_def guard assms(3)
  obtain d1 r where j: "join_raft h d (jnRemoteAddr req) mat raftAddr advertise = (d1, r)" by fastforce
  with assms(1) obtain rs cluster where r: "r = Inr (rs, cluster)" by (cases r) (auto simp: defs)
  let ?mat = "mat\<lparr>mtClusterID := clClusterID cluster\<rparr>" and ?st = "state\<lparr>dsClusterID := clClusterID cluster\<rparr>"
  obtain st e where save: "id_Save (hsCodec h) (hsOs h) (dnId d1) ?mat ?st = (st, e)" by fastforce
  with assms(1) j r have e: "e = None" by (cases e) (auto simp: defs)
  obtain d2 ue where up: "signer_update (hs_load h) (manager_servers rs (d1\<lparr>dnId := st\<rparr>)) = (d2, ue)" by fastforce
  obtain c where d2: "d2 = (manager_servers rs (d1\<lparr>dnId := st\<rparr>))\<lparr>dnCa := c\<rparr>"
    using signer_update_keeps [OF up] by (elim exE conjE)
  obtain d3 se where ss: "start_services h listen (start_loop RenewLoop (start_loop LeadershipLoop (ensureClusterCtx d2))) = (d3, se)"
    by fastforce
  with assms(1) j r save e up have d3: "se = None" "d' = d3"
    "rep = \<lparr>jyNodeId = iyNodeID issued, jyRole = iyRole issued, jyClusterId = clClusterID cluster\<rparr>"
    by (auto simp: defs split: option.splits)
  have "dnId d' = st" "dnRaft d' = Some rs" "dnRemote d' \<noteq> None"
    using start_services_keeps [OF ss] d2 d3 by (simp_all add: manager_servers_def)
  moreover have "isMat st = Some ?mat" "isState st = saved_state ?mat ?st"
    using id_Save_state save e by blast+
  moreover have "IsInitialized rs \<and> GetCluster rs = Inr cluster"
    using join_raft_Inr j r by blast
  ultimately show ?thesis
    using d3(3) by (simp add: node_material_def saved_state_def state_def)
qed

lemma Join_worker:
  assumes "Join h d req = (d', Inr rep)" and "join_request h req = Inr (issued, mat)" and "iyRole issued \<noteq> RoleManager"
    and "seedManagerAddrs (jnRemoteAddr req) (iyLeaderGrpc issued) (iyManagerAddrs issued) = (pref, known)"
  shows "jyNodeId rep = iyNodeID issued \<and> jyRole rep = iyRole issued \<and> jyClusterId rep = mtClusterID mat \<and>
    dnRemote d' \<noteq> None \<and> node_material d' = Some mat \<and>
    dsManagerAddr (isState (dnId d')) = pref \<and> dsManagerAddrs (isState (dnId d')) = known"
proof -
  obtain listen raftAddr advertise where addrs:
    "chosen_addrs (dnCfg d) (jnListenAddr req) (jnRaftAddr req) (jnAdvertiseAddr req) = (listen, raftAddr, advertise)"
    by (cases "chosen_addrs (dnCfg d) (jnListenAddr req) (jnRaftAddr req) (jnAdvertiseAddr req)")
  have guard: "\<not> HasIdentity (dnId d)" "jnToken req \<noteq> []" "jnRemoteAddr req \<noteq> []"
    using assms(1) by (auto simp: Join_def split: if_splits)
  define state where "state = zero_daemon_state\<lparr>dsNodeID := iyNodeID issued, dsRole := iyRole issued,
      dsAdvertiseAddr := advertise, dsListenAddr := listen, dsRaftAddr := raftAddr, dsManagerAddr := pref,
      dsManagerAddrs := known, dsInitialized := True\<rparr>"
  note defs = Join_def Let_def addrs assms(2,4) state_def guard assms(3)
  obtain st e where save: "id_Save (hsCodec h) (hsOs h) (dnId d) mat state = (st, e)" by fastforce
  with assms(1) have e: "e = None" by (cases e) (auto simp: defs)
  obtain d3 se where ss: "start_services h listen (start_loop RenewLoop (ensureClusterCtx (d\<lparr>dnId := st\<rparr>))) = (d3, se)" by fastforce
  with assms(1) save e have d3: "se = None" "d' = d3"
    "rep = \<lparr>jyNodeId = iyNodeID issued, jyRole = iyRole issued, jyClusterId = mtClusterID mat\<rparr>"
    by (auto simp: defs split: option.splits)
  have "dnId d' = st" "dnRemote d' \<noteq> None"
    using start_services_keeps [OF ss] d3 by simp_all
  moreover have "isMat st = Some mat" "isState st = saved_state mat state"
    using id_Save_state save e by blast+
  ultimately show ?thesis
    using d3(3) by (simp add: node_material_def saved_state_def state_def)
qed


section \<open>Forming\<close>

lemma applyCreateCluster_stored:
  assumes "applyCreateCluster now f opCreateCluster (Object (no_fields\<lparr>jCluster := Given cl\<rparr>)) = (f', None)"
  shows "fsCluster f' = Some (copy_cluster cl)"
  using assms by (cases "fsCluster f") (auto simp: applyCreateCluster_def payload_defs)

lemma CreateCluster_ok:
  assumes "CreateCluster load now s cfg = (s', None)"
  shows "IsLeader s \<and> (\<exists>root cl. cfRootCA cfg = Some root \<and> GetCluster s' = Inr cl \<and> clClusterID cl = cfClusterID cfg \<and>
    rcCACertHash (clRootCA cl) = raDigestPrefix root \<and> rcJoinSecrets (clRootCA cl) = cfJoinSecrets cfg)"
proof -
  obtain rootCA where lead: "IsLeader s" and root: "cfRootCA cfg = Some rootCA" and id: "cfClusterID cfg \<noteq> []"
    using assms by (auto simp: CreateCluster_def store_requireLeader_def split: option.splits if_splits)
  define cl where "cl = \<lparr>clClusterID = cfClusterID cfg,
      clRootCA = \<lparr>rcCAKey = copy_slice (raKeyPEM rootCA), rcCACert = copy_slice (raCertPEM rootCA),
                  rcCACertHash = raDigestPrefix rootCA, rcJoinSecrets = cfJoinSecrets cfg\<rparr>,
      clCertValidity = (if cfCertValidity cfg \<le> 0 then DefaultNodeValidity else cfCertValidity cfg), clCreatedAt = now\<rparr>"
  let ?d = "encodeCommand opCreateCluster (no_fields\<lparr>jCluster := Given cl\<rparr>)"
  have "store_apply load s ?d = (s', None)"
    using assms lead root id by (simp add: CreateCluster_def store_requireLeader_def Let_def cl_def)
  then have "applyCreateCluster (rnApplyTime s) (rnFsm s) opCreateCluster (Object (no_fields\<lparr>jCluster := Given cl\<rparr>)) = (rnFsm s', None)"
    using store_apply_ok [of load s ?d] by (simp add: Apply_ops)
  then have "fsCluster (rnFsm s') = Some (copy_cluster cl)"
    by (rule applyCreateCluster_stored)
  then have "GetCluster s' = Inr cl"
    by (simp add: GetCluster_def getCluster_def)
  then show ?thesis using lead root by (simp add: cl_def)
qed

lemma SaveNode_leader: "IsLeader (fst (SaveNode load s n)) = IsLeader s"
  by (simp add: SaveNode_def IsLeader_def store_apply_keeps split: option.split)

lemma CreateCluster_leader: "IsLeader (fst (CreateCluster load now s cfg)) = IsLeader s"
  by (simp add: CreateCluster_def IsLeader_def Let_def store_apply_keeps split: option.split)

lemma SaveNode_cluster: "GetCluster (fst (SaveNode load s n)) = GetCluster s"
  using SaveNode_frame [of s load n] by (simp add: GetCluster_def getCluster_def same_but_nodes_def)

lemma GenerateRootCA_digest: "GenerateRootCA lib k r now org v = Inr rootCA \<Longrightarrow> CHR ''-'' \<notin> set (raDigestPrefix rootCA)"
  using DigestPrefix_no_dash by (auto simp: GenerateRootCA_def Let_def split: sum.splits)

lemma init_material_Inr:
  assumes "init_material h cfg req = Inr nc"
  shows "mtRole (ncMaterial nc) = RoleManager"
    and "GenerateSecrets (fst (hsSecrets h)) (snd (hsSecrets h)) = Inr (ncSecrets nc)"
    and "CHR ''-'' \<notin> set (raDigestPrefix (ncRoot nc))"
  using assms GenerateRootCA_digest by (auto simp: init_material_def Let_def split: prod.splits sum.splits)

lemma tokens_validate:
  assumes "FormatPair d secs = Inr pair" and "CHR ''-'' \<notin> set d" and "CHR ''-'' \<notin> set (secWorker secs)"
    and "CHR ''-'' \<notin> set (secManager secs)" and "secWorker secs \<noteq> secManager secs"
  shows "token_Validate (pairWorker pair) d secs = Inr RoleWorker" and "token_Validate (pairManager pair) d secs = Inr RoleManager"
proof -
  have "pairWorker pair = token_text d (secWorker secs)" "pairManager pair = token_text d (secManager secs)"
    using assms(1) by (auto simp: FormatPair_def Format_Inr role_secret_def split: sum.splits)
  then show "token_Validate (pairWorker pair) d secs = Inr RoleWorker" "token_Validate (pairManager pair) d secs = Inr RoleManager"
    using assms(2-5) by (simp_all add: token_Validate_Inr token_Parse_text)
qed

text \<open>How an \<open>Init\<close> goes that succeeds.\<close>

lemma Init_run:
  assumes "Init h d req = (d', Inr rep)"
  obtains nc rs rs1 pair where "init_material h (dnCfg d) req = Inr nc"
    "CreateCluster (hs_load h) (hsNow h) rs \<lparr>cfClusterID = mtClusterID (ncMaterial nc), cfCertValidity = ncValidity nc,
       cfRootCA = Some (ncRoot nc), cfJoinSecrets = ncSecrets nc\<rparr> = (rs1, None)"
    "FormatPair (raDigestPrefix (ncRoot nc)) (ncSecrets nc) = Inr pair"
    "rep = \<lparr>iiClusterId = mtClusterID (ncMaterial nc), iiNodeId = mtNodeID (ncMaterial nc), iiWorkerToken = pairWorker pair,
            iiManagerToken = pairManager pair, iiAdvertiseAddr = dsAdvertiseAddr (ncState nc)\<rparr>"
    "dnRaft d' = Some (fst (SaveNode (hs_load h) rs1 (Some (first_node (ncMaterial nc)))))"
    "node_material d' = Some (ncMaterial nc)" "dnRemote d' \<noteq> None"
proof -
  have free: "\<not> HasIdentity (dnId d)" using assms by (auto simp: Init_def)
  with assms obtain nc where nc: "init_material h (dnCfg d) req = Inr nc"
    by (auto simp: Init_def split: sum.splits)
  let ?mat = "ncMaterial nc" and ?st = "ncState nc"
  let ?cfg = "\<lparr>cfClusterID = mtClusterID ?mat, cfCertValidity = ncValidity nc, cfRootCA = Some (ncRoot nc), cfJoinSecrets = ncSecrets nc\<rparr>"
  note defs = Init_def Let_def free nc
  obtain st e where save: "id_Save (hsCodec h) (hsOs h) (dnId d) ?mat ?st = (st, e)" by fastforce
  with assms have e: "e = None" by (cases e) (simp_all add: defs)
  obtain d1 r where open_r: "open_raft h (d\<lparr>dnId := st\<rparr>) (mtNodeID ?mat) (dsRaftAddr ?st) (dsAdvertiseAddr ?st) True = (d1, r)"
    by fastforce
  with assms save e obtain rs where r: "r = Inr rs" by (cases r) (simp_all add: defs)
  have d1: "dnId d1 = st" using open_r by (auto simp: open_raft_def Let_def)
  obtain rs1 ce where create: "CreateCluster (hs_load h) (hsNow h) rs ?cfg = (rs1, ce)" by fastforce
  with assms save e open_r r have ce: "ce = None" by (cases ce) (simp_all add: defs)
  define rs2 where "rs2 = fst (SaveNode (hs_load h) rs1 (Some (first_node ?mat)))"
  obtain d2 ue where up: "signer_update (hs_load h) (manager_servers rs2 d1) = (d2, ue)" by fastforce
  with assms save e open_r r create ce have ue: "ue = None" by (cases ue) (simp_all add: defs rs2_def)
  obtain d3 se where ss: "start_services h (dsListenAddr ?st) (start_loop RenewLoop (start_loop LeadershipLoop (ensureClusterCtx d2))) = (d3, se)"
    by fastforce
  with assms save e open_r r create ce up ue have se: "se = None" by (cases se) (simp_all add: defs rs2_def)
  obtain fp where fp: "FormatPair (raDigestPrefix (ncRoot nc)) (ncSecrets nc) = fp" by blast
  with assms save e open_r r create ce up ue ss se obtain pair where pair: "fp = Inr pair"
    by (cases fp) (simp_all add: defs rs2_def)
  with assms save e open_r r create ce up ue ss se fp have res: "d' = d3"
    "rep = \<lparr>iiClusterId = mtClusterID ?mat, iiNodeId = mtNodeID ?mat, iiWorkerToken = pairWorker pair,
            iiManagerToken = pairManager pair, iiAdvertiseAddr = dsAdvertiseAddr ?st\<rparr>"
    by (simp_all add: defs rs2_def)
  from signer_update_keeps [OF up] have d2: "dnId d2 = st" "dnRaft d2 = Some rs2"
    using d1 by (auto simp: manager_servers_def)
  have "dnId d' = st" "dnRaft d' = Some rs2" "dnRemote d' \<noteq> None"
    using start_services_keeps [OF ss] d2 res(1) se by simp_all
  moreover have "isMat st = Some ?mat" using id_Save_state save e by blast
  ultimately show thesis
    using that [OF nc create [unfolded ce] fp [unfolded pair] res(2)] by (simp add: rs2_def node_material_def)
qed

text \<open>
  What a successful \<open>Init\<close> establishes: the node leads a cluster with the identifier it
  reports; the two tokens it prints validate against that cluster's object, one as the worker's
  and one as the manager's; its own identity is a manager's of that cluster, with the certificate
  of its root; and it listens.
\<close>

theorem init_forms_cluster:
  assumes "Init h d req = (d', Inr rep)"
    and "\<And>secs. GenerateSecrets (fst (hsSecrets h)) (snd (hsSecrets h)) = Inr secs \<Longrightarrow> secWorker secs \<noteq> secManager secs"
  shows "\<exists>rs cl mat. dnRaft d' = Some rs \<and> IsLeader rs \<and> GetCluster rs = Inr cl \<and> clClusterID cl = iiClusterId rep \<and>
    token_Validate (iiWorkerToken rep) (rcCACertHash (clRootCA cl)) (rcJoinSecrets (clRootCA cl)) = Inr RoleWorker \<and>
    token_Validate (iiManagerToken rep) (rcCACertHash (clRootCA cl)) (rcJoinSecrets (clRootCA cl)) = Inr RoleManager \<and>
    node_material d' = Some mat \<and> mtNodeID mat = iiNodeId rep \<and> mtRole mat = RoleManager \<and>
    mtClusterID mat = iiClusterId rep \<and> dnRemote d' \<noteq> None"
proof -
  from assms(1) obtain nc rs rs1 pair where nc: "init_material h (dnCfg d) req = Inr nc"
    and create: "CreateCluster (hs_load h) (hsNow h) rs \<lparr>cfClusterID = mtClusterID (ncMaterial nc), cfCertValidity = ncValidity nc,
       cfRootCA = Some (ncRoot nc), cfJoinSecrets = ncSecrets nc\<rparr> = (rs1, None)"
    and pair: "FormatPair (raDigestPrefix (ncRoot nc)) (ncSecrets nc) = Inr pair"
    and rep: "rep = \<lparr>iiClusterId = mtClusterID (ncMaterial nc), iiNodeId = mtNodeID (ncMaterial nc), iiWorkerToken = pairWorker pair,
            iiManagerToken = pairManager pair, iiAdvertiseAddr = dsAdvertiseAddr (ncState nc)\<rparr>"
    and d': "dnRaft d' = Some (fst (SaveNode (hs_load h) rs1 (Some (first_node (ncMaterial nc)))))"
      "node_material d' = Some (ncMaterial nc)" "dnRemote d' \<noteq> None"
    by (rule Init_run)
  note mat = init_material_Inr [OF nc]
  from CreateCluster_ok [OF create] obtain cl where cl: "IsLeader rs" "GetCluster rs1 = Inr cl"
    "clClusterID cl = mtClusterID (ncMaterial nc)" "rcCACertHash (clRootCA cl) = raDigestPrefix (ncRoot nc)"
    "rcJoinSecrets (clRootCA cl) = ncSecrets nc" by auto
  moreover from this have "IsLeader rs1"
    using arg_cong [OF create, of "\<lambda>r. IsLeader (fst r)"] by (simp add: CreateCluster_leader)
  moreover have "token_Validate (pairWorker pair) (raDigestPrefix (ncRoot nc)) (ncSecrets nc) = Inr RoleWorker \<and>
      token_Validate (pairManager pair) (raDigestPrefix (ncRoot nc)) (ncSecrets nc) = Inr RoleManager"
    using tokens_validate [OF pair mat(3)] GenerateSecrets_no_dash [OF mat(2)] assms(2) [OF mat(2)] by blast
  ultimately show ?thesis
    using d' rep mat(1) by (simp add: SaveNode_cluster SaveNode_leader)
qed

lemma demo_init_reply: "snd (Init demo_host (fst (Run_start demo_host demo_daemon)) demo_init) = Inr
    \<lparr>iiClusterId = ''63'', iiNodeId = ''6e'', iiWorkerToken = ''CLLRN-1-726f6f74-77'',
     iiManagerToken = ''CLLRN-1-726f6f74-6d'', iiAdvertiseAddr = ''10.0.0.1:17946''\<rparr>"
  by code_simp

theorem init_forms_cluster_witness:
  "\<exists>rs cl. dnRaft demo_first_manager = Some rs \<and> GetCluster rs = Inr cl \<and>
     token_Validate ''CLLRN-1-726f6f74-6d'' (rcCACertHash (clRootCA cl)) (rcJoinSecrets (clRootCA cl)) = Inr RoleManager"
proof -
  have init: "Init demo_host (fst (Run_start demo_host demo_daemon)) demo_init = (demo_first_manager, Inr
    \<lparr>iiClusterId = ''63'', iiNodeId = ''6e'', iiWorkerToken = ''CLLRN-1-726f6f74-77'',
     iiManagerToken = ''CLLRN-1-726f6f74-6d'', iiAdvertiseAddr = ''10.0.0.1:17946''\<rparr>)"
    using demo_init_reply by (simp add: prod_eq_iff demo_first_manager_def)
  have "secWorker secs \<noteq> secManager secs" if "GenerateSecrets (fst (hsSecrets demo_host)) (snd (hsSecrets demo_host)) = Inr secs" for secs
    using that by (auto simp: GenerateSecrets_def randomSecret_def demo_host_def hex_encode.simps hex_digit_def Let_def)
  from init_forms_cluster [OF init this] show ?thesis by auto
qed


definition demo_issue_reply :: issue_reply where
  "demo_issue_reply = \<lparr>iyNodeID = ''n2'', iyRole = RoleWorker, iyMembership = ''accepted'', iyCertificate = ''n2'',
     iyExpires = 9, iyLeaderGrpc = ''10.0.0.2:17946'', iyManagerAddrs = []\<rparr>"

definition demo_join_host :: host where
  "demo_join_host = demo_host\<lparr>hsNet := (demo_net ''root'')\<lparr>ntIssue := (\<lambda>_ _ _. Inr demo_issue_reply)\<rparr>\<rparr>"

definition demo_join :: join_req where
  "demo_join = \<lparr>jnToken = ''CLLRN-1-726f6f74-77'', jnRemoteAddr = ''10.0.0.1'', jnListenAddr = [], jnRaftAddr = [],
     jnAdvertiseAddr = []\<rparr>"

lemma demo_join_request:
  "join_request demo_join_host demo_join =
     Inr (demo_issue_reply, issued_material (hsX509 demo_join_host) demo_issue_reply [] ''key'' ''root'')"
proof -
  have "token_Parse (jnToken demo_join) = Inr \<lparr>ptCADigestPrefix = ''726f6f74'', ptSecret = ''77''\<rparr>"
    by code_simp
  moreover have "verifyCADigest (hsX509 demo_join_host) ''root'' ''726f6f74'' = None"
    by code_simp
  ultimately have "DownloadRootCA (hsX509 demo_join_host) (hsNet demo_join_host) (jnRemoteAddr demo_join) (jnToken demo_join) = Inr ''root''"
    by (simp add: DownloadRootCA_def) (simp add: demo_join_host_def demo_net_def)
  moreover have "GenerateKeyAndCSR (hsX509 demo_join_host) (hsMkReq demo_join_host) (hsKey demo_join_host) [] = Inr (''key'', ''csr'')"
    by code_simp
  moreover have "IssueWithToken (hsTls demo_join_host) (hsNet demo_join_host) a ''root'' t c = Inr demo_issue_reply" for a t c
    by (simp add: IssueWithToken_def ClientTLSFromPEMs_def demo_join_host_def demo_host_def)
  ultimately show ?thesis by (simp add: join_request_def)
qed


section \<open>Failures\<close>

lemma id_Save_error_keeps: "id_Save codec os s mat st = (s', Some e) \<Longrightarrow> isMat s' = isMat s"
  by (auto simp: id_Save_def Let_def split: prod.splits option.splits)

lemma member_refused:
  assumes "HasIdentity (dnId d)"
  shows "fst (Init h d req) = d \<and> \<not> is_ok (snd (Init h d req))" and "fst (Join h d jreq) = d \<and> \<not> is_ok (snd (Join h d jreq))"
  using assms by (simp_all add: Init_def Join_def is_ok_def)

lemma Init_after_save:
  assumes "\<not> HasIdentity (dnId d)" and "init_material h (dnCfg d) req = Inr nc"
    and "id_Save (hsCodec h) (hsOs h) (dnId d) (ncMaterial nc) (ncState nc) = (st, None)"
  shows "dnId (fst (Init h d req)) = st"
proof -
  let ?mat = "ncMaterial nc" and ?st = "ncState nc"
  let ?cfg = "\<lparr>cfClusterID = mtClusterID ?mat, cfCertValidity = ncValidity nc, cfRootCA = Some (ncRoot nc), cfJoinSecrets = ncSecrets nc\<rparr>"
  note defs = Init_def Let_def assms
  obtain d1 r where o1: "open_raft h (d\<lparr>dnId := st\<rparr>) (mtNodeID ?mat) (dsRaftAddr ?st) (dsAdvertiseAddr ?st) True = (d1, r)"
    by fastforce
  then have d1: "dnId d1 = st" by (auto simp: open_raft_def Let_def)
  show ?thesis
  proof (cases r)
    case (Inl e)
    then show ?thesis using o1 d1 by (simp add: defs)
  next
    case (Inr rs)
    obtain rs1 ce where create: "CreateCluster (hs_load h) (hsNow h) rs ?cfg = (rs1, ce)" by fastforce
    show ?thesis
    proof (cases ce)
      case (Some e)
      then show ?thesis using o1 d1 Inr create by (simp add: defs manager_servers_def)
    next
      case None
      define rs2 where "rs2 = fst (SaveNode (hs_load h) rs1 (Some (first_node ?mat)))"
      obtain d2 ue where up: "signer_update (hs_load h) (manager_servers rs2 d1) = (d2, ue)" by fastforce
      from signer_update_keeps [OF up] have d2: "dnId d2 = st" using d1 by (auto simp: manager_servers_def)
      obtain d3 se where ss: "start_services h (dsListenAddr ?st) (start_loop RenewLoop (start_loop LeadershipLoop (ensureClusterCtx d2))) = (d3, se)"
        by fastforce
      have d3: "dnId d3 = st" using start_services_keeps [OF ss] d2 by simp
      show ?thesis
        using o1 Inr create None up ss d2 d3
        by (cases ue; cases se; cases "FormatPair (raDigestPrefix (ncRoot nc)) (ncSecrets nc)") (simp_all add: defs rs2_def)
    qed
  qed
qed

text \<open>
  Claim C38: what a failed \<open>Init\<close> leaves behind. The identity is written before the store is opened
  and the cluster object created, and no later error path takes it back: after a failure the node
  has an identity exactly when its material could be made and saved, and then every further
  \<open>Init\<close> and \<open>Join\<close> is refused until the operator makes it leave.
\<close>

theorem failed_init_residue:
  assumes "Init h d req = (d', Inl e)" and "\<not> HasIdentity (dnId d)"
  shows "(HasIdentity (dnId d') \<longleftrightarrow>
      (\<exists>nc st. init_material h (dnCfg d) req = Inr nc \<and>
         id_Save (hsCodec h) (hsOs h) (dnId d) (ncMaterial nc) (ncState nc) = (st, None))) \<and>
    (HasIdentity (dnId d') \<longrightarrow>
      (\<forall>h' r'. fst (Init h' d' r') = d' \<and> \<not> is_ok (snd (Init h' d' r'))) \<and>
      (\<forall>h' r'. fst (Join h' d' r') = d' \<and> \<not> is_ok (snd (Join h' d' r'))))"
proof -
  have "HasIdentity (dnId d') \<longleftrightarrow>
      (\<exists>nc st. init_material h (dnCfg d) req = Inr nc \<and>
         id_Save (hsCodec h) (hsOs h) (dnId d) (ncMaterial nc) (ncState nc) = (st, None))"
  proof (cases "init_material h (dnCfg d) req")
    case (Inl e1)
    then show ?thesis using assms by (simp add: Init_def)
  next
    case (Inr nc)
    obtain st se where save: "id_Save (hsCodec h) (hsOs h) (dnId d) (ncMaterial nc) (ncState nc) = (st, se)" by fastforce
    show ?thesis
    proof (cases se)
      case None
      have "isMat st = Some (ncMaterial nc)" using id_Save_state save None by blast
      moreover have "dnId d' = st" using Init_after_save [OF assms(2) Inr save [unfolded None]] assms(1) by simp
      ultimately show ?thesis using Inr save None by (simp add: HasIdentity_def)
    next
      case (Some e2)
      then have "isMat st = isMat (dnId d)" using id_Save_error_keeps save by blast
      moreover have "d' = d\<lparr>dnId := st\<rparr>" using assms Inr save Some by (simp add: Init_def Let_def)
      ultimately show ?thesis using assms(2) Inr save Some by (simp add: HasIdentity_def)
    qed
  qed
  then show ?thesis using member_refused by blast
qed

definition demo_broken_host :: host where
  "demo_broken_host = demo_host\<lparr>hsRaft := (demo_raft_lib (demo_raft False NewFSM))\<lparr>rlBolt := Some (LibraryError ''locked'')\<rparr>\<rparr>"

theorem failed_init_residue_witness:
  "fst (Init demo_host (fst (Init demo_broken_host demo_daemon demo_init)) demo_init) =
     fst (Init demo_broken_host demo_daemon demo_init) \<and>
   \<not> is_ok (snd (Init demo_host (fst (Init demo_broken_host demo_daemon demo_init)) demo_init))"
proof -
  have "isl (snd (Init demo_broken_host demo_daemon demo_init))" by code_simp
  then obtain e where "snd (Init demo_broken_host demo_daemon demo_init) = Inl e"
    by (auto simp: isl_def)
  then have run: "Init demo_broken_host demo_daemon demo_init = (fst (Init demo_broken_host demo_daemon demo_init), Inl e)"
    by (simp add: prod_eq_iff)
  have "HasIdentity (dnId (fst (Init demo_broken_host demo_daemon demo_init)))" by code_simp
  moreover have "\<not> HasIdentity (dnId demo_daemon)"
    by (simp add: demo_daemon_def New_def NewIdStore_def HasIdentity_def)
  ultimately show ?thesis using failed_init_residue [OF run] by blast
qed

section \<open>Role changes\<close>

text \<open>
  A demotion that cannot renew its certificate is left half done. The node has already
  closed its store and recorded the worker's role, so it keeps the manager's certificate under
  that role; and as the recorded role is the desired one, no later heartbeat tries again.
\<close>

theorem failed_demotion_residue:
  assumes "node_material d = Some mat" and "mtRole mat = RoleManager"
    and "\<And>addr. \<exists>e. forceRenewLocked h addr (mat\<lparr>mtRole := RoleWorker\<rparr>) = Inl e"
    and "\<And>s m st. snd (id_Save (hsCodec h) (hsOs h) s m st) = None"
    and "applyRoleChange h RoleWorker d = (d', err)" and "dsAdvertiseAddr (isState (dnId d)) \<noteq> []"
  shows "err \<noteq> None \<and> dnRaft d' = None \<and> \<not> dnSandboxAPI d' \<and> dnRemote d' = dnRemote d \<and>
    node_material d' = Some (mat\<lparr>mtRole := RoleWorker\<rparr>) \<and>
    (\<forall>h'. maybeApplyDesiredRole h' RoleWorker False d' = d')"
proof -
  let ?addr = "or_string (or_string (managerDialAddrLocked d) (dsManagerAddr (isState (dnId d)))) (dsAdvertiseAddr (isState (dnId d)))"
  let ?mat = "mat\<lparr>mtRole := RoleWorker\<rparr>" and ?st = "(isState (dnId d))\<lparr>dsRole := RoleWorker, dsManagerAddr := ?addr\<rparr>"
  let ?s = "(dnId d)\<lparr>isMat := Some ?mat\<rparr>"
  obtain st where save: "id_Save (hsCodec h) (hsOs h) ?s ?mat ?st = (st, None)"
    using assms(4) by (metis prod.collapse)
  then have st: "isMat st = Some ?mat" using id_Save_state by blast
  obtain e where e: "forceRenewLocked h ?addr ?mat = Inl e" using assms(3) by blast
  have "?addr \<noteq> []" using assms(6) by (simp add: or_string_def)
  then have "applyRoleChange h RoleWorker d =
      (d\<lparr>dnRaft := None, dnCa := None, dnQuarantine := None, dnSandboxAPI := False,
         dnRaftDir := (hsRemoveRaft h \<noteq> None \<and> dnRaftDir d), dnId := st\<rparr>, Some (Wrapped [Lit ''reissue worker cert: ''] e))"
    using assms(1,2) save e by (simp add: applyRoleChange_def demoteLocal_def Let_def)
  with assms(5) have d': "d' = d\<lparr>dnRaft := None, dnCa := None, dnQuarantine := None, dnSandboxAPI := False,
         dnRaftDir := (hsRemoveRaft h \<noteq> None \<and> dnRaftDir d), dnId := st\<rparr>" "err \<noteq> None"
    by auto
  then have "node_material d' = Some ?mat" using st by (simp add: node_material_def)
  then show ?thesis using d' by (simp add: maybeApplyDesiredRole_def)
qed

theorem failed_demotion_residue_witness:
  "dnRaft (fst (applyRoleChange demo_host RoleWorker demo_first_manager)) = None \<and>
   maybeApplyDesiredRole demo_host RoleWorker False (fst (applyRoleChange demo_host RoleWorker demo_first_manager)) =
     fst (applyRoleChange demo_host RoleWorker demo_first_manager)"
proof -
  have "case node_material demo_first_manager of None \<Rightarrow> False | Some m \<Rightarrow> mtRole m = RoleManager" by code_simp
  then obtain mat where mat: "node_material demo_first_manager = Some mat" "mtRole mat = RoleManager"
    by (auto split: option.splits)
  have renew: "\<exists>e. forceRenewLocked demo_host a m = Inl e" for a m
    by (cases "GenerateKeyAndCSR (hsX509 demo_host) (hsMkReq demo_host) (hsKey demo_host) (mtNodeID m)")
      (auto simp: forceRenewLocked_def IssueRenew_def demo_host_def demo_net_def split: prod.splits sum.splits)
  have save: "snd (id_Save (hsCodec demo_host) (hsOs demo_host) s m st) = None" for s m st
    by (simp add: demo_host_def id_Save_def write_file_def write_encoded_def atomicWrite_def os_ok_def Let_def demo_id_codec_def)
  have "dsAdvertiseAddr (isState (dnId demo_first_manager)) \<noteq> []" by code_simp
  then show ?thesis
    using failed_demotion_residue [OF mat renew save prod.collapse [symmetric]] by blast
qed

text \<open>
  The loopback address that the daemon fills in for a bare port keeps the store from
  ever choosing the machine's private address, as the store is documented to do.
\<close>

theorem raft_stays_on_loopback:
  "resolveRaftAddr ifaces (daemon_defaultRaftAddr ('':'' @ port)) = ''127.0.0.1:'' @ port"
  by (simp add: resolveRaftAddr_def daemon_defaultRaftAddr_def has_prefix_def)

section \<open>Leadership\<close>

text \<open>The ticks of a watcher, between which the process moves on.\<close>

definition watch_run :: "ca_loader \<Rightarrow> (daemon \<Rightarrow> daemon) list \<Rightarrow> leader_watch \<times> daemon \<Rightarrow> leader_watch \<times> daemon" where
  "watch_run load moves wd = fold (\<lambda>f (w, d). watch_tick load (w, f d)) moves wd"

lemma watch_tick_follows:
  assumes "watch_tick load (w, d) = (w', d')" and "lwEvicting w = lwWasLeader w"
  shows "lwEvicting w' = lwWasLeader w'"
    and "dnRaft d = Some rs \<Longrightarrow> dnCa d = Some c \<Longrightarrow> lwWasLeader w' = IsLeader rs"
    and "dnRaft d = Some rs \<Longrightarrow> dnCa d = Some c \<Longrightarrow> \<not> IsLeader rs \<Longrightarrow> lwWasLeader w \<Longrightarrow>
      dnCa d' = Some \<lparr>cgRoot = None, cgReady = False\<rparr>"
  using assms by (auto simp: watch_tick_def Let_def split: option.splits if_splits prod.splits)

lemma watch_run_agrees:
  "lwEvicting w = lwWasLeader w \<Longrightarrow> lwEvicting (fst (watch_run load moves (w, d))) = lwWasLeader (fst (watch_run load moves (w, d)))"
proof (induction moves arbitrary: w d)
  case (Cons f moves)
  obtain w1 d1 where t: "watch_tick load (w, f d) = (w1, d1)" by fastforce
  with Cons.IH [of w1 d1] watch_tick_follows(1) [OF t Cons.prems] show ?case by (simp add: watch_run_def)
qed (simp add: watch_run_def)

text \<open>
  Eviction follows leadership. After any ticks of the watcher, whatever happened between
  them, the eviction loop runs exactly when the last tick found this node leading, and the tick
  that finds it no longer leading takes the signing root away.
\<close>

theorem eviction_follows_leadership:
  assumes "watch_run load moves (\<lparr>lwWasLeader = False, lwEvicting = False\<rparr>, d0) = (w, d)"
    and "dnRaft d = Some rs" and "dnCa d = Some c" and "watch_tick load (w, d) = (w', d')"
  shows "lwEvicting w' = IsLeader rs \<and>
    (lwEvicting w \<and> \<not> IsLeader rs \<longrightarrow> dnCa d' = Some \<lparr>cgRoot = None, cgReady = False\<rparr>)"
proof -
  have w: "lwEvicting w = lwWasLeader w"
    using watch_run_agrees [of "\<lparr>lwWasLeader = False, lwEvicting = False\<rparr>" load moves d0] assms(1) by simp
  then show ?thesis using watch_tick_follows [OF assms(4) w] assms(2,3) by simp
qed

theorem eviction_follows_leadership_witness:
  "lwEvicting (fst (watch_tick (hs_load demo_host) (\<lparr>lwWasLeader = False, lwEvicting = False\<rparr>, demo_first_manager)))"
proof -
  have "case (dnRaft demo_first_manager, dnCa demo_first_manager) of (Some rs, Some c) \<Rightarrow> IsLeader rs | _ \<Rightarrow> False" by code_simp
  then obtain rs c where rs: "dnRaft demo_first_manager = Some rs" "dnCa demo_first_manager = Some c" "IsLeader rs"
    by (auto split: option.splits)
  have "watch_run (hs_load demo_host) [] (\<lparr>lwWasLeader = False, lwEvicting = False\<rparr>, demo_first_manager) =
      (\<lparr>lwWasLeader = False, lwEvicting = False\<rparr>, demo_first_manager)"
    by (simp add: watch_run_def)
  from eviction_follows_leadership [OF this rs(1,2) prod.collapse [symmetric]] rs(3) show ?thesis by blast
qed

end
