(* ===== verification/Local_Control.thy ===== *)
theory Local_Control
  imports Cli_Commands Remote_Calls Cluster_Entry Daemon_Invariants
begin

text \<open>
  The service behind the local socket (\<open>controlServer\<close> of \<open>internal/daemon/daemon.go\<close>): every call
  is handed to the daemon. With it the command line of \<open>Cli_Commands\<close> runs on the daemon itself, and
  what a user does with the commands can be followed into the cluster.
\<close>

section \<open>The commands\<close>

datatype cli_command =
    CmdInit string string string
  | CmdJoin string string string string string
  | CmdLeave bool
  | CmdJoinToken string
  | CmdStatus
  | CmdSandboxCreate create_flags
  | CmdSandboxStart string
  | CmdSandboxStop string
  | CmdSandboxRm string
  | CmdSandboxInspect string
  | CmdSandboxLs bool string "string list" string
  | CmdSandboxLogs string bool string
  | CmdNodeLs
  | CmdNodeInspect string
  | CmdNodePromote "string list"
  | CmdNodeDemote "string list"
  | CmdNodeRm bool "string list"
  | CmdNodeUpdate string string "string list" "string list" string
  | CmdAPIKeyCreate string
  | CmdAPIKeyLs
  | CmdAPIKeyRm string

text \<open>What the commands take from libraries: the encoders, column alignment, the printing of times.\<close>

record 'doc cli_libs =
  lbJson :: json_codec
  lbList :: "'doc list_encoders"
  lbChunk :: "logs_chunk \<Rightarrow> string"
  lbAlign :: "string \<Rightarrow> string"
  lbTime :: "int \<Rightarrow> string"

definition run_command :: "'doc cli_libs \<Rightarrow> 'w control_client \<Rightarrow> cli_command \<Rightarrow> 'w \<Rightarrow> 'w cli_run" where
  "run_command lb c cmd =
     (case cmd of
        CmdInit advertise listen raft \<Rightarrow> cli_init c advertise listen raft
      | CmdJoin tok advertise listen raft addr \<Rightarrow> cli_join c tok advertise listen raft addr
      | CmdLeave force \<Rightarrow> cli_leave c force
      | CmdJoinToken r \<Rightarrow> cli_join_token c r
      | CmdStatus \<Rightarrow> cli_status c
      | CmdSandboxCreate f \<Rightarrow> cli_sandbox_create c (lbJson lb) f
      | CmdSandboxStart i \<Rightarrow> cli_sandbox_start c i
      | CmdSandboxStop i \<Rightarrow> cli_sandbox_stop c i
      | CmdSandboxRm i \<Rightarrow> cli_sandbox_rm c i
      | CmdSandboxInspect i \<Rightarrow> cli_sandbox_inspect c (lbJson lb) i
      | CmdSandboxLs everywhere nodeArg filters format \<Rightarrow>
          cli_sandbox_ls c (lbList lb) (lbJson lb) everywhere nodeArg filters format
      | CmdSandboxLogs i follow sources \<Rightarrow> cli_sandbox_logs c (lbChunk lb) i follow sources
      | CmdNodeLs \<Rightarrow> cli_node_ls c (lbAlign lb)
      | CmdNodeInspect i \<Rightarrow> cli_node_inspect c (lbTime lb) i
      | CmdNodePromote ids \<Rightarrow> cli_node_promote c ids
      | CmdNodeDemote ids \<Rightarrow> cli_node_demote c ids
      | CmdNodeRm force ids \<Rightarrow> cli_node_rm c force ids
      | CmdNodeUpdate i availability add rm r \<Rightarrow> cli_node_update c i availability add rm r
      | CmdAPIKeyCreate name \<Rightarrow> cli_apikey_create c name
      | CmdAPIKeyLs \<Rightarrow> cli_apikey_ls c (lbAlign lb) (lbTime lb)
      | CmdAPIKeyRm i \<Rightarrow> cli_apikey_rm c i)"

text \<open>Commands one after the other, as a user or a script runs them.\<close>

fun run_session :: "'doc cli_libs \<Rightarrow> 'w control_client \<Rightarrow> cli_command list \<Rightarrow> 'w \<Rightarrow> 'w \<times> (string \<times> cli_end) list" where
  "run_session lb c [] w = (w, [])"
| "run_session lb c (cmd # cmds) w =
     (case run_command lb c cmd w of
        (w1, out, en) \<Rightarrow> (case run_session lb c cmds w1 of (w2, rs) \<Rightarrow> (w2, (out, en) # rs)))"

text \<open>A command that ends does so regularly or with an error; only one that follows a log may not end.\<close>

definition ended :: "cli_end \<Rightarrow> bool" where
  "ended en \<longleftrightarrow> exit_code en \<in> {Some 0, Some 1}"

definition ends_well :: "cli_command \<Rightarrow> cli_end \<Rightarrow> bool" where
  "ends_well cmd en \<longleftrightarrow> ended en \<or> en = CliWaits \<and> (\<exists>i follow sources. cmd = CmdSandboxLogs i follow sources)"

lemma ended_simps [simp]: "ended CliDone" "ended (CliFailed e)" "\<not> ended CliPanic" "\<not> ended CliWaits"
  by (simp_all add: ended_def exit_code_def)

lemma ended_well: "ended en \<Longrightarrow> ends_well cmd en"
  by (simp add: ends_well_def)

lemma ends_well_logs: "ends_well (CmdSandboxLogs i follow sources) en \<longleftrightarrow> en \<noteq> CliPanic"
  by (cases en) (simp_all add: ends_well_def)

section \<open>What the service owes its commands\<close>

text \<open>
  The interface: whatever a call does keeps what holds of the daemon's state, and a reply that
  carries a sandbox carries one.
\<close>

locale control_service =
  fixes c :: "'w control_client" and keeps :: "'w \<Rightarrow> bool"
  assumes init: "keeps w \<Longrightarrow> keeps (fst (clInit c q1 w))"
    and join: "keeps w \<Longrightarrow> keeps (fst (clJoin c q2 w))"
    and leave: "keeps w \<Longrightarrow> keeps (fst (clLeave c q3 w))"
    and join_token: "keeps w \<Longrightarrow> keeps (fst (clJoinToken c q4 w))"
    and status: "keeps w \<Longrightarrow> keeps (fst (clStatus c w))"
    and create: "keeps w \<Longrightarrow> keeps (fst (clSandboxCreate c q5 w))"
    and start: "keeps w \<Longrightarrow> keeps (fst (clSandboxStart c q6 w))"
    and stop: "keeps w \<Longrightarrow> keeps (fst (clSandboxStop c q6 w))"
    and remove: "keeps w \<Longrightarrow> keeps (fst (clSandboxRemove c q6 w))"
    and get: "keeps w \<Longrightarrow> keeps (fst (clSandboxGet c q6 w))"
    and sandboxes: "keeps w \<Longrightarrow> keeps (fst (clSandboxList c w))"
    and logs: "keeps w \<Longrightarrow> keeps (fst (clSandboxLogs c q7 w))"
    and nodes: "keeps w \<Longrightarrow> keeps (fst (clNodeList c w))"
    and node: "keeps w \<Longrightarrow> keeps (fst (clNodeInspect c q6 w))"
    and promote: "keeps w \<Longrightarrow> keeps (fst (clNodePromote c q6 w))"
    and demote: "keeps w \<Longrightarrow> keeps (fst (clNodeDemote c q6 w))"
    and expel: "keeps w \<Longrightarrow> keeps (fst (clNodeRemove c q8 w))"
    and update: "keeps w \<Longrightarrow> keeps (fst (clNodeUpdate c q9 w))"
    and key_create: "keeps w \<Longrightarrow> keeps (fst (clAPIKeyCreate c q6 w))"
    and keys: "keeps w \<Longrightarrow> keeps (fst (clAPIKeyList c w))"
    and key_delete: "keeps w \<Longrightarrow> keeps (fst (clAPIKeyDelete c q6 w))"
    and replies: "snd (clSandboxCreate c q5 w) \<noteq> Inr None" "snd (clSandboxStart c q6 w) \<noteq> Inr None"
      "snd (clSandboxGet c q6 w) \<noteq> Inr None"
begin

lemma call_keeps:
  assumes "\<And>w. keeps w \<Longrightarrow> keeps (fst (call w))" and "keeps w"
  shows "keeps (fst (cli_call c name call answer w))"
  using assms(1) [OF assms(2)] assms(2)
  by (auto simp: cli_call_def cli_dial_def cli_fail_def split: option.split prod.split sum.split)

lemma each_keeps:
  assumes "\<And>i w. keeps w \<Longrightarrow> keeps (fst (call i w))" and "keeps w"
  shows "keeps (fst (cli_dial c (each_node call verb told ids) w))"
proof -
  have "keeps (fst (each_node call verb told ids w))"
    using assms(2)
  proof (induction ids arbitrary: w)
    case (Cons i ids)
    with assms(1) [of w i] show ?case
      by (auto simp: cli_fail_def split: prod.split sum.split) (metis fst_conv)
  qed simp
  with assms(2) show ?thesis by (simp add: cli_dial_def cli_fail_def split: option.split)
qed

lemma scope_keeps: "keeps w \<Longrightarrow> keeps (fst (list_scope c everywhere nodeArg sbs w))"
  using nodes [of w] status [of w] by (auto simp: list_scope_def split: prod.split sum.split)

lemma ls_keeps:
  assumes "keeps w"
  shows "keeps (fst (cli_sandbox_ls c enc json everywhere nodeArg filters format w))"
proof -
  obtain w1 r where l: "clSandboxList c w = (w1, r)" by fastforce
  with sandboxes [OF assms] have w1: "keeps w1" by simp
  then have "keeps w2" if "list_scope c everywhere nodeArg sbs w1 = (w2, x)" for sbs w2 x
    using scope_keeps [OF w1, of everywhere nodeArg sbs] that by simp
  with assms w1 show ?thesis
    by (auto simp: cli_sandbox_ls_def cli_fail_def cli_dial_def l split: sum.split option.split prod.split)
qed

lemma command_keeps: "keeps w \<Longrightarrow> keeps (fst (run_command lb c cmd w))"
  by (cases cmd) (simp_all add: run_command_def cli_init_def cli_join_def cli_leave_def cli_join_token_def cli_status_def
      cli_sandbox_create_def cli_sandbox_start_def cli_sandbox_stop_def cli_sandbox_rm_def cli_sandbox_inspect_def
      cli_sandbox_logs_def cli_node_ls_def cli_node_inspect_def cli_node_promote_def cli_node_demote_def cli_node_rm_def
      cli_node_update_def cli_apikey_create_def cli_apikey_ls_def cli_apikey_rm_def cli_fail_def Let_def call_keeps each_keeps
      ls_keeps init join leave join_token status create start stop remove get logs nodes node promote demote expel update
      key_create keys key_delete split: option.split sum.split)

lemma call_ends:
  assumes "\<And>w r. snd (call w) = Inr r \<Longrightarrow> ended (snd (answer r))"
  shows "ended (snd (snd (cli_call c name call answer w)))"
  using assms [of w] by (auto simp: cli_call_def cli_dial_def cli_fail_def split: option.split prod.split sum.split)

lemma each_ends: "ended (snd (snd (cli_dial c (each_node call verb told ids) w)))"
proof -
  have "ended (snd (snd (each_node call verb told ids w)))"
  proof (induction ids arbitrary: w)
    case (Cons i ids)
    then show ?case by (auto simp: cli_fail_def split: prod.split sum.split) (metis snd_conv)
  qed simp
  then show ?thesis by (simp add: cli_dial_def cli_fail_def split: option.split)
qed

lemma ls_ends: "ended (snd (snd (cli_sandbox_ls c enc json everywhere nodeArg filters format w)))"
  by (simp add: cli_sandbox_ls_def cli_fail_def cli_dial_def split: sum.split option.split prod.split)

lemma sandbox_ends:
  assumes "\<And>w. snd (call w) \<noteq> Inr None"
  shows "ended (snd (snd (cli_call c name call (with_sandbox out) w)))"
proof (rule call_ends)
  fix w r
  assume "snd (call w) = Inr r"
  with assms [of w] have "r \<noteq> None" by auto
  then show "ended (snd (with_sandbox out r))" by (auto simp: with_sandbox_def)
qed

lemma inspect_ends: "ended (snd (case n of None \<Rightarrow> ([], CliFailed e) | Some n \<Rightarrow> (f n, CliDone)))"
  by (simp split: option.split)

lemma logs_no_panic: "snd (snd (cli_sandbox_logs c enc i follow sources w)) \<noteq> CliPanic"
  by (simp add: cli_sandbox_logs_def cli_call_def cli_dial_def cli_fail_def log_end_def
      split: option.split prod.split sum.split recv_end.split)

lemma command_ends: "ends_well cmd (snd (snd (run_command lb c cmd w)))"
  by (cases cmd) (auto simp: run_command_def cli_init_def cli_join_def cli_leave_def cli_join_token_def cli_status_def
      cli_sandbox_create_def cli_sandbox_start_def cli_sandbox_stop_def cli_sandbox_rm_def cli_sandbox_inspect_def
      cli_node_ls_def cli_node_inspect_def cli_node_promote_def cli_node_demote_def cli_node_rm_def
      cli_node_update_def cli_apikey_create_def cli_apikey_ls_def cli_apikey_rm_def cli_fail_def Let_def
      ends_well_logs logs_no_panic inspect_ends each_ends ls_ends
      intro!: ended_well sandbox_ends [OF replies(1)] sandbox_ends [OF replies(2)] sandbox_ends [OF replies(3)] call_ends
      split: sum.split option.split)

lemma session_keeps: "keeps w \<Longrightarrow> keeps (fst (run_session lb c cmds w))"
proof (induction cmds arbitrary: w)
  case (Cons cmd cmds)
  with command_keeps [OF Cons.prems, of lb cmd] show ?case by (auto split: prod.split) (metis fst_conv)
qed simp

lemma session_ends: "list_all2 (\<lambda>cmd r. ends_well cmd (snd r)) cmds (snd (run_session lb c cmds w))"
proof (induction cmds arbitrary: w)
  case (Cons cmd cmds)
  with command_ends [of cmd lb w] show ?case by (auto split: prod.split) (metis snd_conv)
qed simp

end

section \<open>The daemon behind the socket\<close>

text \<open>The node calls work on a part of the daemon's state.\<close>

definition node_view :: "daemon \<Rightarrow> node_daemon" where
  "node_view d = \<lparr>ndRaft = dnRaft d, ndQuarantine = dnQuarantine d, ndLocalID = map_option mtNodeID (node_material d)\<rparr>"

definition put_nodes :: "node_daemon \<Rightarrow> daemon \<Rightarrow> daemon" where
  "put_nodes nd d = d\<lparr>dnRaft := ndRaft nd, dnQuarantine := ndQuarantine nd\<rparr>"

text \<open>A role change of the node itself is applied at once, after its record is saved.\<close>

definition own_role :: "host \<Rightarrow> role \<Rightarrow> string \<Rightarrow> string \<Rightarrow> daemon \<Rightarrow> daemon \<times> unit result" where
  "own_role h r verb i d =
     (if isLocalNode (node_view d) i then
        (case applyRoleChange h r d of
           (d', None) \<Rightarrow> (d', Inr ())
         | (d', Some e) \<Rightarrow> (d', Inl (StatusError Internal (Wrapped [Lit (''apply '' @ verb @ '' locally: '')] e))))
      else (d, Inr ()))"

definition named_node :: "daemon \<Rightarrow> string \<Rightarrow> string" where
  "named_node d i =
     (case dnRaft d of None \<Rightarrow> i | Some raft \<Rightarrow> (case resolveNode raft i of Inl _ \<Rightarrow> i | Inr n \<Rightarrow> nID n))"

definition local_NodePromote :: "host \<Rightarrow> string \<Rightarrow> daemon \<Rightarrow> daemon \<times> unit result" where
  "local_NodePromote h i d =
     (case NodePromote (hs_load h) (\<lambda>_. None) (node_view d) i of
        (nd, Inl e) \<Rightarrow> (put_nodes nd d, Inl e)
      | (nd, Inr _) \<Rightarrow> own_role h RoleManager ''promote'' (named_node d i) (put_nodes nd d))"

definition local_NodeDemote :: "host \<Rightarrow> string \<Rightarrow> daemon \<Rightarrow> daemon \<times> unit result" where
  "local_NodeDemote h i d =
     (case NodeDemote (hs_load h) (\<lambda>_. None) (node_view d) i of
        (nd, Inl e) \<Rightarrow> (put_nodes nd d, Inl e)
      | (nd, Inr _) \<Rightarrow> own_role h RoleWorker ''demote'' (named_node d i) (put_nodes nd d))"

definition local_NodeRemove :: "host \<Rightarrow> string \<Rightarrow> bool \<Rightarrow> daemon \<Rightarrow> daemon \<times> unit result" where
  "local_NodeRemove h i force d =
     (case NodeRemove (hs_load h) (hsNow h) (node_view d) i force of (nd, r) \<Rightarrow> (put_nodes nd d, r))"

text \<open>
  An update changes the role first, then the record as it is read again. Were the store closed by
  the node's own role change, its handle would not come back into the daemon.
\<close>

definition local_role :: "host \<Rightarrow> string \<Rightarrow> node \<Rightarrow> daemon \<Rightarrow> daemon \<times> unit result" where
  "local_role h r n d =
     (if r = [] then (d, Inr ())
      else if r = RoleManager then (if nRole n \<noteq> RoleManager then local_NodePromote h (nID n) d else (d, Inr ()))
      else if r = RoleWorker then (if nRole n \<noteq> RoleWorker then local_NodeDemote h (nID n) d else (d, Inr ()))
      else (d, Inl (status_error InvalidArgument ''role must be worker or manager'')))"

definition local_NodeUpdate :: "host \<Rightarrow> update_call \<Rightarrow> daemon \<Rightarrow> daemon \<times> node_info result" where
  "local_NodeUpdate h req d =
     (case managerLeader (node_view d) of
        Inl e \<Rightarrow> (d, Inl e)
      | Inr raft \<Rightarrow>
          if uqNodeID req = [] then (d, Inl (status_error InvalidArgument ''node_id is required''))
          else
     (case resolveNode raft (uqNodeID req) of
        Inl e \<Rightarrow> (d, Inl e)
      | Inr n \<Rightarrow>
     (case local_role h (uqRole req) n d of
        (d1, Inl e) \<Rightarrow> (d1, Inl e)
      | (d1, Inr _) \<Rightarrow>
     (let raft1 = (case dnRaft d1 of None \<Rightarrow> raft | Some r \<Rightarrow> r) in
      case (if uqRole req = [] then Inr n else GetNode raft1 (nID n)) of
        Inl e \<Rightarrow> (d1, Inl (mapNodeErr e))
      | Inr n1 \<Rightarrow>
          (case update_record (hs_load h) (hsNow h) (node_view d1) raft1 req n1 of
             (nd, r) \<Rightarrow> (if dnRaft d1 = None then d1 else put_nodes nd d1, r))))))"

text \<open>What a call takes from outside the daemon: other nodes' answers, the driver, random bytes.\<close>

record local_env =
  leSocket :: "go_error option"
  leHost :: host
  leJson :: json_codec
  leCtx :: rpc_context
  leHash :: "string \<Rightarrow> string"
  leKeyBytes :: "string result"
  leKeyID :: "string result"
  leSandboxID :: "string result"
  leCreateAt :: "create_request \<Rightarrow> string \<Rightarrow> sandbox_proto result"
  leStartAt :: "string \<Rightarrow> string \<Rightarrow> sandbox_proto result"
  leStopAt :: "string \<Rightarrow> string \<Rightarrow> sandbox_proto result"
  leRemoveAt :: "string \<Rightarrow> string \<Rightarrow> unit result"
  leGetAt :: "string \<Rightarrow> string \<Rightarrow> sandbox_proto result"
  leListAt :: "string \<Rightarrow> sandbox_proto list result"
  leNodesAt :: "string \<Rightarrow> node_info list result"
  leNodeAt :: "string \<Rightarrow> string \<Rightarrow> node_info option result"
  leStream :: "nat \<Rightarrow> log_options \<Rightarrow> (log_entry list \<times> go_error option) result"
  leDriver :: driver
  leDial :: "string \<Rightarrow> go_error option"
  leLogsAt :: log_source

definition reply :: "daemon \<times> 'r result \<Rightarrow> daemon \<times> 'r option result" where
  "reply x = (case x of (d, Inl e) \<Rightarrow> (d, Inl e) | (d, Inr r) \<Rightarrow> (d, Inr (Some r)))"

definition local_logs :: "local_env \<Rightarrow> logs_request \<Rightarrow> daemon \<Rightarrow> logs_chunk list \<times> go_error option option" where
  "local_logs env req d =
     daemon_SandboxLogs (hsNow (leHost env)) (leJson env) (leCtx env) (leGetAt env (lqSandboxId req))
       (case daemon_SandboxGet (leJson env) (leCtx env) (leGetAt env (lqSandboxId req)) (lqSandboxId req) d of
          Inl e \<Rightarrow> (\<lambda>_. Inl e) | Inr sb \<Rightarrow> leNodeAt env (pbNodeId sb))
       (leStream env) (leDriver env) (hsTls (leHost env)) (leDial env) (leLogsAt env) req (\<lambda>_. None) d"

definition local_control :: "local_env \<Rightarrow> daemon control_client" where
  "local_control env =
     (let h = leHost env; load = hs_load h; now = hsNow h; json = leJson env; ctx = leCtx env in
      \<lparr>clDial = leSocket env,
       clInit = (\<lambda>q d. Init h d q),
       clJoin = (\<lambda>q d. Join h d q),
       clLeave = (\<lambda>force d. snd (Leave h d force)),
       clJoinToken = (\<lambda>r d. (d, JoinToken d r)),
       clStatus = (\<lambda>d. (d, Inr (daemon_Status d))),
       clSandboxCreate = (\<lambda>q d. reply (daemon_SandboxCreate load json (leSandboxID env) now ctx (leCreateAt env q) q d)),
       clSandboxStart = (\<lambda>i d. reply (daemon_SandboxStart load json now ctx (leStartAt env i) i d)),
       clSandboxStop = (\<lambda>i d. case daemon_SandboxStop load json now ctx (leStopAt env i) i d of
                               (d', Inl e) \<Rightarrow> (d', Inl e) | (d', Inr _) \<Rightarrow> (d', Inr ())),
       clSandboxRemove = (\<lambda>i d. daemon_SandboxRemove load ctx (leRemoveAt env i) i d),
       clSandboxGet = (\<lambda>i d. reply (d, daemon_SandboxGet json ctx (leGetAt env i) i d)),
       clSandboxList = (\<lambda>d. (d, daemon_SandboxList json ctx (leListAt env) d)),
       clSandboxLogs = (\<lambda>q d. (d, Inr (case local_logs env q d of (cs, e) \<Rightarrow> (cs, stream_end e)))),
       clNodeList = (\<lambda>d. (d, daemon_NodeList now (leNodesAt env) d)),
       clNodeInspect = (\<lambda>i d. (d, daemon_NodeInspect now (leNodeAt env i) i d)),
       clNodePromote = local_NodePromote h,
       clNodeDemote = local_NodeDemote h,
       clNodeRemove = (\<lambda>(i, force). local_NodeRemove h i force),
       clNodeUpdate = (\<lambda>q d. reply (local_NodeUpdate h q d)),
       clAPIKeyCreate = (\<lambda>name d. APIKeyCreate load (leHash env) (leKeyBytes env) (leKeyID env) now name d),
       clAPIKeyList = (\<lambda>d. (d, APIKeyList d)),
       clAPIKeyDelete = (\<lambda>i d. APIKeyDelete load i d)\<rparr>)"

text \<open>The one call of the service that no command makes.\<close>

definition local_SandboxGetByName :: "local_env \<Rightarrow> (string \<Rightarrow> sandbox_proto result) \<Rightarrow> string \<Rightarrow> daemon \<Rightarrow> sandbox_proto result" where
  "local_SandboxGetByName env remote name d = daemon_SandboxGetByName (leJson env) (leCtx env) remote name d"

text \<open>The socket itself: an old one is removed, and the new one is only for its owner and group.\<close>

record socket_os =
  soMkdir :: "go_error option"
  soListen :: "go_error option"
  soChmod :: "go_error option"

definition startLocalControl :: "socket_os \<Rightarrow> daemon \<Rightarrow> daemon \<times> go_error option" where
  "startLocalControl so d =
     (case soMkdir so of
        Some e \<Rightarrow> (d, Some e)
      | None \<Rightarrow>
     (case soListen so of
        Some e \<Rightarrow> (d, Some (Wrapped [Lit ''listen unix: ''] e))
      | None \<Rightarrow>
     (case soChmod so of
        Some e \<Rightarrow> (d, Some e)
      | None \<Rightarrow> (d\<lparr>dnLocal := True\<rparr>, None))))"

section \<open>Every command is a step of the daemon\<close>

text \<open>What a node call leaves in place of the store and the quarantine it found.\<close>

definition same_shape :: "node_daemon \<Rightarrow> node_daemon \<Rightarrow> bool" where
  "same_shape nd nd' \<longleftrightarrow> (ndRaft nd = None \<longrightarrow> nd' = nd) \<and> (ndRaft nd \<noteq> None \<longrightarrow> ndRaft nd' \<noteq> None) \<and>
     (ndQuarantine nd' = None \<longleftrightarrow> ndQuarantine nd = None)"

lemma same_shape_refl [simp]: "same_shape nd nd"
  by (simp add: same_shape_def)

lemma managerLeader_iff: "managerLeader nd = Inr r \<longleftrightarrow> ndRaft nd = Some r \<and> IsLeader r"
  by (auto simp: managerLeader_def managerRaft_def split: option.splits)

lemma runEviction_shape: "ndRaft nd = Some r \<Longrightarrow> \<exists>r'. ndRaft (runEviction load now nd) = Some r'"
  "ndQuarantine (runEviction load now nd) = None \<longleftrightarrow> ndQuarantine nd = None"
  by (auto simp: runEviction_def split: option.splits sum.splits prod.splits)

lemma NodePromote_shape: "same_shape nd (fst (NodePromote load r nd i))"
  by (cases "managerLeader nd") (auto simp: NodePromote_def managerLeader_iff same_shape_def
      split: sum.splits option.splits prod.splits)

lemma NodeDemote_shape: "same_shape nd (fst (NodeDemote load r nd i))"
  by (cases "managerLeader nd") (auto simp: NodeDemote_def managerLeader_iff same_shape_def
      split: sum.splits option.splits prod.splits if_splits)

lemma NodeRemove_shape: "same_shape nd (fst (NodeRemove load now nd i force))"
  by (cases "managerLeader nd") (auto simp: NodeRemove_def managerLeader_iff same_shape_def runEviction_shape
      split: sum.splits option.splits prod.splits if_splits)

lemma update_record_shape: "ndRaft nd \<noteq> None \<Longrightarrow> same_shape nd (fst (update_record load now nd raft req n))"
  by (auto simp: update_record_def same_shape_def split: sum.splits option.splits prod.splits if_splits)

lemma put_nodes_view [simp]: "put_nodes (node_view d) d = d"
  by (simp add: put_nodes_def node_view_def)

lemma reachable_quarantine: "reachable d \<Longrightarrow> dnRaft d \<noteq> None \<Longrightarrow> dnQuarantine d \<noteq> None"
  using reachable_ok [of d] by (auto simp: daemon_ok_defs)

lemma put_nodes_reachable:
  assumes "reachable d" and "same_shape (node_view d) nd"
  shows "reachable (put_nodes nd d)"
proof (cases "dnRaft d")
  case None
  with assms(2) have "nd = node_view d" by (simp add: same_shape_def node_view_def)
  with assms(1) show ?thesis by simp
next
  case (Some r)
  with assms reachable_quarantine [of d] obtain r' q' where "ndRaft nd = Some r'" "ndQuarantine nd = Some q'"
    by (auto simp: same_shape_def node_view_def)
  then have "put_nodes nd d = put_control \<lparr>cnRaft = r', cnQuarantine = q'\<rparr> d"
    by (simp add: put_nodes_def put_control_def)
  moreover have "daemon_step d (put_control \<lparr>cnRaft = r', cnQuarantine = q'\<rparr> d)"
    by (rule daemon_step.sandbox_write) (use Some assms(1) reachable_quarantine in auto)
  ultimately show ?thesis using reachable.step [OF assms(1)] by simp
qed

lemma step_reachable: "daemon_step d (fst x) \<Longrightarrow> reachable d \<Longrightarrow> reachable (fst x)"
  by (rule reachable.step)

lemma own_role_reachable:
  assumes "reachable d"
  shows "reachable (fst (own_role h r verb i d))"
  using reachable.step [OF assms daemon_step.role [of d h r]] assms
  by (simp add: own_role_def split: prod.split option.split) (metis fst_conv)

lemma local_NodePromote_reachable:
  assumes "reachable d"
  shows "reachable (fst (local_NodePromote h i d))"
proof -
  have "reachable (put_nodes (fst (NodePromote (hs_load h) (\<lambda>_. None) (node_view d) i)) d)"
    by (rule put_nodes_reachable [OF assms NodePromote_shape])
  then show ?thesis
    by (auto simp: local_NodePromote_def intro: own_role_reachable split: prod.split sum.split)
qed

lemma local_NodeDemote_reachable:
  assumes "reachable d"
  shows "reachable (fst (local_NodeDemote h i d))"
proof -
  have "reachable (put_nodes (fst (NodeDemote (hs_load h) (\<lambda>_. None) (node_view d) i)) d)"
    by (rule put_nodes_reachable [OF assms NodeDemote_shape])
  then show ?thesis
    by (auto simp: local_NodeDemote_def intro: own_role_reachable split: prod.split sum.split)
qed

lemma local_NodeRemove_reachable: "reachable d \<Longrightarrow> reachable (fst (local_NodeRemove h i force d))"
  using put_nodes_reachable [OF _ NodeRemove_shape, of d "hs_load h" "hsNow h" i force]
  by (simp add: local_NodeRemove_def split: prod.split) (metis fst_conv)

lemma local_role_reachable: "reachable d \<Longrightarrow> reachable (fst (local_role h r n d))"
  by (simp add: local_role_def local_NodePromote_reachable local_NodeDemote_reachable)

lemma local_NodeUpdate_reachable:
  assumes "reachable d"
  shows "reachable (fst (local_NodeUpdate h req d))"
proof -
  have "reachable (put_nodes nd d1)"
    if "reachable d1" "dnRaft d1 \<noteq> None" "update_record (hs_load h) (hsNow h) (node_view d1) raft1 req n1 = (nd, r)"
    for d1 raft1 n1 nd r
  proof (rule put_nodes_reachable [OF that(1)])
    show "same_shape (node_view d1) nd"
      using update_record_shape [of "node_view d1" "hs_load h" "hsNow h" raft1 req n1] that(2,3) by (simp add: node_view_def)
  qed
  moreover have "reachable d1" if "local_role h (uqRole req) n d = (d1, r)" for n d1 r
    using local_role_reachable [OF assms, of h "uqRole req" n] that by simp
  ultimately show ?thesis
    using assms by (auto simp: local_NodeUpdate_def Let_def split: sum.split prod.split)
qed

lemma on_leader_reachable:
  assumes "reachable d"
  shows "reachable (fst (on_leader run remote d))"
proof (cases "leader_raft d = None \<or> dnQuarantine d = None")
  case True
  with assms show ?thesis by (auto simp: on_leader_def split: option.split)
next
  case False
  then obtain raft q where rq: "leader_raft d = Some raft" "dnQuarantine d = Some q" by auto
  then have "dnRaft d \<noteq> None" by (simp add: leader_raft_Some)
  with rq(2) have "daemon_step d (put_control c d)" for c by (intro daemon_step.sandbox_write) simp_all
  with assms rq show ?thesis by (auto simp: on_leader_def intro: reachable.step split: prod.split)
qed

lemma Init_reachable: "reachable d \<Longrightarrow> reachable (fst (Init h d q))"
  by (rule reachable.step [OF _ daemon_step.init])

lemma Join_reachable: "reachable d \<Longrightarrow> reachable (fst (Join h d q))"
  by (rule reachable.step [OF _ daemon_step.join])

lemma Leave_reachable: "reachable d \<Longrightarrow> reachable (fst (snd (Leave h d force)))"
  by (rule reachable.step [OF _ daemon_step.leave])

lemma APIKeyCreate_reachable: "reachable d \<Longrightarrow> reachable (fst (APIKeyCreate load hash b b' now name d))"
  by (rule reachable.step [OF _ daemon_step.key_create])

lemma APIKeyDelete_reachable: "reachable d \<Longrightarrow> reachable (fst (APIKeyDelete load i d))"
  by (rule reachable.step [OF _ daemon_step.key_delete])

lemmas served_reachable = Init_reachable Join_reachable Leave_reachable APIKeyCreate_reachable APIKeyDelete_reachable
  on_leader_reachable local_NodePromote_reachable local_NodeDemote_reachable local_NodeRemove_reachable local_NodeUpdate_reachable

lemma fst_reply [simp]: "fst (reply x) = fst x"
  by (simp add: reply_def split: prod.split sum.split)

lemma snd_reply [simp]: "snd (reply x) \<noteq> Inr None"
  by (simp add: reply_def split: prod.split sum.split)

interpretation served: control_service "local_control env" reachable for env
proof (unfold_locales, goal_cases)
  case (8 w q6)
  have "reachable (fst (daemon_SandboxStop load json now ctx remote q6 w))" for load json now ctx remote
    unfolding daemon_SandboxStop_def by (rule on_leader_reachable [OF 8])
  then show ?case by (simp add: local_control_def Let_def split: prod.split sum.split) (metis fst_conv)
qed (simp_all add: local_control_def Let_def served_reachable case_prod_beta daemon_SandboxCreate_def daemon_SandboxStart_def
  daemon_SandboxRemove_def)

end
