(* ===== verification/Cli_Sessions.thy ===== *)
theory Cli_Sessions
  imports Local_Control
begin

text \<open>
  What the command line does to a cluster: sessions of commands on one daemon, a cluster that is
  formed and joined with the printed tokens, and the life of a printed API key.
\<close>

section \<open>Sessions\<close>


section \<open>Forming and joining a cluster\<close>

definition join_line :: "string \<Rightarrow> string \<Rightarrow> string" where
  "join_line tok addr = cli_line (''    cellar join --token '' @ tok @ '' '' @ addr)"

text \<open>The certificates that a network gives out come from a store's own service.\<close>

definition served_by :: "cluster_net \<Rightarrow> raft_node \<Rightarrow> bool" where
  "served_by net rs \<longleftrightarrow> (\<forall>addr cfg req rep. ntIssue net addr cfg req = Inr rep \<longrightarrow>
     (\<exists>lib rand_id rand now link remote ctx root ready.
        snd (IssueNodeCertificate lib rand_id rand now link remote ctx
               \<lparr>caRaft = rs, caRoot = root, caReady = ready\<rparr> req) = Inr rep))"

text \<open>Whoever joins through such a network with the token gets the role, and says so.\<close>

definition admits :: "raft_node \<Rightarrow> string \<Rightarrow> role \<Rightarrow> bool" where
  "admits rs tok r \<longleftrightarrow> (\<forall>env advertise listen raft addr d d' out.
     served_by (hsNet (leHost env)) rs \<and> cli_join (local_control env) tok advertise listen raft addr d = (d', out, CliDone) \<longrightarrow>
     (\<exists>mat. node_material d' = Some mat \<and> mtRole mat = r \<and>
        out = cli_line (''This node joined as a '' @ r @ '' ('' @ mtNodeID mat @ '').'') \<and>
        (r = RoleManager \<longrightarrow> (\<exists>rs'. dnRaft d' = Some rs' \<and> IsInitialized rs'))))"

lemma printed: "sublist b (b @ c)" "sublist b b" "sublist b c \<Longrightarrow> sublist b (a @ c)"
  by (auto simp: sublist_def) (metis append.assoc)

lemma issue_token_role:
  assumes "snd (IssueNodeCertificate lib rand_id rand now link remote ctx s req) = Inr rep" and "IsLeader (caRaft s)"
    and "iqToken req \<noteq> []" and "GetCluster (caRaft s) = Inr cl"
  shows "token_Validate (iqToken req) (rcCACertHash (clRootCA cl)) (rcJoinSecrets (clRootCA cl)) = Inr (iyRole rep)"
proof -
  obtain s' where "IssueNodeCertificate lib rand_id rand now link remote ctx s req = (s', Inr rep)"
    using assms(1) by (metis prod.collapse)
  then obtain cluster csr i r old ic where "GetCluster (caRaft s) = Inr cluster"
    "issue_subject rand_id ctx (caRaft s) cluster csr req = Inr (i, r, old)" "rep = issue_response (caRaft s') i r ic"
    by (rule IssueNodeCertificate_Inr [OF _ assms(2)])
  with assms(3,4) issue_subject_Inr show ?thesis by fastforce
qed

lemma join_request_role:
  assumes "join_request h req = Inr (issued, mat)" and "served_by (hsNet h) rs" and "IsLeader rs" and "GetCluster rs = Inr cl"
    and "jnToken req \<noteq> []" and "token_Validate (jnToken req) (rcCACertHash (clRootCA cl)) (rcJoinSecrets (clRootCA cl)) = Inr r"
  shows "iyRole issued = r \<and> mtRole mat = r \<and> mtNodeID mat = iyNodeID issued"
proof -
  obtain caPEM csr key where "IssueWithToken (hsTls h) (hsNet h) (jnRemoteAddr req) caPEM (jnToken req) csr = Inr issued"
    and mat: "mat = issued_material (hsX509 h) issued [] key caPEM"
    using assms(1) by (auto simp: join_request_def split: sum.splits)
  then obtain cfg where "ntIssue (hsNet h) (normalizeAddr (jnRemoteAddr req)) cfg \<lparr>iqCsr = csr, iqToken = jnToken req, iqNodeID = []\<rparr> = Inr issued"
    by (auto simp: IssueWithToken_def split: sum.splits)
  from assms(2) [unfolded served_by_def, rule_format, OF this] have "iyRole issued = r"
    using issue_token_role assms(3-6) by fastforce
  with mat show ?thesis by (simp add: issued_material_def fill_validity_def split: sum.split)
qed

lemma cli_join_done:
  assumes "cli_join (local_control env) tok advertise listen raft addr d = (d', out, CliDone)"
  obtains rep where "Join (leHost env) d \<lparr>jnToken = tok, jnRemoteAddr = addr, jnListenAddr = listen, jnRaftAddr = raft,
        jnAdvertiseAddr = advertise\<rparr> = (d', Inr rep)"
    "out = cli_line (''This node joined as a '' @ jyRole rep @ '' ('' @ jyNodeId rep @ '').'')" "tok \<noteq> []"
  using assms by (auto simp: cli_join_def cli_call_def cli_dial_def cli_fail_def local_control_def Let_def
      split: if_splits option.splits prod.splits sum.splits)

lemma valid_token_admits:
  assumes "IsLeader rs" and "GetCluster rs = Inr cl"
    and "token_Validate tok (rcCACertHash (clRootCA cl)) (rcJoinSecrets (clRootCA cl)) = Inr r"
  shows "admits rs tok r"
  unfolding admits_def
proof (intro allI impI, elim conjE)
  fix env advertise listen raft addr d d' out
  assume served: "served_by (hsNet (leHost env)) rs"
    and "cli_join (local_control env) tok advertise listen raft addr d = (d', out, CliDone)"
  then obtain rep where join: "Join (leHost env) d \<lparr>jnToken = tok, jnRemoteAddr = addr, jnListenAddr = listen, jnRaftAddr = raft,
        jnAdvertiseAddr = advertise\<rparr> = (d', Inr rep)" (is "Join ?h d ?req = _")
    and out: "out = cli_line (''This node joined as a '' @ jyRole rep @ '' ('' @ jyNodeId rep @ '').'')" and "tok \<noteq> []"
    by (elim cli_join_done)
  from join have "\<exists>x. join_request ?h ?req = Inr x"
    by (auto simp: Join_def split: if_splits prod.splits sum.splits)
  then obtain issued mat where jr: "join_request ?h ?req = Inr (issued, mat)" by fastforce
  from join_request_role [OF this served assms(1,2)] assms(3) \<open>tok \<noteq> []\<close>
  have r: "iyRole issued = r" "mtRole mat = r" "mtNodeID mat = iyNodeID issued" by simp_all
  obtain pref known where seed:
    "seedManagerAddrs (jnRemoteAddr ?req) (iyLeaderGrpc issued) (iyManagerAddrs issued) = (pref, known)" by fastforce
  show "\<exists>mat. node_material d' = Some mat \<and> mtRole mat = r \<and>
      out = cli_line (''This node joined as a '' @ r @ '' ('' @ mtNodeID mat @ '').'') \<and>
      (r = RoleManager \<longrightarrow> (\<exists>rs'. dnRaft d' = Some rs' \<and> IsInitialized rs'))"
  proof (cases "r = RoleManager")
    case True
    with Join_manager [OF join jr _ seed] r out show ?thesis by auto
  next
    case False
    with Join_worker [OF join jr _ seed] r out show ?thesis by auto
  qed
qed


section \<open>The life of a printed key\<close>

text \<open>
  Claim C18: a printed API key works until it is removed: the secret that \<open>cellar api-key create\<close>
  prints authenticates on the store of the node at once, and after a successful
  \<open>cellar api-key rm\<close> of the printed identifier it does not. No other stored key may have its hash.
\<close>

theorem printed_key_lifetime:
  assumes "cli_apikey_create (local_control env) name d = (d1, out, CliDone)" and "dnRaft d = Some s" and "replica load (rnFsm s)"
    and "leKeyBytes env = Inr b" and "length b = keyBytes" and "leKeyID env = Inr b'"
    and "\<forall>k \<in> set (listAPIKeys (rnFsm s)). kKeyHash k \<noteq> leHash env (key_Prefix @ hex_encode b)"
  shows "\<exists>s1 k raw. dnRaft d1 = Some s1 \<and> sublist (cli_line (''API key created: '' @ kID k @ '' ('' @ kName k @ '')'')) out \<and>
    sublist (cli_line (''    '' @ raw)) out \<and> authenticateAPIKey (leHash env) s1 (key_header raw) = Inr k \<and>
    (\<forall>d2 out2. cli_apikey_rm (local_control env) (kID k) d1 = (d2, out2, CliDone) \<longrightarrow>
       (\<exists>s2. dnRaft d2 = Some s2 \<and>
          authenticateAPIKey (leHash env) s2 (key_header raw) = Inl (status_error Unauthenticated ''invalid API key'')))"
proof -
  obtain s1 g where run: "CreateAPIKeyOnStore (hs_load (leHost env)) (leHash env) (Inr b) (Inr b') (hsNow (leHost env)) s name = (s1, Inr g)"
    and d1: "d1 = d\<lparr>dnRaft := Some s1\<rparr>"
    and out: "out = cli_line (''API key created: '' @ kID (gKey g) @ '' ('' @ kName (gKey g) @ '')'') @ cli_line [] @
      cli_line ''Store this secret now; it will not be shown again:'' @ cli_line [] @ cli_line (''    '' @ gRaw g) @ cli_line [] @
      cli_line ''Export for the Go client:'' @ cli_line [] @ cli_line (''    export CELLAR_API_KEY='' @ gRaw g)"
    using assms(1,2,4,6) by (auto simp: cli_apikey_create_def cli_call_def cli_dial_def cli_fail_def local_control_def Let_def
        APIKeyCreate_def CreateAPIKeyResponse_def split: if_splits option.splits prod.splits sum.splits)
  have keyed: "fsm_keyed (rnFsm s)" by (rule replica_keyed [OF assms(3)])
  have fresh: "\<forall>k \<in> set (listAPIKeys (rnFsm s)). kKeyHash k \<noteq> leHash env (gRaw g)"
    using assms(7) by (simp add: created_key_parts(1) [OF assms(5) run])
  have refused: "\<exists>s2. dnRaft d2 = Some s2 \<and>
        authenticateAPIKey (leHash env) s2 (key_header (gRaw g)) = Inl (status_error Unauthenticated ''invalid API key'')"
    if "cli_apikey_rm (local_control env) (kID (gKey g)) d1 = (d2, out2, CliDone)" for d2 out2
  proof -
    from that d1 obtain s2 where "DeleteAPIKey (hs_load (leHost env)) s1 (kID (gKey g)) = (s2, None)" "dnRaft d2 = Some s2"
      by (auto simp: cli_apikey_rm_def cli_call_def cli_dial_def cli_fail_def local_control_def Let_def APIKeyDelete_def
          split: if_splits option.splits prod.splits sum.splits)
    with deleted_key_refused [OF keyed assms(5) run fresh] show ?thesis by blast
  qed
  have "sublist (cli_line (''API key created: '' @ kID (gKey g) @ '' ('' @ kName (gKey g) @ '')'')) out"
    "sublist (cli_line (''    '' @ gRaw g)) out"
    unfolding out by (intro printed)+
  with created_key_accepted(1) [OF keyed assms(5) run fresh] refused d1 show ?thesis
    by (intro exI [of _ s1] exI [of _ "gKey g"] exI [of _ "gRaw g"]) simp
qed

section \<open>Two nodes, a session and a key\<close>

definition demo_ctx :: rpc_context where
  "demo_ctx = \<lparr>cxInternal = False, cxPeerCert = None\<rparr>"

definition demo_local_env :: "host \<Rightarrow> local_env" where
  "demo_local_env h =
     \<lparr>leSocket = None, leHost = h, leJson = demo_json, leCtx = demo_ctx, leHash = rev, leKeyBytes = Inr demo_bytes,
      leKeyID = Inr ''0123456789abcdef'', leSandboxID = Inr ''s'', leCreateAt = (\<lambda>_ _. Inl ErrNotLeader), leStartAt = (\<lambda>_ _. Inl ErrNotLeader),
      leStopAt = (\<lambda>_ _. Inl ErrNotLeader), leRemoveAt = (\<lambda>_ _. Inl ErrNotLeader), leGetAt = (\<lambda>_ _. Inl ErrNotLeader),
      leListAt = (\<lambda>_. Inl ErrNotLeader), leNodesAt = (\<lambda>_. Inl ErrNotLeader), leNodeAt = (\<lambda>_ _. Inl ErrNotLeader),
      leStream = (\<lambda>_ _. Inl ErrNotLeader), leDriver = [], leDial = (\<lambda>_. None), leLogsAt = (\<lambda>_ _. Inl ErrNotLeader)\<rparr>"

definition demo_start :: daemon where
  "demo_start = fst (Run_start demo_host Daemon_Invariants.demo_daemon)"

text \<open>The second node reaches the first one's certificate service.\<close>

definition demo_store :: raft_node where
  "demo_store = (case dnRaft demo_first_manager of Some rs \<Rightarrow> rs | None \<Rightarrow> demo_raft True NewFSM)"

definition demo_issuer :: "issue_call \<Rightarrow> issue_reply result" where
  "demo_issuer req = snd (IssueNodeCertificate (demo_lib\<lparr>xSign := (\<lambda>t _ _. Inr (tmCN t))\<rparr>) (Inr ''k'') (Inr 7) 0
     \<lparr>lkHost = None, lkDial = (\<lambda>_. Inl ErrNotLeader)\<rparr> (\<lambda>_. Inl ErrNotLeader) demo_ctx
     \<lparr>caRaft = demo_store, caRoot = None, caReady = False\<rparr> req)"

definition demo_joiner :: host where
  "demo_joiner = demo_host\<lparr>hsNet := (demo_net ''root'')\<lparr>ntIssue := (\<lambda>_ _ req. demo_issuer req)\<rparr>\<rparr>"

lemma demo_joiner_served: "served_by (hsNet (leHost (demo_local_env demo_joiner))) demo_store"
  unfolding served_by_def
proof (intro allI impI)
  fix addr cfg req rep
  assume "ntIssue (hsNet (leHost (demo_local_env demo_joiner))) addr cfg req = Inr rep"
  then have "demo_issuer req = Inr rep" by (simp add: demo_local_env_def demo_joiner_def)
  then show "\<exists>lib rand_id rand now link remote ctx root ready.
      snd (IssueNodeCertificate lib rand_id rand now link remote ctx \<lparr>caRaft = demo_store, caRoot = root, caReady = ready\<rparr> req) = Inr rep"
    unfolding demo_issuer_def by (intro exI)
qed

definition demo_admitted :: issue_reply where
  "demo_admitted = \<lparr>iyNodeID = ''6b'', iyRole = RoleWorker, iyMembership = MembershipAccepted, iyCertificate = ''6b'',
     iyExpires = - 6795360678871345152, iyLeaderGrpc = ''10.0.0.1:17946'', iyManagerAddrs = [''10.0.0.1:17946'']\<rparr>"

lemma demo_issued: "demo_issuer \<lparr>iqCsr = ''csr'', iqToken = ''CLLRN-1-726f6f74-77'', iqNodeID = []\<rparr> = Inr demo_admitted"
  by code_simp

lemma demo_second_request:
  "join_request demo_joiner demo_join = Inr (demo_admitted, issued_material (hsX509 demo_joiner) demo_admitted [] ''key'' ''root'')"
proof -
  have "token_Parse (jnToken demo_join) = Inr \<lparr>ptCADigestPrefix = ''726f6f74'', ptSecret = ''77''\<rparr>"
    by code_simp
  moreover have "verifyCADigest (hsX509 demo_joiner) ''root'' ''726f6f74'' = None"
    by code_simp
  ultimately have "DownloadRootCA (hsX509 demo_joiner) (hsNet demo_joiner) (jnRemoteAddr demo_join) (jnToken demo_join) = Inr ''root''"
    by (simp add: DownloadRootCA_def) (simp add: demo_joiner_def demo_net_def)
  moreover have "GenerateKeyAndCSR (hsX509 demo_joiner) (hsMkReq demo_joiner) (hsKey demo_joiner) [] = Inr (''key'', ''csr'')"
    by code_simp
  moreover have "IssueWithToken (hsTls demo_joiner) (hsNet demo_joiner) a ''root'' (jnToken demo_join) ''csr'' = Inr demo_admitted" for a
    by (simp add: IssueWithToken_def ClientTLSFromPEMs_def demo_joiner_def demo_host_def demo_join_def demo_issued)
  ultimately show ?thesis by (simp add: join_request_def)
qed

lemma demo_second_joined: "snd (Join demo_joiner demo_start demo_join) = Inr \<lparr>jyNodeId = ''6b'', jyRole = RoleWorker, jyClusterId = []\<rparr>"
  unfolding Join_def demo_second_request by code_simp

lemma demo_second_node: "\<exists>d out. cli_join (local_control (demo_local_env demo_joiner)) (jnToken demo_join) [] [] [] ''10.0.0.1'' demo_start = (d, out, CliDone)"
proof -
  have "\<lparr>jnToken = jnToken demo_join, jnRemoteAddr = ''10.0.0.1'', jnListenAddr = [], jnRaftAddr = [], jnAdvertiseAddr = []\<rparr> = demo_join"
    and "jnToken demo_join \<noteq> []"
    by (simp_all add: demo_join_def)
  moreover obtain d where "Join demo_joiner demo_start demo_join = (d, Inr \<lparr>jyNodeId = ''6b'', jyRole = RoleWorker, jyClusterId = []\<rparr>)"
    using demo_second_joined by (metis prod.collapse)
  ultimately show ?thesis
    by (simp add: cli_join_def cli_call_def cli_dial_def local_control_def demo_local_env_def Let_def)
qed

lemma demo_first_init: "Init demo_host demo_start demo_init = (demo_first_manager, Inr
    \<lparr>iiClusterId = ''63'', iiNodeId = ''6e'', iiWorkerToken = ''CLLRN-1-726f6f74-77'',
     iiManagerToken = ''CLLRN-1-726f6f74-6d'', iiAdvertiseAddr = ''10.0.0.1:17946''\<rparr>)"
  using demo_init_reply by (simp add: prod_eq_iff demo_first_manager_def demo_start_def)

lemma demo_first_node:
  "\<exists>out. cli_init (local_control (demo_local_env demo_host)) ''10.0.0.1:17946'' [] [] demo_start = (demo_first_manager, out, CliDone)"
proof -
  have "\<lparr>inListenAddr = [], inRaftAddr = [], inAdvertiseAddr = ''10.0.0.1:17946'', inCertValidity = 0\<rparr> = demo_init"
    by (simp add: demo_init_def)
  with demo_first_init show ?thesis
    by (simp add: cli_init_def cli_call_def cli_dial_def local_control_def demo_local_env_def Let_def)
qed



theorem printed_key_lifetime_witness:
  "\<exists>k raw. authenticateAPIKey rev demo_key_raft (key_header raw) = Inr k"
proof -
  let ?env = "demo_local_env (demo_host\<lparr>hsNow := 7\<rparr>)" and ?d = "demo_start\<lparr>dnRaft := Some (demo_raft True NewFSM)\<rparr>"
  have "\<exists>out. cli_apikey_create (local_control ?env) ''ci'' ?d = (?d\<lparr>dnRaft := Some demo_key_raft\<rparr>, out, CliDone)"
    by (simp add: cli_apikey_create_def cli_call_def cli_dial_def local_control_def demo_local_env_def Let_def APIKeyCreate_def
        demo_key_created) (simp add: demo_raft_def IsLeader_def)
  then obtain out where run: "cli_apikey_create (local_control ?env) ''ci'' ?d = (?d\<lparr>dnRaft := Some demo_key_raft\<rparr>, out, CliDone)" by blast
  have rep: "replica (\<lambda>_ _. Inl ErrNotLeader) (rnFsm (demo_raft True NewFSM))"
    by (simp add: demo_raft_def replica.start)
  have facts: "dnRaft ?d = Some (demo_raft True NewFSM)" "leKeyBytes ?env = Inr demo_bytes" "length demo_bytes = keyBytes"
    "leKeyID ?env = Inr ''0123456789abcdef''" "leHash ?env = rev"
    "\<forall>k \<in> set (listAPIKeys (rnFsm (demo_raft True NewFSM))). kKeyHash k \<noteq> leHash ?env (key_Prefix @ hex_encode demo_bytes)"
    by (simp_all add: demo_local_env_def demo_bytes_def keyBytes_def demo_raft_def listAPIKeys_def NewFSM_def)
  from printed_key_lifetime [OF run facts(1) rep facts(2-4,6)] obtain s1 k raw where
    "dnRaft (?d\<lparr>dnRaft := Some demo_key_raft\<rparr>) = Some s1" "authenticateAPIKey (leHash ?env) s1 (key_header raw) = Inr k"
    by (elim exE conjE)
  with facts(5) show ?thesis by (intro exI) simp
qed

end
