(* ===== verification/Daemon_Run.thy ===== *)
theory Daemon_Run
  imports Cli_Sessions
begin

text \<open>
  A run of \<open>cellard\<close> from its start to its end (\<open>Run\<close> of \<open>internal/daemon/daemon.go\<close>): the calls
  on the local socket and the ticks of the loops one after the other in any order, then the
  shutdown. The ticks are those of \<open>heartbeatLoop\<close>, \<open>renewLoop\<close>, \<open>watchLeadership\<close>,
  \<open>evictionLoop\<close> and the agent's \<open>Run\<close>; a tick happens only while its loop's context lives.
\<close>

section \<open>The socket of the command line\<close>

definition DialLocal :: "platform \<Rightarrow> (string \<Rightarrow> string \<Rightarrow> 'c result) \<Rightarrow> string \<Rightarrow> 'c result" where
  "DialLocal pl dial socketPath =
     (case plAbs pl (or_string socketPath (DefaultSocketPath pl)) of
        Inl e \<Rightarrow> Inl (Wrapped [Lit ''resolve socket path: ''] e)
      | Inr a \<Rightarrow> dial (''unix://'' @ a) a)"

text \<open>With the same flag, or with none on either side, the commands dial the daemon's socket.\<close>

lemma DialLocal_finds_daemon:
  assumes "plAbs pl (or_string (cgSocketPath cfg) (DefaultSocketPath pl)) = Inr a"
  shows "DialLocal pl dial (cgSocketPath cfg) =
    dial (''unix://'' @ cgSocketPath (dnCfg (New pl dir raftDir cfg))) (cgSocketPath (dnCfg (New pl dir raftDir cfg)))"
  using assms by (simp add: DialLocal_def New_def New_config_def absolute_def)

section \<open>Ticks and calls\<close>

definition looping :: "cluster_loop \<Rightarrow> daemon \<Rightarrow> bool" where
  "looping l d \<longleftrightarrow> l \<in> set (dnLoops d)"

definition heartbeat_tick ::
  "host \<Rightarrow> json_codec \<Rightarrow> (string \<Rightarrow> heartbeat_request \<Rightarrow> heartbeat_response result) \<Rightarrow> daemon \<Rightarrow> daemon" where
  "heartbeat_tick h json remote d =
     (if looping HeartbeatLoop d then fst (sendHeartbeat h (hsCodec h) json (hsNow h) remote d) else d)"

definition renew_tick :: "host \<Rightarrow> daemon \<Rightarrow> daemon" where
  "renew_tick h d = (if looping RenewLoop d then renew_step h d else d)"

definition eviction_tick :: "ca_loader \<Rightarrow> gotime \<Rightarrow> leader_watch \<Rightarrow> daemon \<Rightarrow> daemon" where
  "eviction_tick load now w d =
     (if looping LeadershipLoop d \<and> lwEvicting w then put_nodes (runEviction load now (node_view d)) d else d)"

text \<open>An error of a pass of the agent is only logged.\<close>

definition agent_tick :: "agent_env \<Rightarrow> daemon \<Rightarrow> daemon" where
  "agent_tick env d =
     (case dnAgent d of
        None \<Rightarrow> d
      | Some a \<Rightarrow>
          if looping AgentLoop d then d\<lparr>dnAgent := Some (fst (agent_reconcile env (fetchAssignments d) a))\<rparr> else d)"

text \<open>
  A new leadership loop starts with its variables unset. \<open>OnReport\<close> is a status report of the agent,
  \<open>OnServed\<close> a write of a remote call.
\<close>

definition no_watch :: leader_watch where
  "no_watch = \<lparr>lwWasLeader = False, lwEvicting = False\<rparr>"

definition settle :: "leader_watch \<Rightarrow> daemon \<Rightarrow> leader_watch \<times> daemon" where
  "settle w d = (if looping LeadershipLoop d then w else no_watch, d)"

datatype 'doc daemon_event =
    OnCommand local_env "'doc cli_libs" cli_command
  | OnHeartbeat host json_codec "string \<Rightarrow> heartbeat_request \<Rightarrow> heartbeat_response result"
  | OnRenew host
  | OnWatch ca_loader
  | OnEvict ca_loader gotime
  | OnReconcile agent_env
  | OnReport ca_loader gotime "string \<Rightarrow> status_request \<Rightarrow> unit result" string int sb_status
  | OnServed control

definition run_event :: "'doc daemon_event \<Rightarrow> leader_watch \<times> daemon \<Rightarrow> leader_watch \<times> daemon" where
  "run_event ev wd =
     (case wd of (w, d) \<Rightarrow>
        (case ev of
           OnCommand env lb cmd \<Rightarrow> settle w (if dnLocal d then fst (run_command lb (local_control env) cmd d) else d)
         | OnHeartbeat h json remote \<Rightarrow> settle w (heartbeat_tick h json remote d)
         | OnRenew h \<Rightarrow> settle w (renew_tick h d)
         | OnWatch load \<Rightarrow> if looping LeadershipLoop d then watch_tick load (w, d) else (w, d)
         | OnEvict load now \<Rightarrow> (w, eviction_tick load now w d)
         | OnReconcile env \<Rightarrow> (w, agent_tick env d)
         | OnReport load now remote i g st \<Rightarrow> (w, fst (reportSandboxStatus load now remote d i g st))
         | OnServed c \<Rightarrow> (w, if dnRemote d \<noteq> None \<and> dnRaft d \<noteq> None \<and> dnQuarantine d \<noteq> None then put_control c d else d)))"

definition before_shutdown :: "host \<Rightarrow> 'doc daemon_event list \<Rightarrow> daemon \<Rightarrow> daemon" where
  "before_shutdown h evs d = snd (fold run_event evs (no_watch, fst (Run_start h d)))"

text \<open>Each run ends with an error: that of its start, or that its context is done.\<close>

definition daemon_Run :: "host \<Rightarrow> 'doc daemon_event list \<Rightarrow> daemon \<Rightarrow> daemon \<times> go_error" where
  "daemon_Run h evs d =
     (case Run_start h d of
        (d1, Some e) \<Rightarrow> (d1, e)
      | (d1, None) \<Rightarrow> (shutdown (before_shutdown h evs d), ContextCanceled))"

section \<open>A run stays in the state machine\<close>

lemma settle_snd [simp]: "snd (settle w d) = d"
  by (simp add: settle_def)

lemma put_control_reachable:
  "reachable d \<Longrightarrow> dnRaft d \<noteq> None \<Longrightarrow> dnQuarantine d \<noteq> None \<Longrightarrow> reachable (put_control c d)"
  by (rule reachable.step [OF _ daemon_step.sandbox_write])

lemma runEviction_same_shape: "same_shape nd (runEviction load now nd)"
proof (cases "ndRaft nd")
  case None
  then show ?thesis by (simp add: runEviction_def same_shape_def)
next
  case (Some r)
  with runEviction_shape(1) [OF Some, of load now] runEviction_shape(2) [of load now nd] show ?thesis
    by (auto simp: same_shape_def)
qed

lemma agent_tick_reachable: "reachable d \<Longrightarrow> reachable (agent_tick env d)"
  by (auto simp: agent_tick_def intro: reachable.step [OF _ daemon_step.agent_moves] split: option.split)

lemma tick_reachable:
  assumes "reachable d"
  shows "reachable (heartbeat_tick h json remote d)" "reachable (renew_tick h d)" "reachable (eviction_tick load now w d)"
    "reachable (snd (watch_tick load (w, d)))" "reachable (fst (reportSandboxStatus load now rep d i g st))"
  using assms reachable.step [OF assms daemon_step.heartbeat] reachable.step [OF assms daemon_step.renewal]
    reachable.step [OF assms daemon_step.watch] reachable.step [OF assms daemon_step.report]
    put_nodes_reachable [OF assms runEviction_same_shape]
  by (simp_all add: heartbeat_tick_def renew_tick_def eviction_tick_def)

lemma run_event_reachable:
  assumes "reachable d"
  shows "reachable (snd (run_event ev (w, d)))"
proof (cases ev)
  case (OnCommand env lb cmd)
  then show ?thesis using assms served.command_keeps [OF assms, of lb env cmd] by (simp add: run_event_def)
qed (simp_all add: run_event_def assms tick_reachable agent_tick_reachable put_control_reachable)

lemma events_reachable: "reachable (snd wd) \<Longrightarrow> reachable (snd (fold run_event evs wd))"
proof (induction evs arbitrary: wd)
  case (Cons ev evs)
  then show ?case using run_event_reachable [of "snd wd" ev "fst wd"] by simp
qed simp

lemma before_shutdown_reachable: "reachable (before_shutdown h evs (New pl dir raftDir cfg))"
  unfolding before_shutdown_def by (intro events_reachable) (simp add: reachable.start)

section \<open>What a run leaves behind\<close>

definition runs_nothing :: "daemon \<Rightarrow> bool" where
  "runs_nothing d \<longleftrightarrow> \<not> dnLocal d \<and> dnRemote d = None \<and> dnRaft d = None \<and> dnAgent d = None \<and> \<not> dnDriver d \<and>
     \<not> dnCluster d \<and> dnLoops d = []"

definition torn_down :: "string \<Rightarrow> agent_action list \<Rightarrow> bool" where
  "torn_down i acts \<longleftrightarrow> sublist [AStop i 5, ARemove i] acts"

lemma teardown_actions:
  "agActions (fold (\<lambda>i b. act (ARemove i) (act (AStop i 5) b)) is b) =
     agActions b @ concat (map (\<lambda>i. [AStop i 5, ARemove i]) is)"
  by (induction "is" arbitrary: b) (simp_all add: act_def)

lemma torn_down_append: "torn_down i b \<Longrightarrow> torn_down i (a @ b)"
  by (simp add: torn_down_def printed(3))

lemma TeardownLocal_all:
  assumes "i \<in> set (agLocal a)"
  shows "torn_down i (agActions (TeardownLocal a))"
proof -
  obtain xs ys where "agLocal a = xs @ i # ys" using split_list [OF assms] by blast
  then have "agActions (TeardownLocal a) = (agActions a @ concat (map (\<lambda>i. [AStop i 5, ARemove i]) xs)) @
      ([AStop i 5, ARemove i] @ concat (map (\<lambda>i. [AStop i 5, ARemove i]) ys))"
    unfolding TeardownLocal_def teardown_actions by simp
  then show ?thesis
    by (simp only: torn_down_def) (rule printed(3), rule printed(1))
qed

lemma shutdown_runs_nothing: "runs_nothing (shutdown d)"
  by (simp add: runs_nothing_def shutdown_def)

lemma shutdown_tears_down: "dnAgent d = Some a \<Longrightarrow> i \<in> set (agLocal a) \<Longrightarrow> torn_down i (dnTeardown (shutdown d))"
  by (simp add: shutdown_def torn_down_append TeardownLocal_all)

lemma failed_start_runs_nothing: "Run_start h (New pl dir raftDir cfg) = (d', Some e) \<Longrightarrow> runs_nothing d'"
  by (auto simp: Run_start_def New_def runs_nothing_def Let_def split: prod.splits option.splits if_splits)


section \<open>A restart\<close>

lemma resumeManager_id: "dnId (fst (resumeManager h d state)) = dnId d"
proof -
  have keep: "dnId (fst (start_services h listen d1)) = dnId d1" for listen d1
    using start_services_keeps [of h listen d1] by (metis prod.collapse)
  have sign: "dnId (fst (signer_update load d1)) = dnId d1" for load d1
    using signer_update_keeps [of load d1] by (metis prod.collapse daemon.select_convs(2) daemon.update_convs(4) daemon.surjective)
  show ?thesis
    by (auto simp: resumeManager_def open_raft_def Let_def keep sign start_loop_def manager_servers_def split: sum.split)
qed

lemma Run_start_loaded:
  assumes "id_Load (hsX509 h) (hsCodec h) (hsOs h) (dnId d) = (st, None)" and "hsListenLocal h = None"
  shows "\<exists>d'. Run_start h d = (d', None) \<and> dnId d' = st"
proof -
  have "dnId (fst (start_services h listen d1)) = dnId d1" for listen d1
    using start_services_keeps [of h listen d1] by (metis prod.collapse)
  then have "dnId (fst (resumeWorker h d1 state)) = dnId d1" for d1 state
    by (simp add: resumeWorker_def start_loop_def)
  with assms show ?thesis
    by (simp add: Run_start_def Let_def resumeManager_id ensureClusterCtx_def)
qed

text \<open>What the identity a successful \<open>Init\<close> saved looks like.\<close>

lemma Init_saved:
  assumes "Init h d req = (d', Inr rep)"
  obtains mat st where "id_Save (hsCodec h) (hsOs h) (dnId d) mat st = (dnId d', None)" "node_material d' = Some mat"
    "isState (dnId d') = saved_state mat st" "mtRole mat = RoleManager" "mtNodeID mat = iiNodeId rep"
    "mtClusterID mat = iiClusterId rep" "dsAdvertiseAddr st = iiAdvertiseAddr rep"
proof -
  obtain nc rs rs1 pair where nc: "init_material h (dnCfg d) req = Inr nc"
    and "CreateCluster (hs_load h) (hsNow h) rs \<lparr>cfClusterID = mtClusterID (ncMaterial nc), cfCertValidity = ncValidity nc,
      cfRootCA = Some (ncRoot nc), cfJoinSecrets = ncSecrets nc\<rparr> = (rs1, None)"
    and "FormatPair (raDigestPrefix (ncRoot nc)) (ncSecrets nc) = Inr pair"
    and rep: "rep = \<lparr>iiClusterId = mtClusterID (ncMaterial nc), iiNodeId = mtNodeID (ncMaterial nc),
      iiWorkerToken = pairWorker pair, iiManagerToken = pairManager pair, iiAdvertiseAddr = dsAdvertiseAddr (ncState nc)\<rparr>"
    and "dnRaft d' = Some (fst (SaveNode (hs_load h) rs1 (Some (first_node (ncMaterial nc)))))"
    and mat: "node_material d' = Some (ncMaterial nc)" and "dnRemote d' \<noteq> None"
    by (rule Init_run [OF assms])
  have free: "\<not> HasIdentity (dnId d)" using assms by (auto simp: Init_def)
  obtain st e where saved: "id_Save (hsCodec h) (hsOs h) (dnId d) (ncMaterial nc) (ncState nc) = (st, e)" by fastforce
  then have "e = None" using assms by (cases e) (simp_all add: Init_def Let_def free nc)
  with saved have save: "id_Save (hsCodec h) (hsOs h) (dnId d) (ncMaterial nc) (ncState nc) = (st, None)" by simp
  have st: "dnId d' = st" using Init_after_save [OF free nc save] by (simp add: assms)
  show thesis
  proof (rule that)
    show "id_Save (hsCodec h) (hsOs h) (dnId d) (ncMaterial nc) (ncState nc) = (dnId d', None)" using save st by simp
    show "node_material d' = Some (ncMaterial nc)" by (rule mat)
    show "isState (dnId d') = saved_state (ncMaterial nc) (ncState nc)" using id_Save_state [OF save] st by simp
    show "mtRole (ncMaterial nc) = RoleManager" by (rule init_material_Inr(1) [OF nc])
  qed (simp_all add: rep)
qed

text \<open>What the next process loads from the directory of a node that formed a cluster.\<close>

lemma Init_boots:
  assumes "Init h d req = (d', Inr rep)" and "os_fresh (hsOs h)" and "os_reads os"
    and "icDecode codec zero_daemon_state (projr (icState (hsCodec h) (isState (dnId d')))) = isState (dnId d')"
    and "node_material d' = Some mat" and "leaf_certificate lib (mtCertificate mat) = Inr cert"
    and "mtNotBefore mat = xcNotBefore cert" and "mtNotAfter mat = xcNotAfter cert" and "iiNodeId rep \<noteq> []"
  shows "boot lib codec os (isDir (dnId d')) = (\<lparr>isDir = isDir (dnId d'), isMat = Some mat, isState = isState (dnId d')\<rparr>, None)"
    and "mtNodeID mat = iiNodeId rep" and "mtClusterID mat = iiClusterId rep" and "mtRole mat = RoleManager"
    and "dsRole (isState (dnId d')) = RoleManager" and "dsClusterID (isState (dnId d')) = iiClusterId rep"
    and "dsAdvertiseAddr (isState (dnId d')) = iiAdvertiseAddr rep"
proof -
  obtain m st where save: "id_Save (hsCodec h) (hsOs h) (dnId d) m st = (dnId d', None)" and m: "node_material d' = Some m"
    and state: "isState (dnId d') = saved_state m st" and role: "mtRole m = RoleManager" and ids: "mtNodeID m = iiNodeId rep"
      "mtClusterID m = iiClusterId rep" "dsAdvertiseAddr st = iiAdvertiseAddr rep"
    by (rule Init_saved [OF assms(1)])
  have mat: "m = mat" using m assms(5) by simp
  show "mtNodeID mat = iiNodeId rep" "mtClusterID mat = iiClusterId rep" "mtRole mat = RoleManager"
    using ids role mat by simp_all
  show fields: "dsRole (isState (dnId d')) = RoleManager" "dsClusterID (isState (dnId d')) = iiClusterId rep"
    "dsAdvertiseAddr (isState (dnId d')) = iiAdvertiseAddr rep"
    using ids role state by (simp_all add: saved_state_def)
  have "dsNodeID (isState (dnId d')) = iiNodeId rep" using ids state by (simp add: saved_state_def)
  then show "boot lib codec os (isDir (dnId d')) = (\<lparr>isDir = isDir (dnId d'), isMat = Some mat, isState = isState (dnId d')\<rparr>, None)"
    using boot_identity [OF assms(3) saved_files [OF assms(2) save] assms(6) [folded mat] assms(4) [unfolded state]]
      fields assms(7-9) role ids mat state by simp
qed

text \<open>
  Claim C16: a node that formed a cluster and was stopped is that node again: the next process on
  its directory starts, has the same certificate and key, reports the node, cluster and address
  that \<open>Init\<close> replied, with the manager's role, and cannot form or join another cluster. It must
  be able to read and parse what the first wrote.
\<close>

theorem restart_resumes:
  assumes "Init h d req = (d', Inr rep)" and "os_fresh (hsOs h)" and "os_reads (hsOs h')" and "hsListenLocal h' = None"
    and "icDecode (hsCodec h') zero_daemon_state (projr (icState (hsCodec h) (isState (dnId d')))) = isState (dnId d')"
    and "node_material d' = Some mat" and "leaf_certificate (hsX509 h') (mtCertificate mat) = Inr cert"
    and "mtNotBefore mat = xcNotBefore cert" and "mtNotAfter mat = xcNotAfter cert"
    and "iiNodeId rep \<noteq> []" and "iiClusterId rep \<noteq> []"
  shows "\<exists>d''. Run_start h' (New pl (isDir (dnId (shutdown d'))) raftDir cfg) = (d'', None) \<and> node_material d'' = Some mat \<and>
    suNodeId (daemon_Status d'') = iiNodeId rep \<and> suClusterId (daemon_Status d'') = iiClusterId rep \<and>
    suAdvertiseAddr (daemon_Status d'') = iiAdvertiseAddr rep \<and> suRole (daemon_Status d'') = RoleManager \<and>
    (\<forall>h2 ireq jreq. \<not> is_ok (snd (Init h2 d'' ireq)) \<and> \<not> is_ok (snd (Join h2 d'' jreq)))"
proof -
  note boots = Init_boots [OF assms(1-3,5-10)]
  let ?st = "\<lparr>isDir = isDir (dnId d'), isMat = Some mat, isState = isState (dnId d')\<rparr>"
  have "id_Load (hsX509 h') (hsCodec h') (hsOs h') (dnId (New pl (isDir (dnId (shutdown d'))) raftDir cfg)) = (?st, None)"
    using boots(1) by (simp add: boot_def New_def shutdown_def)
  from Run_start_loaded [OF this assms(4)] obtain d'' where
    run: "Run_start h' (New pl (isDir (dnId (shutdown d'))) raftDir cfg) = (d'', None)" and id: "dnId d'' = ?st" by blast
  have "\<not> is_ok (snd (Init h2 d'' ireq)) \<and> \<not> is_ok (snd (Join h2 d'' jreq))" for h2 ireq jreq
    using member_refused [of d''] by (simp add: HasIdentity_def id)
  with run show ?thesis
    using boots(2-) assms(11) by (intro exI [of _ d'']) (simp add: daemon_Status_def node_material_def id Let_def)
qed

section \<open>Two runs on one directory\<close>

definition demo_libs :: "unit cli_libs" where
  "demo_libs = \<lparr>lbJson = demo_json, lbList = \<lparr>leAlign = id, leMarshal = \<lambda>_. Inr [], leArray = \<lambda>_. Inr [], leDocs = \<lambda>_. Inr [()], leYaml = \<lambda>_. Inr []\<rparr>,
     lbChunk = \<lambda>_. [], lbAlign = id, lbTime = \<lambda>_. []\<rparr>"

definition demo_events :: "unit daemon_event list" where
  "demo_events = [OnCommand (demo_local_env demo_host) demo_libs (CmdInit ''10.0.0.1:17946'' [] []),
     OnWatch (\<lambda>_ _. Inl ErrNotLeader), OnEvict (\<lambda>_ _. Inl ErrNotLeader) 0]"


definition demo_again :: host where
  "demo_again = demo_host\<lparr>hsCodec := demo_id_codec\<lparr>icDecode := (\<lambda>_ _. isState (dnId demo_first_manager))\<rparr>,
     hsX509 := (demo_lib\<lparr>xPemDecode := (\<lambda>p. Some (''CERTIFICATE'', p)),
       xParseCertificate := (\<lambda>b. case node_material demo_first_manager of
          None \<Rightarrow> Inl ErrNotLeader
        | Some m \<Rightarrow> Inr \<lparr>xcSubject = \<lparr>certCN = ''6e'', certOUs = []\<rparr>, xcNotBefore = mtNotBefore m, xcNotAfter = mtNotAfter m, xcRaw = b\<rparr>)\<rparr>)\<rparr>"

theorem restart_resumes_witness:
  "\<exists>d''. Run_start demo_again (New demo_platform (isDir (dnId (shutdown demo_first_manager))) True
      \<lparr>cgDataDir = ''/d'', cgSocketPath = ''/s'', cgListenAddr = [], cgRaftAddr = []\<rparr>) = (d'', None) \<and>
    suNodeId (daemon_Status d'') = ''6e''"
proof -
  have "node_material demo_first_manager \<noteq> None" by code_simp
  then obtain mat where mat: "node_material demo_first_manager = Some mat" by blast
  have leaf: "leaf_certificate (hsX509 demo_again) (mtCertificate mat) =
      Inr \<lparr>xcSubject = \<lparr>certCN = ''6e'', certOUs = []\<rparr>, xcNotBefore = mtNotBefore mat, xcNotAfter = mtNotAfter mat, xcRaw = mtCertificate mat\<rparr>"
    by (simp add: leaf_certificate_def demo_again_def mat)
  have host: "os_fresh (hsOs demo_host)" "os_reads (hsOs demo_again)" "hsListenLocal demo_again = None"
    "icDecode (hsCodec demo_again) zero_daemon_state (projr (icState (hsCodec demo_host) (isState (dnId demo_first_manager)))) =
      isState (dnId demo_first_manager)"
    by (simp_all add: demo_host_def demo_again_def os_demo_fresh os_reads_ok)
  from restart_resumes [OF demo_first_init host mat leaf, of demo_platform True
      "\<lparr>cgDataDir = ''/d'', cgSocketPath = ''/s'', cgListenAddr = [], cgRaftAddr = []\<rparr>"] show ?thesis by auto
qed

end
