(* ===== verification/Eviction_Pass.thy ===== *)
theory Eviction_Pass
  imports Node_Admin
begin

text \<open>
  What one pass of \<open>runEviction\<close> (\<open>internal/daemon/evict.go\<close>) does to the replicated state: the
  plan of \<open>Vacate\<close>, saved decision by decision, and its effect on the reports of the node that
  lost a sandbox.
\<close>

section \<open>What an eviction pass does\<close>

lemma SaveSandbox_succeeds:
  assumes "IsLeader s" and "rnOutcomes s = []" and "sbID sb \<noteq> []" and "sbName sb \<noteq> []"
    and "gm_get (fsSandboxNames (rnFsm s)) (sbName sb) = Some (sbID sb)"
  shows "snd (SaveSandbox load s (Some sb)) = None"
proof -
  have "effective_name sb = sbName sb"
    using assms(4) by (simp add: effective_name_def)
  with assms have "snd (applySaveSandbox (rnFsm s) (Object (no_fields\<lparr>jSandbox := Given (sandbox_image sb)\<rparr>))) = None"
    by (simp add: applySaveSandbox_def payload_defs Let_def)
  with assms show ?thesis
    by (simp add: SaveSandbox_def leader_simps store_apply_def fsm_step_rn Apply_ops)
qed

definition steady :: "ca_loader \<Rightarrow> raft_node \<Rightarrow> bool" where
  "steady load s \<longleftrightarrow> IsLeader s \<and> rnOutcomes s = [] \<and> replica load (rnFsm s)"

lemma SaveSandbox_steady: "steady load s \<Longrightarrow> steady load (fst (SaveSandbox load s sb))"
  by (auto simp: steady_def SaveSandbox_replica) (auto simp: SaveSandbox_def leader_simps IsLeader_def store_apply_def
      fsm_step_rn(3) fsm_step_def case_prod_beta split: option.split)

lemma Contains_mark: "n \<noteq> [] \<Longrightarrow> Contains (MarkEvicted q n) n" "Contains q k \<Longrightarrow> Contains (MarkEvicted q n) k"
  by (auto simp: Contains_def MarkEvicted_def gm_has_def split: if_splits)

definition marks_held :: "quarantine \<Rightarrow> id_set \<Rightarrow> bool" where
  "marks_held q m \<longleftrightarrow> (\<forall>n \<in> set m. Contains q n)"

lemma evict_save_step:
  assumes "evict_save load dec (s, q, m) = (s', q', m')" and "steady load s"
  shows "steady load s'"
    and "sandbox_table s' j = sandbox_table s j \<or>
         j = sbID (edSandbox dec) \<and> sandbox_table s' j = Some (stored_sandbox (edSandbox dec))"
    and "Contains q k \<Longrightarrow> Contains q' k"
    and "marks_held q m \<Longrightarrow> edSourceNodeID dec \<noteq> [] \<Longrightarrow> marks_held q' m'"
proof -
  obtain s1 e where save: "SaveSandbox load s (Some (edSandbox dec)) = (s1, e)" by fastforce
  have s': "s' = s1"
    using assms(1) save by (auto simp: evict_save_def split: option.splits if_splits)
  show "steady load s'"
    using SaveSandbox_steady [OF assms(2), of "Some (edSandbox dec)"] save s' by simp
  show "sandbox_table s' j = sandbox_table s j \<or>
      j = sbID (edSandbox dec) \<and> sandbox_table s' j = Some (stored_sandbox (edSandbox dec))"
    using sandboxes_db.save_any [of load s "edSandbox dec"] save s' by (auto split: if_splits)
  show "Contains q k \<Longrightarrow> Contains q' k"
    using assms(1) save by (auto simp: evict_save_def Contains_mark split: option.splits if_splits)
  show "marks_held q m \<Longrightarrow> edSourceNodeID dec \<noteq> [] \<Longrightarrow> marks_held q' m'"
    using assms(1) save by (auto simp: evict_save_def marks_held_def Contains_mark split: option.splits if_splits)
qed

lemma evict_save_own:
  assumes "evict_save load dec (s, q, m) = (s', q', m')" and "steady load s" and "marks_held q m"
    and "sandbox_table s (sbID (edSandbox dec)) = Some r" and "sbName r = sbName (edSandbox dec)" and "sbName r \<noteq> []"
    and "edSourceNodeID dec \<noteq> []"
  shows "sandbox_table s' (sbID (edSandbox dec)) = Some (stored_sandbox (edSandbox dec))"
    and "edReason dec = ReasonHeartbeat \<Longrightarrow> Contains q' (edSourceNodeID dec)"
proof -
  let ?sb = "edSandbox dec"
  have rep: "replica load (rnFsm s)" using assms(2) by (simp add: steady_def)
  have "sbID ?sb \<noteq> []"
    using replica_keyed [OF rep] assms(4) by (auto simp: fsm_keyed_def keyed_def)
  moreover have "gm_get (fsSandboxNames (rnFsm s)) (sbName ?sb) = Some (sbID ?sb)"
    using names_okD [OF replica_names_ok [OF rep] assms(4,6)] assms(5) by simp
  ultimately have ok: "snd (SaveSandbox load s (Some ?sb)) = None"
    using assms(2,5,6) by (intro SaveSandbox_succeeds) (auto simp: steady_def)
  then obtain s1 where save: "SaveSandbox load s (Some ?sb) = (s1, None)"
    by (metis prod.collapse)
  show "sandbox_table s' (sbID ?sb) = Some (stored_sandbox ?sb)"
    using sandboxes_db.save_lookup [OF ok] save assms(1) by (auto simp: evict_save_def split: if_splits)
  show "edReason dec = ReasonHeartbeat \<Longrightarrow> Contains q' (edSourceNodeID dec)"
    using save assms(1,3,7) by (auto simp: evict_save_def marks_held_def Contains_mark split: if_splits)
qed

text \<open>The whole pass, for one sandbox: all its decisions in the plan are saved, the last one stays.\<close>

definition saved_decision :: "evict_decision list \<Rightarrow> string \<Rightarrow> raft_node \<Rightarrow> quarantine \<Rightarrow> bool" where
  "saved_decision ds i s q \<longleftrightarrow> (\<exists>dec \<in> set ds. sbID (edSandbox dec) = i \<and>
     sandbox_table s i = Some (stored_sandbox (edSandbox dec)) \<and>
     (edReason dec = ReasonHeartbeat \<longrightarrow> Contains q (edSourceNodeID dec)))"

lemma evict_fold:
  assumes "fold (evict_save load) ds (s, q, m) = (s', q', m')" and "steady load s" and "marks_held q m"
    and "\<And>dec. dec \<in> set ds \<Longrightarrow> edSourceNodeID dec \<noteq> []"
    and "\<And>dec. dec \<in> set ds \<Longrightarrow> sbID (edSandbox dec) = i \<Longrightarrow> sbName (edSandbox dec) = nm"
    and "sandbox_table s i = Some r" and "sbName r = nm" and "nm \<noteq> []"
  shows "steady load s' \<and> (\<forall>k. Contains q k \<longrightarrow> Contains q' k) \<and>
    (sandbox_table s' i = sandbox_table s i \<and> (\<forall>dec \<in> set ds. sbID (edSandbox dec) \<noteq> i) \<or> saved_decision ds i s' q')"
  using assms
proof (induction ds arbitrary: s q m r)
  case Nil
  then show ?case by simp
next
  case (Cons dec ds)
  obtain s1 q1 m1 where one: "evict_save load dec (s, q, m) = (s1, q1, m1)" by (cases rule: prod_cases3) auto
  note step = evict_save_step [OF one Cons.prems(2)]
  have rest: "fold (evict_save load) ds (s1, q1, m1) = (s', q', m')"
    using Cons.prems(1) one by simp
  have m1: "marks_held q1 m1"
    using step(4) Cons.prems(3,4) by simp
  have src: "\<And>dec. dec \<in> set ds \<Longrightarrow> edSourceNodeID dec \<noteq> []"
    and nm: "\<And>dec. dec \<in> set ds \<Longrightarrow> sbID (edSandbox dec) = i \<Longrightarrow> sbName (edSandbox dec) = nm"
    using Cons.prems(4,5) by auto
  show ?case
  proof (cases "sbID (edSandbox dec) = i")
    case True
    have name: "sbName (edSandbox dec) = nm"
      using Cons.prems(5) True by simp
    note own = evict_save_own [OF one Cons.prems(2,3), of r]
    have at: "sandbox_table s1 i = Some (stored_sandbox (edSandbox dec))"
      "edReason dec = ReasonHeartbeat \<Longrightarrow> Contains q1 (edSourceNodeID dec)"
      using own Cons.prems(4,6-8) name True by auto
    have "sbName (stored_sandbox (edSandbox dec)) = nm"
      using name Cons.prems(8) by (simp add: stored_sandbox_def CloneSandbox_keeps effective_name_def)
    from Cons.IH [OF rest step(1) m1 src nm at(1) this Cons.prems(8)]
    have "steady load s' \<and> (\<forall>k. Contains q1 k \<longrightarrow> Contains q' k) \<and>
      (sandbox_table s' i = sandbox_table s1 i \<or> saved_decision ds i s' q')" by blast
    then show ?thesis
      unfolding saved_decision_def using at True step(3) by (metis list.set_intros(1,2))
  next
    case False
    then have same: "sandbox_table s1 i = sandbox_table s i"
      using step(2) [of i] by auto
    have "steady load s' \<and> (\<forall>k. Contains q1 k \<longrightarrow> Contains q' k) \<and>
      (sandbox_table s' i = sandbox_table s1 i \<and> (\<forall>dec \<in> set ds. sbID (edSandbox dec) \<noteq> i) \<or> saved_decision ds i s' q')"
      using Cons.prems(6) same by (intro Cons.IH [OF rest step(1) m1 src nm _ Cons.prems(7,8)]) simp_all
    then show ?thesis
      unfolding saved_decision_def using same False step(3) by (metis list.set_intros(2) set_ConsD)
  qed
qed

section \<open>An evacuated sandbox\<close>

lemma plan_input_list:
  assumes "replica load (rnFsm s)" and "\<forall>sb \<in> set (listSandboxes (rnFsm s)). sandbox_wf sb"
    and "int (length (listSandboxes (rnFsm s))) < max_int64"
  shows "plan_input (listSandboxes (rnFsm s))"
proof -
  have "keyed sbID (fsSandboxes (rnFsm s))"
    using replica_keyed [OF assms(1)] by (simp add: fsm_keyed_def)
  from keyed_distinct [OF this] have "distinct (map sbID (listSandboxes (rnFsm s)))"
    by (simp add: listSandboxes_def comp_def case_prod_unfold CloneSandbox_keeps)
  with assms(2,3) show ?thesis by (simp add: plan_input_def)
qed

lemma listSandboxes_get:
  assumes "replica load (rnFsm s)"
  shows "sb \<in> set (listSandboxes (rnFsm s)) \<and> sbID sb = i \<longleftrightarrow> GetSandbox s i = Inr sb"
proof -
  have "gm_wf (fsSandboxes (rnFsm s))" "\<And>k r. gm_get (fsSandboxes (rnFsm s)) k = Some r \<Longrightarrow> sbID r = k"
    using replica_keyed [OF assms] by (auto simp: fsm_keyed_def keyed_def)
  then show ?thesis
    by (force simp: GetSandbox_Inr listSandboxes_def CloneSandbox_keeps gm_get_mem)
qed

lemma runEviction_run:
  assumes "ndRaft d = Some s" and "ndQuarantine d = Some q" and "IsLeader s"
  obtains s' q' m' where "fold (evict_save load) (PlanVacate (listNodes (rnFsm s)) (listSandboxes (rnFsm s)) now (Excluded q)) (s, q, [])
      = (s', q', m')" and "runEviction load now d = d\<lparr>ndRaft := Some s', ndQuarantine := Some q'\<rparr>"
proof -
  obtain s' q' m' where "fold (evict_save load) (PlanVacate (listNodes (rnFsm s)) (listSandboxes (rnFsm s)) now (Excluded q)) (s, q, [])
      = (s', q', m')" by (cases rule: prod_cases3) auto
  then show thesis
    using assms by (intro that) (auto simp: runEviction_def ListNodes_def ListSandboxes_def)
qed

text \<open>What the plan decides about a sandbox that must move, and what the pass then stores for it.\<close>

lemma decided_move:
  assumes "replica load (rnFsm s)" and "plan_input (listSandboxes (rnFsm s))" and "GetSandbox s i = Inr sb"
    and "\<not> HasHostMounts (sbSpec sb)" and "classifyVacate (nodes_by_id [] (listNodes (rnFsm s))) (sbNodeID sb) now = Some reason"
    and "dec \<in> set (PlanVacate (listNodes (rnFsm s)) (listSandboxes (rnFsm s)) now excl)"
  shows "edSourceNodeID dec \<noteq> [] \<and> (sbID (edSandbox dec) = i \<longrightarrow> edSourceNodeID dec = sbNodeID sb \<and> edReason dec = reason \<and>
    (\<exists>n \<in> set (listNodes (rnFsm s)). candidate (sbNodeID sb # excl) n \<and> IsNodeLive n now \<and>
      edSandbox dec = move_sandbox reason (sbNodeID sb) (nID n) now sb))"
proof -
  obtain r w where r: "r \<in> set (listSandboxes (rnFsm s))" "int (length w) < max_int64"
      "decides (listNodes (rnFsm s)) now excl w r = Some dec"
    using PlanVacate_decides [OF assms(2,6)] by blast
  note facts = decides_Some [OF r(3,2)]
  have "sbID (edSandbox dec) = sbID r"
    using facts by (auto simp: move_sandbox_def fail_mount_def split: if_splits)
  then have "r = sb" if "sbID (edSandbox dec) = i"
    using that r(1) listSandboxes_get [OF assms(1), of r i] assms(3) by simp
  with facts assms(4,5) show ?thesis by auto
qed

lemma pass_stores_move:
  assumes "ndRaft d = Some s" and "ndQuarantine d = Some q" and "steady load s" and "plan_input (listSandboxes (rnFsm s))"
    and "GetSandbox s i = Inr sb" and "sbDesired sb = DesiredRunning" and "sbNodeID sb \<noteq> []" and "sbName sb \<noteq> []"
    and "\<not> HasHostMounts (sbSpec sb)"
    and "classifyVacate (nodes_by_id [] (listNodes (rnFsm s))) (sbNodeID sb) now = Some reason"
    and "HasLiveSchedulableNode (listNodes (rnFsm s)) now (sbNodeID sb # Excluded q)"
  shows "\<exists>s' q' n. runEviction load now d = d\<lparr>ndRaft := Some s', ndQuarantine := Some q'\<rparr> \<and> IsLeader s' \<and>
    n \<in> set (listNodes (rnFsm s)) \<and> candidate (sbNodeID sb # Excluded q) n \<and> IsNodeLive n now \<and>
    GetSandbox s' i = Inr (CloneSandbox (stored_sandbox (move_sandbox reason (sbNodeID sb) (nID n) now sb))) \<and>
    (reason = ReasonHeartbeat \<longrightarrow> Contains q' (sbNodeID sb))"
proof -
  have rep: "replica load (rnFsm s)" and lead: "IsLeader s"
    using assms(3) by (simp_all add: steady_def)
  let ?plan = "PlanVacate (listNodes (rnFsm s)) (listSandboxes (rnFsm s)) now (Excluded q)"
  note decided = decided_move [OF rep assms(4,5,9,10)]
  have sb: "sb \<in> set (listSandboxes (rnFsm s))" "sbID sb = i"
    using listSandboxes_get [OF rep, of sb i] assms(5) by simp_all
  obtain dec where dec: "dec \<in> set ?plan" "sbID (edSandbox dec) = i"
    using PlanVacate_contains [OF assms(4) sb(1)] decides_movable [OF assms(6,7,10,9,11)] sb(2) by blast
  obtain s' q' m' where fold: "fold (evict_save load) ?plan (s, q, []) = (s', q', m')"
    and run: "runEviction load now d = d\<lparr>ndRaft := Some s', ndQuarantine := Some q'\<rparr>"
    using runEviction_run [OF assms(1,2) lead] by blast
  obtain r where r: "sandbox_table s i = Some r" "sb = CloneSandbox r"
    using assms(5) by (auto simp: GetSandbox_Inr)
  have "sbName (edSandbox e) = sbName sb" if "e \<in> set ?plan" "sbID (edSandbox e) = i" for e
    using decided [OF that(1)] that(2) by (auto simp: move_sandbox_def)
  moreover have "marks_held q []" and "sbName r = sbName sb"
    using r(2) by (simp_all add: marks_held_def CloneSandbox_keeps)
  ultimately have "steady load s' \<and> saved_decision ?plan i s' q'"
    using evict_fold [OF fold assms(3) _ _ _ r(1) _ assms(8)] decided dec by blast
  then obtain e where e: "e \<in> set ?plan" "sbID (edSandbox e) = i" "sandbox_table s' i = Some (stored_sandbox (edSandbox e))"
      "edReason e = ReasonHeartbeat \<longrightarrow> Contains q' (edSourceNodeID e)" and "IsLeader s'"
    by (auto simp: saved_decision_def steady_def)
  moreover obtain n where n: "n \<in> set (listNodes (rnFsm s))" "candidate (sbNodeID sb # Excluded q) n" "IsNodeLive n now"
      "edSandbox e = move_sandbox reason (sbNodeID sb) (nID n) now sb" and "edSourceNodeID e = sbNodeID sb" "edReason e = reason"
    using decided [OF e(1)] e(2) by blast
  moreover have "GetSandbox s' i = Inr (CloneSandbox (stored_sandbox (move_sandbox reason (sbNodeID sb) (nID n) now sb)))"
    using e(3) n(4) by (simp add: GetSandbox_table)
  ultimately show ?thesis
    using run e(4) by (intro exI [of _ s'] exI [of _ q'] exI [of _ n]) simp
qed

text \<open>
  Claim C2: evacuation works end to end: when a leader whose log entries commit runs an eviction
  pass, a named sandbox that should be running, without host mounts, whose node left, went
  stale or drains is afterwards stored on another, live node, if there is one outside the
  quarantine; its assignment generation has grown; a report that still carries the old
  generation is refused and changes nothing, whoever sends it; and a node that went stale is
  in quarantine.
\<close>

theorem eviction_pass_moves:
  assumes "ndRaft d = Some s" and "ndQuarantine d = Some q" and "steady load s"
    and "\<forall>sb \<in> set (listSandboxes (rnFsm s)). sandbox_wf sb" and "int (length (listSandboxes (rnFsm s))) < max_int64"
    and "GetSandbox s i = Inr sb" and "sbDesired sb = DesiredRunning" and "sbNodeID sb \<noteq> []" and "sbName sb \<noteq> []"
    and "\<not> HasHostMounts (sbSpec sb)" and "is_int64 (sbGeneration sb)" and "sbGeneration sb < max_int64"
    and "classifyVacate (nodes_by_id [] (listNodes (rnFsm s))) (sbNodeID sb) now = Some reason"
    and "HasLiveSchedulableNode (listNodes (rnFsm s)) now (sbNodeID sb # Excluded q)"
  shows "\<exists>s' q' sb'. runEviction load now d = d\<lparr>ndRaft := Some s', ndQuarantine := Some q'\<rparr> \<and> GetSandbox s' i = Inr sb' \<and>
    sbNodeID sb' \<noteq> sbNodeID sb \<and> (\<exists>n \<in> set (listNodes (rnFsm s)). nID n = sbNodeID sb' \<and> IsNodeLive n now) \<and>
    sbGeneration sb < sbGeneration sb' \<and>
    (\<forall>t link remote ctx req. srSandboxId req = i \<and> srGeneration req = sbGeneration sb \<longrightarrow>
       (\<exists>e. ctl_UpdateStatus load t link remote ctx \<lparr>cnRaft = s', cnQuarantine = q'\<rparr> req =
          (\<lparr>cnRaft = s', cnQuarantine = q'\<rparr>, Inl e))) \<and>
    (reason = ReasonHeartbeat \<longrightarrow> Contains q' (sbNodeID sb))"
proof -
  have rep: "replica load (rnFsm s)"
    using assms(3) by (simp add: steady_def)
  from pass_stores_move [OF assms(1-3) plan_input_list [OF rep assms(4,5)] assms(6-10,13,14)]
  obtain s' q' n where run: "runEviction load now d = d\<lparr>ndRaft := Some s', ndQuarantine := Some q'\<rparr>" and lead: "IsLeader s'"
    and n: "n \<in> set (listNodes (rnFsm s))" "candidate (sbNodeID sb # Excluded q) n" "IsNodeLive n now"
    and get: "GetSandbox s' i = Inr (CloneSandbox (stored_sandbox (move_sandbox reason (sbNodeID sb) (nID n) now sb)))"
    and mark: "reason = ReasonHeartbeat \<longrightarrow> Contains q' (sbNodeID sb)"
    by (elim exE conjE)
  let ?sb' = "CloneSandbox (stored_sandbox (move_sandbox reason (sbNodeID sb) (nID n) now sb))"
  have keep: "sbNodeID ?sb' = nID n" "sbGeneration ?sb' = bump_generation (sbGeneration sb)"
    by (simp_all add: CloneSandbox_keeps stored_sandbox_keeps move_sandbox_def)
  have gen: "sbGeneration sb < sbGeneration ?sb'" "sbGeneration ?sb' > 0"
    using bump_generation_less [OF assms(11,12)] keep(2) by simp_all
  have "\<exists>err. ctl_UpdateStatus load t link remote ctx \<lparr>cnRaft = s', cnQuarantine = q'\<rparr> req =
      (\<lparr>cnRaft = s', cnQuarantine = q'\<rparr>, Inl err)"
    if "srSandboxId req = i" "srGeneration req = sbGeneration sb" for t link remote ctx req
    using that get gen(2) less_imp_neq [OF gen(1)] lead by (intro UpdateStatus_stale) simp_all
  moreover have "sbNodeID ?sb' \<noteq> sbNodeID sb"
    using n(2) keep(1) by (auto simp: candidate_def)
  moreover have "\<exists>n \<in> set (listNodes (rnFsm s)). nID n = sbNodeID ?sb' \<and> IsNodeLive n now"
    using n(1,3) keep(1) by auto
  ultimately show ?thesis
    using run get gen(1) mark by (intro exI [of _ s'] exI [of _ q'] exI [of _ ?sb'] conjI) blast+
qed

definition demo_evict_fsm :: fsm where
  "demo_evict_fsm = demo_fsm\<lparr>fsNodes := map (\<lambda>n. (nID n, n)) demo_nodes\<rparr>"

definition demo_evict_daemon :: node_daemon where
  "demo_evict_daemon = \<lparr>ndRaft = Some (demo_raft True demo_evict_fsm), ndQuarantine = Some NewQuarantine, ndLocalID = Some ''m1''\<rparr>"

lemma demo_evict_simps:
  "fsNodes demo_evict_fsm = map (\<lambda>n. (nID n, n)) demo_nodes" "fsSandboxes demo_evict_fsm = [(''s1'', demo_sandbox)]"
  by (simp_all add: demo_evict_fsm_def demo_fsm_simps)

lemma demo_evict_replica: "replica load demo_evict_fsm"
proof -
  let ?save = "\<lambda>n. encodeCommand opSaveNode (no_fields\<lparr>jNode := Given n\<rparr>)"
  let ?f = "fst (fsm_Apply load 0 (fst (fsm_Apply load 0 (fst (fsm_Apply load 0 NewFSM (save_sandbox_entry demo_sandbox)))
      (?save (demo_nodes ! 0)))) (?save (demo_nodes ! 1)))"
  have "replica load ?f"
    by (intro replica.applied replica.start)
  moreover have "?f = demo_evict_fsm"
    unfolding demo_saved
    by (simp add: Apply_ops applySaveNode_def payload_defs demo_evict_fsm_def demo_nodes_def demo_fsm_def
        NewFSM_def clone_node_def demo_node_def zero_node_def)
  ultimately show ?thesis by simp
qed

theorem eviction_pass_moves_witness:
  "\<exists>s' q' sb'. runEviction (\<lambda>_ _. Inl ErrNotLeader) demo_now demo_evict_daemon =
       demo_evict_daemon\<lparr>ndRaft := Some s', ndQuarantine := Some q'\<rparr> \<and> GetSandbox s' ''s1'' = Inr sb' \<and>
     sbNodeID sb' = ''n2'' \<and> 1 < sbGeneration sb' \<and> Contains q' ''n1''"
proof -
  let ?load = "\<lambda>_ _. Inl ErrNotLeader" and ?s = "demo_raft True demo_evict_fsm"
  have fsm: "rnFsm ?s = demo_evict_fsm" by (simp add: demo_raft_def)
  have nodes: "listNodes demo_evict_fsm = demo_nodes" and sbs: "listSandboxes demo_evict_fsm = [demo_sandbox]"
    by (simp_all add: listNodes_def listSandboxes_def demo_evict_simps demo_nodes_def clone_node_def demo_node_def zero_node_def
        CloneSandbox_same demo_sandbox_plain)
  have steady: "steady ?load ?s"
    by (simp add: steady_def fsm demo_evict_replica) (simp add: demo_raft_def IsLeader_def)
  have get: "GetSandbox ?s ''s1'' = Inr demo_sandbox"
    by (simp add: GetSandbox_table fsm demo_evict_simps CloneSandbox_same demo_sandbox_plain)
  have daemon: "ndRaft demo_evict_daemon = Some ?s" "ndQuarantine demo_evict_daemon = Some NewQuarantine"
    by (simp_all add: demo_evict_daemon_def)
  have "Excluded NewQuarantine = []" by (simp add: Excluded_def NewQuarantine_def)
  with eviction_pass_moves [OF daemon steady _ _ get, of demo_now ReasonHeartbeat]
  obtain s' q' sb' where *: "runEviction ?load demo_now demo_evict_daemon =
      demo_evict_daemon\<lparr>ndRaft := Some s', ndQuarantine := Some q'\<rparr>" "GetSandbox s' ''s1'' = Inr sb'"
      "sbNodeID sb' \<noteq> ''n1''" "\<exists>n \<in> set demo_nodes. nID n = sbNodeID sb' \<and> IsNodeLive n demo_now"
      "1 < sbGeneration sb'" "Contains q' ''n1''"
    by (auto simp: fsm nodes sbs demo_sandbox_facts demo_classify demo_has_live demo_sandbox_plain max_int64_def is_int64_def
        min_int64_def)
  then have "sbNodeID sb' = ''n2''"
    by (auto simp: demo_nodes_def)
  with * show ?thesis by blast
qed

end
