(* ===== verification/Gateway_Routes.thy ===== *)
theory Gateway_Routes
  imports Gateway_Files
begin

text \<open>
  The gateway as a whole (\<open>internal/gateway/server.go\<close>): its construction, its routes and how it
  ends. A request is answered by the handler its route names; matching a request's path against
  the routes is the web framework's.
\<close>

section \<open>Construction\<close>

record data_dir_resolver =
  drDataDir :: string
  drSocketPath :: string
  drOverrides :: "string list"

text \<open>Without an upstream of its own the server makes one over the data directory, for all three roles.\<close>

definition gw_New :: "platform \<Rightarrow> gw_config \<Rightarrow> 'up option \<Rightarrow> (gw_config \<times> ('up + data_dir_resolver)) result" where
  "gw_New pl cfg up =
     (case gw_Normalize pl cfg of
        (_, Some e) \<Rightarrow> Inl e
      | (c, None) \<Rightarrow>
          Inr (c, case up of
                    Some x \<Rightarrow> Inl x
                  | None \<Rightarrow> Inr \<lparr>drDataDir = gcDataDir c, drSocketPath = gcSocketPath c, drOverrides = gcUpstreams c\<rparr>))"

text \<open>The environment of an upstream over a data directory; \<open>loaded\<close> is what its identity files hold.\<close>

definition resolver_env :: "data_dir_resolver \<Rightarrow> (string \<Rightarrow> id_store \<times> go_error option) \<Rightarrow> tls_lib \<Rightarrow> gotime \<Rightarrow> gw_env" where
  "resolver_env r loaded tls now =
     \<lparr>geResolve = gw_Resolve (loaded (drDataDir r)) (drDataDir r) (drOverrides r),
      geIdentity = Some (gw_Identity (loaded (drDataDir r)) (drDataDir r)), geTls = tls, geNow = now\<rparr>"

definition resolver_link ::
  "data_dir_resolver \<Rightarrow> (string \<Rightarrow> go_error option) \<Rightarrow> (string \<Rightarrow> node_info option result) \<Rightarrow> platform \<Rightarrow> (string \<Rightarrow> go_error option) \<Rightarrow>
     runtime_link" where
  "resolver_link r dialSock inspect pl dial =
     \<lparr>rtAddr = Some (gw_RuntimeAddr dialSock inspect pl (drSocketPath r)), rtDial = dial\<rparr>"

text \<open>How serving ends: \<open>srv.Serve\<close> always reports an error, a regular shutdown a certain one.\<close>

definition ErrServerClosed :: go_error where
  "ErrServerClosed = LibraryError ''http: Server closed''"

definition gw_Run :: "gw_config \<Rightarrow> go_error option \<Rightarrow> go_error option \<Rightarrow> go_error option" where
  "gw_Run cfg listen served =
     (case listen of
        Some e \<Rightarrow> Some (Wrapped [Lit ''listen '', Str (gcListenAddr cfg), Lit '': ''] e)
      | None \<Rightarrow> if served = Some ErrServerClosed then None else served)"

section \<open>Routes\<close>

datatype gw_handler =
    HandleHealthz | HandleReadyz
  | HandleCreateSandbox | HandleListSandboxes
  | HandleGetSandboxByName | HandleStartSandboxByName | HandleStopSandboxByName | HandleDeleteSandboxByName
  | HandleGetSandbox | HandleStartSandbox | HandleStopSandbox | HandleDeleteSandbox
  | HandleSandboxLogs | HandleSandboxAgent
  | HandleListVolumes | HandleCreateVolume | HandleGetDefaultVolume | HandleDeleteVolume
  | HandleVolumeFsGetContent | HandleVolumeFsPutContent | HandleVolumeFsStat | HandleVolumeFsExists
  | HandleVolumeFsMkdir | HandleVolumeFsCopy | HandleVolumeFsRename | HandleVolumeFsList | HandleVolumeFsRemove

definition v1_routes :: "(string \<times> string \<times> gw_handler) list" where
  "v1_routes =
     [(''POST'', ''/sandboxes'', HandleCreateSandbox),
      (''GET'', ''/sandboxes'', HandleListSandboxes),
      (''GET'', ''/sandboxes/by-name/:name'', HandleGetSandboxByName),
      (''POST'', ''/sandboxes/by-name/:name/start'', HandleStartSandboxByName),
      (''POST'', ''/sandboxes/by-name/:name/stop'', HandleStopSandboxByName),
      (''DELETE'', ''/sandboxes/by-name/:name'', HandleDeleteSandboxByName),
      (''GET'', ''/sandboxes/:id'', HandleGetSandbox),
      (''POST'', ''/sandboxes/:id/start'', HandleStartSandbox),
      (''POST'', ''/sandboxes/:id/stop'', HandleStopSandbox),
      (''DELETE'', ''/sandboxes/:id'', HandleDeleteSandbox),
      (''GET'', ''/sandboxes/:id/logs'', HandleSandboxLogs),
      (''GET'', ''/sandboxes/:id/agent'', HandleSandboxAgent),
      (''GET'', ''/volumes'', HandleListVolumes),
      (''POST'', ''/volumes'', HandleCreateVolume),
      (''GET'', ''/volumes/default'', HandleGetDefaultVolume),
      (''DELETE'', ''/volumes/:id'', HandleDeleteVolume),
      (''GET'', ''/volumes/:id/files/content'', HandleVolumeFsGetContent),
      (''PUT'', ''/volumes/:id/files/content'', HandleVolumeFsPutContent),
      (''GET'', ''/volumes/:id/files/stat'', HandleVolumeFsStat),
      (''GET'', ''/volumes/:id/files/exists'', HandleVolumeFsExists),
      (''POST'', ''/volumes/:id/files/mkdir'', HandleVolumeFsMkdir),
      (''POST'', ''/volumes/:id/files/copy'', HandleVolumeFsCopy),
      (''POST'', ''/volumes/:id/files/rename'', HandleVolumeFsRename),
      (''GET'', ''/volumes/:id/files'', HandleVolumeFsList),
      (''DELETE'', ''/volumes/:id/files'', HandleVolumeFsRemove)]"

definition gw_routes :: "(string \<times> string \<times> gw_handler) list" where
  "gw_routes =
     [(''GET'', ''/healthz'', HandleHealthz), (''GET'', ''/readyz'', HandleReadyz)] @
     map (\<lambda>(meth, pat, hd). (meth, ''/v1'' @ pat, hd)) v1_routes"

text \<open>
  What surrounds a request: the managers at each of its moments, the way to the nodes and their
  answers, the log stream, and the client's connection.
\<close>

record gw_world =
  gwMoments :: moments
  gwCodec :: body_codec
  gwNode :: node_calls
  gwLogs :: "(logs_request, logs_chunk list \<times> recv_end) rpc"
  gwRender :: "logs_chunk \<Rightarrow> string"
  gwWritten :: "nat \<Rightarrow> bool"
  gwGone :: "nat \<Rightarrow> bool"
  gwIsUpgrade :: "string \<Rightarrow> string \<Rightarrow> bool"
  gwRelay :: "runtime_conn \<Rightarrow> string \<Rightarrow> unit result"

definition responded :: "pool \<times> http_response \<Rightarrow> (pool \<times> agent_answer) option" where
  "responded r = Some (fst r, AgentRefused (snd r))"

definition responded_opt :: "(pool \<times> http_response) option \<Rightarrow> (pool \<times> agent_answer) option" where
  "responded_opt r = (case r of None \<Rightarrow> None | Some x \<Rightarrow> responded x)"

text \<open>A request through its handler; \<open>None\<close> is one that waits for ever.\<close>

fun gw_serve :: "gw_server \<Rightarrow> gw_world \<Rightarrow> gw_handler \<Rightarrow> http_request \<Rightarrow> pool \<Rightarrow> (pool \<times> agent_answer) option" where
  "gw_serve sv w HandleHealthz rq u = responded (u, handleHealthz)"
| "gw_serve sv w HandleReadyz rq u = responded (u, handleReadyz sv (gwMoments w 0))"
| "gw_serve sv w HandleCreateSandbox rq u = responded_opt (handleCreateSandbox sv (gwMoments w) rq u)"
| "gw_serve sv w HandleListSandboxes rq u = responded (handleListSandboxes sv (gwMoments w) rq u)"
| "gw_serve sv w HandleGetSandboxByName rq u = responded (handleGetSandboxByName sv (gwMoments w) rq u)"
| "gw_serve sv w HandleStartSandboxByName rq u = responded_opt (handleStartSandboxByName sv (gwMoments w) rq u)"
| "gw_serve sv w HandleStopSandboxByName rq u = responded (handleStopSandboxByName sv (gwMoments w) rq u)"
| "gw_serve sv w HandleDeleteSandboxByName rq u = responded (handleDeleteSandboxByName sv (gwMoments w) rq u)"
| "gw_serve sv w HandleGetSandbox rq u = responded (handleGetSandbox sv (gwMoments w) rq u)"
| "gw_serve sv w HandleStartSandbox rq u = responded_opt (handleStartSandbox sv (gwMoments w) rq u)"
| "gw_serve sv w HandleStopSandbox rq u = responded (handleStopSandbox sv (gwMoments w) rq u)"
| "gw_serve sv w HandleDeleteSandbox rq u = responded (handleDeleteSandbox sv (gwMoments w) rq u)"
| "gw_serve sv w HandleSandboxLogs rq u =
     responded (handleSandboxLogs sv (gwLogs w) (gwRender w) (gwWritten w) (gwGone w) (gwMoments w) rq u)"
| "gw_serve sv w HandleSandboxAgent rq u =
     Some (handleSandboxAgent sv (gwIsUpgrade w) (ncLink (gwNode w)) (gwRelay w) (gwMoments w) rq u)"
| "gw_serve sv w HandleListVolumes rq u = responded (handleListVolumes sv (gwMoments w) rq u)"
| "gw_serve sv w HandleCreateVolume rq u = responded (handleCreateVolume sv (gwCodec w) (gwMoments w) rq u)"
| "gw_serve sv w HandleGetDefaultVolume rq u = responded (handleGetDefaultVolume sv (gwMoments w) rq u)"
| "gw_serve sv w HandleDeleteVolume rq u = responded (handleDeleteVolume sv (gwMoments w) rq u)"
| "gw_serve sv w HandleVolumeFsGetContent rq u = responded (handleVolumeFsGetContent sv (gwNode w) (gwGone w) (gwMoments w) rq u)"
| "gw_serve sv w HandleVolumeFsPutContent rq u = responded (handleVolumeFsPutContent sv (gwNode w) (gwMoments w) rq u)"
| "gw_serve sv w HandleVolumeFsStat rq u = responded (handleVolumeFsStat sv (gwNode w) (gwMoments w) rq u)"
| "gw_serve sv w HandleVolumeFsExists rq u = responded (handleVolumeFsExists sv (gwNode w) (gwMoments w) rq u)"
| "gw_serve sv w HandleVolumeFsMkdir rq u = responded (handleVolumeFsMkdir sv (gwCodec w) (gwNode w) (gwMoments w) rq u)"
| "gw_serve sv w HandleVolumeFsCopy rq u = responded (handleVolumeFsCopy sv (gwCodec w) (gwNode w) (gwMoments w) rq u)"
| "gw_serve sv w HandleVolumeFsRename rq u = responded (handleVolumeFsRename sv (gwCodec w) (gwNode w) (gwMoments w) rq u)"
| "gw_serve sv w HandleVolumeFsList rq u = responded (handleVolumeFsList sv (gwNode w) (gwMoments w) rq u)"
| "gw_serve sv w HandleVolumeFsRemove rq u = responded (handleVolumeFsRemove sv (gwNode w) (gwMoments w) rq u)"

section \<open>Who is answered\<close>

text \<open>What some manager must have found for a request to get past it.\<close>

definition key_accepted :: "(string \<Rightarrow> string) \<Rightarrow> (nat \<Rightarrow> string \<Rightarrow> raft_node) \<Rightarrow> string \<Rightarrow> bool" where
  "key_accepted hash stores key \<longleftrightarrow>
     (\<exists>i addr raw k. ParseRaw key = Inr raw \<and> GetAPIKeyByHash (stores i addr) (hash raw) = Inr k \<and> \<not> kDisabled k)"

text \<open>Every method of every manager is behind the key interceptor, at each moment.\<close>

definition guarded_api :: "(string \<Rightarrow> string) \<Rightarrow> (string \<Rightarrow> raft_node) \<Rightarrow> manager_api \<Rightarrow> bool" where
  "guarded_api hash stores api \<longleftrightarrow>
     (\<exists>h. guarded hash stores ''Create'' h (maCreate api)) \<and> (\<exists>h. guarded hash stores ''Start'' h (maStart api)) \<and>
     (\<exists>h. guarded hash stores ''Stop'' h (maStop api)) \<and> (\<exists>h. guarded hash stores ''Remove'' h (maRemove api)) \<and>
     (\<exists>h. guarded hash stores ''Get'' h (maGet api)) \<and> (\<exists>h. guarded hash stores ''GetByName'' h (maGetByName api)) \<and>
     (\<exists>h. guarded hash stores ''List'' h (maList api)) \<and> (\<exists>h. guarded hash stores ''CreateVolume'' h (maCreateVolume api)) \<and>
     (\<exists>h. guarded hash stores ''ListVolumes'' h (maListVolumes api)) \<and> (\<exists>h. guarded hash stores ''GetVolume'' h (maGetVolume api)) \<and>
     (\<exists>h. guarded hash stores ''GetDefaultVolume'' h (maGetDefaultVolume api)) \<and>
     (\<exists>h. guarded hash stores ''DeleteVolume'' h (maDeleteVolume api))"

lemma guarded_accepts:
  assumes "guarded hash (stores i) meth h rpc" and "key \<noteq> []" and "api_call env rpc key req u = (called, u', Inr r)"
  shows "key_accepted hash stores key"
  using guarded_call [OF assms] by (auto simp: key_accepted_def)

text \<open>Whatever a manager's method answers, it answers only to an accepted key.\<close>

lemma manager_answers:
  assumes "guarded_api hash (stores i) api" and "key \<noteq> []"
  shows "up_Create env api key b st u = (c, u', Inr sb) \<Longrightarrow> key_accepted hash stores key"
    and "up_Start env api key x u = (c, u', Inr sb) \<Longrightarrow> key_accepted hash stores key"
    and "up_Stop env api key x u = (c, u', Inr sb) \<Longrightarrow> key_accepted hash stores key"
    and "up_Remove env api key x u = (c, u', Inr un) \<Longrightarrow> key_accepted hash stores key"
    and "up_Get env api key x u = (c, u', Inr sb) \<Longrightarrow> key_accepted hash stores key"
    and "up_GetByName env api key x u = (c, u', Inr sb) \<Longrightarrow> key_accepted hash stores key"
    and "up_List env api key x n l u = (c, u', Inr sbs) \<Longrightarrow> key_accepted hash stores key"
    and "up_CreateVolume env api key vr u = (c, u', Inr v) \<Longrightarrow> key_accepted hash stores key"
    and "up_ListVolumes env api key u = (c, u', Inr vs) \<Longrightarrow> key_accepted hash stores key"
    and "up_GetVolume env api key x u = (c, u', Inr v) \<Longrightarrow> key_accepted hash stores key"
    and "up_GetDefaultVolume env api key u = (c, u', Inr v) \<Longrightarrow> key_accepted hash stores key"
    and "up_DeleteVolume env api key x u = (c, u', Inr m) \<Longrightarrow> key_accepted hash stores key"
  using assms(1)
  unfolding guarded_api_def up_Create_def up_Start_def up_Stop_def up_Remove_def up_Get_def up_GetByName_def up_List_def
    up_CreateVolume_def up_ListVolumes_def up_GetVolume_def up_GetDefaultVolume_def up_DeleteVolume_def
  by - (elim conjE exE, erule guarded_accepts [OF _ assms(2)], assumption)+

text \<open>The same for a log stream, for a call to a volume's node, and for the relay.\<close>

lemma try_logs_Inr: "try_logs att i addrs lastErr u = (u', Inr r) \<Longrightarrow> \<exists>j addr. atAnswer (att j addr) = Inr r"
  by (induction att i addrs lastErr u rule: try_logs.induct) (auto simp: Let_def split: option.splits sum.splits if_splits)

lemma logs_answer:
  assumes "guarded hash (stores i) ''Logs'' h rpc" and "key \<noteq> []" and "up_Logs env rpc key req u = (u', Inr r)"
  shows "key_accepted hash stores key"
proof -
  obtain cfg j addr where "atAnswer (rpc cfg j addr (withAPIKey key) req) = Inr r"
    using assms(3) by (auto simp: up_Logs_def dest: try_logs_Inr split: sum.splits prod.splits)
  then have "snd (APIKeyInterceptor hash None (''/cellar.v1.SandboxAPI/'' @ ''Logs'') (Some (withAPIKey key)) (h req) (stores i addr)) = Inr r"
    using assms(1) [unfolded guarded_def, rule_format, of cfg j addr "withAPIKey key" req] by simp
  from guarded_answer [OF this assms(2)] show ?thesis
    unfolding key_accepted_def by blast
qed

lemma node_answers:
  assumes "guarded_api hash (stores i) api" and "key \<noteq> []"
  shows "withRuntime env api rt key x fn u = (u', Inr r) \<Longrightarrow> key_accepted hash stores key"
    and "up_VolumeFsWrite env api rt ws key x path body u = (ms, u', None) \<Longrightarrow> key_accepted hash stores key"
    and "up_AgentRelay env api rt relay key x u = (u', Inr un) \<Longrightarrow> key_accepted hash stores key"
proof -
  note get = manager_answers(10) [of hash stores i api key, OF assms]
    and relay = manager_answers(5) [of hash stores i api key, OF assms]
  show "withRuntime env api rt key x fn u = (u', Inr r) \<Longrightarrow> key_accepted hash stores key"
    by (drule withRuntime_Inr) (blast intro: get)
  show "up_VolumeFsWrite env api rt ws key x path body u = (ms, u', None) \<Longrightarrow> key_accepted hash stores key"
    by (auto simp: up_VolumeFsWrite_def volumeNodeID_def intro: get split: prod.splits sum.splits option.splits)
  show "up_AgentRelay env api rt relay key x u = (u', Inr un) \<Longrightarrow> key_accepted hash stores key"
    by (auto simp: up_AgentRelay_def intro: relay split: prod.splits sum.splits option.splits if_splits)
qed

lemma extracted_nonempty: "gw_extractAPIKey rq = Some key \<Longrightarrow> key \<noteq> []"
  by (auto simp: gw_extractAPIKey_def Let_def split: if_splits)

definition granted :: "agent_answer \<Rightarrow> bool" where
  "granted a = (case a of AgentUpgrade \<Rightarrow> True | AgentRefused r \<Rightarrow> (case rsBody r of ErrorBody _ _ \<Rightarrow> False | _ \<Rightarrow> True))"

lemma granted_simps [simp]:
  "granted AgentUpgrade" "\<not> granted (AgentRefused key_required)" "\<not> granted (AgentRefused (writeError st c m))"
  "\<not> granted (AgentRefused (writeGRPCErrorKind quote e kind))"
  using error_body [of quote e kind] by (auto simp: granted_def writeError_def http_json_def)

lemma refused_input:
  "read_body maxb rq no = Inl r \<Longrightarrow> \<not> granted (AgentRefused r)"
  "readJSONBody maxb decode rq = Inl r \<Longrightarrow> \<not> granted (AgentRefused r)"
  "decodeMSBPath rq = Inl r \<Longrightarrow> \<not> granted (AgentRefused r)"
  by (auto simp: readJSONBody_def read_body_def decodeMSBPath_def Let_def split: prod.splits option.splits sum.splits if_splits)

lemma responded_granted:
  "responded x = Some (u', a) \<Longrightarrow> a = AgentRefused (snd x)"
  "responded_opt y = Some (u', a) \<Longrightarrow> \<exists>x. y = Some x \<and> a = AgentRefused (snd x)"
  by (auto simp: responded_def responded_opt_def split: option.splits)

text \<open>The sandbox handlers, then the volume handlers and the streams: what is granted was answered.\<close>

lemma sandbox_handlers_granted:
  assumes api: "\<And>i. guarded_api hash (stores i) (moApi (ms i))" and key: "gw_extractAPIKey rq = Some key"
  shows "handleCreateSandbox sv ms rq u = Some x \<Longrightarrow> granted (AgentRefused (snd x)) \<Longrightarrow> key_accepted hash stores key"
    and "granted (AgentRefused (snd (handleListSandboxes sv ms rq u))) \<Longrightarrow> key_accepted hash stores key"
    and "granted (AgentRefused (snd (handleGetSandbox sv ms rq u))) \<Longrightarrow> key_accepted hash stores key"
    and "granted (AgentRefused (snd (handleGetSandboxByName sv ms rq u))) \<Longrightarrow> key_accepted hash stores key"
    and "handleStartSandbox sv ms rq u = Some x \<Longrightarrow> granted (AgentRefused (snd x)) \<Longrightarrow> key_accepted hash stores key"
    and "handleStartSandboxByName sv ms rq u = Some x \<Longrightarrow> granted (AgentRefused (snd x)) \<Longrightarrow> key_accepted hash stores key"
    and "granted (AgentRefused (snd (handleStopSandbox sv ms rq u))) \<Longrightarrow> key_accepted hash stores key"
    and "granted (AgentRefused (snd (handleStopSandboxByName sv ms rq u))) \<Longrightarrow> key_accepted hash stores key"
    and "granted (AgentRefused (snd (handleDeleteSandbox sv ms rq u))) \<Longrightarrow> key_accepted hash stores key"
    and "granted (AgentRefused (snd (handleDeleteSandboxByName sv ms rq u))) \<Longrightarrow> key_accepted hash stores key"
proof -
  note answer = manager_answers [of hash stores 0 "moApi (ms 0)" key, OF api extracted_nonempty [OF key]]
  show "handleCreateSandbox sv ms rq u = Some x \<Longrightarrow> granted (AgentRefused (snd x)) \<Longrightarrow> key_accepted hash stores key"
    by (auto simp: handleCreateSandbox_def key refused_input intro: answer(1) split: prod.splits sum.splits option.splits)
  show "granted (AgentRefused (snd (handleListSandboxes sv ms rq u))) \<Longrightarrow> key_accepted hash stores key"
    by (auto simp: handleListSandboxes_def key Let_def intro: answer(7) split: prod.splits sum.splits option.splits if_splits)
  show "granted (AgentRefused (snd (handleGetSandbox sv ms rq u))) \<Longrightarrow> key_accepted hash stores key"
    by (auto simp: handleGetSandbox_def key intro: answer(5) split: prod.splits sum.splits)
  show "granted (AgentRefused (snd (handleGetSandboxByName sv ms rq u))) \<Longrightarrow> key_accepted hash stores key"
    by (auto simp: handleGetSandboxByName_def key intro: answer(6) split: prod.splits sum.splits)
  show "handleStartSandbox sv ms rq u = Some x \<Longrightarrow> granted (AgentRefused (snd x)) \<Longrightarrow> key_accepted hash stores key"
    by (auto simp: handleStartSandbox_def key intro: answer(2) split: prod.splits sum.splits)
  show "handleStartSandboxByName sv ms rq u = Some x \<Longrightarrow> granted (AgentRefused (snd x)) \<Longrightarrow> key_accepted hash stores key"
    by (auto simp: handleStartSandboxByName_def key intro: answer(6) split: prod.splits sum.splits option.splits)
  show "granted (AgentRefused (snd (handleStopSandbox sv ms rq u))) \<Longrightarrow> key_accepted hash stores key"
    by (auto simp: handleStopSandbox_def key intro: answer(3) split: prod.splits sum.splits)
  show "granted (AgentRefused (snd (handleStopSandboxByName sv ms rq u))) \<Longrightarrow> key_accepted hash stores key"
    by (auto simp: handleStopSandboxByName_def key intro: answer(6) split: prod.splits sum.splits option.splits)
  show "granted (AgentRefused (snd (handleDeleteSandbox sv ms rq u))) \<Longrightarrow> key_accepted hash stores key"
    by (auto simp: handleDeleteSandbox_def key intro: answer(4) split: prod.splits sum.splits)
  show "granted (AgentRefused (snd (handleDeleteSandboxByName sv ms rq u))) \<Longrightarrow> key_accepted hash stores key"
    by (auto simp: handleDeleteSandboxByName_def key intro: answer(6) split: prod.splits sum.splits option.splits)
qed

lemma volume_handlers_granted:
  assumes api: "\<And>i. guarded_api hash (stores i) (moApi (ms i))" and key: "gw_extractAPIKey rq = Some key"
  shows "granted (AgentRefused (snd (handleListVolumes sv ms rq u))) \<Longrightarrow> key_accepted hash stores key"
    and "granted (AgentRefused (snd (handleCreateVolume sv bc ms rq u))) \<Longrightarrow> key_accepted hash stores key"
    and "granted (AgentRefused (snd (handleGetDefaultVolume sv ms rq u))) \<Longrightarrow> key_accepted hash stores key"
    and "granted (AgentRefused (snd (handleDeleteVolume sv ms rq u))) \<Longrightarrow> key_accepted hash stores key"
proof -
  note answer = manager_answers [of hash stores 0 "moApi (ms 0)" key, OF api extracted_nonempty [OF key]]
  show "granted (AgentRefused (snd (handleListVolumes sv ms rq u))) \<Longrightarrow> key_accepted hash stores key"
    by (auto simp: handleListVolumes_def key intro: answer(9) split: prod.splits sum.splits)
  show "granted (AgentRefused (snd (handleCreateVolume sv bc ms rq u))) \<Longrightarrow> key_accepted hash stores key"
    by (auto simp: handleCreateVolume_def key refused_input intro: answer(8) split: prod.splits sum.splits if_splits)
  show "granted (AgentRefused (snd (handleGetDefaultVolume sv ms rq u))) \<Longrightarrow> key_accepted hash stores key"
    by (auto simp: handleGetDefaultVolume_def key intro: answer(11) split: prod.splits sum.splits)
  show "granted (AgentRefused (snd (handleDeleteVolume sv ms rq u))) \<Longrightarrow> key_accepted hash stores key"
    by (auto simp: handleDeleteVolume_def key intro: answer(12) split: prod.splits sum.splits)
qed

lemma with_path_granted:
  assumes "gw_extractAPIKey rq = Some key" and "granted (AgentRefused (snd (with_path sv rq call ans u)))"
  shows "\<exists>path u' v. call key path u = (u', Inr v)"
  using assms by (auto simp: with_path_def refused_input split: prod.splits sum.splits)

lemma with_body_granted:
  assumes "gw_extractAPIKey rq = Some key" and "granted (AgentRefused (snd (with_body sv rq decode full missing call u)))"
  shows "\<exists>body u' v. call key body u = (u', Inr v)"
  using assms by (auto simp: with_body_def refused_input split: prod.splits sum.splits if_splits)

lemma file_handlers_granted:
  assumes api: "\<And>i. guarded_api hash (stores i) (moApi (ms i))" and key: "gw_extractAPIKey rq = Some key"
  shows "granted (AgentRefused (snd (handleVolumeFsGetContent sv nc gone ms rq u))) \<Longrightarrow> key_accepted hash stores key"
    and "granted (AgentRefused (snd (handleVolumeFsPutContent sv nc ms rq u))) \<Longrightarrow> key_accepted hash stores key"
    and "granted (AgentRefused (snd (handleVolumeFsStat sv nc ms rq u))) \<Longrightarrow> key_accepted hash stores key"
    and "granted (AgentRefused (snd (handleVolumeFsExists sv nc ms rq u))) \<Longrightarrow> key_accepted hash stores key"
    and "granted (AgentRefused (snd (handleVolumeFsList sv nc ms rq u))) \<Longrightarrow> key_accepted hash stores key"
    and "granted (AgentRefused (snd (handleVolumeFsRemove sv nc ms rq u))) \<Longrightarrow> key_accepted hash stores key"
    and "granted (AgentRefused (snd (handleVolumeFsMkdir sv bc nc ms rq u))) \<Longrightarrow> key_accepted hash stores key"
    and "granted (AgentRefused (snd (handleVolumeFsCopy sv bc nc ms rq u))) \<Longrightarrow> key_accepted hash stores key"
    and "granted (AgentRefused (snd (handleVolumeFsRename sv bc nc ms rq u))) \<Longrightarrow> key_accepted hash stores key"
proof -
  have answer: "withRuntime env (moApi (ms 0)) rt key x fn v = (u', Inr r) \<Longrightarrow> key_accepted hash stores key" for env rt x v u' r
    and fn :: "runtime_conn \<Rightarrow> 'b result"
    by (rule node_answers(1) [of hash stores 0 "moApi (ms 0)" key, OF api extracted_nonempty [OF key]])
  note written = node_answers(2) [of hash stores 0 "moApi (ms 0)" key, OF api extracted_nonempty [OF key]]
  note path = with_path_granted [OF key] and body = with_body_granted [OF key]
  show "granted (AgentRefused (snd (handleVolumeFsGetContent sv nc gone ms rq u))) \<Longrightarrow> key_accepted hash stores key"
    by (auto simp: handleVolumeFsGetContent_def up_VolumeFsRead_def key refused_input intro: answer split: prod.splits sum.splits)
  show "granted (AgentRefused (snd (handleVolumeFsPutContent sv nc ms rq u))) \<Longrightarrow> key_accepted hash stores key"
    by (auto simp: handleVolumeFsPutContent_def key refused_input intro: written split: prod.splits sum.splits option.splits)
  show "granted (AgentRefused (snd (handleVolumeFsStat sv nc ms rq u))) \<Longrightarrow> key_accepted hash stores key"
    unfolding handleVolumeFsStat_def up_VolumeFsStat_def by (drule path) (elim exE, erule answer)
  show "granted (AgentRefused (snd (handleVolumeFsExists sv nc ms rq u))) \<Longrightarrow> key_accepted hash stores key"
    unfolding handleVolumeFsExists_def up_VolumeFsExists_def by (drule path) (elim exE, erule answer)
  show "granted (AgentRefused (snd (handleVolumeFsList sv nc ms rq u))) \<Longrightarrow> key_accepted hash stores key"
    unfolding handleVolumeFsList_def up_VolumeFsList_def by (drule path) (elim exE, erule answer)
  show "granted (AgentRefused (snd (handleVolumeFsRemove sv nc ms rq u))) \<Longrightarrow> key_accepted hash stores key"
    unfolding handleVolumeFsRemove_def up_VolumeFsRemove_def by (drule path) (elim exE, erule answer)
  show "granted (AgentRefused (snd (handleVolumeFsMkdir sv bc nc ms rq u))) \<Longrightarrow> key_accepted hash stores key"
    unfolding handleVolumeFsMkdir_def up_VolumeFsMkdir_def by (drule body) (elim exE, erule answer)
  show "granted (AgentRefused (snd (handleVolumeFsCopy sv bc nc ms rq u))) \<Longrightarrow> key_accepted hash stores key"
    unfolding handleVolumeFsCopy_def up_VolumeFsCopy_def by (drule body) (auto intro: answer split: prod.splits)
  show "granted (AgentRefused (snd (handleVolumeFsRename sv bc nc ms rq u))) \<Longrightarrow> key_accepted hash stores key"
    unfolding handleVolumeFsRename_def up_VolumeFsRename_def by (drule body) (auto intro: answer split: prod.splits)
qed

lemma stream_handlers_granted:
  assumes api: "\<And>i. guarded_api hash (stores i) (moApi (ms i))" and key: "gw_extractAPIKey rq = Some key"
  shows "guarded hash (stores 0) ''Logs'' h logs \<Longrightarrow> granted (AgentRefused (snd (handleSandboxLogs sv logs render written gone ms rq u))) \<Longrightarrow>
      key_accepted hash stores key"
    and "granted (snd (handleSandboxAgent sv isUpgrade rt relay ms rq u)) \<Longrightarrow> key_accepted hash stores key"
proof -
  show "guarded hash (stores 0) ''Logs'' h logs \<Longrightarrow> granted (AgentRefused (snd (handleSandboxLogs sv logs render written gone ms rq u))) \<Longrightarrow>
      key_accepted hash stores key"
    by (auto simp: handleSandboxLogs_def key dest: logs_answer [of hash stores 0 h logs, OF _ extracted_nonempty [OF key]]
        split: prod.splits sum.splits)
  show "granted (snd (handleSandboxAgent sv isUpgrade rt relay ms rq u)) \<Longrightarrow> key_accepted hash stores key"
    by (auto simp: handleSandboxAgent_def key intro: node_answers(3) [of hash stores 0 "moApi (ms 0)" key, OF api extracted_nonempty [OF key]]
        split: prod.splits sum.splits if_splits)
qed

section \<open>The API's routes\<close>

lemma v1_handler:
  "(meth, pat, hnd) \<in> set gw_routes \<Longrightarrow> has_prefix ''/v1/'' pat \<Longrightarrow> hnd \<noteq> HandleHealthz \<and> hnd \<noteq> HandleReadyz"
  by (auto simp: gw_routes_def v1_routes_def has_prefix_def)

lemma no_key_refused:
  assumes "gw_extractAPIKey rq = None" and "hnd \<noteq> HandleHealthz" and "hnd \<noteq> HandleReadyz"
  shows "gw_serve sv w hnd rq u = Some (u, AgentRefused key_required)"
  using assms
  by (cases hnd) (simp_all add: responded_def responded_opt_def handleCreateSandbox_def handleListSandboxes_def
        handleGetSandbox_def handleGetSandboxByName_def handleStartSandbox_def handleStartSandboxByName_def handleStopSandbox_def
        handleStopSandboxByName_def handleDeleteSandbox_def handleDeleteSandboxByName_def handleSandboxLogs_def handleSandboxAgent_def
        handleListVolumes_def handleCreateVolume_def handleGetDefaultVolume_def handleDeleteVolume_def handleVolumeFsGetContent_def
        handleVolumeFsPutContent_def handleVolumeFsStat_def handleVolumeFsExists_def handleVolumeFsMkdir_def handleVolumeFsCopy_def
        handleVolumeFsRename_def handleVolumeFsList_def handleVolumeFsRemove_def with_path_def with_body_def)

text \<open>
  Every route of the API asks for a key first: a request without one is refused with 401
  by each of the 25 handlers, before its body is read, and neither the managers nor the nodes hear
  of it.
\<close>

theorem routes_need_key:
  assumes "(meth, pat, hnd) \<in> set gw_routes" and "has_prefix ''/v1/'' pat" and "gw_extractAPIKey rq = None"
  shows "gw_serve sv w hnd rq u = Some (u, AgentRefused key_required) \<and> rsStatus key_required = 401"
  using no_key_refused [OF assms(3)] v1_handler [OF assms(1,2)] by (simp add: key_required_def writeError_def http_json_def)

theorem routes_need_key_witness:
  "gw_serve sv w HandleVolumeFsRemove (demo_http_request []\<lparr>rqHeader := \<lambda>n. if n = ''Authorization'' then ''Bearer'' else []\<rparr>) u =
     Some (u, AgentRefused key_required)"
proof -
  have "gw_extractAPIKey (demo_http_request []\<lparr>rqHeader := \<lambda>n. if n = ''Authorization'' then ''Bearer'' else []\<rparr>) = None"
    by (simp add: gw_extractAPIKey_def)
  then show ?thesis
    using routes_need_key [of "''DELETE''" "''/v1/volumes/:id/files''" HandleVolumeFsRemove] by (simp add: gw_routes_def v1_routes_def has_prefix_def)
qed

text \<open>
  Claim C3: the gateway adds no way into the cluster: whatever a route of the API answers that is
  not an error, a sandbox, a file, an open log or a relay, was asked for with a key that some
  manager found among its enabled keys while it served the request.
\<close>

theorem granted_means_accepted:
  assumes "(meth, pat, hnd) \<in> set gw_routes" and "has_prefix ''/v1/'' pat"
    and "\<And>i. guarded_api hash (stores i) (moApi (gwMoments w i))" and "guarded hash (stores 0) ''Logs'' h (gwLogs w)"
    and "gw_serve sv w hnd rq u = Some (u', ans)" and "granted ans"
  shows "\<exists>key. gw_extractAPIKey rq = Some key \<and> key_accepted hash stores key"
proof (cases "gw_extractAPIKey rq")
  case None
  then have "gw_serve sv w hnd rq u = Some (u, AgentRefused key_required)"
    using no_key_refused v1_handler [OF assms(1,2)] by blast
  with assms(5,6) have "granted (AgentRefused key_required)" by auto
  then show ?thesis by simp
next
  case (Some key)
  note sandbox = sandbox_handlers_granted [of hash stores "gwMoments w", OF assms(3) Some]
    and volume = volume_handlers_granted [of hash stores "gwMoments w", OF assms(3) Some]
    and files = file_handlers_granted [of hash stores "gwMoments w", OF assms(3) Some]
    and streams = stream_handlers_granted [of hash stores "gwMoments w", OF assms(3) Some]
  have agent: "key_accepted hash stores key" if "handleSandboxAgent sv isUpgrade rt relay (gwMoments w) rq u = (u', ans)" for isUpgrade rt relay
    using streams(2) [of sv isUpgrade rt relay u] that assms(6) by simp
  have "key_accepted hash stores key"
    using assms(5,6) v1_handler [OF assms(1,2)]
    by (cases hnd) (auto dest!: responded_granted dest: sandbox volume files streams(1) [OF assms(4)] agent)
  with Some show ?thesis by blast
qed

text \<open>A gateway whose managers, with the demo key, know the default volume.\<close>

definition demo_world :: gw_world where
  "demo_world =
     \<lparr>gwMoments = (\<lambda>i. \<lparr>moEnv = demo_up_env,
                        moApi = demo_manager_api\<lparr>maGetDefaultVolume := demo_rpc ''GetDefaultVolume'' (\<lambda>_ s. (s, Inr (Some demo_volume_proto)))\<rparr>,
                        moNow = int i * second, moDone = (\<lambda>_. None)\<rparr>),
      gwCodec = \<lparr>bcVolume = (\<lambda>_. None), bcPath = (\<lambda>_. None), bcCopy = (\<lambda>_. None)\<rparr>,
      gwNode = \<lparr>ncLink = demo_runtime_link, ncRead = (\<lambda>_ _ _. Inr ([], RecvEOF)), ncWrite = demo_write_stream, ncStat = (\<lambda>_ _ _. Inr None),
                ncList = (\<lambda>_ _ _. Inr []), ncExists = (\<lambda>_ _ _. Inr True), ncMkdir = (\<lambda>_ _ _. Inr ()), ncRemove = (\<lambda>_ _ _. Inr ()),
                ncCopy = (\<lambda>_ _ _. Inr ()), ncRename = (\<lambda>_ _ _. Inr ())\<rparr>,
      gwLogs = demo_rpc ''Logs'' (\<lambda>_ s. (s, Inr ([], RecvEOF))), gwRender = lcText, gwWritten = (\<lambda>_. True), gwGone = (\<lambda>_. False),
      gwIsUpgrade = (\<lambda>_ _. False), gwRelay = (\<lambda>_ _. Inr ())\<rparr>"

definition demo_keyed_request :: http_request where
  "demo_keyed_request = demo_http_request []\<lparr>rqHeader := \<lambda>n. if n = ''X-Api-Key'' then gRaw demo_generated else []\<rparr>"

lemma demo_world_guarded:
  "guarded_api rev (\<lambda>_. demo_key_raft) (moApi (gwMoments demo_world i))" "guarded rev (\<lambda>_. demo_key_raft) ''Logs'' (\<lambda>_ s. (s, Inr ([], RecvEOF))) (gwLogs demo_world)"
  by (auto simp: guarded_api_def demo_world_def demo_manager_api_def intro!: exI demo_rpc_guarded)

lemma demo_keyed: "gw_extractAPIKey demo_keyed_request = Some (gRaw demo_generated)"
proof -
  have "trim_space (gRaw demo_generated) = gRaw demo_generated"
    unfolding demo_key_parts by (rule trim_space_key) (simp add: demo_bytes_def)
  then show ?thesis
    by (simp add: gw_extractAPIKey_def demo_keyed_request_def demo_key_nonempty)
qed

lemma demo_served:
  "\<exists>u' vol. gw_serve demo_server demo_world HandleGetDefaultVolume demo_keyed_request new_pool =
     Some (u', AgentRefused (http_json 200 (VolumeBody vol)))"
proof -
  have "\<exists>called u'. up_GetDefaultVolume (moEnv (gwMoments demo_world 0)) (moApi (gwMoments demo_world 0)) (gRaw demo_generated) new_pool =
      (called, u', Inr (Some demo_volume_proto))"
    by (simp add: up_GetDefaultVolume_def api_call_def withConn_def demo_world_def demo_up_env_def demo_gw_env_def ClientTLSFromPEMs_def
        pickOrder_def new_pool_def demo_manager_api_def demo_rpc_def APIKeyInterceptor_def demo_key_accepted
        isSandboxAPIMethod_def has_prefix_def)
  then show ?thesis
    by (auto simp: handleGetDefaultVolume_def demo_keyed responded_def)
qed

theorem granted_means_accepted_witness:
  "(\<exists>u' vol. gw_serve demo_server demo_world HandleGetDefaultVolume demo_keyed_request new_pool =
     Some (u', AgentRefused (http_json 200 (VolumeBody vol)))) \<and> key_accepted rev (\<lambda>_ _. demo_key_raft) (gRaw demo_generated)"
proof -
  obtain u' vol where run: "gw_serve demo_server demo_world HandleGetDefaultVolume demo_keyed_request new_pool =
     Some (u', AgentRefused (http_json 200 (VolumeBody vol)))" using demo_served by blast
  have route: "(''GET'', ''/v1/volumes/default'', HandleGetDefaultVolume) \<in> set gw_routes" "has_prefix ''/v1/'' ''/v1/volumes/default''"
    by (simp_all add: gw_routes_def v1_routes_def has_prefix_def)
  have "granted (AgentRefused (http_json 200 (VolumeBody vol)))" by (simp add: granted_def http_json_def)
  from granted_means_accepted [OF route demo_world_guarded run this] run show ?thesis
    by (auto simp: demo_keyed)
qed

section \<open>Every request is answered\<close>

lemma wait_and_write_returns:
  assumes "clock_advances ms k"
  shows "wait_and_write sv ms rq key i k u \<noteq> None"
proof -
  define dl where "dl = moNow (ms (k - 1)) + (if parseWaitTimeout rq \<le> 0 then DefaultWaitTimeout else parseWaitTimeout rq)"
  have "dl < moNow (ms k) + int (nat (dl - moNow (ms k)) + 1) * poll_pause"
    by (cases "moNow (ms k) \<le> dl") (simp_all add: poll_pause_def)
  from wait_loop_ends [OF assms order.refl this]
  obtain r where "wait_loop ms key i dl (moNow (ms (k - 1)) + wrap64 (parseWaitTimeout rq + second)) k u = Some r" by blast
  then show ?thesis
    by (simp add: wait_and_write_def waitForRunning_def dl_def Let_def split: prod.splits option.splits)
qed



end
