(* ===== verification/Program_Mains.thy ===== *)
theory Program_Mains
  imports Daemon_Run Gateway_Routes
begin

text \<open>
  The main functions of \<open>cellard\<close> and \<open>cellar-gateway\<close> (\<open>cmd/cellard/main.go\<close>,
  \<open>cmd/cellar-gateway/main.go\<close>) over the flags' values, and how the three programs on a machine find
  each other: the commands the daemon's socket, the gateway the daemon's identity and cluster.
\<close>

section \<open>The daemon's process\<close>

record cellard_flags =
  cfDataDir :: string
  cfSocket :: string
  cfListen :: string
  cfRaftAddr :: string
  cfVersion :: bool

definition cellard_defaults :: "platform \<Rightarrow> cellard_flags" where
  "cellard_defaults pl =
     \<lparr>cfDataDir = DefaultDataDirPath pl, cfSocket = DefaultSocketPath pl, cfListen = DefaultListenAddr,
      cfRaftAddr = DefaultRaftAddr, cfVersion = False\<rparr>"

definition flags_config :: "cellard_flags \<Rightarrow> daemon_config" where
  "flags_config fl =
     \<lparr>cgDataDir = cfDataDir fl, cgSocketPath = cfSocket fl, cgListenAddr = cfListen fl, cgRaftAddr = cfRaftAddr fl\<rparr>"

text \<open>What a process leaves: its directory, what it printed to its two outputs, its exit status.\<close>

record process_end =
  peDir :: data_dir
  peOut :: string
  peErr :: string
  peExit :: nat

definition ending :: "(string \<Rightarrow> string) \<Rightarrow> string \<Rightarrow> data_dir \<Rightarrow> go_error option \<Rightarrow> process_end" where
  "ending quote prog dir err =
     \<lparr>peDir = dir, peOut = [],
      peErr = (case err of
                 None \<Rightarrow> cli_line (prog @ '' stopped'')
               | Some e \<Rightarrow> if e = ContextCanceled then cli_line (prog @ '' stopped'')
                           else cli_line (prog @ '': '' @ error_text quote e)),
      peExit = process_exit err\<rparr>"

definition cellard_main ::
  "(string \<Rightarrow> string) \<Rightarrow> platform \<Rightarrow> string \<Rightarrow> cellard_flags \<Rightarrow> data_dir \<Rightarrow> bool \<Rightarrow> host \<Rightarrow> 'doc daemon_event list \<Rightarrow> process_end" where
  "cellard_main quote pl version fl dir raftDir h evs =
     (if cfVersion fl then \<lparr>peDir = dir, peOut = cli_line version, peErr = [], peExit = 0\<rparr>
      else (case daemon_Run h evs (New pl dir raftDir (flags_config fl)) of
              (d, e) \<Rightarrow> ending quote ''cellard'' (isDir (dnId d)) (Some e)))"

section \<open>The gateway's process\<close>

text \<open>It reads the data directory and never writes it.\<close>

definition gateway_main ::
  "(string \<Rightarrow> string) \<Rightarrow> platform \<Rightarrow> string \<Rightarrow> bool \<Rightarrow> gw_config \<Rightarrow> data_dir \<Rightarrow> go_error option \<Rightarrow> go_error option \<Rightarrow> process_end" where
  "gateway_main quote pl version showVersion cfg dir listen served =
     (if showVersion then \<lparr>peDir = dir, peOut = cli_line version, peErr = [], peExit = 0\<rparr>
      else
        (case gw_New pl cfg (None :: unit option) of
           Inl e \<Rightarrow> \<lparr>peDir = dir, peOut = [], peErr = cli_line (''cellar-gateway: '' @ error_text quote e), peExit = 1\<rparr>
         | Inr (c, _) \<Rightarrow> ending quote ''cellar-gateway'' dir (gw_Run c listen served)))"

section \<open>How they end\<close>

lemma process_exit_cases: "process_exit (Some e) = 0 \<longleftrightarrow> e = ContextCanceled" "process_exit None = 0"
  by (simp_all add: process_exit_def)

text \<open>
  The daemon's process exits with status 0 when it only printed its version or had started, and a
  process that could not start leaves the directory as loading it does.
\<close>

theorem cellard_exit:
  assumes "snd (Run_start h (New pl dir raftDir (flags_config fl))) \<noteq> Some ContextCanceled"
  shows "peExit (cellard_main quote pl version fl dir raftDir h evs) = 0 \<longleftrightarrow>
    cfVersion fl \<or> snd (Run_start h (New pl dir raftDir (flags_config fl))) = None"
  using assms by (cases "Run_start h (New pl dir raftDir (flags_config fl))")
    (auto simp: cellard_main_def ending_def daemon_Run_def process_exit_cases split: option.split)

theorem cellard_exit_witness:
  "peExit (cellard_main id demo_platform ''v'' (cellard_defaults demo_platform) [] False demo_host demo_events) = 0"
proof -
  have "snd (Run_start demo_host (New demo_platform [] False (flags_config (cellard_defaults demo_platform)))) = None"
    by code_simp
  then show ?thesis
    using cellard_exit [of demo_host demo_platform "[]" False "cellard_defaults demo_platform" id "''v''" demo_events] by simp
qed

text \<open>The gateway's process fails when its configuration names no source of managers, or it cannot listen.\<close>

lemma gw_New_directory: "gcDataDir cfg \<noteq> [] \<Longrightarrow> \<exists>c x. gw_New pl cfg up = Inr (c, x)"
  by (simp add: gw_New_def gw_Normalize_def Let_def or_string_def)

theorem gateway_exit:
  "peDir (gateway_main quote pl version showVersion cfg dir listen served) = dir \<and>
    (\<not> showVersion \<and> listen \<noteq> None \<longrightarrow> peExit (gateway_main quote pl version showVersion cfg dir listen served) = 1) \<and>
    (gcDataDir cfg \<noteq> [] \<and> listen = None \<and> served \<in> {None, Some ErrServerClosed} \<longrightarrow>
       peExit (gateway_main quote pl version showVersion cfg dir listen served) = 0)"
proof (intro conjI impI)
  show "peDir (gateway_main quote pl version showVersion cfg dir listen served) = dir"
    by (simp add: gateway_main_def ending_def split: sum.split prod.split)
next
  assume "\<not> showVersion \<and> listen \<noteq> None"
  then show "peExit (gateway_main quote pl version showVersion cfg dir listen served) = 1"
    by (auto simp: gateway_main_def ending_def gw_Run_def process_exit_def ContextCanceled_def split: sum.split prod.split)
next
  assume "gcDataDir cfg \<noteq> [] \<and> listen = None \<and> served \<in> {None, Some ErrServerClosed}"
  moreover from this obtain c x where "gw_New pl cfg (None :: unit option) = Inr (c, x)" using gw_New_directory by blast
  ultimately show "peExit (gateway_main quote pl version showVersion cfg dir listen served) = 0"
    by (auto simp: gateway_main_def ending_def gw_Run_def process_exit_def)
qed

theorem gateway_exit_witness:
  "peExit (gateway_main id demo_platform ''v'' False (gateway_flags [] ''/d'' []) [] None (Some ErrServerClosed)) = 0"
  using gateway_exit [of id demo_platform "''v''" False "gateway_flags [] ''/d'' []" "[]" None "Some ErrServerClosed"]
  by (simp add: gateway_flags_def)

section \<open>How they find each other\<close>

text \<open>Without flags the commands dial the socket of a daemon without flags.\<close>

lemma defaults_meet:
  assumes "plAbs pl (DefaultSocketPath pl) = Inr a" and "DefaultSocketPath pl \<noteq> []"
  shows "DialLocal pl dial (DefaultSocketPath pl) = dial (''unix://'' @ a) a \<and>
    cgSocketPath (dnCfg (New pl dir raftDir (flags_config (cellard_defaults pl)))) = a"
  using assms by (simp add: DialLocal_def New_def New_config_def flags_config_def cellard_defaults_def absolute_def or_string_def)

text \<open>
  Claim C17: a gateway beside the first manager finds the cluster: without upstreams of its own, over
  the directory that \<open>cellar init\<close> filled, each call of the gateway resolves to the address that
  \<open>Init\<close> advertised, pinned to the cluster's root, and the gateway presents the node's certificate.
  It must be able to read and parse what the daemon wrote.
\<close>

theorem gateway_finds_cluster:
  assumes "Init h d req = (d', Inr rep)" and "os_fresh (hsOs h)" and "os_reads os"
    and "icDecode codec zero_daemon_state (projr (icState (hsCodec h) (isState (dnId d')))) = isState (dnId d')"
    and "node_material d' = Some mat" and "leaf_certificate lib (mtCertificate mat) = Inr cert"
    and "mtNotBefore mat = xcNotBefore cert" and "mtNotAfter mat = xcNotAfter cert" and "iiNodeId rep \<noteq> []"
    and "gw_New pl (gateway_flags listen dataDir []) (None :: unit option) = Inr (c, Inr r)"
    and "loaded (drDataDir r) = boot lib codec os (isDir (dnId d'))"
    and "mtCACert mat \<noteq> []" and "trim_space (iiAdvertiseAddr rep) \<noteq> []" and "iiClusterId rep \<noteq> []"
  shows "\<exists>known gi. geResolve (resolver_env r loaded tls now) = Inr (trim_space (iiAdvertiseAddr rep) # known, mtCACert mat) \<and>
    geIdentity (resolver_env r loaded tls now) = Some (Inr gi) \<and> giCert gi = mtCertificate mat \<and> giKey gi = mtPrivateKey mat \<and>
    giClusterID gi = iiClusterId rep"
proof -
  note boots = Init_boots [OF assms(1-9)]
  have "iiAdvertiseAddr rep \<noteq> []" using assms(13) by auto
  then have addr: "or_string (dsAdvertiseAddr (isState (dnId d'))) (dsListenAddr (isState (dnId d'))) = iiAdvertiseAddr rep"
    by (simp add: boots(7) or_string_def)
  have none: "drOverrides r = []"
    using assms(10) by (auto simp: gw_New_def gw_Normalize_def gateway_flags_def ParseUpstreams_def Let_def split: if_splits)
  obtain known where "MergeManagerAddrs (trim_space (iiAdvertiseAddr rep)) [dsManagerAddrs (isState (dnId d'))] =
      trim_space (iiAdvertiseAddr rep) # known"
    using merge_hd [OF assms(13)] by blast
  then have "geResolve (resolver_env r loaded tls now) = Inr (trim_space (iiAdvertiseAddr rep) # known, mtCACert mat)"
    using assms(12) by (simp add: resolver_env_def gw_Resolve_def assms(11) boots(1,5) none addr Let_def)
  moreover have "mtClusterID mat \<noteq> []" using boots(3) assms(14) by simp
  then have "gw_Identity (loaded (drDataDir r)) (drDataDir r) = Inr \<lparr>giCert = mtCertificate mat, giKey = mtPrivateKey mat,
      giCA = mtCACert mat, giClusterID = iiClusterId rep\<rparr>"
    by (simp add: gw_Identity_def assms(11) boots(1,3) or_string_def)
  ultimately show ?thesis by (simp add: resolver_env_def)
qed

theorem gateway_finds_cluster_witness:
  "\<exists>known ca. geResolve (resolver_env \<lparr>drDataDir = ''/d'', drSocketPath = ''/var/run/cellar/cellar.sock'', drOverrides = []\<rparr>
       (\<lambda>_. boot (hsX509 demo_again) (hsCodec demo_again) (hsOs demo_again) (isDir (dnId demo_first_manager)))
       \<lparr>tlX509KeyPair = (\<lambda>_ _. None), tlAppendCerts = (\<lambda>_. True)\<rparr> 0) = Inr (''10.0.0.1:17946'' # known, ca)"
proof -
  have "case node_material demo_first_manager of None \<Rightarrow> False | Some m \<Rightarrow> mtCACert m \<noteq> []" by code_simp
  then obtain mat where mat: "node_material demo_first_manager = Some mat" and ca: "mtCACert mat \<noteq> []"
    by (auto split: option.splits)
  have leaf: "leaf_certificate (hsX509 demo_again) (mtCertificate mat) =
      Inr \<lparr>xcSubject = \<lparr>certCN = ''6e'', certOUs = []\<rparr>, xcNotBefore = mtNotBefore mat, xcNotAfter = mtNotAfter mat, xcRaw = mtCertificate mat\<rparr>"
    by (simp add: leaf_certificate_def demo_again_def mat)
  have host: "os_fresh (hsOs demo_host)" "os_reads (hsOs demo_again)"
    "icDecode (hsCodec demo_again) zero_daemon_state (projr (icState (hsCodec demo_host) (isState (dnId demo_first_manager)))) =
      isState (dnId demo_first_manager)"
    by (simp_all add: demo_host_def demo_again_def os_demo_fresh os_reads_ok)
  have new: "gw_New demo_platform (gateway_flags [] ''/d'' []) (None :: unit option) =
      Inr (fst (gw_Normalize demo_platform (gateway_flags [] ''/d'' [])), Inr \<lparr>drDataDir = ''/d'',
        drSocketPath = ''/var/run/cellar/cellar.sock'', drOverrides = []\<rparr>)"
    by (simp add: gw_New_def gw_Normalize_def gateway_flags_def ParseUpstreams_def Let_def or_string_def DefaultSocketPath_def
        demo_platform_def)
  have addr: "trim_space ''10.0.0.1:17946'' = ''10.0.0.1:17946''"
    by (rule trim_space_plain) (simp_all add: plain_char_def)
  let ?rep = "\<lparr>iiClusterId = ''63'', iiNodeId = ''6e'', iiWorkerToken = ''CLLRN-1-726f6f74-77'',
     iiManagerToken = ''CLLRN-1-726f6f74-6d'', iiAdvertiseAddr = ''10.0.0.1:17946''\<rparr>"
  have reply: "iiNodeId ?rep \<noteq> []" "trim_space (iiAdvertiseAddr ?rep) \<noteq> []" "iiClusterId ?rep \<noteq> []"
    by (simp_all add: addr)
  note found = gateway_finds_cluster [OF demo_first_init host mat leaf _ _ reply(1) new _ ca reply(2,3),
    where loaded = "\<lambda>_. boot (hsX509 demo_again) (hsCodec demo_again) (hsOs demo_again) (isDir (dnId demo_first_manager))"
      and tls = "\<lparr>tlX509KeyPair = (\<lambda>_ _. None), tlAppendCerts = (\<lambda>_. True)\<rparr>" and now = 0]
  have "mtNotBefore mat = xcNotBefore \<lparr>xcSubject = \<lparr>certCN = ''6e'', certOUs = []\<rparr>, xcNotBefore = mtNotBefore mat,
      xcNotAfter = mtNotAfter mat, xcRaw = mtCertificate mat\<rparr>"
    and "mtNotAfter mat = xcNotAfter \<lparr>xcSubject = \<lparr>certCN = ''6e'', certOUs = []\<rparr>, xcNotBefore = mtNotBefore mat,
      xcNotAfter = mtNotAfter mat, xcRaw = mtCertificate mat\<rparr>"
    by (simp_all only: x509_cert.select_convs)
  from found [OF this refl] obtain known where
    "geResolve (resolver_env \<lparr>drDataDir = ''/d'', drSocketPath = ''/var/run/cellar/cellar.sock'', drOverrides = []\<rparr>
       (\<lambda>_. boot (hsX509 demo_again) (hsCodec demo_again) (hsOs demo_again) (isDir (dnId demo_first_manager)))
       \<lparr>tlX509KeyPair = (\<lambda>_ _. None), tlAppendCerts = (\<lambda>_. True)\<rparr> 0) = Inr (trim_space (iiAdvertiseAddr ?rep) # known, mtCACert mat)"
    by (elim exE conjE)
  then show ?thesis unfolding init_reply.select_convs addr by (intro exI)
qed

end
