(* ===== verification/Worker_Contract.thy ===== *)
theory Worker_Contract
  imports Daemon_Invariants
begin

text \<open>
  The contract between a node at work and the leader that serves it: a report is judged the same
  way wherever the reporter runs, a heartbeat hands the node exactly the leader's assignments, and
  a sandbox is created only where something can run it.
\<close>

section \<open>Status reports\<close>

text \<open>The certificate a worker was issued.\<close>

definition worker_cert :: "string \<Rightarrow> certificate" where
  "worker_cert i = \<lparr>certCN = i, certOUs = [role_OU RoleWorker]\<rparr>"

lemma worker_cert_owner:
  "requireNodeOrManagerPeer (Some (worker_cert i)) j = None \<longleftrightarrow> j \<noteq> [] \<and> i = j"
  by (auto simp: requireNodeOrManagerPeer_None manager_cert_def worker_cert_def role_OU_def)

lemma report_checks_agree:
  "report_checks mat sb g = None \<longleftrightarrow>
     status_check (worker_cert (mtNodeID mat)) sb \<lparr>srSandboxId = i, srStatus = p, srGeneration = g\<rparr> = None"
proof (cases "sbNodeID sb \<noteq> [] \<and> sbNodeID sb \<noteq> mtNodeID mat")
  case True
  then have "requireNodeOrManagerPeer (Some (worker_cert (mtNodeID mat))) (sbNodeID sb) \<noteq> None"
    using worker_cert_owner [of "mtNodeID mat" "sbNodeID sb"] by auto
  with True show ?thesis by (auto simp: report_checks_def status_check_def)
next
  case False
  then have "(if sbNodeID sb \<noteq> [] then requireNodeOrManagerPeer (Some (worker_cert (mtNodeID mat))) (sbNodeID sb) else None) = None"
    using worker_cert_owner [of "mtNodeID mat" "sbNodeID sb"] by auto
  with False show ?thesis by (simp add: report_checks_def status_check_def split: option.split)
qed

text \<open>
  A status report is judged the same way wherever the reporter runs. The check and the
  write that the leader's own agent does in its process accept the same reports as
  \<open>UpdateSandboxStatus\<close> does for a worker with that node's certificate, and leave the same store.
\<close>

theorem report_agrees_with_service:
  assumes "node_material d = Some mat" and "leader_raft d = Some (cnRaft c)" and "wire_status st"
    and "peerCertificate ctx = Some (worker_cert (mtNodeID mat))"
    and "reportSandboxStatus load now answer d i g st = (d', e)"
    and "ctl_UpdateStatus load now link remote ctx c
           \<lparr>srSandboxId = i, srStatus = Some (StatusToProto st), srGeneration = g\<rparr> = (c', r)"
  shows "(e = None \<longleftrightarrow> r = Inr ()) \<and> dnRaft d' = Some (cnRaft c')"
proof -
  let ?req = "\<lparr>srSandboxId = i, srStatus = Some (StatusToProto st), srGeneration = g\<rparr>"
  have lead: "IsLeader (cnRaft c)" "dnRaft d = Some (cnRaft c)"
    using assms(2) by (auto simp: leader_raft_def split: option.splits if_splits)
  show ?thesis
  proof (cases "GetSandbox (cnRaft c) i")
    case (Inl err)
    with assms lead show ?thesis by (auto simp: reportSandboxStatus_def ctl_UpdateStatus_def)
  next
    case (Inr sb)
    have chk: "report_checks mat sb g = None \<longleftrightarrow> status_check (worker_cert (mtNodeID mat)) sb ?req = None"
      by (rule report_checks_agree)
    show ?thesis
    proof (cases "report_checks mat sb g")
      case (Some err)
      moreover from Some chk obtain err' where "status_check (worker_cert (mtNodeID mat)) sb ?req = Some err'" by auto
      ultimately show ?thesis
        using assms lead Inr by (auto simp: reportSandboxStatus_def ctl_UpdateStatus_def)
    next
      case None
      obtain s err where save: "SaveSandbox load (cnRaft c) (Some (sb\<lparr>sbStatus := st\<lparr>stUpdatedAt := now\<rparr>, sbUpdatedAt := now\<rparr>)) = (s, err)"
        by fastforce
      have "d' = d\<lparr>dnRaft := Some s\<rparr>" "e = err"
        using assms(1,2,5) Inr None save by (simp_all add: reportSandboxStatus_def)
      moreover have "c' = c\<lparr>cnRaft := s\<rparr>" "r = (case err of Some e \<Rightarrow> Inl (mapStoreErr e) | None \<Rightarrow> Inr ())"
        using assms(3,4,6) lead Inr None chk save
        by (simp_all add: ctl_UpdateStatus_def status_record_def save_or_fail_def)
      ultimately show ?thesis by (auto split: option.splits)
    qed
  qed
qed

theorem report_agrees_with_service_witness:
  "\<exists>d' c'. reportSandboxStatus (\<lambda>_ _. Inl ErrNotLeader) 9 (\<lambda>_ _. Inl ErrNotLeader) demo_api_leader ''s1'' 1 zero_status = (d', None) \<and>
     ctl_UpdateStatus (\<lambda>_ _. Inl ErrNotLeader) 9 demo_link (\<lambda>_. Inr ()) demo_worker (demo_control True)
       \<lparr>srSandboxId = ''s1'', srStatus = Some (StatusToProto zero_status), srGeneration = 1\<rparr> = (c', Inr ()) \<and>
     dnRaft d' = Some (cnRaft c')"
proof -
  obtain d' e where rep: "reportSandboxStatus (\<lambda>_ _. Inl ErrNotLeader) 9 (\<lambda>_ _. Inl ErrNotLeader) demo_api_leader ''s1'' 1 zero_status = (d', e)"
    by fastforce
  obtain c' r where ctl: "ctl_UpdateStatus (\<lambda>_ _. Inl ErrNotLeader) 9 demo_link (\<lambda>_. Inr ()) demo_worker (demo_control True)
       \<lparr>srSandboxId = ''s1'', srStatus = Some (StatusToProto zero_status), srGeneration = 1\<rparr> = (c', r)"
    by fastforce
  have "snd (reportSandboxStatus (\<lambda>_ _. Inl ErrNotLeader) 9 (\<lambda>_ _. Inl ErrNotLeader) demo_api_leader ''s1'' 1 zero_status) = None"
    by code_simp
  with rep have "e = None" by simp
  moreover have "node_material demo_api_leader = Some demo_material"
    by (simp add: demo_api_leader_def demo_worker_daemon_def node_material_def)
  moreover have "leader_raft demo_api_leader = Some (cnRaft (demo_control True))"
    by (simp add: leader_raft_def demo_api_leader_def demo_control_simps)
  moreover have "wire_status zero_status"
    by (simp add: wire_status_def zero_status_def wire_time_demo)
  moreover have "peerCertificate demo_worker = Some (worker_cert (mtNodeID demo_material))"
    by (simp add: peerCertificate_def demo_worker_def worker_cert_def demo_material_def)
  ultimately show ?thesis
    using report_agrees_with_service [OF _ _ _ _ rep ctl, of demo_material] rep ctl by simp
qed

section \<open>Heartbeats\<close>

text \<open>What the conversions to messages and back need of a sandbox.\<close>

definition wire_sandbox :: "json_codec \<Rightarrow> sandbox \<Rightarrow> bool" where
  "wire_sandbox json s \<longleftrightarrow> json_keeps_spec json (sbSpec s) \<and> json_keeps_labels json (sbLabels s) \<and>
     wire_status (sbStatus s) \<and> wire_time (sbCreatedAt s) \<and> wire_time (sbUpdatedAt s)"

definition with_defaults :: "sandbox \<Rightarrow> sandbox" where
  "with_defaults s = s\<lparr>sbSpec := NormalizeSpec (sbSpec s)\<rparr>"

lemma wire_sandbox_round: "wire_sandbox json s \<Longrightarrow> FromProto json (ToProto json s) = with_defaults s"
  by (simp add: wire_sandbox_def with_defaults_def FromProto_def ToProto_def SpecFromJSON_def json_keeps_spec_def)

lemma heartbeat_answer:
  assumes "IsLeader (cnRaft c)" and "requireNodeOrManagerPeer (peerCertificate ctx) (hbNodeId req) = None"
    and "hbNodeId req \<noteq> []" and "GetNode (cnRaft c) (hbNodeId req) = Inr n"
    and "snd (SaveNode load (cnRaft c) (Some (heartbeat_record req now n))) = None"
  shows "\<exists>resp. snd (ctl_Heartbeat load json now link remote ctx c req) = Inr resp \<and> \<not> hrRemoved resp \<and>
    hrDesiredRole resp = nRole n \<and>
    hrAssigned resp = map (ToProto json) (listSandboxesByNode (rnFsm (cnRaft c)) (hbNodeId req))"
proof -
  let ?s = "fst (SaveNode load (cnRaft c) (Some (heartbeat_record req now n)))"
  have "listSandboxesByNode (rnFsm ?s) i = listSandboxesByNode (rnFsm (cnRaft c)) i" for i
    using SaveNode_frame [of "cnRaft c" load "Some (heartbeat_record req now n)"]
    by (simp add: listSandboxesByNode_def same_but_nodes_def)
  then show ?thesis
    using assms by (simp add: ctl_Heartbeat_def ListSandboxesByNode_def attach_endpoints_def no_heartbeat_response_def
        case_prod_beta)
qed

lemma endpoints_keep: "dnRaft (applyManagerEndpoints codec os d leader addrs) = dnRaft d"
  by (simp add: applyManagerEndpoints_def Let_def)

lemma SaveState_material: "isMat (fst (id_SaveState codec os s st)) = isMat s"
  by (simp add: id_SaveState_def split: prod.split option.split)

lemma endpoints_material: "node_material (applyManagerEndpoints codec os d leader addrs) = node_material d"
  by (simp add: applyManagerEndpoints_def node_material_def SaveState_material Let_def)

text \<open>
  A heartbeat hands a node exactly its assignments. When its managers answer with the
  leader's handler, the agent's next pass works on the sandboxes that the leader's store assigns
  to this node, in the store's order, with their specs' defaults filled in, whatever it had before.
\<close>

theorem heartbeat_syncs_assignments:
  assumes "node_material d = Some mat" and "mtNodeID mat \<noteq> []" and "leader_raft d = None" and "managerDialAddrs d \<noteq> []"
    and "IsLeader (cnRaft c)" and "peerCertificate ctx = Some (worker_cert (mtNodeID mat))"
    and "GetNode (cnRaft c) (mtNodeID mat) = Inr n" and "nRole n = mtRole mat"
    and "\<And>m. nID m = nID n \<Longrightarrow> snd (SaveNode load (cnRaft c) (Some m)) = None"
    and "\<And>s. s \<in> set (listSandboxesByNode (rnFsm (cnRaft c)) (mtNodeID mat)) \<Longrightarrow> wire_sandbox json s"
    and "sendHeartbeat h codec json now (\<lambda>addr req. snd (ctl_Heartbeat load json now link remote ctx c req)) d = (d', e)"
  shows "e = None \<and> fetchAssignments d' =
    Inr (map (\<lambda>s. CloneSandbox (with_defaults s)) (listSandboxesByNode (rnFsm (cnRaft c)) (mtNodeID mat)))"
proof -
  define req where "req = \<lparr>hbNodeId = mtNodeID mat,
      hbGrpcAddr = or_string (dsAdvertiseAddr (isState (dnId d))) (dsListenAddr (isState (dnId d))),
      hbSandboxCount = word_of_nat (assigned_count d)\<rparr>"
  let ?sbs = "listSandboxesByNode (rnFsm (cnRaft c)) (mtNodeID mat)"
  have node: "hbNodeId req = mtNodeID mat" by (simp add: req_def)
  have peer: "requireNodeOrManagerPeer (peerCertificate ctx) (hbNodeId req) = None"
    using assms(2,6) worker_cert_owner [of "mtNodeID mat" "mtNodeID mat"] by (simp add: node)
  have id: "hbNodeId req \<noteq> []" "GetNode (cnRaft c) (hbNodeId req) = Inr n" using assms(2,7) by (simp_all add: node)
  have "nID (heartbeat_record req now n) = nID n" by (simp add: heartbeat_record_def)
  from heartbeat_answer [OF assms(5) peer id assms(9) [OF this], where json = json and link = link and remote = remote]
  obtain resp where resp:
    "snd (ctl_Heartbeat load json now link remote ctx c req) = Inr resp" "\<not> hrRemoved resp" "hrDesiredRole resp = nRole n"
    "hrAssigned resp = map (ToProto json) ?sbs" by (auto simp: node)
  let ?d1 = "applyManagerEndpoints codec (hsOs h) d (hrLeaderGrpc resp) (hrManagerAddrs resp)"
  let ?d2 = "cacheAssigned json (hrAssigned resp) ?d1"
  have role: "node_material ?d2 = Some mat"
    using assms(1) endpoints_material by (simp add: cacheAssigned_def node_material_def)
  have "call_managers d (\<lambda>addr. snd (ctl_Heartbeat load json now link remote ctx c req)) = Inr resp"
    using assms(4) resp(1) by (simp add: call_managers_eq)
  then have "d' = maybeApplyDesiredRole h (hrDesiredRole resp) (hrRemoved resp) ?d2" "e = None"
    using assms(1,3,11) by (simp_all add: sendHeartbeat_def Let_def flip: req_def)
  then have d': "d' = ?d2" "e = None"
    using resp(2,3) role assms(8) by (simp_all add: maybeApplyDesiredRole_def)
  have "leader_raft ?d2 = None"
    using assms(3) by (simp add: leader_raft_def cacheAssigned_def endpoints_keep)
  moreover have "map (FromProto json) (hrAssigned resp) = map with_defaults ?sbs"
    using resp(4) assms(10) by (simp add: wire_sandbox_round)
  ultimately show ?thesis
    using d' by (simp add: fetchAssignments_def cacheAssigned_def)
qed

definition demo_assigning :: control where
  "demo_assigning = \<lparr>cnRaft = demo_raft True (demo_fsm\<lparr>fsNodes := [(''n1'', zero_node\<lparr>nID := ''n1'', nRole := RoleWorker\<rparr>)]\<rparr>),
     cnQuarantine = NewQuarantine\<rparr>"

lemma demo_assigning_saves: "snd (SaveNode load (cnRaft demo_assigning) (Some m)) = None" if "nID m \<noteq> []"
  using that by (simp add: SaveNode_def leader_simps IsLeader_def store_apply_def fsm_step_def demo_assigning_def
      demo_raft_def Apply_ops applySaveNode_def payload_defs case_prod_beta)

theorem heartbeat_syncs_assignments_witness:
  "fetchAssignments (fst (sendHeartbeat demo_host demo_id_codec demo_json 9
      (\<lambda>addr req. snd (ctl_Heartbeat (\<lambda>_ _. Inl ErrNotLeader) demo_json 9 demo_link (\<lambda>_. Inl ErrNotLeader) demo_worker demo_assigning req))
      demo_worker_daemon)) = Inr [CloneSandbox (with_defaults demo_sandbox)]"
proof -
  have sbs: "listSandboxesByNode (rnFsm (cnRaft demo_assigning)) (mtNodeID demo_material) = [demo_sandbox]"
    by code_simp
  have n: "GetNode (cnRaft demo_assigning) (mtNodeID demo_material) = Inr (zero_node\<lparr>nID := ''n1'', nRole := RoleWorker\<rparr>)"
    by code_simp
  show ?thesis
  proof (rule heartbeat_syncs_assignments [THEN conjunct2, of demo_worker_daemon demo_material demo_assigning demo_worker _ "\<lambda>_ _. Inl ErrNotLeader"
        demo_json demo_host demo_id_codec 9 demo_link "\<lambda>_. Inl ErrNotLeader", OF _ _ _ _ _ _ n _ _ _ prod.collapse [symmetric], unfolded sbs, simplified])
    show "node_material demo_worker_daemon = Some demo_material" "leader_raft demo_worker_daemon = None"
      by (simp_all add: demo_worker_daemon_def node_material_def leader_raft_def)
    show "mtNodeID demo_material \<noteq> []" by (simp add: demo_material_def)
    show "managerDialAddrs demo_worker_daemon \<noteq> []" by (simp add: demo_worker_daemon_addrs)
    show "IsLeader (cnRaft demo_assigning)" by (simp add: demo_assigning_def demo_raft_def IsLeader_def)
    show "peerCertificate demo_worker = Some (worker_cert (mtNodeID demo_material))"
      by (simp add: peerCertificate_def demo_worker_def worker_cert_def demo_material_def)
    show "RoleWorker = mtRole demo_material" by (simp add: demo_material_def)
    show "wire_sandbox demo_json demo_sandbox"
      by (simp add: wire_sandbox_def demo_json_def demo_sandbox_def json_keeps_spec_def json_keeps_labels_def
          wire_status_def zero_status_def wire_time_demo)
  qed (simp add: demo_assigning_saves)
qed

section \<open>Creating\<close>

text \<open>
  On the leader a sandbox is created only where something can run it: without a live
  node and without a driver of its own the local call is refused with the reason the runtime gave,
  and nothing is written.
\<close>

theorem create_needs_runtime:
  assumes "leader_raft d = Some raft" and "dnQuarantine d = Some q" and "\<not> dnDriver d"
    and "\<forall>n \<in> set (listNodes (rnFsm raft)). \<not> IsNodeLive n now"
  shows "daemon_SandboxCreate load json rand now ctx remote req d =
    (d, Inl (case dnRuntimeErr d of
               Some e \<Rightarrow> StatusError FailedPrecondition e
             | None \<Rightarrow> status_error FailedPrecondition ''no node with a live sandbox runtime''))"
proof -
  have "dnRaft d = Some raft" using assms(1) by (auto simp: leader_raft_def split: option.splits if_splits)
  moreover have "\<not> list_ex (\<lambda>n. IsNodeLive n now) (listNodes (rnFsm raft))"
    using assms(4) by (simp add: list_ex_iff)
  ultimately show ?thesis
    using assms(1-3) by (simp add: daemon_SandboxCreate_def on_leader_def ensureSandboxCreateRuntime_def ListNodes_def
        put_control_def split: option.split)
qed

lemma demo_api_leader_nodes: "listNodes (rnFsm (cnRaft (demo_control True))) = []"
  by code_simp

theorem create_needs_runtime_witness:
  "daemon_SandboxCreate (\<lambda>_ _. Inl ErrNotLeader) demo_json (Inr ''k'') 9 demo_worker (\<lambda>_. Inl ErrNotLeader) undefined demo_api_leader =
    (demo_api_leader, Inl (status_error FailedPrecondition ''no node with a live sandbox runtime''))"
proof -
  have "leader_raft demo_api_leader = Some (cnRaft (demo_control True))"
    by (simp add: leader_raft_def demo_api_leader_def demo_control_simps)
  moreover have "dnQuarantine demo_api_leader = Some NewQuarantine" "\<not> dnDriver demo_api_leader" "dnRuntimeErr demo_api_leader = None"
    by (simp_all add: demo_api_leader_def demo_worker_daemon_def)
  ultimately show ?thesis
    using create_needs_runtime [of demo_api_leader "cnRaft (demo_control True)" NewQuarantine] demo_api_leader_nodes by simp
qed

end
