(* ===== verification/Spec2Isabelle.thy ===== *)
theory Spec2Isabelle
  imports Api_Key Ca_Control Ca_Material Cellar_Errors Cellar_Prelude Cli_Commands Cli_Lists Cli_Sessions Cluster_Entry Cluster_Node Cluster_Object Control_Access Daemon_Invariants Daemon_Lifecycle Daemon_Run Daemon_State Eviction_Pass Fsm_Invariants Fsm_Replication Fsm_Snapshot Gateway_Files Gateway_Http Gateway_Routes Gateway_Upstream Go_Text Hex_Codec Identity_Store Join_Token Local_Control Manager_Dial Node_Admin Node_Clients Placement Program_Mains Raft_Commands Raft_Fsm Raft_Open Raft_Store Remote_Calls Renewal Runtime_Agent Runtime_Driver Runtime_Server Sandbox_Api Sandbox_Control Sandbox_Record Sandbox_Spec Spec_Json Spec_Ops Store_Contract Vacate Volume_Control Worker_Contract Worker_Daemon
begin

text \<open>
  A model of cellar, a control plane for sandboxes (micro virtual machines) on a cluster of
  nodes, translated from its Go sources under \<open>src/internal\<close>, with the theorems that make it
  correct.

  \<^bold>\<open>The program.\<close> Managers replicate one state machine through Raft: the cluster object with the
  certificate authority, node records, sandboxes, volumes, API keys and the peers' addresses.
  The leader serves the control services over it. Workers join with a token, heartbeat, get
  the sandboxes assigned to them, run them, and report their status. An eviction pass on the
  leader moves running sandboxes off nodes that left, went silent or drain, and each move
  raises an assignment generation that fences the reports of the old node.

  \<^bold>\<open>The theories\<close>, in the order in which they build on each other:
  \<^item> \<open>Cellar_Prelude\<close>: Go maps as association lists without duplicate keys (their order is the
    iteration order), strings as bytes, times and durations in nanoseconds with the bounds of
    \<open>int64\<close>. \<open>Cellar_Errors\<close>: errors as values, wrapped errors, gRPC status codes.
    \<open>Hex_Codec\<close>: \<open>encoding/hex\<close>.
  \<^item> \<open>Cluster_Node\<close> (\<open>node/node.go\<close>), \<open>Join_Token\<close> (\<open>token/token.go\<close>), \<open>Api_Key\<close>
    (\<open>apikey/apikey.go\<close>): roles, node records, join tokens and API keys.
  \<^item> \<open>Sandbox_Spec\<close>, \<open>Spec_Ops\<close>, \<open>Spec_Json\<close>, \<open>Sandbox_Record\<close> (\<open>sandbox/sandbox.go\<close>,
    \<open>proto.go\<close>, \<open>volume.go\<close>): the spec of a sandbox, its validation (equivalent to a declarative
    predicate), normalization and redaction, the custom JSON codecs, the records and their
    protobuf images.
  \<^item> \<open>Placement\<close> (\<open>scheduler/scheduler.go\<close>, \<open>quarantine.go\<close>) and \<open>Vacate\<close>
    (\<open>scheduler/evict.go\<close>): where a sandbox goes, and which must move.
  \<^item> \<open>Cluster_Object\<close> (\<open>store/store.go\<close>), \<open>Raft_Commands\<close>, \<open>Raft_Fsm\<close>, \<open>Fsm_Invariants\<close>,
    \<open>Fsm_Snapshot\<close>, \<open>Fsm_Replication\<close> (\<open>raftstore/commands.go\<close>, \<open>fsm.go\<close>): the replicated state
    machine, every operation on every branch; its tables are keyed and its name index sound in
    every reachable state (\<open>replica\<close>); replicas agree; snapshots restore the state.
  \<^item> \<open>Raft_Store\<close>, \<open>Store_Contract\<close> (\<open>raftstore/store.go\<close>): the store that the services use, over
    the answers of the Raft library; the locale \<open>record_store\<close> states its contract once, and is
    interpreted on the four tables.
  \<^item> \<open>Control_Access\<close>, \<open>Sandbox_Control\<close>, \<open>Volume_Control\<close>, \<open>Ca_Material\<close>, \<open>Ca_Control\<close>
    (\<open>grpcapi\<close>, \<open>ca/ca.go\<close>): who may call what, and the handlers of the control services.
  \<^item> \<open>Node_Admin\<close>, \<open>Eviction_Pass\<close> (\<open>daemon/node.go\<close>, \<open>daemon/evict.go\<close>): node management and the
    eviction pass, with the property that spans scheduler, store and status service.
  \<^item> \<open>Runtime_Agent\<close> (\<open>runtime/agent.go\<close>): the reconciler of a worker.

  \<^item> \<open>Identity_Store\<close> (\<open>identity/identity.go\<close>): the files of a node's identity, replaced one by one
    through temporary files, and what the next process loads from them after any failure.
  \<^item> \<open>Renewal\<close> (\<open>renew/renew.go\<close>): when a certificate is renewed, with Go's \<open>float64\<close> computed
    exactly on rationals. \<open>Raft_Open\<close> (\<open>raftstore/store.go\<close>): opening, closing and the waits, whose
    polls are a list that ends at the deadline. \<open>Node_Clients\<close> (\<open>grpcapi/client.go\<close>, the TLS part of
    \<open>ca.go\<close>, \<open>node.go\<close>): the calls a node makes before and after it is a member.
  \<^item> \<open>Daemon_State\<close>, \<open>Manager_Dial\<close>, \<open>Daemon_Lifecycle\<close>, \<open>Worker_Daemon\<close>, \<open>Sandbox_Api\<close>
    (\<open>daemon/daemon.go\<close>, \<open>manager_dial.go\<close>, \<open>role.go\<close>, \<open>sandbox.go\<close>, \<open>apikey.go\<close>,
    \<open>grpcapi/sandbox_api.go\<close>): the node's process: start, \<open>Init\<close>, \<open>Join\<close>, \<open>Leave\<close>, role changes,
    heartbeats, reports, and which process answers a call. \<open>Daemon_Invariants\<close> runs all of them as
    a step relation in which the network, the disk and the cluster may answer anything;
    \<open>Cluster_Entry\<close> states what entering and leaving a cluster establish and what their failures
    leave behind; \<open>Worker_Contract\<close> states what a working node and its leader owe each other.

  \<^item> \<open>Go_Text\<close>, \<open>Gateway_Upstream\<close>, \<open>Gateway_Http\<close>, \<open>Gateway_Files\<close>, \<open>Gateway_Routes\<close>
    (\<open>gateway/config.go\<close>, \<open>upstream.go\<close>, \<open>errors.go\<close>, \<open>handlers.go\<close>, \<open>handlers_fs.go\<close>, \<open>server.go\<close>): the HTTP
    gateway. \<open>Gateway_Upstream\<close> is its pool of managers: fail-over finds the first that answers, and
    no node is reached without a manager that accepted the caller's key. \<open>Gateway_Http\<close> has the
    sandbox handlers and the wait for a sandbox that starts, a partial function that is shown to
    end; \<open>Gateway_Files\<close> the volume handlers and the streams; \<open>Gateway_Routes\<close> puts them together:
    every route asks for a key, what is granted was accepted by a manager, every request ends.
  \<^item> \<open>Runtime_Driver\<close> (\<open>runtime/msb.go\<close>), \<open>Runtime_Server\<close> (\<open>grpcapi/runtime_server.go\<close>): what a
    spec becomes on a node, which handles the driver keeps, and the calls on files, logs and the
    relay; which host paths they touch, and that a file put through the gateway is read back.
  \<^item> \<open>Remote_Calls\<close> (\<open>grpcapi/sandbox_client.go\<close>, the log calls of \<open>daemon/sandbox.go\<close> and
    \<open>sandbox_api.go\<close>): the calls between nodes over mutual TLS, and a log's way from a node's runtime
    over a manager to the gateway's client. \<open>Cli_Lists\<close>, \<open>Cli_Commands\<close> (\<open>cmd\<close>, \<open>version/version.go\<close>):
    the command line, its requests, output and exit, and that it means by a node's prefix what the
    daemon means.
  \<^item> \<open>Local_Control\<close> (\<open>controlServer\<close> of \<open>daemon/daemon.go\<close>) puts the daemon behind the commands: the
    locale \<open>control_service\<close> states what a command needs of the service, and is interpreted on the
    daemon's own operations. \<open>Cli_Sessions\<close> follows whole sessions: a cluster formed and joined from
    the command line, and the life of a printed API key. \<open>Daemon_Run\<close> is a run of \<open>cellard\<close> from
    start to shutdown, its calls and its loops' ticks in any order (\<open>heartbeatLoop\<close>, \<open>renewLoop\<close>,
    \<open>evictionLoop\<close>, \<open>runtime.Agent.Run\<close>): what it leaves behind, and that a restart resumes the node.
    \<open>Program_Mains\<close> has the main functions of \<open>cellard\<close> and \<open>cellar-gateway\<close>, their exit status, and
    how commands, daemon and gateway on one machine find each other.

  \<^bold>\<open>Conventions.\<close> A Go struct is a record with a short prefix on its fields, a slice a list (nil
  and empty are one value), an optional scalar an option, a fallible function a sum with the
  error on the left. A function keeps its Go name; where two packages use one name, a prefix
  tells them apart (\<open>ctl_Create\<close>, \<open>node_NewID\<close>). Outside the repository, and so arguments of the
  definitions that use them: the clock, random bytes, SHA-256, \<open>encoding/json\<close> on nested values,
  \<open>crypto/x509\<close>, the answers of the Raft library, and what a remote manager or the microsandbox
  driver answers. Loops are structural recursion or folds, so definitions are total and none has
  a fuel bound; the one loop that polls until a deadline, \<open>wait_loop\<close>, is a partial function.

  \<^bold>\<open>Not modelled.\<close> A handler, and an operation of the daemon, is one atomic step: interleavings
  of two handlers of one process between a read and the following write are not considered.
  Goroutines appear as the list of loops that were started, and their ticks as events between
  operations; grace periods and log output are left out, and so is the generated protobuf code. Matching a
  request's path against the gateway's routes, splitting a command line into flags, aligning its
  tables, web socket framing and TLS are the libraries': the driver's and the operating system's
  answers are inputs, a remote answer is an argument.
\<close>

end
